(* ===== verification/C2c_Prelude.thy ===== *)
theory C2c_Prelude
  imports Main "HOL-Library.AList"
begin

text \<open>
  What every component shares: the JavaScript values and containers that the TypeScript sources
  use, with the generic lemmas about them.

  \<^item> A JavaScript \<open>Map\<close> (and an object used as a dictionary) iterates in insertion order and keeps
    the position of a key that is set again.  It is an association list with distinct keys, set by
    \<open>AList.update\<close> and deleted from by \<open>AList.delete\<close>.
  \<^item> An array read \<open>xs[i]\<close> out of range is \<open>undefined\<close>: \<open>js_at\<close> returns an option.
  \<^item> The nullish operators \<open>??\<close> and \<open>?.\<close> work on options: \<open>null\<close> and \<open>undefined\<close> are both
    \<open>None\<close> where the source does not tell them apart.
  \<^item> A thrown exception is the left injection of a sum.
  \<^item> Strings are lists of characters.  JavaScript counts UTF-16 code units; the model's strings
    hold the code units below 256, and no definition depends on that bound.
\<close>

named_theorems js_map \<open>lookups, key sets and sizes of insertion-ordered maps\<close>

type_synonym ('k, 'v) js_map = "('k \<times> 'v) list"

abbreviation js_set :: "'k \<Rightarrow> 'v \<Rightarrow> ('k, 'v) js_map \<Rightarrow> ('k, 'v) js_map" where
  "js_set \<equiv> AList.update"

abbreviation js_delete :: "'k \<Rightarrow> ('k, 'v) js_map \<Rightarrow> ('k, 'v) js_map" where
  "js_delete \<equiv> AList.delete"

abbreviation js_get :: "('k, 'v) js_map \<Rightarrow> 'k \<Rightarrow> 'v option" where
  "js_get \<equiv> map_of"

abbreviation js_keys :: "('k, 'v) js_map \<Rightarrow> 'k list" where
  "js_keys m \<equiv> map fst m"

abbreviation js_map_ok :: "('k, 'v) js_map \<Rightarrow> bool" where
  "js_map_ok m \<equiv> distinct (js_keys m)"

section \<open>Maps\<close>

lemma js_get_set [js_map, simp]: "js_get (js_set k v m) k' = (if k = k' then Some v else js_get m k')"
  by (simp add: update_conv')

lemma js_get_delete [js_map, simp]: "js_get (js_delete k m) k' = (if k = k' then None else js_get m k')"
  by (simp add: delete_conv')

lemma js_map_ok_set [js_map, intro]: "js_map_ok m \<Longrightarrow> js_map_ok (js_set k v m)"
  by (rule distinct_update)

lemma js_map_ok_delete [js_map, intro]: "js_map_ok m \<Longrightarrow> js_map_ok (js_delete k m)"
  by (rule distinct_delete)

lemma js_keys_set [js_map]:
  "js_keys (js_set k v m) = (if k \<in> set (js_keys m) then js_keys m else js_keys m @ [k])"
  by (induction m) auto

lemma length_js_set [js_map]:
  "length (js_set k v m) = (if js_get m k = None then Suc (length m) else length m)"
  by (induction m) (auto split: if_splits)

lemma length_js_delete_le [js_map]: "length (js_delete k m) \<le> length m"
  by (simp add: AList.delete_eq)

lemma js_delete_head [js_map]: "js_map_ok ((k, v) # m) \<Longrightarrow> js_delete k ((k, v) # m) = m"
  by (induction m) (auto simp: AList.delete_eq)

lemma js_get_None_iff [js_map]: "js_get m k = None \<longleftrightarrow> k \<notin> set (js_keys m)"
  by (simp add: map_of_eq_None_iff image_iff)

lemma js_get_in [js_map]: "js_get m k = Some v \<Longrightarrow> (k, v) \<in> set m"
  by (rule map_of_SomeD)

lemma js_get_iff [js_map]: "js_map_ok m \<Longrightarrow> js_get m k = Some v \<longleftrightarrow> (k, v) \<in> set m"
  by auto

lemma set_js_delete [js_map]: "set (js_delete k m) = {p \<in> set m. fst p \<noteq> k}"
  by (auto simp: AList.delete_eq)

lemma set_js_set_subset [js_map]: "set (js_set k v m) \<subseteq> insert (k, v) (set m)"
  by (induction m) auto

section \<open>Arrays and options\<close>

text \<open>\<open>xs[i]\<close>: \<open>None\<close> stands for \<open>undefined\<close>.\<close>

definition js_at :: "'a list \<Rightarrow> int \<Rightarrow> 'a option" where
  "js_at xs i = (if 0 \<le> i \<and> i < int (length xs) then Some (xs ! nat i) else None)"

lemma js_at_in [simp]: "0 \<le> i \<Longrightarrow> i < int (length xs) \<Longrightarrow> js_at xs i = Some (xs ! nat i)"
  by (simp add: js_at_def)

lemma js_at_None_iff: "js_at xs i = None \<longleftrightarrow> i < 0 \<or> int (length xs) \<le> i"
  by (auto simp: js_at_def)

text \<open>\<open>a ?? b\<close> on two nullable values and on a nullable value with a default.\<close>

fun or_else :: "'a option \<Rightarrow> 'a option \<Rightarrow> 'a option" where
  "or_else (Some x) _ = Some x"
| "or_else None y = y"

fun or_default :: "'a option \<Rightarrow> 'a \<Rightarrow> 'a" where
  "or_default (Some x) _ = x"
| "or_default None d = d"

lemma or_else_None_iff [simp]: "or_else x y = None \<longleftrightarrow> x = None \<and> y = None"
  by (cases x) auto

lemma or_else_None2 [simp]: "or_else x None = x"
  by (cases x) auto

end
