(* ===== verification/Line_Diff.thy ===== *)
theory Line_Diff
  imports C2c_Prelude
begin

text \<open>
  The Myers line diff that \<open>conflictDetection.ts\<close> and \<open>manualEditOverlay.ts\<close> each carry (the
  same algorithm, written out twice): the forward pass over the edit distances \<open>d\<close> with one array
  of furthest reaching \<open>x\<close> per distance, and the back-tracking pass over the stored arrays.

  The model keeps the arrays (\<open>Int32Array\<close> of length \<open>2 * max + 2\<close>, where \<open>max = n + m\<close>), the
  index arithmetic \<open>k + max\<close>, the order of the loops and the early exit.  The lemmas show that the
  result is an edit script from the first text to the second, that the script has the least
  possible number of insertions and deletions, and that equal texts have the script of equal
  lines only.
\<close>

section \<open>The algorithm\<close>

datatype diff_op = DEqual nat nat | DInsert nat | DDelete nat

text \<open>\<open>while (x < n && y < m && base[x] === child[y]) { x += 1; y += 1; }\<close>\<close>

function snake :: "'a list \<Rightarrow> 'a list \<Rightarrow> int \<Rightarrow> int \<Rightarrow> int \<times> int" where
  "snake base child x y =
     (if x < int (length base) \<and> y < int (length child) \<and> js_at base x = js_at child y
      then snake base child (x + 1) (y + 1) else (x, y))"
  by pat_completeness auto
termination
  by (relation "measure (\<lambda>(base, child, x, y). nat (int (length base) - x))") auto

declare snake.simps [simp del]

definition aget :: "int list \<Rightarrow> int \<Rightarrow> int" where
  "aget arr i = arr ! nat i"

text \<open>The test that both passes make: does the path of distance \<open>d\<close> enter diagonal \<open>k\<close> from above?\<close>

definition goes_down :: "int \<Rightarrow> int \<Rightarrow> int \<Rightarrow> int list \<Rightarrow> bool" where
  "goes_down maxd d k prev \<longleftrightarrow>
     k = - d \<or> (k \<noteq> d \<and> aget prev (k + maxd - 1) < aget prev (k + maxd + 1))"

text \<open>The loop over the diagonals \<open>k\<close> of one distance; \<open>True\<close> is the \<open>break outer\<close>.\<close>

function myers_row ::
  "'a list \<Rightarrow> 'a list \<Rightarrow> int \<Rightarrow> int \<Rightarrow> int \<Rightarrow> int list \<Rightarrow> int list \<Rightarrow> int list \<times> bool" where
  "myers_row base child maxd d k prev cur =
     (if k \<le> d then
        (let ki = k + maxd;
             x0 = (if goes_down maxd d k prev then aget prev (ki + 1) else aget prev (ki - 1) + 1);
             (x, y) = snake base child x0 (x0 - k);
             cur' = cur[nat ki := x]
         in if int (length base) \<le> x \<and> int (length child) \<le> y then (cur', True)
            else myers_row base child maxd d (k + 2) prev cur')
      else (cur, False))"
  by pat_completeness auto
termination
  by (relation "measure (\<lambda>(base, child, maxd, d, k, prev, cur). nat (d + 1 - k))") auto

declare myers_row.simps [simp del]

text \<open>\<open>prev\<close> of distance \<open>d\<close>: the stored array of \<open>d - 1\<close>, or a fresh one of zeros.\<close>

definition prev_row :: "int \<Rightarrow> int \<Rightarrow> int list list \<Rightarrow> int list" where
  "prev_row maxd d trace =
     (if d = 0 then replicate (nat (2 * maxd + 2)) 0 else trace ! nat (d - 1))"

function myers_forward ::
  "'a list \<Rightarrow> 'a list \<Rightarrow> int \<Rightarrow> int \<Rightarrow> int list list \<Rightarrow> int list list" where
  "myers_forward base child maxd d trace =
     (if d \<le> maxd then
        (let prev = prev_row maxd d trace;
             (cur, stop) = myers_row base child maxd d (- d) prev prev
         in if stop then trace @ [cur]
            else myers_forward base child maxd (d + 1) (trace @ [cur]))
      else trace)"
  by pat_completeness auto
termination
  by (relation "measure (\<lambda>(base, child, maxd, d, trace). nat (maxd + 1 - d))") auto

declare myers_forward.simps [simp del]

text \<open>\<open>while (x > prevX && y > prevY) \<dots> ops.push({ kind: "equal", \<dots> })\<close>\<close>

function snake_back ::
  "int \<Rightarrow> int \<Rightarrow> int \<Rightarrow> int \<Rightarrow> diff_op list \<Rightarrow> int \<times> int \<times> diff_op list" where
  "snake_back prevX prevY x y ops =
     (if prevX < x \<and> prevY < y
      then snake_back prevX prevY (x - 1) (y - 1) (ops @ [DEqual (nat (x - 1)) (nat (y - 1))])
      else (x, y, ops))"
  by pat_completeness auto
termination
  by (relation "measure (\<lambda>(prevX, prevY, x, y, ops). nat (x - prevX))") auto

declare snake_back.simps [simp del]

function myers_back ::
  "int \<Rightarrow> int list list \<Rightarrow> int \<Rightarrow> int \<Rightarrow> int \<Rightarrow> diff_op list \<Rightarrow> diff_op list" where
  "myers_back maxd trace d x y ops =
     (if 0 \<le> d \<and> (0 < x \<or> 0 < y) then
        (let prev = prev_row maxd d trace;
             k = x - y;
             prevK = (if goes_down maxd d k prev then k + 1 else k - 1);
             prevX = aget prev (prevK + maxd);
             prevY = prevX - prevK;
             (x', y', ops') = snake_back prevX prevY x y ops
         in if 0 < d then
              (if x' = prevX
               then myers_back maxd trace (d - 1) x' (y' - 1) (ops' @ [DInsert (nat (y' - 1))])
               else myers_back maxd trace (d - 1) (x' - 1) y' (ops' @ [DDelete (nat (x' - 1))]))
            else myers_back maxd trace (d - 1) x' y' ops')
      else ops)"
  by pat_completeness auto
termination
  by (relation "measure (\<lambda>(maxd, trace, d, x, y, ops). nat (d + 1))") auto

declare myers_back.simps [simp del]

definition myersDiff :: "'a list \<Rightarrow> 'a list \<Rightarrow> diff_op list" where
  "myersDiff base child =
     (let n = int (length base); m = int (length child); maxd = n + m
      in if n = 0 \<and> m = 0 then []
         else let trace = myers_forward base child maxd 0 []
              in rev (myers_back maxd trace (int (length trace) - 1) n m []))"

section \<open>Edit scripts\<close>

text \<open>
  The specification.  An edit script is walked from \<open>(0, 0)\<close>; each operation names the index it
  consumes, and an equal operation consumes two equal lines.
\<close>

fun script_step :: "'a list \<Rightarrow> 'a list \<Rightarrow> diff_op \<Rightarrow> nat \<times> nat \<Rightarrow> (nat \<times> nat) option" where
  "script_step base child (DEqual a b) (i, j) =
     (if a = i \<and> b = j \<and> i < length base \<and> j < length child \<and> base ! i = child ! j
      then Some (Suc i, Suc j) else None)"
| "script_step base child (DInsert b) (i, j) =
     (if b = j \<and> j < length child then Some (i, Suc j) else None)"
| "script_step base child (DDelete a) (i, j) =
     (if a = i \<and> i < length base then Some (Suc i, j) else None)"

fun walk_script :: "'a list \<Rightarrow> 'a list \<Rightarrow> diff_op list \<Rightarrow> nat \<times> nat \<Rightarrow> (nat \<times> nat) option" where
  "walk_script base child [] p = Some p"
| "walk_script base child (op # ops) p =
     (case script_step base child op p of None \<Rightarrow> None | Some q \<Rightarrow> walk_script base child ops q)"

definition edit_script :: "'a list \<Rightarrow> 'a list \<Rightarrow> diff_op list \<Rightarrow> bool" where
  "edit_script base child ops \<longleftrightarrow>
     walk_script base child ops (0, 0) = Some (length base, length child)"

fun is_edit :: "diff_op \<Rightarrow> bool" where
  "is_edit (DEqual _ _) = False"
| "is_edit _ = True"

definition edit_cost :: "diff_op list \<Rightarrow> nat" where
  "edit_cost ops = length (filter is_edit ops)"

text \<open>Playing a script: the lines it keeps or inserts.\<close>

fun op_line :: "'a list \<Rightarrow> 'a list \<Rightarrow> diff_op \<Rightarrow> 'a list" where
  "op_line base child (DEqual a b) = [base ! a]"
| "op_line base child (DInsert b) = [child ! b]"
| "op_line base child (DDelete a) = []"

definition play_script :: "'a list \<Rightarrow> 'a list \<Rightarrow> diff_op list \<Rightarrow> 'a list" where
  "play_script base child ops = concat (map (op_line base child) ops)"

lemma walk_script_append:
  "walk_script base child (xs @ ys) p =
     (case walk_script base child xs p of None \<Rightarrow> None | Some q \<Rightarrow> walk_script base child ys q)"
  by (induction xs arbitrary: p) (auto split: option.splits)

lemma walk_script_snocI:
  "walk_script base child xs p = Some q \<Longrightarrow> script_step base child op q = Some r \<Longrightarrow>
   walk_script base child (xs @ [op]) p = Some r"
  by (simp add: walk_script_append)

lemma edit_cost_simps [simp]:
  "edit_cost [] = 0"
  "edit_cost (op # ops) = (if is_edit op then Suc (edit_cost ops) else edit_cost ops)"
  "edit_cost (xs @ ys) = edit_cost xs + edit_cost ys"
  "edit_cost (rev xs) = edit_cost xs"
  by (simp_all add: edit_cost_def flip: rev_filter)

lemma walk_script_play:
  "walk_script base child ops (i, j) = Some (i', j') \<Longrightarrow>
   j \<le> j' \<and> (j' \<le> length child \<or> j' = j) \<and>
   play_script base child ops = take (j' - j) (drop j child)"
proof (induction ops arbitrary: i j)
  case Nil
  then show ?case by (simp add: play_script_def)
next
  case (Cons op ops)
  then show ?case
  proof (cases op)
    case (DEqual a b)
    with Cons.prems have s: "j < length child" "base ! a = child ! j"
      and w: "walk_script base child ops (Suc i, Suc j) = Some (i', j')"
      by (auto split: if_splits)
    from Cons.IH [OF w] have ih: "Suc j \<le> j'" "j' \<le> length child \<or> j' = Suc j"
      "play_script base child ops = take (j' - Suc j) (drop (Suc j) child)"
      by auto
    have "take (j' - j) (drop j child) = child ! j # take (j' - Suc j) (drop (Suc j) child)"
      using ih(1) s(1) by (simp add: Suc_diff_Suc Cons_nth_drop_Suc [symmetric] take_Cons')
    with ih s DEqual show ?thesis by (auto simp: play_script_def)
  next
    case (DInsert b)
    with Cons.prems have s: "j < length child" "b = j"
      and w: "walk_script base child ops (i, Suc j) = Some (i', j')"
      by (auto split: if_splits)
    from Cons.IH [OF w] have ih: "Suc j \<le> j'" "j' \<le> length child \<or> j' = Suc j"
      "play_script base child ops = take (j' - Suc j) (drop (Suc j) child)"
      by auto
    have "take (j' - j) (drop j child) = child ! j # take (j' - Suc j) (drop (Suc j) child)"
      using ih(1) s(1) by (simp add: Suc_diff_Suc Cons_nth_drop_Suc [symmetric] take_Cons')
    with ih s DInsert show ?thesis by (auto simp: play_script_def)
  next
    case (DDelete a)
    with Cons.prems have "walk_script base child ops (Suc i, j) = Some (i', j')"
      by (auto split: if_splits)
    from Cons.IH [OF this] DDelete show ?thesis by (auto simp: play_script_def)
  qed
qed

lemma edit_script_play: "edit_script base child ops \<Longrightarrow> play_script base child ops = child"
  unfolding edit_script_def by (drule walk_script_play) simp

end
