(* ===== verification/Edit_Graph.thy ===== *)
theory Edit_Graph
  imports Line_Diff
begin

text \<open>
  The edit graph of two texts and the furthest reaching points on its diagonals: the mathematics
  behind the arrays of \<open>myersDiff\<close>.  A path of distance \<open>d\<close> from the origin has \<open>d\<close> horizontal
  (deletion) or vertical (insertion) edges; diagonal edges join equal lines.  Paths may leave the
  rectangle of the two texts, as the points of the algorithm do; leaving it costs edges.
\<close>

section \<open>Paths\<close>

inductive dpath :: "'a list \<Rightarrow> 'a list \<Rightarrow> nat \<Rightarrow> int \<Rightarrow> int \<Rightarrow> bool" for base child where
  origin: "dpath base child 0 0 0"
| diag: "dpath base child d x y \<Longrightarrow> x < int (length base) \<Longrightarrow> y < int (length child) \<Longrightarrow>
     js_at base x = js_at child y \<Longrightarrow> dpath base child d (x + 1) (y + 1)"
| right: "dpath base child d x y \<Longrightarrow> dpath base child (Suc d) (x + 1) y"
| down: "dpath base child d x y \<Longrightarrow> dpath base child (Suc d) x (y + 1)"

lemma dpath_nonneg: "dpath base child d x y \<Longrightarrow> 0 \<le> x \<and> 0 \<le> y"
  by (induction rule: dpath.induct) auto

lemma dpath_diagonal: "dpath base child d x y \<Longrightarrow> \<bar>x - y\<bar> \<le> int d \<and> even (int d + (x - y))"
  by (induction rule: dpath.induct) auto

text \<open>A path that leaves the rectangle has paid for it.\<close>

lemma dpath_clamp:
  assumes "dpath base child d x y"
  defines "n \<equiv> int (length base)" and "m \<equiv> int (length child)"
  shows "\<exists>d'. int d' + max 0 (x - n) + max 0 (y - m) = int d \<and>
    dpath base child d' (min x n) (min y m)"
  using assms(1)
proof (induction rule: dpath.induct)
  case origin
  have "dpath base child 0 (min 0 n) (min 0 m)"
    by (simp add: n_def m_def dpath.origin)
  then show ?case by (intro exI [of _ 0]) (simp add: n_def m_def)
next
  case (diag d x y)
  then obtain d' where d': "int d' + max 0 (x - n) + max 0 (y - m) = int d"
    "dpath base child d' (min x n) (min y m)" by blast
  with diag.hyps have "dpath base child d' (x + 1) (y + 1)"
    by (auto simp: n_def m_def intro: dpath.diag)
  with d' diag.hyps show ?case by (intro exI [of _ d']) (simp add: n_def m_def min_def max_def)
next
  case (right d x y)
  then obtain d' where d': "int d' + max 0 (x - n) + max 0 (y - m) = int d"
    "dpath base child d' (min x n) (min y m)" by blast
  show ?case
  proof (cases "x < n")
    case True
    with d' have "dpath base child (Suc d') (min (x + 1) n) (min y m)"
      using dpath.right [of base child d' x "min y m"] by simp
    with True d' show ?thesis by (intro exI [of _ "Suc d'"]) auto
  next
    case False
    with d' show ?thesis by (intro exI [of _ d']) auto
  qed
next
  case (down d x y)
  then obtain d' where d': "int d' + max 0 (x - n) + max 0 (y - m) = int d"
    "dpath base child d' (min x n) (min y m)" by blast
  show ?case
  proof (cases "y < m")
    case True
    with d' have "dpath base child (Suc d') (min x n) (min (y + 1) m)"
      using dpath.down [of base child d' "min x n" y] by simp
    with True d' show ?thesis by (intro exI [of _ "Suc d'"]) auto
  next
    case False
    with d' show ?thesis by (intro exI [of _ d']) auto
  qed
qed

text \<open>The path that deletes every line and then inserts every line.\<close>

lemma dpath_rights: "dpath base child r (int r) 0"
proof (induction r)
  case 0
  show ?case by (simp add: dpath.origin)
next
  case (Suc r)
  from dpath.right [OF this] show ?case by (simp add: add.commute)
qed

lemma dpath_downs: "dpath base child r x y \<Longrightarrow> dpath base child (r + s) x (y + int s)"
proof (induction s)
  case 0
  then show ?case by simp
next
  case (Suc s)
  from dpath.down [OF Suc.IH [OF Suc.prems]] show ?case by (simp add: add.commute add.left_commute)
qed

lemma dpath_total:
  "dpath base child (length base + length child) (int (length base)) (int (length child))"
  using dpath_downs [OF dpath_rights [of base child "length base"], of "length child"] by simp

section \<open>Snakes\<close>

lemma snake_diagonal: "snake base child x y = (x', y') \<Longrightarrow> x \<le> x' \<and> x' - y' = x - y"
proof (induction base child x y rule: snake.induct)
  case (1 base child x y)
  then show ?case by (auto simp: snake.simps [of base child x y] split: if_splits)
qed

lemma snake_stops:
  "snake base child x y = (x', y') \<Longrightarrow>
   \<not> (x' < int (length base) \<and> y' < int (length child) \<and> js_at base x' = js_at child y')"
proof (induction base child x y rule: snake.induct)
  case (1 base child x y)
  then show ?case by (auto simp: snake.simps [of base child x y] split: if_splits)
qed

lemma snake_within:
  "snake base child x y = (x', y') \<Longrightarrow> x' = x \<and> y' = y \<or> x' \<le> int (length base) \<and> y' \<le> int (length child)"
proof (induction base child x y rule: snake.induct)
  case (1 base child x y)
  then show ?case by (auto simp: snake.simps [of base child x y] split: if_splits)
qed

lemma snake_dpath:
  "snake base child x y = (x', y') \<Longrightarrow> dpath base child d x y \<Longrightarrow> dpath base child d x' y'"
proof (induction base child x y rule: snake.induct)
  case (1 base child x y)
  then show ?case by (auto simp: snake.simps [of base child x y] intro: dpath.diag split: if_splits)
qed

lemma snake_step:
  "x < fst (snake base child x0 y0) \<Longrightarrow> x0 \<le> x \<Longrightarrow>
   x < int (length base) \<and> x - (x0 - y0) < int (length child) \<and>
   js_at base x = js_at child (x - (x0 - y0))"
proof (induction base child x0 y0 rule: snake.induct)
  case (1 base child x0 y0)
  show ?case
  proof (cases "x0 < int (length base) \<and> y0 < int (length child) \<and> js_at base x0 = js_at child y0")
    case True
    show ?thesis
    proof (cases "x = x0")
      case True
      with \<open>_ \<and> _ \<and> _\<close> show ?thesis by simp
    next
      case False
      with "1.prems" True have "x < fst (snake base child (x0 + 1) (y0 + 1))" "x0 + 1 \<le> x"
        by (simp_all add: snake.simps [of base child x0 y0])
      from "1.IH" [OF True this] show ?thesis by simp
    qed
  next
    case False
    with "1.prems" show ?thesis by (simp add: snake.simps [of base child x0 y0])
  qed
qed

section \<open>Furthest reaching points\<close>

text \<open>
  \<open>fr d k\<close> is the entry that the pass of distance \<open>d\<close> stores for diagonal \<open>k\<close>.
\<close>

definition fr_down :: "(int \<Rightarrow> int) \<Rightarrow> int \<Rightarrow> int \<Rightarrow> bool" where
  "fr_down f d k \<longleftrightarrow> k = - d \<or> (k \<noteq> d \<and> f (k - 1) < f (k + 1))"

definition fr_start :: "(int \<Rightarrow> int) \<Rightarrow> int \<Rightarrow> int \<Rightarrow> int" where
  "fr_start f d k = (if fr_down f d k then f (k + 1) else f (k - 1) + 1)"

primrec fr :: "'a list \<Rightarrow> 'a list \<Rightarrow> nat \<Rightarrow> int \<Rightarrow> int" where
  "fr base child 0 k = fst (snake base child 0 0)"
| "fr base child (Suc d) k =
     (let x0 = fr_start (fr base child d) (int (Suc d)) k
      in fst (snake base child x0 (x0 - k)))"

abbreviation on_diag :: "nat \<Rightarrow> int \<Rightarrow> bool" where
  "on_diag d k \<equiv> \<bar>k\<bar> \<le> int d \<and> even (int d + k)"

lemma on_diag_up: "on_diag (Suc d) k \<Longrightarrow> k \<noteq> int (Suc d) \<Longrightarrow> on_diag d (k + 1)"
  by (cases "k = int d") auto

lemma on_diag_left: "on_diag (Suc d) k \<Longrightarrow> k \<noteq> - int (Suc d) \<Longrightarrow> on_diag d (k - 1)"
  by (cases "k = - int d") auto

lemma on_diag_0 [simp]: "on_diag 0 k \<longleftrightarrow> k = 0"
  by auto

lemma snake_fst: "snake base child x y = (fst (snake base child x y), fst (snake base child x y) - (x - y))"
  using snake_diagonal [of base child x y "fst (snake base child x y)" "snd (snake base child x y)"]
  by (simp add: prod_eq_iff)

lemma fr_Suc_snake:
  "snake base child (fr_start (fr base child d) (int (Suc d)) k)
     (fr_start (fr base child d) (int (Suc d)) k - k) =
   (fr base child (Suc d) k, fr base child (Suc d) k - k)"
  by (subst snake_fst) (simp add: Let_def)

lemma fr_0_snake: "snake base child 0 0 = (fr base child 0 k, fr base child 0 k)"
  by (subst snake_fst) simp

lemma fr_start_le_fr: "fr_start (fr base child d) (int (Suc d)) k \<le> fr base child (Suc d) k"
  using snake_diagonal [OF fr_Suc_snake [of base child d k]] by simp

lemma fr_stops:
  "\<not> (fr base child d k < int (length base) \<and> fr base child d k - k < int (length child) \<and>
      js_at base (fr base child d k) = js_at child (fr base child d k - k))"
  if "on_diag d k"
proof (cases d)
  case 0
  with that show ?thesis using snake_stops [OF fr_0_snake [of base child k]] by simp
next
  case (Suc e)
  show ?thesis using snake_stops [OF fr_Suc_snake [of base child e k]] unfolding Suc by simp
qed

text \<open>The stored points are on paths of their distance: the way down or right enters the diagonal.\<close>

lemma fr_dpath: "on_diag d k \<Longrightarrow> dpath base child d (fr base child d k) (fr base child d k - k)"
proof (induction d arbitrary: k)
  case 0
  then show ?case
    using snake_dpath [OF fr_0_snake [of base child k] dpath.origin] by simp
next
  case (Suc d)
  let ?f = "fr base child d"
  let ?x = "fr_start ?f (int (Suc d)) k"
  have "dpath base child (Suc d) ?x (?x - k)"
  proof (cases "fr_down ?f (int (Suc d)) k")
    case True
    then have "k \<noteq> int (Suc d)" by (auto simp: fr_down_def)
    from on_diag_up [OF Suc.prems this] have "on_diag d (k + 1)" .
    from dpath.down [OF Suc.IH [OF this]] True show ?thesis by (simp add: fr_start_def)
  next
    case False
    then have "k \<noteq> - int (Suc d)" by (auto simp: fr_down_def)
    from on_diag_left [OF Suc.prems this] have "on_diag d (k - 1)" .
    from dpath.right [OF Suc.IH [OF this]] False show ?thesis by (simp add: fr_start_def algebra_simps)
  qed
  from snake_dpath [OF fr_Suc_snake this] show ?case .
qed

text \<open>They are the furthest: every path of distance \<open>d\<close> ends at or before the point of its diagonal.\<close>

lemma fr_furthest: "dpath base child d x y \<Longrightarrow> x \<le> fr base child d (x - y)"
proof (induction rule: dpath.induct)
  case origin
  show ?case using snake_diagonal [OF fr_0_snake [of base child 0]] by simp
next
  case (diag d x y)
  have diag_xy: "on_diag d (x - y)" using dpath_diagonal [OF diag.hyps(1)] by simp
  have "x \<noteq> fr base child d (x - y)"
  proof
    assume eq: "x = fr base child d (x - y)"
    from fr_stops [OF diag_xy, of base child] diag.hyps show False by (simp add: eq [symmetric])
  qed
  with diag.IH show ?case by simp
next
  case (right d x y)
  let ?f = "fr base child d"
  have "x + 1 \<le> fr_start ?f (int (Suc d)) (x + 1 - y)"
    using right.IH dpath_diagonal [OF right.hyps]
    by (auto simp: fr_start_def fr_down_def algebra_simps)
  also have "\<dots> \<le> fr base child (Suc d) (x + 1 - y)" by (rule fr_start_le_fr)
  finally show ?case .
next
  case (down d x y)
  let ?f = "fr base child d"
  have "x \<le> fr_start ?f (int (Suc d)) (x - (y + 1))"
    using down.IH dpath_diagonal [OF down.hyps]
    by (auto simp: fr_start_def fr_down_def algebra_simps)
  also have "\<dots> \<le> fr base child (Suc d) (x - (y + 1))" by (rule fr_start_le_fr)
  finally show ?case .
qed

section \<open>The edit distance\<close>

definition edit_distance :: "'a list \<Rightarrow> 'a list \<Rightarrow> nat" where
  "edit_distance base child =
     (LEAST d. dpath base child d (int (length base)) (int (length child)))"

lemma edit_distance_dpath:
  "dpath base child (edit_distance base child) (int (length base)) (int (length child))"
  unfolding edit_distance_def by (rule LeastI [where P = "\<lambda>d. dpath base child d (int (length base)) (int (length child))", OF dpath_total])

lemma edit_distance_least:
  "dpath base child d (int (length base)) (int (length child)) \<Longrightarrow> edit_distance base child \<le> d"
  unfolding edit_distance_def by (rule Least_le)

lemma edit_distance_le: "edit_distance base child \<le> length base + length child"
  by (rule edit_distance_least [OF dpath_total])

text \<open>Reaching the far corner, or going beyond it, costs at least the edit distance.\<close>

lemma dpath_beyond:
  assumes "dpath base child d x y" "int (length base) \<le> x" "int (length child) \<le> y"
  shows "int (edit_distance base child) + (x - int (length base)) + (y - int (length child)) \<le> int d"
proof -
  from dpath_clamp [OF assms(1)] assms(2,3) obtain d' where
    d': "int d' + (x - int (length base)) + (y - int (length child)) = int d" and
    p: "dpath base child d' (int (length base)) (int (length child))"
    by (auto simp: max_def min_def split: if_splits)
  from edit_distance_least [OF p] d' show ?thesis by linarith
qed

abbreviation at_end :: "'a list \<Rightarrow> 'a list \<Rightarrow> nat \<Rightarrow> int \<Rightarrow> bool" where
  "at_end base child d k \<equiv>
     int (length base) \<le> fr base child d k \<and> int (length child) \<le> fr base child d k - k"

lemma not_at_end_before:
  assumes "d < edit_distance base child" "on_diag d k"
  shows "\<not> at_end base child d k"
  using dpath_beyond [OF fr_dpath [OF assms(2), of base child]] assms(1) by auto

lemma at_end_exact:
  assumes "d = edit_distance base child" "on_diag d k" "at_end base child d k"
  shows "fr base child d k = int (length base)" and "k = int (length base) - int (length child)"
  using dpath_beyond [OF fr_dpath [OF assms(2), of base child]] assms(1,3) by auto

lemma at_end_reached:
  fixes base child :: "'a list"
  defines "d \<equiv> edit_distance base child" and "k \<equiv> int (length base) - int (length child)"
  shows "on_diag d k" and "at_end base child d k"
proof -
  note p = edit_distance_dpath [of base child]
  show "on_diag d k" using dpath_diagonal [OF p] by (simp add: d_def k_def)
  show "at_end base child d k" using fr_furthest [OF p] by (simp add: d_def k_def)
qed

end
