(* ===== verification/Myers_Correct.thy ===== *)
theory Myers_Correct
  imports Edit_Graph
begin

text \<open>
  The arrays of \<open>myersDiff\<close> hold the furthest reaching points, the forward pass stops at the edit
  distance, and the back-tracking pass reads off a script of that cost.
\<close>

section \<open>The forward pass\<close>

definition fr_x0 :: "'a list \<Rightarrow> 'a list \<Rightarrow> nat \<Rightarrow> int \<Rightarrow> int" where
  "fr_x0 base child d k =
     (case d of 0 \<Rightarrow> 0 | Suc e \<Rightarrow> fr_start (fr base child e) (int (Suc e)) k)"

lemma fr_x0_snake:
  "on_diag d k \<Longrightarrow>
   snake base child (fr_x0 base child d k) (fr_x0 base child d k - k) =
   (fr base child d k, fr base child d k - k)"
proof (cases d)
  case 0
  assume "on_diag d k"
  with 0 show ?thesis using fr_0_snake [of base child 0] by (simp add: fr_x0_def)
next
  case (Suc e)
  show ?thesis by (simp only: Suc fr_x0_def nat.case) (rule fr_Suc_snake)
qed

lemma aget_replicate: "nat i < c \<Longrightarrow> aget (replicate c v) i = v"
  by (simp add: aget_def)

lemma diag_index: "on_diag d k \<Longrightarrow> int d \<le> maxd \<Longrightarrow> 0 \<le> k + maxd \<and> nat (k + maxd) < nat (2 * maxd + 2)"
  by linarith

definition row_ok :: "'a list \<Rightarrow> 'a list \<Rightarrow> int \<Rightarrow> nat \<Rightarrow> int list \<Rightarrow> bool" where
  "row_ok base child maxd d arr \<longleftrightarrow>
     length arr = nat (2 * maxd + 2) \<and>
     (\<forall>k. on_diag d k \<longrightarrow> aget arr (k + maxd) = fr base child d k)"

definition rows_ok :: "'a list \<Rightarrow> 'a list \<Rightarrow> int \<Rightarrow> nat \<Rightarrow> int list list \<Rightarrow> bool" where
  "rows_ok base child maxd d trace \<longleftrightarrow>
     d \<le> length trace \<and> (\<forall>e < d. row_ok base child maxd e (trace ! e))"

lemma row_okD: "row_ok base child maxd d arr \<Longrightarrow> on_diag d k \<Longrightarrow> aget arr (k + maxd) = fr base child d k"
  by (simp add: row_ok_def)

text \<open>The entry point on a diagonal, as both passes compute it from the previous array.\<close>

lemma row_entry:
  assumes rows: "rows_ok base child maxd d trace" and k: "on_diag d k" and d: "int d \<le> maxd"
  defines "prev \<equiv> prev_row maxd (int d) trace"
  shows "goes_down maxd (int d) k prev \<Longrightarrow>
      aget prev (k + maxd + 1) = fr_x0 base child d k \<and>
      (d = 0 \<or> on_diag (d - 1) (k + 1) \<and> fr_x0 base child d k = fr base child (d - 1) (k + 1))"
    and "\<not> goes_down maxd (int d) k prev \<Longrightarrow>
      aget prev (k + maxd - 1) + 1 = fr_x0 base child d k \<and>
      0 < d \<and> on_diag (d - 1) (k - 1) \<and> fr_x0 base child d k = fr base child (d - 1) (k - 1) + 1"
proof -
  show "aget prev (k + maxd + 1) = fr_x0 base child d k \<and>
      (d = 0 \<or> on_diag (d - 1) (k + 1) \<and> fr_x0 base child d k = fr base child (d - 1) (k + 1))"
    if down: "goes_down maxd (int d) k prev"
  proof (cases d)
    case 0
    with k d show ?thesis
      by (simp add: prev_def prev_row_def aget_replicate fr_x0_def del: replicate_Suc)
  next
    case (Suc e)
    with rows have r: "row_ok base child maxd e prev"
      by (simp add: rows_ok_def prev_def prev_row_def)
    from down k Suc have "k \<noteq> int (Suc e)" by (auto simp: goes_down_def)
    with k Suc have up: "on_diag e (k + 1)" using on_diag_up [of k e] by simp
    from row_okD [OF r this] have a: "aget prev (k + maxd + 1) = fr base child e (k + 1)"
      by (simp add: algebra_simps)
    have "fr_down (fr base child e) (int (Suc e)) k"
    proof (cases "k = - int (Suc e)")
      case False
      with k Suc have "on_diag e (k - 1)" using on_diag_left [of k e] by simp
      from row_okD [OF r this] have "aget prev (k + maxd - 1) = fr base child e (k - 1)"
        by (simp add: algebra_simps)
      with a down Suc False show ?thesis by (simp add: fr_down_def goes_down_def)
    qed (simp add: fr_down_def)
    with a up Suc show ?thesis by (simp add: fr_x0_def fr_start_def)
  qed
  show "aget prev (k + maxd - 1) + 1 = fr_x0 base child d k \<and>
      0 < d \<and> on_diag (d - 1) (k - 1) \<and> fr_x0 base child d k = fr base child (d - 1) (k - 1) + 1"
    if right: "\<not> goes_down maxd (int d) k prev"
  proof (cases d)
    case 0
    with k right show ?thesis by (simp add: goes_down_def)
  next
    case (Suc e)
    with rows have r: "row_ok base child maxd e prev"
      by (simp add: rows_ok_def prev_def prev_row_def)
    from right k Suc have nk: "k \<noteq> - int (Suc e)" by (auto simp: goes_down_def)
    with k Suc have left: "on_diag e (k - 1)" using on_diag_left [of k e] by simp
    from row_okD [OF r this] have a: "aget prev (k + maxd - 1) = fr base child e (k - 1)"
      by (simp add: algebra_simps)
    have "\<not> fr_down (fr base child e) (int (Suc e)) k"
    proof (cases "k = int (Suc e)")
      case False
      with k Suc have "on_diag e (k + 1)" using on_diag_up [of k e] by simp
      from row_okD [OF r this] have "aget prev (k + maxd + 1) = fr base child e (k + 1)"
        by (simp add: algebra_simps)
      with a right Suc False nk show ?thesis by (simp add: fr_down_def goes_down_def)
    qed (simp add: fr_down_def)
    with a left Suc show ?thesis by (simp add: fr_x0_def fr_start_def)
  qed
qed

lemma row_x0:
  assumes "rows_ok base child maxd d trace" "on_diag d k" "int d \<le> maxd"
    and "prev = prev_row maxd (int d) trace"
  shows "(if goes_down maxd (int d) k prev then aget prev (k + maxd + 1)
          else aget prev (k + maxd - 1) + 1) = fr_x0 base child d k"
  using row_entry [OF assms(1-3)] assms(4) by simp

text \<open>One unfolding of the row loop, over the furthest reaching points.\<close>

lemma myers_row_unfold:
  assumes "rows_ok base child maxd d trace" "on_diag d k" "int d \<le> maxd"
    and "prev = prev_row maxd (int d) trace"
  shows "myers_row base child maxd (int d) k prev cur =
    (let cur' = cur[nat (k + maxd) := fr base child d k]
     in if at_end base child d k then (cur', True)
        else myers_row base child maxd (int d) (k + 2) prev cur')"
proof -
  from assms(2) have "k \<le> int d" by linarith
  then show ?thesis
    using fr_x0_snake [OF assms(2), of base child]
    by (simp only: myers_row.simps [of base child maxd "int d" k prev cur] Let_def if_True
        row_x0 [OF assms] prod.case)
qed

lemma aget_update:
  "0 \<le> i \<Longrightarrow> 0 \<le> j \<Longrightarrow> nat i < length arr \<Longrightarrow> aget (arr[nat i := v]) j = (if i = j then v else aget arr j)"
  by (auto simp: aget_def nth_list_update nat_eq_iff2)

definition row_partial :: "'a list \<Rightarrow> 'a list \<Rightarrow> int \<Rightarrow> nat \<Rightarrow> int \<Rightarrow> int list \<Rightarrow> bool" where
  "row_partial base child maxd d k arr \<longleftrightarrow>
     length arr = nat (2 * maxd + 2) \<and>
     (\<forall>k'. on_diag d k' \<longrightarrow> k' < k \<longrightarrow> aget arr (k' + maxd) = fr base child d k')"

lemma row_partial_step:
  assumes "row_partial base child maxd d k cur" "on_diag d k" "int d \<le> maxd"
  shows "row_partial base child maxd d (k + 2) (cur[nat (k + maxd) := fr base child d k])"
proof -
  note ix = diag_index [OF assms(2,3)]
  have "aget (cur[nat (k + maxd) := fr base child d k]) (k' + maxd) = fr base child d k'"
    if k': "on_diag d k'" "k' < k + 2" for k'
  proof (cases "k' = k")
    case True
    with assms(1) ix show ?thesis by (simp add: aget_update row_partial_def)
  next
    case False
    have "k' \<noteq> k + 1" using k'(1) assms(2) by auto
    with k' False have "k' < k" by simp
    with assms(1) k' ix diag_index [OF k'(1) assms(3)] show ?thesis
      by (simp add: aget_update row_partial_def)
  qed
  with assms(1) show ?thesis by (simp add: row_partial_def)
qed

text \<open>A row without a point at the far corner is filled; a row with one is left early.\<close>

lemma myers_row_complete:
  assumes rows: "rows_ok base child maxd d trace" and dmax: "int d \<le> maxd"
    and "\<And>k'. on_diag d k' \<Longrightarrow> k \<le> k' \<Longrightarrow> \<not> at_end base child d k'"
    and "even (int d + k)" "- int d \<le> k" "row_partial base child maxd d k cur"
  shows "\<exists>cur'. myers_row base child maxd (int d) k (prev_row maxd (int d) trace) cur = (cur', False)
    \<and> row_ok base child maxd d cur'"
  using assms(3-)
proof (induction "nat (int d + 1 - k)" arbitrary: k cur rule: less_induct)
  case less
  show ?case
  proof (cases "k \<le> int d")
    case True
    with less.prems have k: "on_diag d k" by auto
    note step = row_partial_step [OF less.prems(4) k dmax]
    have "nat (int d + 1 - (k + 2)) < nat (int d + 1 - k)" using True by linarith
    from less.hyps [OF this _ _ _ step] less.prems less.prems(1) [OF k order_refl] show ?thesis
      by (auto simp: myers_row_unfold [OF rows k dmax refl] Let_def)
  next
    case False
    with less.prems(4) show ?thesis
      by (auto simp: myers_row.simps [of base child maxd "int d" k] row_ok_def row_partial_def)
  qed
qed

lemma myers_row_stops:
  assumes rows: "rows_ok base child maxd d trace" and dmax: "int d \<le> maxd"
    and "on_diag d kk" "at_end base child d kk" "k \<le> kk" "even (int d + k)" "- int d \<le> k"
  shows "\<exists>cur'. myers_row base child maxd (int d) k (prev_row maxd (int d) trace) cur = (cur', True)"
  using assms(3-)
proof (induction "nat (int d + 1 - k)" arbitrary: k cur rule: less_induct)
  case less
  from less.prems have k: "on_diag d k" by auto
  show ?case
  proof (cases "at_end base child d k")
    case True
    then show ?thesis by (simp add: myers_row_unfold [OF rows k dmax refl])
  next
    case False
    with less.prems have "k \<noteq> kk" by auto
    moreover have "k + 1 \<noteq> kk" using less.prems(1,4) by auto
    ultimately have kk: "k + 2 \<le> kk" using less.prems(3) by linarith
    have "nat (int d + 1 - (k + 2)) < nat (int d + 1 - k)" using k by linarith
    from less.hyps [OF this less.prems(1,2) kk] less.prems(4,5) False show ?thesis
      by (simp add: myers_row_unfold [OF rows k dmax refl] Let_def)
  qed
qed

lemma rows_ok_snoc:
  "rows_ok base child maxd d trace \<Longrightarrow> length trace = d \<Longrightarrow> row_ok base child maxd d cur \<Longrightarrow>
   rows_ok base child maxd (Suc d) (trace @ [cur])"
  by (auto simp: rows_ok_def nth_append less_Suc_eq)

lemma rows_ok_append:
  "rows_ok base child maxd d trace \<Longrightarrow> rows_ok base child maxd d (trace @ rest)"
  by (auto simp: rows_ok_def nth_append)

text \<open>The array a row starts from: its other entries are of no account.\<close>

lemma prev_row_length:
  "rows_ok base child maxd d trace \<Longrightarrow> length (prev_row maxd (int d) trace) = nat (2 * maxd + 2)"
  by (cases d) (auto simp: prev_row_def rows_ok_def row_ok_def)

lemma row_partial_start:
  "rows_ok base child maxd d trace \<Longrightarrow>
   row_partial base child maxd d (- int d) (prev_row maxd (int d) trace)"
  by (auto simp: row_partial_def prev_row_length)

text \<open>The outer loop ends at the edit distance, with every earlier row complete.\<close>

lemma myers_forward_rows:
  fixes base child :: "'a list"
  defines "dist \<equiv> edit_distance base child"
    and "maxd \<equiv> int (length base) + int (length child)"
  assumes "rows_ok base child maxd d trace" "length trace = d" "d \<le> dist"
  shows "rows_ok base child maxd dist (myers_forward base child maxd (int d) trace) \<and>
    length (myers_forward base child maxd (int d) trace) = Suc dist"
  using assms(3-)
proof (induction "dist - d" arbitrary: d trace rule: less_induct)
  case less
  note rows = less.prems(1)
  have dmax: "int d \<le> maxd"
    using less.prems(3) edit_distance_le [of base child] by (simp add: dist_def maxd_def)
  let ?prev = "prev_row maxd (int d) trace"
  show ?case
  proof (cases "d = dist")
    case True
    note e = at_end_reached [of base child, folded dist_def, folded True]
    from myers_row_stops [OF rows dmax e, of "- int d"] e(1)
    obtain cur' where "myers_row base child maxd (int d) (- int d) ?prev ?prev = (cur', True)"
      by fastforce
    with dmax have "myers_forward base child maxd (int d) trace = trace @ [cur']"
      by (simp add: myers_forward.simps [of base child maxd "int d" trace])
    with True less.prems(2) rows_ok_append [OF rows] show ?thesis by simp
  next
    case False
    with less.prems(3) have lt: "d < dist" by simp
    have "\<not> at_end base child d k'" if "on_diag d k'" for k'
      using not_at_end_before [OF _ that, of base child] lt by (simp add: dist_def)
    with myers_row_complete [OF rows dmax _ _ _ row_partial_start [OF rows]] obtain cur' where
      row: "myers_row base child maxd (int d) (- int d) ?prev ?prev = (cur', False)"
      and ok: "row_ok base child maxd d cur'" by fastforce
    have "dist - Suc d < dist - d" using lt by simp
    from less.hyps [OF this rows_ok_snoc [OF rows less.prems(2) ok]] lt less.prems(2) dmax row
    show ?thesis
      by (simp add: myers_forward.simps [of base child maxd "int d" trace] add.commute)
  qed
qed

section \<open>The back-tracking pass\<close>

lemma snake_back_walk:
  assumes "prevX \<le> x0" "prevY \<le> x0 - k" "prevX = x0 \<or> prevY = x0 - k"
    and "0 \<le> x0" "0 \<le> x0 - k" "x0 \<le> x"
    and "\<And>i. x0 \<le> i \<Longrightarrow> i < x \<Longrightarrow> i < int (length base) \<and> i - k < int (length child) \<and>
      js_at base i = js_at child (i - k)"
  shows "\<exists>S. snake_back prevX prevY x (x - k) ops = (x0, x0 - k, ops @ S) \<and> edit_cost S = 0 \<and>
    walk_script base child (rev S) (nat x0, nat (x0 - k)) = Some (nat x, nat (x - k))"
  using assms(6,7)
proof (induction "nat (x - x0)" arbitrary: x ops)
  case 0
  with assms(3) have "x = x0" by simp
  with assms(1-3) show ?case
    by (auto simp: snake_back.simps [of prevX prevY x0 "x0 - k"])
next
  case (Suc c)
  let ?op = "DEqual (nat (x - 1)) (nat (x - k - 1))"
  from Suc.hyps(2) have lt: "x0 < x" by linarith
  from Suc.hyps(2) have "c = nat (x - 1 - x0)" by linarith
  from Suc.hyps(1) [OF this, of "ops @ [?op]"] Suc.prems lt obtain S where
    S: "snake_back prevX prevY (x - 1) (x - 1 - k) (ops @ [?op]) = (x0, x0 - k, ops @ ?op # S)"
    and cost: "edit_cost S = 0"
    and walk: "walk_script base child (rev S) (nat x0, nat (x0 - k)) = Some (nat (x - 1), nat (x - 1 - k))"
    by auto
  have "script_step base child ?op (nat (x - 1), nat (x - 1 - k)) = Some (nat x, nat (x - k))"
    using Suc.prems(2) [of "x - 1"] lt assms(4,5)
    by (auto simp: js_at_def diff_diff_eq add.commute split: if_splits)
  from walk_script_snocI [OF walk this] have
    w: "walk_script base child (rev (?op # S)) (nat x0, nat (x0 - k)) = Some (nat x, nat (x - k))"
    by simp
  have eq: "snake_back prevX prevY x (x - k) ops = (x0, x0 - k, ops @ ?op # S)"
    using S lt assms(1,2) by (simp add: snake_back.simps [of prevX prevY x "x - k"] algebra_simps)
  show ?case
    by (rule exI [of _ "?op # S"]) (use eq cost w in simp)
qed

lemma dpath_length: "dpath base child d x y \<Longrightarrow> int d \<le> x + y"
  by (induction rule: dpath.induct) auto

text \<open>
  One step back from the furthest point \<open>(x, x - k)\<close> of distance \<open>d\<close>: along the snake to the entry
  point \<open>fr_x0\<close> of the diagonal, then one edit to the point of distance \<open>d - 1\<close>.
\<close>

lemma fr_x0_match:
  assumes "on_diag d k" "fr_x0 base child d k \<le> i" "i < fr base child d k"
  shows "i < int (length base) \<and> i - k < int (length child) \<and> js_at base i = js_at child (i - k)"
proof -
  let ?x0 = "fr_x0 base child d k"
  have "fst (snake base child ?x0 (?x0 - k)) = fr base child d k"
    using fr_x0_snake [OF assms(1), of base child] by simp
  with assms(3) have "i < fst (snake base child ?x0 (?x0 - k))" by simp
  from snake_step [OF this assms(2)] show ?thesis by simp
qed

lemma fr_x0_le: "on_diag d k \<Longrightarrow> fr_x0 base child d k \<le> fr base child d k"
  using snake_diagonal [OF fr_x0_snake [of k d base child]] by simp

definition back_step ::
  "'a list \<Rightarrow> 'a list \<Rightarrow> int list list \<Rightarrow> nat \<Rightarrow> int \<Rightarrow> int \<Rightarrow> diff_op list \<Rightarrow> diff_op list \<Rightarrow> int \<Rightarrow> bool" where
  "back_step base child trace d x k ops S k' \<longleftrightarrow>
     on_diag d k' \<and> edit_cost S = 1 \<and>
     fr base child d k' \<le> x \<and> fr base child d k' - k' \<le> x - k \<and>
     walk_script base child (rev S) (nat (fr base child d k'), nat (fr base child d k' - k')) =
       Some (nat x, nat (x - k)) \<and>
     myers_back (int (length base) + int (length child)) trace (int (Suc d)) x (x - k) ops =
     myers_back (int (length base) + int (length child)) trace (int d)
       (fr base child d k') (fr base child d k' - k') (ops @ S)"

lemma myers_back_edit:
  assumes "0 < d" "0 < x \<or> 0 < y" "prev = prev_row maxd d trace"
    and "K = (if goes_down maxd d (x - y) prev then x - y + 1 else x - y - 1)"
    and "px = aget prev (K + maxd)" "snake_back px (px - K) x y ops = (x', y', ops')"
  shows "myers_back maxd trace d x y ops =
    (if x' = px then myers_back maxd trace (d - 1) x' (y' - 1) (ops' @ [DInsert (nat (y' - 1))])
     else myers_back maxd trace (d - 1) (x' - 1) y' (ops' @ [DDelete (nat (x' - 1))]))"
  using assms by (simp add: myers_back.simps [of maxd trace d x y] Let_def)

lemma back_stepI:
  fixes base child :: "'a list"
  defines "maxd \<equiv> int (length base) + int (length child)"
  assumes prev: "prev = prev_row maxd (int (Suc d)) trace"
    and rows: "rows_ok base child maxd (Suc d) trace" and D: "int (Suc d) \<le> maxd"
    and k: "on_diag (Suc d) k" and x: "x = fr base child (Suc d) k"
    and x0: "x0 = fr_x0 base child (Suc d) k"
    and k': "on_diag d k'" and px: "px = fr base child d k'" and py: "py = px - k'"
    and dir: "goes_down maxd (int (Suc d)) k (prev) \<longleftrightarrow> k' = k + 1"
    and edge: "px = x0 \<and> py + 1 = x0 - k \<and> k' = k + 1 \<and> op = DInsert (nat py) \<or>
      px + 1 = x0 \<and> py = x0 - k \<and> k' = k - 1 \<and> op = DDelete (nat px)"
    and at: "aget (prev) (k' + maxd) = px"
    and bounds: "x \<le> int (length base)" "x - k \<le> int (length child)"
  shows "\<exists>S. back_step base child trace d x k ops S k'"
proof -
  have le: "x0 \<le> x" using fr_x0_le [OF k] x x0 by simp
  have q: "dpath base child d px py" using fr_dpath [OF k', of base child] px py by simp
  note nn = dpath_nonneg [OF q]
  have p: "dpath base child (Suc d) x (x - k)" using fr_dpath [OF k, of base child] x by simp
  have pos: "0 < x \<or> 0 < x - k" using dpath_length [OF p] by linarith
  note match = fr_x0_match [OF k, of base child, folded x x0]
  from snake_back_walk [where prevX = px and prevY = py and ops = ops, OF _ _ _ _ _ le match] nn edge
  obtain S where S: "snake_back px py x (x - k) ops = (x0, x0 - k, ops @ S)" "edit_cost S = 0"
    and w: "walk_script base child (rev S) (nat x0, nat (x0 - k)) = Some (nat x, nat (x - k))"
    by fastforce
  have "script_step base child op (nat px, nat py) = Some (nat x0, nat (x0 - k))"
    using nn edge le bounds by (auto simp: nat_less_iff Suc_nat_eq_nat_zadd1 algebra_simps)
  with w have "walk_script base child (rev (S @ [op])) (nat px, nat py) = Some (nat x, nat (x - k))"
    by simp
  moreover have "myers_back maxd trace (int (Suc d)) x (x - k) ops =
      myers_back maxd trace (int d) px py (ops @ S @ [op])"
  proof -
    have K: "k' = (if goes_down maxd (int (Suc d)) (x - (x - k)) prev then x - (x - k) + 1
        else x - (x - k) - 1)"
      using dir edge by auto
    have sb: "snake_back px (px - k') x (x - k) ops = (x0, x0 - k, ops @ S)"
      using S(1) py by simp
    have d: "int (Suc d) - 1 = int d" "0 < int (Suc d)" by simp_all
    note step = myers_back_edit [OF d(2) pos prev K at [symmetric] sb, unfolded d(1)]
    from edge show ?thesis
    proof (elim disjE conjE)
      assume "px = x0" "py + 1 = x0 - k" "op = DInsert (nat py)"
      then show ?thesis using step by (simp add: eq_diff_eq [symmetric])
    next
      assume "px + 1 = x0" "py = x0 - k" "op = DDelete (nat px)"
      then show ?thesis using step by auto
    qed
  qed
  ultimately show ?thesis
    using k' S(2) edge le px py maxd_def
    by (intro exI [of _ "S @ [op]"]) (auto simp: back_step_def)
qed

lemma back_step_exists:
  fixes base child :: "'a list"
  defines "maxd \<equiv> int (length base) + int (length child)"
  assumes rows: "rows_ok base child maxd (Suc d) trace" and D: "int (Suc d) \<le> maxd"
    and k: "on_diag (Suc d) k" and x: "x = fr base child (Suc d) k"
    and bounds: "x \<le> int (length base)" "x - k \<le> int (length child)"
  shows "\<exists>S k'. back_step base child trace d x k ops S k'"
proof (cases "goes_down maxd (int (Suc d)) k (prev_row maxd (int (Suc d)) trace)")
  case True
  from row_entry(1) [OF rows k D True] True
    back_stepI [OF refl rows [unfolded maxd_def] D [unfolded maxd_def] k x refl, of "k + 1" _ _
      "DInsert (nat (fr base child d (k + 1) - (k + 1)))", OF _ refl refl]
  show ?thesis using bounds by (fastforce simp: maxd_def algebra_simps)
next
  case False
  from row_entry(2) [OF rows k D False] False
    back_stepI [OF refl rows [unfolded maxd_def] D [unfolded maxd_def] k x refl, of "k - 1" _ _
      "DDelete (nat (fr base child d (k - 1)))", OF _ refl refl]
  show ?thesis using bounds by (fastforce simp: maxd_def algebra_simps)
qed

lemma myers_back_origin:
  fixes base child :: "'a list"
  defines "maxd \<equiv> int (length base) + int (length child)"
  assumes x: "x = fr base child 0 0"
  shows "\<exists>S. myers_back maxd trace 0 x x ops = ops @ S \<and> edit_cost S = 0 \<and>
    walk_script base child (rev S) (0, 0) = Some (nat x, nat x)"
proof -
  have x0: "fr_x0 base child 0 0 = 0" by (simp add: fr_x0_def)
  have nn: "0 \<le> x" using fr_x0_le [of 0 0 base child] x x0 by simp
  have match: "i < int (length base) \<and> i - 0 < int (length child) \<and> js_at base i = js_at child (i - 0)"
    if "0 \<le> i" "i < x" for i
    using fr_x0_match [of 0 0 base child i] that x0 x by simp
  from snake_back_walk [where prevX = 0 and prevY = "- 1" and k = 0 and ops = ops, OF _ _ _ _ _ nn match]
  obtain S where S: "snake_back 0 (- 1) x x ops = (0, 0, ops @ S)" "edit_cost S = 0"
    "walk_script base child (rev S) (0, 0) = Some (nat x, nat x)" by auto
  have z: "aget (prev_row maxd 0 trace) (1 + maxd) = 0"
    unfolding prev_row_def if_P [OF refl] by (rule aget_replicate) (simp add: maxd_def)
  show ?thesis
  proof (cases "x = 0")
    case True
    then show ?thesis by (intro exI [of _ "[]"]) (simp add: myers_back.simps)
  next
    case False
    with nn S(1) z have "myers_back maxd trace 0 x x ops = ops @ S"
      by (simp add: myers_back.simps [of maxd trace 0 x x] goes_down_def Let_def
          myers_back.simps [of maxd trace "-1"])
    with S show ?thesis by (intro exI [of _ S]) simp
  qed
qed

lemma myers_back_walk:
  fixes base child :: "'a list"
  defines "maxd \<equiv> int (length base) + int (length child)"
  assumes rows: "rows_ok base child maxd dist trace" and dist: "int dist \<le> maxd"
    and "d \<le> dist" "on_diag d k" "x = fr base child d k"
    and "x \<le> int (length base)" "x - k \<le> int (length child)"
  shows "\<exists>S. myers_back maxd trace (int d) x (x - k) ops = ops @ S \<and> edit_cost S = d \<and>
    walk_script base child (rev S) (0, 0) = Some (nat x, nat (x - k))"
  using assms(4-)
proof (induction d arbitrary: k x ops)
  case 0
  then show ?case using myers_back_origin [of x base child trace ops] by (simp add: maxd_def)
next
  case (Suc d)
  from rows Suc.prems(1) have r: "rows_ok base child maxd (Suc d) trace" by (simp add: rows_ok_def)
  from Suc.prems(1) dist have D: "int (Suc d) \<le> maxd" by simp
  from back_step_exists [OF r [unfolded maxd_def] D [unfolded maxd_def] Suc.prems(2-)] obtain S k' where
    S: "back_step base child trace d x k ops S k'" by blast
  let ?px = "fr base child d k'"
  from S Suc.prems have "?px \<le> int (length base)" "?px - k' \<le> int (length child)"
    by (auto simp: back_step_def)
  from Suc.IH [OF _ _ refl this, of "ops @ S"] S Suc.prems(1) obtain T where
    T: "myers_back maxd trace (int d) ?px (?px - k') (ops @ S) = (ops @ S) @ T" "edit_cost T = d"
      "walk_script base child (rev T) (0, 0) = Some (nat ?px, nat (?px - k'))"
    by (auto simp: back_step_def)
  from S T show ?case
    by (intro exI [of _ "S @ T"]) (auto simp: back_step_def maxd_def walk_script_append)
qed

section \<open>Correctness and optimality\<close>

lemma myersDiff_empty: "myersDiff [] [] = []"
  by (simp add: myersDiff_def)

lemma myersDiff_script_cost:
  "edit_script base child (myersDiff base child) \<and>
   edit_cost (myersDiff base child) = edit_distance base child"
proof (cases "base = [] \<and> child = []")
  case True
  have "edit_distance ([] :: 'a list) [] = 0"
    using edit_distance_le [of "[] :: 'a list" "[]"] by simp
  with True show ?thesis by (simp add: myersDiff_empty edit_script_def)
next
  case False
  let ?n = "int (length base)" and ?m = "int (length child)" and ?dist = "edit_distance base child"
  let ?trace = "myers_forward base child (?n + ?m) 0 []"
  have T: "rows_ok base child (?n + ?m) ?dist ?trace" "length ?trace = Suc ?dist"
    using myers_forward_rows [of base child 0 "[]"] by (simp_all add: rows_ok_def)
  note e = at_end_reached [of base child]
  note x = at_end_exact(1) [OF refl e]
  have "int ?dist \<le> ?n + ?m" using edit_distance_le [of base child] by simp
  from myers_back_walk [OF T(1) this order_refl e(1) x [symmetric], of "[]"] obtain S where
    S: "myers_back (?n + ?m) ?trace (int ?dist) ?n ?m [] = S" "edit_cost S = ?dist"
      "walk_script base child (rev S) (0, 0) = Some (length base, length child)" by auto
  with False T(2) show ?thesis by (auto simp: myersDiff_def Let_def edit_script_def)
qed

lemma walk_script_dpath:
  "walk_script base child ops (0, 0) = Some (i, j) \<Longrightarrow> dpath base child (edit_cost ops) (int i) (int j)"
proof (induction ops arbitrary: i j rule: rev_induct)
  case Nil
  then show ?case by (simp add: dpath.origin)
next
  case (snoc op ops)
  then obtain i' j' where w: "walk_script base child ops (0, 0) = Some (i', j')"
    and s: "script_step base child op (i', j') = Some (i, j)"
    by (auto simp: walk_script_append split: option.splits)
  note p = snoc.IH [OF w]
  show ?case
    using s dpath.diag [OF p] dpath.right [OF p] dpath.down [OF p]
    by (cases op) (auto simp: js_at_def add.commute split: if_splits)
qed

lemma myersDiff_minimal:
  "edit_script base child ops \<Longrightarrow> edit_cost (myersDiff base child) \<le> edit_cost ops"
  using walk_script_dpath [of base child ops] edit_distance_least
  by (auto simp: edit_script_def myersDiff_script_cost)

section \<open>Equal texts\<close>

lemma dpath_refl: "i \<le> length xs \<Longrightarrow> dpath xs xs 0 (int i) (int i)"
proof (induction i)
  case 0
  show ?case by (simp add: dpath.origin)
next
  case (Suc i)
  then show ?case using dpath.diag [of xs xs 0 "int i" "int i"] by (simp add: add.commute)
qed

lemma edit_distance_refl: "edit_distance xs xs = 0"
  using edit_distance_least [OF dpath_refl [of "length xs" xs]] by simp

lemma walk_script_no_edit:
  "walk_script base child ops (i, i) = Some (n, n) \<Longrightarrow> edit_cost ops = 0 \<Longrightarrow>
   i \<le> n \<and> ops = map (\<lambda>i. DEqual i i) [i..<n]"
proof (induction ops arbitrary: i)
  case Nil
  then show ?case by simp
next
  case (Cons op ops)
  then obtain a b where op: "op = DEqual a b" by (cases op) auto
  with Cons.prems have w: "walk_script base child ops (Suc i, Suc i) = Some (n, n)" "a = i" "b = i"
    by (auto split: if_splits)
  from Cons.IH [OF w(1)] Cons.prems(2) op w(2,3) show ?case
    by (auto simp: upt_conv_Cons)
qed

lemma myersDiff_refl: "myersDiff xs xs = map (\<lambda>i. DEqual i i) [0..<length xs]"
  using walk_script_no_edit [of xs xs "myersDiff xs xs" 0 "length xs"]
    myersDiff_script_cost [of xs xs]
  by (simp add: edit_script_def edit_distance_refl)

end
