(* ===== verification/Text_Lines.thy ===== *)
theory Text_Lines
  imports C2c_Prelude "HOL-Library.Sublist"
begin

text \<open>
  The string operations of the editor components: \<open>split\<close> at a character, \<open>join\<close>, \<open>endsWith\<close>,
  decimal output of integers, and the line splitting that the diff modules share.
\<close>

named_theorems text_lines \<open>splitting and joining of lines\<close>

abbreviation newline :: char where
  "newline \<equiv> CHR 0x0A"

text \<open>\<open>s.split(c)\<close> for a one-character separator: never the empty array.\<close>

fun js_split :: "char \<Rightarrow> string \<Rightarrow> string list" where
  "js_split c [] = [[]]"
| "js_split c (x # xs) =
     (if x = c then [] # js_split c xs
      else (case js_split c xs of [] \<Rightarrow> [[x]] | p # ps \<Rightarrow> (x # p) # ps))"

fun js_join :: "string \<Rightarrow> string list \<Rightarrow> string" where
  "js_join sep [] = []"
| "js_join sep [x] = x"
| "js_join sep (x # y # xs) = x @ sep @ js_join sep (y # xs)"

definition ends_with :: "string \<Rightarrow> string \<Rightarrow> bool" where
  "ends_with s t \<longleftrightarrow> suffix t s"

text \<open>\<open>splitLines\<close> of \<open>conflictDetection.ts\<close> and \<open>manualEditOverlay.ts\<close>.\<close>

definition splitLines :: "string \<Rightarrow> string list" where
  "splitLines content =
     (if content = [] then []
      else let parts = js_split newline content
           in if last parts = [] \<and> ends_with content [newline] then butlast parts else parts)"

definition joinWithNewline :: "string list \<Rightarrow> string" where
  "joinWithNewline lines = (if lines = [] then [] else concat (map (\<lambda>line. line @ [newline]) lines))"

text \<open>Decimal output, as a template literal prints an integer.\<close>

fun nat_digits :: "nat \<Rightarrow> string" where
  "nat_digits n =
     (if n < 10 then [char_of (48 + n)] else nat_digits (n div 10) @ [char_of (48 + n mod 10)])"

declare nat_digits.simps [simp del]

definition int_string :: "int \<Rightarrow> string" where
  "int_string i = (if i < 0 then ''-'' @ nat_digits (nat (- i)) else nat_digits (nat i))"

section \<open>Facts\<close>

text \<open>Reading the digits back.\<close>

definition digits_value :: "string \<Rightarrow> nat" where
  "digits_value s = foldl (\<lambda>n c. 10 * n + (of_char c - 48)) 0 s"

lemma digits_value_nat_digits [simp]: "digits_value (nat_digits n) = n"
proof (induction n rule: nat_digits.induct)
  case (1 n)
  then show ?case by (cases "n < 10") (simp_all add: digits_value_def nat_digits.simps [of n])
qed

lemma nat_digits_inject [simp]: "nat_digits m = nat_digits n \<longleftrightarrow> m = n"
  by (metis digits_value_nat_digits)

lemma js_split_not_Nil [simp]: "js_split c s \<noteq> []"
  by (cases s) (auto split: list.splits)

lemma js_split_clean: "p \<in> set (js_split c s) \<Longrightarrow> c \<notin> set p"
  by (induction s arbitrary: p) (auto split: list.splits if_splits)

lemma js_split_append_sep: "c \<notin> set l \<Longrightarrow> js_split c (l @ c # s) = l # js_split c s"
  by (induction l) auto

lemma js_split_single: "c \<notin> set l \<Longrightarrow> js_split c l = [l]"
  by (induction l) auto

lemma concat_terminated_split:
  "\<forall>l\<in>set ls. newline \<notin> set l \<Longrightarrow>
   js_split newline (concat (map (\<lambda>l. l @ [newline]) ls)) = ls @ [[]]"
  by (induction ls) (auto simp: js_split_append_sep)

lemma joinWithNewline_concat: "joinWithNewline ls = concat (map (\<lambda>l. l @ [newline]) ls)"
  by (simp add: joinWithNewline_def)

lemma joinWithNewline_Nil [simp]: "joinWithNewline [] = []"
  by (simp add: joinWithNewline_def)

lemma joinWithNewline_append [text_lines]:
  "joinWithNewline (xs @ ys) = joinWithNewline xs @ joinWithNewline ys"
  by (simp add: joinWithNewline_concat)

lemma joinWithNewline_Nil_iff [text_lines, simp]: "joinWithNewline ls = [] \<longleftrightarrow> ls = []"
  by (cases ls) (simp_all add: joinWithNewline_concat)

lemma ends_with_join: "ls \<noteq> [] \<Longrightarrow> ends_with (joinWithNewline ls) [newline]"
  by (cases ls rule: rev_cases) (auto simp: ends_with_def joinWithNewline_concat suffix_def)

lemma splitLines_join [text_lines]:
  "\<forall>l\<in>set ls. newline \<notin> set l \<Longrightarrow> splitLines (joinWithNewline ls) = ls"
  using concat_terminated_split [of ls] ends_with_join [of ls]
  by (auto simp: splitLines_def joinWithNewline_concat Let_def)

lemma splitLines_Nil [simp]: "splitLines [] = []"
  by (simp add: splitLines_def)

lemma splitLines_clean [text_lines]: "l \<in> set (splitLines s) \<Longrightarrow> newline \<notin> set l"
  by (auto simp: splitLines_def Let_def dest: js_split_clean in_set_butlastD split: if_splits)

lemma js_join_Cons: "ls \<noteq> [] \<Longrightarrow> js_join sep (l # ls) = l @ sep @ js_join sep ls"
  by (cases ls) auto

lemma js_join_split: "js_join [c] (js_split c s) = s"
proof (induction s)
  case Nil
  show ?case by simp
next
  case (Cons x s)
  obtain p ps where "js_split c s = p # ps" by (cases "js_split c s") auto
  with Cons show ?case by (cases ps) (auto simp: js_join_Cons)
qed

lemma js_join_snoc_Nil: "ls \<noteq> [] \<Longrightarrow> js_join [c] (ls @ [[]]) = js_join [c] ls @ [c]"
proof (induction ls)
  case (Cons l ls)
  then show ?case by (cases "ls = []") (auto simp: js_join_Cons)
qed simp

lemma js_split_join:
  "ls \<noteq> [] \<Longrightarrow> \<forall>l\<in>set ls. c \<notin> set l \<Longrightarrow> js_split c (js_join [c] ls) = ls"
proof (induction ls)
  case (Cons l ls)
  then show ?case by (cases "ls = []") (simp_all add: js_join_Cons js_split_append_sep js_split_single)
qed simp

lemma js_split_append: "js_split c (s @ c # t) = js_split c s @ js_split c t"
  by (induction s) (auto split: list.splits)

lemma splitLines_terminated:
  assumes "s = t @ [newline]"
  shows "splitLines s = js_split newline t"
  using assms js_split_append [of newline t "[]"]
  by (simp add: splitLines_def ends_with_def Let_def)

lemma splitLines_unterminated:
  "\<not> ends_with s [newline] \<Longrightarrow> splitLines s = (if s = [] then [] else js_split newline s)"
  by (simp add: splitLines_def Let_def)

text \<open>
  Splitting forgets only a final newline: the text is its joined lines, with the newline that
  \<open>endsWith\<close> reports.
\<close>

lemma splitLines_recover [text_lines]:
  "js_join [newline] (splitLines s) @ (if ends_with s [newline] then [newline] else []) = s"
proof (cases "ends_with s [newline]")
  case True
  then obtain t where t: "s = t @ [newline]" by (auto simp: ends_with_def suffix_def)
  from splitLines_terminated [OF t] True t show ?thesis by (simp add: js_join_split)
next
  case False
  then show ?thesis by (simp add: splitLines_unterminated js_join_split)
qed

end
