(* ===== verification/Alignment.thy ===== *)
theory Alignment
  imports Myers_Correct Text_Lines
begin

text \<open>
  \<open>buildAlignment\<close> of \<open>conflictDetection.ts\<close>: an edit script seen over the lines of the baseline.
  Each baseline line is equal, changed or deleted, and the inserted lines without a baseline
  counterpart are kept per anchor, the index of the baseline line before them (\<open>-1\<close> for the head).

  The diff that supplies the script is the interface \<open>edit_source\<close>; its interpretation is
  \<open>myersDiff\<close>.  The main fact is that an alignment loses nothing: the child text can be read back
  from it.
\<close>

datatype line_status = SEqual | SChanged | SDeleted

record alignment =
  statusByBase :: "line_status list"
  childLineByBase :: "string list"
  insertsByAnchor :: "(int, string list) js_map"

text \<open>The loop's variables: the alignment under construction, \<open>lastBaseIdx\<close>, \<open>pendingDeleteIdx\<close>.\<close>

record align_state = alignment +
  lastBaseIdx :: int
  pendingDeleteIdx :: "nat option"

definition inserts_at :: "('a alignment_scheme) \<Rightarrow> int \<Rightarrow> string list" where
  "inserts_at al anchor = or_default (js_get (insertsByAnchor al) anchor) []"

fun align_step :: "string list \<Rightarrow> align_state \<Rightarrow> diff_op \<Rightarrow> align_state" where
  "align_step childLines st (DEqual b c) = st\<lparr>lastBaseIdx := int b, pendingDeleteIdx := None\<rparr>"
| "align_step childLines st (DDelete b) =
     st\<lparr>statusByBase := (statusByBase st)[b := SDeleted],
        childLineByBase := (childLineByBase st)[b := []],
        lastBaseIdx := int b, pendingDeleteIdx := Some b\<rparr>"
| "align_step childLines st (DInsert c) =
     (let childLine = or_default (js_at childLines (int c)) []
      in case pendingDeleteIdx st of
           Some p \<Rightarrow>
             st\<lparr>statusByBase := (statusByBase st)[p := SChanged],
                childLineByBase := (childLineByBase st)[p := childLine],
                pendingDeleteIdx := None\<rparr>
         | None \<Rightarrow>
             (let anchor = lastBaseIdx st; bucket = inserts_at st anchor
              in st\<lparr>insertsByAnchor := js_set anchor (bucket @ [childLine]) (insertsByAnchor st)\<rparr>))"

definition align_init :: "string list \<Rightarrow> align_state" where
  "align_init baseLines =
     \<lparr>statusByBase = map (\<lambda>_. SEqual) baseLines, childLineByBase = baseLines,
      insertsByAnchor = [], lastBaseIdx = -1, pendingDeleteIdx = None\<rparr>"

definition buildAlignment :: "string list \<Rightarrow> diff_op list \<Rightarrow> string list \<Rightarrow> alignment" where
  "buildAlignment baseLines ops childLines =
     alignment.truncate (foldl (align_step childLines) (align_init baseLines) ops)"

section \<open>Reading the child text back\<close>

definition slot :: "('a alignment_scheme) \<Rightarrow> nat \<Rightarrow> string list" where
  "slot al i = (if statusByBase al ! i = SDeleted then [] else [childLineByBase al ! i])"

definition read_upto :: "('a alignment_scheme) \<Rightarrow> nat \<Rightarrow> string list" where
  "read_upto al i = inserts_at al (-1) @ concat (map (\<lambda>t. slot al t @ inserts_at al (int t)) [0..<i])"

definition read_child :: "('a alignment_scheme) \<Rightarrow> string list" where
  "read_child al = read_upto al (length (statusByBase al))"

lemma read_upto_0: "read_upto al 0 = inserts_at al (-1)"
  by (simp add: read_upto_def)

lemma read_upto_Suc: "read_upto al (Suc i) = read_upto al i @ slot al i @ inserts_at al (int i)"
  by (simp add: read_upto_def)

lemma read_upto_cong:
  assumes "\<And>t. t < i \<Longrightarrow> slot al t = slot al' t"
    and "\<And>a. a < int i \<Longrightarrow> inserts_at al a = inserts_at al' a"
  shows "read_upto al i = read_upto al' i"
  using assms by (induction i) (simp_all add: read_upto_0 read_upto_Suc)

text \<open>What the loop keeps, at position \<open>(i, j)\<close> of the script.\<close>

definition align_inv :: "string list \<Rightarrow> string list \<Rightarrow> nat \<Rightarrow> nat \<Rightarrow> align_state \<Rightarrow> bool" where
  "align_inv base child i j st \<longleftrightarrow>
     length (statusByBase st) = length base \<and> length (childLineByBase st) = length base \<and>
     (\<forall>t. i \<le> t \<longrightarrow> t < length base \<longrightarrow> statusByBase st ! t = SEqual) \<and>
     (\<forall>t < length base. statusByBase st ! t = SEqual \<longrightarrow> childLineByBase st ! t = base ! t) \<and>
     (\<forall>a \<ge> int i. js_get (insertsByAnchor st) a = None) \<and>
     lastBaseIdx st = int i - 1 \<and>
     (\<forall>p. pendingDeleteIdx st = Some p \<longrightarrow> Suc p = i \<and> p < length base \<and>
        statusByBase st ! p = SDeleted \<and> js_get (insertsByAnchor st) (int p) = None) \<and>
     read_upto st i = take j child"

lemma align_inv_init: "align_inv base child 0 0 (align_init base)"
  by (simp add: align_inv_def align_init_def read_upto_0 inserts_at_def)

lemma inserts_at_None [simp]: "js_get (insertsByAnchor st) a = None \<Longrightarrow> inserts_at st a = []"
  by (simp add: inserts_at_def)

lemma align_inv_equal:
  assumes inv: "align_inv base child i j st"
    and i: "i < length base" and j: "j < length child" and eq: "base ! i = child ! j"
  shows "align_inv base child (Suc i) (Suc j) (align_step child st (DEqual i j))"
proof -
  let ?st = "align_step child st (DEqual i j)"
  from inv i j eq have "read_upto st (Suc i) = take (Suc j) child"
    by (simp add: align_inv_def read_upto_Suc slot_def take_Suc_conv_app_nth)
  moreover have "read_upto ?st (Suc i) = read_upto st (Suc i)"
    by (rule read_upto_cong) (simp_all add: slot_def inserts_at_def)
  ultimately show ?thesis using inv by (simp add: align_inv_def)
qed

lemma align_inv_delete:
  assumes inv: "align_inv base child i j st" and i: "i < length base"
  shows "align_inv base child (Suc i) j (align_step child st (DDelete i))"
proof -
  let ?st = "align_step child st (DDelete i)"
  from inv i have "slot ?st i = []" "inserts_at ?st (int i) = []"
    by (simp_all add: align_inv_def slot_def inserts_at_def)
  moreover have "read_upto ?st i = read_upto st i"
    by (rule read_upto_cong) (simp_all add: slot_def inserts_at_def)
  ultimately have "read_upto ?st (Suc i) = take j child"
    using inv by (simp add: read_upto_Suc align_inv_def)
  then show ?thesis using inv i by (auto simp: align_inv_def nth_list_update)
qed

lemma align_inv_replace:
  assumes inv: "align_inv base child i j st" and p: "pendingDeleteIdx st = Some p"
    and j: "j < length child"
  shows "align_inv base child i (Suc j) (align_step child st (DInsert j))"
proof -
  let ?st = "align_step child st (DInsert j)"
  from inv p have i: "i = Suc p" "p < length base" "statusByBase st ! p = SDeleted"
    and none: "js_get (insertsByAnchor st) (int p) = None"
    by (auto simp: align_inv_def)
  have "read_upto ?st p = read_upto st p"
    by (rule read_upto_cong) (use p in \<open>simp_all add: slot_def inserts_at_def\<close>)
  moreover have "slot ?st p = [child ! j]" "inserts_at ?st (int p) = []"
    using inv p i(2) j none by (simp_all add: slot_def inserts_at_def align_inv_def)
  moreover have "read_upto st p = take j child"
    using inv i none by (simp add: align_inv_def read_upto_Suc slot_def)
  ultimately have "read_upto ?st i = take (Suc j) child"
    using i(1) j by (simp add: read_upto_Suc take_Suc_conv_app_nth)
  then show ?thesis using inv p i(1) by (auto simp: align_inv_def nth_list_update)
qed

lemma align_inv_insert:
  assumes inv: "align_inv base child i j st" and p: "pendingDeleteIdx st = None"
    and j: "j < length child"
  shows "align_inv base child i (Suc j) (align_step child st (DInsert j))"
proof -
  let ?st = "align_step child st (DInsert j)"
  from inv have last: "lastBaseIdx st = int i - 1" by (simp add: align_inv_def)
  have other: "inserts_at ?st a = inserts_at st a" if "a \<noteq> int i - 1" for a
    using that p last by (simp add: inserts_at_def Let_def)
  have here: "inserts_at ?st (int i - 1) = inserts_at st (int i - 1) @ [child ! j]"
    using p last j by (simp add: inserts_at_def Let_def)
  have slot: "slot ?st t = slot st t" for t
    using p by (simp add: slot_def Let_def)
  have "read_upto ?st i = read_upto st i @ [child ! j]"
  proof (cases i)
    case 0
    then show ?thesis using here by (simp add: read_upto_0)
  next
    case (Suc t)
    have "read_upto ?st t = read_upto st t"
      by (rule read_upto_cong) (use slot other Suc in \<open>auto simp del: align_step.simps\<close>)
    then show ?thesis using here Suc slot by (simp add: read_upto_Suc)
  qed
  then have "read_upto ?st i = take (Suc j) child"
    using inv j by (simp add: align_inv_def take_Suc_conv_app_nth)
  then show ?thesis using inv p last by (auto simp: align_inv_def Let_def)
qed

lemma align_inv_walk:
  "walk_script base child ops (i, j) = Some (i', j') \<Longrightarrow> align_inv base child i j st \<Longrightarrow>
   align_inv base child i' j' (foldl (align_step child) st ops)"
proof (induction ops arbitrary: i j st)
  case Nil
  then show ?case by simp
next
  case (Cons op ops)
  then obtain p q where s: "script_step base child op (i, j) = Some (p, q)"
    and w: "walk_script base child ops (p, q) = Some (i', j')"
    by (auto split: option.splits)
  have "align_inv base child p q (align_step child st op)"
    using s Cons.prems(2)
    by (cases op; cases "pendingDeleteIdx st")
      (auto intro: align_inv_equal align_inv_delete align_inv_replace align_inv_insert
        simp del: align_step.simps split: if_splits)
  from Cons.IH [OF w this] show ?case by simp
qed

section \<open>The interface of the diff\<close>

locale edit_source =
  fixes diff :: "string list \<Rightarrow> string list \<Rightarrow> diff_op list"
  assumes diff_script: "edit_script base child (diff base child)"
    and diff_same: "diff xs xs = map (\<lambda>i. DEqual i i) [0..<length xs]"
begin

lemma align_inv_final:
  "align_inv base child (length base) (length child)
     (foldl (align_step child) (align_init base) (diff base child))"
  using align_inv_walk [OF _ align_inv_init] diff_script by (simp add: edit_script_def)

lemma read_child_align: "read_child (buildAlignment base (diff base child) child) = child"
proof -
  let ?st = "foldl (align_step child) (align_init base) (diff base child)"
  have "read_upto (alignment.truncate ?st) i = read_upto ?st i" for i
    by (rule read_upto_cong) (simp_all add: slot_def inserts_at_def alignment.truncate_def)
  with align_inv_final [of base child] show ?thesis
    by (simp add: read_child_def buildAlignment_def align_inv_def alignment.truncate_def)
qed

lemma align_lengths:
  "length (statusByBase (buildAlignment base (diff base child) child)) = length base"
  "length (childLineByBase (buildAlignment base (diff base child) child)) = length base"
  using align_inv_final [of base child]
  by (simp_all add: buildAlignment_def align_inv_def alignment.truncate_def)

lemma align_equal_line:
  "t < length base \<Longrightarrow> statusByBase (buildAlignment base (diff base child) child) ! t = SEqual \<Longrightarrow>
   childLineByBase (buildAlignment base (diff base child) child) ! t = base ! t"
  using align_inv_final [of base child]
  by (simp add: buildAlignment_def align_inv_def alignment.truncate_def)

lemma align_same:
  "buildAlignment xs (diff xs xs) xs =
   \<lparr>statusByBase = map (\<lambda>_. SEqual) xs, childLineByBase = xs, insertsByAnchor = []\<rparr>"
proof -
  have "foldl (align_step xs) st (map (\<lambda>i. DEqual i i) is) =
      (if is = [] then st else st\<lparr>lastBaseIdx := int (last is), pendingDeleteIdx := None\<rparr>)" for st "is"
    by (induction "is" arbitrary: st) auto
  then show ?thesis
    by (simp add: buildAlignment_def diff_same align_init_def alignment.truncate_def)
qed

end

interpretation myers: edit_source myersDiff
  by unfold_locales (simp_all add: myersDiff_script_cost myersDiff_refl)

end
