(* ===== verification/Conflict_Detection.thy ===== *)
theory Conflict_Detection
  imports Alignment
begin

text \<open>
  \<open>detectConflicts\<close> of \<open>conflictDetection.ts\<close>: the three texts (baseline, manual buffer, new
  generator output) are compared line by line over the two alignments, runs of lines of the same
  kind become regions, insertions without a baseline line become regions of their own, and
  adjacent regions of the same kind are coalesced.
\<close>

section \<open>Regions\<close>

datatype resolution = UseManual | UseNewGenerator | UseBaseline

datatype line_kind =
  KEqual | KConflict | KManualOnly | KNewGeneratorOnly | KAgreed | KBaselineOnly

record conflict_region =
  startLine :: int
  endLine :: int
  conflictKind :: line_kind
  baselineContent :: string
  manualContent :: string
  newGeneratorContent :: string
  suggestedResolution :: "resolution option"
  needsUserPick :: bool

definition slot_content :: "line_status \<Rightarrow> string \<Rightarrow> string" where
  "slot_content status line = (if status = SDeleted then [] else line)"

definition classifyLine :: "line_status \<Rightarrow> string \<Rightarrow> line_status \<Rightarrow> string \<Rightarrow> line_kind" where
  "classifyLine mStatus mLine gStatus gLine =
     (let mSameAsBase = (mStatus = SEqual); gSameAsBase = (gStatus = SEqual);
          mContent = slot_content mStatus mLine; gContent = slot_content gStatus gLine
      in if mSameAsBase \<and> gSameAsBase then KEqual
         else if mSameAsBase \<and> \<not> gSameAsBase then KNewGeneratorOnly
         else if \<not> mSameAsBase \<and> gSameAsBase then KManualOnly
         else if mContent = gContent then KAgreed
         else KConflict)"

fun suggestionFor :: "line_kind \<Rightarrow> resolution option \<times> bool" where
  "suggestionFor KManualOnly = (Some UseManual, False)"
| "suggestionFor KNewGeneratorOnly = (Some UseNewGenerator, False)"
| "suggestionFor KAgreed = (Some UseManual, False)"
| "suggestionFor KBaselineOnly = (Some UseBaseline, False)"
| "suggestionFor KConflict = (None, True)"
| "suggestionFor KEqual = (None, False)"

section \<open>Runs over the baseline lines\<close>

record run_accum =
  runKind :: line_kind
  runStart :: int
  runEnd :: int
  runBase :: "string list"
  runManual :: "string list"
  runGen :: "string list"

definition flushRun :: "run_accum \<Rightarrow> conflict_region list \<Rightarrow> conflict_region list" where
  "flushRun r regions =
     (if runKind r = KEqual then regions
      else let (sug, pick) = suggestionFor (runKind r)
           in regions @ [\<lparr>startLine = runStart r, endLine = runEnd r, conflictKind = runKind r,
                baselineContent = joinWithNewline (runBase r),
                manualContent = joinWithNewline (runManual r),
                newGeneratorContent = joinWithNewline (runGen r),
                suggestedResolution = sug, needsUserPick = pick\<rparr>])"

text \<open>The body of the loop over the baseline lines: \<open>(regions, run)\<close> is its state.\<close>

definition detect_line ::
  "string list \<Rightarrow> alignment \<Rightarrow> alignment \<Rightarrow> conflict_region list \<times> run_accum option \<Rightarrow> nat \<Rightarrow>
   conflict_region list \<times> run_accum option" where
  "detect_line baseLines mAl gAl st i =
     (let bLine = baseLines ! i;
          mSt = or_default (js_at (statusByBase mAl) (int i)) SEqual;
          mLn = or_default (js_at (childLineByBase mAl) (int i)) bLine;
          gSt = or_default (js_at (statusByBase gAl) (int i)) SEqual;
          gLn = or_default (js_at (childLineByBase gAl) (int i)) bLine;
          kind = classifyLine mSt mLn gSt gLn;
          mContent = slot_content mSt mLn; gContent = slot_content gSt gLn;
          fresh = \<lparr>runKind = kind, runStart = int i + 1, runEnd = int i + 1,
                   runBase = [bLine], runManual = [mContent], runGen = [gContent]\<rparr>
      in case snd st of
           None \<Rightarrow> (fst st, Some fresh)
         | Some run \<Rightarrow>
             (if runKind run = kind
              then (fst st, Some (run\<lparr>runEnd := int i + 1, runBase := runBase run @ [bLine],
                      runManual := runManual run @ [mContent], runGen := runGen run @ [gContent]\<rparr>))
              else (flushRun run (fst st), Some fresh)))"

definition detect_lines :: "string list \<Rightarrow> alignment \<Rightarrow> alignment \<Rightarrow> conflict_region list" where
  "detect_lines baseLines mAl gAl =
     (case foldl (detect_line baseLines mAl gAl) ([], None) [0..<length baseLines] of
        (regions, None) \<Rightarrow> regions
      | (regions, Some run) \<Rightarrow> flushRun run regions)"

section \<open>Insertions\<close>

definition emitInsertRegion ::
  "conflict_region list \<Rightarrow> string list \<Rightarrow> string list \<Rightarrow> int \<Rightarrow> conflict_region list" where
  "emitInsertRegion regions mIns gIns sl =
     (if mIns = [] \<and> gIns = [] then regions
      else let mContent = joinWithNewline mIns; gContent = joinWithNewline gIns
           in if mContent = gContent then
                (if mIns = [] then regions
                 else regions @ [\<lparr>startLine = sl, endLine = sl + int (length mIns) - 1,
                   conflictKind = KAgreed, baselineContent = [], manualContent = mContent,
                   newGeneratorContent = gContent, suggestedResolution = Some UseManual,
                   needsUserPick = False\<rparr>])
              else if mIns \<noteq> [] \<and> gIns = [] then
                regions @ [\<lparr>startLine = sl, endLine = sl + int (length mIns) - 1,
                   conflictKind = KManualOnly, baselineContent = [], manualContent = mContent,
                   newGeneratorContent = [], suggestedResolution = Some UseManual,
                   needsUserPick = False\<rparr>]
              else if gIns \<noteq> [] \<and> mIns = [] then
                regions @ [\<lparr>startLine = sl, endLine = sl + int (length gIns) - 1,
                   conflictKind = KNewGeneratorOnly, baselineContent = [], manualContent = [],
                   newGeneratorContent = gContent, suggestedResolution = Some UseNewGenerator,
                   needsUserPick = False\<rparr>]
              else
                (let maxLen = max (int (length mIns)) (int (length gIns))
                 in regions @ [\<lparr>startLine = sl, endLine = sl + maxLen - 1,
                   conflictKind = KConflict, baselineContent = [], manualContent = mContent,
                   newGeneratorContent = gContent, suggestedResolution = None,
                   needsUserPick = True\<rparr>]))"

definition emit_inserts ::
  "string list \<Rightarrow> alignment \<Rightarrow> alignment \<Rightarrow> conflict_region list \<Rightarrow> conflict_region list" where
  "emit_inserts baseLines mAl gAl regions0 =
     (let n = int (length baseLines);
          tailAnchor = n - 1;
          regions1 = emitInsertRegion regions0 (inserts_at mAl (-1)) (inserts_at gAl (-1)) 1;
          regions2 = emitInsertRegion regions1 (inserts_at mAl tailAnchor) (inserts_at gAl tailAnchor) (n + 1)
      in foldl (\<lambda>regions anchor.
             (let mIns = inserts_at mAl anchor; gIns = inserts_at gAl anchor
              in if mIns = [] \<and> gIns = [] then regions
                 else emitInsertRegion regions mIns gIns (anchor + 2)))
           regions2 (map int [0..<nat (n - 1)]))"

section \<open>Coalescing\<close>

definition mergeable :: "conflict_region \<Rightarrow> conflict_region \<Rightarrow> bool" where
  "mergeable pending region \<longleftrightarrow>
     endLine pending + 1 = startLine region \<and>
     conflictKind pending = conflictKind region \<and>
     conflictKind pending \<noteq> KConflict \<and>
     suggestedResolution pending = suggestedResolution region"

definition merge_regions :: "conflict_region \<Rightarrow> conflict_region \<Rightarrow> conflict_region" where
  "merge_regions pending region =
     \<lparr>startLine = startLine pending, endLine = endLine region, conflictKind = conflictKind pending,
      baselineContent = baselineContent pending @ baselineContent region,
      manualContent = manualContent pending @ manualContent region,
      newGeneratorContent = newGeneratorContent pending @ newGeneratorContent region,
      suggestedResolution = suggestedResolution pending,
      needsUserPick = needsUserPick pending \<and> needsUserPick region\<rparr>"

fun coalesce_loop :: "conflict_region \<Rightarrow> conflict_region list \<Rightarrow> conflict_region list" where
  "coalesce_loop pending [] = [pending]"
| "coalesce_loop pending (region # rest) =
     (if mergeable pending region then coalesce_loop (merge_regions pending region) rest
      else pending # coalesce_loop region rest)"

fun coalesceAdjacentRegions :: "conflict_region list \<Rightarrow> conflict_region list" where
  "coalesceAdjacentRegions [] = []"
| "coalesceAdjacentRegions (region # rest) = coalesce_loop region rest"

section \<open>Detection\<close>

definition detect_aligned :: "string list \<Rightarrow> alignment \<Rightarrow> alignment \<Rightarrow> conflict_region list" where
  "detect_aligned baseLines mAl gAl =
     coalesceAdjacentRegions
       (sort_key startLine (emit_inserts baseLines mAl gAl (detect_lines baseLines mAl gAl)))"

definition detectConflicts :: "string \<Rightarrow> string \<Rightarrow> string \<Rightarrow> conflict_region list" where
  "detectConflicts baseline manual newGenerator =
     (if baseline = manual \<and> baseline = newGenerator then []
      else let baseLines = splitLines baseline;
               manualLines = splitLines manual;
               genLines = splitLines newGenerator;
               manualOps = myersDiff baseLines manualLines;
               genOps = myersDiff baseLines genLines
           in detect_aligned baseLines (buildAlignment baseLines manualOps manualLines)
                (buildAlignment baseLines genOps genLines))"

end
