(* ===== verification/Conflict_Facts.thy ===== *)
theory Conflict_Facts
  imports Conflict_Detection
begin

text \<open>
  What \<open>detectConflicts\<close> guarantees: every region is well formed, regions are sorted by their first
  line, the runs over the baseline lines are a partition into segments of one kind, and changes on
  one side only, or equal changes on both sides, never ask the user.
\<close>

section \<open>Well-formed regions\<close>

definition region_ok :: "conflict_region \<Rightarrow> bool" where
  "region_ok r \<longleftrightarrow>
     conflictKind r \<noteq> KEqual \<and> conflictKind r \<noteq> KBaselineOnly \<and>
     (suggestedResolution r, needsUserPick r) = suggestionFor (conflictKind r) \<and>
     1 \<le> startLine r \<and> startLine r \<le> endLine r"

lemma emitInsertRegion_cases:
  "emitInsertRegion regions mIns gIns sl = regions \<or>
   (\<exists>r. emitInsertRegion regions mIns gIns sl = regions @ [r] \<and> startLine r = sl \<and>
     sl \<le> endLine r \<and> baselineContent r = [] \<and>
     (suggestedResolution r, needsUserPick r) = suggestionFor (conflictKind r) \<and>
     (conflictKind r = KAgreed \<and> mIns = gIns \<or>
      conflictKind r = KAgreed \<and> joinWithNewline mIns = joinWithNewline gIns \<or>
      conflictKind r = KManualOnly \<and> gIns = [] \<or> conflictKind r = KNewGeneratorOnly \<and> mIns = [] \<or>
      conflictKind r = KConflict \<and> mIns \<noteq> [] \<and> gIns \<noteq> [] \<and> mIns \<noteq> gIns))"
proof -
  have len: "xs \<noteq> [] \<Longrightarrow> 1 \<le> int (length xs)" for xs :: "string list"
    by (cases xs) auto
  show ?thesis
    using len [of mIns] len [of gIns] by (auto simp: emitInsertRegion_def Let_def)
qed

lemma emitInsertRegion_ok:
  assumes "\<forall>r\<in>set regions. region_ok r" "1 \<le> sl"
  shows "\<forall>r\<in>set (emitInsertRegion regions mIns gIns sl). region_ok r"
  using emitInsertRegion_cases [of regions mIns gIns sl] assms by (auto simp: region_ok_def)

lemma emit_inserts_induct:
  assumes "P regions"
    and "\<And>rs a sl. P rs \<Longrightarrow> 1 \<le> sl \<Longrightarrow> P (emitInsertRegion rs (inserts_at mAl a) (inserts_at gAl a) sl)"
  shows "P (emit_inserts baseLines mAl gAl regions)"
proof -
  have "P rs \<Longrightarrow> \<forall>a\<in>set as. 0 \<le> a \<Longrightarrow>
    P (foldl (\<lambda>regions anchor.
             (let mIns = inserts_at mAl anchor; gIns = inserts_at gAl anchor
              in if mIns = [] \<and> gIns = [] then regions
                 else emitInsertRegion regions mIns gIns (anchor + 2))) rs as)" for rs as
  proof (induction as arbitrary: rs)
    case (Cons a as)
    from Cons.prems(2) have "1 \<le> a + 2" by simp
    from assms(2) [OF Cons.prems(1) this] Cons show ?case by (simp add: Let_def)
  qed simp
  then show ?thesis
    unfolding emit_inserts_def Let_def using assms by auto
qed

section \<open>Runs are segments\<close>

text \<open>The kind and the three contents of baseline line \<open>i\<close>, as the loop computes them.\<close>

definition kind_at :: "alignment \<Rightarrow> alignment \<Rightarrow> nat \<Rightarrow> line_kind" where
  "kind_at mAl gAl i =
     classifyLine (statusByBase mAl ! i) (childLineByBase mAl ! i)
       (statusByBase gAl ! i) (childLineByBase gAl ! i)"

definition content_at :: "alignment \<Rightarrow> nat \<Rightarrow> string" where
  "content_at al i = slot_content (statusByBase al ! i) (childLineByBase al ! i)"

definition segment_region ::
  "string list \<Rightarrow> alignment \<Rightarrow> alignment \<Rightarrow> nat \<times> nat \<Rightarrow> conflict_region" where
  "segment_region baseLines mAl gAl = (\<lambda>(s, e).
     \<lparr>startLine = int s + 1, endLine = int e, conflictKind = kind_at mAl gAl s,
      baselineContent = joinWithNewline (map (\<lambda>i. baseLines ! i) [s..<e]),
      manualContent = joinWithNewline (map (content_at mAl) [s..<e]),
      newGeneratorContent = joinWithNewline (map (content_at gAl) [s..<e]),
      suggestedResolution = fst (suggestionFor (kind_at mAl gAl s)),
      needsUserPick = snd (suggestionFor (kind_at mAl gAl s))\<rparr>)"

definition uniform :: "(nat \<Rightarrow> line_kind) \<Rightarrow> nat \<Rightarrow> nat \<Rightarrow> bool" where
  "uniform kind s e \<longleftrightarrow> (\<forall>i. s \<le> i \<and> i < e \<longrightarrow> kind i = kind s)"

lemma uniformD: "uniform kind s e \<Longrightarrow> s \<le> i \<Longrightarrow> i < e \<Longrightarrow> kind i = kind s"
  unfolding uniform_def by blast

lemma uniform_single: "uniform kind s (Suc s)"
  by (auto simp: uniform_def less_Suc_eq_le dest: le_antisym)

lemma uniform_extend: "uniform kind s e \<Longrightarrow> kind e = kind s \<Longrightarrow> uniform kind s (Suc e)"
  by (auto simp: uniform_def less_Suc_eq)

text \<open>\<open>chain a segs b\<close>: non-empty segments from \<open>a\<close> to \<open>b\<close>, neighbours of different kinds.\<close>

fun chain :: "(nat \<Rightarrow> line_kind) \<Rightarrow> nat \<Rightarrow> (nat \<times> nat) list \<Rightarrow> nat \<Rightarrow> bool" where
  "chain kind a [] b = (a = b)"
| "chain kind a ((s, e) # segs) b =
     (s = a \<and> s < e \<and> uniform kind s e \<and>
      (segs \<noteq> [] \<longrightarrow> kind e \<noteq> kind s) \<and> chain kind e segs b)"

lemma chain_append:
  "chain kind a (segs @ [(s, e)]) e \<longleftrightarrow>
   chain kind a segs s \<and> s < e \<and> uniform kind s e \<and>
   (segs \<noteq> [] \<longrightarrow> kind (fst (last segs)) \<noteq> kind s)"
  by (induction segs arbitrary: a) auto

lemma chain_snoc:
  "chain kind a segs s \<Longrightarrow> s < e \<Longrightarrow> uniform kind s e \<Longrightarrow>
   (segs \<noteq> [] \<longrightarrow> kind (fst (last segs)) \<noteq> kind s) \<Longrightarrow> chain kind a (segs @ [(s, e)]) e"
  by (simp add: chain_append)

lemma chain_le: "chain kind a segs b \<Longrightarrow> a \<le> b"
proof (induction segs arbitrary: a)
  case (Cons x segs)
  then show ?case by (cases x) (fastforce dest: Cons.IH)
qed simp

lemma chain_bounds: "chain kind a segs b \<Longrightarrow> (s, e) \<in> set segs \<Longrightarrow> a \<le> s \<and> s < e \<and> e \<le> b"
proof (induction segs arbitrary: a)
  case (Cons x segs)
  obtain s' e' where x: "x = (s', e')" by (cases x)
  with Cons.prems have c: "s' = a" "s' < e'" "chain kind e' segs b" by simp_all
  show ?case
  proof (cases "(s, e) = x")
    case True
    with x c chain_le [OF c(3)] show ?thesis by simp
  next
    case False
    with Cons.prems(2) have "(s, e) \<in> set segs" by simp
    from Cons.IH [OF c(3) this] c(1,2) show ?thesis by simp
  qed
qed simp

text \<open>Every index lies in a segment of its kind.\<close>

lemma chain_covers:
  "chain kind a segs b \<Longrightarrow> a \<le> i \<Longrightarrow> i < b \<Longrightarrow>
   \<exists>s e. (s, e) \<in> set segs \<and> s \<le> i \<and> i < e \<and> kind i = kind s"
proof (induction segs arbitrary: a)
  case (Cons x segs)
  obtain s e where x: "x = (s, e)" by (cases x)
  with Cons.prems have c: "s = a" "uniform kind s e" "chain kind e segs b" by auto
  show ?case
  proof (cases "i < e")
    case True
    with c Cons.prems(2) have "kind i = kind s" by (auto intro: uniformD)
    moreover have "s \<le> i" using c(1) Cons.prems(2) by simp
    ultimately show ?thesis using True x by (metis list.set_intros(1))
  next
    case False
    then have "e \<le> i" by simp
    from Cons.IH [OF c(3) this Cons.prems(3)] show ?thesis by (metis list.set_intros(2))
  qed
qed simp

definition segment_regions ::
  "string list \<Rightarrow> alignment \<Rightarrow> alignment \<Rightarrow> (nat \<times> nat) list \<Rightarrow> conflict_region list" where
  "segment_regions baseLines mAl gAl segs =
     map (segment_region baseLines mAl gAl) (filter (\<lambda>(s, e). kind_at mAl gAl s \<noteq> KEqual) segs)"

definition segment_run ::
  "string list \<Rightarrow> alignment \<Rightarrow> alignment \<Rightarrow> nat \<Rightarrow> nat \<Rightarrow> run_accum" where
  "segment_run baseLines mAl gAl s e =
     \<lparr>runKind = kind_at mAl gAl s, runStart = int s + 1, runEnd = int e,
      runBase = map (\<lambda>i. baseLines ! i) [s..<e], runManual = map (content_at mAl) [s..<e],
      runGen = map (content_at gAl) [s..<e]\<rparr>"

lemma flush_segment_run:
  "flushRun (segment_run baseLines mAl gAl s e) (segment_regions baseLines mAl gAl segs) =
   segment_regions baseLines mAl gAl (segs @ [(s, e)])"
  by (simp add: flushRun_def segment_run_def segment_regions_def segment_region_def split_beta)

lemma detect_line_at:
  assumes "i < length baseLines"
    and "length (statusByBase mAl) = length baseLines" "length (childLineByBase mAl) = length baseLines"
    and "length (statusByBase gAl) = length baseLines" "length (childLineByBase gAl) = length baseLines"
  shows "detect_line baseLines mAl gAl (rs, None) i = (rs, Some (segment_run baseLines mAl gAl i (Suc i)))"
    and "s < i \<Longrightarrow> detect_line baseLines mAl gAl (rs, Some (segment_run baseLines mAl gAl s i)) i =
      (if kind_at mAl gAl i = kind_at mAl gAl s
       then (rs, Some (segment_run baseLines mAl gAl s (Suc i)))
       else (flushRun (segment_run baseLines mAl gAl s i) rs, Some (segment_run baseLines mAl gAl i (Suc i))))"
  using assms
  by (simp_all add: detect_line_def Let_def segment_run_def kind_at_def content_at_def)

definition aligned_to :: "string list \<Rightarrow> alignment \<Rightarrow> bool" where
  "aligned_to baseLines al \<longleftrightarrow>
     length (statusByBase al) = length baseLines \<and> length (childLineByBase al) = length baseLines \<and>
     (\<forall>t < length baseLines. statusByBase al ! t = SEqual \<longrightarrow> childLineByBase al ! t = baseLines ! t)"

text \<open>The state of the loop after \<open>i\<close> lines.\<close>

lemma detect_lines_state:
  assumes al: "aligned_to baseLines mAl" "aligned_to baseLines gAl" and i: "i \<le> length baseLines"
  shows "i = 0 \<and> foldl (detect_line baseLines mAl gAl) ([], None) [0..<i] = ([], None) \<or>
    (\<exists>segs s. chain (kind_at mAl gAl) 0 (segs @ [(s, i)]) i \<and>
      foldl (detect_line baseLines mAl gAl) ([], None) [0..<i] =
        (segment_regions baseLines mAl gAl segs, Some (segment_run baseLines mAl gAl s i)))"
  using i
proof (induction i)
  case 0
  show ?case by simp
next
  case (Suc i)
  let ?kind = "kind_at mAl gAl" and ?st = "foldl (detect_line baseLines mAl gAl) ([], None) [0..<i]"
  note at = detect_line_at [of i baseLines mAl gAl]
  have lens: "i < length baseLines" "length (statusByBase mAl) = length baseLines"
    "length (childLineByBase mAl) = length baseLines" "length (statusByBase gAl) = length baseLines"
    "length (childLineByBase gAl) = length baseLines"
    using al Suc.prems by (simp_all add: aligned_to_def)
  from Suc.prems have "i \<le> length baseLines" by simp
  from Suc.IH [OF this] show ?case
  proof (elim disjE exE conjE)
    assume "i = 0" "?st = ([], None)"
    then show ?thesis using at(1) [OF lens, of "[]"]
      by (intro disjI2 exI [of _ "[]"] exI [of _ 0]) (simp add: segment_regions_def uniform_single)
  next
    fix segs s
    assume c: "chain ?kind 0 (segs @ [(s, i)]) i"
      and st: "?st = (segment_regions baseLines mAl gAl segs, Some (segment_run baseLines mAl gAl s i))"
    from c have s: "s < i" "uniform ?kind s i" "chain ?kind 0 segs s"
      "segs \<noteq> [] \<longrightarrow> ?kind (fst (last segs)) \<noteq> ?kind s"
      by (simp_all add: chain_append)
    show ?thesis
    proof (cases "?kind i = ?kind s")
      case True
      have "chain ?kind 0 (segs @ [(s, Suc i)]) (Suc i)"
        by (rule chain_snoc) (use s True in \<open>simp_all add: uniform_extend\<close>)
      then show ?thesis using at(2) [OF lens s(1)] st True
        by (intro disjI2 exI [of _ segs] exI [of _ s]) simp
    next
      case False
      have "chain ?kind 0 ((segs @ [(s, i)]) @ [(i, Suc i)]) (Suc i)"
        by (rule chain_snoc) (use c False in \<open>simp_all add: uniform_single\<close>)
      then show ?thesis using at(2) [OF lens s(1)] st False flush_segment_run
        by (intro disjI2 exI [of _ "segs @ [(s, i)]"] exI [of _ i]) simp
    qed
  qed
qed

lemma detect_lines_segments:
  assumes "aligned_to baseLines mAl" "aligned_to baseLines gAl"
  shows "\<exists>segs. chain (kind_at mAl gAl) 0 segs (length baseLines) \<and>
    detect_lines baseLines mAl gAl = segment_regions baseLines mAl gAl segs"
  using detect_lines_state [OF assms order_refl]
proof (elim disjE exE conjE)
  assume "length baseLines = 0"
    and "foldl (detect_line baseLines mAl gAl) ([], None) [0..<length baseLines] = ([], None)"
  then show ?thesis by (intro exI [of _ "[]"]) (simp add: detect_lines_def segment_regions_def)
next
  fix segs s
  assume "chain (kind_at mAl gAl) 0 (segs @ [(s, length baseLines)]) (length baseLines)"
    and "foldl (detect_line baseLines mAl gAl) ([], None) [0..<length baseLines] =
      (segment_regions baseLines mAl gAl segs, Some (segment_run baseLines mAl gAl s (length baseLines)))"
  then show ?thesis
    by (intro exI [of _ "segs @ [(s, length baseLines)]"])
      (simp add: detect_lines_def flush_segment_run)
qed

section \<open>The regions of the whole detection\<close>

lemma segment_region_ok:
  assumes "chain (kind_at mAl gAl) a segs b" "(s, e) \<in> set segs" "kind_at mAl gAl s \<noteq> KEqual"
  shows "region_ok (segment_region baseLines mAl gAl (s, e))"
  using chain_bounds [OF assms(1,2)] assms(3)
  by (auto simp: region_ok_def segment_region_def kind_at_def classifyLine_def Let_def)

lemma detect_lines_ok:
  assumes "aligned_to baseLines mAl" "aligned_to baseLines gAl" "r \<in> set (detect_lines baseLines mAl gAl)"
  shows "region_ok r"
  using detect_lines_segments [OF assms(1,2)] assms(3)
  by (auto simp: segment_regions_def intro: segment_region_ok)

lemma merge_regions_ok: "region_ok p \<Longrightarrow> region_ok r \<Longrightarrow> mergeable p r \<Longrightarrow> region_ok (merge_regions p r)"
  by (cases "conflictKind p") (auto simp: region_ok_def merge_regions_def mergeable_def)

lemma coalesce_loop_ok:
  "region_ok p \<Longrightarrow> \<forall>r\<in>set rs. region_ok r \<Longrightarrow> \<forall>r\<in>set (coalesce_loop p rs). region_ok r"
  by (induction p rs rule: coalesce_loop.induct) (auto simp: merge_regions_ok)

lemma coalesce_ok:
  "\<forall>r\<in>set rs. region_ok r \<Longrightarrow> \<forall>r\<in>set (coalesceAdjacentRegions rs). region_ok r"
  by (cases rs) (auto dest: coalesce_loop_ok)

lemma coalesce_loop_starts:
  "sorted (map startLine (p # rs)) \<Longrightarrow>
   sorted (map startLine (coalesce_loop p rs)) \<and> (\<forall>r\<in>set (coalesce_loop p rs). startLine p \<le> startLine r)"
proof (induction p rs rule: coalesce_loop.induct)
  case (1 p)
  then show ?case by simp
next
  case (2 p r rs)
  then show ?case by (cases "mergeable p r") (fastforce simp: merge_regions_def)+
qed

lemma coalesce_sorted:
  "sorted (map startLine rs) \<Longrightarrow> sorted (map startLine (coalesceAdjacentRegions rs))"
  by (cases rs) (use coalesce_loop_starts in auto)

lemma coalesce_loop_kinds:
  "conflictKind p \<in> K \<Longrightarrow> \<forall>r\<in>set rs. conflictKind r \<in> K \<Longrightarrow> \<forall>r\<in>set (coalesce_loop p rs). conflictKind r \<in> K"
  by (induction p rs rule: coalesce_loop.induct) (auto simp: merge_regions_def)

lemma coalesce_kinds:
  "\<forall>r\<in>set rs. conflictKind r \<in> K \<Longrightarrow> \<forall>r\<in>set (coalesceAdjacentRegions rs). conflictKind r \<in> K"
  by (cases rs) (auto dest: coalesce_loop_kinds)

lemma detect_aligned_ok:
  assumes "aligned_to baseLines mAl" "aligned_to baseLines gAl"
  shows "\<forall>r\<in>set (detect_aligned baseLines mAl gAl). region_ok r"
proof -
  have "\<forall>r\<in>set (emit_inserts baseLines mAl gAl (detect_lines baseLines mAl gAl)). region_ok r"
    by (rule emit_inserts_induct) (use detect_lines_ok [OF assms] in \<open>simp_all add: emitInsertRegion_ok\<close>)
  then show ?thesis unfolding detect_aligned_def by (intro coalesce_ok) simp
qed

lemma detect_aligned_sorted: "sorted (map startLine (detect_aligned baseLines mAl gAl))"
  unfolding detect_aligned_def by (rule coalesce_sorted) simp

lemma detect_aligned_kinds:
  assumes al: "aligned_to baseLines mAl" "aligned_to baseLines gAl"
    and lines: "\<And>i. i < length baseLines \<Longrightarrow> kind_at mAl gAl i \<in> insert KEqual K"
    and inserts: "\<And>rs a sl. \<forall>r\<in>set rs. conflictKind r \<in> K \<Longrightarrow>
      \<forall>r\<in>set (emitInsertRegion rs (inserts_at mAl a) (inserts_at gAl a) sl). conflictKind r \<in> K"
  shows "\<forall>r\<in>set (detect_aligned baseLines mAl gAl). conflictKind r \<in> K"
proof -
  from detect_lines_segments [OF al] obtain segs where
    c: "chain (kind_at mAl gAl) 0 segs (length baseLines)"
    and d: "detect_lines baseLines mAl gAl = segment_regions baseLines mAl gAl segs" by blast
  have "\<forall>r\<in>set (detect_lines baseLines mAl gAl). conflictKind r \<in> K"
  proof
    fix r assume "r \<in> set (detect_lines baseLines mAl gAl)"
    then obtain s e where se: "(s, e) \<in> set segs" "kind_at mAl gAl s \<noteq> KEqual"
      "r = segment_region baseLines mAl gAl (s, e)"
      by (auto simp: d segment_regions_def)
    from chain_bounds [OF c se(1)] lines [of s] se show "conflictKind r \<in> K"
      by (simp add: segment_region_def)
  qed
  then have "\<forall>r\<in>set (emit_inserts baseLines mAl gAl (detect_lines baseLines mAl gAl)). conflictKind r \<in> K"
    by (rule emit_inserts_induct) (rule inserts)
  then show ?thesis unfolding detect_aligned_def by (intro coalesce_kinds) simp
qed

text \<open>The alignments that \<open>detectConflicts\<close> builds.\<close>

abbreviation align_text :: "string list \<Rightarrow> string list \<Rightarrow> alignment" where
  "align_text baseLines lines \<equiv> buildAlignment baseLines (myersDiff baseLines lines) lines"

lemma aligned_to_align_text: "aligned_to baseLines (align_text baseLines lines)"
  by (simp add: aligned_to_def myers.align_lengths myers.align_equal_line)

lemma detectConflicts_aligned:
  "detectConflicts b m g = [] \<and> b = m \<and> b = g \<or>
   detectConflicts b m g = detect_aligned (splitLines b)
     (align_text (splitLines b) (splitLines m)) (align_text (splitLines b) (splitLines g))"
  by (auto simp: detectConflicts_def Let_def)

lemma detectConflicts_ok: "r \<in> set (detectConflicts b m g) \<Longrightarrow> region_ok r"
  using detectConflicts_aligned [of b m g] detect_aligned_ok [OF aligned_to_align_text aligned_to_align_text]
  by auto

lemma align_text_same: "inserts_at (align_text xs xs) a = []"
  "i < length xs \<Longrightarrow> statusByBase (align_text xs xs) ! i = SEqual"
  by (simp_all add: myers.align_same inserts_at_def)

lemma unchanged_manual_kinds:
  "r \<in> set (detectConflicts b b g) \<Longrightarrow> conflictKind r = KNewGeneratorOnly"
proof -
  let ?b = "splitLines b" and ?g = "splitLines g"
  have "\<forall>r\<in>set (detect_aligned ?b (align_text ?b ?b) (align_text ?b ?g)). conflictKind r \<in> {KNewGeneratorOnly}"
  proof (rule detect_aligned_kinds [OF aligned_to_align_text aligned_to_align_text])
    fix rs :: "conflict_region list" and a sl
    assume "\<forall>r\<in>set rs. conflictKind r \<in> {KNewGeneratorOnly}"
    then show "\<forall>r\<in>set (emitInsertRegion rs (inserts_at (align_text ?b ?b) a)
        (inserts_at (align_text ?b ?g) a) sl). conflictKind r \<in> {KNewGeneratorOnly}"
      by (auto simp: align_text_same emitInsertRegion_def Let_def)
  qed (simp add: kind_at_def classifyLine_def Let_def align_text_same)
  then show "r \<in> set (detectConflicts b b g) \<Longrightarrow> conflictKind r = KNewGeneratorOnly"
    using detectConflicts_aligned [of b b g] by auto
qed

lemma unchanged_generator_kinds:
  "r \<in> set (detectConflicts b m b) \<Longrightarrow> conflictKind r = KManualOnly"
proof -
  let ?b = "splitLines b" and ?m = "splitLines m"
  have "\<forall>r\<in>set (detect_aligned ?b (align_text ?b ?m) (align_text ?b ?b)). conflictKind r \<in> {KManualOnly}"
  proof (rule detect_aligned_kinds [OF aligned_to_align_text aligned_to_align_text])
    fix rs :: "conflict_region list" and a sl
    assume "\<forall>r\<in>set rs. conflictKind r \<in> {KManualOnly}"
    then show "\<forall>r\<in>set (emitInsertRegion rs (inserts_at (align_text ?b ?m) a)
        (inserts_at (align_text ?b ?b) a) sl). conflictKind r \<in> {KManualOnly}"
      by (auto simp: align_text_same emitInsertRegion_def Let_def)
  qed (simp add: kind_at_def classifyLine_def Let_def align_text_same)
  then show "r \<in> set (detectConflicts b m b) \<Longrightarrow> conflictKind r = KManualOnly"
    using detectConflicts_aligned [of b m b] by auto
qed

lemma same_change_kinds:
  "r \<in> set (detectConflicts b m m) \<Longrightarrow> conflictKind r = KAgreed"
proof -
  let ?b = "splitLines b" and ?m = "splitLines m"
  have "\<forall>r\<in>set (detect_aligned ?b (align_text ?b ?m) (align_text ?b ?m)). conflictKind r \<in> {KAgreed}"
  proof (rule detect_aligned_kinds [OF aligned_to_align_text aligned_to_align_text])
    fix rs :: "conflict_region list" and a sl
    assume "\<forall>r\<in>set rs. conflictKind r \<in> {KAgreed}"
    then show "\<forall>r\<in>set (emitInsertRegion rs (inserts_at (align_text ?b ?m) a)
        (inserts_at (align_text ?b ?m) a) sl). conflictKind r \<in> {KAgreed}"
      by (auto simp: emitInsertRegion_def Let_def)
  qed (simp add: kind_at_def classifyLine_def Let_def)
  then show "r \<in> set (detectConflicts b m m) \<Longrightarrow> conflictKind r = KAgreed"
    using detectConflicts_aligned [of b m m] by auto
qed

end
