(* ===== verification/Merge_Apply.thy ===== *)
theory Merge_Apply
  imports Conflict_Facts
begin

text \<open>
  \<open>applyMergeSelections\<close> of \<open>conflictDetection.ts\<close>: the picked contents of the regions are
  written over the baseline.  A region without a pick and without a suggestion makes it throw
  \<open>UnresolvedMergeConflictError\<close>, the left injection here.
\<close>

section \<open>The code\<close>

datatype merge_error = UnresolvedMergeConflict string int int

fun kind_name :: "line_kind \<Rightarrow> string" where
  "kind_name KEqual = ''equal''"
| "kind_name KConflict = ''conflict''"
| "kind_name KManualOnly = ''manual_only''"
| "kind_name KNewGeneratorOnly = ''new_generator_only''"
| "kind_name KAgreed = ''agreed''"
| "kind_name KBaselineOnly = ''baseline_only''"

definition defaultRegionId :: "conflict_region \<Rightarrow> string" where
  "defaultRegionId r =
     kind_name (conflictKind r) @ '':'' @ int_string (startLine r) @ ''-'' @ int_string (endLine r)"

type_synonym selections = "(string, resolution) js_map"

definition chosenContentFor ::
  "conflict_region \<Rightarrow> selections \<Rightarrow> (conflict_region \<Rightarrow> string) \<Rightarrow> merge_error + string" where
  "chosenContentFor r sels regionId =
     (case or_else (js_get sels (regionId r)) (suggestedResolution r) of
        Some UseManual \<Rightarrow> Inr (manualContent r)
      | Some UseNewGenerator \<Rightarrow> Inr (newGeneratorContent r)
      | Some UseBaseline \<Rightarrow> Inr (baselineContent r)
      | None \<Rightarrow> Inl (UnresolvedMergeConflict (regionId r) (startLine r) (endLine r)))"

text \<open>
  The loops that copy baseline lines up to a target.  An index out of range reads \<open>undefined\<close>,
  which \<open>join\<close> prints as the empty string.
\<close>

function flush_to :: "string list \<Rightarrow> int \<Rightarrow> string list \<times> int \<Rightarrow> string list \<times> int" where
  "flush_to baseLines target (result, baseIdx) =
     (if baseIdx < target \<and> baseIdx < int (length baseLines)
      then flush_to baseLines target (result @ [or_default (js_at baseLines baseIdx) []], baseIdx + 1)
      else (result, baseIdx))"
  by pat_completeness auto
termination by (relation "measure (\<lambda>(b, t, (r, i)). nat (t - i))") auto

declare flush_to.simps [simp del]

definition apply_region ::
  "string list \<Rightarrow> selections \<Rightarrow> (conflict_region \<Rightarrow> string) \<Rightarrow> string list \<times> int \<Rightarrow> conflict_region \<Rightarrow>
   merge_error + string list \<times> int" where
  "apply_region baseLines sels regionId st r =
     (let isInsertOnly = (baselineContent r = []);
          n = int (length baseLines);
          (result, baseIdx) =
            (if \<not> isInsertOnly then flush_to baseLines (max 0 (startLine r - 1)) st
             else if startLine r > n then flush_to baseLines n st
             else st)
      in case chosenContentFor r sels regionId of
           Inl err \<Rightarrow> Inl err
         | Inr chosen \<Rightarrow>
             Inr (result @ splitLines chosen, if \<not> isInsertOnly then endLine r else baseIdx))"

fun apply_regions ::
  "string list \<Rightarrow> selections \<Rightarrow> (conflict_region \<Rightarrow> string) \<Rightarrow> string list \<times> int \<Rightarrow>
   conflict_region list \<Rightarrow> merge_error + string list \<times> int" where
  "apply_regions baseLines sels regionId st [] = Inr st"
| "apply_regions baseLines sels regionId st (r # rs) =
     (case apply_region baseLines sels regionId st r of
        Inl err \<Rightarrow> Inl err
      | Inr st' \<Rightarrow> apply_regions baseLines sels regionId st' rs)"

definition finish_merge :: "string \<Rightarrow> string list \<Rightarrow> string" where
  "finish_merge baseline result =
     (let merged = js_join [newline] result
      in if ends_with baseline [newline] \<and> \<not> ends_with merged [newline]
         then merged @ [newline] else merged)"

definition applyMergeSelections ::
  "string \<Rightarrow> conflict_region list \<Rightarrow> selections \<Rightarrow> (conflict_region \<Rightarrow> string) \<Rightarrow>
   merge_error + string" where
  "applyMergeSelections baseline regions sels regionId =
     (if regions = [] then Inr baseline
      else let baseLines = splitLines baseline
           in case apply_regions baseLines sels regionId ([], 0) (sort_key startLine regions) of
                Inl err \<Rightarrow> Inl err
              | Inr st \<Rightarrow>
                  Inr (finish_merge baseline (fst (flush_to baseLines (int (length baseLines)) st))))"

section \<open>Errors\<close>

definition unresolved :: "selections \<Rightarrow> (conflict_region \<Rightarrow> string) \<Rightarrow> conflict_region \<Rightarrow> bool" where
  "unresolved sels regionId r \<longleftrightarrow> js_get sels (regionId r) = None \<and> suggestedResolution r = None"

lemma chosenContentFor_resolved [simp]:
  "(\<exists>err. chosenContentFor r sels regionId = Inl err) \<longleftrightarrow> unresolved sels regionId r"
  by (auto simp: chosenContentFor_def unresolved_def split: option.splits resolution.splits)

lemma chosenContentFor_unresolved:
  "unresolved sels regionId r \<Longrightarrow>
   chosenContentFor r sels regionId = Inl (UnresolvedMergeConflict (regionId r) (startLine r) (endLine r))"
  by (simp add: chosenContentFor_def unresolved_def)

lemma apply_region_unresolved:
  "unresolved sels regionId r \<Longrightarrow>
   apply_region baseLines sels regionId st r =
     Inl (UnresolvedMergeConflict (regionId r) (startLine r) (endLine r))"
  by (simp add: apply_region_def Let_def chosenContentFor_unresolved split_beta)

lemma apply_region_resolved:
  "\<not> unresolved sels regionId r \<Longrightarrow> \<exists>st'. apply_region baseLines sels regionId st r = Inr st'"
  using chosenContentFor_resolved [of r sels regionId]
  by (cases "chosenContentFor r sels regionId") (auto simp: apply_region_def Let_def split_beta)

lemma apply_regions_result:
  "(case find (unresolved sels regionId) rs of
      None \<Rightarrow> \<exists>st'. apply_regions baseLines sels regionId st rs = Inr st'
    | Some r \<Rightarrow> apply_regions baseLines sels regionId st rs =
        Inl (UnresolvedMergeConflict (regionId r) (startLine r) (endLine r)))"
proof (induction rs arbitrary: st)
  case (Cons r rs)
  show ?case
  proof (cases "unresolved sels regionId r")
    case False
    then obtain st' where "apply_region baseLines sels regionId st r = Inr st'"
      using apply_region_resolved by blast
    with Cons.IH [of st'] False show ?thesis by (simp split: option.splits)
  qed (simp add: apply_region_unresolved)
qed simp

lemma applyMerge_result:
  "(case find (unresolved sels regionId) (sort_key startLine regions) of
      None \<Rightarrow> \<exists>out. applyMergeSelections baseline regions sels regionId = Inr out
    | Some r \<Rightarrow> applyMergeSelections baseline regions sels regionId =
        Inl (UnresolvedMergeConflict (regionId r) (startLine r) (endLine r)))"
proof (cases "regions = []")
  case False
  then show ?thesis
    using apply_regions_result [where sels = sels and regionId = regionId and
        rs = "sort_key startLine regions" and baseLines = "splitLines baseline" and st = "([], 0)"]
    by (auto simp: applyMergeSelections_def Let_def split: option.splits)
qed (simp add: applyMergeSelections_def)

lemma applyMerge_total_iff:
  "(\<exists>out. applyMergeSelections baseline regions sels regionId = Inr out) \<longleftrightarrow>
   (\<forall>r\<in>set regions. \<not> unresolved sels regionId r)"
proof (cases "find (unresolved sels regionId) (sort_key startLine regions)")
  case None
  with applyMerge_result [where sels = sels and regionId = regionId and
      regions = regions and baseline = baseline] show ?thesis
    by (auto simp: find_None_iff)
next
  case (Some r)
  then obtain i where i: "i < length (sort_key startLine regions)" "r = sort_key startLine regions ! i"
    and un: "unresolved sels regionId r" by (auto simp: find_Some_iff)
  have "r \<in> set (sort_key startLine regions)" unfolding i(2) using i(1) by (rule nth_mem)
  then have "r \<in> set regions" by simp
  with un Some applyMerge_result [where sels = sels and regionId = regionId and
      regions = regions and baseline = baseline] show ?thesis by auto
qed

section \<open>Merging over the line runs\<close>

lemma flush_to_eq:
  "0 \<le> i \<Longrightarrow> i \<le> t \<Longrightarrow> t \<le> int (length baseLines) \<Longrightarrow>
   flush_to baseLines t (result, i) = (result @ map (\<lambda>k. baseLines ! k) [nat i..<nat t], t)"
proof (induction baseLines t "(result, i)" arbitrary: result i rule: flush_to.induct)
  case (1 baseLines t result i)
  show ?case
  proof (cases "i < t")
    case True
    then have "[nat i..<nat t] = nat i # [Suc (nat i)..<nat t]" "nat (i + 1) = Suc (nat i)"
      using 1(2) by (simp_all add: upt_conv_Cons nat_less_eq_zless nat_add_distrib)
    with 1 True show ?thesis by (simp add: flush_to.simps [of baseLines t result i])
  next
    case False
    then show ?thesis using 1(3) flush_to.simps [of baseLines t result i] by simp
  qed
qed

text \<open>
  \<open>writes f\<close>: every region over the lines \<open>s..<e\<close> is resolved to the lines \<open>f s, ..., f (e - 1)\<close>,
  and lines outside the regions keep their baseline content.
\<close>

definition writes ::
  "string list \<Rightarrow> alignment \<Rightarrow> alignment \<Rightarrow> selections \<Rightarrow> (conflict_region \<Rightarrow> string) \<Rightarrow> (nat \<Rightarrow> string) \<Rightarrow>
   (nat \<times> nat) list \<Rightarrow> bool" where
  "writes baseLines mAl gAl sels regionId f segs \<longleftrightarrow>
     (\<forall>(s, e) \<in> set segs.
        if kind_at mAl gAl s = KEqual then (\<forall>i. s \<le> i \<and> i < e \<longrightarrow> f i = baseLines ! i)
        else chosenContentFor (segment_region baseLines mAl gAl (s, e)) sels regionId =
               Inr (joinWithNewline (map f [s..<e])))"

lemma apply_segment:
  assumes "s < e" "idx \<le> s" "e \<le> length baseLines"
    and "chosenContentFor (segment_region baseLines mAl gAl (s, e)) sels regionId =
      Inr (joinWithNewline (map f [s..<e]))"
    and "\<forall>i<length baseLines. newline \<notin> set (f i)" "\<forall>i. idx \<le> i \<and> i < s \<longrightarrow> f i = baseLines ! i"
  shows "apply_region baseLines sels regionId (map f [0..<idx], int idx)
      (segment_region baseLines mAl gAl (s, e)) = Inr (map f [0..<e], int e)"
proof -
  have up: "[0..<idx] @ [idx..<s] = [0..<s]" "[0..<s] @ [s..<e] = [0..<e]"
    using assms(1,2) upt_add_eq_append [of 0 idx "s - idx"] upt_add_eq_append [of 0 s "e - s"] by simp_all
  have base: "map (\<lambda>k. baseLines ! k) [idx..<s] = map f [idx..<s]" using assms(6) by simp
  have "map f [0..<idx] @ map (\<lambda>k. baseLines ! k) [idx..<s] = map f [0..<s]"
    by (simp only: base map_append [symmetric] up(1))
  then have fl: "flush_to baseLines (int s) (map f [0..<idx], int idx) = (map f [0..<s], int s)"
    using flush_to_eq [of "int idx" "int s" baseLines "map f [0..<idx]"] assms(1-3)
    by simp
  have sp: "splitLines (joinWithNewline (map f [s..<e])) = map f [s..<e]"
    by (rule splitLines_join) (use assms(3,5) in simp)
  have "baselineContent (segment_region baseLines mAl gAl (s, e)) \<noteq> []"
    "startLine (segment_region baseLines mAl gAl (s, e)) - 1 = int s"
    "endLine (segment_region baseLines mAl gAl (s, e)) = int e"
    using assms(1) by (simp_all add: segment_region_def)
  then show ?thesis
    using assms(4) fl sp up(2)
    by (simp add: apply_region_def Let_def del: map_append upt_Suc add: map_append [symmetric])
qed

lemma apply_segments:
  assumes "chain (kind_at mAl gAl) a segs b" "b \<le> length baseLines" "idx \<le> a"
    and "writes baseLines mAl gAl sels regionId f segs"
    and "\<forall>i<length baseLines. newline \<notin> set (f i)" "\<forall>i. idx \<le> i \<and> i < a \<longrightarrow> f i = baseLines ! i"
  shows "\<exists>idx'. idx' \<le> b \<and>
    apply_regions baseLines sels regionId (map f [0..<idx], int idx) (segment_regions baseLines mAl gAl segs) =
      Inr (map f [0..<idx'], int idx') \<and> (\<forall>i. idx' \<le> i \<and> i < b \<longrightarrow> f i = baseLines ! i)"
  using assms(1,3,4,6)
proof (induction segs arbitrary: a idx)
  case Nil
  then show ?case by (auto simp: segment_regions_def)
next
  case (Cons x segs)
  obtain s e where x: "x = (s, e)" by (cases x)
  with Cons.prems(1) have c: "s = a" "s < e" "chain (kind_at mAl gAl) e segs b" by simp_all
  have w: "writes baseLines mAl gAl sels regionId f segs"
    using Cons.prems(3) by (simp add: writes_def)
  show ?case
  proof (cases "kind_at mAl gAl s = KEqual")
    case True
    then have "\<forall>i. idx \<le> i \<and> i < e \<longrightarrow> f i = baseLines ! i"
      using Cons.prems(3,4) x c(1) by (auto simp: writes_def not_less) (metis not_less)
    from Cons.IH [OF c(3) _ w this] True x c Cons.prems(2) show ?thesis
      by (simp add: segment_regions_def)
  next
    case False
    have "apply_region baseLines sels regionId (map f [0..<idx], int idx)
        (segment_region baseLines mAl gAl (s, e)) = Inr (map f [0..<e], int e)"
      by (rule apply_segment) (use Cons.prems x c False chain_le [OF c(3)] assms in \<open>auto simp: writes_def\<close>)
    moreover from Cons.IH [OF c(3) order_refl w] obtain idx' where "idx' \<le> b"
      "apply_regions baseLines sels regionId (map f [0..<e], int e) (segment_regions baseLines mAl gAl segs) =
        Inr (map f [0..<idx'], int idx')" "\<forall>i. idx' \<le> i \<and> i < b \<longrightarrow> f i = baseLines ! i"
      by (meson leD)
    ultimately show ?thesis using x False by (simp add: segment_regions_def)
  qed
qed

text \<open>The whole merge, over alignments without insertions.\<close>

lemma segment_regions_sorted:
  "chain kind a segs b \<Longrightarrow>
   sorted (map startLine (segment_regions baseLines mAl gAl segs)) \<and>
   (\<forall>r\<in>set (segment_regions baseLines mAl gAl segs). int a + 1 \<le> startLine r)"
proof (induction segs arbitrary: a)
  case (Cons x segs)
  obtain s e where x: "x = (s, e)" by (cases x)
  with Cons.prems have "s = a" "s < e" "chain kind e segs b" by simp_all
  with Cons.IH [of e] x show ?case
    by (auto simp: segment_regions_def) (auto simp: segment_region_def)
qed (simp add: segment_regions_def)

lemma coalesce_loop_segments:
  "chain kind e segs b \<Longrightarrow> kind = kind_at mAl gAl \<Longrightarrow>
   (\<forall>r\<in>set (segment_regions baseLines mAl gAl segs). startLine r = endLine p + 1 \<longrightarrow> conflictKind r \<noteq> conflictKind p) \<Longrightarrow>
   coalesce_loop p (segment_regions baseLines mAl gAl segs) = p # segment_regions baseLines mAl gAl segs"
proof (induction segs arbitrary: p e)
  case (Cons x segs)
  obtain s e' where x: "x = (s, e')" by (cases x)
  with Cons.prems have c: "s = e" "s < e'" "chain kind e' segs b" "segs \<noteq> [] \<longrightarrow> kind e' \<noteq> kind s"
    by auto
  have rest: "startLine r = int e' + 1 \<longrightarrow> conflictKind r \<noteq> kind s"
    if "r \<in> set (segment_regions baseLines mAl gAl segs)" for r
    using that c(3,4) chain_bounds [OF c(3)] Cons.prems(2)
    by (cases segs) (force simp: segment_regions_def segment_region_def)+
  show ?case
  proof (cases "kind s = KEqual")
    case True
    with Cons.IH [OF c(3) Cons.prems(2)] Cons.prems(2,3) x show ?thesis
      by (simp add: segment_regions_def)
  next
    case False
    have "coalesce_loop (segment_region baseLines mAl gAl x) (segment_regions baseLines mAl gAl segs) =
        segment_region baseLines mAl gAl x # segment_regions baseLines mAl gAl segs"
      by (rule Cons.IH [OF c(3) Cons.prems(2)]) (use rest x Cons.prems(2) in \<open>auto simp: segment_region_def\<close>)
    then show ?thesis using False Cons.prems x
      by (auto simp: segment_regions_def mergeable_def)
  qed
qed (simp add: segment_regions_def)

lemma coalesce_segments:
  "chain (kind_at mAl gAl) a segs b \<Longrightarrow>
   coalesceAdjacentRegions (segment_regions baseLines mAl gAl segs) = segment_regions baseLines mAl gAl segs"
proof (induction segs arbitrary: a)
  case (Cons x segs)
  obtain s e where x: "x = (s, e)" by (cases x)
  with Cons.prems have c: "s < e" "chain (kind_at mAl gAl) e segs b"
    "segs \<noteq> [] \<longrightarrow> kind_at mAl gAl e \<noteq> kind_at mAl gAl s" by auto
  show ?case
  proof (cases "kind_at mAl gAl s = KEqual")
    case True
    with Cons.IH [OF c(2)] x show ?thesis by (simp add: segment_regions_def)
  next
    case False
    have "startLine r = int e + 1 \<longrightarrow> conflictKind r \<noteq> kind_at mAl gAl s"
      if "r \<in> set (segment_regions baseLines mAl gAl segs)" for r
      using that c(2,3) chain_bounds [OF c(2)]
      by (cases segs) (force simp: segment_regions_def segment_region_def)+
    then have "coalesce_loop (segment_region baseLines mAl gAl x) (segment_regions baseLines mAl gAl segs) =
        segment_region baseLines mAl gAl x # segment_regions baseLines mAl gAl segs"
      using x by (intro coalesce_loop_segments [OF c(2) refl]) (auto simp: segment_region_def)
    then show ?thesis using False x by (simp add: segment_regions_def)
  qed
qed (simp add: segment_regions_def)

definition no_inserts :: "alignment \<Rightarrow> bool" where
  "no_inserts al \<longleftrightarrow> insertsByAnchor al = []"

lemma no_inserts_at: "no_inserts al \<Longrightarrow> inserts_at al a = []"
  by (simp add: no_inserts_def inserts_at_def)

lemma emit_no_inserts:
  "no_inserts mAl \<Longrightarrow> no_inserts gAl \<Longrightarrow> emit_inserts baseLines mAl gAl rs = rs"
  by (rule emit_inserts_induct) (simp_all add: no_inserts_at emitInsertRegion_def)

lemma detect_aligned_segments:
  assumes "aligned_to baseLines mAl" "aligned_to baseLines gAl" "no_inserts mAl" "no_inserts gAl"
  obtains segs where "chain (kind_at mAl gAl) 0 segs (length baseLines)"
    "detect_aligned baseLines mAl gAl = segment_regions baseLines mAl gAl segs"
proof -
  from detect_lines_segments [OF assms(1,2)] obtain segs where
    c: "chain (kind_at mAl gAl) 0 segs (length baseLines)"
    and d: "detect_lines baseLines mAl gAl = segment_regions baseLines mAl gAl segs" by blast
  from segment_regions_sorted [OF c] have
    "sort_key startLine (segment_regions baseLines mAl gAl segs) = segment_regions baseLines mAl gAl segs"
    by (simp add: sorted_sort_id sort_key_id_if_sorted)
  then have "detect_aligned baseLines mAl gAl = segment_regions baseLines mAl gAl segs"
    by (simp add: detect_aligned_def emit_no_inserts assms d coalesce_segments [OF c])
  with c that show ?thesis by blast
qed

text \<open>
  \<open>resolves f\<close>: the selections turn every region of the detection into the lines of \<open>f\<close>.  The
  merge is then the text of \<open>f\<close>, line by line.
\<close>

definition resolves ::
  "string list \<Rightarrow> alignment \<Rightarrow> alignment \<Rightarrow> selections \<Rightarrow> (conflict_region \<Rightarrow> string) \<Rightarrow> (nat \<Rightarrow> string) \<Rightarrow> bool" where
  "resolves baseLines mAl gAl sels regionId f \<longleftrightarrow>
     (\<forall>s e. s < e \<longrightarrow> e \<le> length baseLines \<longrightarrow> uniform (kind_at mAl gAl) s e \<longrightarrow>
        kind_at mAl gAl s \<noteq> KEqual \<longrightarrow>
        segment_region baseLines mAl gAl (s, e) \<in> set (detect_aligned baseLines mAl gAl) \<longrightarrow>
        chosenContentFor (segment_region baseLines mAl gAl (s, e)) sels regionId =
          Inr (joinWithNewline (map f [s..<e])))"

lemma chain_uniform: "chain kind a segs b \<Longrightarrow> (s, e) \<in> set segs \<Longrightarrow> uniform kind s e"
  by (induction kind a segs b rule: chain.induct) auto

lemma merge_lines:
  assumes al: "aligned_to baseLines mAl" "aligned_to baseLines gAl" "no_inserts mAl" "no_inserts gAl"
    and clean: "\<forall>i<length baseLines. newline \<notin> set (f i)"
    and eq: "\<forall>i<length baseLines. kind_at mAl gAl i = KEqual \<longrightarrow> f i = baseLines ! i"
    and res: "resolves baseLines mAl gAl sels regionId f"
  shows "\<exists>st. apply_regions baseLines sels regionId ([], 0) (sort_key startLine (detect_aligned baseLines mAl gAl)) =
      Inr st \<and> fst (flush_to baseLines (int (length baseLines)) st) = map f [0..<length baseLines]"
proof -
  from detect_aligned_segments [OF al] obtain segs where
    c: "chain (kind_at mAl gAl) 0 segs (length baseLines)"
    and d: "detect_aligned baseLines mAl gAl = segment_regions baseLines mAl gAl segs" .
  have w: "writes baseLines mAl gAl sels regionId f segs"
    unfolding writes_def
  proof clarify
    fix s e assume se: "(s, e) \<in> set segs"
    have u: "uniform (kind_at mAl gAl) s e" by (rule chain_uniform [OF c se])
    have b: "s < e" "e \<le> length baseLines" using chain_bounds [OF c se] by simp_all
    have "f i = baseLines ! i" if "kind_at mAl gAl s = KEqual" "s \<le> i" "i < e" for i
      using eq that b uniformD [OF u that(2,3)] by simp
    moreover have "segment_region baseLines mAl gAl (s, e) \<in> set (detect_aligned baseLines mAl gAl)"
      if "kind_at mAl gAl s \<noteq> KEqual"
      using se that by (auto simp: d segment_regions_def)
    ultimately show "if kind_at mAl gAl s = KEqual then \<forall>i. s \<le> i \<and> i < e \<longrightarrow> f i = baseLines ! i
        else chosenContentFor (segment_region baseLines mAl gAl (s, e)) sels regionId =
               Inr (joinWithNewline (map f [s..<e]))"
      using res b u unfolding resolves_def by simp
  qed
  from segment_regions_sorted [OF c] have
    "sort_key startLine (segment_regions baseLines mAl gAl segs) = segment_regions baseLines mAl gAl segs"
    by (simp add: sorted_sort_id sort_key_id_if_sorted)
  with apply_segments [OF c order_refl order_refl w clean] obtain idx where idx: "idx \<le> length baseLines"
    and ap: "apply_regions baseLines sels regionId ([], 0) (sort_key startLine (detect_aligned baseLines mAl gAl)) =
      Inr (map f [0..<idx], int idx)"
    and tail: "\<forall>i. idx \<le> i \<and> i < length baseLines \<longrightarrow> f i = baseLines ! i"
    by (auto simp: d)
  from tail have base: "map (\<lambda>k. baseLines ! k) [idx..<length baseLines] = map f [idx..<length baseLines]"
    by simp
  have up: "[0..<idx] @ [idx..<length baseLines] = [0..<length baseLines]"
    using idx upt_add_eq_append [of 0 idx "length baseLines - idx"] by simp
  have "map f [0..<idx] @ map (\<lambda>k. baseLines ! k) [idx..<length baseLines] = map f [0..<length baseLines]"
    by (simp only: base map_append [symmetric] up)
  then have "fst (flush_to baseLines (int (length baseLines)) (map f [0..<idx], int idx)) =
      map f [0..<length baseLines]"
    using flush_to_eq [of "int idx" "int (length baseLines)" baseLines] idx by simp
  with ap show ?thesis by blast
qed

section \<open>Merged texts\<close>

text \<open>A text file as an editor saves it: terminated, and its last line is not blank.\<close>

definition closed_text :: "string \<Rightarrow> bool" where
  "closed_text t \<longleftrightarrow> ends_with t [newline] \<and> last (splitLines t) \<noteq> []"

lemma js_join_last: "ls \<noteq> [] \<Longrightarrow> \<exists>p. js_join sep ls = p @ last ls"
proof (induction ls)
  case (Cons l ls)
  show ?case
  proof (cases "ls = []")
    case False
    with Cons.IH obtain p where "js_join sep ls = p @ last ls" by blast
    with False show ?thesis by (simp add: js_join_Cons)
  qed simp
qed simp

lemma closed_text_lines: "closed_text t \<Longrightarrow> splitLines t \<noteq> []"
  by (auto simp: closed_text_def ends_with_def suffix_def splitLines_terminated)

lemma finish_merge_closed:
  assumes "closed_text t" "ends_with b [newline]"
  shows "finish_merge b (splitLines t) = t"
proof -
  from assms(1) have t: "js_join [newline] (splitLines t) @ [newline] = t"
    using splitLines_recover [of t] by (simp add: closed_text_def)
  obtain p where p: "js_join [newline] (splitLines t) = p @ last (splitLines t)"
    using js_join_last [OF closed_text_lines [OF assms(1)]] by blast
  have "newline \<notin> set (last (splitLines t))"
    by (rule splitLines_clean) (rule last_in_set [OF closed_text_lines [OF assms(1)]])
  moreover have "last (splitLines t) \<noteq> []" using assms(1) by (simp add: closed_text_def)
  ultimately have "\<not> ends_with (js_join [newline] (splitLines t)) [newline]"
    unfolding p by (cases "last (splitLines t)" rule: rev_cases) (auto simp: ends_with_def suffix_def)
  with assms(2) t show ?thesis by (simp add: finish_merge_def Let_def)
qed

lemma closed_text_unique: "closed_text s \<Longrightarrow> closed_text t \<Longrightarrow> splitLines s = splitLines t \<Longrightarrow> s = t"
  using splitLines_recover [of s] splitLines_recover [of t] by (simp add: closed_text_def)

text \<open>A change that only rewrites lines: nothing inserted, nothing deleted.\<close>

definition line_for_line :: "string \<Rightarrow> string \<Rightarrow> bool" where
  "line_for_line b t \<longleftrightarrow>
     (let al = align_text (splitLines b) (splitLines t)
      in no_inserts al \<and> SDeleted \<notin> set (statusByBase al))"

lemma line_for_line_contents:
  assumes "line_for_line b t"
  shows "map (content_at (align_text (splitLines b) (splitLines t))) [0..<length (splitLines b)] = splitLines t"
proof -
  let ?al = "align_text (splitLines b) (splitLines t)"
  have len: "length (statusByBase ?al) = length (splitLines b)" by (simp add: myers.align_lengths)
  have nd: "statusByBase ?al ! i \<noteq> SDeleted" if "i < length (splitLines b)" for i
    using that assms len unfolding line_for_line_def Let_def by (metis nth_mem)
  have ni: "inserts_at ?al a = []" for a
    using assms by (simp add: line_for_line_def Let_def no_inserts_at)
  have "splitLines t = read_child ?al" by (simp add: myers.read_child_align)
  also have "\<dots> = concat (map (slot ?al) [0..<length (splitLines b)])"
    by (simp add: read_child_def read_upto_def ni len)
  also have "\<dots> = concat (map (\<lambda>i. [content_at ?al i]) [0..<length (splitLines b)])"
    by (rule arg_cong [of _ _ concat], rule map_cong [OF refl])
      (simp add: slot_def content_at_def slot_content_def nd)
  also have "\<dots> = map (content_at ?al) [0..<length (splitLines b)]"
    by (induction "[0..<length (splitLines b)]") simp_all
  finally show ?thesis by simp
qed


lemma content_at_clean: "i < length (splitLines b) \<Longrightarrow> line_for_line b t \<Longrightarrow>
   newline \<notin> set (content_at (align_text (splitLines b) (splitLines t)) i)"
  using line_for_line_contents [of b t] splitLines_clean [of _ t]
  by (metis (no_types, lifting) add.left_neutral diff_zero length_map length_upt nth_map nth_mem nth_upt)

text \<open>
  The buffer of a merge whose regions all resolve to lines \<open>f\<close>: the baseline when nothing is to be merged,
  otherwise the lines as \<open>finish_merge\<close> joins them.
\<close>

lemma merge_buffer:
  assumes ins: "no_inserts (align_text (splitLines b) (splitLines m))"
      "no_inserts (align_text (splitLines b) (splitLines g))"
    and clean: "\<forall>i<length (splitLines b). newline \<notin> set (f i)"
    and eq: "\<forall>i<length (splitLines b). kind_at (align_text (splitLines b) (splitLines m))
        (align_text (splitLines b) (splitLines g)) i = KEqual \<longrightarrow> f i = splitLines b ! i"
    and res: "resolves (splitLines b) (align_text (splitLines b) (splitLines m))
        (align_text (splitLines b) (splitLines g)) sels regionId f"
  shows "(detectConflicts b m g = [] \<longrightarrow> map f [0..<length (splitLines b)] = splitLines b) \<and>
    applyMergeSelections b (detectConflicts b m g) sels regionId =
      Inr (if detectConflicts b m g = [] then b else finish_merge b (map f [0..<length (splitLines b)]))"
proof -
  let ?b = "splitLines b"
  from merge_lines [OF aligned_to_align_text aligned_to_align_text ins clean eq res] obtain st where
    st: "apply_regions ?b sels regionId ([], 0) (sort_key startLine
        (detect_aligned ?b (align_text ?b (splitLines m)) (align_text ?b (splitLines g)))) = Inr st"
    and out: "fst (flush_to ?b (int (length ?b)) st) = map f [0..<length ?b]" by auto
  show ?thesis
  proof (cases "detectConflicts b m g = []")
    case True
    have "map f [0..<length ?b] = ?b"
      using detectConflicts_aligned [of b m g]
    proof (elim disjE conjE)
      assume "b = m" "b = g"
      then have "f i = ?b ! i" if "i < length ?b" for i
        using eq that by (simp add: kind_at_def classifyLine_def align_text_same)
      then have "map f [0..<length ?b] = map (\<lambda>i. ?b ! i) [0..<length ?b]" by simp
      then show ?thesis by (simp add: map_nth)
    next
      assume "detectConflicts b m g = detect_aligned ?b (align_text ?b (splitLines m)) (align_text ?b (splitLines g))"
      with True st have "st = ([], 0)" by simp
      with out flush_to_eq [of 0 "int (length ?b)" ?b "[]"] show ?thesis by (simp add: map_nth)
    qed
    with True show ?thesis by (simp add: applyMergeSelections_def)
  next
    case False
    with detectConflicts_aligned [of b m g] have
      "detectConflicts b m g = detect_aligned ?b (align_text ?b (splitLines m)) (align_text ?b (splitLines g))"
      by blast
    with False st out show ?thesis by (simp add: applyMergeSelections_def)
  qed
qed

lemma merge_text:
  assumes ins: "no_inserts (align_text (splitLines b) (splitLines m))"
      "no_inserts (align_text (splitLines b) (splitLines g))"
    and lines: "map f [0..<length (splitLines b)] = splitLines t"
    and eq: "\<forall>i<length (splitLines b). kind_at (align_text (splitLines b) (splitLines m))
        (align_text (splitLines b) (splitLines g)) i = KEqual \<longrightarrow> f i = splitLines b ! i"
    and res: "resolves (splitLines b) (align_text (splitLines b) (splitLines m))
        (align_text (splitLines b) (splitLines g)) sels regionId f"
    and closed: "closed_text b" "closed_text t"
  shows "applyMergeSelections b (detectConflicts b m g) sels regionId = Inr t"
proof -
  have "\<forall>i<length (splitLines b). newline \<notin> set (f i)"
    using lines splitLines_clean [of _ t]
    by (metis (no_types, lifting) add.left_neutral diff_zero length_map length_upt nth_map nth_mem nth_upt)
  from merge_buffer [OF ins this eq res] lines closed show ?thesis
    using closed_text_unique finish_merge_closed by (auto simp: closed_text_def split: if_splits)
qed

lemma changed_segment_detected:
  assumes "s < length (splitLines b)"
    and "kind_at (align_text (splitLines b) (splitLines m)) (align_text (splitLines b) (splitLines g)) s \<noteq> KEqual"
    and "r \<in> set (detect_aligned (splitLines b) (align_text (splitLines b) (splitLines m))
      (align_text (splitLines b) (splitLines g)))"
  shows "r \<in> set (detectConflicts b m g)"
  using assms detectConflicts_aligned [of b m g]
  by (auto simp: kind_at_def classifyLine_def align_text_same)

lemma resolves_side:
  assumes "\<And>r. r \<in> set (detectConflicts b m g) \<Longrightarrow> chosenContentFor r sels regionId = Inr (side r)"
    and "\<And>s e. side (segment_region (splitLines b) (align_text (splitLines b) (splitLines m))
        (align_text (splitLines b) (splitLines g)) (s, e)) = joinWithNewline (map f [s..<e])"
  shows "resolves (splitLines b) (align_text (splitLines b) (splitLines m))
      (align_text (splitLines b) (splitLines g)) sels regionId f"
  unfolding resolves_def
proof (intro allI impI)
  fix s e
  assume "s < e" "e \<le> length (splitLines b)"
    and a: "kind_at (align_text (splitLines b) (splitLines m)) (align_text (splitLines b) (splitLines g)) s \<noteq> KEqual"
      "segment_region (splitLines b) (align_text (splitLines b) (splitLines m))
         (align_text (splitLines b) (splitLines g)) (s, e)
       \<in> set (detect_aligned (splitLines b) (align_text (splitLines b) (splitLines m))
           (align_text (splitLines b) (splitLines g)))"
  then have "s < length (splitLines b)" by simp
  from assms(1) [OF changed_segment_detected [OF this a]] assms(2) show
    "chosenContentFor (segment_region (splitLines b) (align_text (splitLines b) (splitLines m))
       (align_text (splitLines b) (splitLines g)) (s, e)) sels regionId = Inr (joinWithNewline (map f [s..<e]))"
    by simp
qed

text \<open>Picking one side in every region gives that side's text.\<close>

lemma merge_all_manual:
  assumes "line_for_line b m" "no_inserts (align_text (splitLines b) (splitLines g))"
    and "closed_text b" "closed_text m"
    and "\<And>r. r \<in> set (detectConflicts b m g) \<Longrightarrow> chosenContentFor r sels regionId = Inr (manualContent r)"
  shows "applyMergeSelections b (detectConflicts b m g) sels regionId = Inr m"
proof (rule merge_text [OF _ assms(2) line_for_line_contents [OF assms(1)] _ _ assms(3,4)])
  show "no_inserts (align_text (splitLines b) (splitLines m))"
    using assms(1) by (simp add: line_for_line_def Let_def)
  show "resolves (splitLines b) (align_text (splitLines b) (splitLines m))
      (align_text (splitLines b) (splitLines g)) sels regionId
      (content_at (align_text (splitLines b) (splitLines m)))"
    by (rule resolves_side [OF assms(5)]) (simp_all add: segment_region_def)
qed (auto simp: kind_at_def classifyLine_def Let_def content_at_def slot_content_def
      myers.align_equal_line split: if_splits)

lemma merge_all_generator:
  assumes "line_for_line b g" "no_inserts (align_text (splitLines b) (splitLines m))"
    and "closed_text b" "closed_text g"
    and "\<And>r. r \<in> set (detectConflicts b m g) \<Longrightarrow> chosenContentFor r sels regionId = Inr (newGeneratorContent r)"
  shows "applyMergeSelections b (detectConflicts b m g) sels regionId = Inr g"
proof (rule merge_text [OF assms(2) _ line_for_line_contents [OF assms(1)] _ _ assms(3,4)])
  show "no_inserts (align_text (splitLines b) (splitLines g))"
    using assms(1) by (simp add: line_for_line_def Let_def)
  show "resolves (splitLines b) (align_text (splitLines b) (splitLines m))
      (align_text (splitLines b) (splitLines g)) sels regionId
      (content_at (align_text (splitLines b) (splitLines g)))"
    by (rule resolves_side [OF assms(5)]) (simp_all add: segment_region_def)
qed (auto simp: kind_at_def classifyLine_def Let_def content_at_def slot_content_def
      myers.align_equal_line split: if_splits)

lemma merge_all_baseline:
  assumes "no_inserts (align_text (splitLines b) (splitLines m))"
      "no_inserts (align_text (splitLines b) (splitLines g))" "closed_text b"
    and "\<And>r. r \<in> set (detectConflicts b m g) \<Longrightarrow> chosenContentFor r sels regionId = Inr (baselineContent r)"
  shows "applyMergeSelections b (detectConflicts b m g) sels regionId = Inr b"
  by (rule merge_text [where f = "\<lambda>i. splitLines b ! i"])
    (use assms in \<open>auto simp: map_nth segment_region_def intro!: resolves_side\<close>)

text \<open>Without picks: each line comes from the side that changed it.\<close>

definition merged_line :: "string \<Rightarrow> string \<Rightarrow> string \<Rightarrow> nat \<Rightarrow> string" where
  "merged_line b m g i =
     (let mAl = align_text (splitLines b) (splitLines m)
      in if statusByBase mAl ! i = SEqual then splitLines g ! i else splitLines m ! i)"

lemma line_for_line_nth:
  assumes "line_for_line b t" "i < length (splitLines b)"
  shows "content_at (align_text (splitLines b) (splitLines t)) i = splitLines t ! i"
  using line_for_line_contents [OF assms(1)] assms(2)
  by (metis (no_types, lifting) add.left_neutral diff_zero length_upt nth_map nth_upt)

text \<open>The lines of the three-way merge, and the buffer that the code makes of them.\<close>

definition merged_lines :: "string \<Rightarrow> string \<Rightarrow> string \<Rightarrow> string list" where
  "merged_lines b m g = map (merged_line b m g) [0..<length (splitLines b)]"

definition merged_text :: "string \<Rightarrow> string \<Rightarrow> string \<Rightarrow> string" where
  "merged_text b m g =
     (let ls = merged_lines b m g
      in if detectConflicts b m g = [] then b
         else js_join [newline] ls @
           (if ends_with b [newline] \<and> \<not> (1 < length ls \<and> last ls = []) then [newline] else []))"

lemma js_join_ends:
  assumes "\<forall>l\<in>set ls. newline \<notin> set l"
  shows "ends_with (js_join [newline] ls) [newline] \<longleftrightarrow> 1 < length ls \<and> last ls = []"
proof (cases ls rule: rev_cases)
  case Nil
  then show ?thesis by (simp add: ends_with_def suffix_def)
next
  case (snoc ks l)
  have l: "newline \<notin> set l" using assms snoc by simp
  show ?thesis
  proof (cases "l = []")
    case True
    then show ?thesis
      by (cases "ks = []") (simp_all add: snoc js_join_snoc_Nil ends_with_def suffix_def)
  next
    case False
    obtain p where "js_join [newline] ls = p @ l" using js_join_last [of ls "[newline]"] snoc by auto
    with False l show ?thesis
      by (cases l rule: rev_cases) (auto simp: snoc ends_with_def suffix_def)
  qed
qed

lemma finish_merge_text:
  assumes "\<forall>l\<in>set ls. newline \<notin> set l"
  shows "finish_merge b ls = js_join [newline] ls @
    (if ends_with b [newline] \<and> \<not> (1 < length ls \<and> last ls = []) then [newline] else [])"
  using js_join_ends [OF assms] by (auto simp: finish_merge_def Let_def)

lemma js_join_joined: "ls \<noteq> [] \<Longrightarrow> joinWithNewline ls = js_join [newline] ls @ [newline]"
proof (induction ls)
  case (Cons l ls)
  then show ?case by (cases "ls = []") (simp_all add: joinWithNewline_concat js_join_Cons)
qed simp

lemma line_for_line_length: "line_for_line b t \<Longrightarrow> length (splitLines t) = length (splitLines b)"
  by (drule line_for_line_contents) (metis diff_zero length_map length_upt)

lemma merged_lines_clean:
  assumes "line_for_line b m" "line_for_line b g"
  shows "\<forall>i<length (splitLines b). newline \<notin> set (merged_line b m g i)"
proof (intro allI impI)
  fix i assume i: "i < length (splitLines b)"
  have "i < length (splitLines m)" "i < length (splitLines g)"
    using assms i by (simp_all add: line_for_line_length)
  then have "newline \<notin> set (splitLines m ! i)" "newline \<notin> set (splitLines g ! i)"
    by (auto intro!: splitLines_clean nth_mem)
  then show "newline \<notin> set (merged_line b m g i)" by (simp add: merged_line_def Let_def)
qed

text \<open>Reading joined lines back: a blank last line is the one that is lost.\<close>

lemma splitLines_js_join:
  assumes "ls \<noteq> []" "\<forall>l\<in>set ls. newline \<notin> set l"
  shows "splitLines (js_join [newline] ls) = (if last ls = [] then butlast ls else ls)"
proof (cases "last ls = []")
  case True
  then obtain ks where ks: "ls = ks @ [[]]" using assms(1) by (metis append_butlast_last_id)
  show ?thesis
  proof (cases "ks = []")
    case False
    then have "js_join [newline] ls = joinWithNewline ks" by (simp add: ks js_join_snoc_Nil js_join_joined)
    then show ?thesis using assms(2) by (simp add: ks splitLines_join)
  qed (simp add: ks)
next
  case False
  then have "\<not> ends_with (js_join [newline] ls) [newline]" "js_join [newline] ls \<noteq> []"
    using js_join_ends [OF assms(2)] js_join_last [OF assms(1), of "[newline]"] by auto
  then show ?thesis using False js_split_join [OF assms] by (simp add: splitLines_unterminated)
qed

lemma splitLines_empty: "splitLines s = [] \<Longrightarrow> s = []"
proof (cases "ends_with s [newline]")
  case True
  then obtain t where "s = t @ [newline]" by (auto simp: ends_with_def suffix_def)
  then show "splitLines s = [] \<Longrightarrow> s = []" by (simp add: splitLines_terminated)
next
  case False
  then show "splitLines s = [] \<Longrightarrow> s = []" by (simp add: splitLines_unterminated split: if_splits)
qed

lemma merged_text_lines:
  assumes "line_for_line b m" "line_for_line b g"
    and same: "detectConflicts b m g = [] \<Longrightarrow> merged_lines b m g = splitLines b"
  shows "splitLines (merged_text b m g) = merged_lines b m g \<longleftrightarrow>
    detectConflicts b m g = [] \<or> last (merged_lines b m g) \<noteq> [] \<or>
    ends_with b [newline] \<and> length (merged_lines b m g) = 1"
proof (cases "detectConflicts b m g = []")
  case True
  then show ?thesis using same by (simp add: merged_text_def)
next
  case False
  let ?ls = "merged_lines b m g"
  have clean: "\<forall>l\<in>set ?ls. newline \<notin> set l"
    using merged_lines_clean [OF assms(1,2)] by (auto simp: merged_lines_def)
  have ls: "?ls \<noteq> []"
  proof
    assume "?ls = []"
    then have "splitLines b = []" by (simp add: merged_lines_def)
    then have "b = []" "m = []" "g = []"
      using line_for_line_length [OF assms(1)] line_for_line_length [OF assms(2)] splitLines_empty by auto
    with False show False by (simp add: detectConflicts_def)
  qed
  have short: "butlast ?ls \<noteq> ?ls" using ls by (metis append_butlast_last_id self_append_conv not_Cons_self2)
  have one: "length ?ls = 1 \<or> 1 < length ?ls" using ls by (cases ?ls) auto
  show ?thesis
  proof (cases "ends_with b [newline] \<and> \<not> (1 < length ?ls \<and> last ?ls = [])")
    case True
    then have "merged_text b m g = joinWithNewline ?ls"
      using False by (simp add: merged_text_def Let_def js_join_joined [OF ls])
    then show ?thesis using True one splitLines_join [OF clean] by auto
  next
    case unended: False
    then have "merged_text b m g = js_join [newline] ?ls" using False by (simp add: merged_text_def Let_def)
    then show ?thesis using unended False one short splitLines_js_join [OF ls clean] by auto
  qed
qed

lemma merge_automatic:
  assumes "line_for_line b m" "line_for_line b g"
    and "\<And>r. r \<in> set (detectConflicts b m g) \<Longrightarrow> conflictKind r \<noteq> KConflict"
  shows "(detectConflicts b m g = [] \<longrightarrow> merged_lines b m g = splitLines b) \<and>
    applyMergeSelections b (detectConflicts b m g) [] regionId = Inr (merged_text b m g)"
proof -
  let ?b = "splitLines b"
  let ?mAl = "align_text ?b (splitLines m)" and ?gAl = "align_text ?b (splitLines g)"
  have ins: "no_inserts ?mAl" "no_inserts ?gAl"
    using assms(1,2) by (simp_all add: line_for_line_def Let_def)
  note nth = line_for_line_nth [OF assms(1)] line_for_line_nth [OF assms(2)]
  have chosen: "joinWithNewline (map (merged_line b m g) [s..<e]) =
      (if kind_at ?mAl ?gAl s = KNewGeneratorOnly then joinWithNewline (map (content_at ?gAl) [s..<e])
       else joinWithNewline (map (content_at ?mAl) [s..<e]))"
    if "e \<le> length ?b" "uniform (kind_at ?mAl ?gAl) s e" "kind_at ?mAl ?gAl s \<noteq> KEqual" for s e
  proof -
    note segment = that
    have "merged_line b m g i =
        (if kind_at ?mAl ?gAl s = KNewGeneratorOnly then content_at ?gAl i else content_at ?mAl i)"
      if i: "s \<le> i" "i < e" for i
      using uniformD [OF segment(2) i] segment(1,3) i(2) nth [of i]
      by (auto simp: merged_line_def Let_def kind_at_def classifyLine_def split: if_splits)
    then show ?thesis by (auto intro!: arg_cong [of _ _ joinWithNewline])
  qed
  have lines: "\<forall>l\<in>set (merged_lines b m g). newline \<notin> set l"
    using merged_lines_clean [OF assms(1,2)] by (auto simp: merged_lines_def)
  have "(detectConflicts b m g = [] \<longrightarrow> merged_lines b m g = ?b) \<and>
    applyMergeSelections b (detectConflicts b m g) [] regionId =
      Inr (if detectConflicts b m g = [] then b else finish_merge b (merged_lines b m g))"
    unfolding merged_lines_def
  proof (rule merge_buffer [OF ins merged_lines_clean [OF assms(1,2)]])
    have "splitLines g ! i = ?b ! i" if "i < length ?b" "statusByBase ?gAl ! i = SEqual" for i
      using nth(2) [OF that(1)] that by (simp add: content_at_def slot_content_def myers.align_equal_line)
    then show "\<forall>i<length ?b. kind_at ?mAl ?gAl i = KEqual \<longrightarrow> merged_line b m g i = ?b ! i"
      by (auto simp: merged_line_def Let_def kind_at_def classifyLine_def split: if_splits)
    show "resolves ?b ?mAl ?gAl [] regionId (merged_line b m g)"
      unfolding resolves_def
    proof (intro allI impI)
      fix s e assume a: "s < e" "e \<le> length ?b" "uniform (kind_at ?mAl ?gAl) s e"
        "kind_at ?mAl ?gAl s \<noteq> KEqual"
        and r: "segment_region ?b ?mAl ?gAl (s, e) \<in> set (detect_aligned ?b ?mAl ?gAl)"
      from assms(3) [OF changed_segment_detected [OF _ a(4) r]] a(1,2) have "kind_at ?mAl ?gAl s \<noteq> KConflict"
        by (simp add: segment_region_def)
      moreover have "kind_at ?mAl ?gAl s \<noteq> KBaselineOnly" by (simp add: kind_at_def classifyLine_def Let_def)
      ultimately show "chosenContentFor (segment_region ?b ?mAl ?gAl (s, e)) [] regionId =
          Inr (joinWithNewline (map (merged_line b m g) [s..<e]))"
        unfolding chosen [OF a(2-4)] using a(4)
        by (cases "kind_at ?mAl ?gAl s") (auto simp: segment_region_def chosenContentFor_def)
    qed
  qed
  then show ?thesis by (simp add: merged_text_def Let_def finish_merge_text [OF lines])
qed

end
