(* ===== verification/Merge_Properties.thy ===== *)
theory Merge_Properties
  imports Merge_Apply
begin

text \<open>
  The properties of the line diff, of conflict detection and of merge application, and the inputs
  on which the coalescing and the placing of insertions change the merged text.
\<close>

section \<open>Coverage\<close>

lemma coalesce_loop_covers:
  "region_ok p \<Longrightarrow> \<forall>r\<in>set rs. region_ok r \<Longrightarrow> r \<in> set (p # rs) \<Longrightarrow>
   \<exists>r'\<in>set (coalesce_loop p rs). conflictKind r' = conflictKind r \<and>
     startLine r' \<le> startLine r \<and> endLine r \<le> endLine r'"
proof (induction p rs arbitrary: r rule: coalesce_loop.induct)
  case (1 p)
  then show ?case by simp
next
  case (2 p q rest)
  show ?case
  proof (cases "mergeable p q")
    case True
    have ok: "region_ok (merge_regions p q)" using 2 True by (simp add: merge_regions_ok)
    have *: "r \<in> set (p # q # rest) \<Longrightarrow> \<exists>r''\<in>set (merge_regions p q # rest).
      conflictKind r'' = conflictKind r \<and> startLine r'' \<le> startLine r \<and> endLine r \<le> endLine r''"
      using 2 True by (auto simp: merge_regions_def mergeable_def region_ok_def)
    then obtain r'' where r'': "r'' \<in> set (merge_regions p q # rest)" "conflictKind r'' = conflictKind r"
      "startLine r'' \<le> startLine r" "endLine r \<le> endLine r''" using 2 by blast
    from 2(1) [OF True ok _ r''(1)] 2 True r'' show ?thesis by fastforce
  next
    case False
    then show ?thesis using 2 by fastforce
  qed
qed

lemma coalesce_covers:
  "\<forall>r\<in>set rs. region_ok r \<Longrightarrow> r \<in> set rs \<Longrightarrow>
   \<exists>r'\<in>set (coalesceAdjacentRegions rs). conflictKind r' = conflictKind r \<and>
     startLine r' \<le> startLine r \<and> endLine r \<le> endLine r'"
  by (cases rs) (use coalesce_loop_covers in auto)

lemma emit_inserts_keeps: "r \<in> set rs \<Longrightarrow> r \<in> set (emit_inserts baseLines mAl gAl rs)"
  by (rule emit_inserts_induct) (auto simp: emitInsertRegion_def Let_def)

lemma detect_aligned_covers:
  assumes al: "aligned_to baseLines mAl" "aligned_to baseLines gAl"
    and i: "i < length baseLines" "kind_at mAl gAl i \<noteq> KEqual"
  shows "\<exists>r\<in>set (detect_aligned baseLines mAl gAl). conflictKind r = kind_at mAl gAl i \<and>
    startLine r \<le> int i + 1 \<and> int i + 1 \<le> endLine r"
proof -
  from detect_lines_segments [OF al] obtain segs where
    c: "chain (kind_at mAl gAl) 0 segs (length baseLines)"
    and d: "detect_lines baseLines mAl gAl = segment_regions baseLines mAl gAl segs" by blast
  from chain_covers [OF c _ i(1)] obtain s e where se: "(s, e) \<in> set segs" "s \<le> i" "i < e"
    "kind_at mAl gAl i = kind_at mAl gAl s" by blast
  let ?r = "segment_region baseLines mAl gAl (s, e)"
  let ?all = "emit_inserts baseLines mAl gAl (detect_lines baseLines mAl gAl)"
  have "?r \<in> set (detect_lines baseLines mAl gAl)"
    using se i(2) by (auto simp: d segment_regions_def)
  then have r: "?r \<in> set (sort_key startLine ?all)" by (simp add: emit_inserts_keeps)
  have "\<forall>r\<in>set ?all. region_ok r"
    by (rule emit_inserts_induct) (use detect_lines_ok [OF al] in \<open>simp_all add: emitInsertRegion_ok\<close>)
  then have "\<forall>r\<in>set (sort_key startLine ?all). region_ok r" by simp
  from coalesce_covers [OF this r] se show ?thesis
    by (fastforce simp: detect_aligned_def segment_region_def)
qed

section \<open>Properties of the diff\<close>

text \<open>
  C1: the Myers diff of any two line arrays is an edit script from the first to the second, its
  cost is their edit distance, and no edit script is cheaper.
\<close>

theorem diff_minimal_script:
  "edit_script base child (myersDiff base child) \<and>
   edit_cost (myersDiff base child) = edit_distance base child \<and>
   (\<forall>ops. edit_script base child ops \<longrightarrow> edit_cost (myersDiff base child) \<le> edit_cost ops)"
  using myersDiff_script_cost myersDiff_minimal by blast

lemma diff_minimal_script_witness:
  "edit_script [''a'', ''b''] [''b'', ''c''] [DDelete 0, DEqual 1 0, DInsert 1] \<and>
   edit_cost (myersDiff [''a'', ''b''] [''b'', ''c'']) \<le> 2"
proof -
  have "edit_script [''a'', ''b''] [''b'', ''c''] [DDelete 0, DEqual 1 0, DInsert 1]"
    by code_simp
  moreover from this have "edit_cost (myersDiff [''a'', ''b''] [''b'', ''c'']) \<le>
      edit_cost [DDelete 0, DEqual 1 0, DInsert 1]"
    using diff_minimal_script [of "[''a'', ''b'']" "[''b'', ''c'']"] by blast
  ultimately show ?thesis by (simp add: edit_cost_def)
qed

text \<open>
  The alignment of a child text over the baseline loses no line: reading the changed lines and
  the inserted lines in order gives the child text back.
\<close>

lemma alignment_reads_back:
  "read_child (buildAlignment base (myersDiff base child) child) = child"
  by (rule myers.read_child_align)

section \<open>Properties of conflict detection\<close>

text \<open>
  C2: the regions of a detection are sorted by their first line, each has a non-empty range from
  line 1 on, the suggestion and the pick flag that its kind demands, and asks the user exactly when
  it is a conflict.
\<close>

theorem conflicts_well_formed:
  "sorted (map startLine (detectConflicts b m g)) \<and>
   (\<forall>r\<in>set (detectConflicts b m g). region_ok r \<and> (needsUserPick r \<longleftrightarrow> conflictKind r = KConflict))"
proof -
  have "sorted (map startLine (detectConflicts b m g))"
    using detectConflicts_aligned [of b m g] detect_aligned_sorted by auto
  moreover have "needsUserPick r \<longleftrightarrow> conflictKind r = KConflict" if "region_ok r" for r
    using that by (cases "conflictKind r") (auto simp: region_ok_def)
  ultimately show ?thesis using detectConflicts_ok by blast
qed

lemma conflicts_well_formed_witness:
  "\<exists>r. r \<in> set (detectConflicts ''a'' ''b'' ''c'') \<and> needsUserPick r \<and> conflictKind r = KConflict"
proof -
  have "conflictKind (hd (detectConflicts ''a'' ''b'' ''c'')) = KConflict"
    "detectConflicts ''a'' ''b'' ''c'' \<noteq> []" by code_simp+
  with conflicts_well_formed [of "''a''" "''b''" "''c''"] show ?thesis by (meson list.set_sel(1))
qed

text \<open>
  C3: every baseline line that one of the two children changed lies in a region of the kind that
  its two alignments give it.
\<close>

theorem conflicts_cover_changes:
  assumes "i < length (splitLines b)"
    and "kind_at (align_text (splitLines b) (splitLines m)) (align_text (splitLines b) (splitLines g)) i \<noteq> KEqual"
  shows "\<exists>r\<in>set (detectConflicts b m g).
    conflictKind r = kind_at (align_text (splitLines b) (splitLines m)) (align_text (splitLines b) (splitLines g)) i \<and>
    startLine r \<le> int i + 1 \<and> int i + 1 \<le> endLine r"
  using detect_aligned_covers [OF aligned_to_align_text aligned_to_align_text assms]
    changed_segment_detected [OF assms] by blast

lemma conflicts_cover_changes_witness:
  "\<exists>r\<in>set (detectConflicts ''a'' ''b'' ''a''). conflictKind r = KManualOnly \<and> startLine r \<le> 1"
proof -
  have "(0::nat) < length (splitLines ''a'')"
    "kind_at (align_text (splitLines ''a'') (splitLines ''b'')) (align_text (splitLines ''a'') (splitLines ''a'')) 0
      = KManualOnly" by code_simp+
  with conflicts_cover_changes [of 0 "''a''" "''b''" "''a''"] show ?thesis by auto
qed

text \<open>
  A change on one side only never becomes a conflict: against an unchanged generator output
  every region is manual only, against an untouched buffer every region is generator only, and
  equal changes on both sides are agreed.
\<close>

lemma one_sided_changes:
  "(\<forall>r\<in>set (detectConflicts b m b). conflictKind r = KManualOnly) \<and>
   (\<forall>r\<in>set (detectConflicts b b g). conflictKind r = KNewGeneratorOnly) \<and>
   (\<forall>r\<in>set (detectConflicts b m m). conflictKind r = KAgreed)"
  using unchanged_generator_kinds unchanged_manual_kinds same_change_kinds by blast

lemma one_sided_changes_witness:
  "conflictKind (hd (detectConflicts ''a'' ''b'' ''a'')) = KManualOnly"
proof -
  have "detectConflicts ''a'' ''b'' ''a'' \<noteq> []" by code_simp
  with one_sided_changes [of "''a''" "''b''" "''a''"] show ?thesis by (meson list.set_sel(1))
qed

section \<open>Properties of merge application\<close>

text \<open>
  C4: applying a merge to detected regions fails exactly when some conflict has no pick, and then
  with the error that names the first such region in line order; no other region needs a pick.
\<close>

theorem merge_refused_iff:
  "((\<exists>out. applyMergeSelections b (detectConflicts b m g) sels regionId = Inr out) \<longleftrightarrow>
    (\<forall>r\<in>set (detectConflicts b m g). conflictKind r = KConflict \<longrightarrow> js_get sels (regionId r) \<noteq> None)) \<and>
   (\<forall>err. applyMergeSelections b (detectConflicts b m g) sels regionId = Inl err \<longrightarrow>
     (\<exists>r\<in>set (detectConflicts b m g). conflictKind r = KConflict \<and> js_get sels (regionId r) = None \<and>
       err = UnresolvedMergeConflict (regionId r) (startLine r) (endLine r)))"
proof -
  have un: "unresolved sels regionId r \<longleftrightarrow> conflictKind r = KConflict \<and> js_get sels (regionId r) = None"
    if "r \<in> set (detectConflicts b m g)" for r
    using detectConflicts_ok [OF that] by (cases "conflictKind r") (auto simp: region_ok_def unresolved_def)
  have "\<exists>r\<in>set (detectConflicts b m g). unresolved sels regionId r \<and>
      err = UnresolvedMergeConflict (regionId r) (startLine r) (endLine r)"
    if e: "applyMergeSelections b (detectConflicts b m g) sels regionId = Inl err" for err
  proof (cases "find (unresolved sels regionId) (sort_key startLine (detectConflicts b m g))")
    case None
    with e applyMerge_result [where sels = sels and regionId = regionId and
        regions = "detectConflicts b m g" and baseline = b] show ?thesis by simp
  next
    case (Some r)
    then have "r \<in> set (sort_key startLine (detectConflicts b m g))" "unresolved sels regionId r"
      by (metis find_Some_iff nth_mem)+
    with Some e applyMerge_result [where sels = sels and regionId = regionId and
        regions = "detectConflicts b m g" and baseline = b] show ?thesis by auto
  qed
  with un applyMerge_total_iff show ?thesis by (metis (no_types, lifting))
qed

lemma merge_refused_iff_witness:
  "applyMergeSelections ''a'' (detectConflicts ''a'' ''b'' ''c'') [(''conflict:1-1'', UseManual)] defaultRegionId
    = Inr ''b'' \<and>
   (\<exists>err. applyMergeSelections ''a'' (detectConflicts ''a'' ''b'' ''c'') [] defaultRegionId = Inl err)"
proof -
  have "\<not> (\<forall>r\<in>set (detectConflicts ''a'' ''b'' ''c''). conflictKind r = KConflict \<longrightarrow>
      js_get ([] :: selections) (defaultRegionId r) \<noteq> None)" by code_simp
  with merge_refused_iff [of "''a''" "''b''" "''c''" "[]" defaultRegionId] have
    "\<not> (\<exists>out. applyMergeSelections ''a'' (detectConflicts ''a'' ''b'' ''c'') [] defaultRegionId = Inr out)" by blast
  then have "\<exists>err. applyMergeSelections ''a'' (detectConflicts ''a'' ''b'' ''c'') [] defaultRegionId = Inl err"
    by (cases "applyMergeSelections ''a'' (detectConflicts ''a'' ''b'' ''c'') [] defaultRegionId") auto
  moreover have "applyMergeSelections ''a'' (detectConflicts ''a'' ''b'' ''c'')
      [(''conflict:1-1'', UseManual)] defaultRegionId = Inr ''b''" by code_simp
  ultimately show ?thesis by blast
qed

text \<open>Concrete texts, one line per list element.\<close>

definition text_of :: "string list \<Rightarrow> string" where
  "text_of ls = concat (map (\<lambda>l. l @ [newline]) ls)"



text \<open>
  A merge that loses text: the user rewrites the first line of a baseline that ends with a blank line,
  the generator changes nothing, and the blank line is gone from the buffer.
\<close>

lemma merge_drops_a_blank_line:
  "let b = text_of [''a'', []]; m = text_of [''A'', []]
   in line_for_line b m \<and> line_for_line b b \<and>
     (\<forall>r\<in>set (detectConflicts b m b). conflictKind r \<noteq> KConflict) \<and>
     applyMergeSelections b (detectConflicts b m b) [] defaultRegionId = Inr (text_of [''A''])"
  unfolding Let_def by (intro conjI) code_simp+

text \<open>
  Picking the manual side in every region of a detection gives the manual buffer back, and
  picking the generator side gives the generator's output, when that side only rewrites lines and the
  other inserts none.
\<close>

lemma merge_picks_one_side:
  assumes "line_for_line b t" "no_inserts (align_text (splitLines b) (splitLines other))"
    and "closed_text b" "closed_text t"
  shows "((\<forall>r\<in>set (detectConflicts b t other). js_get sels (regionId r) = Some UseManual) \<longrightarrow>
      applyMergeSelections b (detectConflicts b t other) sels regionId = Inr t) \<and>
    ((\<forall>r\<in>set (detectConflicts b other t). js_get sels (regionId r) = Some UseNewGenerator) \<longrightarrow>
      applyMergeSelections b (detectConflicts b other t) sels regionId = Inr t)"
  using merge_all_manual [OF assms] merge_all_generator [OF assms]
  by (auto simp: chosenContentFor_def)

lemma merge_picks_one_side_witness:
  "applyMergeSelections (text_of [''a'', ''b''])
     (detectConflicts (text_of [''a'', ''b'']) (text_of [''a'', ''M'']) (text_of [''a'', ''G'']))
     [(''conflict:2-2'', UseManual)] defaultRegionId = Inr (text_of [''a'', ''M''])"
proof -
  have "\<forall>r\<in>set (detectConflicts (text_of [''a'', ''b'']) (text_of [''a'', ''M'']) (text_of [''a'', ''G''])).
      js_get [(''conflict:2-2'', UseManual)] (defaultRegionId r) = Some UseManual" by code_simp
  moreover have "line_for_line (text_of [''a'', ''b'']) (text_of [''a'', ''M''])"
    "no_inserts (align_text (splitLines (text_of [''a'', ''b''])) (splitLines (text_of [''a'', ''G''])))"
    "closed_text (text_of [''a'', ''b''])" "closed_text (text_of [''a'', ''M''])" by code_simp+
  ultimately show ?thesis using merge_picks_one_side by blast
qed

text \<open>
  Picking the baseline in every region undoes both sides' line changes and gives the baseline back.
\<close>

lemma merge_picks_baseline:
  assumes "no_inserts (align_text (splitLines b) (splitLines m))"
    and "no_inserts (align_text (splitLines b) (splitLines g))" "closed_text b"
    and "\<forall>r\<in>set (detectConflicts b m g). js_get sels (regionId r) = Some UseBaseline"
  shows "applyMergeSelections b (detectConflicts b m g) sels regionId = Inr b"
  using merge_all_baseline [OF assms(1-3)] assms(4) by (auto simp: chosenContentFor_def)

lemma merge_picks_baseline_example:
  "applyMergeSelections (text_of [''a'', ''b''])
     (detectConflicts (text_of [''a'', ''b'']) (text_of [''a'']) (text_of [''a'', ''G'']))
     [(''conflict:2-2'', UseBaseline)] defaultRegionId = Inr (text_of [''a'', ''b''])"
  by (rule merge_picks_baseline) code_simp+

section \<open>Where the merged buffer is not the picked text\<close>

text \<open>
  The merged buffer is not always the picked text.  A buffer whose generator output did not
  change should come back as it is, without any pick; but a line rewritten and followed by an
  insertion is coalesced into a region over two baseline lines and the second baseline line is
  dropped, a deleted line comes back as a blank line, and a line inserted in the middle is written at
  the top.  (A blank last line is lost as well: \<open>merge_drops_a_blank_line\<close>.)
\<close>

lemma merge_changes_the_buffer:
  "(let b = text_of [''a'', ''b'']; m = text_of [''A'', ''X'', ''b'']
    in applyMergeSelections b (detectConflicts b m b) [] defaultRegionId = Inr (text_of [''A'', ''X''])) \<and>
   (let b = text_of [''a'', ''b'', ''c'']; m = text_of [''a'', ''c'']
    in applyMergeSelections b (detectConflicts b m b) [] defaultRegionId = Inr (text_of [''a'', [], ''c''])) \<and>
   (let b = text_of [''a'', ''b'', ''c'']; m = text_of [''a'', ''b'', ''X'', ''c'']
    in applyMergeSelections b (detectConflicts b m b) [] defaultRegionId =
         Inr (text_of [''X'', ''a'', ''b'', ''c'']))"
  by (intro conjI) code_simp+

end
