(* ===== verification/Java_Types.thy ===== *)
theory Java_Types
  imports C2c_Prelude
begin

text \<open>
  The region records of \<open>types/api.ts\<close> that the overlay, trust, lineage and editor components
  exchange.  Line ranges are 1-based and inclusive.
\<close>

datatype origin_class = Deterministic | AgentProposed | RepairAttempted | ManualModified | ManualEdit

datatype verification_outcome = OraclePassed | OracleFailed | NoOracle

datatype mapping_class = Direct | Aggregated | Synthesized | AgentOriginated

record line_range =
  rangeStart :: int
  rangeEnd :: int

abbreviation line_range :: "int \<Rightarrow> int \<Rightarrow> line_range" where
  "line_range s e \<equiv> \<lparr>rangeStart = s, rangeEnd = e\<rparr>"

record edit_author =
  authorUserId :: string
  authorTenantId :: string

record origin_region =
  lineRange :: line_range
  originClass :: origin_class
  verificationOutcome :: "verification_outcome option"
  mappingClass :: "mapping_class option"
  generatorBaselineRunId :: "string option"
  generatorBaselineRegionHash :: "string option"
  lastModifiedAt :: "string option"
  lastModifiedBy :: "edit_author option"
  manualEditCount :: "int option"

text \<open>A region as the in-memory overlay makes it: range and class only.\<close>

definition plain_region :: "line_range \<Rightarrow> origin_class \<Rightarrow> origin_region" where
  "plain_region rng cls =
     \<lparr>lineRange = rng, originClass = cls, verificationOutcome = None, mappingClass = None,
      generatorBaselineRunId = None, generatorBaselineRegionHash = None, lastModifiedAt = None,
      lastModifiedBy = None, manualEditCount = None\<rparr>"

lemma plain_region_simps [simp]:
  "lineRange (plain_region rng cls) = rng" "originClass (plain_region rng cls) = cls"
  "verificationOutcome (plain_region rng cls) = None" "mappingClass (plain_region rng cls) = None"
  by (simp_all add: plain_region_def)

record origin_overlay =
  overlayRunId :: string
  overlayJavaFile :: string
  overlayRegions :: "origin_region list"

record region_classification =
  clsRange :: line_range
  clsOrigin :: origin_class
  clsOutcome :: verification_outcome
  clsMapping :: mapping_class

text \<open>Does a range hold a line?\<close>

definition in_range :: "int \<Rightarrow> line_range \<Rightarrow> bool" where
  "in_range line rng \<longleftrightarrow> rangeStart rng \<le> line \<and> line \<le> rangeEnd rng"

definition is_manual :: "origin_class \<Rightarrow> bool" where
  "is_manual cls \<longleftrightarrow> cls = ManualModified \<or> cls = ManualEdit"

end
