(* ===== verification/Manual_Overlay.thy ===== *)
theory Manual_Overlay
  imports Java_Types Alignment
begin

text \<open>
  \<open>manualEditOverlay.ts\<close>: the regions of the current buffer that diverge from the Generator
  Baseline.  Its \<open>splitLines\<close> and \<open>myersDiff\<close> are the ones of \<open>conflictDetection.ts\<close>, written out
  a second time (its extra array \<open>v\<close> is written and never read).
\<close>

section \<open>The code\<close>

fun insert_index :: "diff_op \<Rightarrow> nat list" where
  "insert_index (DInsert c) = [c]"
| "insert_index _ = []"

fun is_delete :: "diff_op \<Rightarrow> bool" where
  "is_delete (DDelete _) = True"
| "is_delete _ = False"

text \<open>
  The outer loop; the inner loop collects the run of operations that are not equal.
  \<open>hasInsert\<close> holds exactly when the run has an insert operation.
\<close>

function opsToRegions :: "diff_op list \<Rightarrow> origin_region list" where
  "opsToRegions [] = []"
| "opsToRegions (op # ops) =
     (if \<not> is_edit op then opsToRegions ops
      else let run = takeWhile is_edit (op # ops);
               rest = dropWhile is_edit (op # ops);
               insertOps = concat (map insert_index run);
               hasDelete = list_ex is_delete run
           in if insertOps = [] then opsToRegions rest
              else plain_region (line_range (int (hd insertOps) + 1) (int (last insertOps) + 1))
                     (if hasDelete then ManualModified else ManualEdit)
                   # opsToRegions rest)"
  by pat_completeness auto
termination
  by (relation "measure length") (auto simp: le_imp_less_Suc length_dropWhile_le)

definition computeManualEditOverlay :: "string \<Rightarrow> string \<Rightarrow> string \<Rightarrow> string \<Rightarrow> origin_overlay option" where
  "computeManualEditOverlay baselineContent currentContent runId javaFile =
     (if baselineContent = currentContent then None
      else let baseLines = splitLines baselineContent; curLines = splitLines currentContent
           in if curLines = [] then None
              else if baseLines = [] then
                Some \<lparr>overlayRunId = runId, overlayJavaFile = javaFile,
                      overlayRegions = [plain_region (line_range 1 (int (length curLines))) ManualEdit]\<rparr>
              else
                Some \<lparr>overlayRunId = runId, overlayJavaFile = javaFile,
                      overlayRegions = opsToRegions (myersDiff baseLines curLines)\<rparr>)"

section \<open>The regions of an edit script\<close>

text \<open>A run of insertions and deletions inserts consecutive lines.\<close>

lemma run_inserts:
  "walk_script base child run (i, j) = Some (i', j') \<Longrightarrow> \<forall>op\<in>set run. is_edit op \<Longrightarrow>
   i \<le> i' \<and> j \<le> j' \<and> concat (map insert_index run) = [j..<j']"
proof (induction run arbitrary: i j)
  case (Cons op run)
  from Cons.prems obtain i1 j1 where
    s: "script_step base child op (i, j) = Some (i1, j1)"
    and w: "walk_script base child run (i1, j1) = Some (i', j')"
    by (auto split: option.splits)
  from Cons.IH [OF w] Cons.prems(2) have ih: "i1 \<le> i'" "j1 \<le> j'" "concat (map insert_index run) = [j1..<j']"
    by simp_all
  from s ih Cons.prems(2) show ?case
    by (cases op) (auto simp: upt_conv_Cons split: if_splits)
qed simp

lemma run_delete:
  "walk_script base child run (i, j) = Some (i', j') \<Longrightarrow> \<forall>op\<in>set run. is_edit op \<Longrightarrow>
   list_ex is_delete run \<longleftrightarrow> i < i'"
proof (induction run arbitrary: i j)
  case (Cons op run)
  from Cons.prems obtain i1 j1 where
    s: "script_step base child op (i, j) = Some (i1, j1)"
    and w: "walk_script base child run (i1, j1) = Some (i', j')"
    by (auto split: option.splits)
  from run_inserts [OF w] Cons.prems(2) have "i1 \<le> i'" by simp
  with s Cons.IH [OF w] Cons.prems(2) show ?case
    by (cases op) (auto split: if_splits)
qed simp

text \<open>
  \<open>marks regions ops j j'\<close>: between the child lines \<open>j\<close> and \<open>j'\<close> the regions are in order with a
  gap between neighbours, stay inside the lines, and hold exactly the inserted lines.
\<close>

definition marks :: "origin_region list \<Rightarrow> diff_op list \<Rightarrow> nat \<Rightarrow> nat \<Rightarrow> bool" where
  "marks regions ops j j' \<longleftrightarrow>
     sorted_wrt (\<lambda>r s. rangeEnd (lineRange r) + 1 < rangeStart (lineRange s)) regions \<and>
     (\<forall>r\<in>set regions. int j + 1 \<le> rangeStart (lineRange r) \<and>
        rangeStart (lineRange r) \<le> rangeEnd (lineRange r) \<and> rangeEnd (lineRange r) \<le> int j') \<and>
     (\<forall>t. DInsert t \<in> set ops \<longleftrightarrow> (\<exists>r\<in>set regions. in_range (int t + 1) (lineRange r)))"

lemma marks_cong:
  "(\<And>t. DInsert t \<in> set ops \<longleftrightarrow> DInsert t \<in> set ops') \<Longrightarrow> marks regions ops = marks regions ops'"
  by (simp add: marks_def fun_eq_iff)

lemma insert_index_in: "t \<in> set (concat (map insert_index ops)) \<longleftrightarrow> DInsert t \<in> set ops"
proof (induction ops)
  case (Cons op ops)
  then show ?case by (cases op) auto
qed simp

lemma walk_mono: "walk_script base child ops (i, j) = Some (i', j') \<Longrightarrow> i \<le> i' \<and> j \<le> j'"
proof (induction ops arbitrary: i j)
  case (Cons op ops)
  then obtain i1 j1 where "script_step base child op (i, j) = Some (i1, j1)"
    and w: "walk_script base child ops (i1, j1) = Some (i', j')"
    by (auto split: option.splits)
  with Cons.IH [OF w] show ?case by (cases op) (auto split: if_splits)
qed simp

lemma walk_split:
  assumes "walk_script base child ops (i, j) = Some (i', j')"
  obtains i1 j1 where "walk_script base child (takeWhile P ops) (i, j) = Some (i1, j1)"
    "walk_script base child (dropWhile P ops) (i1, j1) = Some (i', j')"
  using assms walk_script_append [of base child "takeWhile P ops" "dropWhile P ops" "(i, j)"]
  by (auto split: option.splits)

lemma opsToRegions_run:
  "is_edit op \<Longrightarrow> concat (map insert_index (takeWhile is_edit (op # ops))) = inserted \<Longrightarrow>
   opsToRegions (op # ops) =
     (if inserted = [] then opsToRegions (dropWhile is_edit (op # ops))
      else plain_region (line_range (int (hd inserted) + 1) (int (last inserted) + 1))
             (if list_ex is_delete (takeWhile is_edit (op # ops)) then ManualModified else ManualEdit)
           # opsToRegions (dropWhile is_edit (op # ops)))"
  by (subst opsToRegions.simps(2)) (simp only: Let_def not_True_eq_False if_False)

lemma opsToRegions_marks:
  "walk_script base child ops (i, j) = Some (i', j') \<Longrightarrow>
   marks (opsToRegions ops) ops j j' \<and>
   (ops \<noteq> [] \<longrightarrow> \<not> is_edit (hd ops) \<longrightarrow> (\<forall>r\<in>set (opsToRegions ops). int j + 2 \<le> rangeStart (lineRange r)))"
proof (induction ops arbitrary: i j rule: opsToRegions.induct)
  case 1
  then show ?case by (simp add: marks_def)
next
  case (2 op ops)
  show ?case
  proof (cases "is_edit op")
    case False
    then obtain a b where op: "op = DEqual a b" by (cases op) auto
    with "2.prems" have w: "walk_script base child ops (Suc i, Suc j) = Some (i', j')"
      by (auto split: if_splits)
    have ih: "marks (opsToRegions ops) ops (Suc j) j'" using "2.IH"(1) [OF False w] by simp
    have regs: "opsToRegions (op # ops) = opsToRegions ops" using False by simp
    have mem: "DInsert t \<in> set (op # ops) \<longleftrightarrow> DInsert t \<in> set ops" for t by (simp add: op)
    show ?thesis using ih unfolding regs marks_def mem by fastforce
  next
    case True
    let ?run = "takeWhile is_edit (op # ops)" and ?rest = "dropWhile is_edit (op # ops)"
    have edits: "\<forall>op\<in>set ?run. is_edit op" by (auto dest: set_takeWhileD)
    have hd_rest: "?rest \<noteq> [] \<longrightarrow> \<not> is_edit (hd ?rest)" using hd_dropWhile [of is_edit "op # ops"] by blast
    obtain i1 j1 where w1: "walk_script base child ?run (i, j) = Some (i1, j1)"
      and w2: "walk_script base child ?rest (i1, j1) = Some (i', j')"
      by (rule walk_split [OF "2.prems"])
    from run_inserts [OF w1 edits] have ins: "j \<le> j1" "concat (map insert_index ?run) = [j..<j1]" by simp_all
    have le: "j1 \<le> j'" using walk_mono [OF w2] by simp
    have mem: "DInsert t \<in> set (op # ops) \<longleftrightarrow> (j \<le> t \<and> t < j1) \<or> DInsert t \<in> set ?rest" for t
      using insert_index_in [of t ?run] ins(2) set_append [of ?run ?rest]
      by (simp only: takeWhile_dropWhile_id atLeastLessThan_iff set_upt Un_iff)
    have ih: "marks (opsToRegions ?rest) ?rest j1 j'"
      "\<forall>r\<in>set (opsToRegions ?rest). ?rest \<noteq> [] \<longrightarrow> int j1 + 2 \<le> rangeStart (lineRange r)"
      using "2.IH"(2,3) [OF _ refl refl refl refl _ w2] True hd_rest by blast+
    show ?thesis
    proof (cases "j = j1")
      case True
      have same: "DInsert t \<in> set ?rest \<longleftrightarrow> DInsert t \<in> set (op # ops)" for t
      proof -
        from True have "\<not> (j \<le> t \<and> t < j1)" by linarith
        with mem [of t] show ?thesis by blast
      qed
      have "[j..<j1] = []" by (simp only: True upt_conv_Nil order_refl)
      with ins(2) have none: "concat (map insert_index ?run) = []" by (rule trans)
      from opsToRegions_run [OF \<open>is_edit op\<close> none] have
        eq: "opsToRegions (op # ops) = opsToRegions ?rest" by (simp only: if_True refl)
      have "marks (opsToRegions ?rest) (op # ops) j j'"
        using ih(1) True unfolding marks_cong [OF same] by (simp only: True)
      then show ?thesis unfolding eq using \<open>is_edit op\<close> by (intro conjI impI) (simp_all only: list.sel simp_thms)
    next
      case False
      then have jj: "j < j1" "[j..<j1] \<noteq> []" "hd [j..<j1] = j" "last [j..<j1] = j1 - 1" using ins by simp_all
      have last_line: "int (j1 - 1) + 1 = int j1" using jj(1) by simp
      let ?r = "plain_region (line_range (int j + 1) (int j1))
        (if list_ex is_delete ?run then ManualModified else ManualEdit)"
      have eq: "opsToRegions (op # ops) = ?r # opsToRegions ?rest"
        using opsToRegions_run [OF \<open>is_edit op\<close> ins(2)] jj(2) last_line unfolding jj(3,4) by (simp only: if_False)
      have "int j1 + 1 < rangeStart (lineRange r)" if "r \<in> set (opsToRegions ?rest)" for r
        using ih(2) that by (cases "?rest = []") auto
      then show ?thesis using ih(1) mem jj(1) le \<open>is_edit op\<close> unfolding eq marks_def
        by (fastforce simp: in_range_def)
    qed
  qed
qed

section \<open>The overlay of two texts\<close>

text \<open>A child line that a script does not insert is a line that the script keeps.\<close>

lemma walk_kept:
  "walk_script base child ops (i, j) = Some (i', j') \<Longrightarrow> j \<le> t \<Longrightarrow> t < j' \<Longrightarrow>
   DInsert t \<in> set ops \<or> (\<exists>s. DEqual s t \<in> set ops \<and> s < length base \<and> base ! s = child ! t)"
proof (induction ops arbitrary: i j)
  case (Cons op ops)
  from Cons.prems obtain i1 j1 where
    s: "script_step base child op (i, j) = Some (i1, j1)"
    and w: "walk_script base child ops (i1, j1) = Some (i', j')"
    by (auto split: option.splits)
  show ?case
  proof (cases "t < j1")
    case True
    with s Cons.prems(2) show ?thesis by (cases op) (auto simp: less_Suc_eq split: if_splits)
  next
    case False
    then have "j1 \<le> t" by simp
    from Cons.IH [OF w this Cons.prems(3)] show ?thesis by auto
  qed
qed simp

lemma walk_empty_base:
  "walk_script [] child ops (i, j) = Some (i', j') \<Longrightarrow> \<forall>op\<in>set ops. is_edit op"
proof (induction ops arbitrary: i j)
  case (Cons op ops)
  then show ?case by (cases op) (auto split: if_splits)
qed simp

lemma walk_inserts_below: "walk_script base child ops (i, j) = Some (i', j') \<Longrightarrow> DInsert t \<in> set ops \<Longrightarrow> t < j'"
proof (induction ops arbitrary: i j)
  case (Cons op ops)
  from Cons.prems obtain i1 j1 where
    s: "script_step base child op (i, j) = Some (i1, j1)"
    and w: "walk_script base child ops (i1, j1) = Some (i', j')"
    by (auto split: option.splits)
  from walk_mono [OF w] Cons.IH [OF w] s Cons.prems(2) show ?case by (cases op) (auto split: if_splits)
qed simp

lemma overlay_marks:
  assumes "computeManualEditOverlay b c runId javaFile = Some ov"
  shows "marks (overlayRegions ov) (myersDiff (splitLines b) (splitLines c)) 0 (length (splitLines c))"
proof -
  let ?b = "splitLines b" and ?c = "splitLines c"
  have w: "walk_script ?b ?c (myersDiff ?b ?c) (0, 0) = Some (length ?b, length ?c)"
    using myersDiff_script_cost [of ?b ?c] by (simp add: edit_script_def)
  have c: "?c \<noteq> []" using assms by (auto simp: computeManualEditOverlay_def Let_def split: if_splits)
  show ?thesis
  proof (cases "?b = []")
    case False
    with assms c opsToRegions_marks [OF w] show ?thesis
      by (auto simp: computeManualEditOverlay_def Let_def split: if_splits)
  next
    case True
    with assms c have ov: "overlayRegions ov = [plain_region (line_range 1 (int (length ?c))) ManualEdit]"
      by (auto simp: computeManualEditOverlay_def Let_def split: if_splits)
    have eq: "concat (map insert_index (myersDiff ?b ?c)) = [0..<length ?c]"
      using run_inserts [OF w] walk_empty_base [OF w [unfolded True]] unfolding True by simp
    have "DInsert t \<in> set (myersDiff ?b ?c) \<longleftrightarrow> t < length ?c" for t
      unfolding insert_index_in [symmetric] eq set_upt by (simp only: atLeastLessThan_iff le0 simp_thms)
    moreover have "1 \<le> length ?c" using c by (cases ?c) simp_all
    moreover have "t < length ?c \<longleftrightarrow> int t + 1 \<le> int (length ?c)" for t by linarith
    ultimately show ?thesis unfolding ov marks_def by (simp add: in_range_def)
  qed
qed

text \<open>
  C6: the overlay exists unless the texts are equal or the buffer has no line; its regions are in
  order with a gap between neighbours, lie inside the buffer, are all manual, and mark exactly the
  lines that the diff inserts; a line they do not mark is a line of the baseline.
\<close>

theorem overlay_marks_exactly:
  "(computeManualEditOverlay b c runId javaFile = None \<longleftrightarrow> b = c \<or> splitLines c = []) \<and>
   (\<forall>ov. computeManualEditOverlay b c runId javaFile = Some ov \<longrightarrow>
     marks (overlayRegions ov) (myersDiff (splitLines b) (splitLines c)) 0 (length (splitLines c)) \<and>
     (\<forall>t < length (splitLines c). \<not> (\<exists>r\<in>set (overlayRegions ov). in_range (int t + 1) (lineRange r)) \<longrightarrow>
        splitLines c ! t \<in> set (splitLines b)))"
proof (intro conjI allI impI)
  show "computeManualEditOverlay b c runId javaFile = None \<longleftrightarrow> b = c \<or> splitLines c = []"
    by (auto simp: computeManualEditOverlay_def Let_def)
next
  fix ov assume ov: "computeManualEditOverlay b c runId javaFile = Some ov"
  show m: "marks (overlayRegions ov) (myersDiff (splitLines b) (splitLines c)) 0 (length (splitLines c))"
    by (rule overlay_marks [OF ov])
  fix t assume t: "t < length (splitLines c)"
    and "\<not> (\<exists>r\<in>set (overlayRegions ov). in_range (int t + 1) (lineRange r))"
  with m have no: "DInsert t \<notin> set (myersDiff (splitLines b) (splitLines c))" unfolding marks_def by blast
  have "walk_script (splitLines b) (splitLines c) (myersDiff (splitLines b) (splitLines c)) (0, 0) =
      Some (length (splitLines b), length (splitLines c))"
    using myersDiff_script_cost [of "splitLines b" "splitLines c"] by (simp add: edit_script_def)
  from walk_kept [OF this _ t] no show "splitLines c ! t \<in> set (splitLines b)"
    by (metis le0 nth_mem)
qed

lemma overlay_marks_exactly_witness:
  "\<exists>ov. computeManualEditOverlay ''a'' ''b'' ''r'' ''F.java'' = Some ov \<and>
     marks (overlayRegions ov) (myersDiff [''a''] [''b'']) 0 1"
proof -
  have s: "splitLines ''a'' = [''a'']" "splitLines ''b'' = [''b'']" by code_simp+
  then have "computeManualEditOverlay ''a'' ''b'' ''r'' ''F.java'' \<noteq> None"
    using overlay_marks_exactly [of "''a''" "''b''" "''r''" "''F.java''"] by simp
  then show ?thesis using overlay_marks_exactly [of "''a''" "''b''" "''r''" "''F.java''"] s by auto
qed

end
