(* ===== verification/Diff_History.thy ===== *)
theory Diff_History
  imports C2c_Prelude
begin

text \<open>
  \<open>diffHistory.ts\<close>: the previous and the current Java snapshot of a file and the COBOL snapshots by
  run, with the two store actions of \<open>transformationRun.tsx\<close> that record into them.
\<close>

section \<open>The code\<close>

record file_snapshot =
  snapContent :: string
  snapSourceHash :: string
  snapRunId :: string

record java_history =
  histPrevious :: "file_snapshot option"
  histCurrent :: file_snapshot

definition appendJavaSnapshot :: "java_history option \<Rightarrow> file_snapshot \<Rightarrow> java_history" where
  "appendJavaSnapshot prev next =
     (case prev of
        None \<Rightarrow> \<lparr>histPrevious = None, histCurrent = next\<rparr>
      | Some p \<Rightarrow>
          (if snapRunId (histCurrent p) = snapRunId next then p
           else \<lparr>histPrevious = Some (histCurrent p), histCurrent = next\<rparr>))"

definition recordCobolByRun ::
  "(string, file_snapshot) js_map option \<Rightarrow> file_snapshot \<Rightarrow> (string, file_snapshot) js_map" where
  "recordCobolByRun prev snapshot =
     (let m = or_default prev []
      in case js_get m (snapRunId snapshot) of
           Some existing \<Rightarrow>
             (if snapSourceHash existing = snapSourceHash snapshot \<and> snapContent existing = snapContent snapshot
              then m else js_set (snapRunId snapshot) snapshot m)
         | None \<Rightarrow> js_set (snapRunId snapshot) snapshot m)"

definition hasPreviousJava :: "java_history option \<Rightarrow> bool" where
  "hasPreviousJava entry =
     (case entry of None \<Rightarrow> False | Some e \<Rightarrow> histPrevious e \<noteq> None)"

text \<open>The store's state and its two recording actions.\<close>

record diff_history =
  javaDiffHistory :: "(string, (string, java_history) js_map) js_map"
  cobolDiffHistory :: "(string, (string, file_snapshot) js_map) js_map"

definition recordJavaDiffSnapshot :: "string \<Rightarrow> string \<Rightarrow> file_snapshot \<Rightarrow> diff_history \<Rightarrow> diff_history" where
  "recordJavaDiffSnapshot sourceKey filePath snapshot st =
     (let perSource = or_default (js_get (javaDiffHistory st) sourceKey) [];
          next = appendJavaSnapshot (js_get perSource filePath) snapshot
      in if js_get perSource filePath = Some next then st
         else st\<lparr>javaDiffHistory := js_set sourceKey (js_set filePath next perSource) (javaDiffHistory st)\<rparr>)"

definition recordCobolDiffSnapshot :: "string \<Rightarrow> file_snapshot \<Rightarrow> diff_history \<Rightarrow> diff_history" where
  "recordCobolDiffSnapshot sourceKey snapshot st =
     (let perSource = js_get (cobolDiffHistory st) sourceKey;
          next = recordCobolByRun perSource snapshot
      in if perSource = Some next then st
         else st\<lparr>cobolDiffHistory := js_set sourceKey next (cobolDiffHistory st)\<rparr>)"

text \<open>The entries that a file and a run have in the store.\<close>

definition java_entry :: "diff_history \<Rightarrow> string \<Rightarrow> string \<Rightarrow> java_history option" where
  "java_entry st sourceKey filePath = js_get (or_default (js_get (javaDiffHistory st) sourceKey) []) filePath"

definition cobol_entry :: "diff_history \<Rightarrow> string \<Rightarrow> string \<Rightarrow> file_snapshot option" where
  "cobol_entry st sourceKey runId = js_get (or_default (js_get (cobolDiffHistory st) sourceKey) []) runId"

section \<open>What the store holds after a sequence of snapshots\<close>

text \<open>The reference: newest first, a snapshot of the run on top is ignored.\<close>

fun run_stack :: "file_snapshot list \<Rightarrow> file_snapshot \<Rightarrow> file_snapshot list" where
  "run_stack [] s = [s]"
| "run_stack (h # hs) s = (if snapRunId h = snapRunId s then h # hs else s # h # hs)"

definition history_of :: "file_snapshot list \<Rightarrow> java_history option" where
  "history_of stack =
     (case stack of [] \<Rightarrow> None
      | [h] \<Rightarrow> Some \<lparr>histPrevious = None, histCurrent = h\<rparr>
      | h # p # _ \<Rightarrow> Some \<lparr>histPrevious = Some p, histCurrent = h\<rparr>)"

lemma append_history_of:
  "Some (appendJavaSnapshot (history_of stack) s) = history_of (run_stack stack s)"
  by (cases stack; cases "tl stack") (auto simp: history_of_def appendJavaSnapshot_def split: list.splits)

lemma run_stack_adj: "distinct_adj (map snapRunId stack) \<Longrightarrow> distinct_adj (map snapRunId (run_stack stack s))"
  by (cases stack) auto

lemma recordJava_entry:
  "java_entry (recordJavaDiffSnapshot k f s st) k' f' =
     (if k' = k \<and> f' = f then Some (appendJavaSnapshot (java_entry st k f) s) else java_entry st k' f')"
  by (auto simp: recordJavaDiffSnapshot_def java_entry_def Let_def)

lemma recordJava_cobol: "cobol_entry (recordJavaDiffSnapshot k f s st) k' r = cobol_entry st k' r"
  by (auto simp: recordJavaDiffSnapshot_def cobol_entry_def Let_def)

lemma recordCobolByRun_get:
  "js_get (recordCobolByRun prev s) r =
     (if r = snapRunId s then
        (case js_get (or_default prev []) r of
           Some e \<Rightarrow> Some (if snapSourceHash e = snapSourceHash s \<and> snapContent e = snapContent s then e else s)
         | None \<Rightarrow> Some s)
      else js_get (or_default prev []) r)"
  by (auto simp: recordCobolByRun_def Let_def split: option.splits)

lemma recordCobol_entry:
  "cobol_entry (recordCobolDiffSnapshot k s st) k' r =
     (if k' = k then js_get (recordCobolByRun (js_get (cobolDiffHistory st) k) s) r else cobol_entry st k' r)"
  by (auto simp: recordCobolDiffSnapshot_def cobol_entry_def Let_def) (metis or_default.simps(1))

lemma recordCobol_at:
  "cobol_entry (recordCobolDiffSnapshot k s st) k' r =
     (if k' = k \<and> snapRunId s = r then
        (case cobol_entry st k r of
           Some e \<Rightarrow> Some (if snapSourceHash e = snapSourceHash s \<and> snapContent e = snapContent s then e else s)
         | None \<Rightarrow> Some s)
      else cobol_entry st k' r)"
  unfolding recordCobol_entry recordCobolByRun_get by (auto simp: cobol_entry_def)

lemma recordCobol_java: "java_entry (recordCobolDiffSnapshot k s st) k' f = java_entry st k' f"
  by (auto simp: recordCobolDiffSnapshot_def java_entry_def Let_def)

datatype history_event = JavaSnap string string file_snapshot | CobolSnap string file_snapshot

fun history_step :: "diff_history \<Rightarrow> history_event \<Rightarrow> diff_history" where
  "history_step st (JavaSnap k f s) = recordJavaDiffSnapshot k f s st"
| "history_step st (CobolSnap k s) = recordCobolDiffSnapshot k s st"

definition empty_history :: diff_history where
  "empty_history = \<lparr>javaDiffHistory = [], cobolDiffHistory = []\<rparr>"

fun java_snaps :: "string \<Rightarrow> string \<Rightarrow> history_event \<Rightarrow> file_snapshot list" where
  "java_snaps k f (JavaSnap k' f' s) = (if k' = k \<and> f' = f then [s] else [])"
| "java_snaps k f _ = []"

fun cobol_snaps :: "string \<Rightarrow> string \<Rightarrow> history_event \<Rightarrow> file_snapshot list" where
  "cobol_snaps k r (CobolSnap k' s) = (if k' = k \<and> snapRunId s = r then [s] else [])"
| "cobol_snaps k r _ = []"

lemma cobol_snaps_run: "s \<in> set (cobol_snaps k r e) \<Longrightarrow> snapRunId s = r"
  by (cases e) (auto split: if_splits)

lemma cobol_after:
  "cobol_entry (foldl history_step empty_history es) k r =
     (let snaps = concat (map (cobol_snaps k r) es) in if snaps = [] then None else Some (last snaps))"
proof (induction es rule: rev_induct)
  case Nil
  then show ?case by (simp add: cobol_entry_def empty_history_def)
next
  case (snoc e es)
  let ?snaps = "concat (map (cobol_snaps k r) es)"
  have run: "snapRunId s = r" if "s \<in> set ?snaps" for s
    using that cobol_snaps_run by auto
  show ?case
  proof (cases e)
    case (CobolSnap k' s)
    show ?thesis
    proof (cases "k' = k \<and> snapRunId s = r")
      case True
      then show ?thesis
        using snoc.IH run [of "last ?snaps"] CobolSnap last_in_set [of ?snaps]
        by (auto simp: recordCobol_at Let_def simp del: concat_eq_Nil_conv set_concat)
    next
      case False
      then have "cobol_snaps k r e = []" using CobolSnap by auto
      with False snoc.IH CobolSnap show ?thesis by (auto simp: recordCobol_at)
    qed
  qed (use snoc.IH in \<open>simp add: recordJava_cobol\<close>)
qed

lemma java_after:
  "java_entry (foldl history_step empty_history es) k f =
     history_of (foldl run_stack [] (concat (map (java_snaps k f) es)))"
proof (induction es rule: rev_induct)
  case Nil
  then show ?case by (simp add: java_entry_def empty_history_def history_of_def)
next
  case (snoc e es)
  then show ?case
    by (cases e) (auto simp: recordJava_entry recordCobol_java append_history_of)
qed

lemma run_stacks_adj: "distinct_adj (map snapRunId (foldl run_stack [] ss))"
  by (induction ss rule: rev_induct) (simp_all add: run_stack_adj)

text \<open>
  After any sequence of snapshots, a file's entry shows the top two of the stack of its runs,
  in which a re-poll of the run on top changes nothing; the two runs shown differ; and the COBOL
  snapshot of a run is the last one recorded for it, so both panes of a comparison come from the
  runs that the Java entry names.
\<close>

lemma history_shows_last_two_runs:
  "java_entry (foldl history_step empty_history es) k f =
     history_of (foldl run_stack [] (concat (map (java_snaps k f) es))) \<and>
   (\<forall>h p. java_entry (foldl history_step empty_history es) k f = Some h \<and> histPrevious h = Some p \<longrightarrow>
      snapRunId p \<noteq> snapRunId (histCurrent h)) \<and>
   cobol_entry (foldl history_step empty_history es) k r =
     (let snaps = concat (map (cobol_snaps k r) es) in if snaps = [] then None else Some (last snaps))"
proof -
  have "snapRunId p \<noteq> snapRunId (histCurrent h)"
    if "history_of stack = Some h" "histPrevious h = Some p" "distinct_adj (map snapRunId stack)" for stack h p
    using that by (auto simp: history_of_def split: list.splits)
  with run_stacks_adj show ?thesis by (metis java_after cobol_after)
qed

lemma history_shows_last_two_runs_witness:
  "let s = (\<lambda>r. \<lparr>snapContent = ''c'', snapSourceHash = ''h'', snapRunId = r\<rparr>);
       es = [JavaSnap ''p'' ''F'' (s ''1''), JavaSnap ''p'' ''F'' (s ''2''), JavaSnap ''p'' ''F'' (s ''2'')];
       h = \<lparr>histPrevious = Some (s ''1''), histCurrent = s ''2''\<rparr>
   in java_entry (foldl history_step empty_history es) ''p'' ''F'' = Some h \<and>
      snapRunId (s ''1'') \<noteq> snapRunId (histCurrent h)"
proof -
  let ?s = "\<lambda>r. \<lparr>snapContent = ''c'', snapSourceHash = ''h'', snapRunId = r\<rparr>"
  let ?es = "[JavaSnap ''p'' ''F'' (?s ''1''), JavaSnap ''p'' ''F'' (?s ''2''), JavaSnap ''p'' ''F'' (?s ''2'')]"
  let ?h = "\<lparr>histPrevious = Some (?s ''1''), histCurrent = ?s ''2''\<rparr>"
  have e: "java_entry (foldl history_step empty_history ?es) ''p'' ''F'' = Some ?h" by code_simp
  moreover have "histPrevious ?h = Some (?s ''1'')" by simp
  ultimately have "snapRunId (?s ''1'') \<noteq> snapRunId (histCurrent ?h)"
    using history_shows_last_two_runs [of ?es "''p''" "''F''"] by blast
  with e show ?thesis unfolding Let_def by blast
qed

end
