(* ===== verification/Draft_Types.thy ===== *)
theory Draft_Types
  imports Java_Types Text_Lines
begin

text \<open>
  The draft records of \<open>editorPersistence.ts\<close> that the editor stores exchange with the draft store.
  Times are milliseconds since the epoch; the code prints them as ISO strings and does not
  compute with the strings.
\<close>

record draft_scope =
  scopeTenantId :: string
  scopeUserId :: string

datatype draft_key =
  CobolDraftKey string string
| JavaDraftKey string string string

datatype draft_kind = CobolKind | JavaKind

fun key_kind :: "draft_key \<Rightarrow> draft_kind" where
  "key_kind (CobolDraftKey _ _) = CobolKind"
| "key_kind (JavaDraftKey _ _ _) = JavaKind"

fun key_program :: "draft_key \<Rightarrow> string" where
  "key_program (CobolDraftKey p _) = p"
| "key_program (JavaDraftKey p _ _) = p"

fun key_source :: "draft_key \<Rightarrow> string" where
  "key_source (CobolDraftKey _ s) = s"
| "key_source (JavaDraftKey _ s _) = s"

fun key_java_path :: "draft_key \<Rightarrow> string option" where
  "key_java_path (CobolDraftKey _ _) = None"
| "key_java_path (JavaDraftKey _ _ f) = Some f"

record draft_payload =
  payloadSchema :: string
  payloadKind :: draft_kind
  payloadContent :: string
  payloadBufferHash :: string
  payloadProgramId :: "string option"
  payloadSourceName :: "string option"
  payloadJavaFilePath :: "string option"
  payloadLastRunInputHash :: "string option"
  payloadLastRunInputContent :: "string option"
  payloadBaselineHash :: "string option"
  payloadBaselineRunId :: "string option"
  payloadOverlay :: "origin_overlay option"
  payloadResolvedBackendHash :: "string option"
  payloadSavedAt :: int

record loaded_draft =
  loadedPayload :: draft_payload
  loadedIsExpired :: bool
  loadedSavedAt :: int
  loadedTtlExpiresAt :: int

text \<open>\<open>filePath.split("/").pop() ?? filePath\<close>\<close>

definition file_basename :: "string \<Rightarrow> string" where
  "file_basename path = last (js_split (CHR ''/'') path)"

end
