(* ===== verification/Java_Buffers.thy ===== *)
theory Java_Buffers
  imports Draft_Types Manual_Overlay Merge_Apply "HOL-Library.List_Lexorder" "HOL-Library.Char_ord"
begin

text \<open>
  The Java buffer model of the store \<open>transformationRun.tsx\<close>: one entry per generated file, the
  pending draft conflict and the pending three-way merge.

  The store's actions are asynchronous.  An action changes the state at once where the code calls a
  setter before its first \<open>await\<close>, and leaves a job for what the code does after it.  Jobs land in
  any order, between any actions.  The hash \<open>deriveSourceHash\<close> (SHA-256 of Web Crypto) is the
  parameter \<open>H\<close>.
\<close>

section \<open>State\<close>

record java_buffer =
  bufContent :: string
  bufferHash :: string
  lastRunInputHash :: "string option"
  lastRunInputContent :: "string option"
  displayedArtifactSourceHash :: "string option"
  baselineText :: string
  baselineHash :: string
  baselineRunId :: string
  manualEditOverlay :: "origin_overlay option"
  isDirty :: bool
  lastSavedAt :: "int option"

type_synonym buffers = "(string, java_buffer) js_map"

record java_conflict =
  conflictFile :: string
  backendSample :: string
  localDraft :: string
  lastRunInput :: string
  conflictLastRunInputHash :: "string option"
  resolvedBackendHash :: string
  draftProgramId :: string
  draftSourceName :: string
  conflictBaselineHash :: string
  conflictBaselineRunId :: string
  conflictOverlay :: "origin_overlay option"

record merge_review =
  reviewFile :: string
  reviewBaseline :: string
  reviewManual :: string
  reviewNewGenerator :: string
  reviewRegions :: "conflict_region list"
  reviewRunId :: string

text \<open>
  The continuations that the actions leave.  \<open>BufferHashJob\<close> and \<open>ResolveHashJob\<close> wait for a hash
  that nobody awaits; the others are the part of an action after its \<open>await\<close>.
\<close>

datatype java_job =
  BaselineJob string string string
| BufferHashJob string string
| SaveJob string "string option" "origin_overlay option" draft_payload
| LoadJob string string string "string option"
| ResolveHashJob java_conflict string "origin_overlay option"
| MergeJob merge_review string
| CandidateJob "(string \<times> string) list" string

record java_store =
  javaBuffers :: buffers
  javaConflict :: "java_conflict option"
  saveNoticeAt :: "int option"
  javaMergeReview :: "merge_review option"
  isMounted :: bool
  jobs :: "java_job list"
  written :: "(draft_key \<times> draft_payload) list"

definition update_buffer :: "string \<Rightarrow> (java_buffer \<Rightarrow> java_buffer) \<Rightarrow> buffers \<Rightarrow> buffers" where
  "update_buffer f g m = (case js_get m f of None \<Rightarrow> m | Some e \<Rightarrow> js_set f (g e) m)"

section \<open>Updates of the buffers\<close>

definition candidate_entry ::
  "(string \<Rightarrow> string) \<Rightarrow> string \<Rightarrow> java_buffer option \<Rightarrow> string \<Rightarrow> java_buffer" where
  "candidate_entry H runId existing content =
     (case existing of
        Some e \<Rightarrow> e\<lparr>bufContent := content, bufferHash := H content, isDirty := True\<rparr>
      | None \<Rightarrow>
          \<lparr>bufContent = content, bufferHash = H content, lastRunInputHash = None,
           lastRunInputContent = None, displayedArtifactSourceHash = Some (H content),
           baselineText = content, baselineHash = H content, baselineRunId = runId,
           manualEditOverlay = None, isDirty = True, lastSavedAt = None\<rparr>)"

definition upsertJavaBuffersFromCandidateProject ::
  "(string \<Rightarrow> string) \<Rightarrow> (string \<times> string) list \<Rightarrow> string \<Rightarrow> buffers \<Rightarrow> buffers" where
  "upsertJavaBuffersFromCandidateProject H files runId m =
     foldl (\<lambda>next (filePath, content).
       js_set filePath (candidate_entry H runId (js_get next filePath) content) next) m files"

definition ensureJavaBaseline ::
  "(string \<Rightarrow> string) \<Rightarrow> string \<Rightarrow> string \<Rightarrow> string \<Rightarrow> buffers \<Rightarrow> buffers" where
  "ensureJavaBaseline H filePath backendContent runId m =
     (let hash = H backendContent; existing = js_get m filePath
      in case existing of
           Some e \<Rightarrow>
             (if isDirty e then
                (if baselineRunId e = runId then m
                 else if backendContent \<noteq> bufContent e then m
                 else js_set filePath
                        (e\<lparr>lastRunInputHash := Some hash, lastRunInputContent := Some backendContent,
                           bufferHash := hash, baselineText := backendContent, baselineHash := hash,
                           baselineRunId := runId, displayedArtifactSourceHash := Some hash,
                           isDirty := False\<rparr>) m)
              else js_set filePath
                     \<lparr>bufContent = backendContent, bufferHash = hash, lastRunInputHash = Some hash,
                      lastRunInputContent = Some backendContent, displayedArtifactSourceHash = Some hash,
                      baselineText = backendContent, baselineHash = hash, baselineRunId = runId,
                      manualEditOverlay = manualEditOverlay e, isDirty = False,
                      lastSavedAt = lastSavedAt e\<rparr> m)
         | None \<Rightarrow>
             js_set filePath
               \<lparr>bufContent = backendContent, bufferHash = hash, lastRunInputHash = Some hash,
                lastRunInputContent = Some backendContent, displayedArtifactSourceHash = Some hash,
                baselineText = backendContent, baselineHash = hash, baselineRunId = runId,
                manualEditOverlay = None, isDirty = False, lastSavedAt = None\<rparr> m)"

definition setJavaBufferContent :: "string \<Rightarrow> string \<Rightarrow> java_store \<Rightarrow> java_store" where
  "setJavaBufferContent filePath content s =
     s\<lparr>javaBuffers := update_buffer filePath
          (\<lambda>e. e\<lparr>bufContent := content, isDirty := content \<noteq> baselineText e\<rparr>) (javaBuffers s),
       jobs := jobs s @ [BufferHashJob filePath content]\<rparr>"

text \<open>The hash of a content lands: only if the buffer still has that content.\<close>

definition land_buffer_hash :: "(string \<Rightarrow> string) \<Rightarrow> string \<Rightarrow> string \<Rightarrow> java_store \<Rightarrow> java_store" where
  "land_buffer_hash H filePath content s =
     (if \<not> isMounted s then s
      else s\<lparr>javaBuffers := update_buffer filePath
               (\<lambda>e. if bufContent e \<noteq> content then e else e\<lparr>bufferHash := H content\<rparr>) (javaBuffers s)\<rparr>)"

definition setJavaManualOverlay :: "string \<Rightarrow> origin_overlay option \<Rightarrow> java_store \<Rightarrow> java_store" where
  "setJavaManualOverlay filePath overlay s =
     s\<lparr>javaBuffers := update_buffer filePath (\<lambda>e. e\<lparr>manualEditOverlay := overlay\<rparr>) (javaBuffers s)\<rparr>"

section \<open>Drafts\<close>

text \<open>
  \<open>options.manualEditOverlay\<close> has three cases: absent (\<open>None\<close>), present and null (\<open>Some None\<close>),
  present (\<open>Some (Some o)\<close>).
\<close>

definition draft_overlay ::
  "string \<Rightarrow> string option \<Rightarrow> string option \<Rightarrow> origin_overlay option option \<Rightarrow> java_buffer \<Rightarrow> string \<Rightarrow>
   origin_overlay option" where
  "draft_overlay filePath stateRunId optContent optOverlay entry content =
     (case optOverlay of
        Some overlay \<Rightarrow> overlay
      | None \<Rightarrow>
          (if optContent \<noteq> None
           then computeManualEditOverlay (baselineText entry) content
                  (or_default stateRunId (baselineRunId entry)) filePath
           else manualEditOverlay entry))"

definition saveJavaDraft ::
  "(string \<Rightarrow> string) \<Rightarrow> string option \<Rightarrow> string option \<Rightarrow> string \<Rightarrow> string option \<Rightarrow>
   origin_overlay option option \<Rightarrow> int \<Rightarrow> java_store \<Rightarrow> java_store" where
  "saveJavaDraft H stateProgramId stateRunId filePath optContent optOverlay now s =
     (case (js_get (javaBuffers s) filePath, stateProgramId) of
        (Some entry, Some programId) \<Rightarrow>
          (if programId = [] then s
           else let content = or_default optContent (bufContent entry);
                    hash = (if optContent = None then bufferHash entry else H content);
                    overlay = draft_overlay filePath stateRunId optContent optOverlay entry content;
                    payload =
                      \<lparr>payloadSchema = ''v0'', payloadKind = JavaKind, payloadContent = content,
                       payloadBufferHash = hash, payloadProgramId = None, payloadSourceName = None,
                       payloadJavaFilePath = None, payloadLastRunInputHash = lastRunInputHash entry,
                       payloadLastRunInputContent = lastRunInputContent entry,
                       payloadBaselineHash = Some (baselineHash entry),
                       payloadBaselineRunId = Some (baselineRunId entry), payloadOverlay = overlay,
                       payloadResolvedBackendHash = None, payloadSavedAt = now\<rparr>
                in s\<lparr>jobs := jobs s @ [SaveJob filePath optContent overlay payload],
                     written := written s @
                       [(JavaDraftKey programId (file_basename filePath) filePath, payload)]\<rparr>)
      | _ \<Rightarrow> s)"

definition land_save ::
  "int \<Rightarrow> string \<Rightarrow> string option \<Rightarrow> origin_overlay option \<Rightarrow> draft_payload \<Rightarrow> java_store \<Rightarrow> java_store" where
  "land_save now filePath optContent overlay payload s =
     s\<lparr>javaBuffers := update_buffer filePath
          (\<lambda>e. let e' = (if optContent \<noteq> None
                       then e\<lparr>bufContent := payloadContent payload, bufferHash := payloadBufferHash payload,
                              isDirty := payloadContent payload \<noteq> baselineText e\<rparr>
                       else e)
               in e'\<lparr>manualEditOverlay := overlay, lastSavedAt := Some (payloadSavedAt payload)\<rparr>)
          (javaBuffers s),
       saveNoticeAt := Some now\<rparr>"

text \<open>
  \<open>loadJavaDraftFor\<close> up to its first \<open>await\<close>, and what it does with the draft that the store returns.
\<close>

definition loadJavaDraftFor ::
  "string option \<Rightarrow> string option \<Rightarrow> string \<Rightarrow> string \<Rightarrow> java_store \<Rightarrow> java_store" where
  "loadJavaDraftFor stateProgramId stateRunId filePath backendContent s =
     (case stateProgramId of
        None \<Rightarrow> s
      | Some programId \<Rightarrow>
          (if programId = [] then s
           else s\<lparr>jobs := jobs s @ [LoadJob programId filePath backendContent stateRunId]\<rparr>))"

definition land_load ::
  "(string \<Rightarrow> string) \<Rightarrow> string \<Rightarrow> string \<Rightarrow> string \<Rightarrow> string option \<Rightarrow> loaded_draft option \<Rightarrow>
   java_store \<Rightarrow> java_store" where
  "land_load H programId filePath backendContent stateRunId loaded s =
     (case loaded of
        None \<Rightarrow> s
      | Some d \<Rightarrow>
          (if loadedIsExpired d then s
           else let p = loadedPayload d; backendHash = H backendContent
                in if payloadContent p \<noteq> backendContent \<and> payloadResolvedBackendHash p \<noteq> Some backendHash then
                     s\<lparr>javaConflict := Some
                         \<lparr>conflictFile = filePath, backendSample = backendContent,
                          localDraft = payloadContent p,
                          lastRunInput = or_default (payloadLastRunInputContent p) [],
                          conflictLastRunInputHash = payloadLastRunInputHash p,
                          resolvedBackendHash = backendHash, draftProgramId = programId,
                          draftSourceName = file_basename filePath,
                          conflictBaselineHash = or_default (payloadBaselineHash p) backendHash,
                          conflictBaselineRunId =
                            or_default (or_else (payloadBaselineRunId p) stateRunId) ''unknown'',
                          conflictOverlay = payloadOverlay p\<rparr>\<rparr>
                   else
                     s\<lparr>javaBuffers := update_buffer filePath
                         (\<lambda>e. e\<lparr>bufContent := payloadContent p, bufferHash := payloadBufferHash p,
                            lastRunInputHash := or_else (payloadLastRunInputHash p) (lastRunInputHash e),
                            lastRunInputContent := or_else (payloadLastRunInputContent p) (lastRunInputContent e),
                            manualEditOverlay := payloadOverlay p,
                            isDirty := payloadContent p \<noteq> baselineText e,
                            lastSavedAt := Some (loadedSavedAt d)\<rparr>)
                         (javaBuffers s)\<rparr>))"

datatype conflict_choice = PickBackendSample | PickLocalDraft | PickLastRunInput

fun chosen_text :: "java_conflict \<Rightarrow> conflict_choice \<Rightarrow> string" where
  "chosen_text c PickBackendSample = backendSample c"
| "chosen_text c PickLocalDraft = localDraft c"
| "chosen_text c PickLastRunInput = lastRunInput c"

definition resolveJavaConflict :: "conflict_choice \<Rightarrow> java_store \<Rightarrow> java_store" where
  "resolveJavaConflict choice s =
     (case javaConflict s of
        None \<Rightarrow> s
      | Some c \<Rightarrow>
          (let chosen = chosen_text c choice;
               overlay = (if choice = PickLocalDraft then conflictOverlay c else None)
           in s\<lparr>javaBuffers := update_buffer (conflictFile c)
                   (\<lambda>e. e\<lparr>bufContent := chosen, manualEditOverlay := overlay, isDirty := chosen \<noteq> baselineText e\<rparr>)
                   (javaBuffers s),
                jobs := jobs s @ [ResolveHashJob c chosen overlay],
                javaConflict := None\<rparr>))"

text \<open>The continuation of a resolution: the hash is stored whatever the buffer holds by now.\<close>

definition land_resolve_hash ::
  "(string \<Rightarrow> string) \<Rightarrow> int \<Rightarrow> java_conflict \<Rightarrow> string \<Rightarrow> origin_overlay option \<Rightarrow> java_store \<Rightarrow> java_store" where
  "land_resolve_hash H now c chosen overlay s =
     (if \<not> isMounted s then s
      else let hash = H chosen; lastInput = (if lastRunInput c = [] then None else Some (lastRunInput c))
           in s\<lparr>javaBuffers := update_buffer (conflictFile c)
                   (\<lambda>e. e\<lparr>bufferHash := hash, lastRunInputContent := lastInput\<rparr>) (javaBuffers s),
                written := written s @
                  [(JavaDraftKey (draftProgramId c) (draftSourceName c) (conflictFile c),
                    \<lparr>payloadSchema = ''v0'', payloadKind = JavaKind, payloadContent = chosen,
                     payloadBufferHash = hash, payloadProgramId = None, payloadSourceName = None,
                     payloadJavaFilePath = None, payloadLastRunInputHash = conflictLastRunInputHash c,
                     payloadLastRunInputContent = lastInput,
                     payloadBaselineHash = Some (conflictBaselineHash c),
                     payloadBaselineRunId = Some (conflictBaselineRunId c), payloadOverlay = overlay,
                     payloadResolvedBackendHash = Some (resolvedBackendHash c), payloadSavedAt = now\<rparr>)]\<rparr>)"

definition dismissJavaConflict :: "java_store \<Rightarrow> java_store" where
  "dismissJavaConflict s = s\<lparr>javaConflict := None\<rparr>"

text \<open>The listener of the persistence events.\<close>

definition drafts_cleared :: "java_store \<Rightarrow> java_store" where
  "drafts_cleared s = s\<lparr>javaConflict := None, saveNoticeAt := None\<rparr>"

section \<open>The three-way merge\<close>

definition requestJavaMergeReview ::
  "string \<Rightarrow> string \<Rightarrow> string \<Rightarrow> string \<Rightarrow> string \<Rightarrow> java_store \<Rightarrow> java_store" where
  "requestJavaMergeReview filePath baseline manual newGenerator runId s =
     s\<lparr>javaMergeReview := Some
         \<lparr>reviewFile = filePath, reviewBaseline = baseline, reviewManual = manual,
          reviewNewGenerator = newGenerator, reviewRegions = detectConflicts baseline manual newGenerator,
          reviewRunId = runId\<rparr>\<rparr>"

definition cancelJavaMergeReview :: "java_store \<Rightarrow> java_store" where
  "cancelJavaMergeReview s = s\<lparr>javaMergeReview := None\<rparr>"

definition regions_picked :: "selections \<Rightarrow> conflict_region list \<Rightarrow> nat \<times> nat \<times> nat" where
  "regions_picked sels regions =
     (let picks = map (\<lambda>r. or_else (js_get sels (defaultRegionId r)) (suggestedResolution r)) regions
      in (count_list picks (Some UseManual), count_list picks (Some UseNewGenerator),
          count_list picks (Some UseBaseline)))"

definition applyJavaMergeSelections :: "selections \<Rightarrow> java_store \<Rightarrow> java_store" where
  "applyJavaMergeSelections sels s =
     (case javaMergeReview s of
        None \<Rightarrow> s
      | Some review \<Rightarrow>
          (case applyMergeSelections (reviewBaseline review) (reviewRegions review) sels defaultRegionId of
             Inl err \<Rightarrow> s
           | Inr merged \<Rightarrow> s\<lparr>jobs := jobs s @ [MergeJob review merged]\<rparr>))"

definition land_merge :: "(string \<Rightarrow> string) \<Rightarrow> merge_review \<Rightarrow> string \<Rightarrow> java_store \<Rightarrow> java_store" where
  "land_merge H review merged s =
     (let newBaselineHash = H (reviewNewGenerator review)
      in s\<lparr>javaBuffers := update_buffer (reviewFile review)
              (\<lambda>e. e\<lparr>bufContent := merged, bufferHash := H merged,
                 baselineText := reviewNewGenerator review, baselineHash := newBaselineHash,
                 baselineRunId := reviewRunId review, lastRunInputHash := Some newBaselineHash,
                 lastRunInputContent := Some (reviewNewGenerator review),
                 displayedArtifactSourceHash := Some newBaselineHash,
                 isDirty := merged \<noteq> reviewNewGenerator review\<rparr>)
              (javaBuffers s),
           javaMergeReview := None\<rparr>)"

section \<open>Derived flags\<close>

record status_flags =
  flagClean :: bool
  flagPendingReRun :: bool
  flagStaleJava :: bool
  flagManualEdits :: bool

definition javaStatusFlags :: "java_store \<Rightarrow> string \<Rightarrow> status_flags" where
  "javaStatusFlags s filePath =
     (case js_get (javaBuffers s) filePath of
        None \<Rightarrow> \<lparr>flagClean = False, flagPendingReRun = False, flagStaleJava = False, flagManualEdits = False\<rparr>
      | Some e \<Rightarrow>
          \<lparr>flagClean = (lastRunInputHash e \<noteq> None \<and> displayedArtifactSourceHash e \<noteq> None \<and>
             Some (bufferHash e) = lastRunInputHash e \<and> Some (bufferHash e) = displayedArtifactSourceHash e),
           flagPendingReRun = (lastRunInputHash e \<noteq> None \<and> Some (bufferHash e) \<noteq> lastRunInputHash e),
           flagStaleJava = (lastRunInputHash e \<noteq> None \<and> displayedArtifactSourceHash e \<noteq> None \<and>
             displayedArtifactSourceHash e \<noteq> lastRunInputHash e),
           flagManualEdits = (baselineHash e \<noteq> [] \<and> bufferHash e \<noteq> baselineHash e)\<rparr>)"

record drift_summary =
  driftHasEdits :: bool
  driftFileCount :: nat
  driftRegionCount :: nat
  driftBaselineRunIds :: "string list"

definition has_drift :: "java_buffer \<Rightarrow> bool" where
  "has_drift e \<longleftrightarrow> baselineHash e \<noteq> [] \<and> bufferHash e \<noteq> baselineHash e"

definition manual_region_count :: "java_buffer \<Rightarrow> nat" where
  "manual_region_count e =
     (case manualEditOverlay e of None \<Rightarrow> 0
      | Some ov \<Rightarrow> length (filter (\<lambda>r. is_manual (originClass r)) (overlayRegions ov)))"

definition manualDriftSummary :: "java_store \<Rightarrow> drift_summary" where
  "manualDriftSummary s =
     (let driftEntries = filter has_drift (map snd (javaBuffers s))
      in \<lparr>driftHasEdits = (driftEntries \<noteq> []), driftFileCount = length driftEntries,
          driftRegionCount = sum_list (map manual_region_count driftEntries),
          driftBaselineRunIds = sort (remdups (map baselineRunId driftEntries))\<rparr>)"

section \<open>The store as a transition system\<close>

datatype java_action =
  EnsureBaseline string string string
| SetContent string string
| SetOverlay string "origin_overlay option"
| SaveDraft "string option" "string option" string "string option" "origin_overlay option option" int
| LoadDraft "string option" "string option" string string
| ResolveConflict conflict_choice
| DismissConflict
| DraftsCleared
| RequestMerge string string string string string
| CancelMerge
| ApplyMerge selections
| AcceptCandidate "(string \<times> string) list" string
| Unmount

fun do_action :: "(string \<Rightarrow> string) \<Rightarrow> java_action \<Rightarrow> java_store \<Rightarrow> java_store" where
  "do_action H (EnsureBaseline f backend run) s = s\<lparr>jobs := jobs s @ [BaselineJob f backend run]\<rparr>"
| "do_action H (SetContent f c) s = setJavaBufferContent f c s"
| "do_action H (SetOverlay f ov) s = setJavaManualOverlay f ov s"
| "do_action H (SaveDraft pid rid f c ov now) s = saveJavaDraft H pid rid f c ov now s"
| "do_action H (LoadDraft pid rid f backend) s = loadJavaDraftFor pid rid f backend s"
| "do_action H (ResolveConflict choice) s = resolveJavaConflict choice s"
| "do_action H DismissConflict s = dismissJavaConflict s"
| "do_action H DraftsCleared s = drafts_cleared s"
| "do_action H (RequestMerge f b m g run) s = requestJavaMergeReview f b m g run s"
| "do_action H CancelMerge s = cancelJavaMergeReview s"
| "do_action H (ApplyMerge sels) s = applyJavaMergeSelections sels s"
| "do_action H (AcceptCandidate files run) s = s\<lparr>jobs := jobs s @ [CandidateJob files run]\<rparr>"
| "do_action H Unmount s = s\<lparr>isMounted := False\<rparr>"

text \<open>What the environment supplies when a job lands: the time and the draft that was found.\<close>

fun land_job ::
  "(string \<Rightarrow> string) \<Rightarrow> int \<Rightarrow> loaded_draft option \<Rightarrow> java_job \<Rightarrow> java_store \<Rightarrow> java_store" where
  "land_job H now loaded (BaselineJob f backend run) s =
     s\<lparr>javaBuffers := ensureJavaBaseline H f backend run (javaBuffers s)\<rparr>"
| "land_job H now loaded (BufferHashJob f c) s = land_buffer_hash H f c s"
| "land_job H now loaded (SaveJob f c ov p) s = land_save now f c ov p s"
| "land_job H now loaded (LoadJob pid f backend rid) s = land_load H pid f backend rid loaded s"
| "land_job H now loaded (ResolveHashJob c chosen ov) s = land_resolve_hash H now c chosen ov s"
| "land_job H now loaded (MergeJob review merged) s = land_merge H review merged s"
| "land_job H now loaded (CandidateJob files run) s =
     (if \<not> isMounted s then s
      else s\<lparr>javaBuffers := upsertJavaBuffersFromCandidateProject H files run (javaBuffers s)\<rparr>)"

definition java_init :: java_store where
  "java_init = \<lparr>javaBuffers = [], javaConflict = None, saveNoticeAt = None, javaMergeReview = None,
     isMounted = True, jobs = [], written = []\<rparr>"

inductive java_step :: "(string \<Rightarrow> string) \<Rightarrow> java_store \<Rightarrow> java_store \<Rightarrow> bool" for H where
  act: "java_step H s (do_action H a s)"
| land: "job \<in> set (jobs s) \<Longrightarrow>
    java_step H s (land_job H now loaded job (s\<lparr>jobs := remove1 job (jobs s)\<rparr>))"
| drop: "job \<in> set (jobs s) \<Longrightarrow> java_step H s (s\<lparr>jobs := remove1 job (jobs s)\<rparr>)"

inductive_cases java_stepE: "java_step H s s'"

definition java_reachable :: "(string \<Rightarrow> string) \<Rightarrow> java_store \<Rightarrow> bool" where
  "java_reachable H s \<longleftrightarrow> (java_step H)\<^sup>*\<^sup>* java_init s"

end
