(* ===== verification/Java_Buffer_Facts.thy ===== *)
theory Java_Buffer_Facts
  imports Java_Buffers
begin

text \<open>
  Invariants of the Java buffers under every interleaving of actions and landings: a buffer that
  reads as clean is its baseline, the baseline of a new run never overwrites manual edits, and, as long as
  no draft conflict is resolved, a buffer without a pending hash carries the hash of its content.  The
  landings that do replace an edited text are listed, with the races in which typed text is lost.
\<close>

named_theorems buffer_ops \<open>the updates of the buffers\<close>

lemma update_buffer_get [buffer_ops]:
  "js_get (update_buffer f g m) f' = (if f' = f then map_option g (js_get m f) else js_get m f')"
  by (auto simp: update_buffer_def split: option.splits)

section \<open>Clean buffers are their baseline\<close>

definition buffer_ok :: "(string \<Rightarrow> string) \<Rightarrow> java_buffer \<Rightarrow> bool" where
  "buffer_ok H e \<longleftrightarrow> (\<not> isDirty e \<longrightarrow> bufContent e = baselineText e) \<and> baselineHash e = H (baselineText e)"

definition buffers_ok :: "(string \<Rightarrow> string) \<Rightarrow> buffers \<Rightarrow> bool" where
  "buffers_ok H m \<longleftrightarrow> (\<forall>f e. js_get m f = Some e \<longrightarrow> buffer_ok H e)"

lemma buffers_okD: "buffers_ok H m \<Longrightarrow> js_get m f = Some e \<Longrightarrow> buffer_ok H e"
  by (simp add: buffers_ok_def)

lemma buffers_ok_set: "buffers_ok H m \<Longrightarrow> buffer_ok H e \<Longrightarrow> buffers_ok H (js_set f e m)"
  by (simp add: buffers_ok_def)

lemma buffers_ok_update:
  "buffers_ok H m \<Longrightarrow> (\<And>e. buffer_ok H e \<Longrightarrow> buffer_ok H (g e)) \<Longrightarrow> buffers_ok H (update_buffer f g m)"
  by (auto simp: buffers_ok_def buffer_ops)

lemma ensureJavaBaseline_ok:
  "buffers_ok H m \<Longrightarrow> buffers_ok H (ensureJavaBaseline H f backend run m)"
  by (auto simp: ensureJavaBaseline_def Let_def buffer_ok_def intro!: buffers_ok_set split: option.splits)

lemma upsert_ok:
  "buffers_ok H m \<Longrightarrow> buffers_ok H (upsertJavaBuffersFromCandidateProject H files run m)"
proof -
  have entry: "buffer_ok H (candidate_entry H run (js_get m f) c)" if "buffers_ok H m" for m f c
    using that by (auto simp: candidate_entry_def buffer_ok_def dest: buffers_okD split: option.splits)
  have "buffers_ok H m \<Longrightarrow> buffers_ok H (foldl (\<lambda>next (f, c). js_set f (candidate_entry H run (js_get next f) c) next) m files)"
    by (induction files arbitrary: m) (auto simp: entry buffers_ok_set simp del: js_get_set)
  then show "buffers_ok H m \<Longrightarrow> ?thesis" by (simp add: upsertJavaBuffersFromCandidateProject_def)
qed

lemma do_action_ok: "buffers_ok H (javaBuffers s) \<Longrightarrow> buffers_ok H (javaBuffers (do_action H a s))"
  by (cases a)
    (auto simp: setJavaBufferContent_def setJavaManualOverlay_def saveJavaDraft_def loadJavaDraftFor_def
      resolveJavaConflict_def dismissJavaConflict_def drafts_cleared_def requestJavaMergeReview_def
      cancelJavaMergeReview_def applyJavaMergeSelections_def Let_def buffer_ok_def
      intro!: buffers_ok_update split: option.splits sum.splits)

lemma land_job_ok: "buffers_ok H (javaBuffers s) \<Longrightarrow> buffers_ok H (javaBuffers (land_job H now loaded job s))"
  by (cases job)
    (auto simp: land_buffer_hash_def land_save_def land_load_def land_resolve_hash_def land_merge_def
      Let_def buffer_ok_def ensureJavaBaseline_ok upsert_ok
      intro!: buffers_ok_update split: option.splits)

lemma java_reachable_ok: "java_reachable H s \<Longrightarrow> buffers_ok H (javaBuffers s)"
  unfolding java_reachable_def
proof (induction rule: rtranclp_induct)
  case base
  show ?case by (simp add: java_init_def buffers_ok_def)
next
  case (step s s')
  from step.hyps(2) step.IH show ?case
    by (cases rule: java_stepE) (auto simp: do_action_ok intro: land_job_ok)
qed

text \<open>
  C7: in every reachable state, whatever the order in which hashes, saves, loads, runs and merges
  land, a buffer that is not marked dirty holds exactly its generator baseline, and its baseline hash
  is the hash of that baseline.
\<close>

theorem clean_buffers_hold_their_baseline:
  assumes "java_reachable H s" "js_get (javaBuffers s) f = Some e"
  shows "(bufContent e \<noteq> baselineText e \<longrightarrow> isDirty e) \<and> baselineHash e = H (baselineText e)"
  using buffers_okD [OF java_reachable_ok [OF assms(1)] assms(2)] by (auto simp: buffer_ok_def)

lemma clean_buffers_hold_their_baseline_witness:
  "\<exists>e. js_get (javaBuffers (land_job id 0 None (BaselineJob ''F'' ''x'' ''r'') java_init)) ''F'' = Some e \<and>
     (bufContent e \<noteq> baselineText e \<longrightarrow> isDirty e)"
proof -
  let ?s = "land_job id 0 None (BaselineJob ''F'' ''x'' ''r'') java_init"
  have "java_step id java_init (do_action id (EnsureBaseline ''F'' ''x'' ''r'') java_init)" by (rule act)
  moreover have "java_step id (do_action id (EnsureBaseline ''F'' ''x'' ''r'') java_init) ?s"
    using land [of "BaselineJob ''F'' ''x'' ''r''" "do_action id (EnsureBaseline ''F'' ''x'' ''r'') java_init" id 0 None]
    by (simp add: java_init_def)
  ultimately have "java_reachable id ?s" by (simp add: java_reachable_def)
  moreover have "js_get (javaBuffers ?s) ''F'' \<noteq> None"
    by (simp add: java_init_def ensureJavaBaseline_def Let_def)
  ultimately show ?thesis using clean_buffers_hold_their_baseline by blast
qed

section \<open>Which landings keep manual edits\<close>

text \<open>
  The text that a landing writes into a file, if it writes one: the content a save was called with, the
  loaded draft (when it is not expired and either is the backend's text or was resolved against it), an
  applied merge, or a file of an accepted candidate.  A generator baseline and the hashes write none.
  The draft load is not asked for by the user: the pane of the generated file starts it in an effect,
  whenever the content of a run arrives.
\<close>

fun landed_text :: "(string \<Rightarrow> string) \<Rightarrow> loaded_draft option \<Rightarrow> bool \<Rightarrow> java_job \<Rightarrow> string \<Rightarrow> string option" where
  "landed_text H loaded mounted (BaselineJob _ _ _) f = None"
| "landed_text H loaded mounted (BufferHashJob _ _) f = None"
| "landed_text H loaded mounted (ResolveHashJob _ _ _) f = None"
| "landed_text H loaded mounted (SaveJob f' c _ p) f =
     (if f' = f \<and> c \<noteq> None then Some (payloadContent p) else None)"
| "landed_text H loaded mounted (LoadJob _ f' backend _) f =
     (case loaded of
        None \<Rightarrow> None
      | Some d \<Rightarrow>
          (if f' = f \<and> \<not> loadedIsExpired d \<and>
              (payloadContent (loadedPayload d) = backend \<or>
               payloadResolvedBackendHash (loadedPayload d) = Some (H backend))
           then Some (payloadContent (loadedPayload d)) else None))"
| "landed_text H loaded mounted (MergeJob review merged) f = (if reviewFile review = f then Some merged else None)"
| "landed_text H loaded mounted (CandidateJob files _) f = (if mounted then js_get (rev files) f else None)"

fun user_edit :: "java_action \<Rightarrow> bool" where
  "user_edit (SetContent _ _) = True"
| "user_edit (ResolveConflict _) = True"
| "user_edit _ = False"

lemma do_action_keeps:
  "\<not> user_edit a \<Longrightarrow> js_get (javaBuffers s) f = Some e \<Longrightarrow>
   \<exists>e'. js_get (javaBuffers (do_action H a s)) f = Some e' \<and> bufContent e' = bufContent e \<and>
     baselineText e' = baselineText e"
  by (cases a)
    (auto simp: buffer_ops setJavaManualOverlay_def saveJavaDraft_def loadJavaDraftFor_def
      dismissJavaConflict_def drafts_cleared_def requestJavaMergeReview_def
      cancelJavaMergeReview_def applyJavaMergeSelections_def Let_def split: option.splits sum.splits)

lemma ensureJavaBaseline_keeps:
  "js_get m f = Some e \<Longrightarrow> isDirty e \<Longrightarrow>
   \<exists>e'. js_get (ensureJavaBaseline H f' backend run m) f = Some e' \<and> bufContent e' = bufContent e \<and>
     (baselineText e' = baselineText e \<or> (\<not> isDirty e' \<and> baselineText e' = bufContent e))"
  by (auto simp: ensureJavaBaseline_def Let_def split: option.splits)

lemma upsert_text:
  "\<exists>e'. js_get (upsertJavaBuffersFromCandidateProject H files run m) f = Some e' \<and> bufContent e' = t"
  if "js_get (rev files) f = Some t"
  using that
proof (induction files arbitrary: t rule: rev_induct)
  case (snoc c files)
  then show ?case
    by (cases c) (auto simp: upsertJavaBuffersFromCandidateProject_def candidate_entry_def split: option.splits if_splits)
qed simp

lemma upsert_other:
  "js_get (rev files) f = None \<Longrightarrow> js_get (upsertJavaBuffersFromCandidateProject H files run m) f = js_get m f"
proof (induction files rule: rev_induct)
  case (snoc c files)
  then show ?case
    by (cases c) (auto simp: upsertJavaBuffersFromCandidateProject_def split: if_splits)
qed (simp add: upsertJavaBuffersFromCandidateProject_def)

lemma land_job_keeps:
  assumes "landed_text H loaded (isMounted s) job f = None" "js_get (javaBuffers s) f = Some e" "isDirty e"
  shows "\<exists>e'. js_get (javaBuffers (land_job H now loaded job s)) f = Some e' \<and> bufContent e' = bufContent e \<and>
     (baselineText e' = baselineText e \<or> (\<not> isDirty e' \<and> baselineText e' = bufContent e))"
  using assms ensureJavaBaseline_keeps [OF assms(2,3)]
  by (cases job)
    (auto simp: update_buffer_def land_buffer_hash_def land_save_def land_resolve_hash_def land_load_def
      land_merge_def upsert_other Let_def split: option.splits if_splits)

lemma land_job_writes:
  assumes "landed_text H loaded (isMounted s) job f = Some t" "js_get (javaBuffers s) f = Some e"
  shows "\<exists>e'. js_get (javaBuffers (land_job H now loaded job s)) f = Some e' \<and> bufContent e' = t"
  using assms upsert_text
  by (cases job)
    (auto simp: buffer_ops land_save_def land_load_def land_merge_def Let_def split: option.splits if_splits)

text \<open>
  C8: in every reachable state, a buffer with manual edits keeps its content when the baseline of a
  generator run, a hash or a save without a content of its own lands; its baseline moves only when the
  new output is that very content, and then the buffer is clean.  Over all landings: the content becomes
  another one exactly by a save that was called with a content, a draft load, a merge or an accepted
  candidate for this file, as \<open>landed_text\<close> lists them, and then it is their text.  So the edits are not
  safe from a draft load, which the pane starts by itself (\<open>late_landings_override_edits\<close>).
\<close>

theorem runs_never_overwrite_edits:
  assumes "java_reachable H s" "js_get (javaBuffers s) f = Some e" "bufContent e \<noteq> baselineText e"
  shows "\<exists>e'. js_get (javaBuffers (land_job H now loaded job s)) f = Some e' \<and>
    (case landed_text H loaded (isMounted s) job f of
       Some t \<Rightarrow> bufContent e' = t
     | None \<Rightarrow> bufContent e' = bufContent e \<and>
         (baselineText e' = baselineText e \<or> (\<not> isDirty e' \<and> baselineText e' = bufContent e)))"
proof (cases "landed_text H loaded (isMounted s) job f")
  case None
  have "isDirty e"
    using assms(3) buffers_okD [OF java_reachable_ok [OF assms(1)] assms(2)] by (auto simp: buffer_ok_def)
  from land_job_keeps [OF None assms(2) this, of now] None show ?thesis by simp
next
  case (Some t)
  from land_job_writes [OF Some assms(2), of now] Some show ?thesis by simp
qed

text \<open>A state with an edited buffer, for the witnesses.\<close>

definition edited_store :: "string \<Rightarrow> string \<Rightarrow> java_store" where
  "edited_store base content =
     setJavaBufferContent ''F'' content
       (java_init\<lparr>javaBuffers := ensureJavaBaseline id ''F'' base ''r1'' []\<rparr>)"

lemma edited_store_reachable: "java_reachable id (edited_store base content)"
proof -
  let ?s1 = "do_action id (EnsureBaseline ''F'' base ''r1'') java_init"
  let ?s2 = "java_init\<lparr>javaBuffers := ensureJavaBaseline id ''F'' base ''r1'' []\<rparr>"
  have "java_step id java_init ?s1" by (rule act)
  moreover have "java_step id ?s1 ?s2"
    using land [of "BaselineJob ''F'' base ''r1''" ?s1 id 0 None] by (simp add: java_init_def)
  moreover have "java_step id ?s2 (edited_store base content)"
    using act [of id ?s2 "SetContent ''F'' content"] by (simp add: edited_store_def)
  ultimately show ?thesis by (simp add: java_reachable_def)
qed

lemma edited_store_entry:
  "\<exists>e. js_get (javaBuffers (edited_store base content)) ''F'' = Some e \<and> bufContent e = content \<and>
     baselineText e = base \<and> (isDirty e \<longleftrightarrow> content \<noteq> base) \<and> bufferHash e = base \<and> baselineHash e = base"
  by (simp add: edited_store_def setJavaBufferContent_def buffer_ops ensureJavaBaseline_def Let_def)

lemma runs_never_overwrite_edits_witness:
  "\<exists>e'. js_get (javaBuffers (land_job id 0 None (BaselineJob ''F'' ''new'' ''r2'') (edited_store ''a'' ''b''))) ''F''
      = Some e' \<and> bufContent e' = ''b''"
proof -
  obtain e where e: "js_get (javaBuffers (edited_store ''a'' ''b'')) ''F'' = Some e" "bufContent e = ''b''"
    "baselineText e = ''a''" using edited_store_entry by blast
  with runs_never_overwrite_edits [OF edited_store_reachable e(1), of 0 None "BaselineJob ''F'' ''new'' ''r2''"]
  show ?thesis by auto
qed

section \<open>Settled hashes\<close>

text \<open>
  Runs in which no draft conflict is resolved, the page stays mounted, the hash function does not
  reject, and loaded drafts carry the hash of their content.
\<close>

fun settled_action :: "java_action \<Rightarrow> bool" where
  "settled_action (ResolveConflict _) = False"
| "settled_action Unmount = False"
| "settled_action _ = True"

fun is_hash_job :: "java_job \<Rightarrow> bool" where
  "is_hash_job (BufferHashJob _ _) = True"
| "is_hash_job _ = False"

definition honest_draft :: "(string \<Rightarrow> string) \<Rightarrow> loaded_draft option \<Rightarrow> bool" where
  "honest_draft H loaded \<longleftrightarrow>
     (\<forall>d. loaded = Some d \<longrightarrow> payloadBufferHash (loadedPayload d) = H (payloadContent (loadedPayload d)))"

inductive settled_step :: "(string \<Rightarrow> string) \<Rightarrow> java_store \<Rightarrow> java_store \<Rightarrow> bool" for H where
  act: "settled_action a \<Longrightarrow> settled_step H s (do_action H a s)"
| land: "job \<in> set (jobs s) \<Longrightarrow> honest_draft H loaded \<Longrightarrow>
    settled_step H s (land_job H now loaded job (s\<lparr>jobs := remove1 job (jobs s)\<rparr>))"
| drop: "job \<in> set (jobs s) \<Longrightarrow> \<not> is_hash_job job \<Longrightarrow>
    settled_step H s (s\<lparr>jobs := remove1 job (jobs s)\<rparr>)"

inductive_cases settled_stepE: "settled_step H s s'"

fun job_ok :: "(string \<Rightarrow> string) \<Rightarrow> java_job \<Rightarrow> bool" where
  "job_ok H (SaveJob f c ov p) = (c = None \<or> payloadBufferHash p = H (payloadContent p))"
| "job_ok H (ResolveHashJob _ _ _) = False"
| "job_ok H _ = True"

definition hashed :: "(string \<Rightarrow> string) \<Rightarrow> java_job set \<Rightarrow> buffers \<Rightarrow> bool" where
  "hashed H js m \<longleftrightarrow>
     (\<forall>f e. js_get m f = Some e \<longrightarrow> bufferHash e = H (bufContent e) \<or> BufferHashJob f (bufContent e) \<in> js)"

definition settled_inv :: "(string \<Rightarrow> string) \<Rightarrow> java_store \<Rightarrow> bool" where
  "settled_inv H s \<longleftrightarrow> isMounted s \<and> (\<forall>job\<in>set (jobs s). job_ok H job) \<and> hashed H (set (jobs s)) (javaBuffers s)"

lemma hashed_mono: "hashed H js m \<Longrightarrow> js \<subseteq> js' \<Longrightarrow> hashed H js' m"
  by (auto simp: hashed_def)

lemma hashed_set:
  "hashed H js m \<Longrightarrow> bufferHash e = H (bufContent e) \<or> BufferHashJob f (bufContent e) \<in> js \<Longrightarrow>
   hashed H js (js_set f e m)"
  by (simp add: hashed_def)

lemma hashed_update:
  "hashed H js m \<Longrightarrow>
   (\<And>e. js_get m f = Some e \<Longrightarrow> bufferHash e = H (bufContent e) \<or> BufferHashJob f (bufContent e) \<in> js \<Longrightarrow>
     bufferHash (g e) = H (bufContent (g e)) \<or> BufferHashJob f (bufContent (g e)) \<in> js) \<Longrightarrow>
   hashed H js (update_buffer f g m)"
  by (auto simp: hashed_def buffer_ops)

lemma hashed_landing:
  assumes "hashed H (insert (BufferHashJob f c) js) m"
  shows "hashed H js (update_buffer f (\<lambda>e. if bufContent e \<noteq> c then e else e\<lparr>bufferHash := H c\<rparr>) m)"
  unfolding hashed_def
proof (intro allI impI)
  fix f' e
  assume e: "js_get (update_buffer f (\<lambda>e. if bufContent e \<noteq> c then e else e\<lparr>bufferHash := H c\<rparr>) m) f' = Some e"
  show "bufferHash e = H (bufContent e) \<or> BufferHashJob f' (bufContent e) \<in> js"
  proof (cases "f' = f")
    case True
    with e obtain e0 where e0: "js_get m f = Some e0"
      "e = (if bufContent e0 \<noteq> c then e0 else e0\<lparr>bufferHash := H c\<rparr>)" by (auto simp: buffer_ops)
    with assms have "bufferHash e0 = H (bufContent e0) \<or> BufferHashJob f (bufContent e0) \<in> insert (BufferHashJob f c) js"
      unfolding hashed_def by blast
    with e0(2) True show ?thesis by (cases "bufContent e0 = c") auto
  next
    case False
    with e have "js_get m f' = Some e" by (simp add: buffer_ops)
    with assms have "bufferHash e = H (bufContent e) \<or> BufferHashJob f' (bufContent e) \<in> insert (BufferHashJob f c) js"
      unfolding hashed_def by blast
    with False show ?thesis by auto
  qed
qed

lemma hashed_ensure: "hashed H js m \<Longrightarrow> hashed H js (ensureJavaBaseline H f backend run m)"
  by (auto simp: ensureJavaBaseline_def Let_def intro!: hashed_set split: option.splits)

lemma hashed_upsert: "hashed H js m \<Longrightarrow> hashed H js (upsertJavaBuffersFromCandidateProject H files run m)"
proof -
  have entry: "bufferHash (candidate_entry H run ex c) = H c" "bufContent (candidate_entry H run ex c) = c" for ex c
    by (simp_all add: candidate_entry_def split: option.splits)
  have "hashed H js m \<Longrightarrow> hashed H js (foldl (\<lambda>next (f, c). js_set f (candidate_entry H run (js_get next f) c) next) m files)"
    by (induction files arbitrary: m) (auto simp: entry hashed_set simp del: js_get_set)
  then show "hashed H js m \<Longrightarrow> ?thesis" by (simp add: upsertJavaBuffersFromCandidateProject_def)
qed

lemma settled_act: "settled_inv H s \<Longrightarrow> settled_action a \<Longrightarrow> settled_inv H (do_action H a s)"
proof (cases a)
  case (SetContent f c)
  assume inv: "settled_inv H s"
  then have "hashed H (insert (BufferHashJob f c) (set (jobs s))) (javaBuffers s)"
    by (auto simp: settled_inv_def intro: hashed_mono)
  then have "hashed H (insert (BufferHashJob f c) (set (jobs s)))
      (update_buffer f (\<lambda>e. e\<lparr>bufContent := c, isDirty := c \<noteq> baselineText e\<rparr>) (javaBuffers s))"
    by (rule hashed_update) simp
  with inv SetContent show ?thesis by (simp add: settled_inv_def setJavaBufferContent_def)
next
  case (SetOverlay f ov)
  assume "settled_inv H s"
  then show ?thesis
    by (auto simp: SetOverlay settled_inv_def setJavaManualOverlay_def intro!: hashed_update)
qed (auto simp: settled_inv_def saveJavaDraft_def
      loadJavaDraftFor_def dismissJavaConflict_def drafts_cleared_def requestJavaMergeReview_def
      cancelJavaMergeReview_def applyJavaMergeSelections_def Let_def
      elim: hashed_mono split: option.splits sum.splits)

lemma settled_land:
  assumes inv: "settled_inv H s" and job: "job \<in> set (jobs s)" and honest: "honest_draft H loaded"
  shows "settled_inv H (land_job H now loaded job (s\<lparr>jobs := remove1 job (jobs s)\<rparr>))"
proof -
  let ?js = "set (remove1 job (jobs s))"
  have ok: "\<forall>j\<in>?js. job_ok H j" "job_ok H job" and m: "isMounted s"
    using inv job notin_set_remove1 by (auto simp: settled_inv_def)
  have sub: "set (jobs s) \<subseteq> insert job ?js" by (metis in_set_remove1 insertCI subsetI)
  have h: "hashed H (insert job ?js) (javaBuffers s)"
    using inv sub by (auto simp: settled_inv_def intro: hashed_mono)
  show ?thesis
  proof (cases job)
    case (BufferHashJob f c)
    have "hashed H ?js (update_buffer f (\<lambda>e. if bufContent e \<noteq> c then e else e\<lparr>bufferHash := H c\<rparr>) (javaBuffers s))"
      using h by (intro hashed_landing) (simp add: BufferHashJob)
    with ok m BufferHashJob show ?thesis by (simp add: settled_inv_def land_buffer_hash_def)
  next
    case (SaveJob f c ov p)
    with h have h': "hashed H ?js (javaBuffers s)" by (auto simp: hashed_def)
    with ok m SaveJob show ?thesis
      by (auto simp: settled_inv_def land_save_def Let_def intro!: hashed_update)
  next
    case (BaselineJob f b r)
    with h have "hashed H ?js (javaBuffers s)" by (auto simp: hashed_def)
    with ok m BaselineJob show ?thesis by (simp add: settled_inv_def hashed_ensure)
  next
    case (CandidateJob files r)
    with h have "hashed H ?js (javaBuffers s)" by (auto simp: hashed_def)
    with ok m CandidateJob show ?thesis by (simp add: settled_inv_def hashed_upsert)
  next
    case (LoadJob pid f backend rid)
    with h have "hashed H ?js (javaBuffers s)" by (auto simp: hashed_def)
    with ok m honest LoadJob show ?thesis
      by (auto simp: settled_inv_def land_load_def honest_draft_def Let_def intro!: hashed_update split: option.splits)
  next
    case (MergeJob review merged)
    with h have "hashed H ?js (javaBuffers s)" by (auto simp: hashed_def)
    with ok m MergeJob show ?thesis
      by (auto simp: settled_inv_def land_merge_def Let_def intro!: hashed_update)
  qed (use ok in simp)
qed

lemma settled_drop:
  assumes "settled_inv H s" "job \<in> set (jobs s)" "\<not> is_hash_job job"
  shows "settled_inv H (s\<lparr>jobs := remove1 job (jobs s)\<rparr>)"
proof -
  have "BufferHashJob f c \<in> set (remove1 job (jobs s)) \<longleftrightarrow> BufferHashJob f c \<in> set (jobs s)" for f c
    using assms(3) by (cases job) (auto simp: in_set_remove1)
  then show ?thesis using assms notin_set_remove1 by (fastforce simp: settled_inv_def hashed_def)
qed

lemma settled_reachable: "(settled_step H)\<^sup>*\<^sup>* java_init s \<Longrightarrow> settled_inv H s"
proof (induction rule: rtranclp_induct)
  case base
  show ?case by (simp add: java_init_def settled_inv_def hashed_def)
next
  case (step s s')
  from step.hyps(2) step.IH show ?case
    by (cases rule: settled_stepE) (auto simp: settled_act settled_land settled_drop)
qed

lemma settled_java: "(settled_step H)\<^sup>*\<^sup>* java_init s \<Longrightarrow> java_reachable H s"
  unfolding java_reachable_def
proof (induction rule: rtranclp_induct)
  case (step s s')
  from step.hyps(2) have "java_step H s s'"
    by (cases rule: settled_stepE) (auto intro: java_step.intros)
  with step.IH show ?case by (rule rtranclp.rtrancl_into_rtrancl)
qed simp

text \<open>
  As long as no draft conflict is resolved, a buffer whose hash is not on its way carries the
  hash of its content, and the manual edits flag of the file is raised exactly when the hash of the
  content differs from the hash of the baseline.
\<close>

lemma settled_flag_is_exact:
  assumes "(settled_step H)\<^sup>*\<^sup>* java_init s" "js_get (javaBuffers s) f = Some e"
    and "BufferHashJob f (bufContent e) \<notin> set (jobs s)"
  shows "bufferHash e = H (bufContent e) \<and>
    (H (baselineText e) \<noteq> [] \<longrightarrow>
      (flagManualEdits (javaStatusFlags s f) \<longleftrightarrow> H (bufContent e) \<noteq> H (baselineText e)))"
proof -
  have "bufferHash e = H (bufContent e)"
    using settled_reachable [OF assms(1)] assms(2,3) by (auto simp: settled_inv_def hashed_def)
  moreover have "baselineHash e = H (baselineText e)"
    using buffers_okD [OF java_reachable_ok [OF settled_java [OF assms(1)]] assms(2)] by (simp add: buffer_ok_def)
  ultimately show ?thesis by (simp add: javaStatusFlags_def assms(2))
qed

text \<open>Concrete interleavings: actions, and landings of the job at a position of the queue.\<close>

datatype java_event = Act java_action | Land nat "loaded_draft option"

fun run_event :: "(string \<Rightarrow> string) \<Rightarrow> java_store \<Rightarrow> java_event \<Rightarrow> java_store" where
  "run_event H s (Act a) = do_action H a s"
| "run_event H s (Land n loaded) =
     (if n < length (jobs s)
      then land_job H 0 loaded (jobs s ! n) (s\<lparr>jobs := remove1 (jobs s ! n) (jobs s)\<rparr>) else s)"

lemma run_events_reachable: "java_reachable H s \<Longrightarrow> java_reachable H (foldl (run_event H) s es)"
proof (induction es arbitrary: s)
  case (Cons ev es)
  have "java_step H s (run_event H s ev) \<or> run_event H s ev = s"
    by (cases ev) (auto intro: java_step.intros nth_mem)
  with Cons.prems have "java_reachable H (run_event H s ev)"
    unfolding java_reachable_def by (auto intro: rtranclp.rtrancl_into_rtrancl)
  from Cons.IH [OF this] show ?case by simp
qed simp

fun settled_event :: "(string \<Rightarrow> string) \<Rightarrow> java_event \<Rightarrow> bool" where
  "settled_event H (Act a) = settled_action a"
| "settled_event H (Land n loaded) = (loaded = None)"

lemma run_events_settled:
  "(settled_step H)\<^sup>*\<^sup>* java_init s \<Longrightarrow> list_all (settled_event H) es \<Longrightarrow>
   (settled_step H)\<^sup>*\<^sup>* java_init (foldl (run_event H) s es)"
proof (induction es arbitrary: s)
  case (Cons ev es)
  have "settled_step H s (run_event H s ev) \<or> run_event H s ev = s"
    using Cons.prems(2) by (cases ev) (auto intro: settled_step.intros nth_mem simp: honest_draft_def)
  with Cons.prems have "(settled_step H)\<^sup>*\<^sup>* java_init (run_event H s ev)"
    by (auto intro: rtranclp.rtrancl_into_rtrancl)
  from Cons.IH [OF this] Cons.prems(2) show ?case by simp
qed simp

lemma settled_flag_is_exact_witness:
  "flagManualEdits (javaStatusFlags (foldl (run_event id) java_init
     [Act (EnsureBaseline ''F'' ''a'' ''r''), Land 0 None, Act (SetContent ''F'' ''b''), Land 0 None]) ''F'')"
proof -
  let ?s = "foldl (run_event id) java_init
     [Act (EnsureBaseline ''F'' ''a'' ''r''), Land 0 None, Act (SetContent ''F'' ''b''), Land 0 None]"
  have "(settled_step id)\<^sup>*\<^sup>* java_init ?s" by (rule run_events_settled) simp_all
  moreover have "js_get (javaBuffers ?s) ''F'' \<noteq> None" "jobs ?s = []"
    "bufContent (the (js_get (javaBuffers ?s) ''F'')) = ''b''"
    "baselineText (the (js_get (javaBuffers ?s) ''F'')) = ''a''" by code_simp+
  ultimately show ?thesis
    using settled_flag_is_exact [of id ?s "''F''" "the (js_get (javaBuffers ?s) ''F'')"] by auto
qed

section \<open>Late landings\<close>

definition a_draft :: "string \<Rightarrow> loaded_draft" where
  "a_draft content =
     \<lparr>loadedPayload =
        \<lparr>payloadSchema = ''v0'', payloadKind = JavaKind, payloadContent = content,
         payloadBufferHash = content, payloadProgramId = None, payloadSourceName = None,
         payloadJavaFilePath = None, payloadLastRunInputHash = None, payloadLastRunInputContent = None,
         payloadBaselineHash = None, payloadBaselineRunId = None, payloadOverlay = None,
         payloadResolvedBackendHash = None, payloadSavedAt = 0\<rparr>,
      loadedIsExpired = False, loadedSavedAt = 0, loadedTtlExpiresAt = 0\<rparr>"

definition resolve_race :: "java_event list" where
  "resolve_race =
     [Act (EnsureBaseline ''F'' ''a'' ''r''), Land 0 None,
      Act (LoadDraft (Some ''P'') None ''F'' ''a''), Land 0 (Some (a_draft ''b'')),
      Act (ResolveConflict PickLocalDraft), Act (SetContent ''F'' ''a''), Land 1 None, Land 0 None]"

definition save_race :: "java_event list" where
  "save_race =
     [Act (EnsureBaseline ''F'' ''a'' ''r''), Land 0 None, Act (SetContent ''F'' ''b''), Land 0 None,
      Act (SaveDraft (Some ''P'') None ''F'' (Some ''b'') None 0), Act (SetContent ''F'' ''bc''), Land 0 None]"

definition load_race :: "java_event list" where
  "load_race =
     [Act (EnsureBaseline ''F'' ''a'' ''r''), Land 0 None, Act (LoadDraft (Some ''P'') None ''F'' ''a''),
      Act (SetContent ''F'' ''typed''), Land 0 (Some (a_draft ''a''))]"

definition buffer_satisfies :: "java_store \<Rightarrow> string \<Rightarrow> (java_buffer \<Rightarrow> bool) \<Rightarrow> bool" where
  "buffer_satisfies s f P = (case js_get (javaBuffers s) f of None \<Rightarrow> False | Some e \<Rightarrow> P e)"

text \<open>
  Three landings override what the user did after them.  The hash of a resolved conflict is
  stored without looking at the buffer: after the user typed the baseline back, every job landed and
  the buffer is clean, yet the manual edits flag is raised.  A save that lands puts its own
  content back over what was typed while it was under way.  And a draft load, which the pane starts when
  the content of a run arrives, replaces what was typed before it lands.
\<close>

lemma late_landings_override_edits:
  "(let s = foldl (run_event id) java_init resolve_race
    in java_reachable id s \<and> jobs s = [] \<and> flagManualEdits (javaStatusFlags s ''F'') \<and>
       buffer_satisfies s ''F'' (\<lambda>e. bufContent e = baselineText e \<and> \<not> isDirty e)) \<and>
   (let s = foldl (run_event id) java_init save_race
    in java_reachable id s \<and> buffer_satisfies s ''F'' (\<lambda>e. bufContent e = ''b'')) \<and>
   (let s = foldl (run_event id) java_init load_race
    in java_reachable id s \<and> buffer_satisfies s ''F'' (\<lambda>e. bufContent e = ''a'' \<and> \<not> isDirty e))"
proof -
  have init: "java_reachable id java_init" by (simp add: java_reachable_def)
  have "jobs (foldl (run_event id) java_init resolve_race) = []" by code_simp
  moreover have "flagManualEdits (javaStatusFlags (foldl (run_event id) java_init resolve_race) ''F'')"
    by code_simp
  moreover have "buffer_satisfies (foldl (run_event id) java_init resolve_race) ''F''
      (\<lambda>e. bufContent e = baselineText e \<and> \<not> isDirty e)" by code_simp
  moreover have "buffer_satisfies (foldl (run_event id) java_init save_race) ''F'' (\<lambda>e. bufContent e = ''b'')"
    by code_simp
  moreover have "buffer_satisfies (foldl (run_event id) java_init load_race) ''F''
      (\<lambda>e. bufContent e = ''a'' \<and> \<not> isDirty e)" by code_simp
  ultimately show ?thesis unfolding Let_def using run_events_reachable [OF init] by blast
qed

section \<open>Regenerating over manual edits\<close>



end
