(* ===== verification/Byte_Encoding.thy ===== *)
theory Byte_Encoding
  imports C2c_Prelude "HOL-Library.Word"
begin

text \<open>
  The byte strings of \<open>editorPersistence.ts\<close>: \<open>TextEncoder\<close> (UTF-8 of the code units below 256 that
  the model's strings hold), big-endian 32-bit lengths as \<open>DataView.setUint32\<close> writes them (the
  value is taken modulo \<open>2 ^ 32\<close>), length-prefixed fields, and hexadecimal output.  The encoding of
  a list of fields is injective, which is what the module's comments promise of it.
\<close>

type_synonym byte = "8 word"

type_synonym bytes = "byte list"

section \<open>The code\<close>

fun utf8 :: "string \<Rightarrow> bytes" where
  "utf8 [] = []"
| "utf8 (c # cs) =
     (let n = of_char c :: nat
      in (if n < 128 then [word_of_nat n] else [word_of_nat (192 + n div 64), word_of_nat (128 + n mod 64)])
         @ utf8 cs)"

definition u32be :: "nat \<Rightarrow> bytes" where
  "u32be n = [word_of_nat (n div 16777216), word_of_nat (n div 65536), word_of_nat (n div 256), word_of_nat n]"

definition prefixed :: "bytes \<Rightarrow> bytes" where
  "prefixed field = u32be (length field) @ field"

definition encodeLengthPrefixedFields :: "string \<Rightarrow> string list \<Rightarrow> bytes" where
  "encodeLengthPrefixedFields domain fields = concat (map (prefixed \<circ> utf8) (domain # fields))"

definition hex_digit :: "nat \<Rightarrow> char" where
  "hex_digit d = (if d < 10 then char_of (48 + d) else char_of (87 + d))"

definition bytesToHex :: "bytes \<Rightarrow> string" where
  "bytesToHex bs = concat (map (\<lambda>b. [hex_digit (unat b div 16), hex_digit (unat b mod 16)]) bs)"

section \<open>Injectivity\<close>

lemma unat_word_of_nat_byte [simp]: "unat (word_of_nat n :: byte) = n mod 256"
  by (simp add: unat_of_nat)

lemma word_of_nat_byte_eq: "(word_of_nat m :: byte) = word_of_nat n \<longleftrightarrow> m mod 256 = n mod 256"
  by (simp add: word_eq_iff_unsigned flip: unat_word_of_nat_byte)

lemma of_char_less: "(of_char c :: nat) < 256"
  by simp

lemma unat_byte_less: "unat (x :: byte) < 256"
  by (rule order_less_le_trans [OF unsigned_less]) simp

lemma unat_hd_utf8:
  "unat (hd (utf8 (c # cs))) =
     (if of_char c < (128 :: nat) then of_char c else 192 + of_char c div 64)"
proof -
  have "of_char c div (64 :: nat) < 4" by (simp add: less_mult_imp_div_less)
  then have "192 + of_char c div (64 :: nat) < 256" by linarith
  then show ?thesis by (simp add: Let_def del: of_nat_add)
qed

lemma utf8_inj: "utf8 s = utf8 t \<Longrightarrow> s = t"
proof (induction s arbitrary: t)
  case Nil
  then show ?case by (cases t) (auto simp: Let_def split: if_splits)
next
  case (Cons c s)
  obtain d t' where t: "t = d # t'"
    using Cons.prems by (cases t) (auto simp: Let_def split: if_splits)
  let ?m = "of_char c :: nat" and ?n = "of_char d :: nat"
  have b: "?m < 256" "?n < 256" by simp_all
  then have d: "192 + ?m div 64 < 256" "192 + ?n div 64 < 256" "128 + ?m mod 64 < 256" "128 + ?n mod 64 < 256"
    using less_mult_imp_div_less [of ?m 4 64] less_mult_imp_div_less [of ?n 4 64]
      mod_less_divisor [of 64 ?m] mod_less_divisor [of 64 ?n] by linarith+
  from Cons.prems t have h: "unat (hd (utf8 (c # s))) = unat (hd (utf8 (d # t')))" by simp
  have "?m = ?n \<and> utf8 s = utf8 t'"
  proof (cases "?m < 128"; cases "?n < 128")
    assume "\<not> ?m < 128" "\<not> ?n < 128"
    with Cons.prems t d have "?m div 64 = ?n div 64" "?m mod 64 = ?n mod 64" "utf8 s = utf8 t'"
      by (simp_all add: Let_def word_of_nat_byte_eq)
    then show ?thesis by (metis div_mult_mod_eq)
  next
    assume a: "?m < 128" "?n < 128"
    with h have "?m = ?n" by (simp add: unat_hd_utf8 del: utf8.simps)
    with a Cons.prems t show ?thesis by (simp add: Let_def)
  qed (use h b in \<open>auto simp: unat_hd_utf8 simp del: utf8.simps split: if_splits\<close>)
  with Cons.IH t show ?case by (simp add: of_char_eq_iff)
qed

lemma u32be_digits:
  fixes k :: nat
  assumes "k < 4294967296"
  shows "k = k div 16777216 mod 256 * 16777216 + k div 65536 mod 256 * 65536 +
    k div 256 mod 256 * 256 + k mod 256"
proof -
  let ?a = "k div 256" and ?b = "k div 65536" and ?c = "k div 16777216"
  have "?c < 256" using assms by (simp add: less_mult_imp_div_less)
  then have "?c mod 256 = ?c" by (rule mod_less)
  moreover have "?b = ?a div 256" "?c = ?b div 256" by (simp_all add: div_mult2_eq [symmetric])
  moreover have "?a * 256 + k mod 256 = k" "?a div 256 * 256 + ?a mod 256 = ?a" "?b div 256 * 256 + ?b mod 256 = ?b"
    by (rule div_mult_mod_eq)+
  ultimately show ?thesis by linarith
qed

lemma u32be_inj:
  assumes "u32be m = u32be n" "m < 4294967296" "n < 4294967296"
  shows "m = n"
proof -
  have "m div 16777216 mod 256 = n div 16777216 mod 256" "m div 65536 mod 256 = n div 65536 mod 256"
    "m div 256 mod 256 = n div 256 mod 256" "m mod 256 = n mod 256"
    using assms(1) by (simp_all add: u32be_def word_of_nat_byte_eq)
  moreover have "k = k div 16777216 mod 256 * 16777216 + k div 65536 mod 256 * 65536 +
      k div 256 mod 256 * 256 + k mod 256" if "k < 4294967296" for k :: nat
    using u32be_digits [OF that] .
  ultimately show ?thesis using assms(2,3) by metis
qed

lemma length_u32be [simp]: "length (u32be n) = 4"
  by (simp add: u32be_def)

lemma prefixed_split:
  assumes "prefixed x @ xs = prefixed y @ ys" "length x < 4294967296" "length y < 4294967296"
  shows "x = y \<and> xs = ys"
proof -
  have "u32be (length x) @ x @ xs = u32be (length y) @ y @ ys"
    using assms(1) by (simp add: prefixed_def)
  then have e: "u32be (length x) = u32be (length y)" "x @ xs = y @ ys"
    by (simp_all add: append_eq_append_conv)
  from u32be_inj [OF e(1) assms(2,3)] e(2) show ?thesis by (simp add: append_eq_append_conv)
qed

lemma prefixed_not_Nil [simp]: "prefixed x \<noteq> []"
  by (simp add: prefixed_def u32be_def)

lemma concat_prefixed_inj:
  assumes "concat (map prefixed xs) = concat (map prefixed ys)"
    and "\<forall>x\<in>set xs. length x < 4294967296" "\<forall>y\<in>set ys. length y < 4294967296"
  shows "xs = ys"
  using assms
proof (induction xs arbitrary: ys)
  case Nil
  then show ?case by (cases ys) auto
next
  case (Cons x xs)
  then obtain y ys' where ys: "ys = y # ys'" by (cases ys) auto
  with Cons.prems prefixed_split [of x "concat (map prefixed xs)" y "concat (map prefixed ys')"]
  have "x = y" "concat (map prefixed xs) = concat (map prefixed ys')" by simp_all
  with Cons ys show ?case by simp
qed

definition short :: "string \<Rightarrow> bool" where
  "short s \<longleftrightarrow> length s < 2147483648"

lemma length_utf8_le: "length (utf8 s) \<le> 2 * length s"
  by (induction s) (simp_all add: Let_def)

lemma short_utf8: "short s \<Longrightarrow> length (utf8 s) < 4294967296"
  using length_utf8_le [of s] by (simp add: short_def)

lemma encode_fields_inj:
  assumes "encodeLengthPrefixedFields d fs = encodeLengthPrefixedFields d' gs"
    and "\<forall>f\<in>set (d # fs). short f" "\<forall>g\<in>set (d' # gs). short g"
  shows "d = d' \<and> fs = gs"
proof -
  have "map utf8 (d # fs) = map utf8 (d' # gs)"
    by (rule concat_prefixed_inj) (use assms in \<open>auto simp: encodeLengthPrefixedFields_def short_utf8\<close>)
  moreover have "inj utf8" by (rule injI) (rule utf8_inj)
  ultimately have "d # fs = d' # gs" by (metis inj_map_eq_map)
  then show ?thesis by simp
qed

lemma hex_digit_inj: "d < 16 \<Longrightarrow> e < 16 \<Longrightarrow> hex_digit d = hex_digit e \<Longrightarrow> d = e"
  by (auto simp: hex_digit_def char_of_eq_iff take_bit_eq_mod split: if_splits)

lemma bytesToHex_inj: "bytesToHex xs = bytesToHex ys \<Longrightarrow> xs = ys"
proof (induction xs arbitrary: ys)
  case Nil
  then show ?case by (cases ys) (simp_all add: bytesToHex_def)
next
  case (Cons x xs)
  then obtain y ys' where ys: "ys = y # ys'" by (cases ys) (auto simp: bytesToHex_def)
  have lt: "unat x < 256" "unat y < 256" by (rule unat_byte_less)+
  from Cons.prems ys have "hex_digit (unat x div 16) = hex_digit (unat y div 16)"
    "hex_digit (unat x mod 16) = hex_digit (unat y mod 16)" "bytesToHex xs = bytesToHex ys'"
    by (simp_all add: bytesToHex_def)
  then have "unat x div 16 = unat y div 16" "unat x mod 16 = unat y mod 16" "xs = ys'"
    using lt Cons.IH by (auto intro: hex_digit_inj)
  with ys show ?case by (metis div_mult_mod_eq word_unat_eq_iff)
qed

end
