(* ===== verification/Draft_Store.thy ===== *)
theory Draft_Store
  imports Draft_Types Byte_Encoding
begin

text \<open>
  \<open>editorPersistence.ts\<close>: drafts encrypted at rest in IndexedDB.  Records are found by an HMAC
  selector over tenant, user and file, the ciphertext is bound to the selectors by the additional
  data, a record that does not decrypt is dropped, and drafts expire.

  Web Crypto is a parameter: the record \<open>crypto\<close> holds the primitives that the module calls, and
  \<open>crypto_ok\<close> their documented behaviour (an authenticated decryption gives what was encrypted under
  the same key, nonce and additional data, and nothing else; digests and MACs do not collide).
  A payload stands for its JSON text.  The browser's answers (session, storage) are a \<open>draft_env\<close>.
\<close>

section \<open>Parameters\<close>

record 'c crypto =
  sha256 :: "bytes \<Rightarrow> bytes"
  hmacSha256 :: "bytes \<Rightarrow> bytes \<Rightarrow> bytes"
  hkdf :: "bytes \<Rightarrow> bytes \<Rightarrow> bytes \<Rightarrow> bytes"
  seal :: "bytes \<Rightarrow> bytes \<Rightarrow> bytes \<Rightarrow> draft_payload \<Rightarrow> 'c"
  unseal :: "bytes \<Rightarrow> bytes \<Rightarrow> bytes \<Rightarrow> 'c \<Rightarrow> draft_payload option"
  cipherSize :: "'c \<Rightarrow> nat"

record session_bootstrap =
  bootTenantId :: string
  bootUserId :: string
  wrappingSecret :: bytes

datatype bootstrap_error = Unauthenticated | InvalidResponse | NetworkError

datatype draft_error =
  SessionExpiredDuringEdit | CryptoUnavailable | StorageUnavailable | QuotaExceeded
| KindMismatch | PutFailed

datatype put_outcome = PutOk | PutQuota | PutRefused

record draft_env =
  envBootstrap :: "bootstrap_error + session_bootstrap"
  envBrowser :: bool
  envDbOpens :: bool
  envPut :: put_outcome
  envNow :: int
  envTtl :: int
  envIv :: bytes

record 'c draft_record =
  recScope :: string
  recCipher :: 'c
  recIv :: bytes
  recSchema :: string
  recSavedAt :: int
  recExpiresAt :: int

type_synonym 'c draft_db = "(string, 'c draft_record) js_map"

section \<open>Constants and key derivation\<close>

definition RECORD_SCHEMA_VERSION :: string where "RECORD_SCHEMA_VERSION = ''v3''"

definition RECORD_SCHEMA_VERSION_BYTE :: byte where "RECORD_SCHEMA_VERSION_BYTE = 3"

definition DEFAULT_TTL_MS :: int where "DEFAULT_TTL_MS = 14 * 24 * 60 * 60 * 1000"

definition TTL_TOUCH_WINDOW_MS :: int where "TTL_TOUCH_WINDOW_MS = 24 * 60 * 60 * 1000"

definition SELECTOR_RECORD_DOMAIN :: string where "SELECTOR_RECORD_DOMAIN = ''c2c-studio-draft-record-v1''"

definition SELECTOR_SCOPE_DOMAIN :: string where "SELECTOR_SCOPE_DOMAIN = ''c2c-studio-draft-scope-v1''"

definition HKDF_INFO :: bytes where "HKDF_INFO = utf8 ''c2c-studio-draft-v1''"

definition deriveHkdfSalt :: "'c crypto \<Rightarrow> string \<Rightarrow> string \<Rightarrow> bytes" where
  "deriveHkdfSalt C tenantId userId = sha256 C (prefixed (utf8 tenantId) @ prefixed (utf8 userId))"

text \<open>The derivation without the cache, and the module's one-entry cache.\<close>

definition aes_key :: "'c crypto \<Rightarrow> session_bootstrap \<Rightarrow> bytes" where
  "aes_key C boot =
     hkdf C (wrappingSecret boot) (deriveHkdfSalt C (bootTenantId boot) (bootUserId boot)) HKDF_INFO"

record key_cache =
  cacheFingerprint :: string
  cacheTenantId :: string
  cacheUserId :: string
  cacheKey :: bytes

definition fingerprintSecret :: "'c crypto \<Rightarrow> bytes \<Rightarrow> string" where
  "fingerprintSecret C secret = bytesToHex (sha256 C secret)"

definition deriveAesKey :: "'c crypto \<Rightarrow> key_cache option \<Rightarrow> session_bootstrap \<Rightarrow> bytes \<times> key_cache option" where
  "deriveAesKey C cache boot =
     (let fingerprint = fingerprintSecret C (wrappingSecret boot);
          fresh = (aes_key C boot,
            Some \<lparr>cacheFingerprint = fingerprint, cacheTenantId = bootTenantId boot,
                  cacheUserId = bootUserId boot, cacheKey = aes_key C boot\<rparr>)
      in case cache of
           Some e \<Rightarrow>
             (if cacheFingerprint e = fingerprint \<and> cacheTenantId e = bootTenantId boot \<and>
                 cacheUserId e = bootUserId boot
              then (cacheKey e, cache) else fresh)
         | None \<Rightarrow> fresh)"

definition hmacSelector :: "'c crypto \<Rightarrow> session_bootstrap \<Rightarrow> string \<Rightarrow> string list \<Rightarrow> string" where
  "hmacSelector C boot domain parts =
     RECORD_SCHEMA_VERSION @ '':'' @
       bytesToHex (hmacSha256 C (wrappingSecret boot) (encodeLengthPrefixedFields domain parts))"

fun kind_string :: "draft_kind \<Rightarrow> string" where
  "kind_string CobolKind = ''cobol''"
| "kind_string JavaKind = ''java''"

definition draftKeySelectorFields :: "session_bootstrap \<Rightarrow> draft_key \<Rightarrow> string list" where
  "draftKeySelectorFields boot key =
     [bootTenantId boot, bootUserId boot, kind_string (key_kind key), key_program key, key_source key,
      or_default (key_java_path key) ''.'']"

definition deriveRecordSelector :: "'c crypto \<Rightarrow> session_bootstrap \<Rightarrow> draft_key \<Rightarrow> string" where
  "deriveRecordSelector C boot key =
     hmacSelector C boot SELECTOR_RECORD_DOMAIN (draftKeySelectorFields boot key)"

definition deriveScopeSelector :: "'c crypto \<Rightarrow> session_bootstrap \<Rightarrow> string" where
  "deriveScopeSelector C boot = hmacSelector C boot SELECTOR_SCOPE_DOMAIN [bootTenantId boot, bootUserId boot]"

definition deriveAad :: "string \<Rightarrow> string \<Rightarrow> bytes" where
  "deriveAad recordKey scopeSelector =
     RECORD_SCHEMA_VERSION_BYTE # prefixed (utf8 recordKey) @ prefixed (utf8 scopeSelector)"

definition encryptPayload ::
  "'c crypto \<Rightarrow> session_bootstrap \<Rightarrow> bytes \<Rightarrow> string \<Rightarrow> string \<Rightarrow> draft_payload \<Rightarrow> 'c" where
  "encryptPayload C boot iv recordKey scopeSelector payload =
     seal C (aes_key C boot) iv (deriveAad recordKey scopeSelector) payload"

definition decryptPayload ::
  "'c crypto \<Rightarrow> session_bootstrap \<Rightarrow> string \<Rightarrow> string \<Rightarrow> bytes \<Rightarrow> 'c \<Rightarrow> draft_payload option" where
  "decryptPayload C boot recordKey scopeSelector iv ciphertext =
     (case unseal C (aes_key C boot) iv (deriveAad recordKey scopeSelector) ciphertext of
        None \<Rightarrow> None
      | Some p \<Rightarrow> if payloadSchema p \<noteq> ''v0'' then None else Some p)"

section \<open>Operations\<close>

definition bootstrapFor :: "draft_env \<Rightarrow> draft_scope \<Rightarrow> draft_error + session_bootstrap" where
  "bootstrapFor env scope =
     (case envBootstrap env of
        Inl Unauthenticated \<Rightarrow> Inl SessionExpiredDuringEdit
      | Inl _ \<Rightarrow> Inl CryptoUnavailable
      | Inr boot \<Rightarrow>
          (if bootTenantId boot \<noteq> scopeTenantId scope \<or> bootUserId boot \<noteq> scopeUserId scope
           then Inl SessionExpiredDuringEdit else Inr boot))"

text \<open>The common prefix of the operations: the session, the database, Web Crypto.\<close>

definition with_session ::
  "draft_env \<Rightarrow> draft_scope \<Rightarrow> (session_bootstrap \<Rightarrow> (draft_error + 'r) \<times> 'c draft_db) \<Rightarrow> 'c draft_db \<Rightarrow>
   (draft_error + 'r) \<times> 'c draft_db" where
  "with_session env scope body db =
     (case bootstrapFor env scope of
        Inl err \<Rightarrow> (Inl err, db)
      | Inr boot \<Rightarrow>
          (if \<not> envDbOpens env then (Inl StorageUnavailable, db)
           else if \<not> envBrowser env then (Inl CryptoUnavailable, db)
           else body boot))"

definition stamp_key :: "draft_key \<Rightarrow> draft_payload \<Rightarrow> draft_payload" where
  "stamp_key key payload =
     payload\<lparr>payloadProgramId := Some (key_program key), payloadSourceName := Some (key_source key),
       payloadJavaFilePath := or_else (key_java_path key) (payloadJavaFilePath payload)\<rparr>"

record save_result =
  encryptedSize :: nat
  savedTtlExpiresAt :: int

definition saveDraft ::
  "'c crypto \<Rightarrow> draft_env \<Rightarrow> draft_scope \<Rightarrow> draft_key \<Rightarrow> draft_payload \<Rightarrow> 'c draft_db \<Rightarrow>
   (draft_error + save_result) \<times> 'c draft_db" where
  "saveDraft C env scope key payload db =
     (if payloadKind payload \<noteq> key_kind key then (Inl KindMismatch, db)
      else with_session env scope (\<lambda>boot.
        let recordKey = deriveRecordSelector C boot key;
            scopeSelector = deriveScopeSelector C boot;
            ciphertext = encryptPayload C boot (envIv env) recordKey scopeSelector (stamp_key key payload);
            record = \<lparr>recScope = scopeSelector, recCipher = ciphertext, recIv = envIv env,
                      recSchema = RECORD_SCHEMA_VERSION, recSavedAt = envNow env,
                      recExpiresAt = envNow env + envTtl env\<rparr>
        in case envPut env of
             PutQuota \<Rightarrow> (Inl QuotaExceeded, db)
           | PutRefused \<Rightarrow> (Inl PutFailed, db)
           | PutOk \<Rightarrow>
               (Inr \<lparr>encryptedSize = cipherSize C ciphertext, savedTtlExpiresAt = envNow env + envTtl env\<rparr>,
                js_set recordKey record db)) db)"

definition loadDraft ::
  "'c crypto \<Rightarrow> draft_env \<Rightarrow> draft_scope \<Rightarrow> draft_key \<Rightarrow> 'c draft_db \<Rightarrow>
   (draft_error + loaded_draft option) \<times> 'c draft_db" where
  "loadDraft C env scope key db =
     with_session env scope (\<lambda>boot.
       let recordKey = deriveRecordSelector C boot key; scopeSelector = deriveScopeSelector C boot
       in case js_get db recordKey of
            None \<Rightarrow> (Inr None, db)
          | Some rec \<Rightarrow>
              (if recSchema rec \<noteq> RECORD_SCHEMA_VERSION \<or> recScope rec \<noteq> scopeSelector
               then (Inr None, js_delete recordKey db)
               else case decryptPayload C boot recordKey (recScope rec) (recIv rec) (recCipher rec) of
                 None \<Rightarrow> (Inr None, js_delete recordKey db)
               | Some payload \<Rightarrow>
                   (let isExpired = (recExpiresAt rec \<le> envNow env);
                        touch = (\<not> isExpired \<and>
                          2 * (recExpiresAt rec - envNow env) \<le> min (envTtl env) (2 * TTL_TOUCH_WINDOW_MS));
                        expiresAt = (if touch then envNow env + envTtl env else recExpiresAt rec);
                        loaded = \<lparr>loadedPayload = payload, loadedIsExpired = isExpired,
                                  loadedSavedAt = recSavedAt rec, loadedTtlExpiresAt = expiresAt\<rparr>
                    in if touch then
                         (case envPut env of
                            PutOk \<Rightarrow> (Inr (Some loaded), js_set recordKey (rec\<lparr>recExpiresAt := expiresAt\<rparr>) db)
                          | _ \<Rightarrow> (Inl PutFailed, db))
                       else (Inr (Some loaded), db)))) db"

definition in_scope :: "string \<Rightarrow> string \<times> 'c draft_record \<Rightarrow> bool" where
  "in_scope scopeSelector entry \<longleftrightarrow> recScope (snd entry) = scopeSelector"

definition expired_at :: "int \<Rightarrow> string \<times> 'c draft_record \<Rightarrow> bool" where
  "expired_at now entry \<longleftrightarrow> recExpiresAt (snd entry) \<le> now"

text \<open>
  The cursor loops delete what they count, record by record, inside one transaction: the effect is
  the filter.
\<close>

definition purgeExpired ::
  "'c crypto \<Rightarrow> draft_env \<Rightarrow> draft_scope \<Rightarrow> 'c draft_db \<Rightarrow> (draft_error + nat) \<times> 'c draft_db" where
  "purgeExpired C env scope db =
     with_session env scope (\<lambda>boot.
       let gone = (\<lambda>entry. in_scope (deriveScopeSelector C boot) entry \<and> expired_at (envNow env) entry)
       in (Inr (length (filter gone db)), filter (\<lambda>entry. \<not> gone entry) db)) db"

definition clearAll ::
  "'c crypto \<Rightarrow> draft_env \<Rightarrow> draft_scope \<Rightarrow> 'c draft_db \<Rightarrow> (draft_error + nat) \<times> 'c draft_db" where
  "clearAll C env scope db =
     with_session env scope (\<lambda>boot.
       let gone = in_scope (deriveScopeSelector C boot)
       in (Inr (length (filter gone db)), filter (\<lambda>entry. \<not> gone entry) db)) db"

definition clearLocalOrigin :: "draft_env \<Rightarrow> 'c draft_db \<Rightarrow> (draft_error + nat) \<times> 'c draft_db" where
  "clearLocalOrigin env db =
     (if \<not> envDbOpens env then (Inl StorageUnavailable, db) else (Inr (length db), []))"

definition countDrafts ::
  "'c crypto \<Rightarrow> draft_env \<Rightarrow> draft_scope \<Rightarrow> 'c draft_db \<Rightarrow> (draft_error + nat) \<times> 'c draft_db" where
  "countDrafts C env scope db =
     with_session env scope (\<lambda>boot.
       (Inr (length (filter (in_scope (deriveScopeSelector C boot)) db)), db)) db"

record draft_meta =
  metaKind :: draft_kind
  metaProgramId :: string
  metaSourceName :: string
  metaJavaFilePath :: "string option"
  metaSavedAt :: int
  metaTtlExpiresAt :: int
  metaIsExpired :: bool

definition nonempty :: "string option \<Rightarrow> bool" where
  "nonempty s \<longleftrightarrow> s \<noteq> None \<and> s \<noteq> Some []"

definition draft_meta_of ::
  "'c crypto \<Rightarrow> session_bootstrap \<Rightarrow> int \<Rightarrow> string \<times> 'c draft_record \<Rightarrow> draft_meta list" where
  "draft_meta_of C boot now entry =
     (let rec = snd entry
      in if recSchema rec \<noteq> RECORD_SCHEMA_VERSION then []
         else case decryptPayload C boot (fst entry) (recScope rec) (recIv rec) (recCipher rec) of
           None \<Rightarrow> []
         | Some p \<Rightarrow>
             (if nonempty (payloadProgramId p) \<and> nonempty (payloadSourceName p) \<and>
                 (payloadKind p = CobolKind \<or> nonempty (payloadJavaFilePath p))
              then [\<lparr>metaKind = payloadKind p, metaProgramId = the (payloadProgramId p),
                     metaSourceName = the (payloadSourceName p),
                     metaJavaFilePath = (if payloadKind p = JavaKind then payloadJavaFilePath p else None),
                     metaSavedAt = recSavedAt rec, metaTtlExpiresAt = recExpiresAt rec,
                     metaIsExpired = (recExpiresAt rec \<le> now)\<rparr>]
              else []))"

definition listDrafts ::
  "'c crypto \<Rightarrow> draft_env \<Rightarrow> draft_scope \<Rightarrow> 'c draft_db \<Rightarrow> (draft_error + draft_meta list) \<times> 'c draft_db" where
  "listDrafts C env scope db =
     with_session env scope (\<lambda>boot.
       (Inr (concat (map (draft_meta_of C boot (envNow env))
          (filter (in_scope (deriveScopeSelector C boot)) db))), db)) db"

end
