(* ===== verification/Draft_Facts.thy ===== *)
theory Draft_Facts
  imports Draft_Store
begin

text \<open>
  What the draft store guarantees under the documented behaviour of Web Crypto: a saved draft loads
  back, drafts of other sessions and files are not reachable, a record moved under another key is
  dropped, clearing is confined to its scope, and the key cache never changes a key.
\<close>

section \<open>The behaviour relied on\<close>

text \<open>
  Authenticated encryption opens exactly what was sealed under the same key, nonce and additional
  data; digests and MACs do not collide (the usual symbolic reading of collision resistance).
\<close>

definition crypto_ok :: "'c crypto \<Rightarrow> bool" where
  "crypto_ok C \<longleftrightarrow>
     (\<forall>k iv a p. unseal C k iv a (seal C k iv a p) = Some p) \<and>
     (\<forall>k iv a k' iv' a' p q. unseal C k iv a (seal C k' iv' a' p) = Some q \<longrightarrow> k = k' \<and> iv = iv' \<and> a = a' \<and> p = q) \<and>
     (\<forall>k m k' m'. hmacSha256 C k m = hmacSha256 C k' m' \<longrightarrow> k = k' \<and> m = m') \<and>
     (\<forall>m m'. sha256 C m = sha256 C m' \<longrightarrow> m = m')"

lemma crypto_okD:
  assumes "crypto_ok C"
  shows "unseal C k iv a (seal C k iv a p) = Some p"
    and "unseal C k iv a (seal C k' iv' a' p) = Some q \<Longrightarrow> k = k' \<and> iv = iv' \<and> a = a' \<and> p = q"
    and "hmacSha256 C k m = hmacSha256 C k' m' \<Longrightarrow> k = k' \<and> m = m'"
    and "sha256 C m = sha256 C m' \<Longrightarrow> m = m'"
  using assms unfolding crypto_ok_def by - (elim conjE, assumption | metis)+

section \<open>Selectors\<close>

definition short_session :: "session_bootstrap \<Rightarrow> bool" where
  "short_session boot \<longleftrightarrow> short (bootTenantId boot) \<and> short (bootUserId boot)"

definition short_key :: "draft_key \<Rightarrow> bool" where
  "short_key key \<longleftrightarrow> short (key_program key) \<and> short (key_source key) \<and>
     (\<forall>f. key_java_path key = Some f \<longrightarrow> short f)"

lemma hmacSelector_inj:
  assumes "crypto_ok C" "hmacSelector C boot d fs = hmacSelector C boot' d' gs"
    and "\<forall>f\<in>set (d # fs). short f" "\<forall>g\<in>set (d' # gs). short g"
  shows "wrappingSecret boot = wrappingSecret boot' \<and> d = d' \<and> fs = gs"
proof -
  from assms(2) have "hmacSha256 C (wrappingSecret boot) (encodeLengthPrefixedFields d fs) =
      hmacSha256 C (wrappingSecret boot') (encodeLengthPrefixedFields d' gs)"
    by (auto simp: hmacSelector_def dest: bytesToHex_inj)
  with crypto_okD(3) [OF assms(1)] have "wrappingSecret boot = wrappingSecret boot'"
    "encodeLengthPrefixedFields d fs = encodeLengthPrefixedFields d' gs" by blast+
  with encode_fields_inj [OF _ assms(3,4)] show ?thesis by blast
qed

lemma short_domains: "short SELECTOR_RECORD_DOMAIN" "short SELECTOR_SCOPE_DOMAIN"
  by (simp_all add: short_def SELECTOR_RECORD_DOMAIN_def SELECTOR_SCOPE_DOMAIN_def)

lemma short_fields:
  assumes "short_session boot" "short_key key"
  shows "\<forall>f\<in>set (SELECTOR_RECORD_DOMAIN # draftKeySelectorFields boot key). short f"
proof -
  have "short (kind_string (key_kind key))" by (cases key) (simp_all add: short_def)
  moreover have "short (or_default (key_java_path key) ''.'')"
    using assms(2) by (cases key) (simp_all add: short_key_def short_def)
  ultimately show ?thesis using assms short_domains(1)
    by (simp add: draftKeySelectorFields_def short_session_def short_key_def)
qed

lemma selector_fields_inj:
  "draftKeySelectorFields boot key = draftKeySelectorFields boot' key' \<Longrightarrow>
   bootTenantId boot = bootTenantId boot' \<and> bootUserId boot = bootUserId boot' \<and> key = key'"
  by (cases key; cases key') (auto simp: draftKeySelectorFields_def)

text \<open>Who a draft belongs to.\<close>

definition owner :: "session_bootstrap \<Rightarrow> bytes \<times> string \<times> string" where
  "owner boot = (wrappingSecret boot, bootTenantId boot, bootUserId boot)"

lemma record_selector_inj:
  assumes "crypto_ok C" "deriveRecordSelector C boot key = deriveRecordSelector C boot' key'"
    and "short_session boot" "short_session boot'" "short_key key" "short_key key'"
  shows "owner boot = owner boot' \<and> key = key'"
proof -
  have "wrappingSecret boot = wrappingSecret boot' \<and>
      draftKeySelectorFields boot key = draftKeySelectorFields boot' key'"
    using hmacSelector_inj [OF assms(1) assms(2) [unfolded deriveRecordSelector_def]
        short_fields [OF assms(3,5)] short_fields [OF assms(4,6)]] by blast
  with selector_fields_inj show ?thesis unfolding owner_def by blast
qed

lemma scope_selector_inj:
  assumes "crypto_ok C" "deriveScopeSelector C boot = deriveScopeSelector C boot'"
    and "short_session boot" "short_session boot'"
  shows "owner boot = owner boot'"
proof -
  have sf: "\<forall>f\<in>set (SELECTOR_SCOPE_DOMAIN # [bootTenantId b, bootUserId b]). short f" if "short_session b" for b
    using that short_domains(2) by (simp add: short_session_def)
  from hmacSelector_inj [OF assms(1) assms(2) [unfolded deriveScopeSelector_def] sf [OF assms(3)] sf [OF assms(4)]]
  show ?thesis by (simp add: owner_def)
qed

lemma scope_selector_owner: "owner boot = owner boot' \<Longrightarrow> deriveScopeSelector C boot = deriveScopeSelector C boot'"
  by (simp add: owner_def deriveScopeSelector_def hmacSelector_def)

lemma aes_key_owner: "owner boot = owner boot' \<Longrightarrow> aes_key C boot = aes_key C boot'"
  by (simp add: owner_def aes_key_def)

lemma deriveAad_inj:
  assumes "deriveAad k s = deriveAad k' s'" "short k" "short s" "short k'" "short s'"
  shows "k = k' \<and> s = s'"
  using assms prefixed_split [of "utf8 k" "prefixed (utf8 s)" "utf8 k'" "prefixed (utf8 s')"]
    prefixed_split [of "utf8 s" "[]" "utf8 s'" "[]"]
  by (auto simp: deriveAad_def short_utf8 dest: utf8_inj)

section \<open>Sessions\<close>

lemma bootstrapFor_Inr_iff:
  "bootstrapFor env scope = Inr boot \<longleftrightarrow>
     envBootstrap env = Inr boot \<and> bootTenantId boot = scopeTenantId scope \<and> bootUserId boot = scopeUserId scope"
  by (auto simp: bootstrapFor_def split: sum.splits bootstrap_error.splits)

lemma with_session_ok:
  "bootstrapFor env scope = Inr boot \<Longrightarrow> envDbOpens env \<Longrightarrow> envBrowser env \<Longrightarrow>
   with_session env scope body db = body boot"
  by (simp add: with_session_def)

lemma with_session_Inr:
  "with_session env scope body db = (Inr r, db') \<longleftrightarrow>
     (\<exists>boot. bootstrapFor env scope = Inr boot \<and> envDbOpens env \<and> envBrowser env \<and> body boot = (Inr r, db'))"
  by (auto simp: with_session_def split: sum.splits)

text \<open>A failed session leaves the database as it is.\<close>

lemma with_session_cong:
  "(\<And>boot. bootstrapFor env scope = Inr boot \<Longrightarrow> fst (body boot) = fst (body' boot)) \<Longrightarrow>
   fst (with_session env scope body db) = fst (with_session env scope body' db')"
  by (auto simp: with_session_def split: sum.splits)

lemma saveDraft_Inr:
  assumes "saveDraft C env scope key payload db = (Inr res, db')"
  obtains boot where "bootstrapFor env scope = Inr boot" "payloadKind payload = key_kind key"
    "db' = js_set (deriveRecordSelector C boot key)
       \<lparr>recScope = deriveScopeSelector C boot,
        recCipher = encryptPayload C boot (envIv env) (deriveRecordSelector C boot key) (deriveScopeSelector C boot)
          (stamp_key key payload),
        recIv = envIv env, recSchema = RECORD_SCHEMA_VERSION, recSavedAt = envNow env,
        recExpiresAt = envNow env + envTtl env\<rparr> db"
    "savedTtlExpiresAt res = envNow env + envTtl env"
  using assms
  by (cases "envPut env") (auto simp: saveDraft_def with_session_Inr Let_def split: if_splits)

section \<open>Round trip\<close>

lemma decrypt_encrypt:
  "crypto_ok C \<Longrightarrow> payloadSchema p = ''v0'' \<Longrightarrow>
   decryptPayload C boot k s iv (encryptPayload C boot iv k s p) = Some p"
  by (simp add: decryptPayload_def encryptPayload_def crypto_okD)

lemma stamp_key_schema [simp]: "payloadSchema (stamp_key key p) = payloadSchema p"
  by (simp add: stamp_key_def)

lemma load_after_save:
  assumes "crypto_ok C" "payloadSchema p = ''v0''"
    and "saveDraft C env scope key p db = (Inr res, db')"
    and "envBootstrap env' = envBootstrap env" "envDbOpens env'" "envBrowser env'" "envPut env' = PutOk"
  shows "\<exists>d db''. loadDraft C env' scope key db' = (Inr (Some d), db'') \<and>
    loadedPayload d = stamp_key key p \<and> loadedSavedAt d = envNow env \<and>
    (loadedIsExpired d \<longleftrightarrow> savedTtlExpiresAt res \<le> envNow env') \<and>
    (envTtl env' = envTtl env \<and> envNow env \<le> envNow env' \<longrightarrow> savedTtlExpiresAt res \<le> loadedTtlExpiresAt d)"
proof -
  from assms(3) obtain boot where b: "bootstrapFor env scope = Inr boot"
    and db': "db' = js_set (deriveRecordSelector C boot key)
       \<lparr>recScope = deriveScopeSelector C boot,
        recCipher = encryptPayload C boot (envIv env) (deriveRecordSelector C boot key) (deriveScopeSelector C boot)
          (stamp_key key p),
        recIv = envIv env, recSchema = RECORD_SCHEMA_VERSION, recSavedAt = envNow env,
        recExpiresAt = envNow env + envTtl env\<rparr> db"
    and res: "savedTtlExpiresAt res = envNow env + envTtl env" by (rule saveDraft_Inr)
  have b': "bootstrapFor env' scope = Inr boot" using b assms(4) by (simp add: bootstrapFor_Inr_iff)
  show ?thesis
    using assms(1,2,7) res
    by (simp add: loadDraft_def with_session_ok [OF b' assms(5,6)] db' decrypt_encrypt Let_def)
qed

text \<open>
  C10: a draft that was saved loads back, with its file stamped on it, for the same session and
  file, at any later time; it is reported as expired exactly from its expiry on, and loading a live
  draft never brings its expiry forward.
\<close>

theorem draft_round_trip:
  assumes "crypto_ok C" "payloadSchema p = ''v0''"
    and "saveDraft C env scope key p db = (Inr res, db')"
    and "envBootstrap env' = envBootstrap env" "envDbOpens env'" "envBrowser env'" "envPut env' = PutOk"
  shows "\<exists>d db''. loadDraft C env' scope key db' = (Inr (Some d), db'') \<and>
    loadedPayload d = stamp_key key p \<and> loadedSavedAt d = envNow env \<and>
    (loadedIsExpired d \<longleftrightarrow> savedTtlExpiresAt res \<le> envNow env') \<and>
    (envTtl env' = envTtl env \<and> envNow env \<le> envNow env' \<longrightarrow> savedTtlExpiresAt res \<le> loadedTtlExpiresAt d)"
  using load_after_save [OF assms] .

section \<open>Isolation\<close>

lemma loadDraft_cong:
  assumes "\<And>boot. bootstrapFor env scope = Inr boot \<Longrightarrow>
    js_get db (deriveRecordSelector C boot key) = js_get db' (deriveRecordSelector C boot key)"
  shows "fst (loadDraft C env scope key db) = fst (loadDraft C env scope key db')"
  unfolding loadDraft_def
  by (rule with_session_cong)
    (auto simp: Let_def assms split: option.splits put_outcome.splits)

text \<open>
  C11: saving a draft does not change what any other session (another wrapping secret, tenant or
  user) or the same session for another file loads: neither their drafts nor their errors.
\<close>

theorem draft_isolation:
  assumes "crypto_ok C" "saveDraft C env scope key p db = (Inr res, db')"
    and "envBootstrap env = Inr boot" "envBootstrap env2 = Inr boot2"
    and "owner boot \<noteq> owner boot2 \<or> key \<noteq> key2"
    and "short_session boot" "short_session boot2" "short_key key" "short_key key2"
  shows "fst (loadDraft C env2 scope2 key2 db') = fst (loadDraft C env2 scope2 key2 db)"
proof (rule loadDraft_cong)
  fix b assume "bootstrapFor env2 scope2 = Inr b"
  then have b: "b = boot2" using assms(4) by (simp add: bootstrapFor_Inr_iff)
  from assms(2) obtain b1 rec where "bootstrapFor env scope = Inr b1"
    and db': "db' = js_set (deriveRecordSelector C b1 key) rec db" by (rule saveDraft_Inr) blast
  then have b1: "b1 = boot" using assms(3) by (simp add: bootstrapFor_Inr_iff)
  have "deriveRecordSelector C boot key \<noteq> deriveRecordSelector C boot2 key2"
    using record_selector_inj [OF assms(1) _ assms(6,7,8,9)] assms(5) by blast
  then show "js_get db' (deriveRecordSelector C b key2) = js_get db (deriveRecordSelector C b key2)"
    by (simp add: db' b b1)
qed

text \<open>
  A record that was encrypted for one file and moved under the key of another is never loaded:
  the load finds no draft and deletes the record.
\<close>

lemma moved_record_is_dropped:
  assumes "crypto_ok C" "bootstrapFor env scope = Inr boot" "envDbOpens env" "envBrowser env"
    and "js_get db (deriveRecordSelector C boot key) = Some rec"
    and "recCipher rec = encryptPayload C bootS ivS (deriveRecordSelector C bootS keyS) (deriveScopeSelector C bootS) p"
    and "keyS \<noteq> key \<or> owner bootS \<noteq> owner boot"
    and "short_session boot" "short_session bootS" "short_key key" "short_key keyS"
    and "short (deriveRecordSelector C boot key)" "short (deriveScopeSelector C boot)"
      "short (deriveRecordSelector C bootS keyS)" "short (deriveScopeSelector C bootS)"
  shows "loadDraft C env scope key db = (Inr None, js_delete (deriveRecordSelector C boot key) db)"
proof -
  have "decryptPayload C boot (deriveRecordSelector C boot key) (deriveScopeSelector C boot) (recIv rec) (recCipher rec) = None"
  proof (rule ccontr)
    assume "\<not> ?thesis"
    then obtain q where "unseal C (aes_key C boot) (recIv rec)
        (deriveAad (deriveRecordSelector C boot key) (deriveScopeSelector C boot))
        (seal C (aes_key C bootS) ivS
          (deriveAad (deriveRecordSelector C bootS keyS) (deriveScopeSelector C bootS)) p) = Some q"
      by (auto simp: decryptPayload_def assms(6) encryptPayload_def split: option.splits)
    from crypto_okD(2) [OF assms(1) this] have
      "deriveRecordSelector C boot key = deriveRecordSelector C bootS keyS"
      using deriveAad_inj [OF _ assms(12-15)] by blast
    from record_selector_inj [OF assms(1) this assms(8-11)] assms(7) show False by auto
  qed
  then show ?thesis
    by (auto simp: loadDraft_def with_session_ok [OF assms(2-4)] assms(5) Let_def)
qed

section \<open>Expiry and clearing\<close>

lemma filter_count: "length (filter P xs) + length (filter (\<lambda>x. \<not> P x) xs) = length xs"
  by (induction xs) auto

text \<open>
  Clearing a scope removes its drafts and reports how many there were; afterwards the scope
  counts and lists none, every other session counts and lists the same drafts as before, and
  purging removes only expired drafts of the scope.
\<close>

lemma clearing_is_scoped:
  assumes "crypto_ok C" "bootstrapFor env scope = Inr boot" "envDbOpens env" "envBrowser env"
  shows "fst (clearAll C env scope db) = fst (countDrafts C env scope db) \<and>
    fst (countDrafts C env scope (snd (clearAll C env scope db))) = Inr 0 \<and>
    fst (listDrafts C env scope (snd (clearAll C env scope db))) = Inr [] \<and>
    (\<forall>env2 scope2 boot2. bootstrapFor env2 scope2 = Inr boot2 \<and> owner boot2 \<noteq> owner boot \<and>
       short_session boot \<and> short_session boot2 \<longrightarrow>
       fst (countDrafts C env2 scope2 (snd (clearAll C env scope db))) = fst (countDrafts C env2 scope2 db) \<and>
       fst (listDrafts C env2 scope2 (snd (clearAll C env scope db))) = fst (listDrafts C env2 scope2 db)) \<and>
    (\<forall>entry\<in>set db. entry \<notin> set (snd (purgeExpired C env scope db)) \<longrightarrow>
       in_scope (deriveScopeSelector C boot) entry \<and> recExpiresAt (snd entry) \<le> envNow env)"
proof -
  have other: "filter (in_scope (deriveScopeSelector C b)) (filter (\<lambda>e. \<not> in_scope (deriveScopeSelector C boot) e) db) =
      filter (in_scope (deriveScopeSelector C b)) db"
    if "deriveScopeSelector C b \<noteq> deriveScopeSelector C boot" for b
    using that by (auto simp: in_scope_def intro!: filter_cong)
  have "fst (countDrafts C env2 scope2 (snd (clearAll C env scope db))) = fst (countDrafts C env2 scope2 db) \<and>
       fst (listDrafts C env2 scope2 (snd (clearAll C env scope db))) = fst (listDrafts C env2 scope2 db)"
    if "bootstrapFor env2 scope2 = Inr boot2" "owner boot2 \<noteq> owner boot" "short_session boot" "short_session boot2"
    for env2 scope2 boot2
  proof -
    have "deriveScopeSelector C boot2 \<noteq> deriveScopeSelector C boot"
      using scope_selector_inj [OF assms(1) _ that(4,3)] that(2) by blast
    from other [OF this] show ?thesis
      by (simp add: clearAll_def countDrafts_def listDrafts_def with_session_ok [OF assms(2-4)] Let_def)
        (simp add: with_session_def that(1))
  qed
  then show ?thesis
    by (auto simp: clearAll_def countDrafts_def listDrafts_def purgeExpired_def with_session_ok [OF assms(2-4)]
        Let_def expired_at_def)
qed

section \<open>The key cache\<close>

definition cache_ok :: "'c crypto \<Rightarrow> key_cache option \<Rightarrow> bool" where
  "cache_ok C cache \<longleftrightarrow>
     (\<forall>e. cache = Some e \<longrightarrow> (\<exists>boot. e = \<lparr>cacheFingerprint = fingerprintSecret C (wrappingSecret boot),
        cacheTenantId = bootTenantId boot, cacheUserId = bootUserId boot, cacheKey = aes_key C boot\<rparr>))"

lemma fingerprint_inj:
  "crypto_ok C \<Longrightarrow> fingerprintSecret C s = fingerprintSecret C t \<Longrightarrow> s = t"
  by (auto simp: fingerprintSecret_def dest: bytesToHex_inj crypto_okD(4))

text \<open>
  C12: the key cache is transparent: whatever sessions used it before, the key it gives is the key
  derived for the session at hand, so a rotated secret never decrypts with an old key.
\<close>

theorem key_cache_transparent:
  assumes "crypto_ok C"
  shows "fst (deriveAesKey C (foldl (\<lambda>cache b. snd (deriveAesKey C cache b)) None boots) boot) = aes_key C boot"
proof -
  have step: "fst (deriveAesKey C cache b) = aes_key C b \<and> cache_ok C (snd (deriveAesKey C cache b))"
    if "cache_ok C cache" for cache b
  proof (cases cache)
    case (Some e)
    with that obtain b0 where e: "e = \<lparr>cacheFingerprint = fingerprintSecret C (wrappingSecret b0),
        cacheTenantId = bootTenantId b0, cacheUserId = bootUserId b0, cacheKey = aes_key C b0\<rparr>"
      by (auto simp: cache_ok_def)
    have "aes_key C b0 = aes_key C b"
      if "fingerprintSecret C (wrappingSecret b0) = fingerprintSecret C (wrappingSecret b)"
        "bootTenantId b0 = bootTenantId b" "bootUserId b0 = bootUserId b"
      using fingerprint_inj [OF assms that(1)] that(2,3) by (simp add: aes_key_def)
    with that Some e show ?thesis by (auto simp: deriveAesKey_def Let_def cache_ok_def)
  qed (auto simp: deriveAesKey_def cache_ok_def)
  have "cache_ok C (foldl (\<lambda>cache b. snd (deriveAesKey C cache b)) None boots)"
    by (induction boots rule: rev_induct) (simp_all add: step, simp add: cache_ok_def)
  with step show ?thesis by blast
qed

section \<open>Witnesses\<close>

text \<open>A transparent instance of the primitives: injective and self-describing.\<close>

definition plain_crypto :: "(bytes \<times> bytes \<times> bytes \<times> draft_payload) crypto" where
  "plain_crypto =
     \<lparr>sha256 = id, hmacSha256 = (\<lambda>k m. replicate (length k) 1 @ 0 # k @ m),
      hkdf = (\<lambda>k salt info. k), seal = (\<lambda>k iv a p. (k, iv, a, p)),
      unseal = (\<lambda>k iv a (k', iv', a', p). if k = k' \<and> iv = iv' \<and> a = a' then Some p else None),
      cipherSize = (\<lambda>c. 0)\<rparr>"

lemma unary_inj:
  "replicate m (1 :: byte) @ 0 # xs = replicate n 1 @ 0 # ys \<Longrightarrow> m = n \<and> xs = ys"
proof (induction m arbitrary: n)
  case 0
  then show ?case by (cases n) auto
next
  case (Suc m)
  then show ?case by (cases n) auto
qed

lemma plain_crypto_ok: "crypto_ok plain_crypto"
  unfolding crypto_ok_def plain_crypto_def by (auto split: if_splits dest: unary_inj)

definition boot_a :: session_bootstrap where
  "boot_a = \<lparr>bootTenantId = ''t'', bootUserId = ''u'', wrappingSecret = [7]\<rparr>"

definition boot_b :: session_bootstrap where
  "boot_b = \<lparr>bootTenantId = ''t'', bootUserId = ''v'', wrappingSecret = [7]\<rparr>"

definition env_of :: "session_bootstrap \<Rightarrow> int \<Rightarrow> draft_env" where
  "env_of boot now = \<lparr>envBootstrap = Inr boot, envBrowser = True, envDbOpens = True, envPut = PutOk,
     envNow = now, envTtl = DEFAULT_TTL_MS, envIv = [1, 2, 3]\<rparr>"

definition scope_of :: "session_bootstrap \<Rightarrow> draft_scope" where
  "scope_of boot = \<lparr>scopeTenantId = bootTenantId boot, scopeUserId = bootUserId boot\<rparr>"

definition java_payload :: "string \<Rightarrow> draft_payload" where
  "java_payload content =
     \<lparr>payloadSchema = ''v0'', payloadKind = JavaKind, payloadContent = content, payloadBufferHash = content,
      payloadProgramId = None, payloadSourceName = None, payloadJavaFilePath = None,
      payloadLastRunInputHash = None, payloadLastRunInputContent = None, payloadBaselineHash = None,
      payloadBaselineRunId = None, payloadOverlay = None, payloadResolvedBackendHash = None, payloadSavedAt = 0\<rparr>"

lemma env_of_simps [simp]:
  "envBootstrap (env_of boot now) = Inr boot" "envBrowser (env_of boot now)" "envDbOpens (env_of boot now)"
  "envPut (env_of boot now) = PutOk" "envNow (env_of boot now) = now" "envTtl (env_of boot now) = DEFAULT_TTL_MS"
  "bootstrapFor (env_of boot now) (scope_of boot) = Inr boot"
  by (simp_all add: env_of_def bootstrapFor_def scope_of_def)

lemma save_env_of:
  "\<exists>res db'. saveDraft plain_crypto (env_of boot now) (scope_of boot) (JavaDraftKey p f q) (java_payload c) db = (Inr res, db') \<and>
     savedTtlExpiresAt res = now + DEFAULT_TTL_MS"
  by (simp add: saveDraft_def with_session_ok [of _ _ boot] java_payload_def Let_def)

lemma draft_round_trip_witness:
  "\<exists>res db' d db''. saveDraft plain_crypto (env_of boot_a 0) (scope_of boot_a) (JavaDraftKey ''P'' ''F'' ''F'')
       (java_payload ''text'') [] = (Inr res, db') \<and>
     loadDraft plain_crypto (env_of boot_a 5) (scope_of boot_a) (JavaDraftKey ''P'' ''F'' ''F'') db' = (Inr (Some d), db'') \<and>
     payloadContent (loadedPayload d) = ''text'' \<and> \<not> loadedIsExpired d"
proof -
  obtain res db' where s: "saveDraft plain_crypto (env_of boot_a 0) (scope_of boot_a) (JavaDraftKey ''P'' ''F'' ''F'')
       (java_payload ''text'') [] = (Inr res, db')" "savedTtlExpiresAt res = DEFAULT_TTL_MS"
    using save_env_of [of boot_a 0 "''P''" "''F''" "''F''" "''text''" "[]"] by auto
  have "payloadSchema (java_payload ''text'') = ''v0''" by (simp add: java_payload_def)
  from draft_round_trip [OF plain_crypto_ok this s(1), of "env_of boot_a 5"] s show ?thesis
    by (auto simp: stamp_key_def java_payload_def DEFAULT_TTL_MS_def)
qed

lemma short_examples:
  "short_session boot_a" "short_session boot_b" "short_key (JavaDraftKey ''P'' ''F'' ''F'')"
  "short_key (JavaDraftKey ''P'' ''G'' ''G'')" "owner boot_a \<noteq> owner boot_b"
  by (simp_all add: short_session_def short_key_def short_def boot_a_def boot_b_def owner_def)

lemma draft_isolation_witness:
  "\<exists>res db'. saveDraft plain_crypto (env_of boot_a 0) (scope_of boot_a) (JavaDraftKey ''P'' ''F'' ''F'')
       (java_payload ''text'') [] = (Inr res, db') \<and>
     fst (loadDraft plain_crypto (env_of boot_b 5) (scope_of boot_b) (JavaDraftKey ''P'' ''F'' ''F'') db') = Inr None"
proof -
  obtain res db' where s: "saveDraft plain_crypto (env_of boot_a 0) (scope_of boot_a) (JavaDraftKey ''P'' ''F'' ''F'')
       (java_payload ''text'') [] = (Inr res, db')"
    using save_env_of [of boot_a 0] by blast
  have "fst (loadDraft plain_crypto (env_of boot_b 5) (scope_of boot_b) (JavaDraftKey ''P'' ''F'' ''F'') []) = Inr None"
    by (simp add: loadDraft_def with_session_ok [of _ _ boot_b])
  with draft_isolation [OF plain_crypto_ok s, of boot_a "env_of boot_b 5" boot_b "JavaDraftKey ''P'' ''F'' ''F''" "scope_of boot_b"]
    short_examples s show ?thesis by auto
qed

lemma length_encode_le:
  "length (encodeLengthPrefixedFields d fs) \<le> sum_list (map (\<lambda>f. 4 + 2 * length f) (d # fs))"
proof -
  have "length (concat (map (prefixed \<circ> utf8) fs)) \<le> sum_list (map (\<lambda>f. 4 + 2 * length f) fs)" for fs
    using length_utf8_le by (induction fs) (auto simp: prefixed_def add_le_mono)
  then show ?thesis by (simp only: encodeLengthPrefixedFields_def)
qed

lemma short_plain_selector:
  assumes "sum_list (map (\<lambda>f. 4 + 2 * length f) (d # fs)) + 2 * length (wrappingSecret boot) < 1000000"
  shows "short (hmacSelector plain_crypto boot d fs)"
proof -
  have "length (bytesToHex bs) = 2 * length bs" for bs
    by (induction bs) (simp_all add: bytesToHex_def)
  with length_encode_le [of d fs] assms show ?thesis
    by (simp add: short_def hmacSelector_def RECORD_SCHEMA_VERSION_def plain_crypto_def)
qed

lemma moved_record_is_dropped_witness:
  "let k = JavaDraftKey ''P'' ''F'' ''F''; k0 = JavaDraftKey ''P'' ''G'' ''G'';
       sel = deriveRecordSelector plain_crypto boot_a k; sel0 = deriveRecordSelector plain_crypto boot_a k0;
       scp = deriveScopeSelector plain_crypto boot_a;
       rec = \<lparr>recScope = scp, recCipher = encryptPayload plain_crypto boot_a [1] sel0 scp (java_payload ''x''),
              recIv = [1], recSchema = RECORD_SCHEMA_VERSION, recSavedAt = 0, recExpiresAt = 10\<rparr>
   in loadDraft plain_crypto (env_of boot_a 5) (scope_of boot_a) k [(sel, rec)] = (Inr None, [])"
proof -
  let ?k = "JavaDraftKey ''P'' ''F'' ''F''" and ?old = "JavaDraftKey ''P'' ''G'' ''G''"
  let ?sel = "deriveRecordSelector plain_crypto boot_a ?k" and ?oldsel = "deriveRecordSelector plain_crypto boot_a ?old"
  let ?scp = "deriveScopeSelector plain_crypto boot_a"
  let ?rec = "\<lparr>recScope = ?scp, recCipher = encryptPayload plain_crypto boot_a [1] ?oldsel ?scp (java_payload ''x''),
              recIv = [1], recSchema = RECORD_SCHEMA_VERSION, recSavedAt = 0, recExpiresAt = 10\<rparr>"
  have sh: "short ?sel" "short ?oldsel" "short ?scp"
    by (simp_all add: deriveRecordSelector_def deriveScopeSelector_def draftKeySelectorFields_def boot_a_def
        SELECTOR_RECORD_DOMAIN_def SELECTOR_SCOPE_DOMAIN_def short_plain_selector)
  have "loadDraft plain_crypto (env_of boot_a 5) (scope_of boot_a) ?k [(?sel, ?rec)] = (Inr None, js_delete ?sel [(?sel, ?rec)])"
    by (rule moved_record_is_dropped [OF plain_crypto_ok, where boot = boot_a and rec = ?rec and bootS = boot_a and ivS = "[1]" and keyS = ?old and p = "java_payload ''x''"])
      (use sh short_examples in simp_all)
  then show ?thesis by (simp add: Let_def)
qed

lemma clearing_is_scoped_witness:
  "fst (clearAll plain_crypto (env_of boot_a 5) (scope_of boot_a) []) = Inr 0 \<and>
   fst (countDrafts plain_crypto (env_of boot_a 5) (scope_of boot_a)
     (snd (clearAll plain_crypto (env_of boot_a 5) (scope_of boot_a) []))) = Inr 0"
proof -
  have "fst (clearAll plain_crypto (env_of boot_a 5) (scope_of boot_a) []) =
      fst (countDrafts plain_crypto (env_of boot_a 5) (scope_of boot_a) [])"
    "fst (countDrafts plain_crypto (env_of boot_a 5) (scope_of boot_a)
       (snd (clearAll plain_crypto (env_of boot_a 5) (scope_of boot_a) []))) = Inr 0"
    using clearing_is_scoped [OF plain_crypto_ok, of "env_of boot_a 5" "scope_of boot_a" boot_a "[]"] by simp_all
  then show ?thesis by (simp add: countDrafts_def with_session_ok [of _ _ boot_a])
qed

lemma key_cache_transparent_witness:
  "fst (deriveAesKey plain_crypto (foldl (\<lambda>cache b. snd (deriveAesKey plain_crypto cache b)) None [boot_a, boot_b]) boot_a) =
     aes_key plain_crypto boot_a"
  by (rule key_cache_transparent [OF plain_crypto_ok])

end
