(* ===== verification/Run_State.thy ===== *)
theory Run_State
  imports Text_Lines
begin

text \<open>
  The run state of \<open>types/run.ts\<close> with the views of \<open>types/api.ts\<close> it holds, and the product state
  that \<open>types/state.ts\<close> derives from it.  The records keep the fields that the modelled code reads;
  the views that it only stores and passes on (events, progress, artifacts, experience, gateway and
  harness health) are of a type parameter.
\<close>

section \<open>Views\<close>

datatype ui_error_code =
  UnsupportedCobol | ParseFailed | SemanticIrFailed | ModelGatewayUnavailable | ModelPolicyDenied
| AgentTimeout | AgentContractInvalid | JavaGenerationFailed | JavaCompileFailed | JavaRuntimeFailed
| OracleMismatch | EvidenceIncompleteCode | CancelledCode | GenerateOnlyComplete | ServiceUnavailable
| InternalError

datatype final_classification = FinalSuccess | FinalBlocked | FinalFailed | FinalCancelled | FinalIncomplete

datatype product_mode = ModeLive | ModeUnavailable

datatype run_status = StatusStarting | StatusUpdating | StatusCompleted | StatusFailed

datatype trust_state =
  ParityPassed | ParityFailed | BuildFailedTrust | RuntimeFailedTrust | IntentionalDivergenceTrust
| BlockedTrust

datatype divergence_disposition = DispNone | DispKnownCoverageGap | DispIntentional | DispUnknown

record trust_summary =
  trustState :: trust_state
  divergenceDisposition :: divergence_disposition
  mismatchClassification :: "string option"

text \<open>\<open>RunSummary\<close> and \<open>TransformResponse\<close>, which the store keeps in the same slot.\<close>

record run_summary =
  sumRunId :: string
  sumOrchestratorRunId :: "string option"
  sumProgramId :: string
  sumStatus :: run_status
  sumProductMode :: product_mode
  sumMessage :: "string option"
  sumTrustSummary :: "trust_summary option"
  sumFinal :: "final_classification option"
  sumFailureCode :: "ui_error_code option"
  sumFailureMessage :: "string option"

datatype generated_status = GenGenerated | GenUnsupported | GenSkipped | GenIncomplete

record generated_view =
  genRunId :: string
  genProductMode :: product_mode
  genStatus :: generated_status
  genUnsupported :: "string list option"
  genMissing :: "string list option"
  genArtifactSha :: "string option"
  genNote :: "string option"

record generated_files_index =
  filesRunId :: string
  filesProductMode :: product_mode
  filesComplete :: bool
  filesMissing :: "string list option"
  filesNote :: "string option"

datatype build_status =
  BuildOk | CompileFailed | RunFailed | OutputDivergence | GoldenMasterReproductionFailed
| MissingGoldenMaster | BuildSkipped | BuildIncomplete

datatype build_class =
  ClassMatch | DivergenceKnownGap | DivergenceUnknown | GoldenMasterReproductionError
| GoldenMasterMismatch | CompileError | RunError | SkippedNoExecution

record build_test_view =
  btRunId :: string
  btProductMode :: product_mode
  btStatus :: build_status
  btClass :: build_class
  btGeneratedSha :: "string option"
  btNote :: "string option"

datatype evidence_status = EvComplete | EvIncomplete | EvInvalid

record evidence_view =
  evRunId :: string
  evProductMode :: product_mode
  evStatus :: evidence_status
  evMissing :: "string list option"
  evGeneratedSha :: "string option"
  evExportRef :: "string option"
  evNote :: "string option"

record workflow_view =
  wfRunId :: string
  wfActiveAgent :: "string option"
  wfTrustSummary :: "trust_summary option"
  wfFinal :: "final_classification option"
  wfFailureCode :: "ui_error_code option"
  wfFailureMessage :: "string option"

text \<open>The two health views: what the service answered, or the placeholder of the store.\<close>

datatype 'o health = HealthAnswer 'o | HealthUnavailable string

text \<open>The result of a call to the backend; a failure has an HTTP status where there was a response.\<close>

datatype 'a api_result = ApiOk 'a | ApiFail "nat option" string

section \<open>The run state\<close>

datatype run_phase = Idle | Starting | Running | Completed | Failed | Unavailable | Incomplete

record 'o historical_run =
  histRunId :: string
  histOrchestratorRunId :: "string option"
  histProgramId :: "string option"
  histPhase :: run_phase
  histSummary :: "run_summary option"
  histGenerated :: "generated_view option"
  histGeneratedFiles :: "generated_files_index option"
  histBuildTest :: "build_test_view option"
  histEvidence :: "evidence_view option"
  histEvents :: "'o option"
  histProgress :: "'o option"
  histArtifacts :: "'o option"
  histExperience :: "'o option"
  histWorkflow :: "workflow_view option"

record 'o run_state =
  phase :: run_phase
  runId :: "string option"
  orchestratorRunId :: "string option"
  programId :: "string option"
  runError :: "string option"
  artifactsError :: "string option"
  summary :: "run_summary option"
  generated :: "generated_view option"
  generatedFiles :: "generated_files_index option"
  buildTest :: "build_test_view option"
  evidence :: "evidence_view option"
  runEvents :: "'o option"
  runProgress :: "'o option"
  runArtifacts :: "'o option"
  experience :: "'o option"
  modelGatewayHealth :: "'o health option"
  harnessReady :: "'o health option"
  workflow :: "workflow_view option"
  previousRun :: "'o historical_run option"

definition initial_run_state :: "'o run_state" where
  "initial_run_state =
     \<lparr>phase = Idle, runId = None, orchestratorRunId = None, programId = None, runError = None,
      artifactsError = None, summary = None, generated = None, generatedFiles = None, buildTest = None,
      evidence = None, runEvents = None, runProgress = None, runArtifacts = None, experience = None,
      modelGatewayHealth = None, harnessReady = None, workflow = None, previousRun = None\<rparr>"

section \<open>The product state\<close>

datatype product_state =
  PEmpty | PSubmitting | PRunning | PAwaitingAgent | PRepairing | PVerifying | PSuccess | PBlocked
| PCancelled | PBackendUnavailable | PUpstreamUnavailable | PUnsupported | PValidationError | PFailed
| PGeneratedPending | PGeneratedIncomplete | PBuildFailed | PEquivalenceMismatch | PEvidenceIncomplete
| PHashMismatch | PStaleIgnored

record hash_mismatch =
  hashExpected :: string
  hashActual :: string
  hashContext :: string

record state_context =
  pState :: product_state
  pMessage :: "string option"
  pMissing :: "string list option"
  pUnsupported :: "string list option"
  pMismatches :: "hash_mismatch list option"
  pIntentional :: "bool option"
  pFailureCode :: "ui_error_code option"

definition verdict :: "product_state \<Rightarrow> state_context" where
  "verdict st = \<lparr>pState = st, pMessage = None, pMissing = None, pUnsupported = None,
     pMismatches = None, pIntentional = None, pFailureCode = None\<rparr>"

definition js_includes :: "string \<Rightarrow> string \<Rightarrow> bool" where
  "js_includes s t \<longleftrightarrow> list_ex (\<lambda>u. prefix t u) (suffixes s)"

definition error_includes :: "'o run_state \<Rightarrow> string \<Rightarrow> bool" where
  "error_includes rs t = (case runError rs of None \<Rightarrow> False | Some e \<Rightarrow> js_includes e t)"

definition hasUnavailableProductMode :: "'o run_state \<Rightarrow> bool" where
  "hasUnavailableProductMode rs \<longleftrightarrow>
     Some ModeUnavailable \<in> set [map_option sumProductMode (summary rs), map_option genProductMode (generated rs),
       map_option filesProductMode (generatedFiles rs), map_option btProductMode (buildTest rs),
       map_option evProductMode (evidence rs)]"

text \<open>A hash counts when it is present and not the empty string.\<close>

definition hash_of :: "string option \<Rightarrow> string option" where
  "hash_of h = (if h = Some [] then None else h)"

definition mismatch_between ::
  "string option \<Rightarrow> string option \<Rightarrow> string \<Rightarrow> hash_mismatch list" where
  "mismatch_between generatedHash other context =
     (case (hash_of generatedHash, hash_of other) of
        (Some g, Some h) \<Rightarrow>
          (if g \<noteq> h then [\<lparr>hashExpected = g, hashActual = h, hashContext = context\<rparr>] else [])
      | _ \<Rightarrow> [])"

definition collectHashMismatches :: "'o run_state \<Rightarrow> hash_mismatch list" where
  "collectHashMismatches rs =
     (let generatedHash = Option.bind (generated rs) genArtifactSha
      in mismatch_between generatedHash (Option.bind (buildTest rs) btGeneratedSha) ''Generated vs Build/Test''
         @ mismatch_between generatedHash (Option.bind (evidence rs) evGeneratedSha) ''Generated vs Evidence'')"

fun failureCodeToState :: "ui_error_code \<Rightarrow> product_state" where
  "failureCodeToState UnsupportedCobol = PUnsupported"
| "failureCodeToState ParseFailed = PFailed"
| "failureCodeToState SemanticIrFailed = PFailed"
| "failureCodeToState AgentTimeout = PFailed"
| "failureCodeToState AgentContractInvalid = PFailed"
| "failureCodeToState JavaGenerationFailed = PFailed"
| "failureCodeToState InternalError = PFailed"
| "failureCodeToState ModelGatewayUnavailable = PBlocked"
| "failureCodeToState ModelPolicyDenied = PBlocked"
| "failureCodeToState JavaCompileFailed = PBuildFailed"
| "failureCodeToState JavaRuntimeFailed = PBuildFailed"
| "failureCodeToState OracleMismatch = PEquivalenceMismatch"
| "failureCodeToState EvidenceIncompleteCode = PEvidenceIncomplete"
| "failureCodeToState CancelledCode = PCancelled"
| "failureCodeToState GenerateOnlyComplete = PGeneratedPending"
| "failureCodeToState ServiceUnavailable = PBackendUnavailable"

definition isIntentionalDivergence :: "'o run_state \<Rightarrow> bool" where
  "isIntentionalDivergence rs =
     (case or_else (Option.bind (summary rs) sumTrustSummary) (Option.bind (workflow rs) wfTrustSummary) of
        None \<Rightarrow> False
      | Some t \<Rightarrow>
          trustState t = IntentionalDivergenceTrust \<or> divergenceDisposition t = DispIntentional \<or>
          mismatchClassification t = Some ''intentional-divergence'')"

definition activeAgentToState :: "string option \<Rightarrow> product_state option" where
  "activeAgentToState agent =
     (if agent = Some ''transformation_agent'' then Some PAwaitingAgent
      else if agent = Some ''verification_repair_agent'' then Some PRepairing
      else if agent = Some ''build_test_runner'' \<or> agent = Some ''evidence_service'' then Some PVerifying
      else None)"

fun final_to_state :: "final_classification \<Rightarrow> product_state" where
  "final_to_state FinalBlocked = PBlocked"
| "final_to_state _ = PFailed"

text \<open>The classifications whose name starts with \<open>divergence\<close>.\<close>

fun is_divergence :: "build_class \<Rightarrow> bool" where
  "is_divergence DivergenceKnownGap = True"
| "is_divergence DivergenceUnknown = True"
| "is_divergence _ = False"

definition derive_finalClassification :: "'o run_state \<Rightarrow> final_classification option" where
  "derive_finalClassification rs =
     or_else (Option.bind (workflow rs) wfFinal) (Option.bind (summary rs) sumFinal)"

definition derive_failureCode :: "'o run_state \<Rightarrow> ui_error_code option" where
  "derive_failureCode rs =
     or_else (Option.bind (workflow rs) wfFailureCode) (Option.bind (summary rs) sumFailureCode)"

definition derive_failureMessage :: "'o run_state \<Rightarrow> string option" where
  "derive_failureMessage rs =
     or_else (Option.bind (workflow rs) wfFailureMessage) (Option.bind (summary rs) sumFailureMessage)"

definition summary_message :: "'o run_state \<Rightarrow> string option" where
  "summary_message rs = Option.bind (summary rs) sumMessage"

end
