(* ===== verification/Product_State.thy ===== *)
theory Product_State
  imports Run_State
begin

text \<open>
  \<open>deriveProductState\<close> of \<open>types/state.ts\<close>, in the order of its returns: each stage below is a
  stretch of the function, \<open>Some\<close> where it returns.  The verdict \<open>success\<close> is characterised exactly.
\<close>

section \<open>The stages\<close>

definition stage_transport :: "'o run_state \<Rightarrow> state_context option" where
  "stage_transport rs =
     (if runError rs = Some ''Backend unavailable. Try again shortly.'' \<or> error_includes rs ''503'' then
        Some ((verdict PBackendUnavailable)\<lparr>pMessage := runError rs\<rparr>)
      else if error_includes rs ''400'' \<or> error_includes rs ''Validation'' then
        Some ((verdict PValidationError)\<lparr>pMessage := runError rs\<rparr>)
      else if phase rs = Idle then Some (verdict PEmpty)
      else if phase rs = Unavailable then
        Some ((verdict PBackendUnavailable)
          \<lparr>pMessage := or_else (runError rs) (Some ''Backend unavailable. Try again shortly.'')\<rparr>)
      else None)"

definition stage_classification :: "'o run_state \<Rightarrow> state_context option" where
  "stage_classification rs =
     (let finalClassification = derive_finalClassification rs;
          failureCode = derive_failureCode rs;
          failureMessage = derive_failureMessage rs
      in if finalClassification = Some FinalCancelled \<or> failureCode = Some CancelledCode then
           Some ((verdict PCancelled)\<lparr>pMessage := or_else failureMessage (Some ''Run was cancelled.'')\<rparr>)
         else case (finalClassification, failureCode) of
           (Some fc, Some code) \<Rightarrow>
             (if fc = FinalBlocked \<or> fc = FinalFailed \<or> fc = FinalIncomplete then
                Some ((verdict (failureCodeToState code))
                  \<lparr>pMessage := or_else failureMessage (summary_message rs), pFailureCode := Some code\<rparr>)
              else None)
         | (Some FinalIncomplete, None) \<Rightarrow>
             Some ((verdict PEvidenceIncomplete)
               \<lparr>pMessage := or_else (or_else failureMessage (summary_message rs))
                  (Some ''Evidence pack is incomplete.'')\<rparr>)
         | (Some fc, None) \<Rightarrow>
             (if fc = FinalBlocked \<or> fc = FinalFailed then
                Some ((verdict (final_to_state fc))
                  \<lparr>pMessage := or_else (or_else failureMessage (runError rs)) (summary_message rs)\<rparr>)
              else None)
         | (None, _) \<Rightarrow> None)"

definition stage_progress :: "'o run_state \<Rightarrow> state_context option" where
  "stage_progress rs =
     (if hasUnavailableProductMode rs \<and> phase rs \<noteq> Completed \<and> phase rs \<noteq> Failed \<and> phase rs \<noteq> Incomplete then
        Some ((verdict PUpstreamUnavailable)
          \<lparr>pMessage := or_else (or_else (summary_message rs) (Option.bind (generated rs) genNote))
             (Option.bind (evidence rs) evNote)\<rparr>)
      else if phase rs = Starting \<or> phase rs = Running then
        (case activeAgentToState (Option.bind (workflow rs) wfActiveAgent) of
           Some st \<Rightarrow> Some (verdict st)
         | None \<Rightarrow> Some (verdict (if phase rs = Starting then PSubmitting else PRunning)))
      else if phase rs = Completed \<and> isIntentionalDivergence rs then
        Some ((verdict PEquivalenceMismatch)
          \<lparr>pMessage := Some ''This run was intentionally documented as not equivalent.'',
           pIntentional := Some True\<rparr>)
      else None)"

definition files_missing :: "'o run_state \<Rightarrow> string list option" where
  "files_missing rs = Option.bind (generatedFiles rs) filesMissing"

definition files_note :: "'o run_state \<Rightarrow> string option" where
  "files_note rs = Option.bind (generatedFiles rs) filesNote"

definition files_incomplete :: "'o run_state \<Rightarrow> bool" where
  "files_incomplete rs = (case generatedFiles rs of None \<Rightarrow> False | Some fs \<Rightarrow> \<not> filesComplete fs)"

definition stage_generated :: "'o run_state \<Rightarrow> state_context option" where
  "stage_generated rs =
     (case generated rs of
        Some g \<Rightarrow>
          (if genStatus g = GenUnsupported then
             Some ((verdict PUnsupported)
               \<lparr>pUnsupported := Some (or_default (genUnsupported g) []), pMessage := genNote g\<rparr>)
           else let missing = or_default (genMissing g) [] @ or_default (files_missing rs) []
                in if genStatus g = GenIncomplete \<or> files_incomplete rs \<or> missing \<noteq> [] then
                     Some ((verdict PGeneratedIncomplete)
                       \<lparr>pMissing := Some missing, pMessage := or_else (genNote g) (files_note rs)\<rparr>)
                   else None)
      | None \<Rightarrow> if phase rs = Completed then Some (verdict PGeneratedPending) else None)"

text \<open>\<open>a || b\<close> on strings: the empty string counts as absent.\<close>

definition str_or :: "string option \<Rightarrow> string option \<Rightarrow> string option" where
  "str_or a b = (if a = None \<or> a = Some [] then b else a)"

definition stage_incomplete :: "'o run_state \<Rightarrow> state_context option" where
  "stage_incomplete rs =
     (if phase rs = Incomplete then
        Some ((verdict PGeneratedIncomplete)
          \<lparr>pMissing := or_else (or_else (files_missing rs) (Option.bind (generated rs) genMissing)) (Some []),
           pMessage := str_or (str_or (files_note rs) (Option.bind (generated rs) genNote))
             (Some ''Required generated artifacts are unavailable for this run.'')\<rparr>)
      else None)"

definition stage_build :: "'o run_state \<Rightarrow> state_context option" where
  "stage_build rs =
     (case buildTest rs of
        None \<Rightarrow> None
      | Some b \<Rightarrow>
          (if btStatus b = CompileFailed \<or> btStatus b = RunFailed \<or> btClass b = CompileError \<or>
              btClass b = RunError then
             Some ((verdict PBuildFailed)\<lparr>pMessage := btNote b\<rparr>)
           else if is_divergence (btClass b) then
             Some ((verdict PEquivalenceMismatch)
               \<lparr>pMessage := (if isIntentionalDivergence rs
                  then Some ''This run was intentionally documented as not equivalent.'' else btNote b),
                pIntentional := Some (isIntentionalDivergence rs)\<rparr>)
           else if btStatus b = BuildIncomplete then
             Some ((verdict PBuildFailed)
               \<lparr>pMessage := or_else (btNote b) (Some ''Build/test results are incomplete.'')\<rparr>)
           else None))"

definition stage_evidence :: "'o run_state \<Rightarrow> state_context option" where
  "stage_evidence rs =
     (case evidence rs of
        None \<Rightarrow> None
      | Some e \<Rightarrow>
          (if evStatus e = EvIncomplete \<or> or_default (evMissing e) [] \<noteq> [] then
             Some ((verdict PEvidenceIncomplete)
               \<lparr>pMissing := Some (or_default (evMissing e) []), pMessage := evNote e\<rparr>)
           else None))"

definition stage_hashes :: "'o run_state \<Rightarrow> state_context option" where
  "stage_hashes rs =
     (let mismatches = collectHashMismatches rs
      in if mismatches \<noteq> [] then Some ((verdict PHashMismatch)\<lparr>pMismatches := Some mismatches\<rparr>) else None)"

definition stage_failed :: "'o run_state \<Rightarrow> state_context option" where
  "stage_failed rs =
     (if phase rs = Failed \<or> map_option sumStatus (summary rs) = Some StatusFailed then
        Some ((verdict (case derive_failureCode rs of Some code \<Rightarrow> failureCodeToState code | None \<Rightarrow> PFailed))
          \<lparr>pMessage := or_else (or_else (derive_failureMessage rs) (runError rs)) (summary_message rs),
           pFailureCode := derive_failureCode rs\<rparr>)
      else None)"

definition stage_completed :: "'o run_state \<Rightarrow> state_context option" where
  "stage_completed rs =
     (if phase rs = Completed then
        (let buildTestOk = (map_option btStatus (buildTest rs) = Some BuildOk);
             evidenceOk = (map_option evStatus (evidence rs) = Some EvComplete);
             final = derive_finalClassification rs
         in if final = Some FinalSuccess \<and> buildTestOk \<and> evidenceOk then Some (verdict PSuccess)
            else if final = None \<and> buildTestOk \<and> evidenceOk then
              Some ((verdict PFailed)
                \<lparr>pMessage := Some ''BFF final classification is unavailable; verified success cannot be claimed.''\<rparr>)
            else Some ((verdict PFailed)
                \<lparr>pMessage := or_else (derive_failureMessage rs) (summary_message rs)\<rparr>))
      else None)"

fun first_some :: "'a option list \<Rightarrow> 'a \<Rightarrow> 'a" where
  "first_some [] d = d"
| "first_some (Some x # _) d = x"
| "first_some (None # xs) d = first_some xs d"

definition deriveProductState :: "'o run_state \<Rightarrow> state_context" where
  "deriveProductState rs =
     first_some [stage_transport rs, stage_classification rs, stage_progress rs, stage_generated rs,
       stage_incomplete rs, stage_build rs, stage_evidence rs, stage_hashes rs, stage_failed rs,
       stage_completed rs] (verdict PEmpty)"

section \<open>The success verdict\<close>

lemma failureCode_not_success [simp]: "failureCodeToState code \<noteq> PSuccess"
  by (cases code) simp_all

lemma final_to_state_not_success [simp]: "final_to_state fc \<noteq> PSuccess"
  by (cases fc) simp_all

lemma verdict_pState [simp]: "pState (verdict st) = st"
  by (simp add: verdict_def)

text \<open>No stage before the last gives success.\<close>

lemma stage_not_success:
  "stage_transport rs = Some c \<Longrightarrow> pState c \<noteq> PSuccess"
  "stage_classification rs = Some c \<Longrightarrow> pState c \<noteq> PSuccess"
  "stage_progress rs = Some c \<Longrightarrow> pState c \<noteq> PSuccess"
  "stage_generated rs = Some c \<Longrightarrow> pState c \<noteq> PSuccess"
  "stage_incomplete rs = Some c \<Longrightarrow> pState c \<noteq> PSuccess"
  "stage_build rs = Some c \<Longrightarrow> pState c \<noteq> PSuccess"
  "stage_evidence rs = Some c \<Longrightarrow> pState c \<noteq> PSuccess"
  "stage_hashes rs = Some c \<Longrightarrow> pState c \<noteq> PSuccess"
  "stage_failed rs = Some c \<Longrightarrow> pState c \<noteq> PSuccess"
  by (auto simp: stage_transport_def stage_classification_def stage_progress_def stage_generated_def
      stage_incomplete_def stage_build_def stage_evidence_def stage_hashes_def stage_failed_def
      activeAgentToState_def Let_def
      split: if_splits option.splits prod.splits final_classification.splits)

lemma stage_completed_success:
  "(\<exists>c. stage_completed rs = Some c \<and> pState c = PSuccess) \<longleftrightarrow>
     phase rs = Completed \<and> derive_finalClassification rs = Some FinalSuccess \<and>
     map_option btStatus (buildTest rs) = Some BuildOk \<and> map_option evStatus (evidence rs) = Some EvComplete"
  by (auto simp: stage_completed_def Let_def)

lemma first_some_last:
  "\<forall>x\<in>set xs. \<forall>c. x = Some c \<longrightarrow> \<not> P c \<Longrightarrow> \<not> P d \<Longrightarrow>
   P (first_some (xs @ [y]) d) \<longleftrightarrow> (\<forall>x\<in>set xs. x = None) \<and> (\<exists>c. y = Some c \<and> P c)"
proof (induction xs)
  case Nil
  then show ?case by (cases y) simp_all
next
  case (Cons x xs)
  then show ?case by (cases x) auto
qed

lemma derive_success_stages:
  "pState (deriveProductState rs) = PSuccess \<longleftrightarrow>
     stage_transport rs = None \<and> stage_classification rs = None \<and> stage_progress rs = None \<and>
     stage_generated rs = None \<and> stage_incomplete rs = None \<and> stage_build rs = None \<and>
     stage_evidence rs = None \<and> stage_hashes rs = None \<and> stage_failed rs = None \<and>
     (\<exists>c. stage_completed rs = Some c \<and> pState c = PSuccess)"
  using first_some_last [of "[stage_transport rs, stage_classification rs, stage_progress rs, stage_generated rs,
       stage_incomplete rs, stage_build rs, stage_evidence rs, stage_hashes rs, stage_failed rs]"
      "\<lambda>c. pState c = PSuccess" "verdict PEmpty" "stage_completed rs"] stage_not_success [of rs]
  by (simp add: deriveProductState_def)

text \<open>What the error text must not say.\<close>

definition no_transport_error :: "'o run_state \<Rightarrow> bool" where
  "no_transport_error rs \<longleftrightarrow>
     runError rs \<noteq> Some ''Backend unavailable. Try again shortly.'' \<and> \<not> error_includes rs ''503'' \<and>
     \<not> error_includes rs ''400'' \<and> \<not> error_includes rs ''Validation''"

lemma success_transport: "phase rs = Completed \<Longrightarrow> stage_transport rs = None \<longleftrightarrow> no_transport_error rs"
  by (auto simp: stage_transport_def no_transport_error_def)

lemma success_classification:
  "derive_finalClassification rs = Some FinalSuccess \<Longrightarrow>
   stage_classification rs = None \<longleftrightarrow> derive_failureCode rs \<noteq> Some CancelledCode"
  by (auto simp: stage_classification_def Let_def split: option.splits)

lemma success_progress: "phase rs = Completed \<Longrightarrow> stage_progress rs = None \<longleftrightarrow> \<not> isIntentionalDivergence rs"
  by (auto simp: stage_progress_def)

definition artifacts_complete :: "'o run_state \<Rightarrow> bool" where
  "artifacts_complete rs \<longleftrightarrow>
     (case generated rs of None \<Rightarrow> False
      | Some g \<Rightarrow> genStatus g \<noteq> GenUnsupported \<and> genStatus g \<noteq> GenIncomplete \<and> or_default (genMissing g) [] = []) \<and>
     \<not> files_incomplete rs \<and> or_default (files_missing rs) [] = []"

lemma success_generated:
  "phase rs = Completed \<Longrightarrow> stage_generated rs = None \<longleftrightarrow> artifacts_complete rs"
  by (auto simp: stage_generated_def artifacts_complete_def Let_def split: option.splits)

definition build_agrees :: "'o run_state \<Rightarrow> bool" where
  "build_agrees rs \<longleftrightarrow>
     (case buildTest rs of None \<Rightarrow> False
      | Some b \<Rightarrow> btStatus b = BuildOk \<and> btClass b \<notin> {CompileError, RunError, DivergenceKnownGap, DivergenceUnknown})"

definition evidence_agrees :: "'o run_state \<Rightarrow> bool" where
  "evidence_agrees rs \<longleftrightarrow>
     (case evidence rs of None \<Rightarrow> False | Some e \<Rightarrow> evStatus e = EvComplete \<and> or_default (evMissing e) [] = [])"

lemma is_divergence_iff: "is_divergence c \<longleftrightarrow> c \<in> {DivergenceKnownGap, DivergenceUnknown}"
  by (cases c) simp_all

lemma success_build:
  "stage_build rs = None \<and> map_option btStatus (buildTest rs) = Some BuildOk \<longleftrightarrow> build_agrees rs"
  by (auto simp: stage_build_def build_agrees_def is_divergence_iff split: option.splits)

lemma success_evidence:
  "stage_evidence rs = None \<and> map_option evStatus (evidence rs) = Some EvComplete \<longleftrightarrow> evidence_agrees rs"
  by (auto simp: stage_evidence_def evidence_agrees_def split: option.splits)

text \<open>What a success verdict says of the artifacts.\<close>

lemma derive_success_artifacts:
  assumes "pState (deriveProductState rs) = PSuccess"
  shows "artifacts_complete rs" "build_agrees rs" "evidence_agrees rs" "collectHashMismatches rs = []"
    "derive_finalClassification rs = Some FinalSuccess"
  using assms success_build [of rs] success_evidence [of rs] success_generated [of rs]
  unfolding derive_success_stages stage_completed_success
  by (auto simp: stage_hashes_def Let_def split: if_splits)

text \<open>
  C13: the product state is success exactly when the run completed, the classification of the
  backend is success and not cancelled, the generated artifacts are complete, build and test are ok
  without any error or divergence classification, the evidence is complete, the artifact hashes
  agree, no divergence was documented, the summary does not report a failure, and no transport
  error is shown.
\<close>

theorem success_verdict_iff:
  "pState (deriveProductState rs) = PSuccess \<longleftrightarrow>
     phase rs = Completed \<and> no_transport_error rs \<and>
     derive_finalClassification rs = Some FinalSuccess \<and> derive_failureCode rs \<noteq> Some CancelledCode \<and>
     \<not> isIntentionalDivergence rs \<and> artifacts_complete rs \<and> build_agrees rs \<and> evidence_agrees rs \<and>
     collectHashMismatches rs = [] \<and> map_option sumStatus (summary rs) \<noteq> Some StatusFailed"
proof (cases "phase rs = Completed \<and> derive_finalClassification rs = Some FinalSuccess")
  case True
  have "stage_incomplete rs = None" "stage_hashes rs = None \<longleftrightarrow> collectHashMismatches rs = []"
    "stage_failed rs = None \<longleftrightarrow> map_option sumStatus (summary rs) \<noteq> Some StatusFailed"
    using True by (simp_all add: stage_incomplete_def stage_hashes_def stage_failed_def Let_def)
  with True success_build [of rs] success_evidence [of rs] show ?thesis
    unfolding derive_success_stages stage_completed_success
    by (auto simp: success_transport success_classification success_progress success_generated)
next
  case False
  then show ?thesis unfolding derive_success_stages stage_completed_success by blast
qed

end
