(* ===== verification/Run_Lifecycle.thy ===== *)
theory Run_Lifecycle
  imports Product_State Diff_History
begin

text \<open>
  The life of a run: \<open>stores/transformationRun.tsx\<close> (starting a run, the export of its evidence and
  the divergence decision) with the polling of \<open>hooks/useRunPolling.ts\<close>.

  An asynchronous function runs up to its first \<open>await\<close> in one step and leaves a job; the job lands
  later, in any order, with the answer of the backend.  \<open>setState\<close> and the effects that depend on
  the state (the polling effect on run id and phase, the effect that copies the run id into
  \<open>currentRunIdRef\<close>) take effect at once.  An effect instance has a number; its \<open>active\<close> flag is
  true while that number is the current one.
\<close>

section \<open>The store\<close>

record 'o decision_response =
  decRunId :: string
  decTrustSummary :: "trust_summary option"
  decRecord :: 'o

datatype decision_status = DecisionIdle | DecisionSaving | DecisionError

datatype run_job =
  StartJob nat string
| CobolJob string string string
| HydrateJob string run_status
| PollJob nat string nat
| PollHydrateJob nat string run_status
| PollObserveJob nat string nat
| TimerJob nat string nat
| ExportJob string
| DecisionJob string

record 'o run_store =
  runState :: "'o run_state"
  activeTransformRequest :: nat
  currentRunIdRef :: "string option"
  divergenceDecision :: "'o decision_response option"
  divergenceStatus :: decision_status
  divergenceError :: "string option"
  runHistory :: diff_history
  pollEffect :: nat
  runJobs :: "run_job list"

text \<open>The answers of the backend that a landing may read.\<close>

record 'o run_answers =
  ansStart :: "run_summary api_result"
  ansSummary :: "run_summary api_result"
  ansGenerated :: "generated_view api_result"
  ansGeneratedFiles :: "generated_files_index api_result"
  ansBuildTest :: "build_test_view api_result"
  ansEvidence :: "evidence_view api_result"
  ansProgress :: "'o api_result"
  ansEvents :: "'o api_result"
  ansArtifacts :: "'o api_result"
  ansExperience :: "'o api_result"
  ansWorkflow :: "workflow_view api_result"
  ansExport :: "string api_result"
  ansDecision :: "'o decision_response api_result"
  ansGateway :: "'o api_result"
  ansHarness :: "'o api_result"

fun ok_data :: "'a api_result \<Rightarrow> 'a option" where
  "ok_data (ApiOk x) = Some x"
| "ok_data (ApiFail _ _) = None"

fun fail_message :: "'a api_result \<Rightarrow> string option" where
  "fail_message (ApiOk x) = None"
| "fail_message (ApiFail _ msg) = Some msg"

section \<open>Effects\<close>

definition is_polled :: "'o run_state \<Rightarrow> bool" where
  "is_polled st \<longleftrightarrow> phase st = Starting \<or> phase st = Running"

definition runPollingEffect :: "'o run_store \<Rightarrow> 'o run_store" where
  "runPollingEffect s =
     (let s' = s\<lparr>pollEffect := Suc (pollEffect s)\<rparr>
      in case runId (runState s) of
           None \<Rightarrow> s'
         | Some r \<Rightarrow>
             (if r \<noteq> [] \<and> is_polled (runState s) then s'\<lparr>runJobs := runJobs s @ [PollJob (pollEffect s') r 0]\<rparr>
              else s'))"

definition setRunState :: "('o run_state \<Rightarrow> 'o run_state) \<Rightarrow> 'o run_store \<Rightarrow> 'o run_store" where
  "setRunState f s =
     (let old = runState s; new = f old;
          s1 = s\<lparr>runState := new\<rparr>;
          s2 = (if runId new \<noteq> runId old then s1\<lparr>currentRunIdRef := runId new\<rparr> else s1)
      in if runId new \<noteq> runId old \<or> phase new \<noteq> phase old then runPollingEffect s2 else s2)"

section \<open>Starting a run\<close>

definition artifact_bearing :: "'o run_state \<Rightarrow> bool" where
  "artifact_bearing st \<longleftrightarrow>
     generated st \<noteq> None \<or> generatedFiles st \<noteq> None \<or> buildTest st \<noteq> None \<or> evidence st \<noteq> None"

definition snapshotHistoricalRun :: "'o run_state \<Rightarrow> 'o historical_run option" where
  "snapshotHistoricalRun st =
     (if or_default (runId st) [] = [] \<or> \<not> artifact_bearing st then previousRun st
      else Some \<lparr>histRunId = the (runId st), histOrchestratorRunId = orchestratorRunId st,
        histProgramId = programId st, histPhase = phase st, histSummary = summary st,
        histGenerated = generated st, histGeneratedFiles = generatedFiles st, histBuildTest = buildTest st,
        histEvidence = evidence st, histEvents = runEvents st, histProgress = runProgress st,
        histArtifacts = runArtifacts st, histExperience = experience st, histWorkflow = workflow st\<rparr>)"

definition started_state :: "string option \<Rightarrow> 'o run_state \<Rightarrow> 'o run_state" where
  "started_state program prev =
     initial_run_state\<lparr>phase := Starting, programId := (if program = Some [] then None else program),
       modelGatewayHealth := modelGatewayHealth prev, harnessReady := harnessReady prev,
       previousRun := snapshotHistoricalRun prev\<rparr>"

text \<open>\<open>startTransform\<close> and \<open>startGenerate\<close> differ in the endpoint only.\<close>

definition startTransform :: "string option \<Rightarrow> string \<Rightarrow> 'o run_store \<Rightarrow> 'o run_store" where
  "startTransform program sourceText s =
     (let requestId = Suc (activeTransformRequest s);
          s1 = setRunState (started_state program)
                 (s\<lparr>activeTransformRequest := requestId, currentRunIdRef := None\<rparr>)
      in s1\<lparr>divergenceDecision := None, divergenceStatus := DecisionIdle, divergenceError := None,
            runJobs := runJobs s1 @ [StartJob requestId sourceText]\<rparr>)"

definition transport_error :: "nat option \<Rightarrow> string \<Rightarrow> string" where
  "transport_error status msg =
     (if status = Some 503 then ''Backend unavailable. Try again shortly.'' else msg)"

fun phase_of_status :: "run_status \<Rightarrow> run_phase" where
  "phase_of_status StatusCompleted = Completed"
| "phase_of_status StatusFailed = Failed"
| "phase_of_status _ = Running"

definition is_terminal :: "run_status \<Rightarrow> bool" where
  "is_terminal status \<longleftrightarrow> status = StatusCompleted \<or> status = StatusFailed"

definition land_start ::
  "run_summary api_result \<Rightarrow> nat \<Rightarrow> string \<Rightarrow> 'o run_store \<Rightarrow> 'o run_store" where
  "land_start result requestId sourceText s =
     (if requestId \<noteq> activeTransformRequest s then s
      else case result of
        ApiFail status msg \<Rightarrow>
          setRunState (\<lambda>prev. prev\<lparr>phase := Failed, runError := Some (transport_error status msg)\<rparr>) s
      | ApiOk data \<Rightarrow>
          (let s1 = setRunState (\<lambda>prev. prev\<lparr>phase := phase_of_status (sumStatus data), runId := Some (sumRunId data),
                        orchestratorRunId := sumOrchestratorRunId data, programId := Some (sumProgramId data),
                        runError := None, summary := Some data\<rparr>)
                      (s\<lparr>currentRunIdRef := Some (sumRunId data)\<rparr>)
           in s1\<lparr>runJobs := runJobs s1
                 @ (if sumProgramId data \<noteq> [] then [CobolJob (sumProgramId data) sourceText (sumRunId data)] else [])
                 @ (if is_terminal (sumStatus data) then [HydrateJob (sumRunId data) (sumStatus data)] else [])\<rparr>))"

definition land_cobol ::
  "(string \<Rightarrow> string) \<Rightarrow> string \<Rightarrow> string \<Rightarrow> string \<Rightarrow> 'o run_store \<Rightarrow> 'o run_store" where
  "land_cobol H program sourceText r s =
     s\<lparr>runHistory := recordCobolDiffSnapshot program
         \<lparr>snapContent = sourceText, snapSourceHash = H sourceText, snapRunId = r\<rparr> (runHistory s)\<rparr>"

section \<open>Polling\<close>

definition hydrate_observability ::
  "'o run_answers \<Rightarrow> string \<Rightarrow> 'o run_state \<Rightarrow> 'o run_state" where
  "hydrate_observability ans r prev =
     (if runId prev \<noteq> Some r then prev
      else prev\<lparr>runProgress := or_else (ok_data (ansProgress ans)) (runProgress prev),
                runEvents := or_else (ok_data (ansEvents ans)) (runEvents prev),
                experience := or_else (ok_data (ansExperience ans)) (experience prev),
                workflow := or_else (ok_data (ansWorkflow ans)) (workflow prev)\<rparr>)"

fun is_ok :: "'a api_result \<Rightarrow> bool" where
  "is_ok (ApiOk _) = True"
| "is_ok (ApiFail _ _) = False"

definition hydrated_phase :: "'o run_answers \<Rightarrow> run_status option \<Rightarrow> 'o run_state \<Rightarrow> run_phase" where
  "hydrated_phase ans terminalStatus prev =
     (if terminalStatus = Some StatusFailed \<or> map_option sumStatus (summary prev) = Some StatusFailed then Failed
      else if \<not> is_ok (ansGenerated ans) \<or> \<not> is_ok (ansGeneratedFiles ans) \<or> \<not> is_ok (ansBuildTest ans) \<or>
              \<not> is_ok (ansEvidence ans) then Incomplete
      else Completed)"

definition hydrateRunArtifacts ::
  "'o run_answers \<Rightarrow> string \<Rightarrow> run_status option \<Rightarrow> 'o run_state \<Rightarrow> 'o run_state" where
  "hydrateRunArtifacts ans r terminalStatus prev =
     (if runId prev \<noteq> Some r then prev
      else prev\<lparr>generated := ok_data (ansGenerated ans), generatedFiles := ok_data (ansGeneratedFiles ans),
                buildTest := ok_data (ansBuildTest ans), evidence := ok_data (ansEvidence ans),
                runProgress := or_else (ok_data (ansProgress ans)) (runProgress prev),
                runEvents := ok_data (ansEvents ans), runArtifacts := ok_data (ansArtifacts ans),
                artifactsError := fail_message (ansArtifacts ans), experience := ok_data (ansExperience ans),
                workflow := or_else (ok_data (ansWorkflow ans)) (workflow prev),
                phase := hydrated_phase ans terminalStatus prev\<rparr>)"

definition MAX_ERRORS :: nat where "MAX_ERRORS = 5"

definition poll_state ::
  "string \<Rightarrow> ('o run_state \<Rightarrow> 'o run_state) \<Rightarrow> 'o run_state \<Rightarrow> 'o run_state" where
  "poll_state r f prev = (if runId prev = Some r then f prev else prev)"

text \<open>One turn of \<open>poll\<close> from the answer of \<open>getRun\<close> on; the rest of the turn is left as a job.\<close>

definition land_poll ::
  "run_summary api_result \<Rightarrow> nat \<Rightarrow> string \<Rightarrow> nat \<Rightarrow> 'o run_store \<Rightarrow> 'o run_store" where
  "land_poll result eff r errorCount s =
     (if eff \<noteq> pollEffect s then s
      else case result of
        ApiFail status msg \<Rightarrow>
          (if status = Some 503 then
             setRunState (poll_state r (\<lambda>prev. prev\<lparr>phase := Unavailable, runError := Some ''Backend unavailable''\<rparr>)) s
           else if Suc errorCount > MAX_ERRORS then
             setRunState (poll_state r (\<lambda>prev. prev\<lparr>phase := Failed, runError := Some msg\<rparr>)) s
           else s\<lparr>runJobs := runJobs s @ [TimerJob eff r (Suc errorCount)]\<rparr>)
      | ApiOk data \<Rightarrow>
          (let s1 = setRunState (poll_state r (\<lambda>prev. prev\<lparr>summary := Some data\<rparr>)) s
           in if is_terminal (sumStatus data)
              then s1\<lparr>runJobs := runJobs s1 @ [PollHydrateJob eff r (sumStatus data)]\<rparr>
              else s1\<lparr>runJobs := runJobs s1 @ [PollObserveJob eff r 0]\<rparr>))"

definition land_poll_hydrate ::
  "'o run_answers \<Rightarrow> nat \<Rightarrow> string \<Rightarrow> run_status \<Rightarrow> 'o run_store \<Rightarrow> 'o run_store" where
  "land_poll_hydrate ans eff r status s =
     (if eff \<noteq> pollEffect s then s else setRunState (hydrateRunArtifacts ans r (Some status)) s)"

definition land_poll_observe ::
  "'o run_answers \<Rightarrow> nat \<Rightarrow> string \<Rightarrow> nat \<Rightarrow> 'o run_store \<Rightarrow> 'o run_store" where
  "land_poll_observe ans eff r errorCount s =
     (if eff \<noteq> pollEffect s then s
      else let s1 = setRunState (hydrate_observability ans r) s
           in s1\<lparr>runJobs := runJobs s1 @ [TimerJob eff r errorCount]\<rparr>)"

text \<open>The timeout of the next turn; the cleanup of its effect instance clears it.\<close>

definition land_timer :: "nat \<Rightarrow> string \<Rightarrow> nat \<Rightarrow> 'o run_store \<Rightarrow> 'o run_store" where
  "land_timer eff r errorCount s =
     (if eff \<noteq> pollEffect s then s else s\<lparr>runJobs := runJobs s @ [PollJob eff r errorCount]\<rparr>)"

fun health_view :: "'o api_result \<Rightarrow> 'o health" where
  "health_view (ApiOk x) = HealthAnswer x"
| "health_view (ApiFail _ msg) = HealthUnavailable msg"

definition fetchGlobals :: "'o run_answers \<Rightarrow> 'o run_state \<Rightarrow> 'o run_state" where
  "fetchGlobals ans prev =
     prev\<lparr>modelGatewayHealth := Some (health_view (ansGateway ans)),
          harnessReady := Some (health_view (ansHarness ans))\<rparr>"

section \<open>Export and decision\<close>

definition active_run :: "'o run_store \<Rightarrow> string option" where
  "active_run s = (if currentRunIdRef s = Some [] then None else currentRunIdRef s)"

definition exportParityEvidenceScaffold :: "'o run_store \<Rightarrow> 'o run_store" where
  "exportParityEvidenceScaffold s =
     (case active_run s of None \<Rightarrow> s | Some r \<Rightarrow> s\<lparr>runJobs := runJobs s @ [ExportJob r]\<rparr>)"

definition land_export :: "string api_result \<Rightarrow> string \<Rightarrow> 'o run_store \<Rightarrow> 'o run_store" where
  "land_export result r s =
     (if currentRunIdRef s \<noteq> Some r then s
      else case result of
        ApiFail _ _ \<Rightarrow> s
      | ApiOk scaffoldRef \<Rightarrow>
          setRunState (\<lambda>prev. prev\<lparr>evidence := map_option (\<lambda>e. e\<lparr>evExportRef := Some scaffoldRef\<rparr>) (evidence prev)\<rparr>) s)"

definition submitIntentionalDivergenceDecision :: "'o run_store \<Rightarrow> 'o run_store" where
  "submitIntentionalDivergenceDecision s =
     (case active_run s of
        None \<Rightarrow> s
      | Some r \<Rightarrow> s\<lparr>divergenceStatus := DecisionSaving, divergenceError := None,
                    runJobs := runJobs s @ [DecisionJob r]\<rparr>)"

definition decided_state :: "string \<Rightarrow> 'o decision_response \<Rightarrow> 'o run_state \<Rightarrow> 'o run_state" where
  "decided_state r data prev =
     (if runId prev \<noteq> Some r then prev
      else let trustSummary = or_else (decTrustSummary data) (Option.bind (summary prev) sumTrustSummary)
           in prev\<lparr>summary := map_option (\<lambda>x. x\<lparr>sumTrustSummary := trustSummary\<rparr>) (summary prev),
                   workflow := map_option (\<lambda>w. w\<lparr>wfTrustSummary := trustSummary\<rparr>) (workflow prev)\<rparr>)"

definition land_decision :: "'o decision_response api_result \<Rightarrow> string \<Rightarrow> 'o run_store \<Rightarrow> 'o run_store" where
  "land_decision result r s =
     (if currentRunIdRef s \<noteq> Some r then
        s\<lparr>divergenceStatus := DecisionError,
          divergenceError := Some ''The active run changed before the divergence decision completed.''\<rparr>
      else case result of
        ApiFail _ msg \<Rightarrow> s\<lparr>divergenceStatus := DecisionError, divergenceError := Some msg\<rparr>
      | ApiOk data \<Rightarrow>
          setRunState (decided_state r data)
            (s\<lparr>divergenceDecision := Some data, divergenceStatus := DecisionIdle, divergenceError := None\<rparr>))"

section \<open>The transition system\<close>

datatype run_action = StartRun "string option" string | ExportEvidence | SubmitDecision

fun run_act :: "run_action \<Rightarrow> 'o run_store \<Rightarrow> 'o run_store" where
  "run_act (StartRun program sourceText) s = startTransform program sourceText s"
| "run_act ExportEvidence s = exportParityEvidenceScaffold s"
| "run_act SubmitDecision s = submitIntentionalDivergenceDecision s"

fun run_land :: "(string \<Rightarrow> string) \<Rightarrow> 'o run_answers \<Rightarrow> run_job \<Rightarrow> 'o run_store \<Rightarrow> 'o run_store" where
  "run_land H ans (StartJob requestId src) s = land_start (ansStart ans) requestId src s"
| "run_land H ans (CobolJob program src r) s = land_cobol H program src r s"
| "run_land H ans (HydrateJob r status) s = setRunState (hydrateRunArtifacts ans r (Some status)) s"
| "run_land H ans (PollJob eff r n) s = land_poll (ansSummary ans) eff r n s"
| "run_land H ans (PollHydrateJob eff r status) s = land_poll_hydrate ans eff r status s"
| "run_land H ans (PollObserveJob eff r n) s = land_poll_observe ans eff r n s"
| "run_land H ans (TimerJob eff r n) s = land_timer eff r n s"
| "run_land H ans (ExportJob r) s = land_export (ansExport ans) r s"
| "run_land H ans (DecisionJob r) s = land_decision (ansDecision ans) r s"

text \<open>The run that a job asks the backend about.\<close>

fun job_run :: "run_job \<Rightarrow> string option" where
  "job_run (StartJob _ _) = None"
| "job_run (CobolJob _ _ r) = Some r"
| "job_run (HydrateJob r _) = Some r"
| "job_run (PollJob _ r _) = Some r"
| "job_run (PollHydrateJob _ r _) = Some r"
| "job_run (PollObserveJob _ r _) = Some r"
| "job_run (TimerJob _ r _) = Some r"
| "job_run (ExportJob r) = Some r"
| "job_run (DecisionJob r) = Some r"

definition run_init :: "'o run_store" where
  "run_init = \<lparr>runState = initial_run_state, activeTransformRequest = 0, currentRunIdRef = None,
     divergenceDecision = None, divergenceStatus = DecisionIdle, divergenceError = None,
     runHistory = empty_history, pollEffect = 0, runJobs = []\<rparr>"

text \<open>
  \<open>serves r ans\<close> says what the backend may answer when it is asked about \<open>r\<close>; every step below
  takes it as a parameter.
\<close>

inductive run_step ::
  "(string \<Rightarrow> string) \<Rightarrow> (string \<Rightarrow> 'o run_answers \<Rightarrow> bool) \<Rightarrow> 'o run_store \<Rightarrow> 'o run_store \<Rightarrow> bool"
  for H serves where
  run_acts: "run_step H serves s (run_act a s)"
| run_lands: "job \<in> set (runJobs s) \<Longrightarrow> (\<forall>r. job_run job = Some r \<longrightarrow> serves r ans) \<Longrightarrow>
    run_step H serves s (run_land H ans job (s\<lparr>runJobs := remove1 job (runJobs s)\<rparr>))"
| run_globals: "run_step H serves s (setRunState (fetchGlobals ans) s)"

inductive_cases run_stepE: "run_step H serves s s'"

definition run_reachable ::
  "(string \<Rightarrow> string) \<Rightarrow> (string \<Rightarrow> 'o run_answers \<Rightarrow> bool) \<Rightarrow> 'o run_store \<Rightarrow> bool" where
  "run_reachable H serves s \<longleftrightarrow> (run_step H serves)\<^sup>*\<^sup>* run_init s"

end
