(* ===== verification/Run_Facts.thy ===== *)
theory Run_Facts
  imports Run_Lifecycle
begin

text \<open>
  What holds in every interleaving of the run store: the views belong to the run that is shown, the
  previous run stays complete, and a run that is not over is polled by exactly one loop.
\<close>

section \<open>Ownership\<close>

text \<open>All views that are present are about run \<open>r\<close>; \<open>owner\<close> reads the run of an opaque view.\<close>

definition owns :: "('o \<Rightarrow> string) \<Rightarrow> string \<Rightarrow> 'o run_state \<Rightarrow> bool" where
  "owns owner r st \<longleftrightarrow>
     pred_option (\<lambda>v. sumRunId v = r) (summary st) \<and> pred_option (\<lambda>v. genRunId v = r) (generated st) \<and>
     pred_option (\<lambda>v. filesRunId v = r) (generatedFiles st) \<and> pred_option (\<lambda>v. btRunId v = r) (buildTest st) \<and>
     pred_option (\<lambda>v. evRunId v = r) (evidence st) \<and> pred_option (\<lambda>v. wfRunId v = r) (workflow st) \<and>
     pred_option (\<lambda>v. owner v = r) (runEvents st) \<and> pred_option (\<lambda>v. owner v = r) (runProgress st) \<and>
     pred_option (\<lambda>v. owner v = r) (runArtifacts st) \<and> pred_option (\<lambda>v. owner v = r) (experience st)"

definition no_views :: "'o run_state \<Rightarrow> bool" where
  "no_views st \<longleftrightarrow>
     summary st = None \<and> generated st = None \<and> generatedFiles st = None \<and> buildTest st = None \<and>
     evidence st = None \<and> workflow st = None \<and> runEvents st = None \<and> runProgress st = None \<and>
     runArtifacts st = None \<and> experience st = None"

definition state_owned :: "('o \<Rightarrow> string) \<Rightarrow> 'o run_state \<Rightarrow> bool" where
  "state_owned owner st \<longleftrightarrow> (case runId st of None \<Rightarrow> no_views st | Some r \<Rightarrow> owns owner r st)"

text \<open>A preserved run has an artifact, and all its views are its own.\<close>

definition history_owned :: "('o \<Rightarrow> string) \<Rightarrow> 'o historical_run \<Rightarrow> bool" where
  "history_owned owner h \<longleftrightarrow>
     histRunId h \<noteq> [] \<and>
     (histGenerated h \<noteq> None \<or> histGeneratedFiles h \<noteq> None \<or> histBuildTest h \<noteq> None \<or> histEvidence h \<noteq> None) \<and>
     pred_option (\<lambda>v. sumRunId v = histRunId h) (histSummary h) \<and>
     pred_option (\<lambda>v. genRunId v = histRunId h) (histGenerated h) \<and>
     pred_option (\<lambda>v. filesRunId v = histRunId h) (histGeneratedFiles h) \<and>
     pred_option (\<lambda>v. btRunId v = histRunId h) (histBuildTest h) \<and>
     pred_option (\<lambda>v. evRunId v = histRunId h) (histEvidence h) \<and>
     pred_option (\<lambda>v. wfRunId v = histRunId h) (histWorkflow h) \<and>
     pred_option (\<lambda>v. owner v = histRunId h) (histEvents h) \<and>
     pred_option (\<lambda>v. owner v = histRunId h) (histProgress h) \<and>
     pred_option (\<lambda>v. owner v = histRunId h) (histArtifacts h) \<and>
     pred_option (\<lambda>v. owner v = histRunId h) (histExperience h)"

text \<open>What the backend documents: a view served for run \<open>r\<close> names \<open>r\<close>.\<close>

definition names_run :: "('o \<Rightarrow> string) \<Rightarrow> string \<Rightarrow> 'o run_answers \<Rightarrow> bool" where
  "names_run owner r ans \<longleftrightarrow>
     pred_option (\<lambda>v. sumRunId v = r) (ok_data (ansSummary ans)) \<and>
     pred_option (\<lambda>v. genRunId v = r) (ok_data (ansGenerated ans)) \<and>
     pred_option (\<lambda>v. filesRunId v = r) (ok_data (ansGeneratedFiles ans)) \<and>
     pred_option (\<lambda>v. btRunId v = r) (ok_data (ansBuildTest ans)) \<and>
     pred_option (\<lambda>v. evRunId v = r) (ok_data (ansEvidence ans)) \<and>
     pred_option (\<lambda>v. wfRunId v = r) (ok_data (ansWorkflow ans)) \<and>
     pred_option (\<lambda>v. owner v = r) (ok_data (ansProgress ans)) \<and>
     pred_option (\<lambda>v. owner v = r) (ok_data (ansEvents ans)) \<and>
     pred_option (\<lambda>v. owner v = r) (ok_data (ansArtifacts ans)) \<and>
     pred_option (\<lambda>v. owner v = r) (ok_data (ansExperience ans))"

lemma pred_option_or_else: "pred_option P a \<Longrightarrow> pred_option P b \<Longrightarrow> pred_option P (or_else a b)"
  by (cases a) simp_all

lemma pred_option_map_same: "(\<And>x. P (f x) = P x) \<Longrightarrow> pred_option P (map_option f a) = pred_option P a"
  by (cases a) simp_all

section \<open>Updates that are guarded by the run they were asked for\<close>

text \<open>
  The contract of every updater that the store passes to \<open>setState\<close> for an answer about run \<open>r\<close>: it
  leaves a state of another run alone, keeps run id and previous run, and puts in no view of another
  run when the answer is about \<open>r\<close>.
\<close>

locale guarded_update =
  fixes upd :: "'a \<Rightarrow> string \<Rightarrow> 'o run_state \<Rightarrow> 'o run_state"
    and good :: "string \<Rightarrow> 'a \<Rightarrow> bool"
    and owner :: "'o \<Rightarrow> string"
  assumes other_run: "runId st \<noteq> Some r \<Longrightarrow> upd a r st = st"
    and same_run: "runId (upd a r st) = runId st"
    and same_previous: "previousRun (upd a r st) = previousRun st"
    and own_views: "runId st = Some r \<Longrightarrow> good r a \<Longrightarrow> owns owner r st \<Longrightarrow> owns owner r (upd a r st)"
begin

lemma keeps_owned: "good r a \<Longrightarrow> state_owned owner st \<Longrightarrow> state_owned owner (upd a r st)"
  using own_views [of st r a] other_run [of st r a] same_run [of a r st]
  by (cases "runId st = Some r") (auto simp: state_owned_def)

lemma keeps_history:
  "pred_option (history_owned owner) (previousRun st) \<Longrightarrow>
   pred_option (history_owned owner) (previousRun (upd a r st))"
  by (simp add: same_previous)

end

definition poll_summary :: "run_summary \<Rightarrow> string \<Rightarrow> 'o run_state \<Rightarrow> 'o run_state" where
  "poll_summary data r = poll_state r (\<lambda>prev. prev\<lparr>summary := Some data\<rparr>)"

definition poll_error :: "run_phase \<times> string \<Rightarrow> string \<Rightarrow> 'o run_state \<Rightarrow> 'o run_state" where
  "poll_error = (\<lambda>(ph, msg) r. poll_state r (\<lambda>prev. prev\<lparr>phase := ph, runError := Some msg\<rparr>))"

interpretation hydrate: guarded_update
  "\<lambda>(ans, status) r. hydrateRunArtifacts ans r (Some status)" "\<lambda>r (ans, status). names_run owner r ans" owner
  for owner
  by unfold_locales
    (auto simp: hydrateRunArtifacts_def owns_def names_run_def intro: pred_option_or_else split: prod.splits)

interpretation observe: guarded_update hydrate_observability "\<lambda>r ans. names_run owner r ans" owner for owner
  by unfold_locales
    (auto simp: hydrate_observability_def owns_def names_run_def intro: pred_option_or_else)

interpretation polled: guarded_update poll_summary "\<lambda>r data. sumRunId data = r" owner for owner
  by unfold_locales (auto simp: poll_summary_def poll_state_def owns_def)

interpretation polled_error: guarded_update poll_error "\<lambda>r e. True" owner for owner
  by unfold_locales (auto simp: poll_error_def poll_state_def owns_def split: prod.splits)

interpretation decided: guarded_update "\<lambda>data r. decided_state r data" "\<lambda>r data. True" owner for owner
  by unfold_locales (auto simp: decided_state_def owns_def Let_def pred_option_map_same)

section \<open>The views belong to the run\<close>

definition views_ok :: "('o \<Rightarrow> string) \<Rightarrow> 'o run_state \<Rightarrow> bool" where
  "views_ok owner st \<longleftrightarrow> state_owned owner st \<and> pred_option (history_owned owner) (previousRun st)"

lemma setRunState_state [simp]: "runState (setRunState f s) = f (runState s)"
  by (simp add: setRunState_def runPollingEffect_def Let_def split: option.splits)

lemma views_ok_guarded:
  "names_run owner r ans \<Longrightarrow> views_ok owner st \<Longrightarrow> views_ok owner (hydrateRunArtifacts ans r (Some status) st)"
  "names_run owner r ans \<Longrightarrow> views_ok owner st \<Longrightarrow> views_ok owner (hydrate_observability ans r st)"
  "sumRunId data = r \<Longrightarrow> views_ok owner st \<Longrightarrow> views_ok owner (poll_state r (\<lambda>p. p\<lparr>summary := Some data\<rparr>) st)"
  "views_ok owner st \<Longrightarrow>
     views_ok owner (poll_state r (\<lambda>p. p\<lparr>phase := ph, runError := Some msg\<rparr>) st)"
  "views_ok owner st \<Longrightarrow> views_ok owner (decided_state r d st)"
  using hydrate.keeps_owned [of owner r "(ans, status)" st] hydrate.keeps_history [of owner st "(ans, status)" r]
    observe.keeps_owned [of owner r ans st] observe.keeps_history [of owner st ans r]
    polled.keeps_owned [of data r owner st] polled.keeps_history [of owner st data r]
    polled_error.keeps_owned [of owner st "(ph, msg)" r] polled_error.keeps_history [of owner st "(ph, msg)" r]
    decided.keeps_owned [of owner st r d] decided.keeps_history [of owner st r d]
  by (simp_all add: views_ok_def poll_summary_def poll_error_def)

lemma views_ok_globals: "views_ok owner (fetchGlobals ans st) = views_ok owner st"
  by (simp add: views_ok_def state_owned_def owns_def no_views_def fetchGlobals_def split: option.splits)

lemma snapshot_owned:
  "views_ok owner st \<Longrightarrow> pred_option (history_owned owner) (snapshotHistoricalRun st)"
  by (cases "runId st")
    (auto simp: views_ok_def state_owned_def owns_def snapshotHistoricalRun_def history_owned_def artifact_bearing_def)

lemma views_ok_started: "views_ok owner st \<Longrightarrow> views_ok owner (started_state program st)"
  using snapshot_owned [of owner st]
  by (simp add: views_ok_def state_owned_def no_views_def started_state_def initial_run_state_def)

lemma views_ok_setRunState:
  "views_ok owner (f (runState s)) \<Longrightarrow> views_ok owner (runState (setRunState f s))"
  by simp

lemma land_start_views:
  "views_ok owner (runState s) \<Longrightarrow> runId (runState s) = None \<or> requestId \<noteq> activeTransformRequest s \<Longrightarrow>
   views_ok owner (runState (land_start result requestId src s))"
  by (cases result)
    (auto simp: land_start_def Let_def views_ok_def state_owned_def owns_def no_views_def split: option.splits)

lemma land_export_views: "views_ok owner (runState s) \<Longrightarrow> views_ok owner (runState (land_export result r s))"
  by (cases result)
    (simp_all add: land_export_def views_ok_def state_owned_def owns_def no_views_def pred_option_map_same
      split: option.splits)

lemma run_land_views:
  assumes "views_ok owner (runState s)" and "\<And>r. job_run job = Some r \<Longrightarrow> names_run owner r ans"
    and "\<And>i src. job = StartJob i src \<Longrightarrow> runId (runState s) = None \<or> i \<noteq> activeTransformRequest s"
  shows "views_ok owner (runState (run_land H ans job s))"
proof (cases job)
  case (PollJob eff r n)
  have "pred_option (\<lambda>v. sumRunId v = r) (ok_data (ansSummary ans))"
    using assms(2) [of r] PollJob by (simp add: names_run_def)
  then show ?thesis using PollJob assms(1)
    by (cases "ansSummary ans") (auto simp: land_poll_def Let_def views_ok_guarded)
next
  case (DecisionJob r)
  then show ?thesis using assms(1)
    by (cases "ansDecision ans") (simp_all add: land_decision_def views_ok_guarded)
qed (use assms in \<open>simp_all add: land_start_views land_export_views land_cobol_def land_poll_hydrate_def
    land_poll_observe_def land_timer_def Let_def views_ok_guarded\<close>)

lemma run_act_views: "views_ok owner (runState s) \<Longrightarrow> views_ok owner (runState (run_act a s))"
  by (cases a)
    (auto simp: startTransform_def exportParityEvidenceScaffold_def submitIntentionalDivergenceDecision_def
      views_ok_started Let_def split: option.splits)

section \<open>The requests in flight\<close>

definition start_ids :: "run_job list \<Rightarrow> nat list" where
  "start_ids js = concat (map (\<lambda>j. case j of StartJob i _ \<Rightarrow> [i] | _ \<Rightarrow> []) js)"

text \<open>The current request has at most one answer to come, and until then no run is shown.\<close>

definition start_pending :: "'o run_store \<Rightarrow> bool" where
  "start_pending s \<longleftrightarrow>
     distinct (start_ids (runJobs s)) \<and> (\<forall>i\<in>set (start_ids (runJobs s)). i \<le> activeTransformRequest s) \<and>
     (activeTransformRequest s \<in> set (start_ids (runJobs s)) \<longrightarrow> runId (runState s) = None)"

lemma start_ids_simps [simp]:
  "start_ids [] = []" "start_ids (js @ ks) = start_ids js @ start_ids ks"
  "start_ids (StartJob i src # js) = i # start_ids js" "start_ids (CobolJob p q r # js) = start_ids js"
  "start_ids (HydrateJob r st # js) = start_ids js" "start_ids (PollJob e r n # js) = start_ids js"
  "start_ids (PollHydrateJob e r st # js) = start_ids js" "start_ids (PollObserveJob e r n # js) = start_ids js"
  "start_ids (TimerJob e r n # js) = start_ids js" "start_ids (ExportJob r # js) = start_ids js"
  "start_ids (DecisionJob r # js) = start_ids js"
  by (simp_all add: start_ids_def)

lemma start_ids_job: "StartJob i src \<in> set js \<Longrightarrow> i \<in> set (start_ids js)"
  by (induction js) (auto simp: start_ids_def)

lemma start_ids_remove1: "set (start_ids (remove1 j js)) \<subseteq> set (start_ids js)"
  by (induction js) (auto simp: start_ids_def)

lemma start_ids_remove1_distinct:
  "distinct (start_ids js) \<Longrightarrow> distinct (start_ids (remove1 j js))"
proof (induction js)
  case (Cons k js)
  then show ?case using start_ids_remove1 [of j js] by (cases k) auto
qed simp

lemma start_ids_remove1_job:
  "distinct (start_ids js) \<Longrightarrow> StartJob i src \<in> set js \<Longrightarrow> i \<notin> set (start_ids (remove1 (StartJob i src) js))"
proof (induction js)
  case (Cons k js)
  show ?case
  proof (cases "k = StartJob i src")
    case False
    then have "i \<in> set (start_ids js)" using Cons.prems(2) start_ids_job by fastforce
    with False Cons show ?thesis by (cases k) auto
  qed (use Cons.prems in auto)
qed simp

lemma setRunState_fields [simp]:
  "activeTransformRequest (setRunState f s) = activeTransformRequest s"
  "start_ids (runJobs (setRunState f s)) = start_ids (runJobs s)"
  by (auto simp: setRunState_def runPollingEffect_def Let_def split: option.splits)

section \<open>The polling loop\<close>

fun job_effect :: "run_job \<Rightarrow> nat option" where
  "job_effect (PollJob e _ _) = Some e"
| "job_effect (PollHydrateJob e _ _) = Some e"
| "job_effect (PollObserveJob e _ _) = Some e"
| "job_effect (TimerJob e _ _) = Some e"
| "job_effect _ = None"

text \<open>The jobs of the active instance of the polling effect.\<close>

definition live_jobs :: "'o run_store \<Rightarrow> run_job list" where
  "live_jobs s = filter (\<lambda>j. job_effect j = Some (pollEffect s)) (runJobs s)"

definition polled_run :: "'o run_state \<Rightarrow> string list" where
  "polled_run st =
     (case runId st of None \<Rightarrow> [] | Some r \<Rightarrow> if r \<noteq> [] \<and> is_polled st then [r] else [])"

definition effects_past :: "'o run_store \<Rightarrow> bool" where
  "effects_past s \<longleftrightarrow> (\<forall>j\<in>set (runJobs s). pred_option (\<lambda>e. e \<le> pollEffect s) (job_effect j))"

definition polling_ok :: "'o run_store \<Rightarrow> bool" where
  "polling_ok s \<longleftrightarrow>
     effects_past s \<and> map job_run (live_jobs s) = map Some (polled_run (runState s)) \<and>
     currentRunIdRef s = runId (runState s)"

definition effect_key :: "'o run_state \<Rightarrow> string option \<times> run_phase" where
  "effect_key st = (runId st, phase st)"

lemma setRunState_same:
  "effect_key (f (runState s)) = effect_key (runState s) \<Longrightarrow> setRunState f s = s\<lparr>runState := f (runState s)\<rparr>"
  by (simp add: setRunState_def effect_key_def)

lemma polled_run_key: "effect_key st' = effect_key st \<Longrightarrow> polled_run st' = polled_run st"
  by (simp add: effect_key_def polled_run_def is_polled_def split: option.splits)

text \<open>A changed key starts a new instance, whatever the jobs of the old one are.\<close>

lemma polling_changed:
  assumes "effects_past s" and "effect_key (f (runState s)) \<noteq> effect_key (runState s)"
    and "currentRunIdRef s = runId (runState s) \<or> currentRunIdRef s = runId (f (runState s))"
  shows "polling_ok (setRunState f s)"
proof -
  have "filter (\<lambda>j. job_effect j = Some (Suc (pollEffect s))) (runJobs s) = []"
    using assms(1) by (auto simp: effects_past_def filter_empty_conv)
  moreover have "\<forall>j\<in>set (runJobs s). pred_option (\<lambda>e. e \<le> Suc (pollEffect s)) (job_effect j)"
    using assms(1) unfolding effects_past_def
    by (metis (mono_tags, lifting) le_SucI option.pred_mono_strong)
  ultimately show ?thesis using assms(2,3)
    by (auto simp: polling_ok_def setRunState_def runPollingEffect_def effects_past_def live_jobs_def polled_run_def
        effect_key_def Let_def split: option.splits)
qed

lemma polling_setRunState:
  assumes "polling_ok s" shows "polling_ok (setRunState f s)"
proof (cases "effect_key (f (runState s)) = effect_key (runState s)")
  case True
  then show ?thesis using assms polled_run_key [OF True]
    by (simp add: setRunState_same polling_ok_def effects_past_def live_jobs_def effect_key_def)
next
  case False
  then show ?thesis using assms polling_changed by (auto simp: polling_ok_def)
qed

text \<open>Jobs that are not of the polling effect do not matter.\<close>

lemma polling_other_jobs:
  "polling_ok s \<Longrightarrow> \<forall>j\<in>set js. job_effect j = None \<Longrightarrow> polling_ok (s\<lparr>runJobs := runJobs s @ js\<rparr>)"
  by (auto simp: polling_ok_def effects_past_def live_jobs_def)

lemma filter_remove1: "\<not> P x \<Longrightarrow> filter P (remove1 x xs) = filter P xs"
  by (induction xs) auto

lemma filter_remove1_same: "filter P (remove1 x xs) = (if P x then remove1 x (filter P xs) else filter P xs)"
  by (induction xs) auto

lemma polling_remove_dead:
  "polling_ok s \<Longrightarrow> job_effect job \<noteq> Some (pollEffect s) \<Longrightarrow>
   polling_ok (s\<lparr>runJobs := remove1 job (runJobs s)\<rparr>)"
  by (auto simp: polling_ok_def effects_past_def live_jobs_def filter_remove1 dest: notin_set_remove1)

text \<open>Taking the live job out leaves none, and tells which run is polled.\<close>

lemma polling_take_live:
  assumes "polling_ok s" and "job \<in> set (runJobs s)" and "job_effect job = Some (pollEffect s)"
  shows "live_jobs (s\<lparr>runJobs := remove1 job (runJobs s)\<rparr>) = []"
    and "map Some (polled_run (runState s)) = [job_run job]"
    and "effects_past (s\<lparr>runJobs := remove1 job (runJobs s)\<rparr>)"
proof -
  have mem: "job \<in> set (live_jobs s)" using assms(2,3) by (simp add: live_jobs_def)
  have "length (live_jobs s) = length (polled_run (runState s))"
    using assms(1) by (metis length_map polling_ok_def)
  moreover have "length (polled_run (runState s)) \<le> 1" by (simp add: polled_run_def split: option.splits)
  ultimately have "length (live_jobs s) \<le> 1" by simp
  then have one: "live_jobs s = [job]" using mem by (cases "live_jobs s") auto
  then show "map Some (polled_run (runState s)) = [job_run job]"
    using assms(1) by (metis list.simps(8,9) polling_ok_def)
  have "live_jobs (s\<lparr>runJobs := remove1 job (runJobs s)\<rparr>) = remove1 job (live_jobs s)"
    by (simp add: live_jobs_def filter_remove1_same)
  with one show "live_jobs (s\<lparr>runJobs := remove1 job (runJobs s)\<rparr>) = []" by simp
  show "effects_past (s\<lparr>runJobs := remove1 job (runJobs s)\<rparr>)"
    using assms(1) by (auto simp: polling_ok_def effects_past_def dest: notin_set_remove1)
qed

lemma polled_run_single: "map Some (polled_run st) = [x] \<Longrightarrow> is_polled st \<and> runId st = x \<and> x \<noteq> None"
  by (cases "runId st"; cases x) (auto simp: polled_run_def split: if_splits)

lemma polling_put_live:
  "effects_past s \<Longrightarrow> live_jobs s = [] \<Longrightarrow> map Some (polled_run (runState s)) = [job_run j] \<Longrightarrow>
   job_effect j = Some (pollEffect s) \<Longrightarrow> currentRunIdRef s = runId (runState s) \<Longrightarrow>
   polling_ok (s\<lparr>runJobs := runJobs s @ [j]\<rparr>)"
  by (auto simp: polling_ok_def effects_past_def live_jobs_def)

lemma poll_state_key:
  "(\<And>p. effect_key (g p) = effect_key p) \<Longrightarrow> effect_key (poll_state r g st) = effect_key st"
  by (simp add: poll_state_def)

lemma observability_key: "effect_key (hydrate_observability ans r st) = effect_key st"
  by (simp add: hydrate_observability_def effect_key_def)

lemma summary_key: "effect_key (p\<lparr>summary := x\<rparr>) = effect_key p"
  by (simp add: effect_key_def)

lemma hydrated_not_polled: "runId st = Some r \<Longrightarrow> \<not> is_polled (hydrateRunArtifacts ans r status st)"
  by (simp add: hydrateRunArtifacts_def is_polled_def hydrated_phase_def)

lemma polling_land_live:
  assumes ok: "polling_ok s" and job: "job \<in> set (runJobs s)" and live: "job_effect job = Some (pollEffect s)"
  shows "polling_ok (run_land H ans job (s\<lparr>runJobs := remove1 job (runJobs s)\<rparr>))"
proof -
  let ?s = "s\<lparr>runJobs := remove1 job (runJobs s)\<rparr>"
  note taken = polling_take_live [OF ok job live]
  have polled: "is_polled (runState s)" and run: "runId (runState s) = job_run job"
    using polled_run_single [OF taken(2)] by simp_all
  have ref: "currentRunIdRef ?s = runId (runState ?s)" using ok by (simp add: polling_ok_def)
  have put: "polling_ok (?s\<lparr>runJobs := runJobs ?s @ [j]\<rparr>)"
    if "job_effect j = job_effect job" and "job_run j = job_run job" for j
    using polling_put_live [OF taken(3) taken(1), of j] taken(2) that live ref by simp
  have key: "polling_ok (setRunState f ?s)" if "\<not> is_polled (f (runState s))" for f
    using polling_changed [OF taken(3), of f] ref that polled by (auto simp: effect_key_def is_polled_def)
  have put_same: "polling_ok ((setRunState f ?s)\<lparr>runJobs := runJobs (setRunState f ?s) @ [j]\<rparr>)"
    if "job_effect j = job_effect job" and "job_run j = job_run job"
      and k: "effect_key (f (runState s)) = effect_key (runState s)" for f j
  proof -
    have "setRunState f ?s = ?s\<lparr>runState := f (runState s)\<rparr>" using setRunState_same [of f ?s] k by simp
    then show ?thesis using put [OF that(1,2)] polled_run_key [OF k] k
      by (simp add: polling_ok_def effects_past_def live_jobs_def effect_key_def)
  qed
  show ?thesis
  proof (cases job)
    case (PollJob e r n)
    show ?thesis
    proof (cases "ansSummary ans")
      case (ApiOk data)
      then show ?thesis using PollJob live put_same [of _ "poll_state r (\<lambda>p. p\<lparr>summary := Some data\<rparr>)"]
        by (simp add: land_poll_def Let_def poll_state_key summary_key)
    next
      case (ApiFail status msg)
      then show ?thesis using PollJob live run put key
        by (simp add: land_poll_def poll_state_def is_polled_def)
    qed
  next
    case (PollHydrateJob e r status)
    then show ?thesis using live run key by (simp add: land_poll_hydrate_def hydrated_not_polled)
  next
    case (PollObserveJob e r n)
    then show ?thesis using live put_same by (simp add: land_poll_observe_def Let_def observability_key)
  next
    case (TimerJob e r n)
    then show ?thesis using live put by (simp add: land_timer_def)
  qed (use live in simp_all)
qed

lemma land_start_polling:
  assumes "polling_ok s" shows "polling_ok (land_start result requestId src s)"
proof (cases "requestId = activeTransformRequest s")
  case True
  show ?thesis
  proof (cases result)
    case (ApiOk data)
    let ?f = "\<lambda>prev. prev\<lparr>phase := phase_of_status (sumStatus data), runId := Some (sumRunId data),
                orchestratorRunId := sumOrchestratorRunId data, programId := Some (sumProgramId data),
                runError := None, summary := Some data\<rparr>"
    let ?s = "s\<lparr>currentRunIdRef := Some (sumRunId data)\<rparr>"
    have "polling_ok (setRunState ?f ?s)"
    proof (cases "effect_key (?f (runState s)) = effect_key (runState s)")
      case same: True
      then have "?s = s" using assms by (simp add: polling_ok_def effect_key_def)
      then show ?thesis using assms polling_setRunState by metis
    next
      case False
      then show ?thesis using assms polling_changed [of ?s ?f] by (auto simp: polling_ok_def effects_past_def)
    qed
    then show ?thesis using True ApiOk
      by (auto simp: land_start_def Let_def intro!: polling_other_jobs)
  next
    case (ApiFail status msg)
    then show ?thesis using True assms by (simp add: land_start_def polling_setRunState)
  qed
next
  case False
  then show ?thesis using assms by (simp add: land_start_def)
qed

section \<open>The invariant\<close>

definition run_ok :: "'o run_store \<Rightarrow> bool" where
  "run_ok s \<longleftrightarrow> start_pending s \<and> polling_ok s"

lemma run_ok_init: "run_ok run_init"
  by (simp add: run_ok_def run_init_def initial_run_state_def start_pending_def polling_ok_def effects_past_def
      live_jobs_def polled_run_def)

lemma views_ok_init: "views_ok owner (runState run_init)"
  by (simp add: run_init_def views_ok_def state_owned_def no_views_def initial_run_state_def)

lemma run_act_polling: "polling_ok s \<Longrightarrow> polling_ok (run_act a s)"
proof (cases a)
  case (StartRun program src)
  assume ok: "polling_ok s"
  let ?s = "s\<lparr>activeTransformRequest := Suc (activeTransformRequest s), currentRunIdRef := None\<rparr>"
  have none: "runId (started_state program (runState s)) = None"
    by (simp add: started_state_def initial_run_state_def)
  have "polling_ok (setRunState (started_state program) ?s)"
  proof (cases "effect_key (started_state program (runState s)) = effect_key (runState s)")
    case True
    then have "polling_ok ?s" using ok none
      by (simp add: polling_ok_def effects_past_def live_jobs_def effect_key_def)
    then show ?thesis by (rule polling_setRunState)
  next
    case False
    then show ?thesis using ok none polling_changed [of ?s "started_state program"]
      by (simp add: polling_ok_def effects_past_def)
  qed
  then show ?thesis using StartRun
    by (simp add: startTransform_def Let_def polling_ok_def effects_past_def live_jobs_def)
next
  case ExportEvidence
  assume "polling_ok s"
  then show ?thesis using ExportEvidence
    by (auto simp: exportParityEvidenceScaffold_def polling_other_jobs split: option.splits)
next
  case SubmitDecision
  assume "polling_ok s"
  then show ?thesis using SubmitDecision
    by (auto simp: submitIntentionalDivergenceDecision_def polling_ok_def effects_past_def live_jobs_def
        split: option.splits)
qed

lemma polling_decision:
  "polling_ok (s\<lparr>divergenceDecision := d\<rparr>) = polling_ok s" "polling_ok (s\<lparr>divergenceStatus := st\<rparr>) = polling_ok s"
  "polling_ok (s\<lparr>divergenceError := e\<rparr>) = polling_ok s"
  by (simp_all add: polling_ok_def effects_past_def live_jobs_def)

lemma run_land_polling:
  assumes "polling_ok s" and "job \<in> set (runJobs s)"
  shows "polling_ok (run_land H ans job (s\<lparr>runJobs := remove1 job (runJobs s)\<rparr>))"
proof (cases "job_effect job = Some (pollEffect s)")
  case True
  then show ?thesis using assms polling_land_live by metis
next
  case False
  let ?s = "s\<lparr>runJobs := remove1 job (runJobs s)\<rparr>"
  have ok: "polling_ok ?s" using assms(1) False by (rule polling_remove_dead)
  show ?thesis
  proof (cases job)
    case (DecisionJob r)
    then show ?thesis using ok
      by (cases "ansDecision ans") (auto simp: land_decision_def polling_decision intro!: polling_setRunState)
  next
    case (ExportJob r)
    then show ?thesis using ok by (cases "ansExport ans") (simp_all add: land_export_def polling_setRunState)
  next
    case (CobolJob p src r)
    then show ?thesis using ok
      by (simp add: land_cobol_def polling_ok_def effects_past_def live_jobs_def)
  qed (use ok False in \<open>simp_all add: land_start_polling polling_setRunState land_poll_def
      land_poll_hydrate_def land_poll_observe_def land_timer_def\<close>)
qed

text \<open>An update that keeps the run id keeps the requests in flight.\<close>

lemma start_pending_setRunState:
  "start_pending s \<Longrightarrow> runId (f (runState s)) = runId (runState s) \<Longrightarrow> start_pending (setRunState f s)"
  by (simp add: start_pending_def)

lemma guarded_run_ids [simp]:
  "runId (hydrateRunArtifacts ans r status st) = runId st" "runId (hydrate_observability ans r st) = runId st"
  "runId (poll_state r (\<lambda>p. p\<lparr>phase := ph, runError := e\<rparr>) st) = runId st"
  "runId (poll_state r (\<lambda>p. p\<lparr>summary := x\<rparr>) st) = runId st"
  "runId (decided_state r d st) = runId st" "runId (fetchGlobals ans st) = runId st"
  by (simp_all add: hydrateRunArtifacts_def hydrate_observability_def poll_state_def decided_state_def
      fetchGlobals_def Let_def)

lemma start_pending_remove:
  assumes "start_pending s"
  shows "start_pending (s\<lparr>runJobs := remove1 job (runJobs s)\<rparr>)"
  using assms start_ids_remove1 [of job "runJobs s"] start_ids_remove1_distinct [of "runJobs s" job]
  by (auto simp: start_pending_def)

lemma run_land_pending:
  assumes pend: "start_pending s" and job: "job \<in> set (runJobs s)"
  shows "start_pending (run_land H ans job (s\<lparr>runJobs := remove1 job (runJobs s)\<rparr>))"
proof -
  let ?s = "s\<lparr>runJobs := remove1 job (runJobs s)\<rparr>"
  have ok: "start_pending ?s" using pend by (rule start_pending_remove)
  have keep: "start_pending (setRunState f ?s)" if "runId (f (runState s)) = runId (runState s)" for f
    using start_pending_setRunState [OF ok, of f] that by simp
  show ?thesis
  proof (cases job)
    case (StartJob i src)
    have gone: "i \<notin> set (start_ids (runJobs ?s))"
      using pend job StartJob start_ids_remove1_job by (auto simp: start_pending_def)
    show ?thesis
    proof (cases "ansStart ans")
      case (ApiOk data)
      then show ?thesis using ok gone StartJob by (auto simp: land_start_def Let_def start_pending_def)
    next
      case (ApiFail status msg)
      then show ?thesis using ok keep StartJob by (auto simp: land_start_def)
    qed
  next
    case (PollJob e r n)
    then show ?thesis using ok
      by (cases "ansSummary ans") (auto simp: land_poll_def Let_def start_pending_def)
  next
    case (ExportJob r)
    then show ?thesis using ok keep by (cases "ansExport ans") (simp_all add: land_export_def)
  next
    case (DecisionJob r)
    then show ?thesis using ok by (cases "ansDecision ans") (auto simp: land_decision_def start_pending_def)
  qed (use ok keep in \<open>auto simp: land_cobol_def land_poll_hydrate_def land_poll_observe_def land_timer_def Let_def
      start_pending_def\<close>)
qed

lemma run_act_pending: "start_pending s \<Longrightarrow> start_pending (run_act a s)"
  by (cases a)
    (force simp: startTransform_def exportParityEvidenceScaffold_def submitIntentionalDivergenceDecision_def
      start_pending_def started_state_def initial_run_state_def Let_def split: option.splits)+

lemma run_ok_step: "run_step H serves s s' \<Longrightarrow> run_ok s \<Longrightarrow> run_ok s'"
  by (induction rule: run_step.induct)
    (simp_all add: run_ok_def run_act_pending run_act_polling run_land_pending run_land_polling
      start_pending_setRunState polling_setRunState)

lemma run_ok_reachable: "run_reachable H serves s \<Longrightarrow> run_ok s"
  unfolding run_reachable_def
  by (induction rule: rtranclp_induct) (auto intro: run_ok_init run_ok_step)

text \<open>The answer of the current request meets a store that shows no run.\<close>

lemma pending_start_fresh:
  "run_ok s \<Longrightarrow> StartJob i src \<in> set (runJobs s) \<Longrightarrow>
   runId (runState s) = None \<or> i \<noteq> activeTransformRequest s"
  using start_ids_job [of i src "runJobs s"] by (auto simp: run_ok_def start_pending_def)

lemma views_ok_step:
  assumes serves: "\<And>r ans. serves r ans \<Longrightarrow> names_run owner r ans"
    and step: "run_step H serves s s'" and ok: "run_ok s" and views: "views_ok owner (runState s)"
  shows "views_ok owner (runState s')"
  using step
proof (cases rule: run_step.cases)
  case (run_acts a)
  then show ?thesis using views run_act_views by blast
next
  case (run_lands job ans)
  let ?s = "s\<lparr>runJobs := remove1 job (runJobs s)\<rparr>"
  have "views_ok owner (runState (run_land H ans job ?s))"
  proof (rule run_land_views)
    show "runId (runState ?s) = None \<or> i \<noteq> activeTransformRequest ?s" if "job = StartJob i src" for i src
      using ok run_lands(2) that pending_start_fresh by simp
  qed (use views run_lands serves in simp_all)
  then show ?thesis using run_lands by simp
next
  case (run_globals ans)
  then show ?thesis using views by (simp add: views_ok_globals)
qed

lemma views_ok_reachable:
  assumes "\<And>r ans. serves r ans \<Longrightarrow> names_run owner r ans" and "run_reachable H serves s"
  shows "views_ok owner (runState s)"
proof -
  have "run_ok s \<and> views_ok owner (runState s)"
    using assms(2) unfolding run_reachable_def
    by (induction rule: rtranclp_induct)
      (use assms(1) run_ok_init run_ok_step views_ok_init views_ok_step in blast)+
  then show ?thesis ..
qed

end
