(* ===== verification/Run_Properties.thy ===== *)
theory Run_Properties
  imports Run_Facts
begin

text \<open>
  The properties of the run store, with a recorded run of the transition system on which their
  hypotheses hold: one run is started, polled twice and hydrated.
\<close>

section \<open>A recorded run\<close>

definition land_at :: "(string \<Rightarrow> string) \<Rightarrow> 'o run_answers \<Rightarrow> run_job \<Rightarrow> 'o run_store \<Rightarrow> 'o run_store" where
  "land_at H ans job s = run_land H ans job (s\<lparr>runJobs := remove1 job (runJobs s)\<rparr>)"

definition demo_summary :: "run_status \<Rightarrow> run_summary" where
  "demo_summary status =
     \<lparr>sumRunId = ''r1'', sumOrchestratorRunId = Some ''o1'', sumProgramId = ''P'', sumStatus = status,
      sumProductMode = ModeLive, sumMessage = None, sumTrustSummary = None, sumFinal = Some FinalSuccess,
      sumFailureCode = None, sumFailureMessage = None\<rparr>"

definition demo_answers :: "run_status \<Rightarrow> string run_answers" where
  "demo_answers status =
     \<lparr>ansStart = ApiOk (demo_summary StatusStarting), ansSummary = ApiOk (demo_summary status),
      ansGenerated = ApiOk \<lparr>genRunId = ''r1'', genProductMode = ModeLive, genStatus = GenGenerated,
        genUnsupported = None, genMissing = None, genArtifactSha = Some ''a'', genNote = None\<rparr>,
      ansGeneratedFiles = ApiOk \<lparr>filesRunId = ''r1'', filesProductMode = ModeLive, filesComplete = True,
        filesMissing = None, filesNote = None\<rparr>,
      ansBuildTest = ApiOk \<lparr>btRunId = ''r1'', btProductMode = ModeLive, btStatus = BuildOk, btClass = ClassMatch,
        btGeneratedSha = Some ''a'', btNote = None\<rparr>,
      ansEvidence = ApiOk \<lparr>evRunId = ''r1'', evProductMode = ModeLive, evStatus = EvComplete, evMissing = None,
        evGeneratedSha = Some ''a'', evExportRef = None, evNote = None\<rparr>,
      ansProgress = ApiOk ''r1'', ansEvents = ApiOk ''r1'', ansArtifacts = ApiOk ''r1'',
      ansExperience = ApiOk ''r1'', ansWorkflow = ApiFail (Some 404) ''not found'',
      ansExport = ApiOk ''ref'', ansDecision = ApiFail None ''offline'',
      ansGateway = ApiOk ''up'', ansHarness = ApiOk ''up''\<rparr>"

definition demo_polled :: "string run_store" where
  "demo_polled =
     land_at id (demo_answers StatusUpdating) (TimerJob 2 ''r1'' 0)
       (land_at id (demo_answers StatusUpdating) (PollObserveJob 2 ''r1'' 0)
         (land_at id (demo_answers StatusUpdating) (PollJob 2 ''r1'' 0)
           (land_at id (demo_answers StatusUpdating) (StartJob 1 ''src'')
             (run_act (StartRun (Some ''P'') ''src'') run_init))))"

definition demo_done :: "string run_store" where
  "demo_done =
     land_at id (demo_answers StatusCompleted) (PollHydrateJob 2 ''r1'' StatusCompleted)
       (land_at id (demo_answers StatusCompleted) (PollJob 2 ''r1'' 0) demo_polled)"

lemma reachable_init: "run_reachable H serves run_init"
  by (simp add: run_reachable_def)

lemma reachable_act: "run_reachable H serves s \<Longrightarrow> run_reachable H serves (run_act a s)"
  unfolding run_reachable_def by (blast intro: rtranclp.rtrancl_into_rtrancl run_acts)

lemma reachable_land:
  "job \<in> set (runJobs s) \<Longrightarrow> (\<And>r. job_run job = Some r \<Longrightarrow> serves r ans) \<Longrightarrow> run_reachable H serves s \<Longrightarrow>
   run_reachable H serves (land_at H ans job s)"
  unfolding run_reachable_def land_at_def by (blast intro: rtranclp.rtrancl_into_rtrancl run_lands)

lemma demo_names: "names_run id ''r1'' (demo_answers status)"
  by (simp add: names_run_def demo_answers_def demo_summary_def)

lemma demo_polled_reachable: "run_reachable id (names_run id) demo_polled"
  unfolding demo_polled_def
  by (intro reachable_land reachable_act reachable_init; (simp add: demo_names)?; code_simp)

lemma demo_done_reachable: "run_reachable id (names_run id) demo_done"
  unfolding demo_done_def
  by (intro reachable_land demo_polled_reachable; (simp add: demo_names)?; code_simp)

section \<open>Views\<close>

text \<open>
  C14: when the backend answers a question about a run with views of that run, then in every
  interleaving of starts, polls, hydrations, exports and decisions all views in the store are about
  the run that is shown (none when no run is shown), and the preserved previous run has an artifact
  and only views of its own.
\<close>

theorem views_belong_to_run:
  assumes "\<And>r ans. serves r ans \<Longrightarrow> names_run owner r ans" and "run_reachable H serves s"
  shows "state_owned owner (runState s) \<and> pred_option (history_owned owner) (previousRun (runState s))"
  using views_ok_reachable [OF assms] by (simp add: views_ok_def)

theorem views_belong_to_run_witness:
  "state_owned id (runState demo_done) \<and> generated (runState demo_done) \<noteq> None"
proof
  show "state_owned id (runState demo_done)"
    using views_belong_to_run [of "names_run id" id id demo_done] demo_done_reachable by simp
  show "generated (runState demo_done) \<noteq> None" by code_simp
qed

text \<open>
  C15: a success verdict rests on one run.  In every interleaving, a store whose product state is
  success shows a run, and the generated files, the build and test result and the evidence it was
  derived from are present, are all about that run, and report success; the classification is the
  backend's own.
\<close>

theorem success_rests_on_one_run:
  assumes "\<And>r ans. serves r ans \<Longrightarrow> names_run owner r ans" and "run_reachable H serves s"
    and "pState (deriveProductState (runState s)) = PSuccess"
  shows "\<exists>r g b e. runId (runState s) = Some r \<and> generated (runState s) = Some g \<and> genRunId g = r \<and>
    buildTest (runState s) = Some b \<and> btRunId b = r \<and> btStatus b = BuildOk \<and>
    evidence (runState s) = Some e \<and> evRunId e = r \<and> evStatus e = EvComplete \<and>
    collectHashMismatches (runState s) = [] \<and> derive_finalClassification (runState s) = Some FinalSuccess"
proof -
  have owned: "state_owned owner (runState s)"
    using views_ok_reachable [OF assms(1,2)] by (simp add: views_ok_def)
  show ?thesis
    using derive_success_artifacts [OF assms(3)] owned
    by (cases "runId (runState s)")
      (auto simp: artifacts_complete_def build_agrees_def evidence_agrees_def state_owned_def no_views_def owns_def
        split: option.splits)
qed

theorem success_rests_on_one_run_witness:
  "\<exists>r. runId (runState demo_done) = Some r \<and> pState (deriveProductState (runState demo_done)) = PSuccess"
proof -
  have st: "pState (deriveProductState (runState demo_done)) = PSuccess" by code_simp
  show ?thesis using success_rests_on_one_run [of "names_run id" id id demo_done] demo_done_reachable st by auto
qed

section \<open>Polling\<close>

text \<open>
  C16: in every interleaving the polling effect is never lost and never doubled: a shown run that is
  starting or running is polled by exactly one live loop, which asks for that run, and a run that is
  over, failed or unavailable is not polled at all.
\<close>

theorem one_poll_loop:
  assumes "run_reachable H serves s"
  shows "map job_run (live_jobs s) = map Some (polled_run (runState s))"
  using run_ok_reachable [OF assms] by (simp add: run_ok_def polling_ok_def)

theorem one_poll_loop_witness:
  "map job_run (live_jobs demo_polled) = [Some ''r1''] \<and> map job_run (live_jobs demo_done) = []"
proof -
  have "polled_run (runState demo_polled) = [''r1'']" "polled_run (runState demo_done) = []" by code_simp+
  then show ?thesis
    using one_poll_loop [OF demo_polled_reachable] one_poll_loop [OF demo_done_reachable] by simp
qed

text \<open>Failing turns: the answer of \<open>getRun\<close> is a failure, and the timer of the next turn runs out.\<close>

definition failing_turn :: "nat \<Rightarrow> string \<Rightarrow> nat \<Rightarrow> nat option \<times> string \<Rightarrow> 'o run_store \<Rightarrow> 'o run_store" where
  "failing_turn eff r n = (\<lambda>(status, msg) s.
     let s1 = land_poll (ApiFail status msg) eff r n (s\<lparr>runJobs := remove1 (PollJob eff r n) (runJobs s)\<rparr>)
     in if TimerJob eff r (Suc n) \<in> set (runJobs s1)
        then land_timer eff r (Suc n) (s1\<lparr>runJobs := remove1 (TimerJob eff r (Suc n)) (runJobs s1)\<rparr>) else s1)"

fun failing_turns :: "nat \<Rightarrow> string \<Rightarrow> nat \<Rightarrow> (nat option \<times> string) list \<Rightarrow> 'o run_store \<Rightarrow> 'o run_store" where
  "failing_turns eff r n [] s = s"
| "failing_turns eff r n (f # fs) s = failing_turns eff r (Suc n) fs (failing_turn eff r n f s)"

lemma live_remove1: "job_effect j = Some (pollEffect s) \<Longrightarrow>
   live_jobs (s\<lparr>runJobs := remove1 j (runJobs s)\<rparr>) = remove1 j (live_jobs s)"
  by (simp add: live_jobs_def filter_remove1_same)

lemma live_add: "job_effect j = Some (pollEffect s) \<Longrightarrow>
   live_jobs (s\<lparr>runJobs := runJobs s @ [j]\<rparr>) = live_jobs s @ [j]"
  by (simp add: live_jobs_def)

lemma failing_turn_continues:
  assumes "live_jobs s = [PollJob (pollEffect s) r n]" and "Suc n \<le> MAX_ERRORS" and "status \<noteq> Some 503"
  shows "live_jobs (failing_turn (pollEffect s) r n (status, msg) s) = [PollJob (pollEffect s) r (Suc n)]"
    and "runState (failing_turn (pollEffect s) r n (status, msg) s) = runState s"
    and "pollEffect (failing_turn (pollEffect s) r n (status, msg) s) = pollEffect s"
proof -
  let ?s = "s\<lparr>runJobs := remove1 (PollJob (pollEffect s) r n) (runJobs s)\<rparr>"
  have empty: "live_jobs ?s = []" using assms(1) by (simp add: live_remove1)
  then have "\<forall>j\<in>set (runJobs ?s). job_effect j \<noteq> Some (pollEffect s)"
    by (simp add: live_jobs_def filter_empty_conv)
  then have "TimerJob (pollEffect s) r (Suc n) \<notin> set (runJobs ?s)" by (metis job_effect.simps(4))
  then have "failing_turn (pollEffect s) r n (status, msg) s =
      ?s\<lparr>runJobs := runJobs ?s @ [PollJob (pollEffect s) r (Suc n)]\<rparr>"
    using assms(2,3) by (simp add: failing_turn_def land_poll_def land_timer_def remove1_append)
  then show "live_jobs (failing_turn (pollEffect s) r n (status, msg) s) = [PollJob (pollEffect s) r (Suc n)]"
    "runState (failing_turn (pollEffect s) r n (status, msg) s) = runState s"
    "pollEffect (failing_turn (pollEffect s) r n (status, msg) s) = pollEffect s"
    using empty live_add [of "PollJob (pollEffect s) r (Suc n)" ?s] by simp_all
qed

lemma failing_turns_continue:
  "live_jobs s = [PollJob (pollEffect s) r n] \<Longrightarrow> n + length fs \<le> MAX_ERRORS \<Longrightarrow>
   Some 503 \<notin> fst ` set fs \<Longrightarrow>
   live_jobs (failing_turns (pollEffect s) r n fs s) = [PollJob (pollEffect s) r (n + length fs)] \<and>
   runState (failing_turns (pollEffect s) r n fs s) = runState s \<and>
   pollEffect (failing_turns (pollEffect s) r n fs s) = pollEffect s"
proof (induction fs arbitrary: n s)
  case (Cons f fs)
  obtain status msg where f: "f = (status, msg)" by (cases f)
  have "Suc n \<le> MAX_ERRORS" "status \<noteq> Some 503" using Cons.prems f by auto
  note turn = failing_turn_continues [OF Cons.prems(1) this, of msg]
  show ?case
    using Cons.IH [of "failing_turn (pollEffect s) r n f s" "Suc n"] Cons.prems(2,3) turn by (simp add: f)
qed simp

lemma failing_turn_gives_up:
  assumes "live_jobs s = [PollJob (pollEffect s) r MAX_ERRORS]" and "runId (runState s) = Some r"
    and "fst f \<noteq> Some 503"
  shows "phase (runState (failing_turn (pollEffect s) r MAX_ERRORS f s)) = Failed"
    and "runError (runState (failing_turn (pollEffect s) r MAX_ERRORS f s)) = Some (snd f)"
  using assms(2,3)
  by (auto simp: failing_turn_def land_poll_def land_timer_def Let_def poll_state_def split: prod.splits)

lemma failing_turns_append:
  "failing_turns eff r n (fs @ [f]) s = failing_turn eff r (n + length fs) f (failing_turns eff r n fs s)"
  by (induction fs arbitrary: n s) simp_all

text \<open>
  Polling gives up after six failures in a row and not before.  From a live loop without
  failures, at most five failing turns (other than 503) leave the run as it is, with the loop live
  and the failures counted; the sixth marks the run failed with the message of that failure.
\<close>

lemma polling_gives_up_at_six:
  assumes "run_reachable H serves s" and "live_jobs s = [PollJob (pollEffect s) r 0]"
    and "Some 503 \<notin> fst ` set (fs @ [f])"
  shows "(length fs \<le> 5 \<longrightarrow>
      runState (failing_turns (pollEffect s) r 0 fs s) = runState s \<and>
      live_jobs (failing_turns (pollEffect s) r 0 fs s) = [PollJob (pollEffect s) r (length fs)]) \<and>
    (length fs = 5 \<longrightarrow>
      phase (runState (failing_turns (pollEffect s) r 0 (fs @ [f]) s)) = Failed \<and>
      runError (runState (failing_turns (pollEffect s) r 0 (fs @ [f]) s)) = Some (snd f))"
proof -
  have run: "runId (runState s) = Some r"
  proof -
    have "map Some (polled_run (runState s)) = [Some r]"
      using run_ok_reachable [OF assms(1)] assms(2) by (simp add: run_ok_def polling_ok_def)
    then show ?thesis using polled_run_single by metis
  qed
  let ?t = "failing_turns (pollEffect s) r 0 fs s"
  have go_on: "live_jobs ?t = [PollJob (pollEffect s) r (length fs)] \<and> runState ?t = runState s \<and>
      pollEffect ?t = pollEffect s" if "length fs \<le> 5"
    using failing_turns_continue [OF assms(2), of fs] assms(3) that by (simp add: MAX_ERRORS_def)
  moreover have "phase (runState (failing_turns (pollEffect s) r 0 (fs @ [f]) s)) = Failed \<and>
      runError (runState (failing_turns (pollEffect s) r 0 (fs @ [f]) s)) = Some (snd f)" if "length fs = 5"
  proof -
    have "fst f \<noteq> Some 503" using assms(3) by auto
    then show ?thesis using failing_turn_gives_up [of ?t r f] go_on run that
      by (simp add: failing_turns_append MAX_ERRORS_def)
  qed
  ultimately show ?thesis by simp
qed

theorem polling_gives_up_at_six_witness:
  "phase (runState (failing_turns 2 ''r1'' 0 (replicate 6 (Some 500, ''boom'')) demo_polled)) = Failed"
proof -
  have live: "live_jobs demo_polled = [PollJob (pollEffect demo_polled) ''r1'' 0]"
    and eff: "pollEffect demo_polled = 2" by code_simp+
  have "replicate 6 (Some (500::nat), ''boom'') = replicate 5 (Some 500, ''boom'') @ [(Some 500, ''boom'')]"
    by (simp add: replicate_app_Cons_same [symmetric] numeral_eq_Suc)
  then show ?thesis
    using polling_gives_up_at_six [OF demo_polled_reachable live, of "replicate 5 (Some 500, ''boom'')"
        "(Some 500, ''boom'')"] by (simp add: eff)
qed

section \<open>The run that is shown\<close>

text \<open>The run id changes in two ways only.\<close>

lemma run_id_setRunState: "runId (runState (setRunState f s)) = runId (f (runState s))"
  by simp

lemma run_land_runId:
  "runId (runState (run_land H ans job s)) = runId (runState s) \<and>
   previousRun (runState (run_land H ans job s)) = previousRun (runState s) \<or>
   (\<exists>src data. job = StartJob (activeTransformRequest s) src \<and> ansStart ans = ApiOk data \<and>
      runId (runState (run_land H ans job s)) = Some (sumRunId data) \<and>
      summary (runState (run_land H ans job s)) = Some data \<and>
      previousRun (runState (run_land H ans job s)) = previousRun (runState s))"
proof (cases job)
  case (StartJob i src)
  then show ?thesis by (cases "ansStart ans") (simp_all add: land_start_def Let_def)
next
  case (PollJob e r n)
  then show ?thesis
    by (cases "ansSummary ans") (simp_all add: land_poll_def Let_def poll_state_def)
next
  case (ExportJob r)
  then show ?thesis by (cases "ansExport ans") (simp_all add: land_export_def)
next
  case (DecisionJob r)
  then show ?thesis
    by (cases "ansDecision ans") (simp_all add: land_decision_def decided_state_def Let_def)
qed (simp_all add: land_cobol_def land_poll_hydrate_def land_poll_observe_def land_timer_def Let_def
    hydrateRunArtifacts_def hydrate_observability_def)

lemma run_act_start:
  "run_act (StartRun program src) s = s' \<Longrightarrow>
   runState s' = started_state program (runState s) \<and>
   activeTransformRequest s' = Suc (activeTransformRequest s)"
  by (auto simp: startTransform_def Let_def)

lemma run_act_other: "a \<noteq> StartRun program src \<Longrightarrow> (\<nexists>p q. a = StartRun p q) \<Longrightarrow> runState (run_act a s) = runState s"
  by (cases a) (auto simp: exportParityEvidenceScaffold_def submitIntentionalDivergenceDecision_def split: option.splits)

lemma started_state_facts:
  "phase (started_state p st) = Starting" "no_views (started_state p st)" "runId (started_state p st) = None"
  "previousRun (started_state p st) = snapshotHistoricalRun st"
  by (simp_all add: started_state_def initial_run_state_def no_views_def)

text \<open>A step starts a run, or shows the run of the latest request, or keeps the run.\<close>

lemma run_step_cases:
  assumes ok: "run_ok s" and step: "run_step H serves s s'"
  shows "(\<exists>p. runState s' = started_state p (runState s) \<and>
             activeTransformRequest s' = Suc (activeTransformRequest s)) \<or>
         runId (runState s) = None \<and>
           (\<exists>src data. StartJob (activeTransformRequest s) src \<in> set (runJobs s) \<and>
             runId (runState s') = Some (sumRunId data) \<and> summary (runState s') = Some data \<and>
             previousRun (runState s') = previousRun (runState s)) \<or>
         runId (runState s') = runId (runState s) \<and> previousRun (runState s') = previousRun (runState s)"
  using step
proof (cases rule: run_step.cases)
  case (run_acts a)
  show ?thesis
  proof (cases "\<exists>p q. a = StartRun p q")
    case True
    then show ?thesis using run_acts run_act_start by metis
  next
    case False
    then have "runState s' = runState s" using run_acts run_act_other by metis
    then show ?thesis by simp
  qed
next
  case (run_lands job ans)
  then show ?thesis
    using run_land_runId [of H ans job "s\<lparr>runJobs := remove1 job (runJobs s)\<rparr>"] pending_start_fresh [OF ok]
    by auto
next
  case (run_globals ans)
  then show ?thesis by (simp add: fetchGlobals_def)
qed

text \<open>
  The run that is shown changes in two ways only.  In every interleaving, a step that changes
  it either starts a new run, which shows no run and no views, or lands the answer of the latest
  request in a store that showed no run.  The answer of a superseded request never shows its run.
\<close>

lemma shown_run_changes_only_by_request:
  assumes "run_reachable H serves s" and "run_step H serves s s'"
    and "runId (runState s') \<noteq> runId (runState s)"
  shows "(runId (runState s') = None \<and> phase (runState s') = Starting \<and> no_views (runState s') \<and>
            activeTransformRequest s' = Suc (activeTransformRequest s)) \<or>
         (runId (runState s) = None \<and>
          (\<exists>src data. StartJob (activeTransformRequest s) src \<in> set (runJobs s) \<and>
             runId (runState s') = Some (sumRunId data) \<and> summary (runState s') = Some data))"
  using run_step_cases [OF run_ok_reachable [OF assms(1)] assms(2)] assms(3)
  by (auto simp: started_state_facts)

theorem shown_run_changes_only_by_request_witness:
  "runId (runState (run_act (StartRun None ''x'') demo_done)) = None \<and>
   phase (runState (run_act (StartRun None ''x'') demo_done)) = Starting"
proof -
  have "runId (runState demo_done) = Some ''r1''" by code_simp
  moreover have "runId (runState (run_act (StartRun None ''x'') demo_done)) = None" by code_simp
  ultimately show ?thesis
    using shown_run_changes_only_by_request [OF demo_done_reachable run_acts, of "StartRun None ''x''"] by simp
qed

text \<open>
  A restart never loses artifacts.  Whatever step is taken from a store that shows a run with
  an artifact, that run stays shown, or the previous run preserves it: its id, phase and all its
  views are the ones that were shown.
\<close>

lemma artifacts_survive_a_restart:
  assumes "run_reachable H serves s" and "run_step H serves s s'"
    and "runId (runState s) = Some r" and "r \<noteq> []" and "artifact_bearing (runState s)"
  shows "runId (runState s') = Some r \<and> previousRun (runState s') = previousRun (runState s) \<or>
    (\<exists>h. previousRun (runState s') = Some h \<and> histRunId h = r \<and> histPhase h = phase (runState s) \<and>
      histSummary h = summary (runState s) \<and> histGenerated h = generated (runState s) \<and>
      histGeneratedFiles h = generatedFiles (runState s) \<and> histBuildTest h = buildTest (runState s) \<and>
      histEvidence h = evidence (runState s) \<and> histWorkflow h = workflow (runState s))"
  using run_step_cases [OF run_ok_reachable [OF assms(1)] assms(2)] assms(3,4,5)
  by (auto simp: started_state_facts snapshotHistoricalRun_def)

theorem artifacts_survive_a_restart_witness:
  "map_option histRunId (previousRun (runState (run_act (StartRun None ''x'') demo_done))) = Some ''r1''"
proof -
  have "runId (runState demo_done) = Some ''r1''" "artifact_bearing (runState demo_done)"
    "runId (runState (run_act (StartRun None ''x'') demo_done)) = None" by code_simp+
  then show ?thesis
    using artifacts_survive_a_restart [OF demo_done_reachable run_acts, of "''r1''" "StartRun None ''x''"] by auto
qed

end
