(* ===== verification/Repair_Session.thy ===== *)
theory Repair_Session
  imports Run_State
begin

text \<open>
  The manual compile repair session of \<open>stores/transformationRun.tsx\<close>: preview, diagnosis, sandboxed
  application, acceptance and rejection of a repair, as a transition system over actions and
  landings.  The callbacks see the session that is rendered, which is the current one.  The calls
  sent to the backend and the projects handed to the Java buffers are kept as logs.
\<close>

section \<open>Data\<close>

datatype repair_status =
  RepIdle | Previewing | PreviewReady | RepLoading | RepReady | Applying | SandboxReady | Accepting
| Rejecting | RepError

record repair_preview =
  previewId :: string
  previewRunId :: string

record repair_proposal =
  proposalId :: string
  proposalRunId :: string
  patchSha256 :: "string option"

record candidate_project =
  candEntryClass :: "string option"
  candEntryFilePath :: "string option"
  candFiles :: "(string \<times> string) list"

record 'd repair_session =
  repStatus :: repair_status
  repRunId :: "string option"
  repPreview :: "repair_preview option"
  repEntryFilePath :: "string option"
  repEntryClass :: "string option"
  repDiagnosis :: "'d option"
  repProposal :: "repair_proposal option"
  repCandidate :: "candidate_project option"
  repBuildTest :: "build_test_view option"
  repError :: "string option"

text \<open>The answers: \<open>diagnose\<close> may find no proposal; \<open>apply\<close> and \<open>accept\<close> have the same fields.\<close>

record preview_response =
  prRunId :: string
  prPreview :: repair_preview

record 'd diagnose_response =
  drRunId :: string
  drDiagnosis :: 'd
  drProposal :: "repair_proposal option"
  drCandidate :: candidate_project
  drBuildTest :: build_test_view

record apply_response =
  arRunId :: string
  arProposal :: repair_proposal
  arCandidate :: candidate_project
  arBuildTest :: build_test_view

datatype repair_call =
  CallPreview string
| CallDiagnose string string
| CallApply string string string string
| CallAccept string string string
| CallReject string string

datatype repair_job =
  PreviewJob nat string "string option"
| DiagnoseJob nat
| ApplyJob
| AcceptJob
| RejectJob

record ('d, 'v) repair_store =
  repSession :: "'d repair_session option"
  repRequest :: nat
  repJobs :: "(repair_job \<times> repair_call) list"
  repCalls :: "repair_call list"
  repAccepted :: "(candidate_project \<times> string) list"
  latestVerifyResult :: "'v option"

section \<open>Operations\<close>

definition empty_session :: "repair_status \<Rightarrow> string \<Rightarrow> 'd repair_session" where
  "empty_session st r =
     \<lparr>repStatus = st, repRunId = Some r, repPreview = None, repEntryFilePath = None, repEntryClass = None,
      repDiagnosis = None, repProposal = None, repCandidate = None, repBuildTest = None, repError = None\<rparr>"

definition send :: "repair_job \<Rightarrow> repair_call \<Rightarrow> ('d, 'v) repair_store \<Rightarrow> ('d, 'v) repair_store" where
  "send job call s = s\<lparr>repJobs := repJobs s @ [(job, call)], repCalls := repCalls s @ [call]\<rparr>"

definition update_session ::
  "('d repair_session \<Rightarrow> 'd repair_session) \<Rightarrow> ('d, 'v) repair_store \<Rightarrow> ('d, 'v) repair_store" where
  "update_session f s = s\<lparr>repSession := map_option f (repSession s)\<rparr>"

definition clearManualCompileRepair :: "('d, 'v) repair_store \<Rightarrow> ('d, 'v) repair_store" where
  "clearManualCompileRepair s = s\<lparr>repSession := None\<rparr>"

definition startManualCompileRepairPreview ::
  "string \<Rightarrow> string \<Rightarrow> string option \<Rightarrow> ('d, 'v) repair_store \<Rightarrow> ('d, 'v) repair_store" where
  "startManualCompileRepairPreview r entryFile entryClass s =
     send (PreviewJob (Suc (repRequest s)) entryFile entryClass) (CallPreview r)
       (s\<lparr>repRequest := Suc (repRequest s),
          repSession := Some ((empty_session Previewing r)
            \<lparr>repEntryFilePath := Some entryFile, repEntryClass := entryClass\<rparr>)\<rparr>)"

definition failed_session :: "string \<Rightarrow> ('d, 'v) repair_store \<Rightarrow> ('d, 'v) repair_store" where
  "failed_session msg = update_session (\<lambda>prev. prev\<lparr>repStatus := RepError, repError := Some msg\<rparr>)"

definition land_preview ::
  "preview_response api_result \<Rightarrow> nat \<Rightarrow> string \<Rightarrow> string option \<Rightarrow> ('d, 'v) repair_store \<Rightarrow> ('d, 'v) repair_store"
  where
  "land_preview result requestId entryFile entryClass s =
     (if requestId \<noteq> repRequest s then s
      else case result of
        ApiFail _ msg \<Rightarrow> failed_session msg s
      | ApiOk data \<Rightarrow>
          s\<lparr>repSession := Some ((empty_session PreviewReady (prRunId data))
              \<lparr>repPreview := Some (prPreview data), repEntryFilePath := Some entryFile,
               repEntryClass := entryClass\<rparr>)\<rparr>)"

definition startManualCompileRepairDiagnose ::
  "string \<Rightarrow> string \<Rightarrow> ('d, 'v) repair_store \<Rightarrow> ('d, 'v) repair_store" where
  "startManualCompileRepairDiagnose r preview s =
     send (DiagnoseJob (Suc (repRequest s))) (CallDiagnose r preview)
       (s\<lparr>repRequest := Suc (repRequest s),
          repSession := (case repSession s of
             Some prev \<Rightarrow> Some (prev\<lparr>repStatus := RepLoading, repError := None\<rparr>)
           | None \<Rightarrow> Some (empty_session RepLoading r))\<rparr>)"

definition land_diagnose ::
  "'d diagnose_response api_result \<Rightarrow> nat \<Rightarrow> ('d, 'v) repair_store \<Rightarrow> ('d, 'v) repair_store" where
  "land_diagnose result requestId s =
     (if requestId \<noteq> repRequest s then s
      else case result of
        ApiFail _ msg \<Rightarrow> failed_session msg s
      | ApiOk data \<Rightarrow>
          s\<lparr>repSession := Some
              \<lparr>repStatus = RepReady, repRunId = Some (drRunId data),
               repPreview = Option.bind (repSession s) repPreview,
               repEntryFilePath = candEntryFilePath (drCandidate data),
               repEntryClass = candEntryClass (drCandidate data), repDiagnosis = Some (drDiagnosis data),
               repProposal = drProposal data, repCandidate = Some (drCandidate data),
               repBuildTest = Some (drBuildTest data), repError = None\<rparr>\<rparr>)"

text \<open>A run id that is empty counts as absent.\<close>

definition session_run :: "'d repair_session \<Rightarrow> string option" where
  "session_run x = (if repRunId x = Some [] then None else repRunId x)"

definition start_op ::
  "repair_status \<Rightarrow> repair_job \<Rightarrow> repair_call \<Rightarrow> ('d, 'v) repair_store \<Rightarrow> ('d, 'v) repair_store" where
  "start_op st job call s =
     send job call (update_session (\<lambda>prev. prev\<lparr>repStatus := st, repError := None\<rparr>) s)"

definition applyManualCompileRepair :: "('d, 'v) repair_store \<Rightarrow> ('d, 'v) repair_store" where
  "applyManualCompileRepair s =
     (case repSession s of
        None \<Rightarrow> s
      | Some x \<Rightarrow>
          (case (repStatus x, repProposal x, session_run x, repPreview x) of
             (RepReady, Some proposal, Some r, Some preview) \<Rightarrow>
               start_op Applying ApplyJob
                 (CallApply r (previewId preview) (proposalId proposal) (or_default (patchSha256 proposal) [])) s
           | _ \<Rightarrow> s))"

definition land_apply :: "apply_response api_result \<Rightarrow> ('d, 'v) repair_store \<Rightarrow> ('d, 'v) repair_store" where
  "land_apply result s =
     (case result of
        ApiFail _ msg \<Rightarrow> failed_session msg s
      | ApiOk data \<Rightarrow>
          update_session (\<lambda>prev. prev\<lparr>repStatus := SandboxReady, repProposal := Some (arProposal data),
            repCandidate := Some (arCandidate data), repBuildTest := Some (arBuildTest data),
            repError := None\<rparr>) s)"

definition acceptManualCompileRepair :: "('d, 'v) repair_store \<Rightarrow> ('d, 'v) repair_store" where
  "acceptManualCompileRepair s =
     (case repSession s of
        None \<Rightarrow> s
      | Some x \<Rightarrow>
          (case (repStatus x, repProposal x, repCandidate x, session_run x) of
             (SandboxReady, Some proposal, Some _, Some r) \<Rightarrow>
               start_op Accepting AcceptJob
                 (CallAccept r (proposalId proposal) (or_default (patchSha256 proposal) [])) s
           | _ \<Rightarrow> s))"

definition land_accept :: "apply_response api_result \<Rightarrow> ('d, 'v) repair_store \<Rightarrow> ('d, 'v) repair_store" where
  "land_accept result s =
     (case result of
        ApiFail _ msg \<Rightarrow> failed_session msg s
      | ApiOk data \<Rightarrow>
          s\<lparr>repAccepted := repAccepted s @ [(arCandidate data, arRunId data)],
            latestVerifyResult := None, repSession := None\<rparr>)"

definition rejectManualCompileRepair :: "('d, 'v) repair_store \<Rightarrow> ('d, 'v) repair_store" where
  "rejectManualCompileRepair s =
     (case repSession s of
        None \<Rightarrow> s
      | Some x \<Rightarrow>
          (case (repProposal x, session_run x) of
             (Some proposal, Some r) \<Rightarrow> start_op Rejecting RejectJob (CallReject r (proposalId proposal)) s
           | _ \<Rightarrow> s))"

definition land_reject :: "unit api_result \<Rightarrow> ('d, 'v) repair_store \<Rightarrow> ('d, 'v) repair_store" where
  "land_reject result s =
     (case result of ApiFail _ msg \<Rightarrow> failed_session msg s | ApiOk _ \<Rightarrow> s\<lparr>repSession := None\<rparr>)"

text \<open>The answer of \<open>startVerify\<close>.\<close>

definition land_verify :: "'v api_result \<Rightarrow> ('d, 'v) repair_store \<Rightarrow> ('d, 'v) repair_store" where
  "land_verify result s =
     (case result of ApiFail _ _ \<Rightarrow> s | ApiOk data \<Rightarrow> s\<lparr>latestVerifyResult := Some data\<rparr>)"

section \<open>The transition system\<close>

datatype repair_action =
  DoPreview string string "string option"
| DoDiagnose string string
| DoApply
| DoAccept
| DoReject
| DoClear

fun repair_act :: "repair_action \<Rightarrow> ('d, 'v) repair_store \<Rightarrow> ('d, 'v) repair_store" where
  "repair_act (DoPreview r f c) s = startManualCompileRepairPreview r f c s"
| "repair_act (DoDiagnose r p) s = startManualCompileRepairDiagnose r p s"
| "repair_act DoApply s = applyManualCompileRepair s"
| "repair_act DoAccept s = acceptManualCompileRepair s"
| "repair_act DoReject s = rejectManualCompileRepair s"
| "repair_act DoClear s = clearManualCompileRepair s"

record 'd repair_answers =
  ansPreview :: "preview_response api_result"
  ansDiagnose :: "'d diagnose_response api_result"
  ansApply :: "apply_response api_result"
  ansAccept :: "apply_response api_result"
  ansReject :: "unit api_result"

fun repair_land :: "'d repair_answers \<Rightarrow> repair_job \<Rightarrow> ('d, 'v) repair_store \<Rightarrow> ('d, 'v) repair_store" where
  "repair_land ans (PreviewJob i f c) s = land_preview (ansPreview ans) i f c s"
| "repair_land ans (DiagnoseJob i) s = land_diagnose (ansDiagnose ans) i s"
| "repair_land ans ApplyJob s = land_apply (ansApply ans) s"
| "repair_land ans AcceptJob s = land_accept (ansAccept ans) s"
| "repair_land ans RejectJob s = land_reject (ansReject ans) s"

definition repair_init :: "('d, 'v) repair_store" where
  "repair_init = \<lparr>repSession = None, repRequest = 0, repJobs = [], repCalls = [], repAccepted = [],
     latestVerifyResult = None\<rparr>"

text \<open>
  \<open>answers call ans\<close> says what the backend may answer to a call.  With \<open>overlap\<close> the user may act
  while a call is in flight; without it only when none is.
\<close>

inductive repair_step ::
  "bool \<Rightarrow> (repair_call \<Rightarrow> 'd repair_answers \<Rightarrow> bool) \<Rightarrow> ('d, 'v) repair_store \<Rightarrow> ('d, 'v) repair_store \<Rightarrow> bool"
  for overlap answers where
  repair_acts: "overlap \<or> repJobs s = [] \<Longrightarrow> repair_step overlap answers s (repair_act a s)"
| repair_lands: "(job, call) \<in> set (repJobs s) \<Longrightarrow> answers call ans \<Longrightarrow>
    repair_step overlap answers s (repair_land ans job (s\<lparr>repJobs := remove1 (job, call) (repJobs s)\<rparr>))"
| verify_lands: "repair_step overlap answers s (land_verify result s)"

definition repair_reachable ::
  "bool \<Rightarrow> (repair_call \<Rightarrow> 'd repair_answers \<Rightarrow> bool) \<Rightarrow> ('d, 'v) repair_store \<Rightarrow> bool" where
  "repair_reachable overlap answers s \<longleftrightarrow> (repair_step overlap answers)\<^sup>*\<^sup>* repair_init s"

end
