(* ===== verification/Repair_Properties.thy ===== *)
theory Repair_Properties
  imports Repair_Session
begin

text \<open>
  What the repair session guarantees: only sandboxed repairs are accepted, and the run of an accepted
  repair is the one of its proposal as long as the user does one thing at a time; an interleaving
  shows that this needs the restriction.
\<close>

section \<open>Sandboxed proposals\<close>

text \<open>The proposal is the answer of an \<open>apply\<close> call that was sent.\<close>

definition sandboxed ::
  "(repair_call \<Rightarrow> 'd repair_answers \<Rightarrow> bool) \<Rightarrow> repair_call list \<Rightarrow> repair_proposal \<Rightarrow> bool" where
  "sandboxed answers calls q \<longleftrightarrow>
     (\<exists>r v p h ans data. CallApply r v p h \<in> set calls \<and> answers (CallApply r v p h) ans \<and>
        ansApply ans = ApiOk data \<and> q = arProposal data)"

lemma sandboxed_mono: "sandboxed answers calls q \<Longrightarrow> set calls \<subseteq> set calls' \<Longrightarrow> sandboxed answers calls' q"
  unfolding sandboxed_def by blast

text \<open>Every accept call names a sandboxed proposal and its patch.\<close>

definition accepts_sandboxed ::
  "(repair_call \<Rightarrow> 'd repair_answers \<Rightarrow> bool) \<Rightarrow> repair_call list \<Rightarrow> bool" where
  "accepts_sandboxed answers calls \<longleftrightarrow>
     (\<forall>r p h. CallAccept r p h \<in> set calls \<longrightarrow>
        (\<exists>q. sandboxed answers calls q \<and> p = proposalId q \<and> h = or_default (patchSha256 q) []))"

text \<open>A job waits for the call of its kind.\<close>

fun job_call_ok :: "repair_job \<times> repair_call \<Rightarrow> bool" where
  "job_call_ok (PreviewJob _ _ _, CallPreview _) = True"
| "job_call_ok (DiagnoseJob _, CallDiagnose _ _) = True"
| "job_call_ok (ApplyJob, CallApply _ _ _ _) = True"
| "job_call_ok (AcceptJob, CallAccept _ _ _) = True"
| "job_call_ok (RejectJob, CallReject _ _) = True"
| "job_call_ok _ = False"

definition session_sandboxed ::
  "(repair_call \<Rightarrow> 'd repair_answers \<Rightarrow> bool) \<Rightarrow> repair_call list \<Rightarrow> 'd repair_session \<Rightarrow> bool" where
  "session_sandboxed answers calls x \<longleftrightarrow>
     (repStatus x = SandboxReady \<longrightarrow> (\<exists>q. repProposal x = Some q \<and> sandboxed answers calls q))"

definition accepted_ok ::
  "(repair_call \<Rightarrow> 'd repair_answers \<Rightarrow> bool) \<Rightarrow> ('d, 'v) repair_store \<Rightarrow> bool" where
  "accepted_ok answers s \<longleftrightarrow>
     (\<forall>(project, r) \<in> set (repAccepted s). \<exists>r' p h ans data. CallAccept r' p h \<in> set (repCalls s) \<and>
        answers (CallAccept r' p h) ans \<and> ansAccept ans = ApiOk data \<and>
        project = arCandidate data \<and> r = arRunId data)"

definition repair_inv ::
  "(repair_call \<Rightarrow> 'd repair_answers \<Rightarrow> bool) \<Rightarrow> ('d, 'v) repair_store \<Rightarrow> bool" where
  "repair_inv answers s \<longleftrightarrow>
     accepts_sandboxed answers (repCalls s) \<and> accepted_ok answers s \<and>
     pred_option (session_sandboxed answers (repCalls s)) (repSession s) \<and>
     (\<forall>jc\<in>set (repJobs s). job_call_ok jc \<and> snd jc \<in> set (repCalls s))"

lemma repair_inv_init: "repair_inv answers repair_init"
  by (simp add: repair_inv_def repair_init_def accepts_sandboxed_def accepted_ok_def)

lemma accepts_sandboxed_add:
  "accepts_sandboxed answers calls \<Longrightarrow> (\<And>r p h. call \<noteq> CallAccept r p h) \<Longrightarrow>
   accepts_sandboxed answers (calls @ [call])"
  unfolding accepts_sandboxed_def
  by (metis Un_iff empty_iff empty_set insert_iff list.set(2) sandboxed_mono set_append sup_ge1)

lemma accepts_sandboxed_accept:
  "accepts_sandboxed answers calls \<Longrightarrow> sandboxed answers calls q \<Longrightarrow>
   accepts_sandboxed answers (calls @ [CallAccept r (proposalId q) (or_default (patchSha256 q) [])])"
  unfolding accepts_sandboxed_def
  by (metis Un_iff empty_iff empty_set insert_iff list.set(2) repair_call.inject(4) sandboxed_mono set_append sup_ge1)

text \<open>Sending a call keeps the invariant, unless it is an accept call of another proposal.\<close>

lemma repair_inv_send:
  assumes inv: "repair_inv answers s" and ok: "job_call_ok (job, call)"
    and acc: "accepts_sandboxed answers (repCalls s @ [call])"
    and new: "repStatus y \<noteq> SandboxReady"
  shows "repair_inv answers (send job call (s\<lparr>repRequest := i, repSession := Some y\<rparr>))"
  using assms
  by (fastforce simp: repair_inv_def send_def accepted_ok_def session_sandboxed_def)

lemma repair_inv_op:
  assumes inv: "repair_inv answers s" and "job_call_ok (job, call)"
    and "accepts_sandboxed answers (repCalls s @ [call])" and "repSession s = Some x" and "st \<noteq> SandboxReady"
  shows "repair_inv answers (start_op st job call s)"
  using assms
  by (fastforce simp: repair_inv_def start_op_def send_def update_session_def accepted_ok_def session_sandboxed_def)

lemma repair_inv_session:
  "repair_inv answers s \<Longrightarrow> pred_option (session_sandboxed answers (repCalls s)) y \<Longrightarrow>
   repair_inv answers (s\<lparr>repSession := y\<rparr>)"
  by (simp add: repair_inv_def accepted_ok_def)

lemma repair_inv_failed: "repair_inv answers s \<Longrightarrow> repair_inv answers (failed_session msg s)"
  unfolding failed_session_def update_session_def
  by (rule repair_inv_session) (simp_all add: session_sandboxed_def option.pred_map option.pred_True comp_def)

lemma repair_inv_act: 
  assumes inv: "repair_inv answers s" shows "repair_inv answers (repair_act a s)"
proof (cases a)
  case (DoPreview r f c)
  then show ?thesis using inv
    by (simp add: startManualCompileRepairPreview_def repair_inv_send accepts_sandboxed_add repair_inv_def [of _ s]
        empty_session_def)
next
  case (DoDiagnose r p)
  then show ?thesis using inv repair_inv_send [OF inv]
    by (cases "repSession s")
      (simp_all add: startManualCompileRepairDiagnose_def accepts_sandboxed_add repair_inv_def [of _ s] empty_session_def)
next
  case DoAccept
  show ?thesis
  proof (cases "repSession s")
    case (Some x)
    show ?thesis
    proof (cases "repStatus x = SandboxReady \<and> repProposal x \<noteq> None")
      case True
      then obtain q where q: "repProposal x = Some q" "sandboxed answers (repCalls s) q"
        using inv Some by (auto simp: repair_inv_def session_sandboxed_def)
      then have "repair_inv answers (start_op Accepting AcceptJob
          (CallAccept r (proposalId q) (or_default (patchSha256 q) [])) s)" for r
        using inv Some by (intro repair_inv_op) (simp_all add: repair_inv_def accepts_sandboxed_accept)
      then show ?thesis using DoAccept Some q inv True
        by (simp add: acceptManualCompileRepair_def split: option.splits)
    next
      case False
      then show ?thesis using DoAccept Some inv
        by (auto simp: acceptManualCompileRepair_def split: option.splits repair_status.splits)
    qed
  qed (use DoAccept inv in \<open>simp add: acceptManualCompileRepair_def\<close>)
next
  case DoApply
  have "repair_inv answers (start_op Applying ApplyJob (CallApply r v p h) s)" if "repSession s = Some x" for r v p h x
    using inv that by (intro repair_inv_op) (simp_all add: repair_inv_def accepts_sandboxed_add)
  then show ?thesis using DoApply inv
    by (simp add: applyManualCompileRepair_def split: option.splits repair_status.splits)
next
  case DoReject
  have "repair_inv answers (start_op Rejecting RejectJob (CallReject r p) s)" if "repSession s = Some x" for r p x
    using inv that by (intro repair_inv_op) (simp_all add: repair_inv_def accepts_sandboxed_add)
  then show ?thesis using DoReject inv
    by (simp add: rejectManualCompileRepair_def split: option.splits)
next
  case DoClear
  then show ?thesis using inv by (simp add: clearManualCompileRepair_def repair_inv_session)
qed

lemma repair_inv_land:
  assumes inv: "repair_inv answers s" and job: "(job, call) \<in> set (repJobs s)" and ans: "answers call ans"
  shows "repair_inv answers (repair_land ans job (s\<lparr>repJobs := remove1 (job, call) (repJobs s)\<rparr>))"
proof -
  let ?s = "s\<lparr>repJobs := remove1 (job, call) (repJobs s)\<rparr>"
  have inv': "repair_inv answers ?s"
    using inv by (auto simp: repair_inv_def accepted_ok_def dest: notin_set_remove1)
  have kind: "job_call_ok (job, call)" and sent: "call \<in> set (repCalls s)"
    using inv job by (auto simp: repair_inv_def)
  note session = repair_inv_session [OF inv'] and failed = repair_inv_failed [OF inv']
  show ?thesis
  proof (cases job)
    case (PreviewJob i f c)
    then show ?thesis using inv' session failed
      by (auto simp: land_preview_def empty_session_def session_sandboxed_def split: api_result.splits)
  next
    case (DiagnoseJob i)
    then show ?thesis using inv' session failed
      by (auto simp: land_diagnose_def session_sandboxed_def split: api_result.splits)
  next
    case ApplyJob
    obtain r v p h where call: "call = CallApply r v p h" using kind ApplyJob by (cases call) auto
    show ?thesis
    proof (cases "ansApply ans")
      case (ApiOk data)
      then have "sandboxed answers (repCalls s) (arProposal data)"
        using sent ans call unfolding sandboxed_def by blast
      then show ?thesis using ApiOk ApplyJob session
        by (simp add: land_apply_def update_session_def session_sandboxed_def option.pred_map comp_def option.pred_True)
    qed (use ApplyJob failed in \<open>simp add: land_apply_def\<close>)
  next
    case AcceptJob
    obtain r p h where call: "call = CallAccept r p h" using kind AcceptJob by (cases call) auto
    show ?thesis
    proof (cases "ansAccept ans")
      case (ApiOk data)
      then show ?thesis using inv' AcceptJob sent ans call
        by (fastforce simp: land_accept_def repair_inv_def accepted_ok_def)
    qed (use AcceptJob failed in \<open>simp add: land_accept_def\<close>)
  next
    case RejectJob
    then show ?thesis using session failed by (simp add: land_reject_def split: api_result.splits)
  qed
qed

lemma repair_inv_verify: "repair_inv answers s \<Longrightarrow> repair_inv answers (land_verify result s)"
  by (simp add: land_verify_def repair_inv_def accepted_ok_def split: api_result.splits)

lemma repair_inv_reachable: "repair_reachable overlap answers s \<Longrightarrow> repair_inv answers s"
  unfolding repair_reachable_def
proof (induction rule: rtranclp_induct)
  case (step s s')
  from step.hyps(2) step.IH show ?case
    by (induction rule: repair_step.induct) (simp_all add: repair_inv_act repair_inv_land repair_inv_verify)
qed (rule repair_inv_init)

section \<open>One thing at a time\<close>

text \<open>What the backend documents: the answer to a call about a run is about that run.\<close>

fun honest_answer :: "repair_call \<Rightarrow> 'd repair_answers \<Rightarrow> bool" where
  "honest_answer (CallPreview r) ans \<longleftrightarrow>
     (case ansPreview ans of ApiOk d \<Rightarrow> prRunId d = r \<and> previewRunId (prPreview d) = r | _ \<Rightarrow> True)"
| "honest_answer (CallDiagnose r v) ans \<longleftrightarrow>
     (case ansDiagnose ans of ApiOk d \<Rightarrow> drRunId d = r \<and> pred_option (\<lambda>q. proposalRunId q = r) (drProposal d)
      | _ \<Rightarrow> True)"
| "honest_answer (CallApply r v p h) ans \<longleftrightarrow>
     (case ansApply ans of ApiOk d \<Rightarrow> arRunId d = r \<and> proposalRunId (arProposal d) = r \<and> proposalId (arProposal d) = p
      | _ \<Rightarrow> True)"
| "honest_answer (CallAccept r p h) ans \<longleftrightarrow>
     (case ansAccept ans of ApiOk d \<Rightarrow> arRunId d = r \<and> proposalRunId (arProposal d) = r | _ \<Rightarrow> True)"
| "honest_answer (CallReject r p) ans \<longleftrightarrow> True"

definition session_one_run :: "'d repair_session \<Rightarrow> bool" where
  "session_one_run x \<longleftrightarrow> pred_option (\<lambda>q. repRunId x = Some (proposalRunId q)) (repProposal x)"

text \<open>At most one call is in flight; a call to apply is about the run of the session.\<close>

definition calm_inv :: "('d, 'v) repair_store \<Rightarrow> bool" where
  "calm_inv s \<longleftrightarrow>
     pred_option session_one_run (repSession s) \<and> length (repJobs s) \<le> 1 \<and>
     (\<forall>jc\<in>set (repJobs s). job_call_ok jc) \<and>
     (\<forall>r v p h. (ApplyJob, CallApply r v p h) \<in> set (repJobs s) \<longrightarrow>
        pred_option (\<lambda>x. repRunId x = Some r) (repSession s))"

lemma calm_act:
  assumes "calm_inv s" and "repJobs s = []" shows "calm_inv (repair_act a s)"
proof (cases a)
  case DoApply
  then show ?thesis using assms
    by (auto simp: applyManualCompileRepair_def start_op_def send_def update_session_def calm_inv_def
        session_one_run_def session_run_def split: option.splits repair_status.splits if_splits)
next
  case DoAccept
  then show ?thesis using assms
    by (auto simp: acceptManualCompileRepair_def start_op_def send_def update_session_def calm_inv_def
        session_one_run_def split: option.splits repair_status.splits)
qed (use assms in \<open>auto simp: startManualCompileRepairPreview_def startManualCompileRepairDiagnose_def
      rejectManualCompileRepair_def clearManualCompileRepair_def start_op_def send_def update_session_def calm_inv_def
      session_one_run_def empty_session_def split: option.splits\<close>)

lemma calm_failed: "calm_inv s \<Longrightarrow> calm_inv (failed_session msg s)"
  by (cases "repSession s")
    (simp_all add: failed_session_def update_session_def calm_inv_def session_one_run_def)

lemma calm_land:
  assumes inv: "calm_inv s" and job: "(job, call) \<in> set (repJobs s)" and honest: "honest_answer call ans"
  shows "calm_inv (repair_land ans job (s\<lparr>repJobs := remove1 (job, call) (repJobs s)\<rparr>))"
proof -
  have jobs: "repJobs s = [(job, call)]" using inv job by (cases "repJobs s") (auto simp: calm_inv_def)
  have kind: "job_call_ok (job, call)" using inv jobs by (simp add: calm_inv_def)
  let ?s = "s\<lparr>repJobs := remove1 (job, call) (repJobs s)\<rparr>"
  have inv': "calm_inv ?s" using inv jobs by (simp add: calm_inv_def)
  note failed = calm_failed [OF inv']
  show ?thesis
  proof (cases job)
    case (PreviewJob i f c)
    then show ?thesis using inv' failed jobs
      by (auto simp: land_preview_def calm_inv_def session_one_run_def empty_session_def split: api_result.splits)
  next
    case (DiagnoseJob i)
    obtain r v where "call = CallDiagnose r v" using kind DiagnoseJob by (cases call) auto
    then show ?thesis using inv' failed jobs honest DiagnoseJob
      by (cases "ansDiagnose ans")
        (auto simp: land_diagnose_def calm_inv_def session_one_run_def option.pred_set)
  next
    case ApplyJob
    obtain r v p h where "call = CallApply r v p h" using kind ApplyJob by (cases call) auto
    then show ?thesis using inv inv' failed jobs honest ApplyJob
      by (cases "ansApply ans"; cases "repSession s")
        (auto simp: land_apply_def update_session_def calm_inv_def session_one_run_def)
  next
    case AcceptJob
    then show ?thesis using inv' failed jobs by (auto simp: land_accept_def calm_inv_def split: api_result.splits)
  next
    case RejectJob
    then show ?thesis using inv' failed jobs by (auto simp: land_reject_def calm_inv_def split: api_result.splits)
  qed
qed

lemma calm_reachable:
  assumes "\<And>call ans. answers call ans \<Longrightarrow> honest_answer call ans" and "repair_reachable False answers s"
  shows "calm_inv s"
  using assms(2) unfolding repair_reachable_def
proof (induction rule: rtranclp_induct)
  case base
  show ?case by (simp add: calm_inv_def repair_init_def)
next
  case (step s s')
  from step.hyps(2) step.IH show ?case
    by (induction rule: repair_step.induct)
      (simp_all add: calm_act calm_land assms(1), simp add: land_verify_def calm_inv_def split: api_result.splits)
qed

text \<open>Calls are sent by actions; an accept call is the one of the session at hand.\<close>

lemma repair_land_calls: "repCalls (repair_land ans job s) = repCalls s"
  by (cases job)
    (simp_all add: land_preview_def land_diagnose_def land_apply_def land_accept_def land_reject_def
      failed_session_def update_session_def split: api_result.splits)

lemma repair_act_calls:
  "CallAccept r p h \<in> set (repCalls (repair_act a s)) \<Longrightarrow>
   CallAccept r p h \<in> set (repCalls s) \<or>
   (\<exists>x q. repSession s = Some x \<and> repStatus x = SandboxReady \<and> repProposal x = Some q \<and>
      repRunId x = Some r \<and> p = proposalId q)"
  by (cases a)
    (auto simp: startManualCompileRepairPreview_def startManualCompileRepairDiagnose_def applyManualCompileRepair_def
      acceptManualCompileRepair_def rejectManualCompileRepair_def clearManualCompileRepair_def start_op_def send_def
      update_session_def session_run_def split: option.splits repair_status.splits if_splits)

lemma repair_act_calls_mono: "set (repCalls s) \<subseteq> set (repCalls (repair_act a s))"
  by (cases a)
    (auto simp: startManualCompileRepairPreview_def startManualCompileRepairDiagnose_def applyManualCompileRepair_def
      acceptManualCompileRepair_def rejectManualCompileRepair_def clearManualCompileRepair_def start_op_def send_def
      update_session_def split: option.splits repair_status.splits)

definition accepts_one_run ::
  "(repair_call \<Rightarrow> 'd repair_answers \<Rightarrow> bool) \<Rightarrow> repair_call list \<Rightarrow> bool" where
  "accepts_one_run answers calls \<longleftrightarrow>
     (\<forall>r p h. CallAccept r p h \<in> set calls \<longrightarrow>
        (\<exists>q. sandboxed answers calls q \<and> p = proposalId q \<and> r = proposalRunId q))"

lemma accepts_one_run_act:
  assumes runs: "accepts_one_run answers (repCalls s)" and calm: "calm_inv s" and inv: "repair_inv answers s"
  shows "accepts_one_run answers (repCalls (repair_act a s))"
  unfolding accepts_one_run_def
proof (intro allI impI)
  fix r p h
  assume "CallAccept r p h \<in> set (repCalls (repair_act a s))"
  then have "\<exists>q. sandboxed answers (repCalls s) q \<and> p = proposalId q \<and> r = proposalRunId q"
  proof (rule repair_act_calls [THEN disjE])
    assume "CallAccept r p h \<in> set (repCalls s)"
    then show ?thesis using runs unfolding accepts_one_run_def by blast
  next
    assume "\<exists>x q. repSession s = Some x \<and> repStatus x = SandboxReady \<and> repProposal x = Some q \<and>
      repRunId x = Some r \<and> p = proposalId q"
    then show ?thesis using calm inv
      by (auto simp: calm_inv_def session_one_run_def repair_inv_def session_sandboxed_def)
  qed
  then show "\<exists>q. sandboxed answers (repCalls (repair_act a s)) q \<and> p = proposalId q \<and> r = proposalRunId q"
    using sandboxed_mono repair_act_calls_mono by metis
qed

lemma accepts_one_run_reachable:
  assumes honest: "\<And>call ans. answers call ans \<Longrightarrow> honest_answer call ans"
    and "repair_reachable False answers s"
  shows "accepts_one_run answers (repCalls s)"
  using assms(2) unfolding repair_reachable_def
proof (induction rule: rtranclp_induct)
  case base
  show ?case by (simp add: accepts_one_run_def repair_init_def)
next
  case (step s s')
  have "repair_reachable False answers s" using step.hyps(1) by (simp add: repair_reachable_def)
  then have "calm_inv s" "repair_inv answers s" using honest calm_reachable repair_inv_reachable by blast+
  with step.hyps(2) step.IH show ?case
    by (induction rule: repair_step.induct)
      (simp_all add: accepts_one_run_act repair_land_calls, simp add: land_verify_def split: api_result.splits)
qed

section \<open>Two recorded sessions\<close>

definition repair_land_at ::
  "'d repair_answers \<Rightarrow> repair_job \<Rightarrow> repair_call \<Rightarrow> ('d, 'v) repair_store \<Rightarrow> ('d, 'v) repair_store" where
  "repair_land_at ans job call s = repair_land ans job (s\<lparr>repJobs := remove1 (job, call) (repJobs s)\<rparr>)"

lemma repair_reach_init: "repair_reachable overlap answers repair_init"
  by (simp add: repair_reachable_def)

lemma repair_reach_act:
  "overlap \<or> repJobs s = [] \<Longrightarrow> repair_reachable overlap answers s \<Longrightarrow>
   repair_reachable overlap answers (repair_act a s)"
  unfolding repair_reachable_def by (blast intro: rtranclp.rtrancl_into_rtrancl repair_acts)

lemma repair_reach_land:
  "(job, call) \<in> set (repJobs s) \<Longrightarrow> answers call ans \<Longrightarrow> repair_reachable overlap answers s \<Longrightarrow>
   repair_reachable overlap answers (repair_land_at ans job call s)"
  unfolding repair_reachable_def repair_land_at_def by (blast intro: rtranclp.rtrancl_into_rtrancl repair_lands)

definition demo_build :: build_test_view where
  "demo_build = \<lparr>btRunId = ''r1'', btProductMode = ModeLive, btStatus = CompileFailed, btClass = CompileError,
     btGeneratedSha = None, btNote = None\<rparr>"

definition demo_project :: candidate_project where
  "demo_project = \<lparr>candEntryClass = Some ''A'', candEntryFilePath = Some ''A.java'', candFiles = [(''A.java'', ''x'')]\<rparr>"

definition demo_proposal :: repair_proposal where
  "demo_proposal = \<lparr>proposalId = ''p1'', proposalRunId = ''r1'', patchSha256 = Some ''sha''\<rparr>"

definition demo_repair :: "string \<Rightarrow> unit repair_answers" where
  "demo_repair r =
     \<lparr>ansPreview = ApiOk \<lparr>prRunId = r, prPreview = \<lparr>previewId = ''v'', previewRunId = r\<rparr>\<rparr>,
      ansDiagnose = ApiOk \<lparr>drRunId = ''r1'', drDiagnosis = (), drProposal = Some demo_proposal,
        drCandidate = demo_project, drBuildTest = demo_build\<rparr>,
      ansApply = ApiOk \<lparr>arRunId = ''r1'', arProposal = demo_proposal, arCandidate = demo_project,
        arBuildTest = demo_build\<rparr>,
      ansAccept = ApiOk \<lparr>arRunId = ''r1'', arProposal = demo_proposal, arCandidate = demo_project,
        arBuildTest = demo_build\<rparr>,
      ansReject = ApiOk ()\<rparr>"

text \<open>A repair is previewed, diagnosed and its application sent.\<close>

definition repair_applying :: "(unit, unit) repair_store" where
  "repair_applying =
     repair_act DoApply
       (repair_land_at (demo_repair ''r1'') (DiagnoseJob 2) (CallDiagnose ''r1'' ''v'')
         (repair_act (DoDiagnose ''r1'' ''v'')
           (repair_land_at (demo_repair ''r1'') (PreviewJob 1 ''A.java'' None) (CallPreview ''r1'')
             (repair_act (DoPreview ''r1'' ''A.java'' None) repair_init))))"

definition repair_accepting :: "(unit, unit) repair_store" where
  "repair_accepting =
     repair_act DoAccept (repair_land_at (demo_repair ''r1'') ApplyJob (CallApply ''r1'' ''v'' ''p1'' ''sha'') repair_applying)"

lemma repair_applying_reachable: "repair_reachable overlap honest_answer repair_applying"
  unfolding repair_applying_def
  by (intro repair_reach_act repair_reach_land repair_reach_init disjI2;
      (simp add: demo_repair_def demo_proposal_def)?; code_simp)

lemma repair_accepting_reachable: "repair_reachable overlap honest_answer repair_accepting"
  unfolding repair_accepting_def
  by (intro repair_reach_act repair_reach_land repair_applying_reachable disjI2;
      (simp add: demo_repair_def demo_proposal_def)?; code_simp)

abbreviation honest_unit :: "repair_call \<Rightarrow> unit repair_answers \<Rightarrow> bool" where
  "honest_unit \<equiv> honest_answer"

section \<open>Properties\<close>

text \<open>
  C17: no repair is accepted that was not sandboxed.  In every interleaving of actions and answers,
  each accept call that was sent names the proposal and the patch hash of an answer to an apply call
  sent before, and each project handed to the Java buffers is the answer to an accept call.
\<close>

theorem only_sandboxed_repairs_are_accepted:
  assumes "repair_reachable overlap answers s"
  shows "accepts_sandboxed answers (repCalls s) \<and> accepted_ok answers s"
  using repair_inv_reachable [OF assms] by (simp add: repair_inv_def)

theorem only_sandboxed_repairs_are_accepted_witness:
  "CallAccept ''r1'' ''p1'' ''sha'' \<in> set (repCalls repair_accepting) \<and>
   (\<exists>q. sandboxed honest_unit (repCalls repair_accepting) q \<and> ''p1'' = proposalId q \<and>
      ''sha'' = or_default (patchSha256 q) [])"
proof
  show sent: "CallAccept ''r1'' ''p1'' ''sha'' \<in> set (repCalls repair_accepting)" by code_simp
  have "accepts_sandboxed honest_unit (repCalls repair_accepting)"
    using only_sandboxed_repairs_are_accepted [OF repair_accepting_reachable [of True]] by (rule conjunct1)
  then show "\<exists>q. sandboxed honest_unit (repCalls repair_accepting) q \<and> ''p1'' = proposalId q \<and>
      ''sha'' = or_default (patchSha256 q) []"
    unfolding accepts_sandboxed_def using sent by blast
qed

text \<open>
  C18: when the user acts only while no call is in flight and the backend answers about the run it
  was asked about, every accept call names the run of the proposal it accepts, and the proposal in
  the session is always about the run of the session.
\<close>

theorem one_at_a_time_accepts_its_run:
  assumes "\<And>call ans. answers call ans \<Longrightarrow> honest_answer call ans" and "repair_reachable False answers s"
  shows "accepts_one_run answers (repCalls s) \<and> pred_option session_one_run (repSession s)"
  using accepts_one_run_reachable [OF assms] calm_reachable [OF assms] by (simp add: calm_inv_def)

theorem one_at_a_time_accepts_its_run_witness:
  "\<exists>q. sandboxed honest_unit (repCalls repair_accepting) q \<and> ''p1'' = proposalId q \<and> ''r1'' = proposalRunId q"
proof -
  have sent: "CallAccept ''r1'' ''p1'' ''sha'' \<in> set (repCalls repair_accepting)" by code_simp
  have "accepts_one_run honest_unit (repCalls repair_accepting)"
    using one_at_a_time_accepts_its_run [OF _ repair_accepting_reachable [of False]] by blast
  then show ?thesis unfolding accepts_one_run_def using sent by blast
qed

text \<open>
  The overlap: while the application of the repair of run \<open>r1\<close> is in flight, a preview of run \<open>r2\<close> is
  started and answered; then the application lands and the result is accepted.
\<close>

definition repair_overlapped :: "(unit, unit) repair_store" where
  "repair_overlapped =
     repair_act DoAccept
       (repair_land_at (demo_repair ''r1'') ApplyJob (CallApply ''r1'' ''v'' ''p1'' ''sha'')
         (repair_land_at (demo_repair ''r2'') (PreviewJob 3 ''B.java'' None) (CallPreview ''r2'')
           (repair_act (DoPreview ''r2'' ''B.java'' None) repair_applying)))"

text \<open>The session is cleared while a preview is in flight.\<close>

definition repair_cleared :: "(unit, unit) repair_store" where
  "repair_cleared =
     repair_land_at (demo_repair ''r1'') (PreviewJob 1 ''A.java'' None) (CallPreview ''r1'')
       (repair_act DoClear (repair_act (DoPreview ''r1'' ''A.java'' None) repair_init))"

text \<open>
  With overlapping calls, and an honest backend, the repair session mixes runs: an accept call
  is sent for run \<open>r2\<close> with the only proposal there is, which is of run \<open>r1\<close>.  And a session that was
  cleared while a preview was in flight comes back when the answer lands.  The landings of apply,
  accept and reject do not check that the session is still the one they were sent for, and clearing
  does not supersede a request.
\<close>

lemma overlapping_repairs_mix_runs:
  "repair_reachable True honest_answer repair_overlapped \<and>
   CallAccept ''r2'' ''p1'' ''sha'' \<in> set (repCalls repair_overlapped) \<and>
   map_option repProposal (repSession repair_overlapped) = Some (Some demo_proposal) \<and>
   proposalRunId demo_proposal = ''r1'' \<and>
   repair_reachable True honest_answer repair_cleared \<and>
   map_option repStatus (repSession repair_cleared) = Some PreviewReady"
proof (intro conjI)
  show "repair_reachable True honest_answer repair_overlapped"
    unfolding repair_overlapped_def
    by (intro repair_reach_act repair_reach_land repair_applying_reachable disjI1 TrueI;
        (simp add: demo_repair_def demo_proposal_def)?; code_simp)
  show "repair_reachable True honest_answer repair_cleared"
    unfolding repair_cleared_def
    by (intro repair_reach_act repair_reach_land repair_reach_init disjI1 TrueI;
        (simp add: demo_repair_def demo_proposal_def)?; code_simp)
  show "CallAccept ''r2'' ''p1'' ''sha'' \<in> set (repCalls repair_overlapped)" by code_simp
  show "map_option repProposal (repSession repair_overlapped) = Some (Some demo_proposal)" by code_simp
  show "proposalRunId demo_proposal = ''r1''" by code_simp
  show "map_option repStatus (repSession repair_cleared) = Some PreviewReady" by code_simp
qed

end
