(* ===== verification/Js_Text.thy ===== *)
theory Js_Text
  imports Complex_Main Text_Lines Byte_Encoding
begin

text \<open>
  String operations and values that the session and request components share: white space and
  \<open>trim\<close>, \<open>indexOf\<close> of a character, the character classes of the identifier patterns, parsed JSON,
  base64 as \<open>Buffer.toString("base64")\<close> writes it and \<open>atob\<close> reads it.
\<close>

section \<open>Characters and trimming\<close>

text \<open>White space and line terminators of ECMAScript among the code units below 256.\<close>

definition is_js_space :: "char \<Rightarrow> bool" where
  "is_js_space c \<longleftrightarrow> (of_char c :: nat) \<in> {9, 10, 11, 12, 13, 32, 160}"

definition js_trim :: "string \<Rightarrow> string" where
  "js_trim s = rev (dropWhile is_js_space (rev (dropWhile is_js_space s)))"

definition char_between :: "char \<Rightarrow> char \<Rightarrow> char \<Rightarrow> bool" where
  "char_between lo hi c \<longleftrightarrow> (of_char lo :: nat) \<le> of_char c \<and> (of_char c :: nat) \<le> of_char hi"

definition is_upper :: "char \<Rightarrow> bool" where "is_upper c \<longleftrightarrow> char_between CHR ''A'' CHR ''Z'' c"

definition is_lower :: "char \<Rightarrow> bool" where "is_lower c \<longleftrightarrow> char_between CHR ''a'' CHR ''z'' c"

definition is_digit :: "char \<Rightarrow> bool" where "is_digit c \<longleftrightarrow> char_between CHR ''0'' CHR ''9'' c"

definition is_alnum :: "char \<Rightarrow> bool" where "is_alnum c \<longleftrightarrow> is_upper c \<or> is_lower c \<or> is_digit c"

text \<open>\<open>[A-Za-z0-9._-]\<close>\<close>

definition is_id_char :: "char \<Rightarrow> bool" where
  "is_id_char c \<longleftrightarrow> is_alnum c \<or> c \<in> {CHR ''.'', CHR ''_'', CHR ''-''}"

definition to_lower :: "char \<Rightarrow> char" where
  "to_lower c = (if is_upper c then char_of ((of_char c :: nat) + 32) else c)"

lemma js_trim_id: "s = [] \<or> (\<not> is_js_space (hd s) \<and> \<not> is_js_space (last s)) \<Longrightarrow> js_trim s = s"
proof (cases s)
  case (Cons c cs)
  assume "s = [] \<or> (\<not> is_js_space (hd s) \<and> \<not> is_js_space (last s))"
  with Cons have "dropWhile is_js_space s = s" "\<not> is_js_space (last s)" "rev s \<noteq> []" by simp_all
  then show ?thesis by (cases "rev s") (auto simp: js_trim_def rev_swap)
qed (simp add: js_trim_def)

lemma id_char_not_space: "is_id_char c \<Longrightarrow> \<not> is_js_space c"
  by (auto simp: is_id_char_def is_js_space_def is_alnum_def is_upper_def is_lower_def is_digit_def char_between_def)

lemma js_trim_id_chars: "list_all is_id_char s \<Longrightarrow> js_trim s = s"
  by (rule js_trim_id) (auto simp: list_all_iff id_char_not_space)

lemma dropWhile_space: "is_js_space c \<Longrightarrow> dropWhile is_js_space (c # s) = dropWhile is_js_space s"
  by simp

lemma js_trim_space: "is_js_space c \<Longrightarrow> js_trim (c # s) = js_trim s"
  by (simp add: js_trim_def)

text \<open>\<open>s.indexOf(c)\<close>, with \<open>-1\<close> for absent.\<close>

fun index_from :: "int \<Rightarrow> char \<Rightarrow> string \<Rightarrow> int" where
  "index_from i c [] = -1"
| "index_from i c (x # xs) = (if x = c then i else index_from (i + 1) c xs)"

definition js_index_of :: "char \<Rightarrow> string \<Rightarrow> int" where
  "js_index_of c s = index_from 0 c s"

lemma index_from_append: "c \<notin> set s \<Longrightarrow> index_from i c (s @ c # t) = i + int (length s)"
  by (induction s arbitrary: i) auto

lemma index_from_absent: "c \<notin> set s \<Longrightarrow> index_from i c s = -1"
  by (induction s arbitrary: i) auto

lemma js_index_of_append: "c \<notin> set s \<Longrightarrow> js_index_of c (s @ c # t) = int (length s)"
  by (simp add: js_index_of_def index_from_append)

lemma js_index_of_absent: "c \<notin> set s \<Longrightarrow> js_index_of c s = -1"
  by (simp add: js_index_of_def index_from_absent)

section \<open>Errors\<close>

text \<open>A computation that may throw, in sequence, and \<open>map\<close> with a callback that may throw.\<close>

fun and_then :: "'e + 'a \<Rightarrow> ('a \<Rightarrow> 'e + 'b) \<Rightarrow> 'e + 'b" where
  "and_then (Inl e) f = Inl e"
| "and_then (Inr x) f = f x"

fun map_result :: "('a \<Rightarrow> 'e + 'b) \<Rightarrow> 'a list \<Rightarrow> 'e + 'b list" where
  "map_result f [] = Inr []"
| "map_result f (x # xs) = and_then (f x) (\<lambda>y. and_then (map_result f xs) (\<lambda>ys. Inr (y # ys)))"

lemma and_then_Inr: "and_then r f = Inr y \<longleftrightarrow> (\<exists>x. r = Inr x \<and> f x = Inr y)"
  by (cases r) auto

lemma map_result_Inr: "map_result f xs = Inr ys \<longleftrightarrow> list_all2 (\<lambda>x y. f x = Inr y) xs ys"
proof (induction xs arbitrary: ys)
  case (Cons x xs)
  then show ?case by (cases ys) (auto simp: and_then_Inr)
qed (auto simp: list_all2_Nil)

section \<open>JSON\<close>

text \<open>
  What \<open>JSON.parse\<close> returns.  A number is finite (a double is a rational) or, for a literal beyond
  the doubles, infinite; the fields of an object are in order.
\<close>

datatype js_number = Finite rat | Infinite bool

datatype json =
  JNull
| JBool bool
| JNum js_number
| JStr string
| JArr "json list"
| JObj "(string \<times> json) list"

text \<open>\<open>raw && typeof raw === "object" && !Array.isArray(raw)\<close>\<close>

fun as_object :: "json \<Rightarrow> (string \<times> json) list option" where
  "as_object (JObj fields) = Some fields"
| "as_object _ = None"

fun as_string :: "json option \<Rightarrow> string option" where
  "as_string (Some (JStr s)) = Some s"
| "as_string _ = None"

text \<open>The names that every plain object inherits from \<open>Object.prototype\<close>.\<close>

definition object_prototype_members :: "string list" where
  "object_prototype_members =
     [''constructor'', ''__defineGetter__'', ''__defineSetter__'', ''hasOwnProperty'', ''__lookupGetter__'',
      ''__lookupSetter__'', ''isPrototypeOf'', ''propertyIsEnumerable'', ''toString'', ''valueOf'',
      ''__proto__'', ''toLocaleString'']"

section \<open>Base64\<close>

definition base64_alphabet :: string where
  "base64_alphabet =
     ''ABCDEFGHIJKLMNOPQRSTUVWXYZabcdefghijklmnopqrstuvwxyz0123456789+/''"

definition b64_char :: "nat \<Rightarrow> char" where
  "b64_char n = base64_alphabet ! n"

definition b64_value :: "char \<Rightarrow> nat option" where
  "b64_value c = (let i = js_index_of c base64_alphabet in if i < 0 then None else Some (nat i))"

fun toBase64 :: "bytes \<Rightarrow> string" where
  "toBase64 [] = []"
| "toBase64 [a] =
     [b64_char (unat a div 4), b64_char (unat a mod 4 * 16), CHR ''='', CHR ''='']"
| "toBase64 [a, b] =
     [b64_char (unat a div 4), b64_char (unat a mod 4 * 16 + unat b div 16), b64_char (unat b mod 16 * 4), CHR ''='']"
| "toBase64 (a # b # c # bs) =
     [b64_char (unat a div 4), b64_char (unat a mod 4 * 16 + unat b div 16),
      b64_char (unat b mod 16 * 4 + unat c div 64), b64_char (unat c mod 64)] @ toBase64 bs"

text \<open>The groups of four sextets; a group that is cut short gives one byte less per missing sextet.\<close>

fun sextets_to_bytes :: "nat list \<Rightarrow> bytes option" where
  "sextets_to_bytes [] = Some []"
| "sextets_to_bytes [w] = None"
| "sextets_to_bytes [w, x] = Some [word_of_nat (w * 4 + x div 16)]"
| "sextets_to_bytes [w, x, y] = Some [word_of_nat (w * 4 + x div 16), word_of_nat (x * 16 + y div 4)]"
| "sextets_to_bytes (w # x # y # z # rest) =
     (case sextets_to_bytes rest of None \<Rightarrow> None
      | Some bs \<Rightarrow> Some (word_of_nat (w * 4 + x div 16) # word_of_nat (x * 16 + y div 4) # word_of_nat (y * 64 + z) # bs))"

fun all_some :: "'a option list \<Rightarrow> 'a list option" where
  "all_some [] = Some []"
| "all_some (None # xs) = None"
| "all_some (Some x # xs) = map_option (Cons x) (all_some xs)"

text \<open>ASCII white space, which \<open>atob\<close> drops, and the padding it removes when the length is right.\<close>

definition is_ascii_space :: "char \<Rightarrow> bool" where
  "is_ascii_space c \<longleftrightarrow> (of_char c :: nat) \<in> {9, 10, 12, 13, 32}"

definition strip_padding :: "string \<Rightarrow> string" where
  "strip_padding s =
     (if length s mod 4 = 0 \<and> suffix ''=='' s then butlast (butlast s)
      else if length s mod 4 = 0 \<and> suffix ''='' s then butlast s else s)"

definition atob :: "string \<Rightarrow> bytes option" where
  "atob s =
     (let t = strip_padding (filter (\<lambda>c. \<not> is_ascii_space c) s)
      in Option.bind (all_some (map b64_value t)) sextets_to_bytes)"

text \<open>Decoding what was encoded.\<close>

fun sextets :: "bytes \<Rightarrow> nat list" where
  "sextets [] = []"
| "sextets [a] = [unat a div 4, unat a mod 4 * 16]"
| "sextets [a, b] = [unat a div 4, unat a mod 4 * 16 + unat b div 16, unat b mod 16 * 4]"
| "sextets (a # b # c # bs) =
     [unat a div 4, unat a mod 4 * 16 + unat b div 16, unat b mod 16 * 4 + unat c div 64, unat c mod 64] @ sextets bs"

definition padding :: "bytes \<Rightarrow> string" where
  "padding bs = replicate ((3 - length bs mod 3) mod 3) (CHR ''='')"

lemma padding_step: "padding (a # b # c # bs) = padding bs"
proof -
  have "length (a # b # c # bs) mod 3 = (length bs + 3) mod 3" by simp
  then show ?thesis by (simp add: padding_def del: length_Cons list.size)
qed

lemma toBase64_sextets: "toBase64 bs = map b64_char (sextets bs) @ padding bs"
proof (induction bs rule: toBase64.induct)
  case (4 a b c bs)
  then show ?case by (simp add: padding_step)
qed (simp_all add: padding_def numeral_2_eq_2)

lemma byte_eqI: "n mod 256 = unat b \<Longrightarrow> (word_of_nat n :: byte) = b"
  by (metis unat_word_of_nat_byte word_unat_eq_iff)

lemma byte_rest [simp]:
  "(word_of_nat (unat b + 256 * k) :: byte) = b" "(word_of_nat (unat b) :: byte) = b"
  "unat b div 16 div 16 = 0" "unat b div 64 div 4 = 0" for b :: byte
proof -
  have lt: "unat b < 256" by (rule unat_byte_less)
  show "(word_of_nat (unat b + 256 * k) :: byte) = b" by (rule byte_eqI) (use lt in simp)
  show "(word_of_nat (unat b) :: byte) = b" by simp
  show "unat b div 16 div 16 = 0" "unat b div 64 div 4 = 0" using lt by (simp_all add: div_mult2_eq [symmetric])
qed

lemma sextets_less: "x \<in> set (sextets bs) \<Longrightarrow> x < 64"
proof (induction bs rule: sextets.induct)
  case (2 a)
  then show ?case using unat_byte_less [of a] by auto
next
  case (3 a b)
  then show ?case using unat_byte_less [of a] unat_byte_less [of b] by auto
next
  case (4 a b c bs)
  then show ?case using unat_byte_less [of a] unat_byte_less [of b] unat_byte_less [of c] by auto
qed simp

lemma sextets_decode: "sextets_to_bytes (sextets bs) = Some bs"
  by (induction bs rule: sextets.induct) (simp_all del: of_nat_add of_nat_mult)

lemma b64_table: "list_all (\<lambda>n. b64_value (b64_char n) = Some n \<and> \<not> is_ascii_space (b64_char n)) [0..<64]"
  by code_simp

lemma b64_value_char: "n < 64 \<Longrightarrow> b64_value (b64_char n) = Some n"
  and b64_char_not_space: "n < 64 \<Longrightarrow> \<not> is_ascii_space (b64_char n)"
  using b64_table by (auto simp: list_all_iff)

lemma b64_char_not_pad: "n < 64 \<Longrightarrow> b64_char n \<noteq> CHR ''=''"
proof -
  have "b64_value CHR ''='' = None" by code_simp
  then show "n < 64 \<Longrightarrow> b64_char n \<noteq> CHR ''=''" using b64_value_char by fastforce
qed

lemma all_some_map: "(\<And>x. x \<in> set xs \<Longrightarrow> f (g x) = Some x) \<Longrightarrow> all_some (map f (map g xs)) = Some xs"
  by (induction xs) auto

lemma length_sextets_padding: "(length (sextets bs) + length (padding bs)) mod 4 = 0"
proof (induction bs rule: sextets.induct)
  case (4 a b c bs)
  have "(length (sextets (a # b # c # bs)) + length (padding (a # b # c # bs))) =
      (length (sextets bs) + length (padding bs)) + 4" by (simp add: padding_step)
  then show ?case using 4 by simp
qed (simp_all add: padding_def)

lemma strip_padding_append:
  assumes "length (t @ padding bs) mod 4 = 0" and "CHR ''='' \<notin> set t"
  shows "strip_padding (t @ padding bs) = t"
proof -
  have "(3 - length bs mod 3) mod 3 \<in> {0, 1, 2}" by (simp, linarith)
  then consider "padding bs = []" | "padding bs = ''=''" | "padding bs = ''==''"
    by (auto simp: padding_def numeral_2_eq_2)
  then show ?thesis
  proof cases
    case 1
    have no: "\<not> suffix (u @ ''='') t" for u using assms(2) by (auto simp: suffix_def)
    then show ?thesis using 1 no [of "[]"] no [of "''=''"] by (simp add: strip_padding_def)
  next
    case 2
    have "\<not> suffix ''=='' (t @ ''='')" using assms(2) by (auto simp: suffix_def append_eq_append_conv2 Cons_eq_append_conv)
    moreover have "suffix ''='' (t @ ''='')" by (simp add: suffix_def)
    ultimately show ?thesis using 2 assms(1) by (simp add: strip_padding_def)
  next
    case 3
    have "suffix ''=='' (t @ ''=='')" by (simp add: suffix_def)
    then show ?thesis using 3 assms(1) by (simp add: strip_padding_def butlast_append)
  qed
qed

lemma atob_toBase64: "atob (toBase64 bs) = Some bs"
proof -
  let ?t = "map b64_char (sextets bs)"
  have eq: "CHR ''='' \<notin> set ?t" using sextets_less b64_char_not_pad by fastforce
  have "filter (\<lambda>c. \<not> is_ascii_space c) (?t @ padding bs) = ?t @ padding bs"
    using sextets_less [of _ bs] b64_char_not_space by (auto simp: filter_id_conv padding_def is_ascii_space_def)
  moreover have "strip_padding (?t @ padding bs) = ?t"
    using strip_padding_append [OF _ eq] length_sextets_padding [of bs] by simp
  moreover have "all_some (map b64_value ?t) = Some (sextets bs)"
    by (rule all_some_map) (simp add: sextets_less b64_value_char)
  ultimately show ?thesis by (simp add: atob_def toBase64_sextets sextets_decode)
qed

end
