(* ===== verification/Session_Cookie.thy ===== *)
theory Session_Cookie
  imports Js_Text
begin

text \<open>
  \<open>sessionCookie.ts\<close>: reading the session id from a \<open>Cookie\<close> header, writing and clearing the
  cookie, and telling whether a request came over TLS.
\<close>

section \<open>The code\<close>

datatype header_value = HeaderAbsent | HeaderOne string | HeaderMany "string list"

fun pickFirstHeader :: "header_value \<Rightarrow> string option" where
  "pickFirstHeader HeaderAbsent = None"
| "pickFirstHeader (HeaderOne s) = Some s"
| "pickFirstHeader (HeaderMany []) = None"
| "pickFirstHeader (HeaderMany (s # _)) = Some s"

definition SESSION_COOKIE_NAME :: string where "SESSION_COOKIE_NAME = ''c2c.sid''"

fun find_cookie :: "string \<Rightarrow> string list \<Rightarrow> string option" where
  "find_cookie name [] = None"
| "find_cookie name (segment # segments) =
     (let trimmed = js_trim segment; eq = js_index_of CHR ''='' trimmed
      in if trimmed = [] \<or> eq \<le> 0 then find_cookie name segments
         else if js_trim (take (nat eq) trimmed) \<noteq> name then find_cookie name segments
         else let value = js_trim (drop (nat eq + 1) trimmed)
              in if value = [] then None else if \<not> list_all is_id_char value then None else Some value)"

definition parseSessionCookie :: "header_value \<Rightarrow> string \<Rightarrow> string option" where
  "parseSessionCookie cookieHeader name =
     (case pickFirstHeader cookieHeader of
        None \<Rightarrow> None
      | Some raw \<Rightarrow> if raw = [] then None else find_cookie name (js_split CHR '';'' raw))"

definition cookie_attributes :: "bool \<Rightarrow> string list" where
  "cookie_attributes secure = (if secure then [''Secure''] else [])"

definition serializeSessionCookie :: "string \<Rightarrow> bool \<Rightarrow> string \<Rightarrow> string + string" where
  "serializeSessionCookie sessionId secure name =
     (if sessionId = [] then Inl ''sessionId must be non-empty''
      else Inr (js_join ''; '' ([name @ ''='' @ sessionId, ''Path=/'', ''HttpOnly'', ''SameSite=Lax'']
        @ cookie_attributes secure)))"

definition serializeClearedSessionCookie :: "bool \<Rightarrow> string \<Rightarrow> string" where
  "serializeClearedSessionCookie secure name =
     js_join ''; '' ([name @ ''='', ''Path=/'', ''HttpOnly'', ''SameSite=Lax'', ''Max-Age=0'',
       ''Expires=Thu, 01 Jan 1970 00:00:00 GMT''] @ cookie_attributes secure)"

definition isRequestSecure :: "bool \<Rightarrow> header_value \<Rightarrow> bool" where
  "isRequestSecure encrypted forwardedProto =
     (encrypted \<or>
      (case pickFirstHeader forwardedProto of
         None \<Rightarrow> False
       | Some f \<Rightarrow> f \<noteq> [] \<and> map to_lower (js_trim (hd (js_split CHR '','' f))) = ''https''))"

section \<open>Reading back what was written\<close>

text \<open>A cookie of another name, as a browser sends it.\<close>

definition plain_pair :: "string \<times> string \<Rightarrow> string" where
  "plain_pair = (\<lambda>(n, v). n @ ''='' @ v)"

definition other_cookie :: "string \<Rightarrow> string \<times> string \<Rightarrow> bool" where
  "other_cookie name = (\<lambda>(n, v). n \<noteq> [] \<and> list_all is_id_char n \<and> n \<noteq> name \<and> list_all is_id_char v)"

definition cookie_header :: "(string \<times> string) list \<Rightarrow> string" where
  "cookie_header cookies = js_join ''; '' (map plain_pair cookies)"

lemma id_char_facts: "\<not> is_id_char CHR '';''" "\<not> is_id_char CHR ''=''" "\<not> is_js_space CHR '';''" "is_js_space CHR '' ''"
  by (simp_all add: is_id_char_def is_alnum_def is_upper_def is_lower_def is_digit_def char_between_def is_js_space_def)

lemma pair_clean: "list_all is_id_char n \<Longrightarrow> list_all is_id_char v \<Longrightarrow> CHR '';'' \<notin> set (plain_pair (n, v))"
  using id_char_facts by (auto simp: plain_pair_def list_all_iff)

text \<open>Splitting the header gives the pairs, all but the first with a space before them.\<close>

lemma split_header:
  "ps \<noteq> [] \<Longrightarrow> \<forall>p\<in>set ps. CHR '';'' \<notin> set p \<Longrightarrow>
   js_split CHR '';'' (js_join ''; '' ps) = hd ps # map (Cons CHR '' '') (tl ps)"
proof (induction ps rule: induct_list012)
  case (3 p q ps)
  have "js_split CHR '';'' (p @ CHR '';'' # (CHR '' '' # js_join ''; '' (q # ps))) =
      p # js_split CHR '';'' (CHR '' '' # js_join ''; '' (q # ps))"
    using 3(4) by (intro js_split_append_sep) simp
  moreover have "js_split CHR '';'' (CHR '' '' # js_join ''; '' (q # ps)) =
      map (Cons CHR '' '') (q # ps)"
    using 3 by simp
  ultimately show ?case by simp
qed (simp_all add: js_split_single)

lemma trim_pair:
  assumes "n \<noteq> []" "list_all is_id_char n" "list_all is_id_char v"
  shows "js_trim (plain_pair (n, v)) = plain_pair (n, v)"
proof (rule js_trim_id)
  have "hd (plain_pair (n, v)) = hd n" using assms(1) by (simp add: plain_pair_def)
  moreover have "last (plain_pair (n, v)) = CHR ''='' \<or> last (plain_pair (n, v)) \<in> set v"
    by (simp add: plain_pair_def)
  moreover have "\<not> is_js_space CHR ''=''" by (simp add: is_js_space_def)
  ultimately show "plain_pair (n, v) = [] \<or> \<not> is_js_space (hd (plain_pair (n, v))) \<and> \<not> is_js_space (last (plain_pair (n, v)))"
    using assms id_char_not_space by (metis hd_in_set list_all_iff)
qed

text \<open>One segment, with or without the leading space.\<close>

lemma find_cookie_segment:
  assumes "n \<noteq> []" "list_all is_id_char n" "list_all is_id_char v" and seg: "seg \<in> {plain_pair (n, v), CHR '' '' # plain_pair (n, v)}"
  shows "find_cookie name (seg # segs) =
    (if n \<noteq> name then find_cookie name segs else if v = [] then None else Some v)"
proof -
  have t: "js_trim seg = n @ ''='' @ v"
    using seg trim_pair [OF assms(1,2,3)] by (auto simp: js_trim_space id_char_facts plain_pair_def)
  have "CHR ''='' \<notin> set n" using assms(2) id_char_facts by (auto simp: list_all_iff)
  then have i: "js_index_of CHR ''='' (n @ ''='' @ v) = int (length n)"
    by (simp add: js_index_of_append)
  have "js_trim (take (nat (int (length n))) (n @ ''='' @ v)) = n"
    "js_trim (drop (nat (int (length n)) + 1) (n @ ''='' @ v)) = v"
    using assms(2,3) by (simp_all add: js_trim_id_chars)
  then show ?thesis using assms(1,3) unfolding find_cookie.simps Let_def t i by auto
qed

lemma find_cookie_skip:
  "list_all (other_cookie name) cs \<Longrightarrow> find_cookie name (map (\<lambda>p. CHR '' '' # plain_pair p) cs @ segs) = find_cookie name segs"
  by (induction cs) (auto simp: other_cookie_def find_cookie_segment simp del: find_cookie.simps)

lemma parse_own_cookie:
  assumes "sid \<noteq> []" "list_all is_id_char sid" "name \<noteq> []" "list_all is_id_char name"
    and "list_all (other_cookie name) before" "list_all (\<lambda>(n, v). list_all is_id_char n \<and> list_all is_id_char v) after"
  shows "parseSessionCookie (HeaderOne (cookie_header (before @ (name, sid) # after))) name = Some sid"
proof -
  let ?ps = "map plain_pair (before @ (name, sid) # after)"
  have clean: "\<forall>p\<in>set ?ps. CHR '';'' \<notin> set p"
    using assms pair_clean by (auto simp: other_cookie_def list_all_iff)
  have found: "find_cookie name (seg # segs) = Some sid"
    if "seg \<in> {plain_pair (name, sid), CHR '' '' # plain_pair (name, sid)}" for seg segs
    using find_cookie_segment [OF assms(3,4,2) that] assms(1) by simp
  have "find_cookie name (hd ?ps # map (Cons CHR '' '') (tl ?ps)) = Some sid"
  proof (cases before)
    case Nil
    then show ?thesis using found by simp
  next
    case (Cons c cs)
    obtain n v where c: "c = (n, v)" by (cases c)
    have "find_cookie name (plain_pair c # map (\<lambda>p. CHR '' '' # plain_pair p) cs @
        (CHR '' '' # plain_pair (name, sid)) # map (\<lambda>p. CHR '' '' # plain_pair p) after) = Some sid"
    proof -
      have first: "n \<noteq> []" "list_all is_id_char n" "list_all is_id_char v" "n \<noteq> name"
        and rest: "list_all (other_cookie name) cs"
        using assms(5) Cons c by (simp_all add: other_cookie_def)
      show ?thesis
        unfolding c using first found
        by (simp add: find_cookie_segment find_cookie_skip [OF rest] del: find_cookie.simps)
    qed
    then show ?thesis using Cons by (simp add: comp_def del: find_cookie.simps)
  qed
  then have "find_cookie name (js_split CHR '';'' (cookie_header (before @ (name, sid) # after))) = Some sid"
    unfolding cookie_header_def using split_header [OF _ clean] by simp
  moreover have "cookie_header (before @ (name, sid) # after) \<noteq> []"
    using calculation by (cases "cookie_header (before @ (name, sid) # after)") (auto simp: js_trim_def)
  ultimately show ?thesis by (simp add: parseSessionCookie_def)
qed

text \<open>What is read is an identifier, whatever the header.\<close>

lemma find_cookie_safe: "find_cookie name segs = Some v \<Longrightarrow> v \<noteq> [] \<and> list_all is_id_char v"
  by (induction name segs rule: find_cookie.induct) (auto simp: Let_def split: if_splits)

lemma parse_cookie_safe: "parseSessionCookie h name = Some v \<Longrightarrow> v \<noteq> [] \<and> list_all is_id_char v"
  using find_cookie_safe by (auto simp: parseSessionCookie_def split: option.splits if_splits)

text \<open>The browser keeps the pair of a \<open>Set-Cookie\<close> header: what comes before the first semicolon.\<close>

lemma serialized_pair:
  assumes "sid \<noteq> []" "list_all is_id_char sid" "list_all is_id_char name"
  shows "\<exists>h. serializeSessionCookie sid secure name = Inr h \<and> hd (js_split CHR '';'' h) = plain_pair (name, sid)"
proof -
  let ?p = "plain_pair (name, sid)"
  have "serializeSessionCookie sid secure name =
      Inr (?p @ CHR '';'' # ('' '' @ js_join ''; '' ([''Path=/'', ''HttpOnly'', ''SameSite=Lax''] @ cookie_attributes secure)))"
    using assms(1) by (simp add: serializeSessionCookie_def plain_pair_def)
  then show ?thesis using js_split_append_sep [OF pair_clean [OF assms(3,2)]] by simp
qed

end
