(* ===== verification/Capped_Map.thy ===== *)
theory Capped_Map
  imports C2c_Prelude
begin

text \<open>
  The eviction loop that the rate limiter and the session store of the BFF both have: first in, first
  out, until there is room for one more entry.  The contract of a store that evicts before it inserts
  bounds its memory.
\<close>

text \<open>\<open>while (m.size >= cap) m.delete(m.keys().next().value)\<close>, over when the map is empty.\<close>

function evictUntilUnderCap :: "int \<Rightarrow> ('k, 'v) js_map \<Rightarrow> ('k, 'v) js_map" where
  "evictUntilUnderCap cap [] = []"
| "evictUntilUnderCap cap ((k, v) # m) =
     (if int (length ((k, v) # m)) \<ge> cap then evictUntilUnderCap cap (js_delete k m) else (k, v) # m)"
  by pat_completeness auto
termination by (relation "measure (\<lambda>(_, m). length m)") (auto simp: le_imp_less_Suc length_js_delete_le)

lemma js_delete_fresh: "k \<notin> set (js_keys m) \<Longrightarrow> js_delete k m = m"
  by (auto simp: AList.delete_eq filter_id_conv image_iff)

lemma evict_drops: "js_map_ok m \<Longrightarrow> \<exists>n. evictUntilUnderCap cap m = drop n m"
proof (induction m)
  case (Cons p m)
  obtain k v where p: "p = (k, v)" by (cases p)
  obtain n where "evictUntilUnderCap cap m = drop n m" using Cons by auto
  moreover have "js_delete k m = m" using Cons.prems p js_delete_fresh by fastforce
  ultimately have "evictUntilUnderCap cap (p # m) = (if int (length (p # m)) \<ge> cap then drop (Suc n) (p # m) else drop 0 (p # m))"
    using p by simp
  then show ?case by metis
qed simp

lemma evict_size: "js_map_ok m \<Longrightarrow> int (length (evictUntilUnderCap cap m)) < cap \<or> evictUntilUnderCap cap m = []"
proof (induction m)
  case (Cons p m)
  obtain k v where p: "p = (k, v)" by (cases p)
  have "js_delete k m = m" using Cons.prems p js_delete_fresh by fastforce
  then show ?case using Cons p by auto
qed simp

lemma evict_map_ok: "js_map_ok m \<Longrightarrow> js_map_ok (evictUntilUnderCap cap m)"
  using evict_drops [of m cap] by (metis distinct_drop drop_map)

lemma evict_subset: "js_map_ok m \<Longrightarrow> set (evictUntilUnderCap cap m) \<subseteq> set m"
  using evict_drops [of m cap] by (metis set_drop_subset)

lemma evict_length: "js_map_ok m \<Longrightarrow> length (evictUntilUnderCap cap m) \<le> length m"
  using evict_drops [of m cap] by (metis length_drop diff_le_self)

lemma evict_room: "int (length m) < cap \<Longrightarrow> evictUntilUnderCap cap m = m"
  by (cases m) auto

text \<open>With fewer than the cap after it, an entry is not the one that is dropped.\<close>

lemma evict_keeps_last: "js_map_ok m \<Longrightarrow> m = pre @ p # post \<Longrightarrow> int (length post) + 1 < cap \<Longrightarrow>
   \<exists>pre'. evictUntilUnderCap cap m = pre' @ p # post"
proof (induction pre arbitrary: m)
  case Nil
  then show ?case by (cases p) (auto intro: exI [of _ "[]"])
next
  case (Cons q pre)
  obtain k v where q: "q = (k, v)" by (cases q)
  have "js_delete k (pre @ p # post) = pre @ p # post"
    using Cons.prems(1,2) q js_delete_fresh [of k "pre @ p # post"] by fastforce
  then show ?case
    using Cons.IH [of "pre @ p # post"] Cons.prems q by (auto intro: exI [of _ "q # pre"])
qed

text \<open>
  A store over a capped map: each operation keeps the keys distinct and either does not grow the map
  or leaves it within the cap (one entry is always allowed).
\<close>

locale capped_map =
  fixes cap :: int
    and step :: "'op \<Rightarrow> ('k, 'v) js_map \<Rightarrow> ('k, 'v) js_map"
  assumes step_ok: "js_map_ok m \<Longrightarrow> js_map_ok (step a m)"
    and step_size: "js_map_ok m \<Longrightarrow> length (step a m) \<le> length m \<or> int (length (step a m)) \<le> max 1 cap"
begin

definition run_all :: "'op list \<Rightarrow> ('k, 'v) js_map" where
  "run_all ops = foldl (\<lambda>m a. step a m) [] ops"

lemma run_all_bounded: "js_map_ok (run_all ops) \<and> int (length (run_all ops)) \<le> max 1 cap"
proof (induction ops rule: rev_induct)
  case (snoc a ops)
  have "run_all (ops @ [a]) = step a (run_all ops)" by (simp add: run_all_def)
  then show ?case using step_ok [of "run_all ops" a] step_size [of "run_all ops" a] snoc by auto
qed (simp add: run_all_def)

end

end
