(* ===== verification/Session_Store.thy ===== *)
theory Session_Store
  imports Capped_Map Js_Text "HOL-Library.List_Lexorder" "HOL-Library.Char_ord"
begin

text \<open>
  \<open>sessionStore.ts\<close>: the sessions of the BFF with the secrets that wrap the draft keys.  Times are
  milliseconds; the random bytes are arguments.  The preferences of a session are a plain object, so
  that reading one finds the members of \<open>Object.prototype\<close> too.
\<close>

section \<open>Data\<close>

record redaction_addition =
  addId :: string
  addLiteral :: string

record session_identity =
  idTenant :: string
  idUser :: string
  idAdditions :: "json list option"

record session_record =
  sesId :: string
  sesTenant :: string
  sesUser :: string
  sesSecret :: string
  sesAdditions :: "redaction_addition list"
  sesPreferences :: "(string, string) js_map"
  sesCreatedAt :: int

record stored_session =
  storedRecord :: session_record
  lastAccessMs :: int
  createdAtMs :: int

type_synonym sessions = "(string, stored_session) js_map"

record session_options =
  idleTimeoutMs :: int
  maxSessions :: int

definition default_sessions :: session_options where
  "default_sessions = \<lparr>idleTimeoutMs = 8 * 60 * 60 * 1000, maxSessions = 10000\<rparr>"

section \<open>Identities\<close>

definition safe_id :: "string \<Rightarrow> bool" where
  "safe_id s \<longleftrightarrow> list_all is_id_char s \<and> 1 \<le> length s \<and> length s \<le> 128"

definition validateOpaqueIdentifier :: "string \<Rightarrow> string \<Rightarrow> string + unit" where
  "validateOpaqueIdentifier field value =
     (if value = [] then Inl (field @ '' must be a non-empty opaque identifier'')
      else if CHR ''@'' \<in> set value then
        Inl (field @ '' must be an opaque pseudonymous identifier; '' @ [CHR 0x27, CHR ''@'', CHR 0x27]
          @ '' is forbidden (looks like an email)'')
      else if list_ex is_js_space value then Inl (field @ '' must not contain whitespace'')
      else if \<not> safe_id value then Inl (field @ '' must match [A-Za-z0-9._-]{1,128}'')
      else Inr ())"

definition MAX_REDACTION_ADDITIONS :: nat where "MAX_REDACTION_ADDITIONS = 25"

definition MAX_REDACTION_LITERAL_CHARS :: nat where "MAX_REDACTION_LITERAL_CHARS = 256"

definition redaction_id_ok :: "string \<Rightarrow> bool" where
  "redaction_id_ok s \<longleftrightarrow>
     list_all (\<lambda>c. is_id_char c \<or> c = CHR '':'') s \<and> 1 \<le> length s \<and> length s \<le> 96"

text \<open>\<open>Object.keys\<close> of an object or array, \<open>None\<close> for the values that are not objects.\<close>

fun object_keys :: "json \<Rightarrow> string list option" where
  "object_keys (JObj fs) = Some (map fst fs)"
| "object_keys (JArr xs) = Some (map (\<lambda>i. int_string (int i)) [0..<length xs])"
| "object_keys _ = None"

fun json_field :: "json \<Rightarrow> string \<Rightarrow> json option" where
  "json_field (JObj fs) k = js_get fs k"
| "json_field _ k = None"

definition validateRedactionAddition :: "json \<Rightarrow> string + redaction_addition" where
  "validateRedactionAddition addition =
     (case object_keys addition of
        None \<Rightarrow> Inl ''studioRedactionPatternAdditions entries must be objects''
      | Some keys \<Rightarrow>
          (if sort keys \<noteq> [''id'', ''literal''] then
             Inl ''studioRedactionPatternAdditions entries must contain only id and literal''
           else case as_string (json_field addition ''id'') of
             None \<Rightarrow> Inl ''studioRedactionPatternAdditions id must match [A-Za-z0-9._:-]{1,96}''
           | Some i \<Rightarrow>
               (if \<not> redaction_id_ok i then
                  Inl ''studioRedactionPatternAdditions id must match [A-Za-z0-9._:-]{1,96}''
                else case as_string (json_field addition ''literal'') of
                  None \<Rightarrow> Inl ''studioRedactionPatternAdditions literal must be 1-256 characters''
                | Some l \<Rightarrow>
                    (if js_trim l = [] \<or> length l > MAX_REDACTION_LITERAL_CHARS then
                       Inl ''studioRedactionPatternAdditions literal must be 1-256 characters''
                     else Inr \<lparr>addId = i, addLiteral = l\<rparr>))))"

definition validateRedactionAdditions :: "json list \<Rightarrow> string + redaction_addition list" where
  "validateRedactionAdditions additions =
     (if length additions > MAX_REDACTION_ADDITIONS then
        Inl ''studioRedactionPatternAdditions must be an array of at most 25 entries''
      else map_result validateRedactionAddition additions)"

definition validateSessionIdentity :: "session_identity \<Rightarrow> string + unit" where
  "validateSessionIdentity identity =
     and_then (validateOpaqueIdentifier ''tenantId'' (idTenant identity)) (\<lambda>_.
     and_then (validateOpaqueIdentifier ''userId'' (idUser identity)) (\<lambda>_.
     and_then (validateRedactionAdditions (or_default (idAdditions identity) [])) (\<lambda>_. Inr ())))"

section \<open>The store\<close>

definition sweepIdle :: "session_options \<Rightarrow> int \<Rightarrow> sessions \<Rightarrow> sessions" where
  "sweepIdle opts currentMs m =
     (if idleTimeoutMs opts \<le> 0 then m
      else filter (\<lambda>(_, e). \<not> currentMs - lastAccessMs e > idleTimeoutMs opts) m)"

definition createSession ::
  "session_options \<Rightarrow> bytes \<Rightarrow> bytes \<Rightarrow> session_identity \<Rightarrow> int \<Rightarrow> sessions \<Rightarrow> string + session_record \<times> sessions"
  where
  "createSession opts idBytes secretBytes identity currentMs m =
     and_then (validateSessionIdentity identity) (\<lambda>_.
       let m1 = evictUntilUnderCap (maxSessions opts) (sweepIdle opts currentMs m);
           sessionId = bytesToHex idBytes
       in and_then (validateRedactionAdditions (or_default (idAdditions identity) [])) (\<lambda>additions.
            let r = \<lparr>sesId = sessionId, sesTenant = idTenant identity, sesUser = idUser identity,
                     sesSecret = toBase64 secretBytes, sesAdditions = additions, sesPreferences = [],
                     sesCreatedAt = currentMs\<rparr>
            in Inr (r, js_set sessionId
                 \<lparr>storedRecord = r, lastAccessMs = currentMs, createdAtMs = currentMs\<rparr> m1)))"

definition getSession :: "session_options \<Rightarrow> string \<Rightarrow> int \<Rightarrow> sessions \<Rightarrow> session_record option \<times> sessions" where
  "getSession opts sessionId currentMs m =
     (if sessionId = [] then (None, m)
      else case js_get m sessionId of
        None \<Rightarrow> (None, m)
      | Some e \<Rightarrow>
          (if idleTimeoutMs opts > 0 \<and> currentMs - lastAccessMs e > idleTimeoutMs opts
           then (None, js_delete sessionId m)
           else (Some (storedRecord e), js_set sessionId (e\<lparr>lastAccessMs := currentMs\<rparr>) m)))"

text \<open>A property read on a plain object: its own entry, or a member of \<open>Object.prototype\<close>.\<close>

datatype preference = OwnPreference string | InheritedMember string

definition read_preference :: "(string, string) js_map \<Rightarrow> string \<Rightarrow> preference option" where
  "read_preference prefs programId =
     (case js_get prefs programId of
        Some t \<Rightarrow> Some (OwnPreference t)
      | None \<Rightarrow> if programId \<in> set object_prototype_members then Some (InheritedMember programId) else None)"

text \<open>Assigning a string to \<open>__proto__\<close> has no effect.\<close>

definition write_preference :: "(string, string) js_map \<Rightarrow> string \<Rightarrow> string \<Rightarrow> (string, string) js_map" where
  "write_preference prefs programId trustCaseId =
     (if programId = ''__proto__'' then prefs else js_set programId trustCaseId prefs)"

definition getTrustCasePreference ::
  "session_options \<Rightarrow> string \<Rightarrow> string \<Rightarrow> int \<Rightarrow> sessions \<Rightarrow> preference option \<times> sessions" where
  "getTrustCasePreference opts sessionId programId currentMs m =
     (case getSession opts sessionId currentMs m of
        (None, m1) \<Rightarrow> (None, m1)
      | (Some r, m1) \<Rightarrow> (if programId = [] then None else read_preference (sesPreferences r) programId, m1))"

text \<open>\<open>/^[A-Z][A-Z0-9-]{1,63}$/\<close>\<close>

definition trust_case_id_ok :: "string \<Rightarrow> bool" where
  "trust_case_id_ok s \<longleftrightarrow>
     (case s of [] \<Rightarrow> False
      | c # cs \<Rightarrow> is_upper c \<and> list_all (\<lambda>d. is_upper d \<or> is_digit d \<or> d = CHR ''-'') cs \<and>
          1 \<le> length cs \<and> length cs \<le> 63)"

text \<open>The stored entry and the returned record share the record object.\<close>

definition store_record :: "string \<Rightarrow> session_record \<Rightarrow> sessions \<Rightarrow> sessions" where
  "store_record sessionId r m =
     (case js_get m sessionId of None \<Rightarrow> m | Some e \<Rightarrow> js_set sessionId (e\<lparr>storedRecord := r\<rparr>) m)"

definition setTrustCasePreference ::
  "session_options \<Rightarrow> string \<Rightarrow> string \<Rightarrow> string \<Rightarrow> int \<Rightarrow> sessions \<Rightarrow>
   (string + session_record option) \<times> sessions" where
  "setTrustCasePreference opts sessionId programId trustCaseId currentMs m =
     (case getSession opts sessionId currentMs m of
        (None, m1) \<Rightarrow> (Inr None, m1)
      | (Some r, m1) \<Rightarrow>
          (if programId = [] \<or> trustCaseId = [] then (Inr None, m1)
           else if \<not> trust_case_id_ok trustCaseId then
             (Inl ''trustCaseId must match the trust-case identifier pattern'', m1)
           else let r' = r\<lparr>sesPreferences := write_preference (sesPreferences r) programId trustCaseId\<rparr>
                in (Inr (Some r'), store_record sessionId r' m1)))"

definition deleteSession :: "string \<Rightarrow> sessions \<Rightarrow> bool \<times> sessions" where
  "deleteSession sessionId m =
     (if sessionId = [] then (False, m) else (js_get m sessionId \<noteq> None, js_delete sessionId m))"

end
