(* ===== verification/Session_Facts.thy ===== *)
theory Session_Facts
  imports Session_Store
begin

text \<open>
  The session store over any sequence of operations: its memory is bounded, a session keeps its
  secret while it is used in time, and one that has ended does not come back.
\<close>

section \<open>Operations in sequence\<close>

datatype session_op =
  OpCreate bytes bytes session_identity
| OpGet string
| OpGetPreference string string
| OpSetPreference string string string
| OpDelete string

fun session_step :: "session_options \<Rightarrow> session_op \<times> int \<Rightarrow> sessions \<Rightarrow> sessions" where
  "session_step opts (OpCreate ib sb identity, now) m =
     (case createSession opts ib sb identity now m of Inl _ \<Rightarrow> m | Inr (_, m') \<Rightarrow> m')"
| "session_step opts (OpGet sid, now) m = snd (getSession opts sid now m)"
| "session_step opts (OpGetPreference sid p, now) m = snd (getTrustCasePreference opts sid p now m)"
| "session_step opts (OpSetPreference sid p t, now) m = snd (setTrustCasePreference opts sid p t now m)"
| "session_step opts (OpDelete sid, now) m = snd (deleteSession sid m)"

definition session_run_ops :: "session_options \<Rightarrow> (session_op \<times> int) list \<Rightarrow> sessions \<Rightarrow> sessions" where
  "session_run_ops opts ops m = foldl (\<lambda>m op. session_step opts op m) m ops"

lemma session_run_ops_simps [simp]:
  "session_run_ops opts [] m = m"
  "session_run_ops opts (op # ops) m = session_run_ops opts ops (session_step opts op m)"
  by (simp_all add: session_run_ops_def)

section \<open>The shape of the map\<close>

lemma sweep_map_ok: "js_map_ok m \<Longrightarrow> js_map_ok (sweepIdle opts now m)"
  by (simp add: sweepIdle_def distinct_map_filter)

lemma sweep_subset: "set (sweepIdle opts now m) \<subseteq> set m"
  by (auto simp: sweepIdle_def)

lemma sweep_length: "length (sweepIdle opts now m) \<le> length m"
  by (simp add: sweepIdle_def)

lemma get_map_ok: "js_map_ok m \<Longrightarrow> js_map_ok (snd (getSession opts sid now m))"
  by (auto simp: getSession_def split: option.splits intro!: js_map_ok_set js_map_ok_delete)

lemma get_length: "length (snd (getSession opts sid now m)) \<le> length m"
  by (auto simp: getSession_def length_js_set length_js_delete_le split: option.splits)

lemma store_record_ok: "js_map_ok m \<Longrightarrow> js_map_ok (store_record sid r m)"
  by (auto simp: store_record_def split: option.splits intro!: js_map_ok_set)

lemma store_record_length [simp]: "length (store_record sid r m) = length m"
  by (auto simp: store_record_def length_js_set split: option.splits)

text \<open>Reading and writing a preference change the map as a plain access does, up to the record.\<close>

lemma get_preference_map: "snd (getTrustCasePreference opts sid p now m) = snd (getSession opts sid now m)"
  by (simp add: getTrustCasePreference_def split: prod.splits option.splits)

lemma set_preference_map:
  "snd (setTrustCasePreference opts sid p t now m) = snd (getSession opts sid now m) \<or>
   (\<exists>r prefs. fst (getSession opts sid now m) = Some r \<and>
      snd (setTrustCasePreference opts sid p t now m) =
        store_record sid (r\<lparr>sesPreferences := prefs\<rparr>) (snd (getSession opts sid now m)))"
  by (auto simp: setTrustCasePreference_def Let_def split: prod.splits option.splits)

lemma create_map:
  "createSession opts ib sb identity now m = Inr (r, m') \<Longrightarrow>
   m' = js_set (sesId r) \<lparr>storedRecord = r, lastAccessMs = now, createdAtMs = now\<rparr>
          (evictUntilUnderCap (maxSessions opts) (sweepIdle opts now m)) \<and>
   sesId r = bytesToHex ib \<and> sesSecret r = toBase64 sb \<and> sesTenant r = idTenant identity \<and>
   sesUser r = idUser identity \<and>
   validateRedactionAdditions (or_default (idAdditions identity) []) = Inr (sesAdditions r)"
  by (auto simp: createSession_def and_then_Inr Let_def)

lemma step_map_ok: "js_map_ok m \<Longrightarrow> js_map_ok (session_step opts op m)"
proof (cases op)
  case (Pair a now)
  assume ok: "js_map_ok m"
  show ?thesis
  proof (cases a)
    case (OpCreate ib sb identity)
    then show ?thesis using Pair ok create_map [of opts ib sb identity now m]
      by (auto simp: evict_map_ok sweep_map_ok intro!: js_map_ok_set split: sum.splits)
  next
    case (OpSetPreference sid p t)
    then show ?thesis using Pair ok set_preference_map [of opts sid p t now m]
      by (auto intro!: store_record_ok get_map_ok simp: get_map_ok)
  qed (use Pair ok in \<open>auto simp: get_map_ok get_preference_map deleteSession_def intro!: js_map_ok_delete\<close>)
qed

lemma run_map_ok: "js_map_ok m \<Longrightarrow> js_map_ok (session_run_ops opts ops m)"
  by (induction ops arbitrary: m) (simp_all add: step_map_ok)

lemma step_size:
  assumes ok: "js_map_ok m"
  shows "length (session_step opts op m) \<le> length m \<or> int (length (session_step opts op m)) \<le> max 1 (maxSessions opts)"
proof (cases op)
  case (Pair a now)
  show ?thesis
  proof (cases a)
    case (OpCreate ib sb identity)
    let ?e = "evictUntilUnderCap (maxSessions opts) (sweepIdle opts now m)"
    have "int (length ?e) < maxSessions opts \<or> ?e = []" by (intro evict_size sweep_map_ok ok)
    then have room: "int (Suc (length ?e)) \<le> max 1 (maxSessions opts)" by auto
    have "int (length (js_set k v ?e)) \<le> max 1 (maxSessions opts)" for k v
    proof -
      have "int (length (js_set k v ?e)) \<le> int (Suc (length ?e))" by (simp add: length_js_set)
      with room show ?thesis by linarith
    qed
    then show ?thesis using Pair OpCreate create_map [of opts ib sb identity now m]
      by (auto split: sum.splits)
  next
    case (OpSetPreference sid p t)
    then show ?thesis using Pair get_length [of opts sid now m] set_preference_map [of opts sid p t now m] by auto
  qed (use Pair get_length [of opts _ now m] in
      \<open>auto simp: get_preference_map deleteSession_def length_js_delete_le\<close>)
qed

interpretation session_map: capped_map "maxSessions opts" "session_step opts" for opts
  by unfold_locales (simp_all add: step_map_ok step_size)

section \<open>A session that is in use\<close>

text \<open>What a session was created with; only its preferences may differ.\<close>

definition same_session :: "session_record \<Rightarrow> session_record \<Rightarrow> bool" where
  "same_session r r' \<longleftrightarrow>
     sesId r' = sesId r \<and> sesTenant r' = sesTenant r \<and> sesUser r' = sesUser r \<and>
     sesSecret r' = sesSecret r \<and> sesAdditions r' = sesAdditions r \<and> sesCreatedAt r' = sesCreatedAt r"

text \<open>An access at \<open>now\<close> is in time after one at \<open>seen\<close>.\<close>

definition in_time :: "session_options \<Rightarrow> int \<Rightarrow> int \<Rightarrow> bool" where
  "in_time opts seen now \<longleftrightarrow> idleTimeoutMs opts \<le> 0 \<or> now - seen \<le> idleTimeoutMs opts"

fun accesses :: "string \<Rightarrow> session_op \<Rightarrow> bool" where
  "accesses sid (OpGet s) = (s = sid)"
| "accesses sid (OpGetPreference s _) = (s = sid)"
| "accesses sid (OpSetPreference s _ _) = (s = sid)"
| "accesses sid _ = False"

fun is_create :: "session_op \<Rightarrow> bool" where
  "is_create (OpCreate _ _ _) = True"
| "is_create _ = False"

text \<open>The time of the last access, and that each access and each sweep came in time.\<close>

fun last_access :: "string \<Rightarrow> int \<Rightarrow> (session_op \<times> int) list \<Rightarrow> int" where
  "last_access sid seen [] = seen"
| "last_access sid seen ((a, now) # ops) = last_access sid (if accesses sid a then now else seen) ops"

fun kept_alive :: "session_options \<Rightarrow> string \<Rightarrow> int \<Rightarrow> (session_op \<times> int) list \<Rightarrow> bool" where
  "kept_alive opts sid seen [] = True"
| "kept_alive opts sid seen ((a, now) # ops) =
     ((accesses sid a \<or> is_create a \<longrightarrow> in_time opts seen now) \<and>
      kept_alive opts sid (if accesses sid a then now else seen) ops)"

text \<open>No operation ends the session or reuses its id.\<close>

fun spares :: "string \<Rightarrow> session_op \<Rightarrow> bool" where
  "spares sid (OpDelete s) = (s \<noteq> sid)"
| "spares sid (OpCreate ib _ _) = (bytesToHex ib \<noteq> sid)"
| "spares sid _ = True"

definition tracked :: "string \<Rightarrow> session_record \<Rightarrow> int \<Rightarrow> nat \<Rightarrow> sessions \<Rightarrow> bool" where
  "tracked sid r seen n m \<longleftrightarrow>
     js_map_ok m \<and>
     (\<exists>e. js_get m sid = Some e \<and> lastAccessMs e = seen \<and> same_session r (storedRecord e)) \<and>
     (\<exists>pre post. js_keys m = pre @ sid # post \<and> length post \<le> n)"

lemma tracked_get:
  assumes tr: "tracked sid r seen n m" and "sid \<noteq> []"
  shows "in_time opts seen now \<Longrightarrow>
      (\<exists>r'. fst (getSession opts sid now m) = Some r' \<and> same_session r r') \<and>
      tracked sid r now n (snd (getSession opts sid now m))"
    and "\<not> in_time opts seen now \<Longrightarrow>
      fst (getSession opts sid now m) = None \<and> js_get (snd (getSession opts sid now m)) sid = None"
proof -
  obtain e where e: "js_get m sid = Some e" "lastAccessMs e = seen" "same_session r (storedRecord e)"
    and ok: "js_map_ok m" using tr by (auto simp: tracked_def)
  have keys: "js_keys (js_set sid e' m) = js_keys m" for e'
    using e(1) by (metis js_get_None_iff js_keys_set option.distinct(1))
  show "(\<exists>r'. fst (getSession opts sid now m) = Some r' \<and> same_session r r') \<and>
      tracked sid r now n (snd (getSession opts sid now m))" if "in_time opts seen now"
    using that e tr assms(2) keys ok
    by (auto simp: getSession_def in_time_def tracked_def intro!: js_map_ok_set)
  show "fst (getSession opts sid now m) = None \<and> js_get (snd (getSession opts sid now m)) sid = None"
    if "\<not> in_time opts seen now"
    using that e assms(2) by (auto simp: getSession_def in_time_def)
qed

text \<open>Changing another entry, or the record's preferences, keeps track.\<close>

lemma tracked_set_other:
  assumes "tracked sid r seen n m" and "k \<noteq> sid"
  shows "tracked sid r seen (if k \<in> set (js_keys m) then n else Suc n) (js_set k e m)"
proof -
  obtain pre post where keys: "js_keys m = pre @ sid # post" "length post \<le> n"
    using assms(1) by (auto simp: tracked_def)
  have "js_keys (js_set k e m) = (if k \<in> set (js_keys m) then pre @ sid # post else pre @ sid # (post @ [k]))"
    using keys(1) by (simp add: js_keys_set)
  then have "\<exists>pre post. js_keys (js_set k e m) = pre @ sid # post \<and>
      length post \<le> (if k \<in> set (js_keys m) then n else Suc n)"
    using keys(2) by (cases "k \<in> set (js_keys m)") force+
  then show ?thesis using assms by (auto simp: tracked_def intro!: js_map_ok_set)
qed

lemma tracked_delete_other:
  assumes "tracked sid r seen n m" and "k \<noteq> sid"
  shows "tracked sid r seen n (js_delete k m)"
proof -
  obtain pre post where keys: "js_keys m = pre @ sid # post" "length post \<le> n"
    using assms(1) by (auto simp: tracked_def)
  have "js_keys (js_delete k m) = filter (\<lambda>x. x \<noteq> k) (js_keys m)"
    by (induction m) auto
  then have "js_keys (js_delete k m) = filter (\<lambda>x. x \<noteq> k) pre @ sid # filter (\<lambda>x. x \<noteq> k) post"
    using keys(1) assms(2) by simp
  moreover have "length (filter (\<lambda>x. x \<noteq> k) post) \<le> n" using keys(2) length_filter_le order_trans by blast
  moreover have "js_map_ok (js_delete k m)" using assms(1) by (auto simp: tracked_def)
  moreover obtain e where "js_get m sid = Some e" "lastAccessMs e = seen" "same_session r (storedRecord e)"
    using assms(1) by (auto simp: tracked_def)
  moreover from this(1) have "js_get (js_delete k m) sid = Some e" using assms(2) by simp
  ultimately show ?thesis unfolding tracked_def by blast
qed

lemma tracked_store_record:
  assumes tr: "tracked sid r seen n m" and new: "k = sid \<Longrightarrow> same_session r r'"
  shows "tracked sid r seen n (store_record k r' m)"
proof (cases "k = sid")
  case True
  obtain e where e: "js_get m sid = Some e" "lastAccessMs e = seen" using tr by (auto simp: tracked_def)
  have keys: "js_keys (js_set sid e' m) = js_keys m" for e'
    using e(1) by (metis js_get_None_iff js_keys_set option.distinct(1))
  have "tracked sid r seen n (js_set sid (e\<lparr>storedRecord := r'\<rparr>) m)"
    using True tr e new keys by (auto simp: tracked_def intro!: js_map_ok_set)
  then show ?thesis using True e by (simp add: store_record_def)
next
  case False
  show ?thesis
  proof (cases "js_get m k")
    case None
    then show ?thesis using tr by (simp add: store_record_def)
  next
    case (Some e)
    then have "k \<in> set (js_keys m)" by (metis js_get_None_iff option.distinct(1))
    then show ?thesis using tracked_set_other [OF tr False, of "e\<lparr>storedRecord := r'\<rparr>"] Some
      by (simp add: store_record_def del: set_map)
  qed
qed

lemma tracked_get_other:
  assumes tr: "tracked sid r seen n m" and "k \<noteq> sid"
  shows "tracked sid r seen n (snd (getSession opts k now m))"
proof (cases "js_get m k")
  case None
  then show ?thesis using tr by (simp add: getSession_def)
next
  case (Some e)
  then have "k \<in> set (js_keys m)" by (metis js_get_None_iff option.distinct(1))
  then show ?thesis using Some tr assms(2) tracked_set_other [OF assms] tracked_delete_other [OF assms]
    by (simp add: getSession_def del: set_map)
qed

lemma get_middle: "m = pre @ (k, e) # post \<Longrightarrow> js_map_ok m \<Longrightarrow> js_get m k = Some e"
  by (metis in_set_conv_decomp js_get_iff)

lemma keys_mono_drop: "js_map_ok m \<Longrightarrow> js_keys m = pre @ sid # post \<Longrightarrow> js_get m sid = Some e \<Longrightarrow>
   \<exists>pre' post'. m = pre' @ (sid, e) # post' \<and> length post' = length post"
proof -
  assume ok: "js_map_ok m" and keys: "js_keys m = pre @ sid # post" and get: "js_get m sid = Some e"
  obtain pre' rest where m: "m = pre' @ rest" "js_keys pre' = pre" "js_keys rest = sid # post"
    using keys by (metis map_eq_append_conv)
  obtain e' post' where rest: "rest = (sid, e') # post'" "js_keys post' = post" using m(3) by auto
  have split: "m = pre' @ (sid, e') # post'" using m(1) rest(1) by simp
  have "e' = e" using get_middle [OF split ok] get by simp
  moreover have "length post' = length post" using rest(2) by (metis length_map)
  ultimately show ?thesis using split by blast
qed

lemma tracked_sweep:
  assumes tr: "tracked sid r seen n m" and live: "in_time opts seen now"
  shows "tracked sid r seen n (sweepIdle opts now m)"
proof -
  obtain pre post e where ok: "js_map_ok m" and keys: "js_keys m = pre @ sid # post" "length post \<le> n"
    and e: "js_get m sid = Some e" "lastAccessMs e = seen" "same_session r (storedRecord e)"
    using tr by (auto simp: tracked_def)
  obtain pre' post' where m: "m = pre' @ (sid, e) # post'" and len: "length post' = length post"
    using keys_mono_drop [OF ok keys(1) e(1)] by blast
  show ?thesis
  proof (cases "idleTimeoutMs opts \<le> 0")
    case True
    then show ?thesis using tr by (simp add: sweepIdle_def)
  next
    case False
    let ?P = "\<lambda>(_ :: string, e). \<not> now - lastAccessMs e > idleTimeoutMs opts"
    have swept: "sweepIdle opts now m = filter ?P pre' @ (sid, e) # filter ?P post'"
      using False live e(2) m by (simp add: sweepIdle_def in_time_def)
    have ok': "js_map_ok (sweepIdle opts now m)" using ok by (rule sweep_map_ok)
    then have "js_get (sweepIdle opts now m) sid = Some e" using get_middle swept by metis
    moreover have "js_keys (sweepIdle opts now m) = js_keys (filter ?P pre') @ sid # js_keys (filter ?P post')"
      by (simp add: swept)
    moreover have "length (js_keys (filter ?P post')) \<le> n"
      using keys(2) len by (metis length_filter_le length_map order_trans)
    ultimately show ?thesis using ok' e unfolding tracked_def by blast
  qed
qed

lemma tracked_evict:
  assumes tr: "tracked sid r seen n m" and room: "int n + 1 < cap"
  shows "tracked sid r seen n (evictUntilUnderCap cap m)"
proof -
  obtain pre post e where ok: "js_map_ok m" and keys: "js_keys m = pre @ sid # post" "length post \<le> n"
    and e: "js_get m sid = Some e" "lastAccessMs e = seen" "same_session r (storedRecord e)"
    using tr by (auto simp: tracked_def)
  obtain pre' post' where m: "m = pre' @ (sid, e) # post'" and len: "length post' = length post"
    using keys_mono_drop [OF ok keys(1) e(1)] by blast
  have "int (length post') + 1 < cap" using room len keys(2) by linarith
  then obtain pre'' where kept: "evictUntilUnderCap cap m = pre'' @ (sid, e) # post'"
    using evict_keeps_last [OF ok m] by blast
  have ok': "js_map_ok (evictUntilUnderCap cap m)" using ok by (rule evict_map_ok)
  then have "js_get (evictUntilUnderCap cap m) sid = Some e" using get_middle kept by metis
  moreover have "js_keys (evictUntilUnderCap cap m) = js_keys pre'' @ sid # js_keys post'" by (simp add: kept)
  moreover have "length (js_keys post') \<le> n" using keys(2) len by simp
  ultimately show ?thesis using ok' e unfolding tracked_def by blast
qed

lemma tracked_weaken: "tracked sid r seen n m \<Longrightarrow> n \<le> k \<Longrightarrow> tracked sid r seen k m"
  unfolding tracked_def by (elim conjE exE, intro conjI exI) (assumption | rule order_trans)+

lemma tracked_step:
  assumes tr: "tracked sid r seen n m" and "sid \<noteq> []" and "spares sid a"
    and live: "accesses sid a \<or> is_create a \<Longrightarrow> in_time opts seen now"
    and room: "is_create a \<Longrightarrow> int n + 1 < maxSessions opts"
  shows "tracked sid r (if accesses sid a then now else seen) (if is_create a then Suc n else n)
           (session_step opts (a, now) m)"
proof (cases a)
  case (OpCreate ib sb identity)
  let ?m1 = "evictUntilUnderCap (maxSessions opts) (sweepIdle opts now m)"
  show ?thesis
  proof (cases "createSession opts ib sb identity now m")
    case (Inl err)
    then show ?thesis using OpCreate tr tracked_weaken by simp
  next
    case (Inr out)
    obtain r' m' where out: "out = (r', m')" by (cases out)
    have new: "m' = js_set (sesId r') \<lparr>storedRecord = r', lastAccessMs = now, createdAtMs = now\<rparr> ?m1"
      "sesId r' \<noteq> sid"
      using create_map [of opts ib sb identity now m r' m'] Inr out assms(3) OpCreate by auto
    have "tracked sid r seen n ?m1"
      using OpCreate live room by (intro tracked_evict tracked_sweep tr) simp_all
    then have "tracked sid r seen (Suc n) m'"
      unfolding new(1) by (rule tracked_weaken [OF tracked_set_other [OF _ new(2)]]) simp
    then show ?thesis using OpCreate Inr out by simp
  qed
next
  case (OpGet s)
  then show ?thesis using tracked_get(1) [OF tr assms(2)] tracked_get_other [OF tr] live
    by (cases "s = sid") simp_all
next
  case (OpGetPreference s p)
  then show ?thesis using tracked_get(1) [OF tr assms(2)] tracked_get_other [OF tr] live
    by (cases "s = sid") (simp_all add: get_preference_map)
next
  case (OpSetPreference s p t)
  let ?g = "getSession opts s now m" and ?seen = "if s = sid then now else seen"
  have g: "tracked sid r ?seen n (snd ?g)"
    using tracked_get(1) [OF tr assms(2)] tracked_get_other [OF tr] live OpSetPreference by (cases "s = sid") simp_all
  have same: "same_session r (r'\<lparr>sesPreferences := prefs\<rparr>)" if "fst ?g = Some r'" "s = sid" for r' prefs
  proof -
    have "in_time opts seen now" using live OpSetPreference that(2) by simp
    from tracked_get(1) [OF tr assms(2) this] have "same_session r r'" using that by auto
    then show ?thesis by (simp add: same_session_def)
  qed
  have "tracked sid r ?seen n (snd (setTrustCasePreference opts s p t now m))"
    using set_preference_map [of opts s p t now m]
  proof (elim disjE exE conjE)
    fix r' prefs
    assume found: "fst ?g = Some r'" and out: "snd (setTrustCasePreference opts s p t now m) =
      store_record s (r'\<lparr>sesPreferences := prefs\<rparr>) (snd ?g)"
    show ?thesis unfolding out by (rule tracked_store_record [OF g]) (rule same [OF found])
  qed (use g in simp)
  then show ?thesis using OpSetPreference by simp
next
  case (OpDelete s)
  then show ?thesis using tr assms(3) tracked_delete_other by (simp add: deleteSession_def)
qed

fun creates :: "(session_op \<times> int) list \<Rightarrow> nat" where
  "creates [] = 0"
| "creates ((a, _) # ops) = (if is_create a then Suc (creates ops) else creates ops)"

lemma tracked_run:
  "tracked sid r seen n m \<Longrightarrow> sid \<noteq> [] \<Longrightarrow> list_all (spares sid \<circ> fst) ops \<Longrightarrow> kept_alive opts sid seen ops \<Longrightarrow>
   int (n + creates ops) < maxSessions opts \<Longrightarrow>
   \<exists>k. tracked sid r (last_access sid seen ops) k (session_run_ops opts ops m)"
proof (induction ops arbitrary: seen n m)
  case Nil
  then show ?case by auto
next
  case (Cons op ops)
  obtain a now where op: "op = (a, now)" by (cases op)
  have "tracked sid r (if accesses sid a then now else seen) (if is_create a then Suc n else n)
      (session_step opts (a, now) m)"
    using Cons.prems op by (intro tracked_step) (auto split: if_splits)
  from Cons.IH [OF this Cons.prems(2)] Cons.prems op show ?case by (auto split: if_splits)
qed

lemma tracked_create:
  assumes "createSession opts ib sb identity now m = Inr (r, m')" and "js_map_ok m"
    and "js_get m (sesId r) = None"
  shows "tracked (sesId r) r now 0 m'"
proof -
  let ?m1 = "evictUntilUnderCap (maxSessions opts) (sweepIdle opts now m)"
  have ok: "js_map_ok ?m1" using assms(2) by (intro evict_map_ok sweep_map_ok)
  have "set ?m1 \<subseteq> set m"
    using evict_subset [OF sweep_map_ok [OF assms(2)]] sweep_subset by (meson order_trans)
  then have "sesId r \<notin> set (js_keys ?m1)" using assms(3) by (auto simp: js_get_None_iff)
  then show ?thesis using create_map [OF assms(1)] ok
    by (auto simp: tracked_def same_session_def js_keys_set simp del: set_map intro!: js_map_ok_set)
qed

section \<open>A session that has ended\<close>

lemma absent_step:
  assumes "js_map_ok m" and "js_get m sid = None" and "spares sid a \<or> \<not> is_create a"
  shows "js_get (session_step opts (a, now) m) sid = None"
proof -
  have other: "js_get (snd (getSession opts s now m)) sid = None" for s
    using assms(2) by (cases "s = sid") (auto simp: getSession_def split: option.splits)
  show ?thesis
  proof (cases a)
    case (OpCreate ib sb identity)
    let ?m1 = "evictUntilUnderCap (maxSessions opts) (sweepIdle opts now m)"
    have "set ?m1 \<subseteq> set m"
      using evict_subset [OF sweep_map_ok [OF assms(1)]] sweep_subset by (meson order_trans)
    then have "js_get ?m1 sid = None" using assms(2) by (auto simp: js_get_None_iff)
    then show ?thesis using OpCreate assms(2,3) create_map [of opts ib sb identity now m]
      by (auto split: sum.splits)
  next
    case (OpSetPreference s p t)
    have "js_get (store_record s r (snd (getSession opts s now m))) sid = None" for r
      using other [of s] by (auto simp: store_record_def split: option.splits)
    then show ?thesis using OpSetPreference other set_preference_map [of opts s p t now m] by auto
  qed (use assms(2) other in \<open>simp_all add: get_preference_map deleteSession_def\<close>)
qed

lemma absent_run:
  "js_map_ok m \<Longrightarrow> js_get m sid = None \<Longrightarrow> list_all (\<lambda>(a, _). is_create a \<longrightarrow> spares sid a) ops \<Longrightarrow>
   js_get (session_run_ops opts ops m) sid = None"
proof (induction ops arbitrary: m)
  case (Cons op ops)
  obtain a now where "op = (a, now)" by (cases op)
  then show ?case using Cons step_map_ok [OF Cons.prems(1)] absent_step [OF Cons.prems(1,2), of a opts now] by auto
qed simp

lemma absent_get: "js_get m sid = None \<Longrightarrow> fst (getSession opts sid now m) = None"
  by (simp add: getSession_def)

end
