(* ===== verification/Session_Bootstrap.thy ===== *)
theory Session_Bootstrap
  imports Session_Store Draft_Store
begin

text \<open>
  \<open>sessionBootstrap.ts\<close>: the Studio side of the session.  The response of the BFF is validated again,
  a bootstrap in flight is shared by its callers, and \<open>ensureSessionBootstrap\<close> signs in once when
  there is no session.
\<close>

section \<open>Parsing the response\<close>

definition id_field :: "string option \<Rightarrow> bootstrap_error + string" where
  "id_field v =
     (case v of
        None \<Rightarrow> Inl InvalidResponse
      | Some s \<Rightarrow>
          (if \<not> safe_id s then Inl InvalidResponse
           else if CHR ''@'' \<in> set s \<or> list_ex is_js_space s then Inl InvalidResponse else Inr s))"

definition parseRedactionAddition :: "json \<Rightarrow> bootstrap_error + redaction_addition" where
  "parseRedactionAddition entry =
     (case as_object entry of
        None \<Rightarrow> Inl InvalidResponse
      | Some fs \<Rightarrow>
          (case (as_string (js_get fs ''id''), as_string (js_get fs ''literal'')) of
             (Some i, Some l) \<Rightarrow>
               (if \<not> redaction_id_ok i \<or> js_trim l = [] \<or> length l > MAX_REDACTION_LITERAL_CHARS
                then Inl InvalidResponse else Inr \<lparr>addId = i, addLiteral = l\<rparr>)
           | _ \<Rightarrow> Inl InvalidResponse))"

definition parseRedactionPatternAdditions :: "json option \<Rightarrow> bootstrap_error + redaction_addition list" where
  "parseRedactionPatternAdditions raw =
     (case raw of
        None \<Rightarrow> Inr []
      | Some (JArr xs) \<Rightarrow>
          (if length xs > MAX_REDACTION_ADDITIONS then Inl InvalidResponse else map_result parseRedactionAddition xs)
      | Some _ \<Rightarrow> Inl InvalidResponse)"

definition secret_field :: "string option \<Rightarrow> bootstrap_error + bytes" where
  "secret_field v =
     (case v of
        None \<Rightarrow> Inl InvalidResponse
      | Some s \<Rightarrow>
          (if s = [] then Inl InvalidResponse
           else case atob s of
             None \<Rightarrow> Inl InvalidResponse
           | Some bs \<Rightarrow> if length bs \<noteq> 32 then Inl InvalidResponse else Inr bs))"

definition parseBootstrapResponse :: "json \<Rightarrow> bootstrap_error + session_bootstrap \<times> redaction_addition list" where
  "parseBootstrapResponse raw =
     (case as_object raw of
        None \<Rightarrow> Inl InvalidResponse
      | Some obj \<Rightarrow>
          and_then (id_field (as_string (js_get obj ''tenantId''))) (\<lambda>tenantId.
          and_then (id_field (as_string (js_get obj ''userId''))) (\<lambda>userId.
          and_then (secret_field (as_string (js_get obj ''draftKeyWrappingSecret''))) (\<lambda>secret.
          and_then (parseRedactionPatternAdditions (js_get obj ''studioRedactionPatternAdditions'')) (\<lambda>additions.
            Inr (\<lparr>bootTenantId = tenantId, bootUserId = userId, wrappingSecret = secret\<rparr>, additions))))))"

section \<open>The requests\<close>

text \<open>What \<open>fetch\<close> gives: a network failure, or a status with a body that may not be JSON.\<close>

datatype fetched = FetchFailed | Fetched nat "json option"

definition response_ok :: "nat \<Rightarrow> bool" where
  "response_ok status \<longleftrightarrow> 200 \<le> status \<and> status \<le> 299"

fun fetchBootstrap :: "fetched \<Rightarrow> bootstrap_error + session_bootstrap \<times> redaction_addition list" where
  "fetchBootstrap FetchFailed = Inl NetworkError"
| "fetchBootstrap (Fetched status body) =
     (if status = 401 then Inl Unauthenticated
      else if \<not> response_ok status then Inl InvalidResponse
      else case body of None \<Rightarrow> Inl InvalidResponse | Some raw \<Rightarrow> parseBootstrapResponse raw)"

fun signInForBootstrap :: "fetched \<Rightarrow> bootstrap_error + unit" where
  "signInForBootstrap FetchFailed = Inl NetworkError"
| "signInForBootstrap (Fetched status _) =
     (if response_ok status then Inr () else Inl (if status = 401 then Unauthenticated else InvalidResponse))"

text \<open>\<open>ensureSessionBootstrap\<close> for the answers to the first bootstrap, the sign-in and the second.\<close>

definition ensureSessionBootstrap ::
  "fetched \<Rightarrow> fetched \<Rightarrow> fetched \<Rightarrow> bootstrap_error + session_bootstrap \<times> redaction_addition list" where
  "ensureSessionBootstrap first_try signIn second_try =
     (case fetchBootstrap first_try of
        Inl Unauthenticated \<Rightarrow> and_then (signInForBootstrap signIn) (\<lambda>_. fetchBootstrap second_try)
      | result \<Rightarrow> result)"

section \<open>The shared promise\<close>

text \<open>
  \<open>cached\<close> is the request in flight with the dependencies it was made with; \<open>settled\<close> promises drop
  out by the identity check of the \<open>finally\<close> callback.
\<close>

record 'd bootstrap_cache =
  cached :: "(nat \<times> 'd) option"
  nextRequest :: nat

definition getSessionBootstrap :: "'d \<Rightarrow> 'd bootstrap_cache \<Rightarrow> nat \<times> 'd bootstrap_cache" where
  "getSessionBootstrap deps c =
     (case cached c of
        Some (i, d) \<Rightarrow>
          (if d = deps then (i, c)
           else (nextRequest c, c\<lparr>cached := Some (nextRequest c, deps), nextRequest := Suc (nextRequest c)\<rparr>))
      | None \<Rightarrow> (nextRequest c, c\<lparr>cached := Some (nextRequest c, deps), nextRequest := Suc (nextRequest c)\<rparr>))"

definition clearSessionBootstrap :: "'d bootstrap_cache \<Rightarrow> 'd bootstrap_cache" where
  "clearSessionBootstrap c = c\<lparr>cached := None\<rparr>"

definition bootstrap_settled :: "nat \<Rightarrow> 'd bootstrap_cache \<Rightarrow> 'd bootstrap_cache" where
  "bootstrap_settled i c =
     (case cached c of Some (j, _) \<Rightarrow> if j = i then c\<lparr>cached := None\<rparr> else c | None \<Rightarrow> c)"

text \<open>A caller after the settlement of a request never gets that request again.\<close>

definition bootstrap_cache_ok :: "nat set \<Rightarrow> 'd bootstrap_cache \<Rightarrow> bool" where
  "bootstrap_cache_ok settled c \<longleftrightarrow>
     (\<forall>i\<in>settled. i < nextRequest c) \<and> (\<forall>i d. cached c = Some (i, d) \<longrightarrow> i < nextRequest c \<and> i \<notin> settled)"

lemma bootstrap_cache_get:
  "bootstrap_cache_ok settled c \<Longrightarrow> fst (getSessionBootstrap deps c) \<notin> settled \<and> bootstrap_cache_ok settled (snd (getSessionBootstrap deps c))"
  by (auto simp: bootstrap_cache_ok_def getSessionBootstrap_def less_Suc_eq split: option.splits)

lemma bootstrap_cache_clear: "bootstrap_cache_ok settled c \<Longrightarrow> bootstrap_cache_ok settled (clearSessionBootstrap c)"
  by (simp add: bootstrap_cache_ok_def clearSessionBootstrap_def)

lemma bootstrap_cache_settled:
  "bootstrap_cache_ok settled c \<Longrightarrow> i < nextRequest c \<Longrightarrow> bootstrap_cache_ok (insert i settled) (bootstrap_settled i c)"
  by (auto simp: bootstrap_cache_ok_def bootstrap_settled_def split: option.splits)

section \<open>What the parser guarantees\<close>

lemma id_field_Inr: "id_field v = Inr s \<longleftrightarrow> v = Some s \<and> safe_id s"
proof -
  have "CHR ''@'' \<notin> set s \<and> \<not> list_ex is_js_space s" if "safe_id s" for s
  proof -
    have "\<not> is_id_char CHR ''@''"
      by (simp add: is_id_char_def is_alnum_def is_upper_def is_lower_def is_digit_def char_between_def)
    then show ?thesis using that id_char_not_space by (auto simp: safe_id_def list_all_iff list_ex_iff)
  qed
  then show ?thesis by (auto simp: id_field_def split: option.splits if_splits)
qed

lemma secret_field_Inr: "secret_field v = Inr bs \<longleftrightarrow> (\<exists>s. v = Some s \<and> s \<noteq> [] \<and> atob s = Some bs \<and> length bs = 32)"
  by (auto simp: secret_field_def split: option.splits if_splits)

text \<open>An addition as the BFF sends it is read back.\<close>

definition addition_ok :: "redaction_addition \<Rightarrow> bool" where
  "addition_ok a \<longleftrightarrow> redaction_id_ok (addId a) \<and> js_trim (addLiteral a) \<noteq> [] \<and>
     length (addLiteral a) \<le> MAX_REDACTION_LITERAL_CHARS"

definition addition_json :: "redaction_addition \<Rightarrow> json" where
  "addition_json a = JObj [(''id'', JStr (addId a)), (''literal'', JStr (addLiteral a))]"

lemma parse_addition: "addition_ok a \<Longrightarrow> parseRedactionAddition (addition_json a) = Inr a"
  by (simp add: parseRedactionAddition_def addition_json_def addition_ok_def)

lemma parse_additions: "list_all addition_ok as \<Longrightarrow> map_result parseRedactionAddition (map addition_json as) = Inr as"
  by (induction as) (simp_all add: parse_addition)

lemma validated_addition_ok: "validateRedactionAddition x = Inr a \<Longrightarrow> addition_ok a"
  by (auto simp: validateRedactionAddition_def addition_ok_def split: option.splits if_splits)

lemma validated_map: "map_result validateRedactionAddition xs = Inr as \<Longrightarrow> list_all addition_ok as \<and> length as = length xs"
  by (induction xs arbitrary: as) (auto simp: and_then_Inr validated_addition_ok)

lemma validated_additions_ok:
  "validateRedactionAdditions xs = Inr as \<Longrightarrow> list_all addition_ok as \<and> length as \<le> MAX_REDACTION_ADDITIONS"
  using validated_map [of xs as] by (auto simp: validateRedactionAdditions_def split: if_splits)

end
