(* ===== verification/Rate_Limit.thy ===== *)
theory Rate_Limit
  imports Capped_Map
begin

text \<open>
  \<open>rateLimit.ts\<close>: the sliding-window rate limiter of the sign-in route.  Its buckets refine a log of
  all permitted hits, as long as no bucket is evicted.
\<close>

section \<open>The code\<close>

record limiter_options =
  maxHits :: int
  windowMs :: int
  maxBuckets :: int

definition default_limiter :: limiter_options where
  "default_limiter = \<lparr>maxHits = 10, windowMs = 60000, maxBuckets = 4096\<rparr>"

type_synonym buckets = "(string, int list) js_map"

text \<open>The loop that drops old hits in place; the array is cut at the write index after it.\<close>

function compact_hits :: "int \<Rightarrow> nat \<Rightarrow> nat \<Rightarrow> int list \<Rightarrow> int list" where
  "compact_hits cutoff readIndex writeIndex timestamps =
     (if readIndex < length timestamps then
        (if timestamps ! readIndex > cutoff
         then compact_hits cutoff (Suc readIndex) (Suc writeIndex) (timestamps[writeIndex := timestamps ! readIndex])
         else compact_hits cutoff (Suc readIndex) writeIndex timestamps)
      else take writeIndex timestamps)"
  by pat_completeness auto
termination by (relation "measure (\<lambda>(_, r, _, ts). length ts - r)") auto

declare compact_hits.simps [simp del]

definition consume :: "limiter_options \<Rightarrow> string \<Rightarrow> int \<Rightarrow> buckets \<Rightarrow> bool \<times> buckets" where
  "consume opts bucketKey currentMs m =
     (if bucketKey = [] then (True, m)
      else let cutoff = currentMs - windowMs opts;
               found = js_get m bucketKey;
               m1 = (case found of Some _ \<Rightarrow> m
                     | None \<Rightarrow> js_set bucketKey [] (evictUntilUnderCap (maxBuckets opts) m));
               timestamps = compact_hits cutoff 0 0 (or_default found [])
           in if int (length timestamps) \<ge> maxHits opts then (False, js_set bucketKey timestamps m1)
              else (True, js_set bucketKey (timestamps @ [currentMs]) m1))"

definition resolveClientBucketKey :: "string option \<Rightarrow> string" where
  "resolveClientBucketKey remote =
     (case remote of None \<Rightarrow> ''unknown'' | Some r \<Rightarrow> if r = [] then ''unknown'' else r)"

section \<open>The loop is a filter\<close>

lemma compact_hits_filter:
  "w \<le> r \<Longrightarrow> r \<le> length ts \<Longrightarrow>
   compact_hits cutoff r w ts = take w ts @ filter (\<lambda>t. cutoff < t) (drop r ts)"
proof (induction cutoff r w ts rule: compact_hits.induct)
  case (1 cutoff r w ts)
  show ?case
  proof (cases "r < length ts")
    case True
    then have d: "drop r ts = ts ! r # drop (Suc r) ts" by (simp add: Cons_nth_drop_Suc)
    show ?thesis
    proof (cases "ts ! r > cutoff")
      case keep: True
      have "compact_hits cutoff r w ts = compact_hits cutoff (Suc r) (Suc w) (ts[w := ts ! r])"
        using True keep by (subst compact_hits.simps) simp
      also have "\<dots> = take (Suc w) (ts[w := ts ! r]) @ filter (\<lambda>t. cutoff < t) (drop (Suc r) (ts[w := ts ! r]))"
        using "1.IH"(1) [OF True keep] "1.prems" True by simp
      also have "take (Suc w) (ts[w := ts ! r]) = take w ts @ [ts ! r]"
        using "1.prems" True by (simp add: take_Suc_conv_app_nth)
      also have "drop (Suc r) (ts[w := ts ! r]) = drop (Suc r) ts"
        using "1.prems" by simp
      finally show ?thesis using keep d by simp
    next
      case False
      have "compact_hits cutoff r w ts = compact_hits cutoff (Suc r) w ts"
        using True False by (subst compact_hits.simps) simp
      then show ?thesis using "1.IH"(2) [OF True False] "1.prems" True False d by simp
    qed
  next
    case False
    then show ?thesis using "1.prems" by (subst compact_hits.simps) simp
  qed
qed

lemma compact_hits_eq: "compact_hits cutoff 0 0 ts = filter (\<lambda>t. cutoff < t) ts"
  by (simp add: compact_hits_filter)

section \<open>Bounded memory\<close>

definition limiter_step :: "limiter_options \<Rightarrow> string \<times> int \<Rightarrow> buckets \<Rightarrow> buckets" where
  "limiter_step opts = (\<lambda>(k, now) m. snd (consume opts k now m))"

lemma consume_map_ok: "js_map_ok m \<Longrightarrow> js_map_ok (snd (consume opts k now m))"
  by (auto simp: consume_def Let_def evict_map_ok intro!: js_map_ok_set split: option.splits)

lemma length_consume_old: "js_get m k = Some ts \<Longrightarrow> length (snd (consume opts k now m)) = length m"
  by (auto simp: consume_def Let_def length_js_set)

lemma length_consume_new:
  assumes "js_get m k = None" and "k \<noteq> []" and "js_map_ok m"
  shows "length (snd (consume opts k now m)) = Suc (length (evictUntilUnderCap (maxBuckets opts) m))"
proof -
  have "js_get (evictUntilUnderCap (maxBuckets opts) m) k = None"
    using assms(1,3) evict_subset [of m "maxBuckets opts"] by (auto simp: js_get_None_iff)
  then show ?thesis using assms(1,2) by (simp add: consume_def Let_def length_js_set)
qed

interpretation limiter: capped_map "maxBuckets opts" "limiter_step opts" for opts
proof unfold_locales
  fix m :: buckets and a :: "string \<times> int"
  obtain k now where a: "a = (k, now)" by (cases a)
  assume ok: "js_map_ok m"
  then show "js_map_ok (limiter_step opts a m)" by (simp add: a limiter_step_def consume_map_ok)
  show "length (limiter_step opts a m) \<le> length m \<or> int (length (limiter_step opts a m)) \<le> max 1 (maxBuckets opts)"
  proof (cases "js_get m k")
    case None
    then show ?thesis
      using ok evict_size [OF ok, of "maxBuckets opts"] length_consume_new [OF None _ ok]
      by (cases "k = []") (auto simp: a limiter_step_def consume_def)
  qed (simp add: a limiter_step_def length_consume_old)
qed

section \<open>The abstract limiter\<close>

text \<open>It remembers every permitted hit and counts those within the window.\<close>

type_synonym hit_log = "string \<Rightarrow> int list"

definition log_consume :: "limiter_options \<Rightarrow> string \<Rightarrow> int \<Rightarrow> hit_log \<Rightarrow> bool \<times> hit_log" where
  "log_consume opts k now log =
     (if k = [] then (True, log)
      else if int (length (filter (\<lambda>t. now - windowMs opts < t) (log k))) \<ge> maxHits opts then (False, log)
      else (True, log(k := log k @ [now])))"

fun limiter_trace :: "limiter_options \<Rightarrow> (string \<times> int) list \<Rightarrow> buckets \<Rightarrow> bool list" where
  "limiter_trace opts [] m = []"
| "limiter_trace opts ((k, now) # hits) m =
     (let (permitted, m') = consume opts k now m in permitted # limiter_trace opts hits m')"

fun log_trace :: "limiter_options \<Rightarrow> (string \<times> int) list \<Rightarrow> hit_log \<Rightarrow> bool list" where
  "log_trace opts [] log = []"
| "log_trace opts ((k, now) # hits) log =
     (let (permitted, log') = log_consume opts k now log in permitted # log_trace opts hits log')"

text \<open>From time \<open>T\<close> on, a bucket and the log agree on what is within any window.\<close>

definition agrees :: "limiter_options \<Rightarrow> int \<Rightarrow> buckets \<Rightarrow> hit_log \<Rightarrow> bool" where
  "agrees opts T m log \<longleftrightarrow>
     js_map_ok m \<and>
     (\<forall>k c. k \<noteq> [] \<longrightarrow> T - windowMs opts \<le> c \<longrightarrow>
        filter (\<lambda>t. c < t) (or_default (js_get m k) []) = filter (\<lambda>t. c < t) (log k))"

lemma filter_later: "c \<le> d \<Longrightarrow> filter (\<lambda>t. d < t) (filter (\<lambda>t. c < t) xs) = filter (\<lambda>t. d < (t :: int)) xs"
  by (induction xs) auto

lemma agrees_step:
  assumes agr: "agrees opts T m log" and T: "T \<le> now" and room: "js_get m k = None \<Longrightarrow> int (length m) < maxBuckets opts"
  shows "fst (consume opts k now m) = fst (log_consume opts k now log) \<and>
    agrees opts now (snd (consume opts k now m)) (snd (log_consume opts k now log))"
proof (cases "k = []")
  case True
  then show ?thesis using agr T by (auto simp: consume_def log_consume_def agrees_def)
next
  case False
  let ?c = "now - windowMs opts" and ?ts = "or_default (js_get m k) []"
  let ?new = "filter (\<lambda>t. ?c < t) ?ts"
  let ?m1 = "case js_get m k of Some _ \<Rightarrow> m | None \<Rightarrow> js_set k [] m"
  have same: "?new = filter (\<lambda>t. ?c < t) (log k)" using agr T False by (simp add: agrees_def)
  have m1: "(case js_get m k of Some _ \<Rightarrow> m | None \<Rightarrow> js_set k [] (evictUntilUnderCap (maxBuckets opts) m)) = ?m1"
    using room by (simp add: evict_room split: option.splits)
  have out: "consume opts k now m =
      (if int (length ?new) \<ge> maxHits opts then (False, js_set k ?new ?m1) else (True, js_set k (?new @ [now]) ?m1))"
    using False m1 by (simp add: consume_def compact_hits_eq Let_def)
  have ok: "js_map_ok (js_set k ts ?m1)" for ts
    using agr by (auto simp: agrees_def intro!: js_map_ok_set split: option.splits)
  have get: "js_get (js_set k ts ?m1) k' = (if k' = k then Some ts else js_get m k')" for ts k'
    by (simp split: option.splits)
  have others: "filter (\<lambda>t. c < t) (or_default (js_get m k') []) = filter (\<lambda>t. c < t) (log k')"
    if "k' \<noteq> []" "?c \<le> c" for k' c
    using agr T that by (simp add: agrees_def)
  have mine: "filter (\<lambda>t. c < t) ?new = filter (\<lambda>t. c < t) (log k)" if "?c \<le> c" for c
    using same filter_later [OF that, of "log k"] by simp
  show ?thesis
    unfolding out log_consume_def using False same ok get others mine
    by (auto simp: agrees_def)
qed

lemma consume_keys:
  assumes "js_map_ok m"
  shows "set (js_keys (snd (consume opts k now m))) \<subseteq> insert k (set (js_keys m))"
proof -
  have "set (js_keys (evictUntilUnderCap (maxBuckets opts) m)) \<subseteq> set (js_keys m)"
    using evict_subset [OF assms] by (metis image_mono set_map)
  then show ?thesis
    by (auto simp: consume_def Let_def js_keys_set simp del: set_map split: option.splits if_splits)
qed

text \<open>The keys seen so far and those to come fit into the buckets.\<close>

lemma limiter_trace_refines:
  "agrees opts T m log \<Longrightarrow> sorted (T # map snd hits) \<Longrightarrow>
   int (card (set (js_keys m) \<union> set (map fst hits))) \<le> maxBuckets opts \<Longrightarrow>
   limiter_trace opts hits m = log_trace opts hits log"
proof (induction hits arbitrary: T m log)
  case (Cons h hits)
  obtain k now where h: "h = (k, now)" by (cases h)
  have ok: "js_map_ok m" using Cons.prems(1) by (simp add: agrees_def)
  have room: "int (length m) < maxBuckets opts" if "js_get m k = None"
  proof -
    have "k \<notin> set (js_keys m)" using that by (simp add: js_get_None_iff)
    then have "Suc (length m) = card (insert k (set (js_keys m)))"
      using ok by (metis card_insert_disjoint distinct_card finite_set length_map)
    also have "\<dots> \<le> card (set (js_keys m) \<union> set (map fst (h # hits)))"
      using h by (intro card_mono) auto
    finally show ?thesis using Cons.prems(3) by linarith
  qed
  have "T \<le> now" using Cons.prems(2) h by simp
  note step = agrees_step [OF Cons.prems(1) this room]
  let ?m' = "snd (consume opts k now m)"
  have keys: "set (js_keys ?m') \<subseteq> insert k (set (js_keys m))"
    using ok by (rule consume_keys)
  have "card (set (js_keys ?m') \<union> set (map fst hits)) \<le> card (set (js_keys m) \<union> set (map fst (h # hits)))"
    using keys h by (intro card_mono) auto
  then have "limiter_trace opts hits ?m' = log_trace opts hits (snd (log_consume opts k now log))"
    using Cons.IH [of now ?m' "snd (log_consume opts k now log)"] step Cons.prems(2,3) h by simp
  then show ?case using step h by (simp add: case_prod_beta Let_def)
qed simp

section \<open>The window bound\<close>

text \<open>The times of the permitted hits of a key.\<close>

fun permitted_hits :: "string \<Rightarrow> (string \<times> int) list \<Rightarrow> bool list \<Rightarrow> int list" where
  "permitted_hits k ((k', now) # hits) (b # bs) =
     (if b \<and> k' = k then now # permitted_hits k hits bs else permitted_hits k hits bs)"
| "permitted_hits k _ _ = []"

definition in_window :: "limiter_options \<Rightarrow> int \<Rightarrow> int list \<Rightarrow> int list" where
  "in_window opts u ts = filter (\<lambda>t. u - windowMs opts < t \<and> t \<le> u) ts"

definition within_limit :: "limiter_options \<Rightarrow> int list \<Rightarrow> bool" where
  "within_limit opts ts \<longleftrightarrow> (\<forall>u. int (length (in_window opts u ts)) \<le> max 0 (maxHits opts))"

lemma within_limit_snoc:
  assumes "within_limit opts ts" and "\<forall>t\<in>set ts. t \<le> now"
    and "int (length (filter (\<lambda>t. now - windowMs opts < t) ts)) < maxHits opts"
  shows "within_limit opts (ts @ [now])"
  unfolding within_limit_def
proof
  fix u
  show "int (length (in_window opts u (ts @ [now]))) \<le> max 0 (maxHits opts)"
  proof (cases "now \<le> u")
    case True
    have "length (in_window opts u ts) \<le> length (filter (\<lambda>t. now - windowMs opts < t) ts)"
      unfolding in_window_def using True by (induction ts) auto
    then show ?thesis using assms(3) by (auto simp: in_window_def)
  next
    case False
    then have "in_window opts u (ts @ [now]) = in_window opts u ts" by (simp add: in_window_def)
    then show ?thesis using assms(1) by (simp add: within_limit_def)
  qed
qed

lemma log_trace_within_limit:
  "sorted (map snd hits) \<Longrightarrow> \<forall>t\<in>set (log k). \<forall>h\<in>set hits. t \<le> snd h \<Longrightarrow> within_limit opts (log k) \<Longrightarrow> k \<noteq> [] \<Longrightarrow>
   within_limit opts (log k @ permitted_hits k hits (log_trace opts hits log))"
proof (induction hits arbitrary: log)
  case (Cons h hits)
  obtain k' now where h: "h = (k', now)" by (cases h)
  show ?case
  proof (cases "k' = k \<and> fst (log_consume opts k' now log)")
    case True
    then have out: "log_consume opts k' now log = (True, log(k := log k @ [now]))"
      and few: "int (length (filter (\<lambda>t. now - windowMs opts < t) (log k))) < maxHits opts"
      using Cons.prems(4) by (auto simp: log_consume_def split: if_splits)
    have "within_limit opts (log k @ [now])"
      using within_limit_snoc [OF Cons.prems(3) _ few] Cons.prems(2) h by simp
    then have "within_limit opts ((log(k := log k @ [now])) k @ permitted_hits k hits
        (log_trace opts hits (log(k := log k @ [now]))))"
      using Cons.prems h by (intro Cons.IH) (auto simp: fun_upd_def)
    then show ?thesis using h True out by simp
  next
    case False
    then have same: "snd (log_consume opts k' now log) k = log k"
      by (auto simp: log_consume_def split: if_splits)
    have "within_limit opts (snd (log_consume opts k' now log) k @ permitted_hits k hits
        (log_trace opts hits (snd (log_consume opts k' now log))))"
      using Cons.prems same by (intro Cons.IH) auto
    then show ?thesis using h False same by (auto simp: case_prod_beta Let_def)
  qed
qed simp

text \<open>
  C19: the rate limiter refines the log of all permitted hits.  For any sequence of hits with a
  clock that does not run backwards and no more distinct keys than buckets, it gives the answers of
  the abstract limiter that remembers every permitted hit; hence for every key no window of the
  given length ever holds more permitted hits than the limit.
\<close>

theorem limiter_refines_hit_log:
  assumes "sorted (map snd hits)" and "int (card (set (map fst hits))) \<le> maxBuckets opts"
  shows "limiter_trace opts hits [] = log_trace opts hits (\<lambda>_. []) \<and>
    (\<forall>k. k \<noteq> [] \<longrightarrow> within_limit opts (permitted_hits k hits (limiter_trace opts hits [])))"
proof -
  let ?T = "case hits of [] \<Rightarrow> 0 | h # _ \<Rightarrow> snd h"
  have "agrees opts ?T [] (\<lambda>_. [])" by (simp add: agrees_def)
  moreover have "sorted (?T # map snd hits)" using assms(1) by (cases hits) auto
  ultimately have eq: "limiter_trace opts hits [] = log_trace opts hits (\<lambda>_. [])"
    using assms(2) by (intro limiter_trace_refines [where T = ?T]) simp_all
  moreover have "within_limit opts (permitted_hits k hits (log_trace opts hits (\<lambda>_. [])))" if "k \<noteq> []" for k
    using log_trace_within_limit [OF assms(1), of "\<lambda>_. []" k opts] that
    by (simp add: within_limit_def in_window_def)
  ultimately show ?thesis by simp
qed

theorem limiter_refines_hit_log_witness:
  "limiter_trace \<lparr>maxHits = 1, windowMs = 10, maxBuckets = 2\<rparr>
     [(''a'', 0), (''a'', 5), (''b'', 6), (''a'', 10)] [] = [True, False, True, True] \<and>
   within_limit \<lparr>maxHits = 1, windowMs = 10, maxBuckets = 2\<rparr> [0, 10]"
proof -
  let ?o = "\<lparr>maxHits = 1, windowMs = 10, maxBuckets = 2\<rparr>"
  let ?h = "[(''a'', 0), (''a'', 5), (''b'', 6), (''a'', 10)] :: (string \<times> int) list"
  have out: "limiter_trace ?o ?h [] = [True, False, True, True]" by code_simp
  have "card (set (map fst ?h)) = 2" by code_simp
  then have fits: "int (card (set (map fst ?h))) \<le> maxBuckets ?o" by simp
  have "sorted (map snd ?h)" by simp
  from limiter_refines_hit_log [OF this fits]
  have "within_limit ?o (permitted_hits ''a'' ?h (limiter_trace ?o ?h []))" by blast
  then show ?thesis using out by (simp only: out) simp
qed

end
