(* ===== verification/Session_Routes.thy ===== *)
theory Session_Routes
  imports Session_Cookie Session_Facts Session_Bootstrap Rate_Limit
begin

text \<open>
  The session routes of \<open>server.ts\<close>: sign-in, bootstrap, logout and the trust-case preference, over the
  session store and the sign-in rate limiter.  The URL parser, the quoting of \<open>JSON.stringify\<close> and
  the trust-case catalog are parameters; a request is what the handlers read of it.
\<close>

section \<open>Requests and responses\<close>

record web_api =
  urlOrigin :: "string \<Rightarrow> string option"
  urlHost :: "string \<Rightarrow> string option"
  jsonQuote :: "string \<Rightarrow> string"

record session_config =
  enableFixtureSessions :: bool
  forceSecureSessionCookies :: bool
  studioCorsOrigins :: "string list"
  sessionOptions :: session_options
  limiterOptions :: limiter_options

datatype body_read = BodyTooLarge | BodyInvalid string | BodyJson json

record bff_request =
  rqOrigin :: header_value
  rqHost :: "string option"
  rqCookie :: header_value
  rqContentType :: "string option"
  rqRemote :: "string option"
  rqEncrypted :: bool
  rqForwardedProto :: header_value
  rqProgramParam :: "string option"
  rqBody :: body_read

record bff_response =
  rsStatus :: nat
  rsBody :: "json option"
  rsSetCookie :: "string option"
  rsVaryCookie :: bool

record bff_sessions =
  sessionStore :: sessions
  signInLimiter :: buckets

definition jsonResponse :: "nat \<Rightarrow> json \<Rightarrow> bff_response" where
  "jsonResponse status body = \<lparr>rsStatus = status, rsBody = Some body, rsSetCookie = None, rsVaryCookie = False\<rparr>"

definition error_response :: "nat \<Rightarrow> string \<Rightarrow> bff_response" where
  "error_response status msg = jsonResponse status (JObj [(''error'', JStr msg)])"

section \<open>Guards\<close>

definition parseRequestOrigin :: "web_api \<Rightarrow> bff_request \<Rightarrow> string option" where
  "parseRequestOrigin U req =
     (case rqOrigin req of HeaderOne origin \<Rightarrow> if origin = [] then None else urlOrigin U origin | _ \<Rightarrow> None)"

definition isSameRequestHost :: "web_api \<Rightarrow> bff_request \<Rightarrow> string \<Rightarrow> bool" where
  "isSameRequestHost U req origin =
     (case rqHost req of None \<Rightarrow> False | Some host \<Rightarrow> host \<noteq> [] \<and> urlHost U origin = Some host)"

definition isAllowedBrowserOrigin :: "web_api \<Rightarrow> bff_request \<Rightarrow> string list \<Rightarrow> bool" where
  "isAllowedBrowserOrigin U req allowedOrigins =
     (case rqOrigin req of
        HeaderMany _ \<Rightarrow> False
      | HeaderOne [] \<Rightarrow> False
      | HeaderOne _ \<Rightarrow>
          (case parseRequestOrigin U req of
             None \<Rightarrow> False
           | Some origin \<Rightarrow> isSameRequestHost U req origin \<or> origin \<in> set allowedOrigins)
      | HeaderAbsent \<Rightarrow>
          (case parseRequestOrigin U req of
             None \<Rightarrow> True
           | Some origin \<Rightarrow> isSameRequestHost U req origin \<or> origin \<in> set allowedOrigins))"

definition rejectNonJsonContentType :: "bff_request \<Rightarrow> bool" where
  "rejectNonJsonContentType req \<longleftrightarrow>
     \<not> prefix ''application/json'' (map to_lower (or_default (rqContentType req) []))"

definition request_session_id :: "bff_request \<Rightarrow> string option" where
  "request_session_id req = parseSessionCookie (rqCookie req) SESSION_COOKIE_NAME"

definition secure_cookie :: "session_config \<Rightarrow> bff_request \<Rightarrow> bool" where
  "secure_cookie cfg req \<longleftrightarrow> forceSecureSessionCookies cfg \<or> isRequestSecure (rqEncrypted req) (rqForwardedProto req)"

definition cleared_cookie :: "session_config \<Rightarrow> bff_request \<Rightarrow> string" where
  "cleared_cookie cfg req = serializeClearedSessionCookie (secure_cookie cfg req) SESSION_COOKIE_NAME"

section \<open>Sign-in\<close>

text \<open>The random bytes that a sign-in draws.\<close>

record sign_in_random =
  rndSession :: bytes
  rndSecret :: bytes
  rndTenant :: bytes
  rndUser :: bytes

definition mintFixtureIdentifier :: "string \<Rightarrow> bytes \<Rightarrow> string" where
  "mintFixtureIdentifier kind random = kind @ ''-'' @ bytesToHex random"

definition resolveFixtureSignInIdentity :: "sign_in_random \<Rightarrow> json \<Rightarrow> string + session_identity" where
  "resolveFixtureSignInIdentity rnd raw =
     (let body = or_default (as_object raw) [];
          tenantId = or_default (as_string (js_get body ''tenantId'')) (mintFixtureIdentifier ''tenant'' (rndTenant rnd));
          userId = or_default (as_string (js_get body ''userId'')) (mintFixtureIdentifier ''user'' (rndUser rnd))
      in and_then (case js_get body ''studioRedactionPatternAdditions'' of
                     None \<Rightarrow> Inr None
                   | Some (JArr xs) \<Rightarrow> Inr (Some xs)
                   | Some _ \<Rightarrow> Inl ''studioRedactionPatternAdditions must be an array'') (\<lambda>additions.
         let identity = \<lparr>idTenant = tenantId, idUser = userId, idAdditions = additions\<rparr>
         in and_then (validateSessionIdentity identity) (\<lambda>_. Inr identity)))"

definition handleSignIn ::
  "web_api \<Rightarrow> session_config \<Rightarrow> sign_in_random \<Rightarrow> int \<Rightarrow> bff_request \<Rightarrow> bff_sessions \<Rightarrow> bff_response \<times> bff_sessions"
  where
  "handleSignIn U cfg rnd now req st =
     (if \<not> isAllowedBrowserOrigin U req (studioCorsOrigins cfg) then (error_response 403 ''origin not allowed'', st)
      else if \<not> enableFixtureSessions cfg then (error_response 404 ''not found'', st)
      else let (permitted, limiter) =
                 consume (limiterOptions cfg) (resolveClientBucketKey (rqRemote req)) now (signInLimiter st);
               st1 = st\<lparr>signInLimiter := limiter\<rparr>
           in if \<not> permitted then (error_response 429 ''rate limit exceeded'', st1)
              else case rqBody req of
                BodyTooLarge \<Rightarrow> (error_response 413 ''request body too large'', st1)
              | BodyInvalid msg \<Rightarrow> (error_response 400 msg, st1)
              | BodyJson raw \<Rightarrow>
                  (case resolveFixtureSignInIdentity rnd raw of
                     Inl msg \<Rightarrow> (error_response 400 msg, st1)
                   | Inr identity \<Rightarrow>
                  (case createSession (sessionOptions cfg) (rndSession rnd) (rndSecret rnd) identity now
                          (sessionStore st1) of
                     Inl msg \<Rightarrow> (error_response 500 msg, st1)
                   | Inr (record, m) \<Rightarrow>
                       (case serializeSessionCookie (sesId record) (secure_cookie cfg req) SESSION_COOKIE_NAME of
                          Inl msg \<Rightarrow> (error_response 500 msg, st1\<lparr>sessionStore := m\<rparr>)
                        | Inr cookie \<Rightarrow>
                            ((jsonResponse 200 (JObj [(''tenantId'', JStr (sesTenant record)),
                                (''userId'', JStr (sesUser record))]))\<lparr>rsSetCookie := Some cookie\<rparr>,
                             st1\<lparr>sessionStore := m\<rparr>)))))"

section \<open>Bootstrap and logout\<close>

definition bootstrap_body :: "session_record \<Rightarrow> json" where
  "bootstrap_body r =
     JObj [(''tenantId'', JStr (sesTenant r)), (''userId'', JStr (sesUser r)),
           (''draftKeyWrappingSecret'', JStr (sesSecret r)),
           (''studioRedactionPatternAdditions'', JArr (map addition_json (sesAdditions r)))]"

definition handleBootstrap ::
  "web_api \<Rightarrow> session_config \<Rightarrow> int \<Rightarrow> bff_request \<Rightarrow> bff_sessions \<Rightarrow> bff_response \<times> bff_sessions" where
  "handleBootstrap U cfg now req st =
     (if \<not> isAllowedBrowserOrigin U req (studioCorsOrigins cfg) then (error_response 403 ''origin not allowed'', st)
      else case request_session_id req of
        None \<Rightarrow> (error_response 401 ''session cookie missing'', st)
      | Some sessionId \<Rightarrow>
          (let (found, m) = getSession (sessionOptions cfg) sessionId now (sessionStore st);
               st1 = st\<lparr>sessionStore := m\<rparr>
           in case found of
                None \<Rightarrow> ((error_response 401 ''session not found'')\<lparr>rsSetCookie := Some (cleared_cookie cfg req)\<rparr>, st1)
              | Some r \<Rightarrow> ((jsonResponse 200 (bootstrap_body r))\<lparr>rsVaryCookie := True\<rparr>, st1)))"

definition handleLogout ::
  "web_api \<Rightarrow> session_config \<Rightarrow> bff_request \<Rightarrow> bff_sessions \<Rightarrow> bff_response \<times> bff_sessions" where
  "handleLogout U cfg req st =
     (if \<not> isAllowedBrowserOrigin U req (studioCorsOrigins cfg) then (error_response 403 ''origin not allowed'', st)
      else (\<lparr>rsStatus = 204, rsBody = None, rsSetCookie = Some (cleared_cookie cfg req), rsVaryCookie = False\<rparr>,
            case request_session_id req of
              None \<Rightarrow> st
            | Some sessionId \<Rightarrow> st\<lparr>sessionStore := snd (deleteSession sessionId (sessionStore st))\<rparr>))"

section \<open>The trust-case preference\<close>

text \<open>
  \<open>JSON.stringify\<close> drops a field whose value is a function; the prototype object itself prints as
  an object without fields.
\<close>

fun preference_field :: "preference option \<Rightarrow> (string \<times> json) list" where
  "preference_field None = [(''trustCaseId'', JNull)]"
| "preference_field (Some (OwnPreference t)) = [(''trustCaseId'', JStr t)]"
| "preference_field (Some (InheritedMember n)) = (if n = ''__proto__'' then [(''trustCaseId'', JObj [])] else [])"

definition handleGetPreference ::
  "session_config \<Rightarrow> int \<Rightarrow> bff_request \<Rightarrow> bff_sessions \<Rightarrow> bff_response \<times> bff_sessions" where
  "handleGetPreference cfg now req st =
     (if js_trim (or_default (rqProgramParam req) []) = [] then
        (error_response 400 ''programId must be a non-empty string'', st)
      else let programId = js_trim (or_default (rqProgramParam req) []);
               (found, m) = (case request_session_id req of None \<Rightarrow> (None, sessionStore st)
                 | Some sessionId \<Rightarrow> getSession (sessionOptions cfg) sessionId now (sessionStore st))
           in ((jsonResponse 200 (JObj ((''programId'', JStr programId)
                  # preference_field (Option.bind found (\<lambda>r. read_preference (sesPreferences r) programId))
                  @ [(''persisted'', JBool (found \<noteq> None))])))\<lparr>rsVaryCookie := True\<rparr>,
               st\<lparr>sessionStore := m\<rparr>))"

text \<open>The catalog fails to load, or gives the program and the summary of a trust case.\<close>

type_synonym trust_catalog = "string + (string \<Rightarrow> (string \<times> json) option)"

definition trimmed_field :: "(string \<times> json) list \<Rightarrow> string \<Rightarrow> string option" where
  "trimmed_field body k =
     (case as_string (js_get body k) of
        None \<Rightarrow> None
      | Some s \<Rightarrow> if js_trim s = [] then None else Some (js_trim s))"

definition handlePutPreference ::
  "web_api \<Rightarrow> session_config \<Rightarrow> trust_catalog \<Rightarrow> int \<Rightarrow> bff_request \<Rightarrow> bff_sessions \<Rightarrow>
   bff_response \<times> bff_sessions" where
  "handlePutPreference U cfg catalog now req st =
     (if \<not> isAllowedBrowserOrigin U req (studioCorsOrigins cfg) then (error_response 403 ''origin not allowed'', st)
      else if rejectNonJsonContentType req then
        (error_response 415 ''request must use Content-Type: application/json'', st)
      else case request_session_id req of
        None \<Rightarrow> (error_response 401 ''session cookie missing'', st)
      | Some sessionId \<Rightarrow>
          (case rqBody req of
             BodyTooLarge \<Rightarrow> (error_response 400 ''request body too large'', st)
           | BodyInvalid msg \<Rightarrow> (error_response 400 msg, st)
           | BodyJson raw \<Rightarrow>
               (case as_object raw of
                  None \<Rightarrow> (error_response 400 ''request body must be a JSON object'', st)
                | Some body \<Rightarrow>
                    (case (trimmed_field body ''programId'', trimmed_field body ''trustCaseId'') of
                       (None, _) \<Rightarrow> (error_response 400 ''programId must be a non-empty string'', st)
                     | (Some _, None) \<Rightarrow> (error_response 400 ''trustCaseId must be a non-empty string'', st)
                     | (Some programId, Some trustCaseId) \<Rightarrow>
                         (case catalog of
                            Inl msg \<Rightarrow>
                              (jsonResponse 500 (JObj [(''error'', JStr ''trust-case catalog unavailable''),
                                 (''message'', JStr msg)]), st)
                          | Inr get \<Rightarrow>
                              (case get trustCaseId of
                                 None \<Rightarrow> (error_response 400 (''unknown trustCaseId '' @ jsonQuote U trustCaseId), st)
                               | Some (selectedProgram, selected) \<Rightarrow>
                                   (if selectedProgram \<noteq> programId then
                                      (error_response 400 (''trustCaseId '' @ jsonQuote U trustCaseId
                                         @ '' does not apply to programId '' @ jsonQuote U programId), st)
                                    else case setTrustCasePreference (sessionOptions cfg) sessionId programId
                                                trustCaseId now (sessionStore st) of
                                      (Inl msg, m) \<Rightarrow> (error_response 500 msg, st\<lparr>sessionStore := m\<rparr>)
                                    | (Inr None, m) \<Rightarrow> (error_response 401 ''session not found'', st\<lparr>sessionStore := m\<rparr>)
                                    | (Inr (Some r), m) \<Rightarrow>
                                        ((jsonResponse 200 (JObj [(''programId'', JStr programId),
                                            (''trustCaseId'', JStr trustCaseId), (''persisted'', JBool True),
                                            (''selected'', selected)]))\<lparr>rsVaryCookie := True\<rparr>,
                                         st\<lparr>sessionStore := m\<rparr>))))))))"

end
