(* ===== verification/Session_Properties.thy ===== *)
theory Session_Properties
  imports Session_Routes Draft_Facts
begin

text \<open>
  The properties of the session subsystem: the life of a session in the store, and the way of the
  secret from the sign-in over the cookie and the bootstrap to the Studio and its drafts.
\<close>

section \<open>The life of a session\<close>

text \<open>
  C20: a session keeps its secret for as long as it is used in time, and not longer.  After a
  session was created, and after any sequence of operations in which it was not deleted, was
  accessed and swept in time, and fewer sessions were created than the store holds, a look-up
  within the idle timeout (the boundary included) gives the record with the identity, secret and
  additions it was created with; a later look-up gives nothing, and then no sequence of operations
  without a new session of the same id brings it back.
\<close>

theorem session_serves_its_secret:
  assumes created: "createSession opts ib sb identity t0 m = Inr (r, m0)" and "js_map_ok m"
    and "js_get m (sesId r) = None" and "ib \<noteq> []"
    and "list_all (spares (sesId r) \<circ> fst) ops" and "kept_alive opts (sesId r) t0 ops"
    and "int (creates ops) < maxSessions opts"
    and "list_all (\<lambda>(a, _). is_create a \<longrightarrow> spares (sesId r) a) later"
  shows "let (found, m') = getSession opts (sesId r) t (session_run_ops opts ops m0)
    in if in_time opts (last_access (sesId r) t0 ops) t
       then \<exists>r'. found = Some r' \<and> same_session r r' \<and> sesSecret r' = toBase64 sb
       else found = None \<and> fst (getSession opts (sesId r) u (session_run_ops opts later m')) = None"
proof -
  have sid: "sesId r \<noteq> []" using create_map [OF created] assms(4) by (simp add: bytesToHex_def)
  have secret: "sesSecret r = toBase64 sb" using create_map [OF created] by simp
  let ?m = "session_run_ops opts ops m0"
  obtain k where tr: "tracked (sesId r) r (last_access (sesId r) t0 ops) k ?m"
    using tracked_run [OF tracked_create [OF created assms(2,3)] sid assms(5,6)] assms(7) by auto
  have ok: "js_map_ok ?m" using tr by (simp add: tracked_def)
  show ?thesis
  proof (cases "in_time opts (last_access (sesId r) t0 ops) t")
    case True
    then show ?thesis using tracked_get(1) [OF tr sid True] secret
      by (auto simp: same_session_def split: prod.splits)
  next
    case False
    have "js_get (session_run_ops opts later (snd (getSession opts (sesId r) t ?m))) (sesId r) = None"
      using tracked_get(2) [OF tr sid False] get_map_ok [OF ok] assms(8) by (intro absent_run) auto
    then show ?thesis using False tracked_get(2) [OF tr sid False] absent_get
      by (auto split: prod.splits)
  qed
qed

section \<open>From the sign-in to the Studio\<close>

lemma sign_in_ok:
  assumes "handleSignIn U cfg rnd now req st = (resp, st1)" and "rsStatus resp = 200"
  shows "\<exists>identity r m cookie. createSession (sessionOptions cfg) (rndSession rnd) (rndSecret rnd) identity now (sessionStore st)
        = Inr (r, m) \<and> sessionStore st1 = m \<and> rsSetCookie resp = Some cookie \<and>
      serializeSessionCookie (sesId r) (secure_cookie cfg req) SESSION_COOKIE_NAME = Inr cookie \<and>
      rsBody resp = Some (JObj [(''tenantId'', JStr (sesTenant r)), (''userId'', JStr (sesUser r))])"
  using assms
  by (auto simp: handleSignIn_def error_response_def jsonResponse_def Let_def
      split: if_splits prod.splits body_read.splits sum.splits) blast

lemma opaque_safe: "validateOpaqueIdentifier f s = Inr () \<Longrightarrow> safe_id s"
  by (auto simp: validateOpaqueIdentifier_def split: if_splits)

lemma created_valid:
  assumes "createSession opts ib sb identity now m = Inr (r, m')"
  shows "safe_id (sesTenant r)" "safe_id (sesUser r)" "list_all addition_ok (sesAdditions r)"
    "length (sesAdditions r) \<le> MAX_REDACTION_ADDITIONS"
proof -
  have "validateSessionIdentity identity = Inr ()"
    using assms by (auto simp: createSession_def and_then_Inr)
  then show "safe_id (sesTenant r)" "safe_id (sesUser r)"
    using create_map [OF assms] opaque_safe by (auto simp: validateSessionIdentity_def and_then_Inr)
  show "list_all addition_ok (sesAdditions r)" "length (sesAdditions r) \<le> MAX_REDACTION_ADDITIONS"
    using create_map [OF assms] validated_additions_ok by blast+
qed

text \<open>The Studio's view of a response of the bootstrap route.\<close>

definition client_bootstrap :: "bff_response \<Rightarrow> bootstrap_error + session_bootstrap \<times> redaction_addition list" where
  "client_bootstrap resp = fetchBootstrap (Fetched (rsStatus resp) (rsBody resp))"

lemma parse_bootstrap_body:
  assumes "safe_id (sesTenant r)" "safe_id (sesUser r)" "list_all addition_ok (sesAdditions r)"
    and "length (sesAdditions r) \<le> MAX_REDACTION_ADDITIONS" and "sesSecret r = toBase64 sb" and "length sb = 32"
  shows "parseBootstrapResponse (bootstrap_body r) =
    Inr (\<lparr>bootTenantId = sesTenant r, bootUserId = sesUser r, wrappingSecret = sb\<rparr>, sesAdditions r)"
proof -
  have "toBase64 sb \<noteq> []"
    using assms(6) by (cases sb rule: toBase64.cases) auto
  then have "secret_field (Some (sesSecret r)) = Inr sb"
    using assms(5,6) atob_toBase64 [of sb] unfolding secret_field_Inr by auto
  moreover have "id_field (Some (sesTenant r)) = Inr (sesTenant r)" "id_field (Some (sesUser r)) = Inr (sesUser r)"
    using assms(1,2) by (simp_all add: id_field_Inr)
  ultimately show ?thesis
    using assms(3,4)
    by (simp add: parseBootstrapResponse_def bootstrap_body_def parseRedactionPatternAdditions_def parse_additions)
qed

lemma bootstrap_body_same: "same_session r r' \<Longrightarrow> bootstrap_body r' = bootstrap_body r"
  by (simp add: same_session_def bootstrap_body_def)

lemma bootstrap_found:
  assumes "isAllowedBrowserOrigin U req (studioCorsOrigins cfg)" and "request_session_id req = Some sid"
    and "fst (getSession (sessionOptions cfg) sid now (sessionStore st)) = Some r"
  shows "client_bootstrap (fst (handleBootstrap U cfg now req st)) = parseBootstrapResponse (bootstrap_body r)"
  using assms
  by (auto simp: handleBootstrap_def client_bootstrap_def jsonResponse_def response_ok_def Let_def split: prod.splits)

lemma bootstrap_absent:
  assumes "isAllowedBrowserOrigin U req (studioCorsOrigins cfg)" and "request_session_id req = Some sid"
    and "fst (getSession (sessionOptions cfg) sid now (sessionStore st)) = None"
  shows "client_bootstrap (fst (handleBootstrap U cfg now req st)) = Inl Unauthenticated"
  using assms
  by (auto simp: handleBootstrap_def client_bootstrap_def error_response_def jsonResponse_def Let_def split: prod.splits)

text \<open>The id of a session is what a cookie may hold.\<close>

lemma hex_id_chars: "list_all is_id_char (bytesToHex bs)"
proof -
  have "is_id_char (hex_digit d)" if "d < 16" for d
    using that by (auto simp: hex_digit_def is_id_char_def is_alnum_def is_digit_def is_lower_def char_between_def)
  moreover have "unat b div 16 < 16" for b :: byte using unat_byte_less [of b] by (simp add: less_mult_imp_div_less)
  ultimately show ?thesis by (auto simp: bytesToHex_def list_all_iff)
qed

lemma cookie_name_ok: "SESSION_COOKIE_NAME \<noteq> []" "list_all is_id_char SESSION_COOKIE_NAME"
  unfolding SESSION_COOKIE_NAME_def by code_simp+

text \<open>A browser that keeps other cookies sends the pair of the \<open>Set-Cookie\<close> header among them.\<close>

definition sends_cookie :: "string \<Rightarrow> bff_request \<Rightarrow> bool" where
  "sends_cookie setCookie req \<longleftrightarrow>
     (\<exists>before after. list_all (other_cookie SESSION_COOKIE_NAME) before \<and>
        list_all (\<lambda>(n, v). list_all is_id_char n \<and> list_all is_id_char v) after \<and>
        rqCookie req = HeaderOne (js_join ''; ''
          (map plain_pair before @ hd (js_split CHR '';'' setCookie) # map plain_pair after)))"

lemma sent_cookie_read:
  assumes "serializeSessionCookie sid secure SESSION_COOKIE_NAME = Inr cookie" and "sid = bytesToHex ib"
    and "sends_cookie cookie req"
  shows "request_session_id req = Some sid"
proof -
  have sid: "sid \<noteq> []" using assms(1) by (auto simp: serializeSessionCookie_def)
  have chars: "list_all is_id_char sid" using assms(2) hex_id_chars by simp
  have "hd (js_split CHR '';'' cookie) = plain_pair (SESSION_COOKIE_NAME, sid)"
    using serialized_pair [OF sid chars cookie_name_ok(2), of secure] assms(1) by auto
  then show ?thesis
    using assms(3) parse_own_cookie [OF sid chars cookie_name_ok]
    by (auto simp: sends_cookie_def request_session_id_def cookie_header_def)
qed

text \<open>A sign-in that succeeded, and a later request of the same browser to a store that lived on.\<close>

definition signed_in ::
  "web_api \<Rightarrow> session_config \<Rightarrow> sign_in_random \<Rightarrow> int \<Rightarrow> bff_request \<Rightarrow> bff_sessions \<Rightarrow> bff_response \<Rightarrow> bff_sessions \<Rightarrow> bool"
  where
  "signed_in U cfg rnd t0 req st resp st1 \<longleftrightarrow>
     handleSignIn U cfg rnd t0 req st = (resp, st1) \<and> rsStatus resp = 200 \<and> js_map_ok (sessionStore st) \<and>
     js_get (sessionStore st) (bytesToHex (rndSession rnd)) = None \<and> length (rndSecret rnd) = 32"

definition lives_on :: "session_config \<Rightarrow> string \<Rightarrow> int \<Rightarrow> (session_op \<times> int) list \<Rightarrow> bool" where
  "lives_on cfg sid t0 ops \<longleftrightarrow>
     list_all (spares sid \<circ> fst) ops \<and> kept_alive (sessionOptions cfg) sid t0 ops \<and>
     int (creates ops) < maxSessions (sessionOptions cfg)"

definition later_request :: "web_api \<Rightarrow> session_config \<Rightarrow> bff_response \<Rightarrow> bff_request \<Rightarrow> bool" where
  "later_request U cfg resp req \<longleftrightarrow>
     isAllowedBrowserOrigin U req (studioCorsOrigins cfg) \<and>
     (\<exists>cookie. rsSetCookie resp = Some cookie \<and> sends_cookie cookie req)"

lemma later_request_id:
  assumes "signed_in U cfg rnd t0 req st resp st1" and "later_request U cfg resp req'"
  shows "request_session_id req' = Some (bytesToHex (rndSession rnd))"
proof -
  obtain identity r m cookie where c: "createSession (sessionOptions cfg) (rndSession rnd) (rndSecret rnd) identity t0
      (sessionStore st) = Inr (r, m)" "rsSetCookie resp = Some cookie"
      "serializeSessionCookie (sesId r) (secure_cookie cfg req) SESSION_COOKIE_NAME = Inr cookie"
    using assms(1) sign_in_ok unfolding signed_in_def by blast
  have "sesId r = bytesToHex (rndSession rnd)" using create_map [OF c(1)] by simp
  then show ?thesis using sent_cookie_read [OF c(3)] assms(2) c(2) by (auto simp: later_request_def)
qed

lemma signed_in_map:
  assumes "signed_in U cfg rnd t0 req st resp st1"
  shows "js_map_ok (sessionStore st1)" "bytesToHex (rndSession rnd) \<noteq> []"
proof -
  obtain identity r m cookie where c: "createSession (sessionOptions cfg) (rndSession rnd) (rndSecret rnd) identity t0
      (sessionStore st) = Inr (r, m)" "sessionStore st1 = m"
      "serializeSessionCookie (sesId r) (secure_cookie cfg req) SESSION_COOKIE_NAME = Inr cookie"
    using assms sign_in_ok unfolding signed_in_def by blast
  show "bytesToHex (rndSession rnd) \<noteq> []"
    using c(3) create_map [OF c(1)] by (auto simp: serializeSessionCookie_def)
  have "js_map_ok (session_step (sessionOptions cfg) (OpCreate (rndSession rnd) (rndSecret rnd) identity, t0) (sessionStore st))"
    using assms by (intro step_map_ok) (simp add: signed_in_def)
  then show "js_map_ok (sessionStore st1)" using c(1,2) by simp
qed

lemma bootstrap_after_sign_in:
  assumes signed: "signed_in U cfg rnd t0 req st resp st1" and ops: "lives_on cfg (bytesToHex (rndSession rnd)) t0 ops"
    and req: "later_request U cfg resp req'"
    and time: "in_time (sessionOptions cfg) (last_access (bytesToHex (rndSession rnd)) t0 ops) t"
  shows "\<exists>tenant user additions.
    rsBody resp = Some (JObj [(''tenantId'', JStr tenant), (''userId'', JStr user)]) \<and>
    client_bootstrap (fst (handleBootstrap U cfg t req'
      (st1\<lparr>sessionStore := session_run_ops (sessionOptions cfg) ops (sessionStore st1)\<rparr>))) =
    Inr (\<lparr>bootTenantId = tenant, bootUserId = user, wrappingSecret = rndSecret rnd\<rparr>, additions)"
proof -
  let ?sid = "bytesToHex (rndSession rnd)" and ?opts = "sessionOptions cfg"
  obtain identity r m cookie where created: "createSession ?opts (rndSession rnd) (rndSecret rnd) identity t0
      (sessionStore st) = Inr (r, m)" and m: "sessionStore st1 = m"
      and cookie: "serializeSessionCookie (sesId r) (secure_cookie cfg req) SESSION_COOKIE_NAME = Inr cookie"
      and body: "rsBody resp = Some (JObj [(''tenantId'', JStr (sesTenant r)), (''userId'', JStr (sesUser r))])"
    using signed sign_in_ok unfolding signed_in_def by blast
  have sid: "sesId r = ?sid" and secret: "sesSecret r = toBase64 (rndSecret rnd)"
    using create_map [OF created] by simp_all
  have nonempty: "?sid \<noteq> []" using cookie sid by (auto simp: serializeSessionCookie_def)
  have "tracked ?sid r t0 0 m"
    using tracked_create [OF created] signed sid by (simp add: signed_in_def)
  then obtain k where tr: "tracked ?sid r (last_access ?sid t0 ops) k (session_run_ops ?opts ops m)"
    using tracked_run [of ?sid r t0 0 m ops ?opts] nonempty ops by (auto simp: lives_on_def)
  obtain r' where found: "fst (getSession ?opts ?sid t (session_run_ops ?opts ops m)) = Some r'" and same: "same_session r r'"
    using tracked_get(1) [OF tr nonempty time] by blast
  have "client_bootstrap (fst (handleBootstrap U cfg t req' (st1\<lparr>sessionStore := session_run_ops ?opts ops m\<rparr>))) =
      parseBootstrapResponse (bootstrap_body r')"
    using bootstrap_found [OF _ later_request_id [OF signed req]] req found by (simp add: later_request_def)
  also have "\<dots> = Inr (\<lparr>bootTenantId = sesTenant r, bootUserId = sesUser r, wrappingSecret = rndSecret rnd\<rparr>, sesAdditions r)"
    using parse_bootstrap_body [OF created_valid [OF created] secret] signed bootstrap_body_same [OF same]
    by (simp add: signed_in_def)
  finally show ?thesis using body m by blast
qed

text \<open>
  The secret arrives.  When a sign-in has answered 200, then every bootstrap request of a
  browser that sends the cookie of that answer, among any other cookies, gets through the cookie
  parser, the session store and the validation of the Studio exactly the tenant and user of the
  sign-in and the 32 secret bytes that were drawn for it, as long as the session lives.
\<close>

lemma bootstrap_returns_the_sign_in_secret:
  assumes "signed_in U cfg rnd t0 req st resp st1" and "lives_on cfg (bytesToHex (rndSession rnd)) t0 ops"
    and "later_request U cfg resp req'"
    and "in_time (sessionOptions cfg) (last_access (bytesToHex (rndSession rnd)) t0 ops) t"
  shows "\<exists>tenant user additions.
    rsBody resp = Some (JObj [(''tenantId'', JStr tenant), (''userId'', JStr user)]) \<and>
    client_bootstrap (fst (handleBootstrap U cfg t req'
      (st1\<lparr>sessionStore := session_run_ops (sessionOptions cfg) ops (sessionStore st1)\<rparr>))) =
    Inr (\<lparr>bootTenantId = tenant, bootUserId = user, wrappingSecret = rndSecret rnd\<rparr>, additions)"
  using bootstrap_after_sign_in [OF assms] .

section \<open>A recorded session\<close>

definition demo_config :: session_config where
  "demo_config = \<lparr>enableFixtureSessions = True, forceSecureSessionCookies = False, studioCorsOrigins = [],
     sessionOptions = \<lparr>idleTimeoutMs = 10, maxSessions = 5\<rparr>, limiterOptions = default_limiter\<rparr>"

definition demo_web :: web_api where
  "demo_web = \<lparr>urlOrigin = Some, urlHost = Some, jsonQuote = id\<rparr>"

definition demo_request :: "header_value \<Rightarrow> body_read \<Rightarrow> bff_request" where
  "demo_request cookies body = \<lparr>rqOrigin = HeaderAbsent, rqHost = Some ''bff'', rqCookie = cookies,
     rqContentType = None, rqRemote = Some ''10.0.0.1'', rqEncrypted = False, rqForwardedProto = HeaderAbsent,
     rqProgramParam = None, rqBody = body\<rparr>"

definition demo_random :: sign_in_random where
  "demo_random = \<lparr>rndSession = [10, 11], rndSecret = replicate 32 7, rndTenant = [1], rndUser = [2]\<rparr>"

definition demo_state :: bff_sessions where
  "demo_state = \<lparr>sessionStore = [], signInLimiter = []\<rparr>"

definition demo_sign_in :: "bff_response \<times> bff_sessions" where
  "demo_sign_in = handleSignIn demo_web demo_config demo_random 0 (demo_request HeaderAbsent (BodyJson (JObj []))) demo_state"


definition demo_identity :: session_identity where
  "demo_identity = \<lparr>idTenant = ''tenant-01'', idUser = ''user-02'', idAdditions = None\<rparr>"

definition demo_created :: "session_record \<times> sessions" where
  "demo_created = projr (createSession (sessionOptions demo_config) [10, 11] (replicate 32 7) demo_identity 0 [])"

definition demo_use :: "(session_op \<times> int) list" where "demo_use = [(OpGet ''0a0b'', 5), (OpSetPreference ''0a0b'' ''P'' ''T1'', 7)]"

lemma demo_created_eq:
  "createSession (sessionOptions demo_config) [10, 11] (replicate 32 7) demo_identity 0 [] = Inr demo_created"
  "sesId (fst demo_created) = ''0a0b''"
  by code_simp+

lemma demo_use_ok:
  "list_all (spares ''0a0b'' \<circ> fst) demo_use" "kept_alive (sessionOptions demo_config) ''0a0b'' 0 demo_use"
  "int (creates demo_use) < maxSessions (sessionOptions demo_config)" "last_access ''0a0b'' 0 demo_use = 7"
  by code_simp+

lemma session_serves_its_secret_witness:
  "let m = session_run_ops (sessionOptions demo_config) demo_use (snd demo_created);
       served = (\<lambda>t. fst (getSession (sessionOptions demo_config) ''0a0b'' t m))
   in map_option sesSecret (served 17) = Some (toBase64 (replicate 32 7)) \<and> served 18 = None"
proof -
  let ?opts = "sessionOptions demo_config"
  have c: "createSession ?opts [10, 11] (replicate 32 7) demo_identity 0 [] = Inr (fst demo_created, snd demo_created)"
    using demo_created_eq(1) by simp
  note served = session_serves_its_secret [OF c, of demo_use "[]", unfolded demo_created_eq(2)]
  have idle: "in_time ?opts 7 17" "\<not> in_time ?opts 7 18" by (simp_all add: in_time_def demo_config_def)
  show ?thesis
    using served [of 17 18] served [of 18 18] demo_use_ok idle
    by (auto simp: Let_def split: prod.splits)
qed

definition demo_reload :: bff_request where
  "demo_reload = demo_request (HeaderOne ''theme=dark; c2c.sid=0a0b'') (BodyJson JNull)"

lemma demo_signed_in: "signed_in demo_web demo_config demo_random 0 (demo_request HeaderAbsent (BodyJson (JObj []))) demo_state
    (fst demo_sign_in) (snd demo_sign_in)"
proof -
  have "rsStatus (fst demo_sign_in) = 200" by code_simp
  then show ?thesis
    by (simp add: signed_in_def demo_sign_in_def demo_state_def demo_random_def)
qed

lemma demo_later: "later_request demo_web demo_config (fst demo_sign_in) demo_reload"
proof -
  have "rsSetCookie (fst demo_sign_in) = Some ''c2c.sid=0a0b; Path=/; HttpOnly; SameSite=Lax''" by code_simp
  moreover have "sends_cookie ''c2c.sid=0a0b; Path=/; HttpOnly; SameSite=Lax'' demo_reload"
    unfolding sends_cookie_def
    by (rule exI [of _ "[(''theme'', ''dark'')]"], rule exI [of _ "[]"]) code_simp
  moreover have "isAllowedBrowserOrigin demo_web demo_reload (studioCorsOrigins demo_config)" by code_simp
  ultimately show ?thesis by (simp add: later_request_def)
qed

lemma demo_secret: "rndSecret demo_random = replicate 32 7" "bytesToHex (rndSession demo_random) = ''0a0b''"
  unfolding demo_random_def by code_simp+

lemma bootstrap_returns_the_sign_in_secret_witness:
  "\<exists>tenant user additions. client_bootstrap (fst (handleBootstrap demo_web demo_config 17 demo_reload
      ((snd demo_sign_in)\<lparr>sessionStore := session_run_ops (sessionOptions demo_config) demo_use (sessionStore (snd demo_sign_in))\<rparr>))) =
    Inr (\<lparr>bootTenantId = tenant, bootUserId = user, wrappingSecret = replicate 32 7\<rparr>, additions)"
proof -
  have "lives_on demo_config (bytesToHex (rndSession demo_random)) 0 demo_use"
    using demo_use_ok by (simp add: lives_on_def demo_secret)
  moreover have "in_time (sessionOptions demo_config) (last_access (bytesToHex (rndSession demo_random)) 0 demo_use) 17"
    using demo_use_ok(4) by (simp add: in_time_def demo_secret demo_config_def)
  ultimately show ?thesis
    using bootstrap_returns_the_sign_in_secret [OF demo_signed_in _ demo_later, of demo_use 17] demo_secret(1) by auto
qed

end
