(* ===== verification/Js_Regex.thy ===== *)
theory Js_Regex
  imports Js_Text
begin

text \<open>
  Regular expressions as JavaScript matches them: the alternatives of a pattern are tried in order,
  quantifiers are greedy and give back what they took.  A matcher returns the states after every
  way to match, the preferred one first, so a match is the head of the list.  The patterns are
  written as terms next to the source text of the expression.
\<close>

named_theorems regex_intros

section \<open>Patterns and matching\<close>

datatype regex =
  RxEmpty
| RxSet "char \<Rightarrow> bool"
| RxSeq regex regex
| RxAlt regex regex
| RxRep nat "nat option" regex
| RxGroup nat regex
| RxWordBoundary
| RxLineStart
| RxStart
| RxEnd

text \<open>The character before the position, the text from it on, and the captured groups.\<close>

type_synonym rx_state = "char option \<times> string \<times> (nat \<times> string) list"

abbreviation rx_rest :: "rx_state \<Rightarrow> string" where
  "rx_rest st \<equiv> fst (snd st)"

definition is_word_char :: "char \<Rightarrow> bool" where
  "is_word_char c \<longleftrightarrow> is_alnum c \<or> c = CHR ''_''"

definition is_line_end :: "char \<Rightarrow> bool" where
  "is_line_end c \<longleftrightarrow> c = CHR 0x0A \<or> c = CHR 0x0D"

definition at_word :: "char option \<Rightarrow> bool" where
  "at_word c = (case c of None \<Rightarrow> False | Some d \<Rightarrow> is_word_char d)"

definition head_char :: "string \<Rightarrow> char option" where
  "head_char s = (case s of [] \<Rightarrow> None | c # _ \<Rightarrow> Some c)"

text \<open>
  A quantifier: an iteration beyond the minimum must consume something.  The fuel is the minimum and
  the length of the text; every iteration uses up one of the two.
\<close>

fun rx_rep :: "(rx_state \<Rightarrow> rx_state list) \<Rightarrow> nat \<Rightarrow> nat option \<Rightarrow> nat \<Rightarrow> rx_state \<Rightarrow> rx_state list" where
  "rx_rep f mn mx 0 st = (if mn = 0 then [st] else [])"
| "rx_rep f mn mx (Suc n) st =
     (if mx = Some 0 then []
      else concat (map (rx_rep f (mn - 1) (map_option (\<lambda>m. m - 1) mx) n)
             (filter (\<lambda>st'. 0 < mn \<or> length (rx_rest st') < length (rx_rest st)) (f st))))
     @ (if mn = 0 then [st] else [])"

primrec rx :: "regex \<Rightarrow> rx_state \<Rightarrow> rx_state list" where
  "rx RxEmpty st = [st]"
| "rx (RxSet P) st =
     (case st of (_, c # cs, gs) \<Rightarrow> if P c then [(Some c, cs, gs)] else [] | _ \<Rightarrow> [])"
| "rx (RxSeq a b) st = concat (map (rx b) (rx a st))"
| "rx (RxAlt a b) st = rx a st @ rx b st"
| "rx (RxRep mn mx a) st = rx_rep (rx a) mn mx (mn + length (rx_rest st)) st"
| "rx (RxGroup n a) st =
     map (\<lambda>(p, s, gs). (p, s, AList.update n (take (length (rx_rest st) - length s) (rx_rest st)) gs)) (rx a st)"
| "rx RxWordBoundary st =
     (case st of (p, s, _) \<Rightarrow> if at_word p \<noteq> at_word (head_char s) then [st] else [])"
| "rx RxLineStart st = (case st of (p, _, _) \<Rightarrow> if p = None \<or> is_line_end (the p) then [st] else [])"
| "rx RxStart st = (case st of (p, _, _) \<Rightarrow> if p = None then [st] else [])"
| "rx RxEnd st = (case st of (_, s, _) \<Rightarrow> if s = [] then [st] else [])"

declare rx.simps(2) [simp del]

lemma rx_set_simps [simp]:
  "rx (RxSet P) (p, [], gs) = []"
  "rx (RxSet P) (p, c # cs, gs) = (if P c then [(Some c, cs, gs)] else [])"
  by (simp_all add: rx.simps(2))

lemma rx_set_cases:
  "st' \<in> set (rx (RxSet P) st) \<Longrightarrow>
   (\<And>p c cs gs. st = (p, c # cs, gs) \<Longrightarrow> P c \<Longrightarrow> st' = (Some c, cs, gs) \<Longrightarrow> thesis) \<Longrightarrow> thesis"
  by (cases st; cases "rx_rest st") (auto split: if_splits)

section \<open>Building patterns\<close>

definition rx_seq :: "regex list \<Rightarrow> regex" where
  "rx_seq rs = foldr RxSeq rs RxEmpty"

definition same_char :: "char \<Rightarrow> char \<Rightarrow> bool" where
  [simp]: "same_char c d \<longleftrightarrow> d = c"

definition same_letter :: "char \<Rightarrow> char \<Rightarrow> bool" where
  [simp]: "same_letter c d \<longleftrightarrow> to_lower d = to_lower c"

definition rx_text :: "string \<Rightarrow> regex" where
  "rx_text s = rx_seq (map (\<lambda>c. RxSet (same_char c)) s)"

text \<open>With the flag \<open>i\<close>.\<close>

definition rx_text_i :: "string \<Rightarrow> regex" where
  "rx_text_i s = rx_seq (map (\<lambda>c. RxSet (same_letter c)) s)"

definition rx_any_of :: "regex list \<Rightarrow> regex" where
  "rx_any_of rs = foldr RxAlt (butlast rs) (last rs)"

abbreviation rx_many :: "(char \<Rightarrow> bool) \<Rightarrow> regex" where
  "rx_many P \<equiv> RxRep 0 None (RxSet P)"

abbreviation rx_some :: "(char \<Rightarrow> bool) \<Rightarrow> regex" where
  "rx_some P \<equiv> RxRep 1 None (RxSet P)"

abbreviation rx_opt :: "regex \<Rightarrow> regex" where
  "rx_opt r \<equiv> RxRep 0 (Some 1) r"

section \<open>Searching and replacing\<close>

text \<open>\<open>exec\<close> without the flag \<open>g\<close>: the offset of the leftmost match and the state after it.\<close>

fun rx_search :: "regex \<Rightarrow> char option \<Rightarrow> string \<Rightarrow> (nat \<times> rx_state) option" where
  "rx_search r p s =
     (case rx r (p, s, []) of
        st # _ \<Rightarrow> Some (0, st)
      | [] \<Rightarrow> (case s of [] \<Rightarrow> None
          | c # cs \<Rightarrow> map_option (\<lambda>(i, st). (Suc i, st)) (rx_search r (Some c) cs)))"

declare rx_search.simps [simp del]

definition rx_exec :: "regex \<Rightarrow> string \<Rightarrow> (nat \<times> rx_state) option" where
  "rx_exec r s = rx_search r None s"

definition rx_test :: "regex \<Rightarrow> string \<Rightarrow> bool" where
  "rx_test r s \<longleftrightarrow> rx_exec r s \<noteq> None"

text \<open>\<open>replace\<close> with the flag \<open>g\<close> and a replacement without \<open>$\<close>.\<close>

function rx_replace_from :: "regex \<Rightarrow> string \<Rightarrow> char option \<Rightarrow> string \<Rightarrow> string" where
  "rx_replace_from r new p s =
     (case rx r (p, s, []) of
        [] \<Rightarrow> (case s of [] \<Rightarrow> [] | c # cs \<Rightarrow> c # rx_replace_from r new (Some c) cs)
      | (p', rest, _) # _ \<Rightarrow>
          (if length rest < length s then new @ rx_replace_from r new p' rest
           else new @ (case s of [] \<Rightarrow> [] | c # cs \<Rightarrow> c # rx_replace_from r new (Some c) cs)))"
  by pat_completeness auto
termination by (relation "measure (\<lambda>(r, new, p, s). length s)") auto

declare rx_replace_from.simps [simp del]

definition rx_replace :: "regex \<Rightarrow> string \<Rightarrow> string \<Rightarrow> string" where
  "rx_replace r new s = rx_replace_from r new None s"

section \<open>Facts about matching\<close>

text \<open>A match consumes a prefix of the text.\<close>

definition rx_after :: "rx_state \<Rightarrow> rx_state \<Rightarrow> bool" where
  "rx_after st st' \<longleftrightarrow>
     (\<exists>t. rx_rest st = t @ rx_rest st' \<and> fst st' = (if t = [] then fst st else Some (last t)))"

lemma rx_after_refl [simp]: "rx_after st st"
  by (simp add: rx_after_def)

lemma rx_after_trans:
  assumes "rx_after a b" and "rx_after b c"
  shows "rx_after a c"
proof -
  obtain t where t: "rx_rest a = t @ rx_rest b" "fst b = (if t = [] then fst a else Some (last t))"
    using assms(1) unfolding rx_after_def by blast
  obtain u where u: "rx_rest b = u @ rx_rest c" "fst c = (if u = [] then fst b else Some (last u))"
    using assms(2) unfolding rx_after_def by blast
  have "rx_rest a = (t @ u) @ rx_rest c" by (simp only: t(1) u(1) append_assoc)
  moreover have "fst c = (if t @ u = [] then fst a else Some (last (t @ u)))"
    by (simp add: t(2) u(2))
  ultimately show ?thesis unfolding rx_after_def by blast
qed

lemma rx_rep_after:
  "(\<And>st st'. st' \<in> set (f st) \<Longrightarrow> rx_after st st') \<Longrightarrow> st' \<in> set (rx_rep f mn mx n st) \<Longrightarrow> rx_after st st'"
proof (induction n arbitrary: mn mx st)
  case (Suc n)
  show ?case
  proof (cases "st' = st")
    case False
    then obtain u where "u \<in> set (f st)" "st' \<in> set (rx_rep f (mn - 1) (map_option (\<lambda>m. m - 1) mx) n u)"
      using Suc.prems(2) by (auto split: if_splits)
    then show ?thesis using Suc.IH [OF Suc.prems(1)] Suc.prems(1) rx_after_trans by blast
  qed simp
qed (auto split: if_splits)

lemma rx_after_step: "rx_after (p, c # s, gs) (Some c, s, gs')"
  unfolding rx_after_def by (rule exI [of _ "[c]"]) simp

lemma rx_matches_after: "st' \<in> set (rx r st) \<Longrightarrow> rx_after st st'"
proof (induction r arbitrary: st st')
  case (RxSet P)
  then show ?case by (auto elim: rx_set_cases simp: rx_after_step)
next
  case (RxSeq a b)
  then obtain u where "u \<in> set (rx a st)" "st' \<in> set (rx b u)" by auto
  then show ?case using RxSeq.IH rx_after_trans by blast
next
  case (RxRep mn mx a)
  then show ?case using rx_rep_after [of "rx a"] by auto
next
  case (RxGroup n a)
  then obtain p s gs where "(p, s, gs) \<in> set (rx a st)" "fst st' = p" "rx_rest st' = s" by auto
  then show ?case using RxGroup.IH [of "(p, s, gs)" st] by (simp add: rx_after_def)
next
  case (RxAlt a b)
  from RxAlt.prems have "st' \<in> set (rx a st) \<or> st' \<in> set (rx b st)" by simp
  then show ?case using RxAlt.IH by blast
qed (auto split: if_splits)

lemma rx_shorter: "st' \<in> set (rx r st) \<Longrightarrow> length (rx_rest st') \<le> length (rx_rest st)"
  using rx_matches_after by (fastforce simp: rx_after_def)

text \<open>The fuel of a quantifier is enough: more does not change what it matches.\<close>

lemma rx_rep_fuel:
  assumes "\<And>st st'. st' \<in> set (f st) \<Longrightarrow> length (rx_rest st') \<le> length (rx_rest st)"
    and "mn + length (rx_rest st) \<le> n"
  shows "rx_rep f mn mx n st = rx_rep f mn mx (mn + length (rx_rest st)) st"
  using assms(2)
proof (induction "mn + length (rx_rest st)" arbitrary: mn mx n st rule: less_induct)
  case less
  let ?next = "filter (\<lambda>st'. 0 < mn \<or> length (rx_rest st') < length (rx_rest st)) (f st)"
  have next_less: "mn - 1 + length (rx_rest st') < mn + length (rx_rest st)" if "st' \<in> set ?next" for st'
    using that assms(1) [of st' st] by auto
  show ?case
  proof (cases "mn + length (rx_rest st)")
    case 0
    then have "?next = []" using assms(1) by auto
    with 0 show ?thesis by (cases n) auto
  next
    case (Suc k)
    then obtain n' where n: "n = Suc n'" using less.prems by (cases n) auto
    have "rx_rep f (mn - 1) mx' n' st' = rx_rep f (mn - 1) mx' k st'" if "st' \<in> set ?next" for st' mx'
    proof -
      have "mn - 1 + length (rx_rest st') \<le> k" "mn - 1 + length (rx_rest st') \<le> n'"
        using next_less [OF that] Suc less.prems n by auto
      then show ?thesis using less.hyps [OF next_less [OF that]] by metis
    qed
    then have "map (rx_rep f (mn - 1) mx' n') ?next = map (rx_rep f (mn - 1) mx' k) ?next" for mx'
      by (rule map_cong [OF refl])
    then show ?thesis unfolding n Suc by (simp only: rx_rep.simps)
  qed
qed

lemma rx_set_intro [regex_intros]: "P x \<Longrightarrow> (Some x, s, gs) \<in> set (rx (RxSet P) (p, x # s, gs))"
  by simp

lemma rx_seq_intro [regex_intros]:
  "st' \<in> set (rx a st) \<Longrightarrow> st'' \<in> set (rx (rx_seq rs) st') \<Longrightarrow> st'' \<in> set (rx (rx_seq (a # rs)) st)"
  by (auto simp: rx_seq_def)

lemma rx_seq_Nil [regex_intros]: "st \<in> set (rx (rx_seq []) st)"
  by (simp add: rx_seq_def)

section \<open>Patterns that consume\<close>

text \<open>A pattern that never matches the empty text.\<close>

definition consumes :: "regex \<Rightarrow> bool" where
  "consumes r \<longleftrightarrow> (\<forall>p s gs st. st \<in> set (rx r (p, s, gs)) \<longrightarrow> length (rx_rest st) < length s)"

lemma consumes_set [regex_intros]: "consumes (RxSet P)"
  by (auto simp: consumes_def elim: rx_set_cases)

lemma consumes_seq_first [regex_intros]: "consumes a \<Longrightarrow> consumes (rx_seq (a # rs))"
  unfolding consumes_def
proof (intro allI impI)
  fix p s gs st
  assume a: "\<forall>p s gs st. st \<in> set (rx a (p, s, gs)) \<longrightarrow> length (rx_rest st) < length s"
    and "st \<in> set (rx (rx_seq (a # rs)) (p, s, gs))"
  then obtain u where "u \<in> set (rx a (p, s, gs))" "st \<in> set (rx (rx_seq rs) u)" by (auto simp: rx_seq_def)
  moreover from this(1) have "length (rx_rest u) < length s" using a by blast
  ultimately show "length (rx_rest st) < length s" using rx_shorter by fastforce
qed

lemma consumes_seq_rest [regex_intros]: "consumes (rx_seq rs) \<Longrightarrow> consumes (rx_seq (a # rs))"
  unfolding consumes_def
proof (intro allI impI)
  fix p s gs st
  assume rs: "\<forall>p s gs st. st \<in> set (rx (rx_seq rs) (p, s, gs)) \<longrightarrow> length (rx_rest st) < length s"
    and "st \<in> set (rx (rx_seq (a # rs)) (p, s, gs))"
  then obtain u where u: "u \<in> set (rx a (p, s, gs))" "st \<in> set (rx (rx_seq rs) u)" by (auto simp: rx_seq_def)
  obtain q t hs where q: "u = (q, t, hs)" by (cases u)
  have "length (rx_rest st) < length t" using rs u(2) unfolding q by blast
  then have "length (rx_rest st) < length (rx_rest u)" by (simp add: q)
  then show "length (rx_rest st) < length s" using rx_shorter [OF u(1)] by simp
qed

lemma consumes_text [regex_intros]: "consumes (rx_text (c # s))" "consumes (rx_text_i (c # s))"
  unfolding rx_text_def rx_text_i_def list.map by (intro consumes_seq_first consumes_set)+

lemma consumes_rep [regex_intros]:
  assumes "consumes r" and "0 < mn"
  shows "consumes (RxRep mn mx r)"
  unfolding consumes_def
proof (intro allI impI)
  fix p s gs st
  assume st: "st \<in> set (rx (RxRep mn mx r) (p, s, gs))"
  obtain n where n: "mn + length s = Suc n" using assms(2) by (cases "mn + length s") auto
  have "st \<in> set (rx_rep (rx r) mn mx (Suc n) (p, s, gs))" using st by (simp only: rx.simps fst_conv snd_conv n)
  then obtain u where u: "u \<in> set (rx r (p, s, gs))" "st \<in> set (rx_rep (rx r) (mn - 1) (map_option (\<lambda>m. m - 1) mx) n u)"
    using assms(2) unfolding rx_rep.simps by (fastforce split: if_splits)
  have "length (rx_rest u) < length s" using assms(1) u(1) unfolding consumes_def by blast
  moreover have "length (rx_rest st) \<le> length (rx_rest u)"
    using rx_rep_after [OF rx_matches_after u(2)] by (fastforce simp: rx_after_def)
  ultimately show "length (rx_rest st) < length s" by simp
qed

lemma consumes_alt: "consumes a \<Longrightarrow> consumes b \<Longrightarrow> consumes (RxAlt a b)"
  unfolding consumes_def by (intro allI impI) (simp only: rx.simps set_append Un_iff, blast)

lemma consumes_any_of [regex_intros]:
  assumes "rs \<noteq> []" and "\<forall>r\<in>set rs. consumes r"
  shows "consumes (rx_any_of rs)"
proof -
  have "consumes (foldr RxAlt xs x)" if "consumes x" "\<forall>r\<in>set xs. consumes r" for x xs
    using that by (induction xs) (simp_all add: consumes_alt)
  then show ?thesis using assms unfolding rx_any_of_def by (simp add: in_set_butlastD)
qed

lemma rx_search_shorter:
  "consumes r \<Longrightarrow> rx_search r p s = Some (i, st) \<Longrightarrow> i + length (rx_rest st) < length s"
proof (induction s arbitrary: p i)
  case Nil
  show ?case
  proof (cases "rx r (p, [], [])")
    case (Cons a as)
    then have "a \<in> set (rx r (p, [], []))" by simp
    then show ?thesis using Nil.prems(1) unfolding consumes_def by fastforce
  qed (use Nil.prems(2) in \<open>simp add: rx_search.simps\<close>)
next
  case (Cons c s)
  show ?case
  proof (cases "rx r (p, c # s, [])")
    case Nil
    then obtain k where "rx_search r (Some c) s = Some (k, st)" "i = Suc k"
      using Cons.prems(2) by (subst (asm) rx_search.simps) auto
    then show ?thesis using Cons.IH [OF Cons.prems(1)] by auto
  next
    case (Cons a as)
    then have "a \<in> set (rx r (p, c # s, []))" "i = 0" "st = a"
      using Cons.prems(2) by (auto simp: rx_search.simps)
    then show ?thesis using Cons.prems(1) unfolding consumes_def by fastforce
  qed
qed

end
