(* ===== verification/Json_Access.thy ===== *)
theory Json_Access
  imports Js_Text
begin

text \<open>
  Reading JSON values of unknown shape, as \<open>runViews.ts\<close> of the BFF and \<open>apiClient.ts\<close> of the Studio
  do.  A value is \<open>None\<close> where the code has \<open>undefined\<close>.
\<close>

named_theorems json_access

section \<open>Fields\<close>

definition js_field :: "json option \<Rightarrow> string \<Rightarrow> json option" where
  "js_field v k = (case v of Some (JObj fs) \<Rightarrow> js_get fs k | _ \<Rightarrow> None)"

definition asRecord :: "json option \<Rightarrow> json option" where
  "asRecord v = (case v of Some (JObj fs) \<Rightarrow> Some (JObj fs) | _ \<Rightarrow> None)"

definition asString :: "json option \<Rightarrow> string" where
  "asString v = (case v of Some (JStr s) \<Rightarrow> s | _ \<Rightarrow> [])"

definition asNumber :: "json option \<Rightarrow> rat option" where
  "asNumber v = (case v of Some (JNum (Finite q)) \<Rightarrow> Some q | _ \<Rightarrow> None)"

definition asBoolean :: "json option \<Rightarrow> bool option" where
  "asBoolean v = (case v of Some (JBool b) \<Rightarrow> Some b | _ \<Rightarrow> None)"

definition js_array :: "json option \<Rightarrow> json list option" where
  "js_array v = (case v of Some (JArr js) \<Rightarrow> Some js | _ \<Rightarrow> None)"

fun json_strings :: "json list \<Rightarrow> string list" where
  "json_strings [] = []"
| "json_strings (JStr s # js) = s # json_strings js"
| "json_strings (_ # js) = json_strings js"

definition asStringArray :: "json option \<Rightarrow> string list" where
  "asStringArray v = json_strings (or_default (js_array v) [])"

definition js_null :: "json option \<Rightarrow> bool" where
  "js_null v \<longleftrightarrow> v = None \<or> v = Some JNull"

text \<open>\<open>Number.isInteger\<close> of a finite number.\<close>

definition is_integer :: "rat \<Rightarrow> bool" where
  "is_integer q \<longleftrightarrow> of_int \<lfloor>q\<rfloor> = q"

section \<open>Building objects\<close>

text \<open>An object literal; \<open>JSON.stringify\<close> leaves out the fields that are undefined.\<close>

definition js_object :: "(string \<times> json option) list \<Rightarrow> json" where
  "js_object fs = JObj (List.map_filter (\<lambda>(k, v). map_option (Pair k) v) fs)"

definition js_num :: "rat \<Rightarrow> json" where
  "js_num q = JNum (Finite q)"

definition js_or_null :: "('a \<Rightarrow> json) \<Rightarrow> 'a option \<Rightarrow> json" where
  "js_or_null f v = (case v of None \<Rightarrow> JNull | Some x \<Rightarrow> f x)"

text \<open>A string field that is set when the string is not empty.\<close>

definition nonempty_field :: "string \<Rightarrow> json option" where
  "nonempty_field s = (if s = [] then None else Some (JStr s))"

lemma js_field_simps [json_access, simp]:
  "js_field None k = None" "js_field (Some JNull) k = None" "js_field (Some (JBool b)) k = None"
  "js_field (Some (JNum n)) k = None" "js_field (Some (JStr s)) k = None" "js_field (Some (JArr js)) k = None"
  by (simp_all add: js_field_def)

lemma js_object_first [json_access]:
  "js_field (Some (js_object ((k, v) # fs))) k' =
     (if k = k' \<and> v \<noteq> None then v else js_field (Some (js_object fs)) k')"
  by (auto simp: js_field_def js_object_def List.map_filter_simps split: option.splits)

lemma js_object_none [json_access]: "js_field (Some (js_object [])) k = None"
  by (simp add: js_field_def js_object_def List.map_filter_simps)

lemma asRecord_Some [json_access]: "asRecord v = Some j \<longleftrightarrow> (\<exists>fs. v = Some (JObj fs) \<and> j = JObj fs)"
  by (auto simp: asRecord_def split: option.splits json.splits)

lemma asRecord_field [json_access, simp]: "js_field (asRecord v) k = js_field v k"
  by (auto simp: asRecord_def js_field_def split: option.splits json.splits)

lemma asString_simps [json_access, simp]:
  "asString None = []" "asString (Some (JStr s)) = s" "asString (Some JNull) = []"
  by (simp_all add: asString_def)

lemma asNumber_simps [json_access, simp]:
  "asNumber None = None" "asNumber (Some (js_num q)) = Some q" "asNumber (Some JNull) = None"
  by (simp_all add: asNumber_def js_num_def)

end
