(* ===== verification/Upstream_Errors.thy ===== *)
theory Upstream_Errors
  imports Js_Regex Json_Access Run_State
begin

text \<open>
  \<open>error-codes.ts\<close> of the BFF: the closed set of failure codes that the browser may see, and the
  sanitizer that every upstream message passes on its way to the browser.
\<close>

section \<open>Failure codes\<close>

fun ui_code_name :: "ui_error_code \<Rightarrow> string" where
  "ui_code_name UnsupportedCobol = ''unsupported_cobol''"
| "ui_code_name ParseFailed = ''parse_failed''"
| "ui_code_name SemanticIrFailed = ''semantic_ir_failed''"
| "ui_code_name ModelGatewayUnavailable = ''model_gateway_unavailable''"
| "ui_code_name ModelPolicyDenied = ''model_policy_denied''"
| "ui_code_name AgentTimeout = ''agent_timeout''"
| "ui_code_name AgentContractInvalid = ''agent_contract_invalid''"
| "ui_code_name JavaGenerationFailed = ''java_generation_failed''"
| "ui_code_name JavaCompileFailed = ''java_compile_failed''"
| "ui_code_name JavaRuntimeFailed = ''java_runtime_failed''"
| "ui_code_name OracleMismatch = ''oracle_mismatch''"
| "ui_code_name EvidenceIncompleteCode = ''evidence_incomplete''"
| "ui_code_name CancelledCode = ''cancelled''"
| "ui_code_name GenerateOnlyComplete = ''generate_only_complete''"
| "ui_code_name ServiceUnavailable = ''service_unavailable''"
| "ui_code_name InternalError = ''internal_error''"

definition W02_UI_ERROR_CODES :: "ui_error_code list" where
  "W02_UI_ERROR_CODES =
     [UnsupportedCobol, ParseFailed, SemanticIrFailed, ModelGatewayUnavailable, ModelPolicyDenied, AgentTimeout,
      AgentContractInvalid, JavaGenerationFailed, JavaCompileFailed, JavaRuntimeFailed, OracleMismatch,
      EvidenceIncompleteCode, CancelledCode, GenerateOnlyComplete, ServiceUnavailable, InternalError]"

text \<open>The map from the orchestrator's codes is the identity on all but the last two.\<close>

definition ORCHESTRATOR_TO_UI :: "(string \<times> ui_error_code) list" where
  "ORCHESTRATOR_TO_UI = map (\<lambda>c. (ui_code_name c, c)) (take 14 W02_UI_ERROR_CODES)"

text \<open>
  The map is a plain object: a look-up by one of the names of \<open>Object.prototype\<close> gives the inherited
  member, which is not a code.
\<close>

datatype mapped_code = UiCode ui_error_code | InheritedCode string

definition mapOrchestratorFailureCode :: "json option \<Rightarrow> mapped_code option" where
  "mapOrchestratorFailureCode raw =
     (case raw of
        Some (JStr s) \<Rightarrow>
          (let trimmed = js_trim s
           in if trimmed = [] then None
              else case map_of ORCHESTRATOR_TO_UI trimmed of
                Some code \<Rightarrow> Some (UiCode code)
              | None \<Rightarrow>
                  (if trimmed \<in> set object_prototype_members then Some (InheritedCode trimmed)
                   else case find (\<lambda>c. ui_code_name c = trimmed) W02_UI_ERROR_CODES of
                     Some code \<Rightarrow> Some (UiCode code)
                   | None \<Rightarrow> Some (UiCode InternalError)))
      | _ \<Rightarrow> None)"

fun DEFAULT_MESSAGES :: "ui_error_code \<Rightarrow> string" where
  "DEFAULT_MESSAGES UnsupportedCobol = ''COBOL source uses constructs outside the supported W0.2 subset.''"
| "DEFAULT_MESSAGES ParseFailed = ''COBOL source could not be parsed.''"
| "DEFAULT_MESSAGES SemanticIrFailed = ''Semantic IR generation failed for this program.''"
| "DEFAULT_MESSAGES ModelGatewayUnavailable = ''The Model Gateway is unavailable. Try again shortly.''"
| "DEFAULT_MESSAGES ModelPolicyDenied = ''The Model Gateway policy denied this request.''"
| "DEFAULT_MESSAGES AgentTimeout = ''An agent step exceeded its bounded budget.''"
| "DEFAULT_MESSAGES AgentContractInvalid = ''An agent returned a contract-invalid response.''"
| "DEFAULT_MESSAGES JavaGenerationFailed = ''Java generation failed for this run.''"
| "DEFAULT_MESSAGES JavaCompileFailed = ''Generated Java did not compile.''"
| "DEFAULT_MESSAGES JavaRuntimeFailed = ''Generated Java failed at runtime.''"
| "DEFAULT_MESSAGES OracleMismatch = ''Generated Java output did not match the expected oracle.''"
| "DEFAULT_MESSAGES EvidenceIncompleteCode = ''Evidence pack is incomplete; the run is not certified.''"
| "DEFAULT_MESSAGES CancelledCode = ''The run was cancelled before completion.''"
| "DEFAULT_MESSAGES GenerateOnlyComplete =
     ''Java artifacts ready. Verification was not requested for this generator-only run.''"
| "DEFAULT_MESSAGES ServiceUnavailable = ''A required service is temporarily unavailable.''"
| "DEFAULT_MESSAGES InternalError = ''The run failed with an internal error.''"

fun defaultMessageFor :: "mapped_code \<Rightarrow> string option" where
  "defaultMessageFor (UiCode code) = Some (DEFAULT_MESSAGES code)"
| "defaultMessageFor (InheritedCode _) = None"

section \<open>The sanitizer\<close>

text \<open>\<open>[A-Za-z0-9_-]\<close>, \<open>[^\s"']\<close> and \<open>[^\s"':]\<close>.\<close>

definition is_key_char :: "char \<Rightarrow> bool" where
  "is_key_char c \<longleftrightarrow> is_alnum c \<or> c = CHR ''_'' \<or> c = CHR ''-''"

definition is_bare_char :: "char \<Rightarrow> bool" where
  "is_bare_char c \<longleftrightarrow> \<not> is_js_space c \<and> c \<noteq> CHR 0x22 \<and> c \<noteq> CHR 0x27"

definition is_path_char :: "char \<Rightarrow> bool" where
  "is_path_char c \<longleftrightarrow> is_bare_char c \<and> c \<noteq> CHR '':''"

definition API_KEY_PATTERN :: regex where
  "API_KEY_PATTERN = rx_seq [rx_text ''sk-'', RxRep 20 None (RxSet is_key_char)]"

definition BEARER_PATTERN :: regex where
  "BEARER_PATTERN = rx_seq [rx_text_i ''Bearer'', rx_some is_js_space, rx_some is_id_char]"

definition KEY_VALUE_PATTERN :: regex where
  "KEY_VALUE_PATTERN =
     rx_seq [rx_text_i ''api'', rx_opt (RxSet (\<lambda>c. c = CHR ''-'' \<or> c = CHR ''_'')), rx_text_i ''key'',
       RxSet (\<lambda>c. c = CHR ''='' \<or> c = CHR '':''), rx_many is_js_space, rx_some is_bare_char]"

definition JWT_PATTERN :: regex where
  "JWT_PATTERN =
     rx_seq [RxWordBoundary, rx_text ''eyJ'', RxRep 8 None (RxSet is_key_char), rx_text ''.'',
       RxRep 8 None (RxSet is_key_char), rx_text ''.'', RxRep 8 None (RxSet is_key_char), RxWordBoundary]"

definition URL_PATTERN :: regex where
  "URL_PATTERN = rx_seq [rx_text_i ''http'', rx_opt (rx_text_i ''s''), rx_text ''://'', rx_some is_bare_char]"

definition PATH_PATTERN :: regex where
  "PATH_PATTERN =
     rx_seq [rx_text ''/'', rx_any_of (map rx_text [''Users'', ''home'', ''var'', ''opt'', ''srv'', ''tmp'', ''etc'']),
       rx_text ''/'', rx_some is_path_char]"

definition SECRET_PATTERNS :: "regex list" where
  "SECRET_PATTERNS =
     [API_KEY_PATTERN, BEARER_PATTERN, KEY_VALUE_PATTERN, JWT_PATTERN, URL_PATTERN, PATH_PATTERN]"

definition STACK_TRACE_MARKERS :: regex where
  "STACK_TRACE_MARKERS =
     rx_any_of
       [rx_seq [rx_text ''at'', rx_some is_js_space,
          rx_some (\<lambda>c. is_word_char c \<or> c = CHR ''.'' \<or> c = CHR ''$''), rx_many is_js_space, rx_text ''('',
          rx_many (\<lambda>c. c \<noteq> CHR '')''), rx_text '')''],
        rx_seq [RxLineStart, rx_many is_js_space, rx_text ''File'', rx_some is_js_space, RxSet (\<lambda>c. c = CHR 0x22),
          rx_some (\<lambda>c. \<not> is_line_end c), RxSet (\<lambda>c. c = CHR 0x22), rx_text '','', rx_some is_js_space,
          rx_text ''line'', rx_some is_js_space, rx_some is_digit],
        rx_seq [rx_text ''Traceback'', rx_some is_js_space, rx_text ''(most'', rx_some is_js_space, rx_text ''recent'',
          rx_some is_js_space, rx_text ''call'', rx_some is_js_space, rx_text ''last):'']]"

definition redacted :: string where "redacted = ''[redacted]''"

definition cut_stack_trace :: "string \<Rightarrow> string" where
  "cut_stack_trace value =
     (case rx_exec STACK_TRACE_MARKERS value of
        Some (index, _) \<Rightarrow> js_trim (take index value)
      | None \<Rightarrow> value)"

definition redact_secrets :: "string \<Rightarrow> string" where
  "redact_secrets value = fold (\<lambda>pattern v. rx_replace pattern redacted v) SECRET_PATTERNS value"

definition collapse_spaces :: "string \<Rightarrow> string" where
  "collapse_spaces value = js_trim (rx_replace (rx_some is_js_space) '' '' value)"

text \<open>The text that is left of a message, when anything is left of it.\<close>

definition sanitized_text :: "string \<Rightarrow> string option" where
  "sanitized_text raw =
     (let value = collapse_spaces (redact_secrets (cut_stack_trace raw))
      in if value = [] then None
         else if length value > 280 then Some (take 277 value @ ''...'')
         else Some value)"

definition sanitizeUpstreamMessage :: "json option \<Rightarrow> string \<Rightarrow> string" where
  "sanitizeUpstreamMessage raw fallback =
     (case raw of Some (JStr s) \<Rightarrow> or_default (sanitized_text s) fallback | _ \<Rightarrow> fallback)"

section \<open>Failures\<close>

record mapped_failure =
  mfCode :: mapped_code
  mfMessage :: "string option"

definition mapFailure ::
  "json option \<Rightarrow> json option \<Rightarrow> ui_error_code option \<Rightarrow> string option \<Rightarrow> mapped_failure option" where
  "mapFailure rawFailureCode rawFailureMessage fallbackCode fallbackMessage =
     (case or_else (mapOrchestratorFailureCode rawFailureCode) (map_option UiCode fallbackCode) of
        None \<Rightarrow> None
      | Some code \<Rightarrow>
          Some \<lparr>mfCode = code,
            mfMessage =
              (case or_else fallbackMessage (defaultMessageFor code) of
                 Some fallback \<Rightarrow> Some (sanitizeUpstreamMessage rawFailureMessage fallback)
               | None \<Rightarrow> Option.bind (as_string rawFailureMessage) sanitized_text)\<rparr>)"

definition mapUpstreamUnavailable :: "string option \<Rightarrow> mapped_failure" where
  "mapUpstreamUnavailable detail =
     \<lparr>mfCode = UiCode ServiceUnavailable,
      mfMessage = Some (sanitizeUpstreamMessage (map_option JStr detail) (DEFAULT_MESSAGES ServiceUnavailable))\<rparr>"

end
