(* ===== verification/Sanitizer_Facts.thy ===== *)
theory Sanitizer_Facts
  imports Upstream_Errors "HOL-Library.Sublist"
begin

text \<open>
  What the sanitizer of \<open>error-codes.ts\<close> guarantees of the text it lets through.
\<close>

section \<open>Texts without a class of words\<close>

definition free_of :: "(string \<Rightarrow> bool) \<Rightarrow> string \<Rightarrow> bool" where
  "free_of L s \<longleftrightarrow> (\<forall>w. L w \<longrightarrow> \<not> sublist w s)"

lemma free_of_sublist: "free_of L s \<Longrightarrow> sublist t s \<Longrightarrow> free_of L t"
  unfolding free_of_def using sublist_order.order_trans by blast

lemma free_of_Cons: "free_of L (c # s) \<longleftrightarrow> free_of L s \<and> (\<forall>w. L w \<longrightarrow> \<not> prefix w (c # s))"
  by (auto simp: free_of_def sublist_Cons_right)

text \<open>The words that the redaction cannot produce: they share no character with its brackets.\<close>

definition plain_words :: "(string \<Rightarrow> bool) \<Rightarrow> bool" where
  "plain_words L \<longleftrightarrow>
     (\<forall>w. L w \<longrightarrow> w \<noteq> [] \<and> CHR ''['' \<notin> set w \<and> CHR '']'' \<notin> set w \<and> \<not> sublist w ''redacted'')"

lemma prefix_replaced:
  assumes "CHR ''['' \<notin> set w" and "prefix w (rx_replace_from r redacted p s)"
  shows "prefix w s"
  using assms
proof (induction r redacted p s arbitrary: w rule: rx_replace_from.induct)
  case (1 r p s)
  have stop: "w = []" if "prefix w (redacted @ t)" for t
    using that 1(4) by (cases w) (auto simp: redacted_def)
  show ?case
  proof (cases "rx r (p, s, [])")
    case Nil
    show ?thesis
    proof (cases s)
      case Nil
      then show ?thesis using 1(5) \<open>rx r (p, s, []) = []\<close> by (simp add: rx_replace_from.simps)
    next
      case (Cons c cs)
      then have "prefix w (c # rx_replace_from r redacted (Some c) cs)"
        using 1(5) \<open>rx r (p, s, []) = []\<close> by (simp add: rx_replace_from.simps)
      then show ?thesis using 1(1) [OF \<open>rx r (p, s, []) = []\<close> Cons] 1(4) Cons
        by (cases w) auto
    qed
  next
    case (Cons st sts)
    obtain p' rest gs where "st = (p', rest, gs)" by (cases st)
    then have "w = []"
      using 1(5) Cons by (subst (asm) rx_replace_from.simps) (auto split: if_splits intro: stop)
    then show ?thesis by simp
  qed
qed

text \<open>A word inside of the redaction mark and what follows it lies in what follows.\<close>

lemma plain_word_after_mark:
  assumes "plain_words L" "L w" "sublist w (redacted @ s)"
  shows "sublist w s"
proof -
  have w: "w \<noteq> []" "CHR ''['' \<notin> set w" "CHR '']'' \<notin> set w" "\<not> sublist w ''redacted''"
    using assms(1,2) by (auto simp: plain_words_def)
  have inside: "\<not> sublist w (CHR ''['' # ''redacted'')"
    using w(1,2,4) unfolding sublist_Cons_right by (cases w) auto
  have split: "redacted @ s = (CHR ''['' # ''redacted'') @ CHR '']'' # s" by (simp add: redacted_def)
  have "sublist w (CHR '']'' # s)"
  proof (rule ccontr)
    assume "\<not> sublist w (CHR '']'' # s)"
    then obtain u v where uv: "w = u @ v" "suffix u (CHR ''['' # ''redacted'')" "prefix v (CHR '']'' # s)"
      using assms(3) inside unfolding split sublist_append by blast
    have "v = []" using uv(1,3) w(3) by (cases v) auto
    then show False using uv(1,2) inside suffix_imp_sublist by auto
  qed
  then show ?thesis using w(1,3) unfolding sublist_Cons_right by (cases w) auto
qed

lemma free_of_replaced:
  assumes "plain_words L" and "consumes r"
    and "\<And>w t p. L w \<Longrightarrow> prefix w t \<Longrightarrow> suffix t s \<Longrightarrow> rx r (p, t, []) \<noteq> []"
  shows "free_of L (rx_replace_from r redacted p s)"
  using assms
proof (induction r redacted p s rule: rx_replace_from.induct)
  case (1 r p s)
  have mark: "free_of L t \<Longrightarrow> free_of L (redacted @ t)" for t
    using plain_word_after_mark [OF 1(4)] by (auto simp: free_of_def)
  show ?case
  proof (cases "rx r (p, s, [])")
    case Nil
    show ?thesis
    proof (cases s)
      case Nil
      then show ?thesis using \<open>rx r (p, s, []) = []\<close> 1(4)
        by (simp add: rx_replace_from.simps free_of_def plain_words_def)
    next
      case (Cons c cs)
      let ?out = "rx_replace_from r redacted (Some c) cs"
      have out: "rx_replace_from r redacted p s = c # ?out"
        using Cons Nil by (simp add: rx_replace_from.simps)
      have "suffix cs s" by (simp add: Cons suffix_def)
      then have "free_of L ?out"
        using 1(1) [OF Nil Cons 1(4,5)] 1(6) suffix_order.order_trans by blast
      moreover have "\<not> prefix w (c # ?out)" if "L w" for w
      proof
        assume "prefix w (c # ?out)"
        then have "prefix w s" using prefix_replaced [of w r p s] that 1(4) out by (auto simp: plain_words_def)
        then show False using 1(6) [OF that, of s p] Nil by simp
      qed
      ultimately show ?thesis using out by (simp add: free_of_Cons)
    qed
  next
    case (Cons st sts)
    obtain p' rest gs where st: "st = (p', rest, gs)" by (cases st)
    have "rx_after (p, s, []) st" using rx_matches_after [of st r "(p, s, [])"] Cons by simp
    then have rest: "suffix rest s" by (auto simp: rx_after_def st suffix_def)
    have less: "length rest < length s"
    proof -
      have "st \<in> set (rx r (p, s, []))" using Cons by simp
      then have "length (rx_rest st) < length s" using 1(5) unfolding consumes_def by blast
      then show ?thesis by (simp add: st)
    qed
    have "free_of L (rx_replace_from r redacted p' rest)"
      using 1(2) [OF Cons st [symmetric] refl less 1(4,5)] 1(6) suffix_order.order_trans [OF _ rest] by blast
    then show ?thesis using less Cons st mark by (simp add: rx_replace_from.simps)
  qed
qed

section \<open>Collapsing white space\<close>

text \<open>A word whose single spaces stand for runs of white space.\<close>

inductive expands :: "string \<Rightarrow> string \<Rightarrow> bool" where
  "expands [] []"
| "\<not> is_js_space c \<Longrightarrow> expands w v \<Longrightarrow> expands (c # w) (c # v)"
| "ws \<noteq> [] \<Longrightarrow> list_all is_js_space ws \<Longrightarrow> expands w v \<Longrightarrow> expands (CHR '' '' # w) (ws @ v)"

lemma rx_rep_set_consumed:
  "st' \<in> set (rx_rep (rx (RxSet P)) mn mx n st) \<Longrightarrow>
   \<exists>t. rx_rest st = t @ rx_rest st' \<and> list_all P t \<and> mn \<le> length t"
proof (induction n arbitrary: mn mx st)
  case (Suc n)
  show ?case
  proof (cases "st' = st \<and> mn = 0")
    case False
    then obtain u where u: "u \<in> set (rx (RxSet P) st)"
        "st' \<in> set (rx_rep (rx (RxSet P)) (mn - 1) (map_option (\<lambda>m. m - 1) mx) n u)"
      using Suc.prems by (auto split: if_splits)
    obtain t where t: "rx_rest u = t @ rx_rest st'" "list_all P t" "mn - 1 \<le> length t" using Suc.IH [OF u(2)] by blast
    obtain c where "rx_rest st = c # rx_rest u" "P c"
      using u(1) by (auto elim: rx_set_cases)
    then show ?thesis using t by (intro exI [of _ "c # t"]) auto
  qed auto
qed (auto split: if_splits)

lemma rx_rep_set_intro:
  "list_all P t \<Longrightarrow> mn \<le> length t \<Longrightarrow> length t \<le> n \<Longrightarrow>
   \<exists>q. (q, s, gs) \<in> set (rx_rep (rx (RxSet P)) mn None n (p, t @ s, gs))"
proof (induction n arbitrary: mn t p)
  case (Suc n)
  show ?case
  proof (cases t)
    case (Cons c t')
    then have "list_all P t'" "mn - 1 \<le> length t'" "length t' \<le> n" using Suc.prems by auto
    then obtain q where "(q, s, gs) \<in> set (rx_rep (rx (RxSet P)) (mn - 1) None n (Some c, t' @ s, gs))"
      using Suc.IH by blast
    then show ?thesis using Cons Suc.prems by (intro exI [of _ q]) auto
  qed (use Suc.prems in auto)
qed auto

lemma rx_some_match [regex_intros]:
  "list_all P t \<Longrightarrow> mn \<le> length t \<Longrightarrow> \<exists>q. (q, s, gs) \<in> set (rx (RxRep mn None (RxSet P)) (p, t @ s, gs))"
  using rx_rep_set_intro [of P t mn "mn + length (t @ s)" s gs p] by simp

lemma prefix_collapsed:
  "prefix w (rx_replace_from (rx_some is_js_space) '' '' p s) \<Longrightarrow> \<exists>v. prefix v s \<and> expands w v"
proof (induction "rx_some is_js_space" "'' ''" p s arbitrary: w rule: rx_replace_from.induct)
  case (1 p s)
  let ?r = "rx_some is_js_space"
  show ?case
  proof (cases "w = [] \<or> s = []")
    case True
    then have "w = []" using 1(4) rx_set_simps by (subst (asm) rx_replace_from.simps) auto
    then show ?thesis using expands.intros(1) by (intro exI [of _ "[]"]) auto
  next
    case False
    then obtain c cs where s: "s = c # cs" by (cases s) auto
    show ?thesis
    proof (cases "rx ?r (p, s, [])")
      case Nil
      have "\<not> is_js_space c"
      proof
        assume "is_js_space c"
        then obtain q where "(q, cs, []) \<in> set (rx ?r (p, [c] @ cs, []))"
          using rx_some_match [of is_js_space "[c]" 1 cs "[]" p] by auto
        then show False using Nil s by simp
      qed
      obtain w' where w: "w = c # w'" "prefix w' (rx_replace_from ?r '' '' (Some c) cs)"
        using 1(4) False Nil s by (subst (asm) rx_replace_from.simps) (cases w, auto)
      obtain v where "prefix v cs" "expands w' v" using 1(1) [OF Nil s w(2)] by blast
      then show ?thesis using \<open>\<not> is_js_space c\<close> w s expands.intros(2) by (intro exI [of _ "c # v"]) auto
    next
      case (Cons st sts)
      obtain p' rest gs where st: "st = (p', rest, gs)" by (cases st)
      have "st \<in> set (rx_rep (rx (RxSet is_js_space)) 1 None (1 + length s) (p, s, []))" using Cons by simp
      then obtain t where t: "s = t @ rest" "list_all is_js_space t" "1 \<le> length t"
        using rx_rep_set_consumed [of st is_js_space 1 None "1 + length s" "(p, s, [])"] st by auto
      then have less: "length rest < length s" by (cases t) auto
      obtain w' where w: "w = CHR '' '' # w'" "prefix w' (rx_replace_from ?r '' '' p' rest)"
        using 1(4) False Cons st less by (subst (asm) rx_replace_from.simps) (cases w, auto)
      obtain v where "prefix v rest" "expands w' v" using 1(2) [OF Cons st [symmetric] refl less w(2)] by blast
      moreover have "t \<noteq> []" using t(3) by auto
      ultimately show ?thesis using t(1,2) w(1) expands.intros(3) [of t w' v] by (intro exI [of _ "t @ v"]) auto
    qed
  qed
qed

lemma free_of_trim: "free_of L s \<Longrightarrow> free_of L (js_trim s)"
proof (rule free_of_sublist)
  have "suffix (dropWhile is_js_space s) s" for s by (rule suffix_dropWhile)
  then show "sublist (js_trim s) s"
    unfolding js_trim_def
    by (metis (no_types) sublist_order.order_trans suffix_imp_sublist suffix_to_prefix prefix_imp_sublist rev_rev_ident suffix_dropWhile)
qed

lemma free_of_collapsed:
  assumes "\<And>w v. L w \<Longrightarrow> expands w v \<Longrightarrow> L v" and "\<And>w. L w \<Longrightarrow> w \<noteq> []" and "free_of L s"
  shows "free_of L (rx_replace_from (rx_some is_js_space) '' '' p s)"
  using assms(3)
proof (induction "rx_some is_js_space" "'' ''" p s rule: rx_replace_from.induct)
  case (1 p s)
  let ?r = "rx_some is_js_space" and ?out = "rx_replace_from (rx_some is_js_space) '' '' p s"
  have whole: "\<not> prefix w ?out" if "L w" for w
    using prefix_collapsed [of w p s] assms(1) [OF that] 1(4) prefix_imp_sublist unfolding free_of_def by blast
  have "free_of L (tl ?out)"
  proof (cases "rx ?r (p, s, [])")
    case Nil
    show ?thesis
    proof (cases s)
      case (Cons c cs)
      then have "free_of L cs" using 1(4) by (simp add: free_of_Cons)
      then show ?thesis using 1(1) [OF Nil Cons] Nil Cons by (subst rx_replace_from.simps) simp
    qed (use Nil assms(2) in \<open>simp add: rx_replace_from.simps free_of_def\<close>)
  next
    case (Cons st sts)
    obtain p' rest gs where st: "st = (p', rest, gs)" by (cases st)
    have "st \<in> set (rx_rep (rx (RxSet is_js_space)) 1 None (1 + length s) (p, s, []))" using Cons by simp
    then obtain t where t: "s = t @ rest" "1 \<le> length t"
      using rx_rep_set_consumed [of st is_js_space 1 None "1 + length s" "(p, s, [])"] st by auto
    then have less: "length rest < length s" by (cases t) auto
    have "free_of L rest" using 1(4) by (rule free_of_sublist) (simp add: t(1))
    then show ?thesis using 1(2) [OF Cons st [symmetric] refl less] Cons st less
      by (subst rx_replace_from.simps) simp
  qed
  then show ?case
  proof (cases ?out)
    case Nil
    then show ?thesis using assms(2) by (simp only: free_of_def) auto
  next
    case (Cons c cs)
    have "free_of L (c # cs)"
      using \<open>free_of L (tl ?out)\<close> whole unfolding Cons list.sel by (simp only: free_of_Cons) blast
    then show ?thesis by (simp only: Cons)
  qed
qed

section \<open>Which words are secret\<close>

text \<open>
  An API key of the form \<open>sk-\<close> with its first twenty characters, the first character of a bearer
  token or of the value of an \<open>api_key\<close>, of the host of a URL, and of the rest of a file path in a
  home, system or temporary directory.  A full stop and a bracket are left out as a first character.
\<close>

definition secret_start :: "char \<Rightarrow> bool" where
  "secret_start c \<longleftrightarrow> is_path_char c \<and> c \<noteq> CHR ''['' \<and> c \<noteq> CHR '']'' \<and> c \<noteq> CHR ''.''"

definition api_key_word :: "string \<Rightarrow> bool" where
  "api_key_word w \<longleftrightarrow> (\<exists>ks. w = ''sk-'' @ ks \<and> length ks = 20 \<and> list_all is_key_char ks)"

definition bearer_word :: "string \<Rightarrow> bool" where
  "bearer_word w \<longleftrightarrow>
     (\<exists>b ws c. w = b @ ws @ [c] \<and> map to_lower b = ''bearer'' \<and> ws \<noteq> [] \<and> list_all is_js_space ws \<and>
        is_id_char c \<and> c \<noteq> CHR ''.'')"

definition key_value_word :: "string \<Rightarrow> bool" where
  "key_value_word w \<longleftrightarrow>
     (\<exists>a sep k e ws c. w = a @ sep @ k @ [e] @ ws @ [c] \<and> map to_lower a = ''api'' \<and> sep \<in> {[], ''-'', ''_''} \<and>
        map to_lower k = ''key'' \<and> (e = CHR ''='' \<or> e = CHR '':'') \<and> list_all is_js_space ws \<and> secret_start c)"

definition url_word :: "string \<Rightarrow> bool" where
  "url_word w \<longleftrightarrow>
     (\<exists>h t c. w = h @ t @ ''://'' @ [c] \<and> map to_lower h = ''http'' \<and> map to_lower t \<in> {[], ''s''} \<and> secret_start c)"

definition path_word :: "string \<Rightarrow> bool" where
  "path_word w \<longleftrightarrow>
     (\<exists>d c. w = ''/'' @ d @ ''/'' @ [c] \<and> d \<in> {''Users'', ''home'', ''var'', ''opt'', ''srv'', ''tmp'', ''etc''} \<and> secret_start c)"

definition secret_word :: "string \<Rightarrow> bool" where
  "secret_word w \<longleftrightarrow> api_key_word w \<or> bearer_word w \<or> key_value_word w \<or> url_word w \<or> path_word w"

section \<open>The patterns match the secret words\<close>

definition matches_word :: "regex \<Rightarrow> string \<Rightarrow> bool" where
  "matches_word r w \<longleftrightarrow> (\<forall>p s gs. \<exists>q gs'. (q, s, gs') \<in> set (rx r (p, w @ s, gs)))"

lemma matches_set [regex_intros]: "P c \<Longrightarrow> matches_word (RxSet P) [c]"
  by (simp add: matches_word_def)

lemma matches_rep [regex_intros]: "list_all P t \<Longrightarrow> mn \<le> length t \<Longrightarrow> matches_word (RxRep mn None (RxSet P)) t"
  unfolding matches_word_def using rx_some_match by blast

lemma matches_opt_Nil [regex_intros]: "matches_word (rx_opt r) []"
proof -
  have "st \<in> set (rx_rep f 0 mx n st)" for f mx n st by (cases n) auto
  then show ?thesis unfolding matches_word_def by fastforce
qed

lemma matches_opt [regex_intros]:
  assumes "matches_word r w" and "w \<noteq> []"
  shows "matches_word (rx_opt r) w"
  unfolding matches_word_def
proof (intro allI)
  fix p s gs
  obtain q gs' where m: "(q, s, gs') \<in> set (rx r (p, w @ s, gs))" using assms(1) unfolding matches_word_def by blast
  obtain n where n: "length (w @ s) = Suc n" using assms(2) by (cases w) auto
  have "(q, s, gs') \<in> set (rx_rep (rx r) 0 (Some 0) n (q, s, gs'))" by (cases n) auto
  then have "(q, s, gs') \<in> set (rx_rep (rx r) 0 (Some 1) (Suc n) (p, w @ s, gs))"
    using m assms(2) by (auto intro!: exI [of _ q] exI [of _ s] exI [of _ gs'])
  then have "(q, s, gs') \<in> set (rx (rx_opt r) (p, w @ s, gs))"
    by (simp only: rx.simps fst_conv snd_conv n add_0)
  then show "\<exists>q gs'. (q, s, gs') \<in> set (rx (rx_opt r) (p, w @ s, gs))" by blast
qed

lemma matches_seq_Nil [regex_intros]: "matches_word (rx_seq []) []"
  by (simp add: matches_word_def rx_seq_def)

lemma matches_seq [regex_intros]:
  assumes "matches_word a u" and "matches_word (rx_seq rs) v"
  shows "matches_word (rx_seq (a # rs)) (u @ v)"
  unfolding matches_word_def
proof (intro allI)
  fix p s gs
  obtain q gs' where 1: "(q, v @ s, gs') \<in> set (rx a (p, u @ (v @ s), gs))" using assms(1) unfolding matches_word_def by blast
  obtain q' gs'' where "(q', s, gs'') \<in> set (rx (rx_seq rs) (q, v @ s, gs'))" using assms(2) unfolding matches_word_def by blast
  with 1 have "(q', s, gs'') \<in> set (rx (rx_seq (a # rs)) (p, (u @ v) @ s, gs))"
    using rx_seq_intro by simp
  then show "\<exists>q gs'. (q, s, gs') \<in> set (rx (rx_seq (a # rs)) (p, (u @ v) @ s, gs))" by blast
qed

lemma matches_text [regex_intros]: "matches_word (rx_text s) s"
proof (induction s)
  case (Cons c s)
  have "matches_word (rx_seq (RxSet (same_char c) # map (\<lambda>c. RxSet (same_char c)) s)) ([c] @ s)"
    using Cons by (intro matches_seq matches_set) (simp_all add: rx_text_def)
  then show ?case by (simp add: rx_text_def)
qed (simp add: rx_text_def matches_seq_Nil)

lemma matches_text_i [regex_intros]: "map to_lower u = map to_lower s \<Longrightarrow> matches_word (rx_text_i s) u"
proof (induction s arbitrary: u)
  case (Cons c s)
  then obtain d u' where u: "u = d # u'" "to_lower d = to_lower c" "map to_lower u' = map to_lower s" by (cases u) auto
  have "matches_word (rx_seq (RxSet (same_letter c) # map (\<lambda>c. RxSet (same_letter c)) s)) ([d] @ u')"
    using Cons.IH [OF u(3)] u(2) by (intro matches_seq matches_set) (simp_all add: rx_text_i_def)
  then show ?case by (simp add: rx_text_i_def u(1))
qed (simp add: rx_text_i_def matches_seq_Nil)

lemma matches_any_of [regex_intros]: "r \<in> set rs \<Longrightarrow> matches_word r w \<Longrightarrow> matches_word (rx_any_of rs) w"
proof -
  assume r: "r \<in> set rs" "matches_word r w"
  have "set (rx a st) \<subseteq> set (rx (foldr RxAlt bs b) st)" if "a \<in> set (bs @ [b])" for a bs b st
    using that by (induction bs) auto
  from this [of r "butlast rs" "last rs"] have sub: "set (rx r st) \<subseteq> set (rx (rx_any_of rs) st)" for st
    using r(1) unfolding rx_any_of_def by (cases "rs = []") auto
  show ?thesis
    unfolding matches_word_def
  proof (intro allI)
    fix p s gs
    obtain q gs' where "(q, s, gs') \<in> set (rx r (p, w @ s, gs))" using r(2) unfolding matches_word_def by blast
    then show "\<exists>q gs'. (q, s, gs') \<in> set (rx (rx_any_of rs) (p, w @ s, gs))" using sub by blast
  qed
qed

lemma matches_prefix: "matches_word r w \<Longrightarrow> prefix w t \<Longrightarrow> rx r (p, t, gs) \<noteq> []"
proof -
  assume "matches_word r w" and "prefix w t"
  then obtain s where "t = w @ s" by (auto simp: prefix_def)
  moreover have "\<exists>q gs'. (q, s, gs') \<in> set (rx r (p, w @ s, gs))"
    using \<open>matches_word r w\<close> unfolding matches_word_def by blast
  ultimately show ?thesis by auto
qed

lemma patterns_consume: "pattern \<in> set SECRET_PATTERNS \<Longrightarrow> consumes pattern"
  unfolding SECRET_PATTERNS_def API_KEY_PATTERN_def BEARER_PATTERN_def KEY_VALUE_PATTERN_def JWT_PATTERN_def
    URL_PATTERN_def PATH_PATTERN_def
  using consumes_seq_first [OF consumes_text(1)] consumes_seq_first [OF consumes_text(2)] consumes_seq_rest
  by auto

lemma to_lower_fixed: "to_lower d = c \<Longrightarrow> \<not> is_lower c \<Longrightarrow> d = c"
proof -
  have "is_upper d \<Longrightarrow> is_lower (to_lower d)"
    by (cases d rule: char.exhaust) (auto simp: to_lower_def is_upper_def is_lower_def char_between_def)
  then show "to_lower d = c \<Longrightarrow> \<not> is_lower c \<Longrightarrow> d = c" by (auto simp: to_lower_def split: if_splits)
qed

lemma api_key_match: "api_key_word w \<Longrightarrow> matches_word API_KEY_PATTERN w"
proof -
  assume "api_key_word w"
  then obtain ks where w: "w = ''sk-'' @ ks" "length ks = 20" "list_all is_key_char ks"
    unfolding api_key_word_def by (elim exE conjE) (rule that)
  have "matches_word API_KEY_PATTERN (''sk-'' @ ks @ [])"
    unfolding API_KEY_PATTERN_def
    by (rule matches_seq [OF matches_text matches_seq [OF matches_rep matches_seq_Nil]]) (use w(2,3) in simp_all)
  then show ?thesis by (simp add: w(1))
qed

lemma bearer_match: "bearer_word w \<Longrightarrow> matches_word BEARER_PATTERN w"
proof -
  assume "bearer_word w"
  then obtain b ws c where w: "w = b @ ws @ [c]" "map to_lower b = ''bearer''" "ws \<noteq> []" "list_all is_js_space ws" "is_id_char c"
    unfolding bearer_word_def by (elim exE conjE) (rule that)
  have "map to_lower b = map to_lower ''Bearer''" unfolding w(2) by code_simp
  moreover have "1 \<le> length ws" using w(3) by (cases ws) auto
  ultimately have "matches_word BEARER_PATTERN (b @ ws @ [c] @ [])"
    unfolding BEARER_PATTERN_def
    by (intro matches_seq [OF matches_text_i matches_seq [OF matches_rep matches_seq [OF matches_rep matches_seq_Nil]]])
      (use w(4,5) in simp_all)
  then show ?thesis by (simp add: w(1))
qed

lemma key_value_match: "key_value_word w \<Longrightarrow> matches_word KEY_VALUE_PATTERN w"
proof -
  let ?sep = "\<lambda>c. c = CHR ''-'' \<or> c = CHR ''_''"
  assume "key_value_word w"
  then obtain a sep k e ws c where w: "w = a @ sep @ k @ [e] @ ws @ [c]" "map to_lower a = ''api''"
    "sep \<in> {[], ''-'', ''_''}" "map to_lower k = ''key''" "e = CHR ''='' \<or> e = CHR '':''"
    "list_all is_js_space ws" "secret_start c"
    unfolding key_value_word_def by (elim exE conjE) (rule that)
  have bare: "is_bare_char c" using w(7) by (simp add: secret_start_def is_path_char_def)
  have lits: "map to_lower ''api'' = ''api''" "map to_lower ''key'' = ''key''" by code_simp+
  have opt: "matches_word (rx_opt (RxSet ?sep)) sep"
  proof (cases "sep = []")
    case False
    then obtain d where d: "sep = [d]" "?sep d" using w(3) by auto
    have "matches_word (RxSet ?sep) [d]" using d(2) by (rule matches_set)
    then show ?thesis unfolding d(1) by (rule matches_opt) simp
  qed (simp only: matches_opt_Nil)
  have "matches_word KEY_VALUE_PATTERN (a @ sep @ k @ [e] @ ws @ [c] @ [])"
    unfolding KEY_VALUE_PATTERN_def
    by (rule matches_seq [OF matches_text_i matches_seq [OF opt matches_seq [OF matches_text_i matches_seq [OF matches_set
          matches_seq [OF matches_rep matches_seq [OF matches_rep matches_seq_Nil]]]]]])
      (use w(2,4,5,6) lits bare in simp_all)
  then show ?thesis by (simp add: w(1))
qed

lemma url_match: "url_word w \<Longrightarrow> matches_word URL_PATTERN w"
proof -
  assume "url_word w"
  then obtain h t c where w: "w = h @ t @ ''://'' @ [c]" "map to_lower h = ''http''" "map to_lower t \<in> {[], ''s''}"
    "secret_start c"
    unfolding url_word_def by (elim exE conjE) (rule that)
  have bare: "is_bare_char c" using w(4) by (simp add: secret_start_def is_path_char_def)
  have lits: "map to_lower ''http'' = ''http''" "map to_lower ''s'' = ''s''" by code_simp+
  have opt: "matches_word (rx_opt (rx_text_i ''s'')) t"
  proof (cases "t = []")
    case False
    then have "map to_lower t = map to_lower ''s''" using w(3) lits(2) by auto
    then show ?thesis using False by (intro matches_opt matches_text_i)
  qed (simp only: matches_opt_Nil)
  have "matches_word URL_PATTERN (h @ t @ ''://'' @ [c] @ [])"
    unfolding URL_PATTERN_def
    by (rule matches_seq [OF matches_text_i matches_seq [OF opt matches_seq [OF matches_text
          matches_seq [OF matches_rep matches_seq_Nil]]]])
      (use w(2) lits bare in simp_all)
  then show ?thesis by (simp add: w(1))
qed

lemma path_match: "path_word w \<Longrightarrow> matches_word PATH_PATTERN w"
proof -
  let ?dirs = "[''Users'', ''home'', ''var'', ''opt'', ''srv'', ''tmp'', ''etc'']"
  assume "path_word w"
  then obtain d c where w: "w = ''/'' @ d @ ''/'' @ [c]"
    "d \<in> {''Users'', ''home'', ''var'', ''opt'', ''srv'', ''tmp'', ''etc''}" "secret_start c"
    unfolding path_word_def by (elim exE conjE) (rule that)
  have dirs: "d \<in> set ?dirs" using w(2) by simp
  have bare: "is_path_char c" using w(3) by (simp add: secret_start_def)
  have "matches_word (rx_any_of (map rx_text ?dirs)) d"
    by (rule matches_any_of [of "rx_text d"]) (use dirs matches_text in \<open>simp_all only: set_map imageI\<close>)
  from matches_seq [OF matches_text [of "''/''"] matches_seq [OF this matches_seq [OF matches_text [of "''/''"]
      matches_seq [OF matches_rep [of is_path_char "[c]" 1] matches_seq_Nil]]]] bare
  show ?thesis by (simp add: w(1) PATH_PATTERN_def)
qed

section \<open>Secret words are plain words that bear white space\<close>

lemma lower_char_in: "map to_lower a = b \<Longrightarrow> c \<in> set a \<Longrightarrow> to_lower c \<in> set b"
  by auto

lemma fixed_not_in: "map to_lower a = b \<Longrightarrow> to_lower c = c \<Longrightarrow> c \<notin> set b \<Longrightarrow> c \<notin> set a"
  using lower_char_in by fastforce

lemma brackets_fixed: "to_lower CHR ''['' = CHR ''[''" "to_lower CHR '']'' = CHR '']''"
  by code_simp+

lemma space_fixed: "is_js_space c \<Longrightarrow> to_lower c = c \<and> \<not> is_bare_char c \<and> \<not> is_key_char c \<and> \<not> is_id_char c"
  by (auto simp: to_lower_def is_js_space_def is_bare_char_def is_key_char_def is_id_char_def is_alnum_def is_upper_def
      is_lower_def is_digit_def char_between_def)

lemma bracket_chars:
  "\<not> is_js_space CHR ''[''" "\<not> is_js_space CHR '']''" "\<not> is_key_char CHR ''[''" "\<not> is_key_char CHR '']''"
  "\<not> is_id_char CHR ''[''" "\<not> is_id_char CHR '']''" "\<not> secret_start CHR ''[''" "\<not> secret_start CHR '']''"
  by code_simp+

text \<open>Every secret word has a character that the word in the redaction mark has not.\<close>

lemma secret_plain: "secret_word w \<Longrightarrow> CHR ''['' \<notin> set w \<and> CHR '']'' \<notin> set w \<and> \<not> set w \<subseteq> set ''redacted'' \<and> w \<noteq> []"
proof -
  have outside: "is_js_space c \<Longrightarrow> c \<notin> set ''redacted''" for c by (auto simp: is_js_space_def)
  assume "secret_word w"
  then consider (key) "api_key_word w" | (bearer) "bearer_word w" | (assigned) "key_value_word w" | (url) "url_word w"
    | (path) "path_word w"
    unfolding secret_word_def by blast
  then show ?thesis
  proof cases
    case key
    then obtain ks where "w = ''sk-'' @ ks" "list_all is_key_char ks" unfolding api_key_word_def by (elim exE conjE) (rule that)
    then show ?thesis using bracket_chars by (auto simp: list_all_iff)
  next
    case bearer
    then obtain b ws c where w: "w = b @ ws @ [c]" "map to_lower b = ''bearer''" "ws \<noteq> []" "list_all is_js_space ws"
      "is_id_char c" "c \<noteq> CHR ''.''"
      unfolding bearer_word_def by (elim exE conjE) (rule that)
    have "hd ws \<in> set ws" "is_js_space (hd ws)" using w(3,4) by (cases ws; simp)+
    then have "\<not> set w \<subseteq> set ''redacted''" using outside w(1) by auto
    then show ?thesis
      using w(1,4,5) fixed_not_in [OF w(2) brackets_fixed(1)] fixed_not_in [OF w(2) brackets_fixed(2)] bracket_chars
      by (auto simp: list_all_iff)
  next
    case assigned
    then obtain a sep k e ws c where w: "w = a @ sep @ k @ [e] @ ws @ [c]" "map to_lower a = ''api''"
      "sep \<in> {[], ''-'', ''_''}" "map to_lower k = ''key''" "e = CHR ''='' \<or> e = CHR '':''"
      "list_all is_js_space ws" "secret_start c"
      unfolding key_value_word_def by (elim exE conjE) (rule that)
    then show ?thesis
      using fixed_not_in [OF w(2) brackets_fixed(1)] fixed_not_in [OF w(2) brackets_fixed(2)]
        fixed_not_in [OF w(4) brackets_fixed(1)] fixed_not_in [OF w(4) brackets_fixed(2)] bracket_chars
      by (auto simp: list_all_iff)
  next
    case url
    then obtain h t c where w: "w = h @ t @ ''://'' @ [c]" "map to_lower h = ''http''" "map to_lower t \<in> {[], ''s''}"
      "secret_start c"
      unfolding url_word_def by (elim exE conjE) (rule that)
    then show ?thesis
      using fixed_not_in [OF w(2) brackets_fixed(1)] fixed_not_in [OF w(2) brackets_fixed(2)]
        fixed_not_in [OF refl brackets_fixed(1), of t] fixed_not_in [OF refl brackets_fixed(2), of t] bracket_chars
      by auto
  next
    case path
    then obtain d c where w: "w = ''/'' @ d @ ''/'' @ [c]"
      "d \<in> {''Users'', ''home'', ''var'', ''opt'', ''srv'', ''tmp'', ''etc''}" "secret_start c"
      unfolding path_word_def by (elim exE conjE) (rule that)
    then show ?thesis using bracket_chars by auto
  qed
qed

lemma secret_plain_words: "plain_words secret_word"
  unfolding plain_words_def using secret_plain set_mono_sublist by blast

text \<open>Turning the spaces of a secret word into longer runs of white space gives a secret word.\<close>

lemma expands_append: "expands (u @ w) v \<Longrightarrow> \<exists>v1 v2. v = v1 @ v2 \<and> expands u v1 \<and> expands w v2"
proof (induction u arbitrary: v)
  case Nil
  then show ?case using expands.intros(1) by auto
next
  case (Cons c u)
  from Cons.prems show ?case
  proof cases
    case 2
    then obtain v' where v: "v = c # v'" "expands (u @ w) v'" "\<not> is_js_space c" by auto
    then obtain v1 v2 where "v' = v1 @ v2" "expands u v1" "expands w v2" using Cons.IH by blast
    then show ?thesis using v expands.intros(2) by (intro exI [of _ "c # v1"] exI [of _ v2]) auto
  next
    case 3
    then obtain ws v' where v: "v = ws @ v'" "expands (u @ w) v'" "c = CHR '' ''" "ws \<noteq> []" "list_all is_js_space ws" by auto
    then obtain v1 v2 where "v' = v1 @ v2" "expands u v1" "expands w v2" using Cons.IH by blast
    then show ?thesis using v expands.intros(3) by (intro exI [of _ "ws @ v1"] exI [of _ v2]) auto
  qed auto
qed

lemma expands_plain: "expands w v \<Longrightarrow> list_all (\<lambda>c. \<not> is_js_space c) w \<Longrightarrow> v = w"
  by (induction rule: expands.induct) (auto simp: is_js_space_def)

lemma expands_spaces: "expands w v \<Longrightarrow> list_all is_js_space w \<Longrightarrow> list_all is_js_space v \<and> (w \<noteq> [] \<longrightarrow> v \<noteq> [])"
  by (induction rule: expands.induct) auto

lemma expands_between:
  assumes "expands (u @ ws @ [c]) v" and "list_all (\<lambda>c. \<not> is_js_space c) u" and "list_all is_js_space ws" and "\<not> is_js_space c"
  shows "\<exists>ws'. v = u @ ws' @ [c] \<and> list_all is_js_space ws' \<and> (ws \<noteq> [] \<longrightarrow> ws' \<noteq> [])"
proof -
  obtain v1 v2 v3 where v: "v = v1 @ v2 @ v3" "expands u v1" "expands ws v2" "expands [c] v3"
    using expands_append [OF assms(1)] expands_append by blast
  have "v1 = u" "v3 = [c]" using expands_plain [OF v(2)] expands_plain [OF v(4)] assms(2,4) by auto
  then show ?thesis using v(1) expands_spaces [OF v(3) assms(3)] by blast
qed

lemma lower_nonspace: "map to_lower a = b \<Longrightarrow> list_all (\<lambda>c. \<not> is_js_space c) b \<Longrightarrow> list_all (\<lambda>c. \<not> is_js_space c) a"
  unfolding list_all_iff using lower_char_in space_fixed by metis

lemma nonspace_words:
  "list_all (\<lambda>c. \<not> is_js_space c) ''bearer''" "list_all (\<lambda>c. \<not> is_js_space c) ''api''"
  "list_all (\<lambda>c. \<not> is_js_space c) ''key''" "list_all (\<lambda>c. \<not> is_js_space c) ''http''"
  "list_all (\<lambda>c. \<not> is_js_space c) ''sk-''" "list_all (\<lambda>c. \<not> is_js_space c) ''://''"
  by code_simp+

lemma secret_start_nonspace: "secret_start c \<Longrightarrow> \<not> is_js_space c"
  by (simp add: secret_start_def is_path_char_def is_bare_char_def)

lemma secret_expands: "secret_word w \<Longrightarrow> expands w v \<Longrightarrow> secret_word v"
proof -
  assume "secret_word w" and exp: "expands w v"
  then consider (key) "api_key_word w" | (bearer) "bearer_word w" | (assigned) "key_value_word w" | (url) "url_word w"
    | (path) "path_word w"
    unfolding secret_word_def by blast
  then show ?thesis
  proof cases
    case key
    then obtain ks where ks: "w = ''sk-'' @ ks" "list_all is_key_char ks" unfolding api_key_word_def by (elim exE conjE) (rule that)
    then have "list_all (\<lambda>c. \<not> is_js_space c) w" using space_fixed nonspace_words(5) by (auto simp: list_all_iff)
    then have "v = w" using expands_plain [OF exp] by simp
    then show ?thesis using key by (simp add: secret_word_def)
  next
    case bearer
    then obtain b ws c where w: "w = b @ ws @ [c]" "map to_lower b = ''bearer''" "ws \<noteq> []" "list_all is_js_space ws"
      "is_id_char c" "c \<noteq> CHR ''.''"
      unfolding bearer_word_def by (elim exE conjE) (rule that)
    obtain ws' where "v = b @ ws' @ [c]" "list_all is_js_space ws'" "ws' \<noteq> []"
      using expands_between [OF exp [unfolded w(1)] lower_nonspace [OF w(2) nonspace_words(1)] w(4)] w(3,5) space_fixed by blast
    then have "bearer_word v" unfolding bearer_word_def using w(2,5,6) by (intro exI conjI)
    then show ?thesis by (simp add: secret_word_def)
  next
    case assigned
    then obtain a sep k e ws c where w: "w = a @ sep @ k @ [e] @ ws @ [c]" "map to_lower a = ''api''"
      "sep \<in> {[], ''-'', ''_''}" "map to_lower k = ''key''" "e = CHR ''='' \<or> e = CHR '':''"
      "list_all is_js_space ws" "secret_start c"
      unfolding key_value_word_def by (elim exE conjE) (rule that)
    have "list_all (\<lambda>c. \<not> is_js_space c) (a @ sep @ k @ [e])"
      using lower_nonspace [OF w(2) nonspace_words(2)] lower_nonspace [OF w(4) nonspace_words(3)] w(3,5)
      by (auto simp: is_js_space_def)
    moreover have "w = (a @ sep @ k @ [e]) @ ws @ [c]" by (simp add: w(1))
    ultimately obtain ws' where v: "v = (a @ sep @ k @ [e]) @ ws' @ [c]" "list_all is_js_space ws'"
      using expands_between [of "a @ sep @ k @ [e]" ws c v] exp w(6) secret_start_nonspace [OF w(7)] by blast
    have "v = a @ sep @ k @ [e] @ ws' @ [c]" by (simp add: v(1))
    then have "key_value_word v" unfolding key_value_word_def using w(2-5,7) v(2) by (intro exI conjI)
    then show ?thesis by (simp add: secret_word_def)
  next
    case url
    then obtain h t c where w: "w = h @ t @ ''://'' @ [c]" "map to_lower h = ''http''" "map to_lower t \<in> {[], ''s''}"
      "secret_start c"
      unfolding url_word_def by (elim exE conjE) (rule that)
    have "list_all (\<lambda>c. \<not> is_js_space c) t"
      using lower_nonspace [OF refl, of t] w(3) by (auto simp: is_js_space_def)
    then have "list_all (\<lambda>c. \<not> is_js_space c) w"
      using lower_nonspace [OF w(2) nonspace_words(4)] nonspace_words(6) secret_start_nonspace [OF w(4)]
      by (auto simp: w(1))
    then have "v = w" using expands_plain [OF exp] by simp
    then show ?thesis using url by (simp add: secret_word_def)
  next
    case path
    then obtain d c where w: "w = ''/'' @ d @ ''/'' @ [c]"
      "d \<in> {''Users'', ''home'', ''var'', ''opt'', ''srv'', ''tmp'', ''etc''}" "secret_start c"
      unfolding path_word_def by (elim exE conjE) (rule that)
    then have "list_all (\<lambda>c. \<not> is_js_space c) w" using secret_start_nonspace [OF w(3)] by (auto simp: is_js_space_def)
    then have "v = w" using expands_plain [OF exp] by simp
    then show ?thesis using path by (simp add: secret_word_def)
  qed
qed

section \<open>What the sanitizer lets through\<close>

text \<open>Replacing by one pattern removes its words and brings no secret word in.\<close>

lemma replace_keeps_free:
  "consumes r \<Longrightarrow> plain_words L \<Longrightarrow> free_of L s \<Longrightarrow> free_of L (rx_replace r redacted s)"
  unfolding rx_replace_def
proof (rule free_of_replaced)
  fix w t p
  assume "free_of L s" "L w" "prefix w t" "suffix t s"
  then have "sublist w s"
    using prefix_imp_sublist suffix_imp_sublist sublist_order.order_trans by blast
  then show "rx r (p, t, []) \<noteq> []" using \<open>free_of L s\<close> \<open>L w\<close> by (simp add: free_of_def)
qed

lemma replace_makes_free:
  "consumes r \<Longrightarrow> plain_words L \<Longrightarrow> (\<And>w. L w \<Longrightarrow> matches_word r w) \<Longrightarrow> free_of L (rx_replace r redacted s)"
  unfolding rx_replace_def by (rule free_of_replaced) (blast dest: matches_prefix)+

lemma plain_words_mono: "plain_words L \<Longrightarrow> (\<And>w. M w \<Longrightarrow> L w) \<Longrightarrow> plain_words M"
  by (auto simp: plain_words_def)

lemma redact_secrets_free: "free_of secret_word (redact_secrets s)"
proof -
  have one: "free_of L (fold (\<lambda>pattern v. rx_replace pattern redacted v) ps s)"
    if "r \<in> set ps" "\<And>w. L w \<Longrightarrow> matches_word r w" "plain_words L" "\<forall>r\<in>set ps. consumes r" for L r ps s
    using that
  proof (induction ps arbitrary: s rule: rev_induct)
    case (snoc q ps)
    then show ?case using replace_makes_free [of q L] replace_keeps_free [of q L] by auto
  qed simp
  have plain: "plain_words L" if "\<And>w. L w \<Longrightarrow> secret_word w" for L
    using plain_words_mono secret_plain_words that by blast
  have mem: "API_KEY_PATTERN \<in> set SECRET_PATTERNS" "BEARER_PATTERN \<in> set SECRET_PATTERNS"
    "KEY_VALUE_PATTERN \<in> set SECRET_PATTERNS" "URL_PATTERN \<in> set SECRET_PATTERNS" "PATH_PATTERN \<in> set SECRET_PATTERNS"
    by (simp_all add: SECRET_PATTERNS_def)
  have "free_of api_key_word (redact_secrets s)" "free_of bearer_word (redact_secrets s)"
    "free_of key_value_word (redact_secrets s)" "free_of url_word (redact_secrets s)" "free_of path_word (redact_secrets s)"
    unfolding redact_secrets_def
    using one [OF mem(1) api_key_match] one [OF mem(2) bearer_match] one [OF mem(3) key_value_match]
      one [OF mem(4) url_match] one [OF mem(5) path_match] plain patterns_consume
    by (simp_all add: secret_word_def)
  then show ?thesis by (auto simp: free_of_def secret_word_def)
qed

lemma collapse_spaces_free: "free_of secret_word s \<Longrightarrow> free_of secret_word (collapse_spaces s)"
  unfolding collapse_spaces_def rx_replace_def
  using secret_expands secret_plain by (intro free_of_trim free_of_collapsed) blast+

lemma cut_free: "free_of secret_word s \<Longrightarrow> free_of secret_word (take n s @ ''...'')"
proof -
  have last_dot: "last w \<noteq> CHR ''.''" if secret: "secret_word w" for w
  proof -
    consider (key) "api_key_word w" | (bearer) "bearer_word w" | (assigned) "key_value_word w" | (url) "url_word w"
      | (path) "path_word w"
      using secret unfolding secret_word_def by blast
    then show ?thesis
    proof cases
      case key
      then obtain ks where ks: "w = ''sk-'' @ ks" "length ks = 20" "list_all is_key_char ks"
        unfolding api_key_word_def by (elim exE conjE) (rule that)
      then have "ks \<noteq> []" by auto
      then have "last w \<in> set ks" by (simp add: ks(1))
      moreover have "\<not> is_key_char CHR ''.''" by code_simp
      ultimately show ?thesis using ks(3) by (auto simp: list_all_iff)
    qed (auto simp: bearer_word_def key_value_word_def url_word_def path_word_def secret_start_def)
  qed
  assume free: "free_of secret_word s"
  show ?thesis
    unfolding free_of_def
  proof (intro allI impI notI)
    fix w
    assume w: "secret_word w" and "sublist w (take n s @ ''...'')"
    moreover have keep: "\<not> sublist w (take n s)"
      using free w sublist_take sublist_order.order_trans unfolding free_of_def by blast
    ultimately have ends: "sublist w ''...'' \<or> (\<exists>u v. w = u @ v \<and> suffix u (take n s) \<and> prefix v ''...'')"
      by (simp only: sublist_append) blast
    have dots: "last x = CHR ''.''" if "set x \<subseteq> {CHR ''.''}" "x \<noteq> []" for x
      using last_in_set [OF that(2)] that(1) by blast
    from ends show False
    proof (elim disjE exE conjE)
      assume "sublist w ''...''"
      then have "set w \<subseteq> {CHR ''.''}" using set_mono_sublist by fastforce
      then show False using dots [of w] last_dot [OF w] secret_plain [OF w] by blast
    next
      fix u v
      assume uv: "w = u @ v" "suffix u (take n s)" "prefix v ''...''"
      have "v \<noteq> []" using uv(1,2) keep suffix_imp_sublist by auto
      moreover have "set v \<subseteq> {CHR ''.''}" using set_mono_prefix [OF uv(3)] by simp
      ultimately show False using dots [of v] last_dot [OF w] uv(1) by simp
    qed
  qed
qed

lemma collapse_spaces_blank: "c \<in> set (collapse_spaces s) \<Longrightarrow> is_js_space c \<Longrightarrow> c = CHR '' ''"
proof -
  have "\<forall>c\<in>set (rx_replace_from (rx_some is_js_space) '' '' p s). is_js_space c \<longrightarrow> c = CHR '' ''" for p
  proof (induction "rx_some is_js_space" "'' ''" p s rule: rx_replace_from.induct)
    case (1 p s)
    let ?r = "rx_some is_js_space"
    show ?case
    proof (cases "rx ?r (p, s, [])")
      case Nil
      show ?thesis
      proof (cases s)
        case (Cons c cs)
        have "\<not> is_js_space c"
        proof
          assume "is_js_space c"
          then obtain q where "(q, cs, []) \<in> set (rx ?r (p, [c] @ cs, []))"
            using rx_some_match [of is_js_space "[c]" 1 cs "[]" p] by auto
          then show False using Nil Cons by simp
        qed
        moreover have "rx_replace_from ?r '' '' p s = c # rx_replace_from ?r '' '' (Some c) cs"
          using Nil Cons by (subst rx_replace_from.simps) simp
        ultimately show ?thesis using 1(1) [OF Nil Cons] by simp
      qed (use Nil in \<open>simp add: rx_replace_from.simps\<close>)
    next
      case (Cons st sts)
      obtain p' rest gs where st: "st = (p', rest, gs)" by (cases st)
      have "st \<in> set (rx_rep (rx (RxSet is_js_space)) 1 None (1 + length s) (p, s, []))" using Cons by simp
      then obtain t where t: "s = t @ rest" "1 \<le> length t"
        using rx_rep_set_consumed [of st is_js_space 1 None "1 + length s" "(p, s, [])"] st by auto
      then have less: "length rest < length s" by (cases t) auto
      have "rx_replace_from ?r '' '' p s = CHR '' '' # rx_replace_from ?r '' '' p' rest"
        using Cons less st by (subst rx_replace_from.simps) simp
      then show ?thesis using 1(2) [OF Cons st [symmetric] refl less] by simp
    qed
  qed
  moreover have "set (js_trim t) \<subseteq> set t" for t
    unfolding js_trim_def by (metis (no_types) set_dropWhileD set_rev subsetI)
  ultimately show "c \<in> set (collapse_spaces s) \<Longrightarrow> is_js_space c \<Longrightarrow> c = CHR '' ''"
    unfolding collapse_spaces_def rx_replace_def by blast
qed

lemma sanitized_text_clean:
  assumes "sanitized_text s = Some m"
  shows "free_of secret_word m" "m \<noteq> []" "length m \<le> 280" "\<forall>c\<in>set m. is_js_space c \<longrightarrow> c = CHR '' ''"
proof -
  let ?v = "collapse_spaces (redact_secrets (cut_stack_trace s))"
  have v: "free_of secret_word ?v" by (intro collapse_spaces_free redact_secrets_free)
  have m: "?v \<noteq> []" "m = ?v \<and> length ?v \<le> 280 \<or> m = take 277 ?v @ ''...''"
    using assms by (auto simp: sanitized_text_def Let_def split: if_splits)
  show "free_of secret_word m" using m(2) v cut_free [OF v] by metis
  show "m \<noteq> []" "length m \<le> 280" using m by auto
  have "set m \<subseteq> set ?v \<union> {CHR ''.''}" using m(2) set_take_subset [of 277 ?v] by auto
  then show "\<forall>c\<in>set m. is_js_space c \<longrightarrow> c = CHR '' ''"
    using collapse_spaces_blank [of _ "redact_secrets (cut_stack_trace s)"] by (auto simp: is_js_space_def)
qed

text \<open>
  C23: no secret leaks through an upstream message.  Whatever an upstream service answered, the text
  that the BFF passes on is the fixed fallback or a single line of at most 280 characters in which no
  API key of the form \<open>sk-\<close>, no bearer token after its keyword, no assigned \<open>api_key\<close>, no URL with a
  host and no absolute path of a user, system or temporary directory occurs.
\<close>

theorem sanitized_messages_leak_nothing:
  "(let m = sanitizeUpstreamMessage raw fallback
    in m = fallback \<or>
       free_of secret_word m \<and> m \<noteq> [] \<and> length m \<le> 280 \<and> (\<forall>c\<in>set m. is_js_space c \<longrightarrow> c = CHR '' ''))"
proof (cases "\<exists>s m. raw = Some (JStr s) \<and> sanitized_text s = Some m")
  case True
  then obtain s m where "raw = Some (JStr s)" "sanitized_text s = Some m" by blast
  then show ?thesis using sanitized_text_clean [of s m] by (simp add: sanitizeUpstreamMessage_def)
next
  case False
  then have "sanitizeUpstreamMessage raw fallback = fallback"
    by (auto simp: sanitizeUpstreamMessage_def split: option.splits json.splits)
  then show ?thesis by simp
qed

lemma sanitized_messages_leak_nothing_witness:
  "let raw = ''orchestrator  http://10.0.0.7:8080/v0 said no''; m = sanitizeUpstreamMessage (Some (JStr raw)) ''unavailable''
   in m = ''orchestrator [redacted] said no'' \<and> free_of secret_word m \<and> \<not> free_of secret_word raw"
proof -
  let ?raw = "''orchestrator  http://10.0.0.7:8080/v0 said no''"
  have m: "sanitizeUpstreamMessage (Some (JStr ?raw)) ''unavailable'' = ''orchestrator [redacted] said no''" by code_simp
  have "url_word (''http'' @ [] @ ''://'' @ ''1'')"
    unfolding url_word_def by (intro exI [of _ "''http''"] exI [of _ "[]"] exI [of _ "CHR ''1''"]) code_simp
  then have "secret_word ''http://1''" by (simp add: secret_word_def)
  moreover have "sublist ''http://1'' ?raw" by code_simp
  ultimately have "\<not> free_of secret_word ?raw" unfolding free_of_def by blast
  then show ?thesis
    using sanitized_messages_leak_nothing [of "Some (JStr ?raw)" "''unavailable''"] m by (simp add: Let_def)
qed

text \<open>What the sanitizer does not catch: the pattern for a bearer token takes a doubled keyword for the token.\<close>

lemma doubled_bearer_leaks: "sanitizeUpstreamMessage (Some (JStr ''Bearer Bearer abc'')) f = ''[redacted] abc''"
proof -
  have "sanitized_text ''Bearer Bearer abc'' = Some ''[redacted] abc''" by code_simp
  then show ?thesis by (simp add: sanitizeUpstreamMessage_def)
qed

end
