(* ===== verification/Bff_Diagnostics.thy ===== *)
theory Bff_Diagnostics
  imports Upstream_Errors "HOL-Library.Sublist"
begin

text \<open>
  \<open>diagnostics.ts\<close> of the BFF: the normalization of the compiler and generator diagnostics that the
  upstream services report, and the artifact references of \<open>runViews.ts\<close> that they share.
\<close>

section \<open>Shared helpers\<close>

definition js_contains :: "string \<Rightarrow> string \<Rightarrow> bool" where
  "js_contains needle hay \<longleftrightarrow> sublist needle hay"

definition js_replace_char :: "char \<Rightarrow> char \<Rightarrow> string \<Rightarrow> string" where
  "js_replace_char old new s = map (\<lambda>c. if c = old then new else c) s"

definition to_lower_case :: "string \<Rightarrow> string" where
  "to_lower_case s = map to_lower s"

text \<open>What \<open>JSON.stringify\<close> makes of a member that an object literal inherits: functions are left out.\<close>

definition inherited_json :: "string \<Rightarrow> json option" where
  "inherited_json name = (if name = ''__proto__'' then Some (JObj []) else None)"

definition asPositiveInteger :: "json option \<Rightarrow> rat option" where
  "asPositiveInteger v =
     (case asNumber v of None \<Rightarrow> None | Some q \<Rightarrow> if \<not> is_integer q \<or> q \<le> 0 then None else Some q)"

definition asNonNegativeInteger :: "json option \<Rightarrow> rat option" where
  "asNonNegativeInteger v =
     (case asNumber v of None \<Rightarrow> None | Some q \<Rightarrow> if \<not> is_integer q \<or> q < 0 then None else Some q)"

text \<open>A reference with a hash; the size is taken as it passes the given test.\<close>

definition output_ref_with :: "(json option \<Rightarrow> rat option) \<Rightarrow> json option \<Rightarrow> json option" where
  "output_ref_with byteSize raw =
     (if asRecord raw = None \<or> asString (js_field raw ''sha256'') = [] then None
      else Some (js_object
        ([(''sha256'', Some (JStr (asString (js_field raw ''sha256'')))),
          (''byteSize'', map_option js_num (byteSize (js_field raw ''byteSize'')))] @
         map (\<lambda>k. (k, nonempty_field (asString (js_field raw k))))
           [''kind'', ''path'', ''name'', ''mimeType'', ''createdBy'', ''createdAt''])))"

definition normalizeOutputRef :: "json option \<Rightarrow> json option" where
  "normalizeOutputRef = output_ref_with asNumber"

definition normalizeArtifactRef :: "json option \<Rightarrow> json option" where
  "normalizeArtifactRef = output_ref_with asNonNegativeInteger"

section \<open>File paths\<close>

definition ANCHOR_PATTERN :: regex where
  "ANCHOR_PATTERN =
     rx_seq [rx_any_of [RxStart, rx_text ''/''],
       RxGroup 1 (rx_seq [rx_text ''src/'', rx_any_of [rx_text ''main'', rx_text ''test''], rx_text ''/'',
         rx_any_of [rx_text ''java'', rx_text ''resources''], rx_text ''/'', rx_many (\<lambda>c. \<not> is_line_end c)]),
       RxEnd]"

definition anchoredProjectPath :: "string \<Rightarrow> string option" where
  "anchoredProjectPath forward =
     (case rx_exec ANCHOR_PATTERN forward of Some (_, _, _, groups) \<Rightarrow> map_of groups 1 | None \<Rightarrow> None)"

definition safe_segments :: "string \<Rightarrow> bool" where
  "safe_segments path \<longleftrightarrow> list_all (\<lambda>segment. segment \<notin> {[], ''.'', ''..''}) (js_split CHR ''/'' path)"

text \<open>\<open>/^[A-Za-z]:\//\<close>\<close>

definition has_drive :: "string \<Rightarrow> bool" where
  "has_drive path \<longleftrightarrow>
     (case path of c # d # e # _ \<Rightarrow> (is_upper c \<or> is_lower c) \<and> d = CHR '':'' \<and> e = CHR ''/'' | _ \<Rightarrow> False)"

definition is_absolute :: "string \<Rightarrow> bool" where
  "is_absolute path \<longleftrightarrow> prefix ''/'' path \<or> has_drive path"

definition isSafeRelativePath :: "string \<Rightarrow> bool" where
  "isSafeRelativePath forward \<longleftrightarrow>
     forward \<noteq> [] \<and> CHR 0x00 \<notin> set forward \<and> \<not> is_absolute forward \<and> safe_segments forward"

definition URL_SCHEME_PATTERN :: regex where
  "URL_SCHEME_PATTERN =
     rx_seq [RxStart, RxSet (\<lambda>c. is_upper c \<or> is_lower c),
       rx_many (\<lambda>c. is_alnum c \<or> c = CHR ''+'' \<or> c = CHR ''.'' \<or> c = CHR ''-''), rx_text ''://'']"

text \<open>The path of a parsed URL is a parameter: \<open>new URL\<close> is not modelled.\<close>

definition normalizeFilePath :: "(string \<Rightarrow> string option) \<Rightarrow> string \<Rightarrow> string option" where
  "normalizeFilePath urlPathname raw =
     (let trimmed = takeWhile (\<lambda>c. c \<noteq> CHR ''?'' \<and> c \<noteq> CHR ''#'') (js_trim raw)
      in if trimmed = [] then None
         else let forward = js_replace_char CHR 0x5C CHR ''/'' trimmed
              in if rx_test URL_SCHEME_PATTERN forward then Option.bind (urlPathname forward) anchoredProjectPath
                 else if \<not> is_absolute forward then (if isSafeRelativePath forward then Some forward else None)
                 else anchoredProjectPath forward)"

section \<open>Severity and source\<close>

definition KNOWN_SEVERITIES :: "string list" where
  "KNOWN_SEVERITIES = [''error'', ''warning'', ''info'', ''hint'']"

definition KNOWN_SOURCE_KINDS :: "string list" where
  "KNOWN_SOURCE_KINDS = [''cobol'', ''ir'', ''generated_java'', ''build'', ''test'']"

definition SEVERITY_SYNONYMS :: "(string \<times> string) list" where
  "SEVERITY_SYNONYMS =
     [(''error'', ''error''), (''err'', ''error''), (''fatal'', ''error''), (''severe'', ''error''),
      (''warning'', ''warning''), (''warn'', ''warning''), (''mandatory_warning'', ''warning''),
      (''mandatory-warning'', ''warning''), (''info'', ''info''), (''information'', ''info''), (''notice'', ''info''),
      (''hint'', ''hint''), (''note'', ''hint''), (''suggestion'', ''hint'')]"

text \<open>The value of the field; a word that the table inherits gives the inherited member.\<close>

definition normalizeSeverity :: "json option \<Rightarrow> json option" where
  "normalizeSeverity raw =
     (case raw of
        Some (JStr s) \<Rightarrow>
          (let lowered = to_lower_case (js_trim s)
           in if lowered = [] then Some (JStr ''info'')
              else if lowered \<in> set KNOWN_SEVERITIES then Some (JStr lowered)
              else case map_of SEVERITY_SYNONYMS lowered of
                Some severity \<Rightarrow> Some (JStr severity)
              | None \<Rightarrow> if lowered \<in> set object_prototype_members then inherited_json lowered else Some (JStr ''info''))
      | _ \<Rightarrow> Some (JStr ''info''))"

definition normalizeSourceKind :: "json option \<Rightarrow> string option" where
  "normalizeSourceKind raw =
     (case raw of
        Some (JStr s) \<Rightarrow>
          (let lowered = to_lower_case (js_trim s);
               collapsed = rx_replace (rx_some (\<lambda>c. c = CHR ''-'' \<or> is_js_space c)) ''_'' lowered
           in if lowered = [] then None
              else if lowered \<in> set KNOWN_SOURCE_KINDS then Some lowered
              else if collapsed \<in> set KNOWN_SOURCE_KINDS then Some collapsed else None)
      | _ \<Rightarrow> None)"

section \<open>Diagnostics\<close>

record diagnostic =
  dgSeverity :: "json option"
  dgCode :: string
  dgMessage :: string
  dgLine :: "rat option"
  dgColumn :: "rat option"
  dgEndLine :: "rat option"
  dgEndColumn :: "rat option"
  dgFilePath :: "string option"
  dgSourceKind :: "string option"
  dgOriginStep :: "string option"
  dgArtifactRef :: "json option"

definition less_option :: "rat option \<Rightarrow> rat option \<Rightarrow> bool" where
  "less_option x y = (case (x, y) of (Some a, Some b) \<Rightarrow> a < b | _ \<Rightarrow> False)"

definition reconcileRange :: "diagnostic \<Rightarrow> diagnostic" where
  "reconcileRange d =
     (if less_option (dgEndLine d) (dgLine d) then d\<lparr>dgEndLine := None, dgEndColumn := None\<rparr>
      else
        let d1 = (if dgEndLine d = dgLine d \<and> less_option (dgEndColumn d) (dgColumn d)
                  then d\<lparr>dgEndColumn := None\<rparr> else d)
        in if dgEndLine d1 = None \<and> dgEndColumn d1 \<noteq> None \<and> dgLine d1 = None
           then d1\<lparr>dgEndColumn := None\<rparr> else d1)"

definition normalizeOne :: "(string \<Rightarrow> string option) \<Rightarrow> json option \<Rightarrow> diagnostic option" where
  "normalizeOne urlPathname raw =
     (let message = asString (js_field raw ''message'');
          rawFilePath = (if asString (js_field raw ''filePath'') \<noteq> [] then asString (js_field raw ''filePath'')
                         else asString (js_field raw ''source''));
          severityRaw = (if asString (js_field raw ''severity'') \<noteq> [] then js_field raw ''severity''
                         else js_field raw ''level'')
      in if asRecord raw = None \<or> message = [] then None
         else Some (reconcileRange
           \<lparr>dgSeverity = normalizeSeverity severityRaw,
            dgCode = asString (js_field raw ''code''),
            dgMessage = sanitizeUpstreamMessage (Some (JStr message)) ''Diagnostic unavailable'',
            dgLine = asPositiveInteger (js_field raw ''line''),
            dgColumn = asPositiveInteger (js_field raw ''column''),
            dgEndLine = asPositiveInteger (js_field raw ''endLine''),
            dgEndColumn = asPositiveInteger (js_field raw ''endColumn''),
            dgFilePath = (if rawFilePath = [] then None else normalizeFilePath urlPathname rawFilePath),
            dgSourceKind = normalizeSourceKind (js_field raw ''sourceKind''),
            dgOriginStep = (if asString (js_field raw ''originStep'') = [] then None
                            else Some (asString (js_field raw ''originStep''))),
            dgArtifactRef = normalizeArtifactRef (js_field raw ''artifactRef'')\<rparr>))"

definition diagnostic_json :: "diagnostic \<Rightarrow> json" where
  "diagnostic_json d =
     js_object
       [(''schemaVersion'', Some (JStr ''v0'')), (''severity'', dgSeverity d), (''code'', Some (JStr (dgCode d))),
        (''message'', Some (JStr (dgMessage d))), (''line'', map_option js_num (dgLine d)),
        (''column'', map_option js_num (dgColumn d)), (''endLine'', map_option js_num (dgEndLine d)),
        (''endColumn'', map_option js_num (dgEndColumn d)), (''filePath'', map_option JStr (dgFilePath d)),
        (''sourceKind'', map_option JStr (dgSourceKind d)), (''originStep'', map_option JStr (dgOriginStep d)),
        (''artifactRef'', dgArtifactRef d)]"

definition normalizeDiagnostics :: "(string \<Rightarrow> string option) \<Rightarrow> json option \<Rightarrow> string option \<Rightarrow> diagnostic list" where
  "normalizeDiagnostics urlPathname raw defaultSourceKind =
     map (\<lambda>d. if dgSourceKind d = None \<and> defaultSourceKind \<noteq> None \<and> dgFilePath d \<noteq> None
              then d\<lparr>dgSourceKind := defaultSourceKind\<rparr> else d)
       (List.map_filter (\<lambda>entry. normalizeOne urlPathname (Some entry)) (or_default (js_array raw) []))"

end
