(* ===== verification/Bff_Run_Store.thy ===== *)
theory Bff_Run_Store
  imports Bff_Diagnostics
begin

text \<open>
  The run store of the BFF (\<open>run-store.ts\<close>) with the record of a run, and the diagnostic fixture of a
  developer run (\<open>fixture-data.ts\<close>).  Times are the ISO strings that the clock gives.
\<close>

section \<open>Samples and fixtures\<close>

record sample_detail =
  sampleProgramId :: string
  sampleTitle :: string
  sampleDescription :: string
  knownDivergenceAtW0 :: bool
  supportedInProductMode :: bool
  w0Subset :: "string list"
  oracleMode :: "string option"
  knownLimitations :: "string list"
  cobolSource :: string
  cobolSourcePath :: string
  expectedOutput :: string
  expectedOutputPath :: string

text \<open>The three parts of a fixture, field by field, and the files of the generated part.\<close>

record fixture_outcome =
  fxGenerated :: "(string \<times> json) list"
  fxFiles :: "(string \<times> string) list"
  fxGeneratedNote :: string
  fxBuildTest :: "(string \<times> json) list"
  fxEvidence :: "(string \<times> json) list"

definition to_upper :: "char \<Rightarrow> char" where
  "to_upper c = (if is_lower c then char_of ((of_char c :: nat) - 32) else c)"

definition classNameFor :: "string \<Rightarrow> string" where
  "classNameFor program =
     (case filter is_alnum program of
        [] \<Rightarrow> ''Program''
      | c # cs \<Rightarrow> ''Program'' @ [to_upper c] @ to_lower_case cs)"

definition generatedJavaStub :: "string \<Rightarrow> string \<Rightarrow> string" where
  "generatedJavaStub program className =
     js_join [newline]
       [''// Synthetic W0 generated-Java stub for programId='' @ program @ ''.'',
        ''// Diagnostic fixture only; the product path produces this content from target-java-generation-service.'',
        ''package c2c.w0.generated;'', [],
        ''public final class '' @ className @ '' {'', ''    private '' @ className @ ''() {}'', [],
        ''    public static void main(String[] args) {'',
        ''        System.out.println('' @ [CHR 0x22] @ ''W0-STUB '' @ program @ [CHR 0x22] @ '');'', ''    }'', ''}'', []]"

definition unsupportedFeaturesFor :: "string \<Rightarrow> string list" where
  "unsupportedFeaturesFor program =
     (if program = ''BRNCH01'' then [''PERFORM VARYING'', ''EVALUATE'', ''IF/ELSE'', ''OCCURS table access'']
      else if program = ''CTRLDEC01'' then [''COMPUTE on decimal'', ''DISPLAY of computed value'']
      else if program = ''BATCH01'' then [''PERFORM UNTIL'', ''COMPUTE'', ''ADD on packed decimal'']
      else [''unspecified W0 coverage gap''])"

definition json_texts :: "string list \<Rightarrow> json" where
  "json_texts ss = JArr (map JStr ss)"

definition diagnosticFixtureOutcomeFor :: "sample_detail \<Rightarrow> string \<Rightarrow> fixture_outcome" where
  "diagnosticFixtureOutcomeFor sample rid =
     (let program = sampleProgramId sample;
          className = classNameFor program;
          entryFilePath = ''src/main/java/c2c/w0/generated/'' @ className @ ''.java'';
          known = knownDivergenceAtW0 sample;
          note = (if known then ''Diagnostic fixture: W0 generator coverage does not include the constructs used by this program. The generated-Java view is a labelled stub.''
                  else ''Diagnostic fixture: deterministic Java skeleton for developer inspection only; not a product result.'')
      in \<lparr>fxGenerated =
            [(''status'', JStr (if known then ''unsupported'' else ''generated'')),
             (''entryClass'', JStr (''c2c.w0.generated.'' @ className)), (''entryFilePath'', JStr entryFilePath),
             (''files'', JObj [(entryFilePath, JStr (generatedJavaStub program className))]),
             (''unsupportedFeatures'', json_texts (if known then unsupportedFeaturesFor program else [])),
             (''openAssumptions'', json_texts [''IO is limited to stdout DISPLAY at W0.'',
                ''No file or database access is wired in W0.'']),
             (''note'', JStr note)],
          fxFiles = [(entryFilePath, generatedJavaStub program className)],
          fxGeneratedNote = note,
          fxBuildTest =
            [(''status'', JStr (if known then ''output-divergence'' else ''ok'')),
             (''classification'', JStr (if known then ''divergence-known-w0-coverage-gap'' else ''match'')),
             (''actualOutput'', JStr (''W0-STUB '' @ program @ [newline])),
             (''outputRef'', JStr (''sha256:diagnostic-fixture/'' @ to_lower_case program)),
             (''note'', JStr (if known then ''Diagnostic fixture: divergence is declared by the fixture registry; not a product build/test result.''
                else ''Diagnostic fixture: matches the Golden Master fixture; not a product build/test result.''))],
          fxEvidence =
            [(''status'', JStr ''incomplete''), (''packId'', JStr (''epk-'' @ rid @ ''-1'')),
             (''missingArtifacts'', json_texts [''sourceCobol'', ''semanticIr'', ''harnessEvents'', ''modelInvocations'']),
             (''note'', JStr ''Diagnostic fixture Evidence Pack reference; not a product Evidence Pack. Product exports come from evidence-service /v0/packs.'')]\<rparr>)"

section \<open>Stored runs\<close>

datatype run_mode = LiveRun | FixtureRun

record budget =
  budgetLimit :: rat
  budgetUsed :: rat
  budgetRemaining :: rat

text \<open>The identity of the trust case that a run was started with.\<close>

record trust_case_fields =
  tcId :: "string option"
  tcVersion :: "string option"
  tcCatalogVersion :: "string option"
  tcCatalogHash :: "string option"
  tcConfigurationDigest :: "string option"
  tcEnvironmentProfile :: "string option"
  tcComparisonPolicy :: "string option"
  tcSourceFixture :: "string option"
  tcSourceMode :: "string option"

record stored_run =
  srRunId :: string
  srProgramId :: string
  srExecutionMode :: "string option"
  srTrustCase :: trust_case_fields
  srStatus :: run_status
  srMode :: run_mode
  srMessage :: string
  srPolicyDecision :: string
  srEvidenceRefs :: "string list"
  srTrustSummary :: "json option"
  srCreatedAt :: string
  srUpdatedAt :: string
  srSample :: sample_detail
  srFixture :: "fixture_outcome option"
  srLiveRunId :: "string option"
  srActiveStep :: "string option"
  srAttemptCount :: "rat option"
  srRepairBudget :: "budget option"
  srAssistBudget :: "budget option"
  srModelBudget :: "budget option"
  srFinal :: "final_classification option"
  srFailureCode :: "mapped_code option"
  srFailureMessage :: "string option"
  srManualEdits :: "bool option"
  srManualDrift :: "rat option"
  srJavaRegions :: "json option"

type_synonym run_table = "(string, stored_run) js_map"

text \<open>The fields of \<open>initial\<close> that \<open>create\<close> reads.\<close>

record initial_run =
  inExecutionMode :: "string option"
  inTrustCase :: trust_case_fields
  inStatus :: "run_status option"
  inMessage :: "string option"
  inPolicyDecision :: "string option"
  inEvidenceRefs :: "string list option"
  inTrustSummary :: "json option"

definition createRun ::
  "string \<Rightarrow> string \<Rightarrow> sample_detail \<Rightarrow> run_mode \<Rightarrow> string option \<Rightarrow> initial_run \<Rightarrow> run_table \<Rightarrow> stored_run \<times> run_table" where
  "createRun fresh now sample mode liveRunId initial runs =
     (let rid = ''run-'' @ fresh;
          stored = \<lparr>srRunId = rid, srProgramId = sampleProgramId sample,
            srExecutionMode = inExecutionMode initial, srTrustCase = inTrustCase initial,
            srStatus = or_default (inStatus initial) StatusStarting, srMode = mode,
            srMessage = or_default (inMessage initial)
              (if mode = FixtureRun then ''diagnostic fixture run; not a product result''
               else ''run accepted by orchestrator''),
            srPolicyDecision = or_default (inPolicyDecision initial) [],
            srEvidenceRefs = or_default (inEvidenceRefs initial) [], srTrustSummary = inTrustSummary initial,
            srCreatedAt = now, srUpdatedAt = now, srSample = sample,
            srFixture = (if mode = FixtureRun then Some (diagnosticFixtureOutcomeFor sample rid) else None),
            srLiveRunId = liveRunId, srActiveStep = None, srAttemptCount = None, srRepairBudget = None,
            srAssistBudget = None, srModelBudget = None, srFinal = None, srFailureCode = None,
            srFailureMessage = None, srManualEdits = None, srManualDrift = None, srJavaRegions = None\<rparr>
      in (stored, js_set rid stored runs))"

definition getRun :: "string \<Rightarrow> run_table \<Rightarrow> stored_run option" where
  "getRun rid runs = js_get runs rid"

text \<open>A patch sets the fields that it lists.\<close>

definition updateRun :: "string \<Rightarrow> string \<Rightarrow> (stored_run \<Rightarrow> stored_run) \<Rightarrow> run_table \<Rightarrow> stored_run option \<times> run_table" where
  "updateRun now rid patch runs =
     (case js_get runs rid of
        None \<Rightarrow> (None, runs)
      | Some existing \<Rightarrow>
          (let updated = (patch existing)\<lparr>srUpdatedAt := now\<rparr> in (Some updated, js_set rid updated runs)))"

definition listRuns :: "run_table \<Rightarrow> stored_run list" where
  "listRuns runs = map snd runs"

fun run_status_name :: "run_status \<Rightarrow> string" where
  "run_status_name StatusStarting = ''starting''"
| "run_status_name StatusUpdating = ''updating''"
| "run_status_name StatusCompleted = ''completed''"
| "run_status_name StatusFailed = ''failed''"

definition coerceLiveStatus :: "json option \<Rightarrow> run_status" where
  "coerceLiveStatus value =
     or_default (find (\<lambda>s. value = Some (JStr (run_status_name s)))
       [StatusStarting, StatusUpdating, StatusCompleted, StatusFailed]) StatusUpdating"

fun run_mode_name :: "run_mode \<Rightarrow> string" where
  "run_mode_name LiveRun = ''live''"
| "run_mode_name FixtureRun = ''diagnostic-fixture''"

end
