(* ===== verification/Bff_Run_Views.thy ===== *)
theory Bff_Run_Views
  imports Bff_Run_Store
begin

text \<open>
  \<open>runViews.ts\<close> of the BFF: what the run routes make of the orchestrator's answers, whose shape they do
  not trust, and of the stored run.
\<close>

section \<open>Trust summaries\<close>

text \<open>Assigning to \<open>__proto__\<close> sets the prototype instead of a field.\<close>

definition assignable :: "string \<Rightarrow> bool" where
  "assignable key \<longleftrightarrow> key \<noteq> ''__proto__''"

fun normalizeTrustSummaryValue :: "json \<Rightarrow> json option"
  and normalize_entries :: "json list \<Rightarrow> json list"
  and normalize_fields :: "(string \<times> json) list \<Rightarrow> (string \<times> json) list" where
  "normalizeTrustSummaryValue JNull = Some JNull"
| "normalizeTrustSummaryValue (JStr s) = Some (JStr s)"
| "normalizeTrustSummaryValue (JBool b) = Some (JBool b)"
| "normalizeTrustSummaryValue (JNum (Finite q)) = Some (JNum (Finite q))"
| "normalizeTrustSummaryValue (JNum (Infinite b)) = None"
| "normalizeTrustSummaryValue (JArr js) = Some (JArr (normalize_entries js))"
| "normalizeTrustSummaryValue (JObj fs) = Some (JObj (normalize_fields fs))"
| "normalize_entries [] = []"
| "normalize_entries (j # js) =
     (case normalizeTrustSummaryValue j of None \<Rightarrow> normalize_entries js | Some v \<Rightarrow> v # normalize_entries js)"
| "normalize_fields [] = []"
| "normalize_fields ((key, j) # fs) =
     (case normalizeTrustSummaryValue j of
        Some v \<Rightarrow> if assignable key then (key, v) # normalize_fields fs else normalize_fields fs
      | None \<Rightarrow> normalize_fields fs)"

definition asTimestampString :: "json option \<Rightarrow> json option" where
  "asTimestampString v = nonempty_field (asString v)"

fun trust_summary_field :: "string \<times> json \<Rightarrow> (string \<times> json) option" where
  "trust_summary_field (key, value) =
     (if key = ''evidenceRefs'' then Some (key, json_texts (asStringArray (Some value)))
      else if ends_with key ''At'' then map_option (Pair key) (asTimestampString (Some value))
      else if assignable key then map_option (Pair key) (normalizeTrustSummaryValue value) else None)"

definition normalizeTrustSummary :: "json option \<Rightarrow> json option" where
  "normalizeTrustSummary raw =
     (case raw of
        Some (JObj fs) \<Rightarrow>
          (let summary = List.map_filter trust_summary_field fs in if summary = [] then None else Some (JObj summary))
      | _ \<Rightarrow> None)"

definition extractTrustSummary :: "json option \<Rightarrow> json option" where
  "extractTrustSummary raw =
     or_else (normalizeTrustSummary (js_field raw ''trustSummary''))
       (or_else (normalizeTrustSummary (js_field (js_field raw ''run'') ''trustSummary''))
         (normalizeTrustSummary (js_field (js_field raw ''contract'') ''trustSummary'')))"

section \<open>Trust cases\<close>

definition TRUST_CASE_FIELD_MAX :: nat where "TRUST_CASE_FIELD_MAX = 128"

definition TRUST_CASE_DIGEST_MAX :: nat where "TRUST_CASE_DIGEST_MAX = 256"

record trust_case_snapshot =
  tsId :: string
  tsVersion :: string
  tsCatalogVersion :: string
  tsCatalogHash :: string
  tsConfigurationDigest :: string
  tsSourceFixture :: string
  tsSourceMode :: string
  tsEnvironmentProfile :: string
  tsComparisonPolicy :: string

definition trustCaseSnapshot :: "json option \<Rightarrow> trust_case_snapshot option" where
  "trustCaseSnapshot raw =
     (let field = (\<lambda>k. take TRUST_CASE_FIELD_MAX (asString (js_field raw k)));
          digest = (\<lambda>k. take TRUST_CASE_DIGEST_MAX (asString (js_field raw k)))
      in if asRecord raw = None \<or> field ''trustCaseId'' = [] then None
         else Some \<lparr>tsId = field ''trustCaseId'', tsVersion = field ''version'',
           tsCatalogVersion = field ''catalogVersion'', tsCatalogHash = digest ''catalogHash'',
           tsConfigurationDigest = digest ''configurationDigest'', tsSourceFixture = field ''sourceReferenceFixtureId'',
           tsSourceMode = field ''sourceReferenceMode'', tsEnvironmentProfile = field ''environmentProfileId'',
           tsComparisonPolicy = field ''comparisonPolicyVersion''\<rparr>)"

section \<open>Paths\<close>

definition isSafeGeneratedRelpath :: "string \<Rightarrow> bool" where
  "isSafeGeneratedRelpath raw \<longleftrightarrow>
     (let normalized = dropWhile (\<lambda>c. c = CHR ''/'') (js_replace_char CHR 0x5C CHR ''/'' raw)
      in raw \<noteq> [] \<and> CHR 0x00 \<notin> set raw \<and> normalized \<noteq> [] \<and> safe_segments normalized)"

definition isSafeClassificationMapKey :: "string \<Rightarrow> bool" where
  "isSafeClassificationMapKey value \<longleftrightarrow> value \<notin> {[], ''__proto__'', ''constructor'', ''prototype''}"

definition normalizeRequestJavaFilePath :: "string \<Rightarrow> string" where
  "normalizeRequestJavaFilePath raw = js_replace_char CHR 0x5C CHR ''/'' raw"

text \<open>\<open>/^[a-z][a-z0-9+.-]*:/i\<close>\<close>

definition SCHEME_PATTERN :: regex where
  "SCHEME_PATTERN =
     rx_seq [RxStart, RxSet (\<lambda>c. is_upper c \<or> is_lower c),
       rx_many (\<lambda>c. is_alnum c \<or> c = CHR ''+'' \<or> c = CHR ''.'' \<or> c = CHR ''-''), rx_text '':'']"

definition isSafeRequestJavaFilePath :: "string \<Rightarrow> bool" where
  "isSafeRequestJavaFilePath raw \<longleftrightarrow>
     (let normalized = normalizeRequestJavaFilePath raw
      in \<not> prefix ''/'' normalized \<and> \<not> has_drive normalized \<and> \<not> rx_test SCHEME_PATTERN normalized \<and>
         isSafeGeneratedRelpath normalized)"

section \<open>Region classifications\<close>

definition JAVA_ORIGIN_CLASSES :: "string list" where
  "JAVA_ORIGIN_CLASSES = [''deterministic'', ''agent_proposed'', ''repair_attempted'', ''manual_modified'', ''manual_edit'']"

definition JAVA_VERIFICATION_OUTCOMES :: "string list" where
  "JAVA_VERIFICATION_OUTCOMES = [''oracle_passed'', ''oracle_failed'', ''no_oracle'']"

definition JAVA_MAPPING_CLASSES :: "string list" where
  "JAVA_MAPPING_CLASSES = [''direct'', ''aggregated'', ''synthesized'', ''agent_originated'']"

definition valid_region :: "json \<Rightarrow> json option" where
  "valid_region entry =
     (let e = Some entry; lr = js_field e ''lineRange'';
          originClass = asString (js_field e ''originClass'');
          verificationOutcome = asString (js_field e ''verificationOutcome'');
          mappingClass = asString (js_field e ''mappingClass'')
      in case (asNumber (js_field lr ''startLine''), asNumber (js_field lr ''endLine'')) of
           (Some startLine, Some endLine) \<Rightarrow>
             (if is_integer startLine \<and> 0 < startLine \<and> is_integer endLine \<and> startLine \<le> endLine \<and>
                 originClass \<in> set JAVA_ORIGIN_CLASSES \<and> verificationOutcome \<in> set JAVA_VERIFICATION_OUTCOMES \<and>
                 mappingClass \<in> set JAVA_MAPPING_CLASSES
              then Some (js_object
                [(''schemaVersion'', Some (JStr ''v0'')),
                 (''lineRange'', Some (js_object [(''startLine'', Some (js_num startLine)), (''endLine'', Some (js_num endLine))])),
                 (''originClass'', Some (JStr originClass)), (''verificationOutcome'', Some (JStr verificationOutcome)),
                 (''mappingClass'', Some (JStr mappingClass))])
              else None)
         | _ \<Rightarrow> None)"

fun file_classification :: "string \<times> json \<Rightarrow> (string \<times> json) option" where
  "file_classification (file, JArr arr) =
     (let valid = List.map_filter valid_region arr
      in if isSafeClassificationMapKey file \<and> valid \<noteq> [] then Some (file, JArr valid) else None)"
| "file_classification _ = None"

definition normalizeJavaRegionClassification :: "json option \<Rightarrow> json" where
  "normalizeJavaRegionClassification raw =
     (case raw of Some (JObj fs) \<Rightarrow> JObj (List.map_filter file_classification fs) | _ \<Rightarrow> JNull)"

section \<open>The run summary\<close>

fun productModeOf :: "run_mode \<Rightarrow> string" where
  "productModeOf LiveRun = ''live''"
| "productModeOf FixtureRun = ''unavailable''"

definition budget_json :: "budget \<Rightarrow> json" where
  "budget_json b = js_object [(''limit'', Some (js_num (budgetLimit b))), (''used'', Some (js_num (budgetUsed b))),
     (''remaining'', Some (js_num (budgetRemaining b)))]"

fun final_name :: "final_classification \<Rightarrow> string" where
  "final_name FinalSuccess = ''success''"
| "final_name FinalBlocked = ''blocked''"
| "final_name FinalFailed = ''failed''"
| "final_name FinalCancelled = ''cancelled''"
| "final_name FinalIncomplete = ''incomplete''"

fun code_json :: "mapped_code \<Rightarrow> json option" where
  "code_json (UiCode code) = Some (JStr (ui_code_name code))"
| "code_json (InheritedCode name) = inherited_json name"

text \<open>The number of drift regions, when it is a natural number.\<close>

definition region_count :: "rat option \<Rightarrow> rat" where
  "region_count n = (case n of Some q \<Rightarrow> if is_integer q \<and> 0 \<le> q then q else 0 | None \<Rightarrow> 0)"

definition text_or_empty :: "string option \<Rightarrow> json option" where
  "text_or_empty s = Some (JStr (or_default s []))"

definition run_summary_fields :: "stored_run \<Rightarrow> json option \<Rightarrow> (string \<times> json option) list" where
  "run_summary_fields stored summaryOverride =
     (let tc = srTrustCase stored in
      [(''schemaVersion'', Some (JStr ''v0'')), (''runId'', Some (JStr (srRunId stored))),
       (''programId'', Some (JStr (srProgramId stored))),
       (''executionMode'', Some (JStr (or_default (srExecutionMode stored) ''standard''))),
       (''trustCaseId'', text_or_empty (tcId tc)), (''trustCaseVersion'', text_or_empty (tcVersion tc)),
       (''trustCaseCatalogVersion'', text_or_empty (tcCatalogVersion tc)),
       (''trustCaseCatalogHash'', text_or_empty (tcCatalogHash tc)),
       (''trustCaseConfigurationDigest'', text_or_empty (tcConfigurationDigest tc)),
       (''trustCaseEnvironmentProfileId'', text_or_empty (tcEnvironmentProfile tc)),
       (''trustCaseComparisonPolicyVersion'', text_or_empty (tcComparisonPolicy tc)),
       (''sourceReferenceFixtureId'', text_or_empty (tcSourceFixture tc)),
       (''sourceReferenceMode'', text_or_empty (tcSourceMode tc)),
       (''status'', Some (JStr (run_status_name (srStatus stored)))),
       (''mode'', Some (JStr (run_mode_name (srMode stored)))),
       (''productMode'', Some (JStr (productModeOf (srMode stored)))),
       (''message'', Some (JStr (srMessage stored))), (''policyDecision'', Some (JStr (srPolicyDecision stored))),
       (''evidenceRefs'', Some (JArr [])),
       (''trustSummary'', Some (or_default (or_else summaryOverride (srTrustSummary stored)) JNull)),
       (''orchestratorRunId'', text_or_empty (srLiveRunId stored)),
       (''createdAt'', Some (JStr (srCreatedAt stored))), (''updatedAt'', Some (JStr (srUpdatedAt stored))),
       (''activeStep'', Some (js_or_null JStr (srActiveStep stored))),
       (''agentAttemptCount'', Some (js_num (or_default (srAttemptCount stored) 0))),
       (''repairBudget'', Some (js_or_null budget_json (srRepairBudget stored))),
       (''assistBudget'', Some (js_or_null budget_json (srAssistBudget stored))),
       (''modelInvocationBudget'', Some (js_or_null budget_json (srModelBudget stored))),
       (''finalClassification'', Some (js_or_null (JStr \<circ> final_name) (srFinal stored))),
       (''failureCode'', case srFailureCode stored of None \<Rightarrow> Some JNull | Some c \<Rightarrow> code_json c),
       (''failureMessage'', Some (js_or_null JStr (srFailureMessage stored))),
       (''manualEditsCarriedOver'', Some (JBool (srManualEdits stored = Some True))),
       (''manualDriftRegionCount'', Some (js_num (region_count (srManualDrift stored)))),
       (''javaRegionClassification'', Some (normalizeJavaRegionClassification (srJavaRegions stored)))])"

definition runSummary :: "stored_run \<Rightarrow> json option \<Rightarrow> json" where
  "runSummary stored summaryOverride = js_object (run_summary_fields stored summaryOverride)"

definition run_link :: "string \<Rightarrow> string \<Rightarrow> json option" where
  "run_link rid rest = Some (JStr (''/api/v0/runs/'' @ rid @ rest))"

definition runLinks :: "string \<Rightarrow> (string \<times> json option) list" where
  "runLinks rid =
     [(''self'', run_link rid []), (''generated'', run_link rid ''/generated''),
      (''generatedFiles'', run_link rid ''/generated/files''), (''buildTest'', run_link rid ''/build-test''),
      (''evidence'', run_link rid ''/evidence''), (''artifacts'', run_link rid ''/artifacts''),
      (''progress'', run_link rid ''/progress''), (''learning'', run_link rid ''/learning''),
      (''experience'', run_link rid ''/experience''), (''workflow'', run_link rid ''/workflow''),
      (''traceability'', run_link rid ''/traceability'')]"

definition transformLinks :: "string \<Rightarrow> (string \<times> json option) list" where
  "transformLinks rid = runLinks rid @ [(''events'', run_link rid ''/events'')]"

definition transformResponse :: "stored_run \<Rightarrow> json option \<Rightarrow> json" where
  "transformResponse stored summaryOverride =
     js_object (run_summary_fields stored summaryOverride @ [(''links'', Some (js_object (transformLinks (srRunId stored))))])"

section \<open>Source programs\<close>

definition createSourceTextSample :: "string \<Rightarrow> string \<Rightarrow> string option \<Rightarrow> sample_detail" where
  "createSourceTextSample program sourceText sourceName =
     \<lparr>sampleProgramId = program,
      sampleTitle = (case sourceName of Some (c # cs) \<Rightarrow> ''Transform run from '' @ c # cs
                     | _ \<Rightarrow> ''Transform run for '' @ program),
      sampleDescription = ''Synthetic sample created from source text'', knownDivergenceAtW0 = False,
      supportedInProductMode = True, w0Subset = [], oracleMode = None, knownLimitations = [],
      cobolSource = sourceText, cobolSourcePath = ''transforms/'' @ program @ ''.cbl'', expectedOutput = [],
      expectedOutputPath = []\<rparr>"

definition PROGRAM_ID_PATTERN :: regex where
  "PROGRAM_ID_PATTERN =
     rx_seq [rx_text_i ''PROGRAM-ID.'', rx_many is_js_space,
       RxGroup 1 (rx_some (\<lambda>c. is_alnum c \<or> c = CHR ''-''))]"

text \<open>The hexadecimal SHA-256 digest is a parameter.\<close>

definition extractProgramIdFromSourceText :: "(string \<Rightarrow> string) \<Rightarrow> string \<Rightarrow> string" where
  "extractProgramIdFromSourceText sha256 sourceText =
     (case Option.bind (rx_exec PROGRAM_ID_PATTERN sourceText) (\<lambda>(_, _, _, groups). map_of groups 1) of
        Some name \<Rightarrow> map to_upper name
      | None \<Rightarrow> ''SRC-'' @ map to_upper (take 12 (sha256 sourceText)))"

definition resolveTransformProgramId :: "(string \<Rightarrow> string) \<Rightarrow> string \<Rightarrow> string option \<Rightarrow> string" where
  "resolveTransformProgramId sha256 sourceText requested =
     (case requested of
        Some s \<Rightarrow> if js_trim s = [] then extractProgramIdFromSourceText sha256 sourceText else js_trim s
      | None \<Rightarrow> extractProgramIdFromSourceText sha256 sourceText)"

end
