(* ===== verification/Bff_Outcomes.thy ===== *)
theory Bff_Outcomes
  imports Bff_Run_Views
begin

text \<open>
  The rest of the view helpers of \<open>runViews.ts\<close>: references to generated files and artifacts, and what is
  read out of a build-test result and of an evidence pack.
\<close>

section \<open>Files and artifacts\<close>

definition string_fields :: "json option \<Rightarrow> string list \<Rightarrow> (string \<times> json option) list" where
  "string_fields raw keys = map (\<lambda>k. (k, nonempty_field (asString (js_field raw k)))) keys"

definition normalizeGeneratedFileRef :: "json \<Rightarrow> json option" where
  "normalizeGeneratedFileRef entry =
     (let path = asString (js_field (Some entry) ''path'')
      in if asRecord (Some entry) = None \<or> \<not> isSafeGeneratedRelpath path then None
         else Some (js_object
           ([(''path'', Some (JStr path))] @
            string_fields (Some entry) [''sha256'', ''mimeType'', ''kind'', ''name''] @
            [(''byteSize'', map_option js_num (asNumber (js_field (Some entry) ''byteSize'')))])))"

definition normalizeGeneratedFileRefs :: "json option \<Rightarrow> json list" where
  "normalizeGeneratedFileRefs raw = List.map_filter normalizeGeneratedFileRef (or_default (js_array raw) [])"

definition normalizeRunArtifact :: "json \<Rightarrow> json option" where
  "normalizeRunArtifact entry =
     (let sha256 = asString (js_field (Some entry) ''sha256'');
          path = asString (js_field (Some entry) ''path'')
      in if asRecord (Some entry) = None \<or> sha256 = [] then None
         else Some (js_object
           ([(''sha256'', Some (JStr sha256)),
             (''byteSize'', map_option js_num (asNumber (js_field (Some entry) ''byteSize'')))] @
            string_fields (Some entry) [''kind'', ''name'', ''mimeType'', ''createdBy'', ''createdAt''] @
            [(''path'', if path \<noteq> [] \<and> isSafeGeneratedRelpath path then Some (JStr path) else None)])))"

definition liveArtifactRunId :: "stored_run \<Rightarrow> string option" where
  "liveArtifactRunId stored = (case srLiveRunId stored of Some (c # cs) \<Rightarrow> Some (c # cs) | _ \<Rightarrow> None)"

definition run_head :: "stored_run \<Rightarrow> (string \<times> json option) list" where
  "run_head stored =
     [(''runId'', Some (JStr (srRunId stored))), (''programId'', Some (JStr (srProgramId stored))),
      (''mode'', Some (JStr (run_mode_name (srMode stored)))),
      (''productMode'', Some (JStr (productModeOf (srMode stored))))]"

definition incompleteEnvelope :: "stored_run \<Rightarrow> string list \<Rightarrow> string \<Rightarrow> json" where
  "incompleteEnvelope stored missing note =
     js_object (run_head stored @
       [(''status'', Some (JStr ''incomplete'')), (''missingArtifacts'', Some (json_texts missing)),
        (''note'', Some (JStr note))])"

section \<open>Statuses\<close>

text \<open>The upstream status of a run, \<open>None\<close> where the caller has \<open>undefined\<close>.\<close>

definition classifyGeneratedStatus :: "string list \<Rightarrow> string option \<Rightarrow> string" where
  "classifyGeneratedStatus missing runStatus =
     (if missing = [] then ''generated''
      else if runStatus = Some ''failed'' then ''unsupported'' else ''skipped'')"

definition BUILD_STATUSES :: "string list" where
  "BUILD_STATUSES =
     [''ok'', ''compile-failed'', ''run-failed'', ''output-divergence'', ''golden-master-reproduction-failed'',
      ''missing-golden-master'', ''skipped'']"

definition BUILD_CLASSIFICATIONS :: "string list" where
  "BUILD_CLASSIFICATIONS =
     [''match'', ''divergence-known-w0-coverage-gap'', ''divergence-unknown'',
      ''true-golden-master-reproduction-error'', ''true-golden-master-mismatch'', ''compile-error'', ''run-error'',
      ''skipped-no-execution'']"

definition classifyBuildTestStatus :: "string list \<Rightarrow> string option \<Rightarrow> json option \<Rightarrow> string \<times> string" where
  "classifyBuildTestStatus missing runStatus data =
     (if missing \<noteq> [] then
        (if runStatus = Some ''failed'' then (''run-failed'', ''run-error'') else (''skipped'', ''skipped-no-execution''))
      else
        (let upstreamStatus = asString (js_field data ''status'');
             upstreamClassification = asString (js_field data ''classification'')
         in (if upstreamStatus \<in> set BUILD_STATUSES then upstreamStatus else ''ok'',
             if upstreamClassification \<in> set BUILD_CLASSIFICATIONS then upstreamClassification else ''match'')))"

definition deriveCompileStatus :: "json option \<Rightarrow> string \<Rightarrow> string" where
  "deriveCompileStatus data status =
     (let build = asRecord (js_field data ''build'');
          buildStatus = to_lower_case (asString (js_field build ''status''))
      in case asBoolean (js_field build ''compileOk'') of
           Some ok \<Rightarrow> if ok then ''ok'' else ''failed''
         | None \<Rightarrow>
             (if build \<noteq> None \<and> buildStatus \<in> {''ok'', ''success'', ''passed''} then ''ok''
              else if build \<noteq> None \<and> buildStatus \<in> {''failed'', ''failure'', ''error''} then ''failed''
              else if build \<noteq> None \<and> buildStatus = ''skipped'' then ''skipped''
              else if status = ''compile-failed'' then ''failed''
              else if status = ''skipped'' then ''skipped'' else ''unknown''))"

definition execution_status_of :: "json option \<Rightarrow> string option" where
  "execution_status_of execution =
     (let executionStatus = to_lower_case (asString (js_field execution ''status''))
      in case asBoolean (js_field execution ''ok'') of
           Some ok \<Rightarrow> Some (if ok then ''ok'' else ''failed'')
         | None \<Rightarrow>
             (if executionStatus \<in> {''ok'', ''success'', ''passed''} then Some ''ok''
              else if executionStatus \<in> {''failed'', ''failure'', ''error''} then Some ''failed''
              else if executionStatus = ''skipped'' then Some ''skipped''
              else if executionStatus = ''not-run'' then Some ''not-run''
              else map_option (\<lambda>q. if q = 0 then ''ok'' else ''failed'') (asNumber (js_field execution ''exitCode''))))"

definition deriveExecutionStatus :: "json option \<Rightarrow> string \<Rightarrow> string" where
  "deriveExecutionStatus data status =
     (let execution = asRecord (js_field data ''execution'')
      in if js_field execution ''ran'' = Some (JBool False) then (if status = ''skipped'' then ''skipped'' else ''not-run'')
         else case execution_status_of execution of
           Some known \<Rightarrow> known
         | None \<Rightarrow>
             (if status = ''run-failed'' then ''failed''
              else if status = ''skipped'' then ''skipped''
              else if status = ''compile-failed'' then ''not-run'' else ''unknown''))"

text \<open>The first of the given fields that is a string.\<close>

fun first_string :: "json option list \<Rightarrow> string \<Rightarrow> string" where
  "first_string [] fallback = fallback"
| "first_string (v # vs) fallback = (case as_string v of Some s \<Rightarrow> s | None \<Rightarrow> first_string vs fallback)"

definition deriveActualOutput :: "json option \<Rightarrow> string" where
  "deriveActualOutput data =
     (let execution = js_field data ''execution''
      in first_string [js_field data ''actualOutput'', js_field execution ''actualOutput'',
           js_field execution ''stdout'', js_field execution ''output''] [])"

definition deriveExpectedOutput :: "json option \<Rightarrow> string \<Rightarrow> string" where
  "deriveExpectedOutput data fallback =
     (let execution = js_field data ''execution''; golden = js_field data ''goldenMaster'';
          comparison = js_field data ''comparison''
      in first_string [js_field data ''expectedOutput'', js_field execution ''expectedOutput'',
           js_field golden ''expected'', js_field golden ''expectedOutput'', js_field comparison ''expected'',
           js_field comparison ''expectedOutput''] fallback)"

datatype comparison_side = ExpectedRef | ActualRef

fun side_fields :: "comparison_side \<Rightarrow> string \<times> string" where
  "side_fields ExpectedRef = (''expectedRef'', ''sourceOutputRef'')"
| "side_fields ActualRef = (''actualRef'', ''javaOutputRef'')"

definition deriveComparisonOutputRef :: "json option \<Rightarrow> comparison_side \<Rightarrow> json option" where
  "deriveComparisonOutputRef data side =
     (let (current, renamed) = side_fields side; result = js_field data ''comparisonResult''
      in or_else (normalizeOutputRef (js_field (js_field data ''comparison'') current))
           (or_else (normalizeOutputRef (js_field result current)) (normalizeOutputRef (js_field result renamed))))"

section \<open>Evidence\<close>

definition deriveValidationStatus :: "json option \<Rightarrow> string" where
  "deriveValidationStatus data =
     (let validation = asRecord (js_field data ''validation'');
          validationStatus = asString (js_field validation ''status'');
          manifestStatus = asString (js_field data ''status'')
      in if validation \<noteq> None then
           (if validationStatus \<in> {''valid'', ''invalid'', ''incomplete''} then validationStatus
            else if or_default (js_array (js_field validation ''missingArtifacts'')) [] \<noteq> [] then ''incomplete''
            else ''valid'')
         else if manifestStatus = ''complete'' then ''valid''
         else if manifestStatus = ''invalid'' then ''invalid''
         else if manifestStatus = ''incomplete'' then ''incomplete'' else ''unknown'')"

text \<open>The order of the code units, which \<open>>\<close> compares strings by.\<close>

fun js_lex :: "string \<Rightarrow> string \<Rightarrow> bool" where
  "js_lex xs [] = False"
| "js_lex [] (y # ys) = True"
| "js_lex (x # xs) (y # ys) =
     ((of_char x :: nat) < of_char y \<or> x = y \<and> js_lex xs ys)"

text \<open>One step of the loop over the exports; the state is the chosen record, if any.\<close>

fun choose_export :: "json option \<Rightarrow> json \<Rightarrow> json option" where
  "choose_export chosen entry =
     (let createdAt = asString (js_field (Some entry) ''createdAt'');
          chosenCreatedAt = asString (js_field chosen ''createdAt'')
      in if normalizeOutputRef (Some entry) = None then chosen
         else if chosen = None then Some entry
         else if createdAt \<noteq> [] \<and> (chosenCreatedAt = [] \<or> js_lex chosenCreatedAt createdAt) then Some entry
         else if createdAt = [] \<and> chosenCreatedAt = [] then Some entry
         else chosen)"

definition deriveExportRef :: "json option \<Rightarrow> json option" where
  "deriveExportRef data =
     normalizeOutputRef (foldl choose_export None (or_default (js_array (js_field data ''exports'')) []))"

definition deriveMissingFromValidation :: "json option \<Rightarrow> string list" where
  "deriveMissingFromValidation data = asStringArray (js_field (js_field data ''validation'') ''missingArtifacts'')"

definition deriveManualEditOverlayRef :: "json option \<Rightarrow> json option" where
  "deriveManualEditOverlayRef data =
     (let overlay = js_field (js_field data ''artifacts'') ''manualEditOverlay'';
          uri = asString (js_field overlay ''uri''); sha256 = asString (js_field overlay ''sha256'')
      in if uri = [] \<or> sha256 = [] then None
         else Some (js_object
           [(''uri'', Some (JStr uri)), (''sha256'', Some (JStr sha256)),
            (''regionCount'', Some (js_num (region_count (asNumber (js_field overlay ''regionCount''))))),
            (''byteSize'', map_option js_num (asNumber (js_field overlay ''byteSize''))),
            (''mimeType'', nonempty_field (asString (js_field overlay ''mimeType''))),
            (''kind'', nonempty_field (asString (js_field overlay ''kind''))),
            (''schemaVersion'', if asString (js_field overlay ''schemaVersion'') = ''v0'' then Some (JStr ''v0'') else None)]))"

definition normalizeGeneratedTraceability :: "json option \<Rightarrow> json option" where
  "normalizeGeneratedTraceability raw =
     (let field = (\<lambda>k. asString (js_field raw k))
      in if field ''programId'' = [] \<or> field ''irId'' = [] \<or> field ''sourceHash'' = [] then None
         else Some (js_object
           ((''schemaVersion'', Some (JStr ''v0'')) #
            map (\<lambda>k. (k, Some (JStr (field k)))) [''programId'', ''irId'', ''sourceHash''])))"

end
