(* ===== verification/Bff_Workflow.thy ===== *)
theory Bff_Workflow
  imports Bff_Outcomes
begin

text \<open>
  The workflow snapshot of \<open>runViews.ts\<close>: what is left of the orchestrator's workflow contract for the
  browser, the envelope that carries it, the steps of the progress view, and (from \<open>server.ts\<close>) how the
  snapshot is written back to the stored run.
\<close>

section \<open>Progress\<close>

definition PIPELINE_STEP_STATUSES :: "string list" where
  "PIPELINE_STEP_STATUSES = [''pending'', ''running'', ''ok'', ''failed'', ''skipped'']"

definition asPipelineStepStatus :: "json option \<Rightarrow> string" where
  "asPipelineStepStatus value =
     (case as_string value of
        Some s \<Rightarrow> if s \<in> set PIPELINE_STEP_STATUSES then s else ''pending''
      | None \<Rightarrow> ''pending'')"

definition FAILED_STEP_DIAGNOSTIC_FALLBACK :: string where
  "FAILED_STEP_DIAGNOSTIC_FALLBACK = ''Step failed. See workflow failure details for the classified reason.''"

definition SKIPPED_STEP_DIAGNOSTIC_FALLBACK :: string where
  "SKIPPED_STEP_DIAGNOSTIC_FALLBACK = ''Step skipped by workflow policy.''"

definition is_quote :: "char \<Rightarrow> bool" where
  "is_quote c \<longleftrightarrow> c = CHR 0x22 \<or> c = CHR 0x27"

definition rx_words :: "string \<Rightarrow> string \<Rightarrow> regex" where
  "rx_words u v = rx_seq [RxWordBoundary, rx_text_i u, rx_some is_js_space, rx_text_i v, RxWordBoundary]"

definition UNSAFE_PROGRESS_DIAGNOSTIC_PATTERNS :: "regex list" where
  "UNSAFE_PROGRESS_DIAGNOSTIC_PATTERNS =
     [rx_seq
        [rx_opt (RxSet is_quote),
         rx_any_of (map rx_text_i [''sourceText'', ''expectedOutput'', ''oracleInput'', ''baselineFiles'',
           ''previousJavaFiles'', ''buildTestPayload'', ''inputRef'', ''outputRef'']),
         rx_opt (RxSet is_quote), rx_many is_js_space, rx_text '':''],
      rx_words ''IDENTIFICATION'' ''DIVISION'', rx_words ''PROCEDURE'' ''DIVISION'', rx_words ''public'' ''class'']"

definition sanitizeProgressDiagnostic :: "string \<Rightarrow> string \<Rightarrow> string" where
  "sanitizeProgressDiagnostic diag status =
     (let fallback = (if status = ''failed'' then FAILED_STEP_DIAGNOSTIC_FALLBACK else ''Step diagnostic unavailable.'');
          sanitized = sanitizeUpstreamMessage (Some (JStr diag)) fallback
      in if status = ''skipped'' then SKIPPED_STEP_DIAGNOSTIC_FALLBACK
         else if status \<noteq> ''failed'' then sanitized
         else if list_ex (\<lambda>pattern. rx_test pattern sanitized) UNSAFE_PROGRESS_DIAGNOSTIC_PATTERNS then fallback
         else sanitized)"

definition normalizePipelineStep :: "json \<Rightarrow> json option" where
  "normalizePipelineStep entry =
     (let raw = Some entry; stepName = asString (js_field raw ''name'');
          status = asPipelineStepStatus (js_field raw ''status'');
          diag = asString (js_field raw ''diagnostic'')
      in if asRecord raw = None \<or> stepName = [] then None
         else Some (js_object
           [(''stepId'', Some (js_num (or_default (asNumber (js_field raw ''stepId'')) 0))),
            (''name'', Some (JStr stepName)),
            (''capabilityId'', Some (JStr (asString (js_field raw ''capabilityId'')))),
            (''service'', Some (JStr (asString (js_field raw ''service'')))),
            (''actor'', Some (JStr (asString (js_field raw ''actor'')))),
            (''status'', Some (JStr status)),
            (''startedAt'', nonempty_field (asString (js_field raw ''startedAt''))),
            (''finishedAt'', nonempty_field (asString (js_field raw ''finishedAt''))),
            (''diagnostic'', if diag = [] then None else Some (JStr (sanitizeProgressDiagnostic diag status))),
            (''inputRef'', normalizeOutputRef (js_field raw ''inputRef'')),
            (''outputRef'', normalizeOutputRef (js_field raw ''outputRef'')),
            (''latencyMs'', map_option js_num (asNumber (js_field raw ''latencyMs'')))]))"

text \<open>An event that keeps none of its fields is dropped.\<close>

definition nonempty_object :: "(string \<times> json option) list \<Rightarrow> json option" where
  "nonempty_object fs = (if list_all (\<lambda>(_, v). v = None) fs then None else Some (js_object fs))"

definition sanitizeUiRunEvent :: "json \<Rightarrow> json option" where
  "sanitizeUiRunEvent entry =
     (let raw = Some entry; field = (\<lambda>k. nonempty_field (asString (js_field raw k)))
      in nonempty_object
           [(''type'', field ''type''), (''status'', field ''status''),
            (''message'', Option.bind (field ''message'') (\<lambda>m. nonempty_field (sanitizeUpstreamMessage (Some m) []))),
            (''createdAt'', field ''createdAt'')])"

section \<open>Parts of the contract\<close>

definition safeArtifactRef :: "json option \<Rightarrow> json option" where
  "safeArtifactRef value =
     (let sha256 = asString (js_field value ''sha256'')
      in if sha256 = [] then None
         else Some (js_object
           [(''sha256'', Some (JStr sha256)),
            (''byteSize'', Some (js_num (or_default (asNumber (js_field value ''byteSize'')) 0))),
            (''kind'', Some (JStr (asString (js_field value ''kind''))))]))"

definition asFinalClassification :: "json option \<Rightarrow> final_classification option" where
  "asFinalClassification value =
     find (\<lambda>c. as_string value = Some (final_name c)) [FinalSuccess, FinalBlocked, FinalFailed, FinalCancelled, FinalIncomplete]"

text \<open>The three budget readers of the code have the same body.\<close>

definition asRepairBudget :: "json option \<Rightarrow> budget option" where
  "asRepairBudget value =
     (case (asNumber (js_field value ''limit''), asNumber (js_field value ''used'')) of
        (Some limit, Some used) \<Rightarrow>
          (if limit < 0 \<or> used < 0 then None
           else Some \<lparr>budgetLimit = limit, budgetUsed = used,
             budgetRemaining = or_default (asNumber (js_field value ''remaining'')) (max 0 (limit - used))\<rparr>)
      | _ \<Rightarrow> None)"

definition includes_any :: "string \<Rightarrow> string list \<Rightarrow> bool" where
  "includes_any hay needles \<longleftrightarrow> list_ex (\<lambda>needle. js_contains needle hay) needles"

definition deriveActiveAgent :: "string option \<Rightarrow> string option" where
  "deriveActiveAgent activeStep =
     (case activeStep of
        None \<Rightarrow> None
      | Some step \<Rightarrow>
          (let normalized = to_lower_case (js_replace_char CHR ''_'' CHR ''-'' step)
           in if step = [] then None
              else if includes_any normalized [''transformation-agent''] then Some ''transformation_agent''
              else if includes_any normalized [''verification-repair-agent'', ''verification-repair'']
                then Some ''verification_repair_agent''
              else if includes_any normalized [''parse-cobol'', ''cobol-parser''] then Some ''cobol_parser''
              else if includes_any normalized [''semantic-ir''] then Some ''semantic_ir''
              else if includes_any normalized [''generate-java'', ''java-generation''] then Some ''java_generator''
              else if includes_any normalized [''compile-test'', ''build-test''] then Some ''build_test_runner''
              else if includes_any normalized [''write-evidence'', ''evidence''] then Some ''evidence_service''
              else None))"

definition REPAIR_DECISIONS :: "string list" where
  "REPAIR_DECISIONS = [''propose_candidate'', ''refuse'', ''escalate'', ''no_change'']"

definition sanitizeRepairAttempt :: "json \<Rightarrow> json option" where
  "sanitizeRepairAttempt entry =
     (let raw = Some entry; decisionRaw = asString (js_field raw ''repairDecision'');
          has = (\<lambda>k. Some (JBool (asRecord (js_field raw k) \<noteq> None)))
      in case asNumber (js_field raw ''attemptNumber'') of
           None \<Rightarrow> None
         | Some attemptNumber \<Rightarrow>
             (if attemptNumber < 1 \<or> decisionRaw \<notin> set REPAIR_DECISIONS then None
              else Some (js_object
                [(''attemptNumber'', Some (js_num attemptNumber)), (''repairDecision'', Some (JStr decisionRaw)),
                 (''failureCategory'', Some (or_default (nonempty_field (asString (js_field raw ''failureCategory''))) JNull)),
                 (''hasModelInvocation'', has ''modelInvocationRef''), (''hasRepairInput'', has ''repairInputRef''),
                 (''hasJavaCandidate'', has ''javaCandidateRef''),
                 (''rationale'',
                   if asString (js_field raw ''rationale'') = [] then None
                   else Some (JStr (sanitizeUpstreamMessage (js_field raw ''rationale'') [])))])))"

definition sanitizeRepairAttempts :: "json option \<Rightarrow> json list" where
  "sanitizeRepairAttempts raw = List.map_filter sanitizeRepairAttempt (or_default (js_array raw) [])"

section \<open>Assist decisions\<close>

definition ASSIST_DECISION_OUTCOMES :: "string list" where
  "ASSIST_DECISION_OUTCOMES = [''assist_required'', ''assist_not_required'']"

definition ASSIST_DECISION_REASONS :: "string list" where
  "ASSIST_DECISION_REASONS =
     [''semantic_ir_bounded_ambiguity'', ''translation_unsupported_repairable'', ''baseline_open_assumptions'',
      ''deterministic_candidate_low_confidence'', ''caller_explicit_opt_in'', ''caller_did_not_opt_in'',
      ''assist_budget_exhausted'']"

definition ASSIST_DECISION_AGENT_ROLES :: "string list" where
  "ASSIST_DECISION_AGENT_ROLES = [''transformation_agent'']"

definition sanitizeAssistArtifactRef :: "json \<Rightarrow> json option" where
  "sanitizeAssistArtifactRef entry =
     (let raw = Some entry; field = (\<lambda>k. nonempty_field (asString (js_field raw k)))
      in nonempty_object
           [(''sha256'', field ''sha256''),
            (''byteSize'',
              case asNumber (js_field raw ''byteSize'') of Some q \<Rightarrow> if 0 \<le> q then Some (js_num q) else None | None \<Rightarrow> None),
            (''kind'', field ''kind''), (''path'', field ''path'')])"

definition sanitizeAssistDecision :: "json option \<Rightarrow> json option" where
  "sanitizeAssistDecision value =
     (let field = (\<lambda>k. asString (js_field value k));
          role = (if field ''selectedAgentRole'' \<in> set ASSIST_DECISION_AGENT_ROLES
                  then Some (field ''selectedAgentRole'') else None);
          budget_field = (\<lambda>k. Some (js_or_null budget_json (asRepairBudget (js_field value k))))
      in if field ''outcome'' \<notin> set ASSIST_DECISION_OUTCOMES \<or> field ''reasonCode'' \<notin> set ASSIST_DECISION_REASONS \<or>
            field ''decidedAt'' = [] \<or> (field ''outcome'' = ''assist_required'' \<and> role = None) \<or>
            (field ''outcome'' = ''assist_not_required'' \<and> role \<noteq> None)
         then None
         else Some (js_object
           [(''outcome'', Some (JStr (field ''outcome''))), (''reasonCode'', Some (JStr (field ''reasonCode''))),
            (''decidedAt'', Some (JStr (field ''decidedAt''))), (''selectedAgentRole'', Some (js_or_null JStr role)),
            (''affectedArtifactRefs'',
              Some (JArr (List.map_filter sanitizeAssistArtifactRef
                (or_default (js_array (js_field value ''affectedArtifactRefs'')) [])))),
            (''repairBudgetSnapshot'', budget_field ''repairBudgetSnapshot''),
            (''assistBudgetSnapshot'', budget_field ''assistBudgetSnapshot''),
            (''modelInvocationBudgetSnapshot'', budget_field ''modelInvocationBudgetSnapshot''),
            (''rationale'', Some (or_default (nonempty_field (field ''rationale'')) JNull))]))"

section \<open>The snapshot\<close>

text \<open>A failure carries its code and its message; without one both fields are null.\<close>

record workflow_snapshot =
  wsState :: "string option"
  wsActiveStep :: "string option"
  wsActiveAgent :: "string option"
  wsTrustCase :: "trust_case_snapshot option"
  wsAttemptCount :: rat
  wsRepairBudget :: "budget option"
  wsAssistBudget :: "budget option"
  wsModelBudget :: "budget option"
  wsRepairAttempts :: "json list"
  wsAssistDecision :: "json option"
  wsTrustSummary :: "json option"
  wsFinal :: "final_classification option"
  wsFailure :: "mapped_failure option"
  wsManualEdits :: bool
  wsManualDrift :: rat
  wsGeneratedRef :: "json option"
  wsBuildTestRef :: "json option"
  wsEvidenceRef :: "json option"

definition EMPTY_WORKFLOW_SNAPSHOT :: workflow_snapshot where
  "EMPTY_WORKFLOW_SNAPSHOT =
     \<lparr>wsState = None, wsActiveStep = None, wsActiveAgent = None, wsTrustCase = None, wsAttemptCount = 0,
      wsRepairBudget = None, wsAssistBudget = None, wsModelBudget = None, wsRepairAttempts = [],
      wsAssistDecision = None, wsTrustSummary = None, wsFinal = None, wsFailure = None, wsManualEdits = False,
      wsManualDrift = 0, wsGeneratedRef = None, wsBuildTestRef = None, wsEvidenceRef = None\<rparr>"

definition nonempty_text :: "json option \<Rightarrow> string option" where
  "nonempty_text v = (if asString v = [] then None else Some (asString v))"

definition contract_failure :: "json option \<Rightarrow> mapped_failure option" where
  "contract_failure contract =
     (let message = js_field contract ''failureMessage'';
          final = asFinalClassification (js_field contract ''finalClassification'')
      in case mapFailure (js_field contract ''failureCode'') message None None of
           Some f \<Rightarrow> Some f
         | None \<Rightarrow>
             (if final \<notin> {None, Some FinalSuccess, Some FinalIncomplete}
              then Some \<lparr>mfCode = UiCode InternalError,
                mfMessage = Some (sanitizeUpstreamMessage message (DEFAULT_MESSAGES InternalError))\<rparr>
              else None))"

definition snapshotFromContract :: "json option \<Rightarrow> workflow_snapshot" where
  "snapshotFromContract contract =
     (if contract = None then EMPTY_WORKFLOW_SNAPSHOT
      else
        let activeStep = nonempty_text (js_field contract ''activeStep'');
            drift = region_count (asNumber (js_field contract ''manualDriftRegionCount''));
            carried = (js_field contract ''manualEditsCarriedOver'' = Some (JBool True) \<and> 0 < drift);
            trustCase = (if js_null (js_field contract ''trustCase'') then js_field contract ''resolvedTrustCase''
                         else js_field contract ''trustCase'')
        in \<lparr>wsState = nonempty_text (js_field contract ''currentState''), wsActiveStep = activeStep,
            wsActiveAgent = deriveActiveAgent activeStep, wsTrustCase = trustCaseSnapshot trustCase,
            wsAttemptCount = or_default (asNumber (js_field contract ''agentAttemptCount'')) 0,
            wsRepairBudget = asRepairBudget (js_field contract ''repairBudget''),
            wsAssistBudget = asRepairBudget (js_field contract ''assistBudget''),
            wsModelBudget = asRepairBudget (js_field contract ''modelInvocationBudget''),
            wsRepairAttempts = sanitizeRepairAttempts (js_field contract ''repairAttempts''),
            wsAssistDecision = sanitizeAssistDecision (js_field contract ''assistDecision''),
            wsTrustSummary = extractTrustSummary contract,
            wsFinal = asFinalClassification (js_field contract ''finalClassification''),
            wsFailure = contract_failure contract, wsManualEdits = carried,
            wsManualDrift = (if carried then drift else 0),
            wsGeneratedRef = safeArtifactRef (js_field contract ''generatedJavaRef''),
            wsBuildTestRef = safeArtifactRef (js_field contract ''buildTestResultRef''),
            wsEvidenceRef = safeArtifactRef (js_field contract ''evidencePackRef'')\<rparr>)"

definition trust_case_json :: "trust_case_snapshot \<Rightarrow> json" where
  "trust_case_json t =
     js_object
       [(''trustCaseId'', Some (JStr (tsId t))), (''version'', Some (JStr (tsVersion t))),
        (''catalogVersion'', Some (JStr (tsCatalogVersion t))), (''catalogHash'', Some (JStr (tsCatalogHash t))),
        (''configurationDigest'', Some (JStr (tsConfigurationDigest t))),
        (''sourceReferenceFixtureId'', Some (JStr (tsSourceFixture t))),
        (''sourceReferenceMode'', Some (JStr (tsSourceMode t))),
        (''environmentProfileId'', Some (JStr (tsEnvironmentProfile t))),
        (''comparisonPolicyVersion'', Some (JStr (tsComparisonPolicy t)))]"

datatype view_source = SourceLive | SourceCached | SourceUnavailable

fun source_name :: "view_source \<Rightarrow> string" where
  "source_name SourceLive = ''live''"
| "source_name SourceCached = ''cached''"
| "source_name SourceUnavailable = ''unavailable''"

definition failure_fields :: "mapped_failure option \<Rightarrow> (string \<times> json option) list" where
  "failure_fields failure =
     (case failure of
        None \<Rightarrow> [(''failureCode'', Some JNull), (''failureMessage'', Some JNull)]
      | Some f \<Rightarrow> [(''failureCode'', code_json (mfCode f)), (''failureMessage'', map_option JStr (mfMessage f))])"

definition workflowEnvelope :: "stored_run \<Rightarrow> workflow_snapshot \<Rightarrow> view_source \<Rightarrow> json" where
  "workflowEnvelope stored snapshot source =
     js_object (run_head stored @
       [(''source'', Some (JStr (source_name source))), (''state'', Some (js_or_null JStr (wsState snapshot))),
        (''activeStep'', Some (js_or_null JStr (wsActiveStep snapshot))),
        (''activeAgent'', Some (js_or_null JStr (wsActiveAgent snapshot))),
        (''trustCase'', Some (js_or_null trust_case_json (wsTrustCase snapshot))),
        (''agentAttemptCount'', Some (js_num (wsAttemptCount snapshot))),
        (''repairBudget'', Some (js_or_null budget_json (wsRepairBudget snapshot))),
        (''assistBudget'', Some (js_or_null budget_json (wsAssistBudget snapshot))),
        (''modelInvocationBudget'', Some (js_or_null budget_json (wsModelBudget snapshot))),
        (''repairAttempts'', Some (JArr (wsRepairAttempts snapshot))),
        (''assistDecision'', Some (or_default (wsAssistDecision snapshot) JNull)),
        (''trustSummary'', Some (or_default (wsTrustSummary snapshot) JNull)),
        (''finalClassification'', Some (js_or_null (JStr \<circ> final_name) (wsFinal snapshot)))] @
       failure_fields (wsFailure snapshot) @
       [(''manualEditsCarriedOver'', Some (JBool (wsManualEdits snapshot))),
        (''manualDriftRegionCount'', Some (js_num (wsManualDrift snapshot))),
        (''generatedJavaRef'', Some (or_default (wsGeneratedRef snapshot) JNull)),
        (''buildTestResultRef'', Some (or_default (wsBuildTestRef snapshot) JNull)),
        (''evidencePackRef'', Some (or_default (wsEvidenceRef snapshot) JNull))])"

section \<open>Writing the snapshot back\<close>

definition snapshot_trust_case :: "trust_case_snapshot \<Rightarrow> trust_case_fields \<Rightarrow> trust_case_fields" where
  "snapshot_trust_case t old =
     \<lparr>tcId = Some (tsId t), tcVersion = Some (tsVersion t), tcCatalogVersion = Some (tsCatalogVersion t),
      tcCatalogHash = Some (tsCatalogHash t), tcConfigurationDigest = Some (tsConfigurationDigest t),
      tcEnvironmentProfile = Some (tsEnvironmentProfile t), tcComparisonPolicy = Some (tsComparisonPolicy t),
      tcSourceFixture = Some (tsSourceFixture t),
      tcSourceMode = (if tsSourceMode t \<in> {''reference-fixture'', ''native-cobol''} then Some (tsSourceMode t)
                      else tcSourceMode old)\<rparr>"

text \<open>The patch sets the fields that the snapshot does not have to undefined.\<close>

definition snapshot_patch :: "workflow_snapshot \<Rightarrow> stored_run \<Rightarrow> stored_run" where
  "snapshot_patch snapshot stored =
     stored\<lparr>srActiveStep := wsActiveStep snapshot, srAttemptCount := Some (wsAttemptCount snapshot),
       srRepairBudget := wsRepairBudget snapshot, srAssistBudget := wsAssistBudget snapshot,
       srModelBudget := wsModelBudget snapshot, srFinal := wsFinal snapshot,
       srFailureCode := map_option mfCode (wsFailure snapshot),
       srFailureMessage := Option.bind (wsFailure snapshot) mfMessage,
       srManualEdits := Some (wsManualEdits snapshot), srManualDrift := Some (wsManualDrift snapshot),
       srTrustSummary := or_else (wsTrustSummary snapshot) (srTrustSummary stored),
       srTrustCase := (case wsTrustCase snapshot of None \<Rightarrow> srTrustCase stored
                       | Some t \<Rightarrow> snapshot_trust_case t (srTrustCase stored))\<rparr>"

definition applyWorkflowSnapshotToStore ::
  "string \<Rightarrow> stored_run \<Rightarrow> workflow_snapshot \<Rightarrow> run_table \<Rightarrow> stored_run \<times> run_table" where
  "applyWorkflowSnapshotToStore now stored snapshot runs =
     (let (updated, runs') = updateRun now (srRunId stored) (snapshot_patch snapshot) runs
      in (or_default updated stored, runs'))"

end
