(* ===== verification/Bff_Live_Views.thy ===== *)
theory Bff_Live_Views
  imports Bff_Workflow
begin

text \<open>
  The live views of \<open>server.ts\<close>: what the BFF answers for a run from what the orchestrator answered, on
  every branch (no live run yet, a refusal, a failed request, an answer).  The answer of the
  orchestrator, whose shape is not trusted, is an argument.
\<close>

section \<open>Answers of the upstream services\<close>

text \<open>No response, a response, or a request that threw, with the message of the error if it has one.\<close>

datatype upstream_answer = NoUpstream | Upstream int "json option" | UpstreamThrew "string option"

datatype live_answer = NotAccepted | Refused string "int option" | RequestFailed string | Answered string "json option"

definition live_answer_of :: "bool \<Rightarrow> stored_run \<Rightarrow> upstream_answer \<Rightarrow> live_answer" where
  "live_answer_of enabled stored answer =
     (case liveArtifactRunId stored of
        None \<Rightarrow> NotAccepted
      | Some rid \<Rightarrow>
          (if \<not> enabled then NotAccepted
           else case answer of
             NoUpstream \<Rightarrow> Refused rid None
           | Upstream status body \<Rightarrow> if status < 200 \<or> 300 \<le> status then Refused rid (Some status) else Answered rid body
           | UpstreamThrew message \<Rightarrow>
               RequestFailed (sanitizeUpstreamMessage (Some (JStr (or_default message []))) ''orchestrator request failed'')))"

text \<open>Every case but an answer.\<close>

definition unanswered :: "bool \<Rightarrow> stored_run \<Rightarrow> upstream_answer \<Rightarrow> bool" where
  "unanswered enabled stored answer \<longleftrightarrow>
     (case live_answer_of enabled stored answer of Answered _ _ \<Rightarrow> False | _ \<Rightarrow> True)"

definition no_live_run_note :: string where
  "no_live_run_note = ''Live run id is unavailable; orchestrator has not yet accepted this run.''"

text \<open>The note of the views without an answer.\<close>

fun missing_note :: "string \<Rightarrow> live_answer \<Rightarrow> string" where
  "missing_note refused NotAccepted = no_live_run_note"
| "missing_note refused (Refused _ _) = refused"
| "missing_note refused (RequestFailed note) = note"
| "missing_note refused (Answered _ _) = []"

definition live_head :: "stored_run \<Rightarrow> json option \<Rightarrow> string \<Rightarrow> (string \<times> json option) list" where
  "live_head stored body mode =
     [(''runId'', Some (JStr (srRunId stored))),
      (''programId'', Some (JStr (if srProgramId stored \<noteq> [] then srProgramId stored else asString (js_field body ''programId'')))),
      (''mode'', Some (JStr ''live'')), (''productMode'', Some (JStr mode))]"

definition array_or_empty :: "json option \<Rightarrow> json" where
  "array_or_empty v = JArr (or_default (js_array v) [])"

definition null_or :: "json option \<Rightarrow> json option" where
  "null_or v = Some (or_default v JNull)"

section \<open>Placeholders\<close>

definition PLACEHOLDER_JAVA_MARKERS :: "string list" where
  "PLACEHOLDER_JAVA_MARKERS = [''W0-STUB'', ''Synthetic W0 generated-Java stub'', ''// TODO: implement'', ''PLACEHOLDER'']"

definition findPlaceholderMarker :: "string \<Rightarrow> string option" where
  "findPlaceholderMarker content = find (\<lambda>marker. js_contains marker content) PLACEHOLDER_JAVA_MARKERS"

fun findPlaceholderInFiles :: "(string \<times> string) list \<Rightarrow> (string \<times> string) option" where
  "findPlaceholderInFiles [] = None"
| "findPlaceholderInFiles ((path, content) # files) =
     (case findPlaceholderMarker content of
        Some marker \<Rightarrow> Some (path, marker)
      | None \<Rightarrow> findPlaceholderInFiles files)"

section \<open>Generated Java\<close>

definition string_entries :: "json option \<Rightarrow> (string \<times> string) list" where
  "string_entries raw =
     (case raw of
        Some (JObj fs) \<Rightarrow>
          List.map_filter (\<lambda>(k, v). case v of JStr s \<Rightarrow> if assignable k then Some (k, s) else None | _ \<Rightarrow> None) fs
      | _ \<Rightarrow> [])"

definition generated_tail :: "(string \<times> json option) list" where
  "generated_tail =
     [(''entryClass'', Some (JStr [])), (''entryFilePath'', Some (JStr [])), (''files'', Some (JObj [])),
      (''fileRefs'', Some (JArr [])), (''outputRef'', Some JNull), (''diagnostics'', Some (JArr [])),
      (''unsupportedFeatures'', Some (JArr [])), (''openAssumptions'', Some (JArr []))]"

definition incomplete_fields :: "stored_run \<Rightarrow> string list \<Rightarrow> string \<Rightarrow> (string \<times> json option) list" where
  "incomplete_fields stored missing note =
     run_head stored @
       [(''status'', Some (JStr ''incomplete'')), (''missingArtifacts'', Some (json_texts missing)),
        (''note'', Some (JStr note))]"

definition placeholder_fields :: "(string \<times> string) option \<Rightarrow> (string \<times> json option) list" where
  "placeholder_fields hit =
     (case hit of
        None \<Rightarrow> []
      | Some (path, marker) \<Rightarrow>
          [(''placeholderViolation'', Some (js_object [(''path'', Some (JStr path)), (''marker'', Some (JStr marker))])),
           (''note'', Some (JStr (''Placeholder marker '' @ [CHR 0x22] @ marker @ [CHR 0x22] @ '' detected in '' @ path @
              ''; refusing to serve as product output.'')))])"

text \<open>Java with a placeholder marker is never served as a generated product: the status is taken back.\<close>

definition served_generated_status :: "json option \<Rightarrow> string \<times> (string \<times> string) option" where
  "served_generated_status body =
     (let missing = asStringArray (js_field body ''missingArtifacts'');
          status = classifyGeneratedStatus missing (Some (asString (js_field body ''runStatus'')));
          hit = (if status = ''generated'' then findPlaceholderInFiles (string_entries (js_field body ''files'')) else None)
      in (if hit = None then status else ''incomplete'', hit))"

definition generated_answer :: "(string \<Rightarrow> string option) \<Rightarrow> stored_run \<Rightarrow> string \<Rightarrow> json option \<Rightarrow> json" where
  "generated_answer urlPathname stored rid body =
     (let (status, hit) = served_generated_status body;
          outputRef = null_or (normalizeOutputRef (js_field body ''generationResponseRef''));
          files = string_entries (js_field body ''files'');
          missing = asStringArray (js_field body ''missingArtifacts'')
      in js_object
           (live_head stored body (if status = ''generated'' then ''live'' else ''unavailable'') @
            [(''status'', Some (JStr status)),
             (''entryClass'', Some (JStr (asString (js_field body ''entryClass'')))),
             (''entryFilePath'', Some (JStr (asString (js_field body ''entryFilePath'')))),
             (''files'', Some (JObj [])),
             (''fileCount'', Some (js_num (or_default (asNumber (js_field body ''fileCount'')) (of_nat (length files))))),
             (''fileRefs'', Some (JArr (normalizeGeneratedFileRefs (js_field body ''fileRefs'')))),
             (''unsupportedFeatures'', Some (array_or_empty (js_field body ''unsupportedFeatures''))),
             (''openAssumptions'', Some (array_or_empty (js_field body ''openAssumptions''))),
             (''missingArtifacts'', Some (json_texts (if hit = None then missing else missing @ [''real-generated-java'']))),
             (''orchestratorRunId'', Some (JStr rid)), (''outputRef'', outputRef),
             (''artifactRef'', null_or (normalizeOutputRef (js_field body ''artifactRef''))),
             (''traceability'', normalizeGeneratedTraceability (js_field body ''traceability'')),
             (''generationResponseRef'', outputRef),
             (''diagnostics'', Some (JArr (map diagnostic_json (normalizeDiagnostics urlPathname
                (js_field (js_field body ''generationResponse'') ''diagnostics'') (Some ''generated_java'')))))] @
            placeholder_fields hit))"

definition liveGeneratedView :: "(string \<Rightarrow> string option) \<Rightarrow> bool \<Rightarrow> stored_run \<Rightarrow> upstream_answer \<Rightarrow> json" where
  "liveGeneratedView urlPathname enabled stored answer =
     (case live_answer_of enabled stored answer of
        Answered rid body \<Rightarrow> generated_answer urlPathname stored rid body
      | other \<Rightarrow>
          js_object (incomplete_fields stored [''generation-response'']
            (missing_note ''Orchestrator did not return generated-Java artifacts for this run.'' other) @ generated_tail))"

section \<open>Build and test\<close>

definition BUILD_TEST_TEXT_FIELD_MAX_CHARS :: nat where "BUILD_TEST_TEXT_FIELD_MAX_CHARS = 16384"

definition PARITY_DIFF_SUMMARY_MAX_CHARS :: nat where "PARITY_DIFF_SUMMARY_MAX_CHARS = 4000"

definition PARITY_IDENTIFIER_MAX_CHARS :: nat where "PARITY_IDENTIFIER_MAX_CHARS = 128"

definition boundedStudioText :: "string \<Rightarrow> nat \<Rightarrow> string" where
  "boundedStudioText value' maxChars =
     (if length value' \<le> maxChars then value'
      else take maxChars value' @ [newline] @ ''[truncated for Studio payload boundary]'')"

definition either_text :: "json option \<Rightarrow> json option \<Rightarrow> string \<Rightarrow> string" where
  "either_text a b key = (if asString (js_field a key) \<noteq> [] then asString (js_field a key) else asString (js_field b key))"

definition normalizeParityComparison :: "json option \<Rightarrow> json option" where
  "normalizeParityComparison data =
     (let result = asRecord (js_field data ''comparisonResult''); legacy = asRecord (js_field data ''comparison'');
          field = either_text result legacy;
          ref = (\<lambda>k. or_else (normalizeOutputRef (js_field result k)) (normalizeOutputRef (js_field legacy k)))
      in nonempty_object
           ([(''matched'', map_option JBool
                (or_else (asBoolean (js_field result ''matched'')) (asBoolean (js_field legacy ''matched'')))),
             (''status'', nonempty_field (field ''status'')),
             (''comparisonPolicyVersion'', nonempty_field (take PARITY_IDENTIFIER_MAX_CHARS (field ''comparisonPolicyVersion''))),
             (''mismatchClassification'', nonempty_field (field ''mismatchClassification'')),
             (''diffSummary'', if field ''diffSummary'' = [] then None
                else Some (JStr (boundedStudioText (field ''diffSummary'') PARITY_DIFF_SUMMARY_MAX_CHARS)))] @
            map (\<lambda>k. (k, ref k))
              [''comparisonPolicyRef'', ''comparisonResultRef'', ''diffRef'', ''expectedRef'', ''actualRef'',
               ''sourceOutputRef'', ''javaOutputRef'', ''sourceNormalizedOutputRef'', ''javaNormalizedOutputRef'',
               ''normalizedDiffRef'']))"

definition build_test_tail :: "stored_run \<Rightarrow> (string \<times> json option) list" where
  "build_test_tail stored =
     [(''classification'', Some (JStr ''skipped-no-execution'')), (''compileStatus'', Some (JStr ''unknown'')),
      (''executionStatus'', Some (JStr ''unknown'')),
      (''expectedOutput'', Some (JStr (expectedOutput (srSample stored)))), (''actualOutput'', Some (JStr [])),
      (''outputRef'', Some JNull), (''expectedOutputRef'', Some JNull), (''actualOutputRef'', Some JNull),
      (''diagnostics'', Some (JArr []))]"

definition build_test_answer :: "(string \<Rightarrow> string option) \<Rightarrow> stored_run \<Rightarrow> string \<Rightarrow> json option \<Rightarrow> json" where
  "build_test_answer urlPathname stored rid body =
     (let data = asRecord (js_field body ''data'');
          missing = asStringArray (js_field body ''missingArtifacts'');
          (status, classification) = classifyBuildTestStatus missing (Some (asString (js_field body ''runStatus''))) data;
          comparison = normalizeParityComparison data
      in js_object
           (live_head stored body (if status = ''ok'' then ''live'' else ''unavailable'') @
            [(''status'', Some (JStr status)), (''classification'', Some (JStr classification)),
             (''compileStatus'', Some (JStr (deriveCompileStatus data status))),
             (''executionStatus'', Some (JStr (deriveExecutionStatus data status))),
             (''expectedOutput'', Some (JStr (boundedStudioText
                (deriveExpectedOutput data (expectedOutput (srSample stored))) BUILD_TEST_TEXT_FIELD_MAX_CHARS))),
             (''actualOutput'', Some (JStr (boundedStudioText (deriveActualOutput data) BUILD_TEST_TEXT_FIELD_MAX_CHARS))),
             (''comparison'', null_or comparison),
             (''diffSummary'', Some (JStr (asString (js_field comparison ''diffSummary'')))),
             (''outputRef'', null_or (normalizeOutputRef (js_field data ''outputRef''))),
             (''expectedOutputRef'', null_or (deriveComparisonOutputRef data ExpectedRef)),
             (''actualOutputRef'', null_or (deriveComparisonOutputRef data ActualRef)),
             (''diagnostics'', Some (JArr (map diagnostic_json
                (normalizeDiagnostics urlPathname (js_field data ''diagnostics'') (Some ''build''))))),
             (''missingArtifacts'', Some (json_texts missing)), (''orchestratorRunId'', Some (JStr rid)),
             (''generatedArtifactRef'', null_or (normalizeOutputRef (js_field body ''generatedArtifactRef'')))]))"

definition liveBuildTestView :: "(string \<Rightarrow> string option) \<Rightarrow> bool \<Rightarrow> stored_run \<Rightarrow> upstream_answer \<Rightarrow> json" where
  "liveBuildTestView urlPathname enabled stored answer =
     (case live_answer_of enabled stored answer of
        Answered rid body \<Rightarrow> build_test_answer urlPathname stored rid body
      | other \<Rightarrow>
          js_object (incomplete_fields stored [''build-test-result'']
            (missing_note ''Orchestrator did not return a build/test result for this run.'' other) @ build_test_tail stored))"

section \<open>Evidence\<close>

definition evidence_tail :: "(string \<times> json option) list" where
  "evidence_tail =
     [(''packId'', Some (JStr [])), (''manifestHash'', Some (JStr [])), (''validationStatus'', Some (JStr ''unknown'')),
      (''exportRef'', Some JNull)]"

definition evidence_missing :: "json option \<Rightarrow> string list" where
  "evidence_missing body =
     rev (remdups (rev (asStringArray (js_field body ''missingArtifacts'') @
       deriveMissingFromValidation (asRecord (js_field body ''data'')))))"

definition evidence_status_of :: "json option \<Rightarrow> string" where
  "evidence_status_of body =
     (let validationStatus = deriveValidationStatus (asRecord (js_field body ''data''))
      in if evidence_missing body = [] \<and> validationStatus = ''valid'' then ''complete''
         else if validationStatus = ''invalid'' then ''invalid'' else ''incomplete'')"

definition evidence_answer :: "stored_run \<Rightarrow> string \<Rightarrow> json option \<Rightarrow> json" where
  "evidence_answer stored rid body =
     (let data = asRecord (js_field body ''data''); artifactRef = asRecord (js_field body ''artifactRef'');
          status = evidence_status_of body
      in js_object
           (live_head stored body (if status = ''complete'' then ''live'' else ''unavailable'') @
            [(''status'', Some (JStr status)), (''packId'', Some (JStr (asString (js_field data ''packId'')))),
             (''manifestHash'', Some (JStr (asString (js_field artifactRef ''sha256'')))),
             (''validationStatus'', Some (JStr (deriveValidationStatus data))),
             (''exportRef'', null_or (deriveExportRef data)),
             (''missingArtifacts'', Some (json_texts (evidence_missing body))),
             (''orchestratorRunId'', Some (JStr rid)),
             (''artifactRef'', null_or (normalizeOutputRef artifactRef)),
             (''generatedArtifactRef'', null_or (normalizeOutputRef (js_field body ''generatedArtifactRef''))),
             (''manualEditsCarriedOver'', Some (JBool (js_field data ''manualEditsCarriedOver'' = Some (JBool True)))),
             (''manualDriftRegionCount'', Some (js_num (region_count (asNumber (js_field data ''manualDriftRegionCount''))))),
             (''manualEditOverlay'', null_or (deriveManualEditOverlayRef data))]))"

definition liveEvidenceView :: "bool \<Rightarrow> stored_run \<Rightarrow> upstream_answer \<Rightarrow> json" where
  "liveEvidenceView enabled stored answer =
     (case live_answer_of enabled stored answer of
        Answered rid body \<Rightarrow> evidence_answer stored rid body
      | other \<Rightarrow>
          js_object (incomplete_fields stored [''evidence-pack-manifest'']
            (missing_note ''Orchestrator did not return an evidence pack manifest for this run.'' other) @ evidence_tail))"

end
