(* ===== verification/Bff_Run_Routes.thy ===== *)
theory Bff_Run_Routes
  imports Bff_Live_Views Session_Routes
begin

text \<open>
  The rest of the live views of \<open>server.ts\<close> (progress, learning, experience, events, traceability, the
  workflow refresh) and the GET routes of a run, as functions of the run store and of the answers that
  the orchestrator would give.  A handler takes the decoded run id.
\<close>

section \<open>Progress, learning and events\<close>

definition no_progress :: "stored_run \<Rightarrow> (string \<times> json option) list" where
  "no_progress stored =
     [(''status'', Some (JStr ''incomplete'')), (''runStatus'', Some (JStr (run_status_name (srStatus stored)))),
      (''currentStep'', Some JNull), (''failedStep'', Some JNull), (''completedSteps'', Some (JArr [])),
      (''stepCount'', Some (js_num 0)), (''steps'', Some (JArr [])),
      (''missingArtifacts'', Some (json_texts [''run-progress'']))]"

text \<open>The run id of the orchestrator, when it refused.\<close>

fun refused_run :: "live_answer \<Rightarrow> (string \<times> json option) list" where
  "refused_run (Refused rid _) = [(''orchestratorRunId'', Some (JStr rid))]"
| "refused_run _ = []"

definition live_mode :: "stored_run \<Rightarrow> (string \<times> json option) list" where
  "live_mode stored =
     [(''runId'', Some (JStr (srRunId stored))), (''programId'', Some (JStr (srProgramId stored))),
      (''mode'', Some (JStr ''live'')), (''productMode'', Some (JStr ''live''))]"

definition string_or_null :: "json option \<Rightarrow> json option" where
  "string_or_null v = Some (js_or_null JStr (as_string v))"

definition complete_when :: "string list \<Rightarrow> json option" where
  "complete_when missing = Some (JStr (if missing = [] then ''complete'' else ''incomplete''))"

definition liveProgressView :: "bool \<Rightarrow> stored_run \<Rightarrow> upstream_answer \<Rightarrow> json" where
  "liveProgressView enabled stored answer =
     (case live_answer_of enabled stored answer of
        Answered rid body \<Rightarrow>
          (let steps = List.map_filter normalizePipelineStep (or_default (js_array (js_field body ''steps'')) []);
               missing = asStringArray (js_field body ''missingArtifacts'')
           in js_object (live_mode stored @
                [(''status'', complete_when missing),
                 (''runStatus'', Some (or_default (nonempty_field (asString (js_field body ''runStatus'')))
                    (JStr (run_status_name (srStatus stored))))),
                 (''currentStep'', string_or_null (js_field body ''currentStep'')),
                 (''failedStep'', string_or_null (js_field body ''failedStep'')),
                 (''completedSteps'', Some (json_texts (asStringArray (js_field body ''completedSteps'')))),
                 (''stepCount'', Some (js_num (of_nat (length steps)))), (''steps'', Some (JArr steps)),
                 (''missingArtifacts'', Some (json_texts missing)), (''orchestratorRunId'', Some (JStr rid))]))
      | other \<Rightarrow>
          js_object (run_head stored @ no_progress stored @ refused_run other @
            [(''note'', Some (JStr (missing_note ''Orchestrator did not return a progress timeline for this run.'' other)))]))"

definition no_learning :: "(string \<times> json option) list" where
  "no_learning =
     [(''status'', Some (JStr ''incomplete'')), (''summary'', Some JNull), (''source'', Some (JStr ''unavailable'')),
      (''missingArtifacts'', Some (json_texts [''learning-summary'']))]"

text \<open>The learning service is asked first when it is configured, the orchestrator's copy otherwise.\<close>

definition liveLearningView :: "bool \<Rightarrow> bool \<Rightarrow> stored_run \<Rightarrow> upstream_answer \<Rightarrow> upstream_answer \<Rightarrow> json" where
  "liveLearningView enabled learningEnabled stored learningAnswer answer =
     (let cached =
        (case live_answer_of enabled stored answer of
           Answered rid body \<Rightarrow>
             (let missing = asStringArray (js_field body ''missingArtifacts'')
              in js_object (live_mode stored @
                   [(''status'', complete_when missing),
                    (''summary'', null_or (asRecord (js_field body ''summary''))),
                    (''source'', Some (or_default (nonempty_field (asString (js_field body ''source''))) (JStr ''cached''))),
                    (''missingArtifacts'', Some (json_texts missing)), (''orchestratorRunId'', Some (JStr rid))]))
         | other \<Rightarrow>
             js_object (run_head stored @ no_learning @ refused_run other @
               [(''note'', Some (JStr (missing_note ''Orchestrator did not return a learning summary for this run.'' other)))]))
      in if \<not> learningEnabled then cached
         else case live_answer_of enabled stored learningAnswer of
           Answered rid body \<Rightarrow>
             js_object (live_mode stored @
               [(''status'', Some (JStr ''complete'')), (''summary'', null_or (asRecord body)),
                (''source'', Some (JStr ''live'')), (''missingArtifacts'', Some (JArr [])),
                (''orchestratorRunId'', Some (JStr rid))])
         | _ \<Rightarrow> cached)"

definition learning_signal :: "json \<Rightarrow> json option" where
  "learning_signal entry =
     (let field = (\<lambda>k. asString (js_field (Some entry) k))
      in if field ''key'' = [] \<or> field ''label'' = [] \<or> field ''status'' = [] then None
         else Some (js_object
           [(''key'', Some (JStr (field ''key''))), (''label'', Some (JStr (field ''label''))),
            (''status'', Some (JStr (field ''status''))), (''summary'', Some (JStr (field ''summary''))),
            (''count'', Some (js_num (or_default (asNumber (js_field (Some entry) ''count'')) 0))),
            (''evidenceRefs'', Some (json_texts (asStringArray (js_field (Some entry) ''evidenceRefs''))))]))"

definition normalizeLearningSignals :: "json option \<Rightarrow> json list" where
  "normalizeLearningSignals raw = List.map_filter learning_signal (or_default (js_array raw) [])"

text \<open>
  The output of numbers is a parameter, and so is the separator of the summary, which lies outside the
  characters of the model.
\<close>

fun pattern_count :: "(js_number \<Rightarrow> string) \<Rightarrow> string \<times> json \<Rightarrow> string option" where
  "pattern_count number_text (pattern, JNum n) = Some (pattern @ '': '' @ number_text n)"
| "pattern_count number_text (pattern, _) = None"

definition experience_summary :: "(js_number \<Rightarrow> string) \<Rightarrow> string \<Rightarrow> json option \<Rightarrow> string" where
  "experience_summary number_text separator raw =
     (let candidateCount = or_default (asNumber (js_field raw ''candidateCount'')) 0;
          number = (\<lambda>k before after. case asNumber (js_field raw k) of None \<Rightarrow> []
            | Some q \<Rightarrow> before @ number_text (Finite q) @ after)
      in js_join separator (filter (\<lambda>part. part \<noteq> [])
           [number_text (Finite candidateCount) @ '' learning candidate'' @ (if candidateCount = 1 then [] else ''s'') @
              '' observed'',
            number ''sourceEventCount'' ''from '' '' source events'',
            number ''sourceLedgerCount'' [] '' source ledgers considered'',
            if asBoolean (js_field raw ''observationOnly'') = Some True then ''observation-only mode'' else []]))"

definition normalizeExperienceViewFromSummary ::
  "(js_number \<Rightarrow> string) \<Rightarrow> string \<Rightarrow> stored_run \<Rightarrow> json option \<Rightarrow> json option \<Rightarrow> json" where
  "normalizeExperienceViewFromSummary number_text separator stored learningView raw =
     (let byPattern = (case js_field raw ''candidateByPattern'' of Some (JObj fs) \<Rightarrow> fs | _ \<Rightarrow> [])
      in js_object
           [(''runId'', Some (JStr (srRunId stored))), (''programId'', Some (JStr (srProgramId stored))),
            (''mode'', js_field learningView ''mode''), (''productMode'', js_field learningView ''productMode''),
            (''summary'', Some (JStr (experience_summary number_text separator raw))),
            (''observationPolicy'', Some (JStr (js_join '' / '' (filter (\<lambda>part. part \<noteq> [])
               [asString (js_field raw ''policyVersion''), asString (js_field raw ''policyFingerprint'')])))),
            (''learningSignals'', Some (JArr (normalizeLearningSignals (js_field raw ''signals'')))),
            (''detectedPatterns'', Some (json_texts (asStringArray (js_field raw ''observedPatterns'') @
               List.map_filter (pattern_count number_text) byPattern))),
            (''artifactRefs'', Some (json_texts (asStringArray (js_field raw ''experienceEventIds''))))])"

definition liveExperienceView ::
  "(js_number \<Rightarrow> string) \<Rightarrow> string \<Rightarrow> bool \<Rightarrow> bool \<Rightarrow> stored_run \<Rightarrow> upstream_answer \<Rightarrow> upstream_answer \<Rightarrow> json" where
  "liveExperienceView number_text separator enabled learningEnabled stored learningAnswer answer =
     (let view = Some (liveLearningView enabled learningEnabled stored learningAnswer answer)
      in if js_field view ''status'' \<noteq> Some (JStr ''complete'') then js_object (run_head stored)
         else normalizeExperienceViewFromSummary number_text separator stored view (asRecord (js_field view ''summary'')))"

definition liveEventsView :: "bool \<Rightarrow> stored_run \<Rightarrow> upstream_answer \<Rightarrow> json" where
  "liveEventsView enabled stored answer =
     (case live_answer_of enabled stored answer of
        Answered rid body \<Rightarrow>
          js_object (live_head stored body ''live'' @
            [(''events'', Some (JArr (List.map_filter sanitizeUiRunEvent (or_default (js_array (js_field body ''events'')) [])))),
             (''missingArtifacts'', Some (json_texts (asStringArray (js_field body ''missingArtifacts'')))),
             (''orchestratorRunId'', Some (JStr rid))])
      | other \<Rightarrow>
          js_object (run_head stored @
            [(''events'', Some (JArr [])), (''missingArtifacts'', Some (json_texts [''trajectory-ledger''])),
             (''note'', Some (JStr (missing_note ''Orchestrator did not return a trajectory ledger for this run.'' other)))]))"

section \<open>Traceability\<close>

fun symbol_entry :: "string \<times> json \<Rightarrow> (string \<times> json) option" where
  "symbol_entry (key, entry) =
     (let cobolFile = asString (js_field (Some entry) ''cobolFile'')
      in case asNumber (js_field (Some entry) ''cobolLine'') of
           None \<Rightarrow> None
         | Some cobolLine \<Rightarrow>
             (if cobolFile \<noteq> [] \<and> is_integer cobolLine \<and> assignable key
              then Some (key, js_object [(''cobolFile'', Some (JStr cobolFile)), (''cobolLine'', Some (js_num cobolLine))])
              else None))"

fun traceability_note :: "live_answer \<Rightarrow> string" where
  "traceability_note NotAccepted = ''Live run id is unavailable; traceability cannot be served.''"
| "traceability_note (Refused _ status) =
     ''Traceability upstream returned '' @
     (case status of None \<Rightarrow> ''no response'' | Some n \<Rightarrow> int_string n) @ ''; traceability cannot be served.''"
| "traceability_note _ = ''Traceability upstream request failed; traceability cannot be served.''"

definition traceability_view :: "stored_run \<Rightarrow> json \<Rightarrow> json \<Rightarrow> json \<Rightarrow> (string \<times> json option) list" where
  "traceability_view stored trace symbols regions =
     [(''schemaVersion'', Some (JStr ''v0'')), (''runId'', Some (JStr (srRunId stored))),
      (''programId'', Some (JStr (srProgramId stored))), (''trace'', Some trace), (''irSymbolMap'', Some symbols),
      (''javaRegionClassification'', Some regions)]"

definition liveTraceabilityView :: "bool \<Rightarrow> stored_run \<Rightarrow> upstream_answer \<Rightarrow> json \<times> bool" where
  "liveTraceabilityView enabled stored answer =
     (case live_answer_of enabled stored answer of
        Answered rid body \<Rightarrow>
          (js_object (traceability_view stored (or_default (asRecord (js_field body ''trace'')) JNull)
             (case js_field body ''irSymbolMap'' of Some (JObj fs) \<Rightarrow> JObj (List.map_filter symbol_entry fs) | _ \<Rightarrow> JObj [])
             (normalizeJavaRegionClassification (js_field body ''javaRegionClassification''))), True)
      | other \<Rightarrow>
          (js_object (traceability_view stored JNull (JObj []) JNull @
             [(''note'', Some (JStr (traceability_note other)))]), False))"

section \<open>Refreshing a run\<close>

definition reported_source :: "json option \<Rightarrow> view_source" where
  "reported_source body =
     (if js_field body ''source'' = Some (JStr ''cached'') then SourceCached
      else if js_field body ''source'' = Some (JStr ''live'') then SourceLive
      else if asRecord (js_field body ''contract'') \<noteq> None then SourceLive else SourceUnavailable)"

definition fetchWorkflowSnapshot ::
  "string \<Rightarrow> bool \<Rightarrow> stored_run \<Rightarrow> upstream_answer \<Rightarrow> run_table \<Rightarrow>
   (stored_run \<times> workflow_snapshot \<times> view_source) \<times> run_table" where
  "fetchWorkflowSnapshot now enabled stored answer runs =
     (let kept = EMPTY_WORKFLOW_SNAPSHOT\<lparr>wsTrustSummary := srTrustSummary stored\<rparr>
      in case live_answer_of enabled stored answer of
           NotAccepted \<Rightarrow> ((stored, kept, SourceUnavailable), runs)
         | Refused _ _ \<Rightarrow> ((stored, EMPTY_WORKFLOW_SNAPSHOT, SourceUnavailable), runs)
         | RequestFailed _ \<Rightarrow> ((stored, kept, SourceUnavailable), runs)
         | Answered _ body \<Rightarrow>
             (let snap = snapshotFromContract (asRecord (js_field body ''contract''));
                  snapshot = snap\<lparr>wsTrustSummary := or_else (wsTrustSummary snap) (srTrustSummary stored)\<rparr>;
                  (updated, runs') = applyWorkflowSnapshotToStore now stored snapshot runs
              in ((updated, snapshot, reported_source body), runs')))"

definition is_js_object :: "json option \<Rightarrow> bool" where
  "is_js_object v = (case v of Some (JObj _) \<Rightarrow> True | Some (JArr _) \<Rightarrow> True | _ \<Rightarrow> False)"

definition extractLiveRunId :: "json option \<Rightarrow> string option" where
  "extractLiveRunId body =
     or_else (nonempty_text (js_field body ''runId'')) (nonempty_text (js_field (js_field body ''run'') ''runId''))"

text \<open>The fields that the orchestrator's run sets, over the ones that were stored when the request came in.\<close>

definition payload_patch :: "stored_run \<Rightarrow> json option \<Rightarrow> stored_run \<Rightarrow> stored_run" where
  "payload_patch stored run r =
     r\<lparr>srStatus := coerceLiveStatus (js_field run ''status''),
       srMessage := or_default (as_string (js_field run ''message'')) (srMessage stored),
       srPolicyDecision := or_default (as_string (js_field run ''policyDecision'')) (srPolicyDecision stored),
       srEvidenceRefs := (if js_array (js_field run ''evidenceRefs'') = None then srEvidenceRefs stored
                          else asStringArray (js_field run ''evidenceRefs''))\<rparr>"

definition applyLiveRunPayload :: "string \<Rightarrow> stored_run \<Rightarrow> json option \<Rightarrow> run_table \<Rightarrow> stored_run \<times> run_table" where
  "applyLiveRunPayload now stored payload runs =
     (if \<not> is_js_object payload then (stored, runs)
      else
        let run = (if is_js_object (js_field payload ''run'') then js_field payload ''run'' else payload);
            (updated, runs') = updateRun now (srRunId stored) (payload_patch stored run) runs
        in (or_default updated stored, runs'))"

definition extractCachedTrustSummary :: "json option \<Rightarrow> json option" where
  "extractCachedTrustSummary raw = or_else (extractTrustSummary raw) (extractTrustSummary (js_field raw ''decision''))"

end
