(* ===== verification/Uri_Component.thy ===== *)
theory Uri_Component
  imports Byte_Encoding Bff_Diagnostics
begin

text \<open>
  \<open>encodeURIComponent\<close> and \<open>decodeURIComponent\<close> on the code units below 256, and the paths of generated
  files on their way from the Studio (\<open>apiClient.ts\<close>) to the BFF (\<open>server.ts\<close>).  An escape of a character
  beyond these code units decodes to nothing in the model.
\<close>

section \<open>Percent escapes\<close>

definition uri_unreserved :: "char \<Rightarrow> bool" where
  "uri_unreserved c \<longleftrightarrow> is_alnum c \<or> c \<in> set ''-_.!~*'' \<or> c = CHR 0x27 \<or> c = CHR ''('' \<or> c = CHR '')''"

definition upper_hex :: "nat \<Rightarrow> char" where
  "upper_hex d = (if d < 10 then char_of (48 + d) else char_of (55 + d))"

definition percent :: "byte \<Rightarrow> string" where
  "percent b = [CHR ''%'', upper_hex (unat b div 16), upper_hex (unat b mod 16)]"

definition encode_uri_char :: "char \<Rightarrow> string" where
  "encode_uri_char c = (if uri_unreserved c then [c] else concat (map percent (utf8 [c])))"

definition encodeURIComponent :: "string \<Rightarrow> string" where
  "encodeURIComponent s = concat (map encode_uri_char s)"

definition hex_value :: "char \<Rightarrow> nat option" where
  "hex_value c =
     (if is_digit c then Some (of_char c - 48)
      else if char_between CHR ''A'' CHR ''F'' c then Some (of_char c - 55)
      else if char_between CHR ''a'' CHR ''f'' c then Some (of_char c - 87)
      else None)"

definition percent_byte :: "string \<Rightarrow> (nat \<times> string) option" where
  "percent_byte s =
     (case s of
        c # h # l # rest \<Rightarrow>
          (case (hex_value h, hex_value l) of
             (Some a, Some b) \<Rightarrow> if c = CHR ''%'' then Some (16 * a + b, rest) else None
           | _ \<Rightarrow> None)
      | _ \<Rightarrow> None)"

lemma percent_byte_shorter: "percent_byte s = Some (n, rest) \<Longrightarrow> length rest < length s"
  by (auto simp: percent_byte_def split: list.splits option.splits if_splits)

function (sequential) decodeURIComponent :: "string \<Rightarrow> string option" where
  "decodeURIComponent [] = Some []"
| "decodeURIComponent (c # cs) =
     (if c \<noteq> CHR ''%'' then map_option (Cons c) (decodeURIComponent cs)
      else case percent_byte (c # cs) of
        None \<Rightarrow> None
      | Some (n, rest) \<Rightarrow>
          (if n < 128 then map_option (Cons (char_of n)) (decodeURIComponent rest)
           else if n \<in> {194, 195} then
             (case percent_byte rest of
                None \<Rightarrow> None
              | Some (m, rest') \<Rightarrow>
                  (if m div 64 = 2 then map_option (Cons (char_of ((n - 192) * 64 + (m - 128)))) (decodeURIComponent rest')
                   else None))
           else None))"
  by pat_completeness auto
termination
proof (relation "measure length")
  fix c :: char and cs rest rest' :: string and x y :: "nat \<times> string" and n m :: nat
  show "wf (measure length)" by simp
  show "(cs, c # cs) \<in> measure length" by simp
  assume "percent_byte (c # cs) = Some x" and "(n, rest) = x"
  then have r: "length rest < length (c # cs)" using percent_byte_shorter by metis
  then show "(rest, c # cs) \<in> measure length" by simp
  assume "percent_byte rest = Some y" and "(m, rest') = y"
  then have "length rest' < length rest" using percent_byte_shorter by metis
  with r show "(rest', c # cs) \<in> measure length" by simp
qed

lemma hex_value_upper: "d < 16 \<Longrightarrow> hex_value (upper_hex d) = Some d"
  by (simp add: hex_value_def upper_hex_def is_digit_def char_between_def)

lemma percent_byte_percent [simp]: "percent_byte (percent b @ rest) = Some (unat b, rest)"
proof -
  have "unat b div 16 < 16" using unat_byte_less [of b] by (simp add: less_mult_imp_div_less)
  then show ?thesis by (simp add: percent_byte_def percent_def hex_value_upper)
qed

lemma unreserved_not_percent: "uri_unreserved c \<Longrightarrow> c \<noteq> CHR ''%'' \<and> c \<noteq> CHR ''/''"
  by (auto simp: uri_unreserved_def is_alnum_def is_upper_def is_lower_def is_digit_def char_between_def)

lemma decode_percent:
  "decodeURIComponent (percent b @ rest) =
     (if unat b < 128 then map_option (Cons (char_of (unat b))) (decodeURIComponent rest)
      else if unat b \<in> {194, 195} then
        (case percent_byte rest of None \<Rightarrow> None
         | Some (m, rest') \<Rightarrow>
             (if m div 64 = 2 then map_option (Cons (char_of ((unat b - 192) * 64 + (m - 128)))) (decodeURIComponent rest')
              else None))
      else None)"
proof -
  obtain h l where p: "percent b = [CHR ''%'', h, l]" by (simp add: percent_def)
  have "percent_byte (CHR ''%'' # h # l # rest) = Some (unat b, rest)"
    using percent_byte_percent [of b rest] by (simp add: p)
  then show ?thesis by (simp add: p)
qed

lemma decode_encoded_char:
  "decodeURIComponent (encode_uri_char c @ rest) = map_option (Cons c) (decodeURIComponent rest)"
proof (cases "uri_unreserved c")
  case True
  then show ?thesis by (simp add: encode_uri_char_def unreserved_not_percent)
next
  case False
  define n where "n = (of_char c :: nat)"
  have n: "n < 256" and c: "char_of n = c" by (simp_all add: n_def)
  show ?thesis
  proof (cases "n < 128")
    case True
    then show ?thesis using False c
      by (simp add: encode_uri_char_def decode_percent n_def [symmetric] Let_def)
  next
    case ge: False
    have q: "n div 64 = 2 \<or> n div 64 = 3" and m: "n mod 64 < 64" using n ge by auto
    have parts: "n div 64 = 2 \<Longrightarrow> 128 + n mod 64 = n" "n div 64 = 3 \<Longrightarrow> 192 + n mod 64 = n"
      using div_mult_mod_eq [of n 64] by simp_all
    show ?thesis
      using False ge c q m parts
      by (auto simp: encode_uri_char_def decode_percent n_def [symmetric] Let_def simp del: of_nat_add)
  qed
qed

lemma decode_encode: "decodeURIComponent (encodeURIComponent s) = Some s"
  by (induction s) (simp_all add: encodeURIComponent_def decode_encoded_char)

lemma percent_no_slash: "CHR ''/'' \<notin> set (percent b)"
proof -
  have "CHR ''/'' \<noteq> upper_hex d" if "d < 16" for d
  proof
    assume "CHR ''/'' = upper_hex d"
    with hex_value_upper [OF that] have "hex_value CHR ''/'' = Some d" by simp
    then show False by (simp add: hex_value_def is_digit_def char_between_def)
  qed
  moreover have "unat b div 16 < 16" using unat_byte_less [of b] by (simp add: less_mult_imp_div_less)
  ultimately show ?thesis by (auto simp: percent_def)
qed

lemma encode_no_slash: "CHR ''/'' \<notin> set (encodeURIComponent s)"
  using unreserved_not_percent percent_no_slash
  by (auto simp: encodeURIComponent_def encode_uri_char_def Let_def split: if_splits)

lemma encode_uri_char_nonempty: "encode_uri_char c \<noteq> []"
  by (simp add: encode_uri_char_def percent_def Let_def)

lemma encode_empty_iff: "encodeURIComponent s = [] \<longleftrightarrow> s = []"
  by (cases s) (simp_all add: encodeURIComponent_def encode_uri_char_nonempty)

section \<open>Path codecs\<close>

text \<open>
  What the two sides rely on: decoding inverts encoding, and an encoded segment has no slash and is
  empty only for the empty segment.
\<close>

locale segment_codec =
  fixes encode :: "string \<Rightarrow> string" and decode :: "string \<Rightarrow> string option"
  assumes decode_inverts: "decode (encode s) = Some s"
    and encoded_no_slash: "CHR ''/'' \<notin> set (encode s)"
    and encoded_empty: "encode s = [] \<longleftrightarrow> s = []"

definition encode_path :: "(string \<Rightarrow> string) \<Rightarrow> string \<Rightarrow> string" where
  "encode_path encode path = js_join ''/'' (map encode (js_split CHR ''/'' path))"

definition decode_path :: "(string \<Rightarrow> string option) \<Rightarrow> string \<Rightarrow> string option" where
  "decode_path decode raw =
     map_option (js_join ''/'') (all_some (map decode (filter (\<lambda>segment. segment \<noteq> []) (js_split CHR ''/'' raw))))"

context segment_codec begin

lemma encode_path_split: "js_split CHR ''/'' (encode_path encode path) = map encode (js_split CHR ''/'' path)"
  by (simp add: encode_path_def js_split_join encoded_no_slash)

lemma path_round_trip:
  assumes "[] \<notin> set (js_split CHR ''/'' path)"
  shows "decode_path decode (encode_path encode path) = Some path"
proof -
  have "filter (\<lambda>segment. segment \<noteq> []) (map encode (js_split CHR ''/'' path)) = map encode (js_split CHR ''/'' path)"
    using assms by (auto simp: filter_id_conv encoded_empty)
  then show ?thesis
    using all_some_map [of "js_split CHR ''/'' path" decode encode]
    by (simp add: decode_path_def encode_path_split decode_inverts js_join_split)
qed

end

interpretation uri: segment_codec encodeURIComponent decodeURIComponent
  by unfold_locales (rule decode_encode encode_no_slash encode_empty_iff)+

section \<open>The two sides\<close>

text \<open>The Studio refuses a path that is not relative and normalized.\<close>

definition encodeGeneratedFilePath :: "string \<Rightarrow> string option" where
  "encodeGeneratedFilePath filePath =
     (if filePath = [] \<or> prefix ''/'' filePath \<or> CHR 0x5C \<in> set filePath \<or> \<not> safe_segments filePath then None
      else Some (encode_path encodeURIComponent filePath))"

definition decodeRequestPath :: "string \<Rightarrow> string option" where
  "decodeRequestPath rawPath = decode_path decodeURIComponent rawPath"

lemma encoded_file_path_decodes:
  assumes "encodeGeneratedFilePath filePath = Some raw"
  shows "decodeRequestPath raw = Some filePath"
proof -
  have "[] \<notin> set (js_split CHR ''/'' filePath)" and "raw = encode_path encodeURIComponent filePath"
    using assms by (auto simp: encodeGeneratedFilePath_def safe_segments_def list_all_iff split: if_splits)
  then show ?thesis unfolding decodeRequestPath_def by (simp add: uri.path_round_trip)
qed

end
