(* ===== verification/Bff_Get_Routes.thy ===== *)
theory Bff_Get_Routes
  imports Bff_Run_Routes Uri_Component
begin

text \<open>
  The GET routes of a run in \<open>createApp\<close> (\<open>server.ts\<close>).  A route is a function of the decoded run id, of
  what the orchestrator would answer and of the run store; the ones that write to the store return it.
  The JSON quoting of the run id in the error of an unknown run is a parameter.
\<close>

section \<open>Fixture runs\<close>

definition object_fields :: "(string \<times> json option) list \<Rightarrow> (string \<times> json) list" where
  "object_fields fs = List.map_filter (\<lambda>(k, v). map_option (Pair k) v) fs"

text \<open>An object literal with spreads: a later field replaces the value of an earlier one of its name.\<close>

definition js_spread :: "(string \<times> json) list list \<Rightarrow> json" where
  "js_spread parts = JObj (fold (\<lambda>(k, v) fs. js_set k v fs) (concat parts) [])"

definition fixture_head :: "stored_run \<Rightarrow> (string \<times> json) list" where
  "fixture_head stored =
     [(''runId'', JStr (srRunId stored)), (''programId'', JStr (srProgramId stored)),
      (''mode'', JStr ''diagnostic-fixture''), (''productMode'', JStr ''unavailable'')]"

definition diagnosticFixtureGeneratedView :: "stored_run \<Rightarrow> json" where
  "diagnosticFixtureGeneratedView stored =
     (case srFixture stored of
        None \<Rightarrow> JObj []
      | Some fx \<Rightarrow>
          js_spread [fixture_head stored, fxGenerated fx,
            [(''files'', JObj []), (''fileCount'', js_num (of_nat (length (fxFiles fx)))),
             (''fileRefs'', JArr (map (\<lambda>(path, _). JObj [(''path'', JStr path)]) (fxFiles fx))),
             (''note'', JStr (fxGeneratedNote fx @
                '' Generated source content is intentionally available only through the capped generated-file endpoint in product mode.''))]])"

definition diagnosticFixtureBuildTestView :: "stored_run \<Rightarrow> json" where
  "diagnosticFixtureBuildTestView stored =
     (case srFixture stored of
        None \<Rightarrow> JObj []
      | Some fx \<Rightarrow>
          js_spread [fixture_head stored, [(''expectedOutput'', JStr (expectedOutput (srSample stored)))], fxBuildTest fx])"

definition diagnosticFixtureEvidenceView :: "stored_run \<Rightarrow> json" where
  "diagnosticFixtureEvidenceView stored =
     (case srFixture stored of
        None \<Rightarrow> JObj []
      | Some fx \<Rightarrow> js_spread [fixture_head stored, fxEvidence fx])"

definition fixture_object :: "stored_run \<Rightarrow> (string \<times> json) list \<Rightarrow> json" where
  "fixture_object stored rest = JObj (fixture_head stored @ rest)"

section \<open>Views\<close>

text \<open>The look-up of the run that every route starts with.\<close>

definition unknown_run :: "(string \<Rightarrow> string) \<Rightarrow> string \<Rightarrow> bff_response" where
  "unknown_run quote rid = error_response 404 (''unknown runId '' @ quote rid)"

definition with_run :: "(string \<Rightarrow> string) \<Rightarrow> run_table \<Rightarrow> string \<Rightarrow> (stored_run \<Rightarrow> bff_response) \<Rightarrow> bff_response" where
  "with_run quote runs rid serve =
     (case getRun rid runs of None \<Rightarrow> unknown_run quote rid | Some stored \<Rightarrow> serve stored)"

definition is_fixture :: "stored_run \<Rightarrow> bool" where
  "is_fixture stored \<longleftrightarrow> srMode stored = FixtureRun"

definition view_route :: "(stored_run \<Rightarrow> bool) \<Rightarrow> (stored_run \<Rightarrow> json) \<Rightarrow> (stored_run \<Rightarrow> json) \<Rightarrow> stored_run \<Rightarrow> bff_response" where
  "view_route fixture fixtureView liveView stored =
     jsonResponse 200 (if fixture stored then fixtureView stored else liveView stored)"

definition generated_route ::
  "(string \<Rightarrow> string) \<Rightarrow> (string \<Rightarrow> string option) \<Rightarrow> bool \<Rightarrow> upstream_answer \<Rightarrow> run_table \<Rightarrow> string \<Rightarrow> bff_response" where
  "generated_route quote urlPathname enabled answer runs rid =
     with_run quote runs rid (view_route (\<lambda>stored. is_fixture stored \<and> srFixture stored \<noteq> None)
       diagnosticFixtureGeneratedView (\<lambda>stored. liveGeneratedView urlPathname enabled stored answer))"

definition build_test_route ::
  "(string \<Rightarrow> string) \<Rightarrow> (string \<Rightarrow> string option) \<Rightarrow> bool \<Rightarrow> upstream_answer \<Rightarrow> run_table \<Rightarrow> string \<Rightarrow> bff_response" where
  "build_test_route quote urlPathname enabled answer runs rid =
     with_run quote runs rid (view_route (\<lambda>stored. is_fixture stored \<and> srFixture stored \<noteq> None)
       diagnosticFixtureBuildTestView (\<lambda>stored. liveBuildTestView urlPathname enabled stored answer))"

definition evidence_route :: "(string \<Rightarrow> string) \<Rightarrow> bool \<Rightarrow> upstream_answer \<Rightarrow> run_table \<Rightarrow> string \<Rightarrow> bff_response" where
  "evidence_route quote enabled answer runs rid =
     with_run quote runs rid (view_route (\<lambda>stored. is_fixture stored \<and> srFixture stored \<noteq> None)
       diagnosticFixtureEvidenceView (\<lambda>stored. liveEvidenceView enabled stored answer))"

definition progress_route :: "(string \<Rightarrow> string) \<Rightarrow> bool \<Rightarrow> upstream_answer \<Rightarrow> run_table \<Rightarrow> string \<Rightarrow> bff_response" where
  "progress_route quote enabled answer runs rid =
     with_run quote runs rid (view_route is_fixture
       (\<lambda>stored. JObj (fixture_head stored @ object_fields (no_progress stored) @
          [(''note'', JStr ''Diagnostic-fixture runs do not produce a pipeline progress timeline.'')]))
       (\<lambda>stored. liveProgressView enabled stored answer))"

definition learning_route ::
  "(string \<Rightarrow> string) \<Rightarrow> bool \<Rightarrow> bool \<Rightarrow> upstream_answer \<Rightarrow> upstream_answer \<Rightarrow> run_table \<Rightarrow> string \<Rightarrow> bff_response" where
  "learning_route quote enabled learningEnabled learningAnswer answer runs rid =
     with_run quote runs rid (view_route is_fixture
       (\<lambda>stored. JObj (fixture_head stored @ object_fields no_learning @
          [(''note'', JStr ''Diagnostic-fixture runs are never observed by experience-learning.'')]))
       (\<lambda>stored. liveLearningView enabled learningEnabled stored learningAnswer answer))"

definition experience_route ::
  "(js_number \<Rightarrow> string) \<Rightarrow> string \<Rightarrow> (string \<Rightarrow> string) \<Rightarrow> bool \<Rightarrow> bool \<Rightarrow> upstream_answer \<Rightarrow> upstream_answer \<Rightarrow>
   run_table \<Rightarrow> string \<Rightarrow> bff_response" where
  "experience_route number_text separator quote enabled learningEnabled learningAnswer answer runs rid =
     with_run quote runs rid (view_route is_fixture (\<lambda>stored. JObj (fixture_head stored))
       (\<lambda>stored. liveExperienceView number_text separator enabled learningEnabled stored learningAnswer answer))"

definition events_route :: "(string \<Rightarrow> string) \<Rightarrow> bool \<Rightarrow> upstream_answer \<Rightarrow> run_table \<Rightarrow> string \<Rightarrow> bff_response" where
  "events_route quote enabled answer runs rid =
     with_run quote runs rid (view_route is_fixture (\<lambda>stored. fixture_object stored [(''events'', JArr [])])
       (\<lambda>stored. liveEventsView enabled stored answer))"

text \<open>The region classification that was served is kept in the stored run.\<close>

definition traceability_route ::
  "string \<Rightarrow> (string \<Rightarrow> string) \<Rightarrow> bool \<Rightarrow> upstream_answer \<Rightarrow> run_table \<Rightarrow> string \<Rightarrow> bff_response \<times> run_table" where
  "traceability_route now quote enabled answer runs rid =
     (case getRun rid runs of
        None \<Rightarrow> (unknown_run quote rid, runs)
      | Some stored \<Rightarrow>
          (if is_fixture stored then
             (jsonResponse 200 (js_object (traceability_view stored JNull (JObj []) JNull)), runs)
           else
             let (view, keep) = liveTraceabilityView enabled stored answer;
                 regions = js_field (Some view) ''javaRegionClassification'';
                 kept = (if regions = Some JNull then JNull else normalizeJavaRegionClassification regions)
             in (jsonResponse 200 view,
                 if keep then snd (updateRun now (srRunId stored) (\<lambda>r. r\<lparr>srJavaRegions := Some kept\<rparr>) runs) else runs)))"

section \<open>The run and its workflow\<close>

text \<open>One poll of a run asks for the run and for its workflow; a failed request keeps what is stored.\<close>

definition take_trust_summary :: "string \<Rightarrow> json option \<Rightarrow> stored_run \<times> run_table \<Rightarrow> (stored_run \<times> json option) \<times> run_table" where
  "take_trust_summary now body st =
     (case extractCachedTrustSummary body of
        None \<Rightarrow> ((fst st, None), snd st)
      | Some trust \<Rightarrow>
          (let updated = updateRun now (srRunId (fst st)) (\<lambda>r. r\<lparr>srTrustSummary := Some trust\<rparr>) (snd st)
           in ((or_default (fst updated) (fst st), Some trust), snd updated)))"

definition refresh_run ::
  "string \<Rightarrow> bool \<Rightarrow> upstream_answer \<Rightarrow> upstream_answer \<Rightarrow> stored_run \<Rightarrow> run_table \<Rightarrow> (stored_run \<times> json option) \<times> run_table" where
  "refresh_run now enabled runAnswer workflowAnswer stored runs =
     (if srMode stored \<noteq> LiveRun \<or> \<not> enabled \<or> liveArtifactRunId stored = None then ((stored, None), runs)
      else
        let ((current, trust), runs1) =
              (case live_answer_of enabled stored runAnswer of
                 Answered _ body \<Rightarrow> take_trust_summary now body (applyLiveRunPayload now stored body runs)
               | _ \<Rightarrow> ((stored, None), runs));
            ((refreshed, snapshot, _), runs2) = fetchWorkflowSnapshot now enabled current workflowAnswer runs1
        in ((refreshed, or_else (wsTrustSummary snapshot) (or_else (srTrustSummary refreshed) trust)), runs2))"

definition run_route ::
  "string \<Rightarrow> (string \<Rightarrow> string) \<Rightarrow> bool \<Rightarrow> upstream_answer \<Rightarrow> upstream_answer \<Rightarrow> run_table \<Rightarrow> string \<Rightarrow>
   bff_response \<times> run_table" where
  "run_route now quote enabled runAnswer workflowAnswer runs rid =
     (case getRun rid runs of
        None \<Rightarrow> (unknown_run quote rid, runs)
      | Some stored \<Rightarrow>
          (let ((current, trust), runs') = refresh_run now enabled runAnswer workflowAnswer stored runs
           in (jsonResponse 200 (runSummary current trust), runs')))"

definition workflow_route ::
  "string \<Rightarrow> (string \<Rightarrow> string) \<Rightarrow> bool \<Rightarrow> upstream_answer \<Rightarrow> run_table \<Rightarrow> string \<Rightarrow> bff_response \<times> run_table" where
  "workflow_route now quote enabled answer runs rid =
     (case getRun rid runs of
        None \<Rightarrow> (unknown_run quote rid, runs)
      | Some stored \<Rightarrow>
          (if is_fixture stored
           then (jsonResponse 200 (workflowEnvelope stored EMPTY_WORKFLOW_SNAPSHOT SourceUnavailable), runs)
           else
             let ((refreshed, snapshot, source), runs') = fetchWorkflowSnapshot now enabled stored answer runs;
                 trust = or_else (wsTrustSummary snapshot) (or_else (srTrustSummary refreshed) (srTrustSummary stored))
             in (jsonResponse 200 (workflowEnvelope refreshed (snapshot\<lparr>wsTrustSummary := trust\<rparr>) source), runs')))"

section \<open>File indexes\<close>

definition upstream_error :: "string \<Rightarrow> bff_response" where
  "upstream_error note = error_response 502 note"

definition files_index_route :: "(string \<Rightarrow> string) \<Rightarrow> bool \<Rightarrow> upstream_answer \<Rightarrow> run_table \<Rightarrow> string \<Rightarrow> bff_response" where
  "files_index_route quote enabled answer runs rid = with_run quote runs rid (\<lambda>stored.
     let missing = (\<lambda>mode rest note. jsonResponse 200 (js_object
           ([(''runId'', Some (JStr (srRunId stored))), (''programId'', Some (JStr (srProgramId stored))),
             (''mode'', Some (JStr mode)), (''productMode'', Some (JStr ''unavailable'')),
             (''status'', Some (JStr ''incomplete'')), (''missingArtifacts'', Some (json_texts [''generated-project''])),
             (''files'', Some (JArr []))] @ rest @ [(''note'', Some (JStr note))])))
     in if is_fixture stored
        then missing ''diagnostic-fixture'' [] ''Diagnostic-fixture runs do not expose a generated Java project.''
        else case live_answer_of enabled stored answer of
          NotAccepted \<Rightarrow> missing ''live'' [] no_live_run_note
        | Refused live status \<Rightarrow>
            missing ''live'' [(''orchestratorRunId'', Some (JStr live))]
              ''Orchestrator did not return a generated-Java file index for this run.''
        | RequestFailed note \<Rightarrow> upstream_error note
        | Answered live body \<Rightarrow>
            (let refs = normalizeGeneratedFileRefs (js_field body ''files'')
             in jsonResponse 200 (js_object (live_head stored body ''live'' @
                  [(''status'', Some (or_default (nonempty_field (asString (js_field body ''status''))) (JStr ''incomplete''))),
                   (''missingArtifacts'', Some (json_texts (asStringArray (js_field body ''missingArtifacts'')))),
                   (''files'', Some (JArr refs)),
                   (''fileCount'', Some (js_num (or_default (asNumber (js_field body ''fileCount'')) (of_nat (length refs))))),
                   (''entryFilePath'', Some (JStr (asString (js_field body ''entryFilePath'')))),
                   (''artifactRef'', null_or (normalizeOutputRef (js_field body ''artifactRef''))),
                   (''orchestratorRunId'', Some (JStr live))]))))"

definition artifacts_route :: "(string \<Rightarrow> string) \<Rightarrow> bool \<Rightarrow> upstream_answer \<Rightarrow> run_table \<Rightarrow> string \<Rightarrow> bff_response" where
  "artifacts_route quote enabled answer runs rid = with_run quote runs rid (\<lambda>stored.
     let head = [(''runId'', Some (JStr (srRunId stored))), (''programId'', Some (JStr (srProgramId stored)))];
         missing = (\<lambda>rest note. jsonResponse 200 (js_object (head @
           [(''mode'', Some (JStr ''live'')), (''productMode'', Some (JStr ''unavailable'')), (''artifacts'', Some (JArr [])),
            (''missingArtifacts'', Some (json_texts [''artifacts-index'']))] @ rest @ [(''note'', Some (JStr note))])))
     in if is_fixture stored then
          jsonResponse 200 (fixture_object stored
            [(''artifacts'', JArr []),
             (''note'', JStr ''Diagnostic-fixture runs do not persist on-disk artifacts; not a product result.'')])
        else case live_answer_of enabled stored answer of
          NotAccepted \<Rightarrow> missing [] no_live_run_note
        | Refused live status \<Rightarrow>
            missing [(''orchestratorRunId'', Some (JStr live))]
              ''Orchestrator did not return an artifacts index for this run.''
        | RequestFailed note \<Rightarrow> upstream_error note
        | Answered live body \<Rightarrow>
            jsonResponse 200 (js_object (live_head stored body ''live'' @
              [(''orchestratorRunId'', Some (JStr live)),
               (''artifacts'', Some (JArr (List.map_filter normalizeRunArtifact (or_default (js_array (js_field body ''artifacts'')) [])))),
               (''summary'', null_or (js_field body ''summary'')), (''createdAt'', null_or (js_field body ''createdAt'')),
               (''updatedAt'', null_or (js_field body ''updatedAt''))])))"

end
