(* ===== verification/Bff_File_Routes.thy ===== *)
theory Bff_File_Routes
  imports Bff_Get_Routes
begin

text \<open>
  The two routes of \<open>createApp\<close> that serve the content of one file of a run (a generated file, an
  artifact).  Their bodies differ in the noun of the error messages.  A route first decides what to
  ask the orchestrator for, then what to make of the answer.
\<close>

section \<open>The request\<close>

text \<open>
  The client throws \<open>UpstreamResponseTooLargeError\<close> when the declared length is over the limit, and marks
  an answer as truncated when it stopped reading.
\<close>

datatype file_answer =
  NoFileAnswer
| FileAnswer (fileTruncated: bool) (fileStatus: int) (fileBody: "json option")
| FileTooLarge nat "rat option"
| FileThrew "string option"

datatype file_kind = GeneratedFile | ArtifactFile

fun file_noun :: "file_kind \<Rightarrow> string" where
  "file_noun GeneratedFile = ''generated file''"
| "file_noun ArtifactFile = ''artifact''"

record file_request =
  frRun :: stored_run
  frLiveRunId :: string
  frPath :: string

definition file_request_for ::
  "(string \<Rightarrow> string) \<Rightarrow> file_kind \<Rightarrow> bool \<Rightarrow> run_table \<Rightarrow> string \<Rightarrow> string \<Rightarrow> bff_response + file_request" where
  "file_request_for quote kind enabled runs rawRunId rawPath =
     (let noun = file_noun kind in
      case decodeURIComponent rawRunId of
        None \<Rightarrow> Inl (error_response 400 ''invalid run id'')
      | Some rid \<Rightarrow>
          (if rid = [] then Inl (error_response 400 ''invalid run id'')
           else case decodeRequestPath rawPath of
             None \<Rightarrow> Inl (error_response 400 (''invalid '' @ noun @ '' path''))
           | Some path \<Rightarrow>
               (if path = [] \<or> \<not> isSafeGeneratedRelpath path
                then Inl (error_response 400 (''invalid '' @ noun @ '' path''))
                else case getRun rid runs of
                  None \<Rightarrow> Inl (unknown_run quote rid)
                | Some stored \<Rightarrow>
                    (if is_fixture stored
                     then Inl (error_response 404 (noun @ '' unavailable for diagnostic-fixture runs''))
                     else case liveArtifactRunId stored of
                       Some live \<Rightarrow>
                         (if enabled then Inr \<lparr>frRun = stored, frLiveRunId = live, frPath = path\<rparr>
                          else Inl (error_response 503 (''orchestrator unavailable; '' @ noun @ '' cannot be served'')))
                     | None \<Rightarrow> Inl (error_response 503 (''orchestrator unavailable; '' @ noun @ '' cannot be served''))))))"

section \<open>The answer\<close>

definition too_large :: "string \<Rightarrow> rat option \<Rightarrow> nat \<Rightarrow> bff_response" where
  "too_large path byteSize limit =
     jsonResponse 413 (js_object
       [(''error'', Some (JStr ''artifact_too_large'')), (''path'', Some (JStr path)),
        (''byteSize'', map_option js_num byteSize), (''limit'', Some (js_num (of_nat limit)))])"

definition path_error :: "nat \<Rightarrow> string \<Rightarrow> string \<Rightarrow> bff_response" where
  "path_error status msg path = jsonResponse status (js_object [(''error'', Some (JStr msg)), (''path'', Some (JStr path))])"

text \<open>The size is the greater one of the declared and of the measured size.\<close>

definition served_byte_size :: "json option \<Rightarrow> rat" where
  "served_byte_size body =
     (let measured = of_nat (length (utf8 (asString (js_field body ''content''))))
      in case asNumber (js_field body ''byteSize'') of None \<Rightarrow> measured | Some declared \<Rightarrow> max declared measured)"

definition file_content :: "nat \<Rightarrow> file_request \<Rightarrow> json option \<Rightarrow> bff_response" where
  "file_content maxBytes req body =
     (let byteSize = served_byte_size body; stored = frRun req
      in if of_nat maxBytes < byteSize then too_large (frPath req) (Some byteSize) maxBytes
         else jsonResponse 200 (js_object
           (live_mode stored @
            [(''path'', Some (or_default (nonempty_field (asString (js_field body ''path''))) (JStr (frPath req)))),
             (''content'', Some (JStr (asString (js_field body ''content'')))),
             (''sha256'', Some (JStr (asString (js_field body ''sha256'')))), (''byteSize'', Some (js_num byteSize)),
             (''mimeType'', Some (JStr (asString (js_field body ''mimeType'')))),
             (''kind'', Some (JStr (asString (js_field body ''kind'')))),
             (''orchestratorRunId'', Some (JStr (frLiveRunId req)))])))"

definition file_response :: "file_kind \<Rightarrow> nat \<Rightarrow> file_request \<Rightarrow> file_answer \<Rightarrow> bff_response" where
  "file_response kind maxBytes req answer =
     (case answer of
        NoFileAnswer \<Rightarrow> error_response 502 ''orchestrator request failed''
      | FileAnswer truncated status body \<Rightarrow>
          (if truncated then too_large (frPath req) None maxBytes
           else if status = 404 then path_error 404 (file_noun kind @ '' not found'') (frPath req)
           else if status = 400 then path_error 400 (''invalid '' @ file_noun kind @ '' path'') (frPath req)
           else if status < 200 \<or> 300 \<le> status
           then error_response 502 (''orchestrator returned status '' @ int_string status)
           else file_content maxBytes req body)
      | FileTooLarge limit declared \<Rightarrow> too_large (frPath req) declared limit
      | FileThrew message \<Rightarrow>
          upstream_error (sanitizeUpstreamMessage (Some (JStr (or_default message []))) ''orchestrator request failed''))"

text \<open>The orchestrator is a function from the run and the path that it is asked for.\<close>

definition file_route ::
  "(string \<Rightarrow> string) \<Rightarrow> file_kind \<Rightarrow> nat \<Rightarrow> bool \<Rightarrow> (string \<Rightarrow> string \<Rightarrow> file_answer) \<Rightarrow> run_table \<Rightarrow> string \<Rightarrow> string \<Rightarrow>
   bff_response" where
  "file_route quote kind maxBytes enabled orchestrator runs rawRunId rawPath =
     (case file_request_for quote kind enabled runs rawRunId rawPath of
        Inl response \<Rightarrow> response
      | Inr req \<Rightarrow> file_response kind maxBytes req (orchestrator (frLiveRunId req) (frPath req)))"

section \<open>Facts\<close>

lemma file_request_Inr:
  "file_request_for quote kind enabled runs rawRunId rawPath = Inr req \<longleftrightarrow>
   (\<exists>rid. decodeURIComponent rawRunId = Some rid \<and> rid \<noteq> [] \<and> getRun rid runs = Some (frRun req)) \<and>
   decodeRequestPath rawPath = Some (frPath req) \<and> frPath req \<noteq> [] \<and> isSafeGeneratedRelpath (frPath req) \<and>
   \<not> is_fixture (frRun req) \<and> liveArtifactRunId (frRun req) = Some (frLiveRunId req) \<and> enabled"
  by (cases req) (auto simp: file_request_for_def Let_def split: option.splits if_splits)

lemma js_strip_segments: "safe_segments path \<Longrightarrow> path \<noteq> [] \<Longrightarrow> hd path \<noteq> CHR ''/''"
  by (cases path) (auto simp: safe_segments_def)

text \<open>A path that the Studio encodes is one that the BFF takes.\<close>

lemma encoded_path_is_safe:
  assumes "encodeGeneratedFilePath filePath = Some raw" and "CHR 0x00 \<notin> set filePath"
  shows "isSafeGeneratedRelpath filePath"
proof -
  have p: "filePath \<noteq> []" "CHR 0x5C \<notin> set filePath" "safe_segments filePath"
    using assms(1) by (auto simp: encodeGeneratedFilePath_def split: if_splits)
  have "js_replace_char CHR 0x5C CHR ''/'' filePath = filePath"
    unfolding js_replace_char_def by (rule map_idI) (use p(2) in auto)
  moreover have "dropWhile (\<lambda>c. c = CHR ''/'') filePath = filePath"
    using js_strip_segments [OF p(3,1)] by (cases filePath) auto
  ultimately show ?thesis using p assms(2) by (simp add: isSafeGeneratedRelpath_def)
qed

text \<open>No response carries more of a file than the limit allows.\<close>

lemma file_content_capped:
  assumes "rsStatus (file_content maxBytes req body) = 200"
  shows "length (utf8 (asString (js_field (rsBody (file_content maxBytes req body)) ''content''))) \<le> maxBytes"
proof -
  have size: "served_byte_size body \<le> of_nat maxBytes"
    using assms by (auto simp: file_content_def Let_def too_large_def jsonResponse_def not_less split: if_splits)
  have "of_nat (length (utf8 (asString (js_field body ''content'')))) \<le> served_byte_size body"
    by (simp add: served_byte_size_def Let_def split: option.split)
  from order_trans [OF this size] have "length (utf8 (asString (js_field body ''content''))) \<le> maxBytes" by simp
  moreover have "js_field (rsBody (file_content maxBytes req body)) ''content'' =
      Some (JStr (asString (js_field body ''content'')))"
    using size by (simp add: file_content_def Let_def jsonResponse_def live_mode_def js_object_first not_less [symmetric])
  ultimately show ?thesis by simp
qed

lemma file_response_capped:
  assumes "rsStatus (file_response kind maxBytes req answer) = 200"
  shows "length (utf8 (asString (js_field (rsBody (file_response kind maxBytes req answer)) ''content''))) \<le> maxBytes"
  using assms file_content_capped
  by (cases answer)
    (auto simp: file_response_def error_response_def path_error_def too_large_def upstream_error_def jsonResponse_def
      split: if_splits)

end
