(* ===== verification/Studio_Guards.thy ===== *)
theory Studio_Guards
  imports Json_Access
begin

text \<open>
  The guards of the Studio's API client (\<open>apiClient.ts\<close>): a payload of the BFF is taken only when its
  fields have the types that the Studio's views assume.  A guard that is a conjunction over fields is a
  table of fields and tests; an absent field is \<open>None\<close>.  The names that the BFF's modules use for other
  functions carry the prefix \<open>studio\<close>.
\<close>

named_theorems guards

section \<open>Values\<close>

definition isRecord :: "json option \<Rightarrow> bool" where
  "isRecord v \<longleftrightarrow> (case v of Some (JObj _) \<Rightarrow> True | _ \<Rightarrow> False)"

definition isString :: "json option \<Rightarrow> bool" where
  "isString v \<longleftrightarrow> (case v of Some (JStr _) \<Rightarrow> True | _ \<Rightarrow> False)"

definition isBoolean :: "json option \<Rightarrow> bool" where
  "isBoolean v \<longleftrightarrow> (case v of Some (JBool _) \<Rightarrow> True | _ \<Rightarrow> False)"

definition isNumber :: "json option \<Rightarrow> bool" where
  "isNumber v \<longleftrightarrow> (case v of Some (JNum _) \<Rightarrow> True | _ \<Rightarrow> False)"

definition isArray :: "json option \<Rightarrow> bool" where
  "isArray v \<longleftrightarrow> (case v of Some (JArr _) \<Rightarrow> True | _ \<Rightarrow> False)"

definition every_item :: "(json option \<Rightarrow> bool) \<Rightarrow> json option \<Rightarrow> bool" where
  "every_item P v \<longleftrightarrow> (case v of Some (JArr js) \<Rightarrow> list_all (\<lambda>j. P (Some j)) js | _ \<Rightarrow> False)"

definition isStringArray :: "json option \<Rightarrow> bool" where
  "isStringArray v \<longleftrightarrow> every_item isString v"

definition isNonNegativeInteger :: "json option \<Rightarrow> bool" where
  "isNonNegativeInteger v \<longleftrightarrow> (case asNumber v of Some q \<Rightarrow> is_integer q \<and> 0 \<le> q | None \<Rightarrow> False)"

definition isPositiveInteger :: "json option \<Rightarrow> bool" where
  "isPositiveInteger v \<longleftrightarrow> isNonNegativeInteger v \<and> (case asNumber v of Some q \<Rightarrow> 0 < q | None \<Rightarrow> False)"

definition one_of :: "string list \<Rightarrow> json option \<Rightarrow> bool" where
  "one_of names v \<longleftrightarrow> (case v of Some (JStr s) \<Rightarrow> s \<in> set names | _ \<Rightarrow> False)"

definition optional :: "(json option \<Rightarrow> bool) \<Rightarrow> json option \<Rightarrow> bool" where
  "optional P v \<longleftrightarrow> v = None \<or> P v"

definition nullable :: "(json option \<Rightarrow> bool) \<Rightarrow> json option \<Rightarrow> bool" where
  "nullable P v \<longleftrightarrow> v = Some JNull \<or> P v"

definition optional_or_null :: "(json option \<Rightarrow> bool) \<Rightarrow> json option \<Rightarrow> bool" where
  "optional_or_null P v \<longleftrightarrow> js_null v \<or> P v"

definition has_fields :: "(string \<times> (json option \<Rightarrow> bool)) list \<Rightarrow> json option \<Rightarrow> bool" where
  "has_fields table v \<longleftrightarrow> isRecord v \<and> list_all (\<lambda>(key, P). P (js_field v key)) table"

section \<open>Shared shapes\<close>

definition trust_case_identity :: "(string \<times> (json option \<Rightarrow> bool)) list" where
  "trust_case_identity =
     map (\<lambda>k. (k, optional isString))
       [''trustCaseId'', ''trustCaseVersion'', ''trustCaseCatalogVersion'', ''trustCaseCatalogHash'',
        ''trustCaseConfigurationDigest'', ''trustCaseEnvironmentProfileId'', ''trustCaseComparisonPolicyVersion'',
        ''sourceReferenceFixtureId'', ''sourceReferenceMode'']"

definition isTrustCaseWorkflowSnapshotPayload :: "json option \<Rightarrow> bool" where
  "isTrustCaseWorkflowSnapshotPayload =
     has_fields (map (\<lambda>k. (k, isString))
       [''trustCaseId'', ''version'', ''catalogVersion'', ''catalogHash'', ''configurationDigest'',
        ''sourceReferenceFixtureId'', ''sourceReferenceMode'', ''environmentProfileId'', ''comparisonPolicyVersion''])"

definition isTrustCaseSummary :: "json option \<Rightarrow> bool" where
  "isTrustCaseSummary =
     has_fields (map (\<lambda>k. (k, isString))
       [''trustCaseId'', ''version'', ''catalogVersion'', ''catalogHash'', ''configurationDigest'', ''programId'',
        ''title'', ''description'', ''sourceReferenceFixtureId'', ''sourceReferenceMode'', ''environmentProfileId'',
        ''comparisonStrategy'', ''comparisonPolicyVersion''] @
       [(''defaultForProgram'', isBoolean), (''supportedSubset'', isStringArray)])"

definition isRunStatus :: "json option \<Rightarrow> bool" where
  "isRunStatus = one_of [''starting'', ''updating'', ''completed'', ''failed'']"

definition isRunMode :: "json option \<Rightarrow> bool" where
  "isRunMode = one_of [''live'', ''diagnostic-fixture'']"

definition isRunProductMode :: "json option \<Rightarrow> bool" where
  "isRunProductMode = one_of [''live'', ''unavailable'']"

text \<open>The four fields that every view starts with.\<close>

definition run_fields :: "(string \<times> (json option \<Rightarrow> bool)) list" where
  "run_fields = [(''runId'', isString), (''programId'', isString), (''mode'', isRunMode), (''productMode'', isRunProductMode)]"

definition isRunLinks :: "json option \<Rightarrow> bool" where
  "isRunLinks =
     has_fields (map (\<lambda>k. (k, isString))
       [''self'', ''generated'', ''generatedFiles'', ''buildTest'', ''evidence'', ''events'', ''artifacts''] @
       map (\<lambda>k. (k, optional isString)) [''progress'', ''learning'', ''experience'', ''workflow''])"

definition isRunArtifactMetadata :: "json option \<Rightarrow> bool" where
  "isRunArtifactMetadata =
     has_fields ((''byteSize'', isNonNegativeInteger) #
       map (\<lambda>k. (k, isString)) [''sha256'', ''mimeType'', ''kind'', ''createdBy'', ''createdAt'', ''path'', ''name''])"

definition isOutputRef :: "json option \<Rightarrow> bool" where
  "isOutputRef =
     has_fields ([(''sha256'', isString), (''byteSize'', optional isNonNegativeInteger)] @
       map (\<lambda>k. (k, optional isString)) [''kind'', ''path'', ''name'', ''mimeType'', ''createdBy'', ''createdAt''])"

definition isGeneratedFileRef :: "json option \<Rightarrow> bool" where
  "isGeneratedFileRef =
     has_fields [(''path'', isString), (''sha256'', optional isString), (''byteSize'', optional isNonNegativeInteger),
       (''mimeType'', optional isString), (''kind'', optional isString), (''name'', optional isString)]"

section \<open>Diagnostics and regions\<close>

definition DIAGNOSTIC_SEVERITIES :: "string list" where
  "DIAGNOSTIC_SEVERITIES = [''error'', ''warning'', ''info'', ''hint'']"

definition DIAGNOSTIC_SOURCE_KINDS :: "string list" where
  "DIAGNOSTIC_SOURCE_KINDS = [''cobol'', ''ir'', ''generated_java'', ''build'', ''test'']"

definition isDiagnostic :: "json option \<Rightarrow> bool" where
  "isDiagnostic =
     has_fields ([(''schemaVersion'', optional isString), (''severity'', one_of DIAGNOSTIC_SEVERITIES),
        (''code'', isString), (''message'', isString)] @
       map (\<lambda>k. (k, optional_or_null isPositiveInteger)) [''line'', ''column'', ''endLine'', ''endColumn''] @
       [(''filePath'', optional_or_null isString), (''sourceKind'', optional_or_null (one_of DIAGNOSTIC_SOURCE_KINDS)),
        (''originStep'', optional_or_null isString), (''artifactRef'', optional_or_null isOutputRef)])"

definition kept_if :: "(json option \<Rightarrow> bool) \<Rightarrow> json option \<Rightarrow> json option" where
  "kept_if P v = (if P v then v else None)"

definition studioNormalizeDiagnostic :: "json option \<Rightarrow> json" where
  "studioNormalizeDiagnostic payload =
     js_object
       (map (\<lambda>k. (k, js_field payload k)) [''severity'', ''code'', ''message''] @
        [(''schemaVersion'', kept_if isString (js_field payload ''schemaVersion''))] @
        map (\<lambda>k. (k, kept_if isNumber (js_field payload k))) [''line'', ''column'', ''endLine'', ''endColumn''] @
        map (\<lambda>k. (k, kept_if isString (js_field payload k))) [''filePath'', ''sourceKind'', ''originStep''] @
        [(''artifactRef'', kept_if (nullable isOutputRef) (js_field payload ''artifactRef''))])"

definition studioNormalizeDiagnostics :: "json option \<Rightarrow> json option" where
  "studioNormalizeDiagnostics raw =
     (case raw of
        Some (JArr js) \<Rightarrow>
          if list_all (\<lambda>j. isDiagnostic (Some j)) js
          then Some (JArr (map (\<lambda>j. studioNormalizeDiagnostic (Some j)) js)) else None
      | _ \<Rightarrow> None)"

definition nonempty_string :: "json option \<Rightarrow> bool" where
  "nonempty_string v \<longleftrightarrow> isString v \<and> asString v \<noteq> []"

definition isGeneratedTraceabilityPayload :: "json option \<Rightarrow> bool" where
  "isGeneratedTraceabilityPayload =
     has_fields ((''schemaVersion'', optional isString) #
       map (\<lambda>k. (k, nonempty_string)) [''programId'', ''irId'', ''sourceHash''])"

definition is_line_range :: "json option \<Rightarrow> bool" where
  "is_line_range v \<longleftrightarrow>
     has_fields [(''startLine'', isPositiveInteger), (''endLine'', isPositiveInteger)] v \<and>
     (case (asNumber (js_field v ''startLine''), asNumber (js_field v ''endLine'')) of
        (Some a, Some b) \<Rightarrow> a \<le> b | _ \<Rightarrow> False)"

definition isJavaRegionClassification :: "json option \<Rightarrow> bool" where
  "isJavaRegionClassification =
     has_fields [(''schemaVersion'', isString), (''lineRange'', is_line_range),
       (''originClass'', one_of [''deterministic'', ''agent_proposed'', ''repair_attempted'', ''manual_modified'', ''manual_edit'']),
       (''verificationOutcome'', one_of [''oracle_passed'', ''oracle_failed'', ''no_oracle'']),
       (''mappingClass'', one_of [''direct'', ''aggregated'', ''synthesized'', ''agent_originated''])]"

fun region_entry :: "string \<times> json \<Rightarrow> (string \<times> json) option" where
  "region_entry (file, JArr js) =
     (let valid = filter (\<lambda>j. isJavaRegionClassification (Some j)) js
      in if file \<in> {[], ''__proto__'', ''constructor'', ''prototype''} \<or> valid = [] then None
         else Some (file, JArr valid))"
| "region_entry _ = None"

definition normalizeJavaRegionClassificationMap :: "json option \<Rightarrow> json option" where
  "normalizeJavaRegionClassificationMap payload =
     (case payload of
        Some JNull \<Rightarrow> Some JNull
      | Some (JObj fs) \<Rightarrow> Some (JObj (List.map_filter region_entry fs))
      | _ \<Rightarrow> None)"

section \<open>The views of a run\<close>

definition build_statuses :: "string list" where
  "build_statuses =
     [''ok'', ''compile-failed'', ''run-failed'', ''output-divergence'', ''golden-master-reproduction-failed'',
      ''missing-golden-master'', ''skipped'', ''incomplete'']"

definition build_classes :: "string list" where
  "build_classes =
     [''match'', ''divergence-known-w0-coverage-gap'', ''divergence-unknown'', ''true-golden-master-reproduction-error'',
      ''true-golden-master-mismatch'', ''compile-error'', ''run-error'', ''skipped-no-execution'']"

definition isRunEvent :: "json option \<Rightarrow> bool" where
  "isRunEvent = has_fields (map (\<lambda>k. (k, optional isString)) [''type'', ''status'', ''message'', ''createdAt''])"

definition isRunProgressStepPayload :: "json option \<Rightarrow> bool" where
  "isRunProgressStepPayload =
     has_fields [(''stepId'', isNonNegativeInteger), (''name'', isString), (''capabilityId'', isString),
       (''service'', isString), (''actor'', isString),
       (''status'', one_of [''pending'', ''running'', ''ok'', ''failed'', ''skipped'']),
       (''startedAt'', optional isString), (''finishedAt'', optional isString), (''diagnostic'', optional isString),
       (''inputRef'', optional_or_null isOutputRef), (''outputRef'', optional_or_null isOutputRef),
       (''latencyMs'', optional isNonNegativeInteger)]"

definition valid_diagnostics :: "json option \<Rightarrow> bool" where
  "valid_diagnostics v \<longleftrightarrow> studioNormalizeDiagnostics v \<noteq> None"

definition isGeneratedViewPayload :: "json option \<Rightarrow> bool" where
  "isGeneratedViewPayload =
     has_fields (run_fields @
       [(''status'', one_of [''generated'', ''unsupported'', ''skipped'', ''incomplete'']),
        (''entryClass'', optional isString), (''entryFilePath'', optional isString),
        (''fileCount'', optional isNonNegativeInteger), (''fileRefs'', optional (every_item isGeneratedFileRef)),
        (''unsupportedFeatures'', optional isStringArray), (''openAssumptions'', optional isStringArray),
        (''missingArtifacts'', optional isStringArray), (''orchestratorRunId'', optional isString),
        (''generationResponseRef'', optional_or_null isOutputRef), (''artifactRef'', nullable isOutputRef),
        (''diagnostics'', optional valid_diagnostics), (''traceability'', optional_or_null isGeneratedTraceabilityPayload),
        (''note'', optional isString)])"

definition isGeneratedFilesIndexPayload :: "json option \<Rightarrow> bool" where
  "isGeneratedFilesIndexPayload =
     has_fields (run_fields @
       [(''status'', one_of [''complete'', ''incomplete'']), (''files'', every_item isGeneratedFileRef),
        (''fileCount'', isNonNegativeInteger), (''entryFilePath'', optional isString),
        (''artifactRef'', nullable isOutputRef), (''missingArtifacts'', optional isStringArray),
        (''orchestratorRunId'', optional isString), (''note'', optional isString)])"

definition isGeneratedFileContentPayload :: "json option \<Rightarrow> bool" where
  "isGeneratedFileContentPayload =
     has_fields [(''runId'', isString), (''programId'', optional isString), (''mode'', isRunMode),
       (''productMode'', isRunProductMode), (''path'', isString), (''content'', isString), (''sha256'', isString),
       (''byteSize'', isNonNegativeInteger), (''mimeType'', isString), (''kind'', optional isString),
       (''orchestratorRunId'', optional isString)]"

definition is_comparison :: "json option \<Rightarrow> bool" where
  "is_comparison =
     has_fields ([(''matched'', optional isBoolean)] @
       map (\<lambda>k. (k, optional isString)) [''status'', ''comparisonPolicyVersion'', ''mismatchClassification'', ''diffSummary''] @
       map (\<lambda>k. (k, optional_or_null isOutputRef))
         [''comparisonPolicyRef'', ''comparisonResultRef'', ''diffRef'', ''expectedRef'', ''actualRef''])"

definition isBuildTestViewPayload :: "json option \<Rightarrow> bool" where
  "isBuildTestViewPayload =
     has_fields (run_fields @
       [(''executionMode'', optional isString), (''comparisonPolicy'', optional isString),
        (''comparison'', optional_or_null is_comparison), (''status'', one_of build_statuses),
        (''classification'', one_of build_classes),
        (''compileStatus'', optional (one_of [''ok'', ''failed'', ''skipped'', ''unknown''])),
        (''executionStatus'', optional (one_of [''ok'', ''failed'', ''skipped'', ''not-run'', ''unknown''])),
        (''expectedOutput'', optional isString), (''actualOutput'', optional isString), (''diffSummary'', optional isString),
        (''outputRef'', optional_or_null isOutputRef), (''expectedOutputRef'', optional_or_null isOutputRef),
        (''actualOutputRef'', optional_or_null isOutputRef), (''generatedArtifactRef'', nullable isOutputRef),
        (''diagnostics'', optional valid_diagnostics), (''note'', optional isString)])"

definition isEvidenceViewPayload :: "json option \<Rightarrow> bool" where
  "isEvidenceViewPayload =
     has_fields (run_fields @
       [(''status'', one_of [''complete'', ''incomplete'', ''invalid'']), (''packId'', optional isString),
        (''manifestHash'', optional isString),
        (''validationStatus'', optional (one_of [''valid'', ''invalid'', ''incomplete'', ''unknown''])),
        (''missingArtifacts'', optional isStringArray), (''orchestratorRunId'', optional isString),
        (''artifactRef'', optional_or_null isOutputRef), (''exportRef'', optional_or_null isOutputRef),
        (''generatedArtifactRef'', nullable isOutputRef), (''note'', optional isString)])"

definition isRunEventsViewPayload :: "json option \<Rightarrow> bool" where
  "isRunEventsViewPayload = has_fields (run_fields @ [(''events'', every_item isRunEvent)])"

definition isRunProgressViewPayload :: "json option \<Rightarrow> bool" where
  "isRunProgressViewPayload =
     has_fields (run_fields @
       [(''status'', one_of [''complete'', ''incomplete'']), (''runStatus'', optional isRunStatus),
        (''currentStep'', nullable isString), (''failedStep'', nullable isString), (''completedSteps'', isStringArray),
        (''stepCount'', isNonNegativeInteger), (''steps'', every_item isRunProgressStepPayload),
        (''missingArtifacts'', optional isStringArray), (''orchestratorRunId'', optional isString),
        (''progressRef'', optional_or_null isRunArtifactMetadata), (''updatedAt'', optional_or_null isString),
        (''note'', optional isString)])"

definition isRunArtifactsViewPayload :: "json option \<Rightarrow> bool" where
  "isRunArtifactsViewPayload =
     has_fields [(''runId'', isString), (''programId'', optional isString), (''mode'', isRunMode),
       (''productMode'', isRunProductMode), (''orchestratorRunId'', optional isString),
       (''artifacts'', every_item isRunArtifactMetadata), (''summary'', optional_or_null isRecord),
       (''missingArtifacts'', optional isStringArray), (''createdAt'', optional_or_null isString),
       (''updatedAt'', optional_or_null isString), (''note'', optional isString)]"

definition is_learning_signal :: "json option \<Rightarrow> bool" where
  "is_learning_signal =
     has_fields [(''key'', isString), (''label'', isString), (''status'', one_of [''observed'', ''absent'']),
       (''count'', isNumber), (''summary'', optional isString), (''evidenceRefs'', optional isStringArray)]"

definition isRunExperienceViewPayload :: "json option \<Rightarrow> bool" where
  "isRunExperienceViewPayload =
     has_fields (run_fields @
       [(''summary'', optional isString), (''observationPolicy'', optional isString),
        (''learningSignals'', optional (every_item is_learning_signal)),
        (''detectedPatterns'', optional isStringArray), (''artifactRefs'', optional isStringArray)])"

section \<open>The workflow contract\<close>

definition W02_ERROR_CODE_NAMES :: "string list" where
  "W02_ERROR_CODE_NAMES =
     [''unsupported_cobol'', ''parse_failed'', ''semantic_ir_failed'', ''model_gateway_unavailable'',
      ''model_policy_denied'', ''agent_timeout'', ''agent_contract_invalid'', ''java_generation_failed'',
      ''java_compile_failed'', ''java_runtime_failed'', ''oracle_mismatch'', ''evidence_incomplete'', ''cancelled'',
      ''generate_only_complete'', ''service_unavailable'', ''internal_error'']"

definition W02_ACTIVE_AGENTS :: "string list" where
  "W02_ACTIVE_AGENTS =
     [''transformation_agent'', ''verification_repair_agent'', ''cobol_parser'', ''semantic_ir'', ''java_generator'',
      ''build_test_runner'', ''evidence_service'']"

definition W02_REPAIR_DECISIONS :: "string list" where
  "W02_REPAIR_DECISIONS = [''propose_candidate'', ''refuse'', ''escalate'', ''no_change'']"

definition W02_FINAL_CLASSIFICATIONS :: "string list" where
  "W02_FINAL_CLASSIFICATIONS = [''success'', ''blocked'', ''failed'', ''cancelled'', ''incomplete'']"

text \<open>The three budget guards of the code have the same body.\<close>

definition isRepairBudgetPayload :: "json option \<Rightarrow> bool" where
  "isRepairBudgetPayload =
     has_fields [(''limit'', isNonNegativeInteger), (''used'', isNonNegativeInteger), (''remaining'', isNonNegativeInteger)]"

definition hasManualEditSummaryFields :: "json option \<Rightarrow> bool" where
  "hasManualEditSummaryFields payload \<longleftrightarrow>
     (let carried = js_field payload ''manualEditsCarriedOver''; count = js_field payload ''manualDriftRegionCount''
      in optional isBoolean carried \<and> optional isNonNegativeInteger count \<and>
         (if carried = Some (JBool True) then isPositiveInteger count else count = None \<or> count = Some (js_num 0)))"

definition isRepairAttemptSummaryPayload :: "json option \<Rightarrow> bool" where
  "isRepairAttemptSummaryPayload =
     has_fields [(''attemptNumber'', isPositiveInteger), (''repairDecision'', one_of W02_REPAIR_DECISIONS),
       (''failureCategory'', nullable isString), (''hasModelInvocation'', isBoolean), (''hasRepairInput'', isBoolean),
       (''hasJavaCandidate'', isBoolean), (''rationale'', optional isString)]"

definition isWorkflowArtifactRefPayload :: "json option \<Rightarrow> bool" where
  "isWorkflowArtifactRefPayload =
     has_fields [(''sha256'', isString), (''byteSize'', isNonNegativeInteger), (''kind'', isString)]"

section \<open>Trust summaries\<close>

definition trust_repair_status :: "json option \<Rightarrow> bool" where
  "trust_repair_status = one_of [''not_attempted'', ''repair_verified'', ''repair_failed'', ''repair_blocked'']"

definition output_refs :: "string list \<Rightarrow> (string \<times> (json option \<Rightarrow> bool)) list" where
  "output_refs keys = map (\<lambda>k. (k, optional_or_null isOutputRef)) keys"

definition trust_summary_parts :: "(string \<times> (json option \<Rightarrow> bool)) list" where
  "trust_summary_parts =
       [(''schemaVersion'', optional isString),
        (''trustState'', one_of [''parity_passed'', ''parity_failed'', ''build_failed'', ''runtime_failed'',
          ''intentional_divergence'', ''blocked'']),
        (''repairStatus'', trust_repair_status), (''coverageStatus'', one_of [''full'', ''limited'']),
        (''divergenceDisposition'', one_of [''none'', ''known_coverage_gap'', ''intentional'', ''unknown'']),
        (''intentionalDivergenceDecisionRef'', optional_or_null isOutputRef),
        (''warningCodes'', every_item (one_of [''limited_coverage'', ''known_coverage_gap'', ''manual_edits_carried_over''])),
        (''trustCase'', has_fields (map (\<lambda>k. (k, isString))
          [''trustCaseId'', ''version'', ''catalogVersion'', ''catalogHash'', ''configurationDigest''])),
        (''cobolResult'', has_fields ((''status'', one_of [''completed'', ''failed'', ''not_available'']) #
          output_refs [''normalizedOutputRef''])),
        (''javaResult'', has_fields ((''status'', one_of [''completed'', ''build_failed'', ''runtime_failed'', ''not_available'']) #
          output_refs [''executionResultRef'', ''normalizedOutputRef''])),
        (''comparisonResult'', has_fields ([(''status'', one_of [''matched'', ''mismatched'', ''not_available'']),
          (''mismatchClassification'', isString)] @
          output_refs [''comparisonPolicyRef'', ''comparisonResultRef'', ''diffRef'', ''decisionRecordRef''])),
        (''repair'', has_fields ((''status'', trust_repair_status) #
          output_refs [''repairDecisionRef'', ''repairedBuildTestResultRef'', ''repairedJavaCandidateRef''])),
        (''evidence'', has_fields ([(''status'', one_of [''current'', ''stale'', ''incomplete'']),
          (''recordedAt'', optional_or_null isString)] @ output_refs [''packRef'']))]"

definition isTrustSummaryPayload :: "json option \<Rightarrow> bool" where
  "isTrustSummaryPayload =
     has_fields (trust_summary_parts @
       [(''comparisonCompletedAt'', optional_or_null isString), (''summaryDerivedAt'', isString),
        (''repairVerifiedAt'', optional_or_null isString)])"

section \<open>Assist decisions\<close>

definition ASSIST_REASON_CODES :: "string list" where
  "ASSIST_REASON_CODES =
     [''semantic_ir_bounded_ambiguity'', ''translation_unsupported_repairable'', ''baseline_open_assumptions'',
      ''deterministic_candidate_low_confidence'', ''caller_explicit_opt_in'', ''caller_did_not_opt_in'',
      ''assist_budget_exhausted'']"

definition isAssistDecisionArtifactRefPayload :: "json option \<Rightarrow> bool" where
  "isAssistDecisionArtifactRefPayload =
     has_fields [(''sha256'', optional isString), (''byteSize'', optional isNonNegativeInteger),
       (''kind'', optional isString), (''path'', optional isString)]"

definition isAssistDecisionSummaryPayload :: "json option \<Rightarrow> bool" where
  "isAssistDecisionSummaryPayload payload \<longleftrightarrow>
     has_fields [(''outcome'', one_of [''assist_required'', ''assist_not_required'']),
       (''reasonCode'', one_of ASSIST_REASON_CODES), (''decidedAt'', nonempty_string),
       (''affectedArtifactRefs'', every_item isAssistDecisionArtifactRefPayload),
       (''repairBudgetSnapshot'', nullable isRepairBudgetPayload), (''assistBudgetSnapshot'', nullable isRepairBudgetPayload),
       (''modelInvocationBudgetSnapshot'', nullable isRepairBudgetPayload), (''rationale'', nullable isString)] payload \<and>
     (if js_field payload ''outcome'' = Some (JStr ''assist_required'')
      then one_of [''transformation_agent''] (js_field payload ''selectedAgentRole'')
      else js_field payload ''selectedAgentRole'' = Some JNull)"

section \<open>Summaries and the workflow view\<close>

definition w02_contract_fields :: "(string \<times> (json option \<Rightarrow> bool)) list" where
  "w02_contract_fields =
     [(''activeStep'', optional_or_null isString), (''agentAttemptCount'', optional isNonNegativeInteger),
      (''repairBudget'', optional_or_null isRepairBudgetPayload), (''assistBudget'', optional_or_null isRepairBudgetPayload),
      (''modelInvocationBudget'', optional_or_null isRepairBudgetPayload),
      (''finalClassification'', optional_or_null (one_of W02_FINAL_CLASSIFICATIONS)),
      (''failureCode'', optional_or_null (one_of W02_ERROR_CODE_NAMES)), (''failureMessage'', optional_or_null isString)]"

definition isTransformResponsePayload :: "json option \<Rightarrow> bool" where
  "isTransformResponsePayload payload \<longleftrightarrow>
     has_fields (run_fields @
       [(''orchestratorRunId'', isString), (''status'', isRunStatus), (''createdAt'', isString), (''updatedAt'', isString),
        (''links'', isRunLinks), (''message'', optional isString), (''evidenceRefs'', optional isStringArray),
        (''policyDecision'', optional isString)] @ trust_case_identity @ w02_contract_fields) payload \<and>
     hasManualEditSummaryFields payload"

definition isRunSummaryPayload :: "json option \<Rightarrow> bool" where
  "isRunSummaryPayload payload \<longleftrightarrow>
     has_fields (run_fields @
       [(''status'', isRunStatus), (''createdAt'', isString), (''updatedAt'', isString), (''schemaVersion'', optional isString),
        (''message'', optional isString), (''evidenceRefs'', optional isStringArray),
        (''trustSummary'', optional_or_null isTrustSummaryPayload), (''policyDecision'', optional isString),
        (''javaRegionClassification'', optional_or_null isRecord)] @ trust_case_identity @ w02_contract_fields) payload \<and>
     hasManualEditSummaryFields payload"

definition isRunWorkflowViewPayload :: "json option \<Rightarrow> bool" where
  "isRunWorkflowViewPayload =
     has_fields (run_fields @
       [(''source'', one_of [''live'', ''cached'', ''unavailable'']), (''state'', nullable isString),
        (''activeStep'', nullable isString), (''activeAgent'', nullable (one_of W02_ACTIVE_AGENTS)),
        (''trustCase'', optional_or_null isTrustCaseWorkflowSnapshotPayload),
        (''agentAttemptCount'', isNonNegativeInteger), (''repairBudget'', nullable isRepairBudgetPayload),
        (''assistBudget'', nullable isRepairBudgetPayload), (''modelInvocationBudget'', nullable isRepairBudgetPayload),
        (''repairAttempts'', every_item isRepairAttemptSummaryPayload),
        (''assistDecision'', nullable isAssistDecisionSummaryPayload),
        (''trustSummary'', optional_or_null isTrustSummaryPayload),
        (''finalClassification'', nullable (one_of W02_FINAL_CLASSIFICATIONS)),
        (''failureCode'', nullable (one_of W02_ERROR_CODE_NAMES)), (''failureMessage'', nullable isString),
        (''generatedJavaRef'', nullable isWorkflowArtifactRefPayload),
        (''buildTestResultRef'', nullable isWorkflowArtifactRefPayload),
        (''evidencePackRef'', nullable isWorkflowArtifactRefPayload)])"

end
