(* ===== verification/Studio_Client.thy ===== *)
theory Studio_Client
  imports Studio_Guards Session_Routes
begin

text \<open>
  The requests of the Studio's API client (\<open>apiClient.ts\<close>): \<open>fetchJson\<close> with its failures, and the parsers
  that a payload passes.  A failure keeps its kind, the HTTP status and the message; the body and the
  cause that it also carries are left out.
\<close>

section \<open>Results\<close>

datatype failure_kind = ContractFailure | HttpFailure | ParseFailure | NetworkFailure | ConfigFailure

datatype client_result = ClientOk json | ClientFailed failure_kind "nat option" string

definition contract_failure_for :: "string \<Rightarrow> client_result" where
  "contract_failure_for payload_name =
     ClientFailed ContractFailure None (''Contract error: '' @ payload_name @ '' payload has missing or invalid fields.'')"

definition checked :: "(json option \<Rightarrow> bool) \<Rightarrow> string \<Rightarrow> json \<Rightarrow> client_result" where
  "checked guard payload_name payload =
     (if guard (Some payload) then ClientOk payload else contract_failure_for payload_name)"

text \<open>A field of an object that is set, or kept as it is; a deleted field.\<close>

definition js_with :: "string \<Rightarrow> json option \<Rightarrow> json \<Rightarrow> json" where
  "js_with key v payload =
     (case (payload, v) of (JObj fs, Some j) \<Rightarrow> JObj (js_set key j fs) | _ \<Rightarrow> payload)"

definition js_without :: "string \<Rightarrow> json \<Rightarrow> json" where
  "js_without key payload = (case payload of JObj fs \<Rightarrow> JObj (js_delete key fs) | _ \<Rightarrow> payload)"

section \<open>Parsers\<close>

definition parseRunSummary :: "json \<Rightarrow> client_result" where
  "parseRunSummary payload =
     (if isRunSummaryPayload (Some payload)
      then ClientOk (js_with ''javaRegionClassification''
        (normalizeJavaRegionClassificationMap (js_field (Some payload) ''javaRegionClassification'')) payload)
      else contract_failure_for ''RunSummary'')"

definition parseGeneratedView :: "json \<Rightarrow> client_result" where
  "parseGeneratedView payload =
     (if isGeneratedViewPayload (Some payload)
      then
        let view = js_with ''diagnostics'' (studioNormalizeDiagnostics (js_field (Some payload) ''diagnostics'')) payload
        in ClientOk (if isGeneratedTraceabilityPayload (js_field (Some payload) ''traceability'') then view
                     else js_without ''traceability'' view)
      else contract_failure_for ''GeneratedView'')"

definition parseGeneratedFilesIndex :: "json \<Rightarrow> client_result" where
  "parseGeneratedFilesIndex = checked isGeneratedFilesIndexPayload ''GeneratedFilesIndex''"

definition parseBuildTestView :: "json \<Rightarrow> client_result" where
  "parseBuildTestView payload =
     (if isBuildTestViewPayload (Some payload)
      then ClientOk (js_with ''diagnostics''
        (studioNormalizeDiagnostics (js_field (Some payload) ''diagnostics'')) payload)
      else contract_failure_for ''BuildTestView'')"

definition parseEvidenceView :: "json \<Rightarrow> client_result" where
  "parseEvidenceView = checked isEvidenceViewPayload ''EvidenceView''"

definition parseRunEventsView :: "json \<Rightarrow> client_result" where
  "parseRunEventsView = checked isRunEventsViewPayload ''RunEventsView''"

definition parseRunProgressView :: "json \<Rightarrow> client_result" where
  "parseRunProgressView = checked isRunProgressViewPayload ''RunProgressView''"

definition parseRunArtifactsView :: "json \<Rightarrow> client_result" where
  "parseRunArtifactsView = checked isRunArtifactsViewPayload ''RunArtifactsView''"

definition parseGeneratedFileContent :: "json \<Rightarrow> client_result" where
  "parseGeneratedFileContent = checked isGeneratedFileContentPayload ''GeneratedFileContent''"

definition parseRunWorkflowView :: "json \<Rightarrow> client_result" where
  "parseRunWorkflowView = checked isRunWorkflowViewPayload ''RunWorkflowView''"

definition parseRunExperienceView :: "json \<Rightarrow> client_result" where
  "parseRunExperienceView = checked isRunExperienceViewPayload ''RunExperienceView''"

definition parseTransformResponse :: "json \<Rightarrow> client_result" where
  "parseTransformResponse = checked isTransformResponsePayload ''transform''"

definition parseGenerateResponse :: "json \<Rightarrow> client_result" where
  "parseGenerateResponse payload =
     (if \<not> isTransformResponsePayload (Some payload) then contract_failure_for ''generate''
      else if js_field (Some payload) ''runMode'' \<noteq> Some (JStr ''generate'')
      then ClientFailed ContractFailure None
        (''Contract error: /api/v0/generate response must carry runMode='' @ [CHR 0x22] @ ''generate'' @ [CHR 0x22] @ ''.'')
      else ClientOk payload)"

definition verify_ref :: "json option \<Rightarrow> json option" where
  "verify_ref v = (if v = Some JNull \<or> isString (js_field v ''sha256'') then v else None)"

definition parseVerifyResponse :: "json \<Rightarrow> client_result" where
  "parseVerifyResponse payload =
     (let v = Some payload; failed = (\<lambda>what. ClientFailed ContractFailure None (''Contract error: verify payload '' @ what))
      in if \<not> isRecord v then failed ''must be an object.''
         else if \<not> optional (one_of [''v0'']) (js_field v ''schemaVersion'')
         then failed (''schemaVersion must be '' @ [CHR 0x22] @ ''v0'' @ [CHR 0x22] @ '' when present.'')
         else if \<not> list_all (\<lambda>k. isString (js_field v k)) [''runId'', ''programId'', ''status'', ''classification'']
         then failed ''requires runId/programId/status/classification strings.''
         else if \<not> isBoolean (js_field v ''manualEditsCarriedOver'')
         then failed ''manualEditsCarriedOver must be a boolean.''
         else if \<not> isNonNegativeInteger (js_field v ''manualDriftRegionCount'')
         then failed ''manualDriftRegionCount must be a non-negative integer.''
         else ClientOk (js_object
           ([(''schemaVersion'', Some (JStr ''v0''))] @
            map (\<lambda>k. (k, js_field v k)) [''runId'', ''programId'', ''status'', ''classification''] @
            [(''diagnostics'', Some (JArr (or_default (js_array (js_field v ''diagnostics'')) []))),
             (''manualEditsCarriedOver'', js_field v ''manualEditsCarriedOver''),
             (''manualDriftRegionCount'', js_field v ''manualDriftRegionCount'')] @
            map (\<lambda>k. (k, asRecord (js_field v k))) [''build'', ''execution'', ''tests'', ''goldenMaster'', ''comparison''] @
            [(''outputRef'', verify_ref (js_field v ''outputRef''))])))"

section \<open>Manual compile repair\<close>

definition isManualCompileRepairFileChange :: "json option \<Rightarrow> bool" where
  "isManualCompileRepairFileChange =
     has_fields [(''path'', isString), (''changeType'', optional isString), (''beforeSha256'', optional_or_null isString),
       (''afterSha256'', optional_or_null isString), (''diff'', optional isString)]"

definition every_value :: "(json option \<Rightarrow> bool) \<Rightarrow> json option \<Rightarrow> bool" where
  "every_value P v \<longleftrightarrow> (case v of Some (JObj fs) \<Rightarrow> list_all (\<lambda>(_, j). P (Some j)) fs | _ \<Rightarrow> False)"

definition isManualCompileRepairCandidateProject :: "json option \<Rightarrow> bool" where
  "isManualCompileRepairCandidateProject =
     has_fields [(''entryClass'', isString), (''entryFilePath'', isString), (''files'', every_value isString)]"

definition evidence_ref_list :: "json option \<Rightarrow> bool" where
  "evidence_ref_list = every_item (nullable isOutputRef)"

definition isManualCompileRepairProposal :: "json option \<Rightarrow> bool" where
  "isManualCompileRepairProposal =
     has_fields ([(''schemaVersion'', optional (one_of [''v0''])), (''proposalId'', isString), (''runId'', isString)] @
       map (\<lambda>k. (k, optional isString))
         [''workflowId'', ''diagnosisId'', ''proposedBy'', ''patchSha256'', ''summary'', ''applicationState'',
          ''approvalState'', ''createdAt'', ''approvedAt'', ''appliedAt''] @
       [(''files'', every_item isManualCompileRepairFileChange), (''sourceRevisionRef'', optional_or_null isOutputRef),
        (''currentHeadRef'', optional_or_null isOutputRef), (''evidenceRefs'', optional evidence_ref_list),
        (''developerApproval'', optional (has_fields (map (\<lambda>k. (k, optional isString))
          [''approvedBy'', ''approvedAt'', ''approvedPatchSha256''])))])"

definition isManualCompileRepairPreview :: "json option \<Rightarrow> bool" where
  "isManualCompileRepairPreview =
     has_fields ([(''schemaVersion'', one_of [''v0'']), (''previewId'', isString), (''runId'', isString),
        (''workflowId'', optional isString), (''failureCategory'', isString)] @
       map (\<lambda>k. (k, optional_or_null isOutputRef)) [''sourceRevisionRef'', ''currentHeadRef'', ''buildTestResultRef''] @
       [(''includedFiles'', every_item (has_fields
          [(''path'', isString), (''sha256'', isString), (''byteSize'', isNonNegativeInteger), (''role'', isString)])),
        (''diagnostics'', every_item (has_fields
          [(''severity'', isString), (''code'', isString), (''message'', isString), (''filePath'', optional isString),
           (''line'', optional isPositiveInteger)])),
        (''manualRegions'', every_item (has_fields
          [(''filePath'', isString), (''originClass'', isString), (''startLine'', isPositiveInteger),
           (''endLine'', isPositiveInteger)])),
        (''constraints'', isRecord), (''exclusionSummary'', isRecord)])"

definition isManualCompileRepairDiagnosis :: "json option \<Rightarrow> bool" where
  "isManualCompileRepairDiagnosis =
     has_fields ([(''schemaVersion'', optional (one_of [''v0''])), (''runId'', isString)] @
       map (\<lambda>k. (k, optional isString))
         [''diagnosisId'', ''workflowId'', ''failureClass'', ''scopeClass'', ''likelyRootCause'', ''summary'',
          ''recommendedNextAction'', ''createdAt''] @
       map (\<lambda>k. (k, optional_or_null isOutputRef)) [''buildResultRef'', ''sourceRevisionRef'', ''currentHeadRef''] @
       [(''confidence'', optional (has_fields [(''level'', optional isString), (''basis'', optional isString)])),
        (''evidenceRefs'', optional evidence_ref_list)])"

definition repair_failure :: "string \<Rightarrow> string \<Rightarrow> client_result" where
  "repair_failure step what =
     ClientFailed ContractFailure None (''Contract error: manual compile repair '' @ step @ '' payload has '' @ what)"

text \<open>The fields that a repair response keeps, after its own guard and that of its build result.\<close>

definition repair_response ::
  "string \<Rightarrow> (string \<times> (json option \<Rightarrow> bool)) list \<Rightarrow> bool \<Rightarrow> (json option \<Rightarrow> (string \<times> json option) list) \<Rightarrow> json \<Rightarrow>
   client_result" where
  "repair_response step table withBuild kept payload =
     (if \<not> has_fields ((''runId'', isString) # table) (Some payload) then repair_failure step ''missing or invalid fields.''
      else if withBuild \<and> \<not> isBuildTestViewPayload (js_field (Some payload) ''buildTest'')
      then repair_failure step ''an invalid buildTest field.''
      else ClientOk (js_object ([(''schemaVersion'', Some (JStr ''v0'')), (''runId'', js_field (Some payload) ''runId'')] @
        kept (Some payload))))"

definition v0_or_absent :: "string \<times> (json option \<Rightarrow> bool)" where
  "v0_or_absent = (''schemaVersion'', optional (one_of [''v0'']))"

definition same_fields :: "string list \<Rightarrow> json option \<Rightarrow> (string \<times> json option) list" where
  "same_fields keys v = map (\<lambda>k. (k, js_field v k)) keys"

definition parseManualCompileRepairDiagnoseResponse :: "json \<Rightarrow> client_result" where
  "parseManualCompileRepairDiagnoseResponse =
     repair_response ''diagnose''
       [v0_or_absent, (''diagnosis'', isManualCompileRepairDiagnosis),
        (''proposal'', optional_or_null isManualCompileRepairProposal),
        (''candidateProject'', isManualCompileRepairCandidateProject)] True
       (\<lambda>v. same_fields [''diagnosis''] v @ [(''proposal'', Some (or_default (js_field v ''proposal'') JNull))] @
          same_fields [''candidateProject'', ''buildTest''] v)"

definition parseManualCompileRepairPreviewResponse :: "json \<Rightarrow> client_result" where
  "parseManualCompileRepairPreviewResponse =
     repair_response ''preview'' [(''schemaVersion'', one_of [''v0'']), (''preview'', isManualCompileRepairPreview)] False
       (same_fields [''preview''])"

definition parseManualCompileRepairApplyResponse :: "json \<Rightarrow> client_result" where
  "parseManualCompileRepairApplyResponse =
     repair_response ''apply''
       [v0_or_absent, (''proposal'', isManualCompileRepairProposal),
        (''candidateProject'', isManualCompileRepairCandidateProject)] True
       (same_fields [''proposal'', ''candidateProject'', ''buildTest''])"

definition parseManualCompileRepairRejectResponse :: "json \<Rightarrow> client_result" where
  "parseManualCompileRepairRejectResponse =
     repair_response ''reject'' [v0_or_absent, (''proposal'', isManualCompileRepairProposal)] False
       (same_fields [''proposal''])"

definition parseManualCompileRepairAcceptResponse :: "json \<Rightarrow> client_result" where
  "parseManualCompileRepairAcceptResponse =
     repair_response ''accept''
       [v0_or_absent, (''proposal'', isManualCompileRepairProposal),
        (''candidateProject'', isManualCompileRepairCandidateProject)] True
       (same_fields [''proposal'', ''candidateProject'', ''buildTest''])"

section \<open>Trust cases and health\<close>

definition parseTrustCasesResponse :: "json \<Rightarrow> client_result" where
  "parseTrustCasesResponse payload =
     (if has_fields [(''schemaVersion'', one_of [''v0'']), (''catalogVersion'', isString), (''catalogHash'', isString),
           (''programId'', nullable isString), (''defaultTrustCaseId'', nullable isString),
           (''savedTrustCaseId'', nullable isString), (''trustCases'', every_item isTrustCaseSummary)] (Some payload)
      then ClientOk (js_object (same_fields
        [''schemaVersion'', ''catalogVersion'', ''catalogHash'', ''programId'', ''defaultTrustCaseId'', ''savedTrustCaseId'',
         ''trustCases''] (Some payload)))
      else contract_failure_for ''TrustCases'')"

definition parseTrustCasePreferenceResponse :: "json \<Rightarrow> client_result" where
  "parseTrustCasePreferenceResponse payload =
     (if has_fields [(''programId'', isString), (''trustCaseId'', nullable isString), (''persisted'', isBoolean),
           (''selected'', optional isTrustCaseSummary)] (Some payload)
      then ClientOk (js_object (same_fields [''programId'', ''trustCaseId'', ''persisted'', ''selected''] (Some payload)))
      else contract_failure_for ''TrustCasePreference'')"

definition parseHealthResponse :: "json \<Rightarrow> client_result" where
  "parseHealthResponse payload =
     (if \<not> isRecord (Some payload)
      then ClientFailed ContractFailure None ''Contract error: health payload must be a JSON object.''
      else if js_field (Some payload) ''status'' \<noteq> Some (JStr ''ok'')
      then ClientFailed ContractFailure None
        (''Contract error: health payload must contain status='' @ [CHR 0x22] @ ''ok'' @ [CHR 0x22] @ ''.'')
      else ClientOk payload)"

section \<open>Requests\<close>

text \<open>The response with its parsed body: no text, text that is no JSON, or a value.\<close>

datatype response_text = NoText | MalformedText | JsonText json

datatype fetch_reply = FetchThrew "string option" | FetchReply nat response_text

definition http_message :: "nat \<Rightarrow> json \<Rightarrow> string" where
  "http_message status payload =
     or_default (as_string (js_field (Some payload) ''error'')) (''HTTP error '' @ nat_digits status)"

definition fetchJson :: "(json \<Rightarrow> client_result) \<Rightarrow> fetch_reply \<Rightarrow> 'd bootstrap_cache \<Rightarrow> client_result \<times> 'd bootstrap_cache" where
  "fetchJson parser reply c =
     (case reply of
        FetchThrew message \<Rightarrow> (ClientFailed NetworkFailure None (or_default message ''Network error''), c)
      | FetchReply status MalformedText \<Rightarrow>
          (ClientFailed ParseFailure None ''Contract error: API returned malformed JSON.'', c)
      | FetchReply status body \<Rightarrow>
          (let payload = (case body of JsonText j \<Rightarrow> j | _ \<Rightarrow> JNull)
           in if response_ok status then (parser payload, c)
              else (ClientFailed HttpFailure (Some status) (http_message status payload),
                    if status = 401 then clearSessionBootstrap c else c)))"

section \<open>The base address\<close>

text \<open>The parser of URLs is a parameter.\<close>

record url_parts =
  urlProtocol :: string
  urlHostname :: string
  urlPath :: string
  urlSearch :: string
  urlHash :: string
  urlOriginText :: string

definition config_failure :: "string \<Rightarrow> client_result" where
  "config_failure what =
     ClientFailed ConfigFailure None (''Runtime configuration error: NEXT_PUBLIC_C2C_BFF_BASE_URL '' @ what)"

definition resolveApiBaseUrl :: "(string \<Rightarrow> url_parts option) \<Rightarrow> string option \<Rightarrow> client_result" where
  "resolveApiBaseUrl parseUrl envValue =
     (case envValue of
        None \<Rightarrow> ClientOk (JStr [])
      | Some [] \<Rightarrow> ClientOk (JStr [])
      | Some text' \<Rightarrow>
          (case parseUrl text' of
             None \<Rightarrow> config_failure ''must be an absolute URL.''
           | Some u \<Rightarrow>
               (if urlProtocol u \<notin> {''http:'', ''https:''} then config_failure ''must use http or https.''
                else if urlHostname u \<notin> {''localhost'', ''127.0.0.1'', ''::1''}
                then config_failure ''is limited to local split-server development.''
                else if urlPath u \<noteq> ''/'' \<or> urlSearch u \<noteq> [] \<or> urlHash u \<noteq> []
                then config_failure ''must not include a path, query, or hash.''
                else ClientOk (JStr (urlOriginText u)))))"

definition api_request ::
  "(string \<Rightarrow> url_parts option) \<Rightarrow> string option \<Rightarrow> (json \<Rightarrow> client_result) \<Rightarrow> fetch_reply \<Rightarrow> 'd bootstrap_cache \<Rightarrow>
   client_result \<times> 'd bootstrap_cache" where
  "api_request parseUrl envValue parser reply c =
     (case resolveApiBaseUrl parseUrl envValue of
        ClientOk _ \<Rightarrow> fetchJson parser reply c
      | failed \<Rightarrow> (failed, c))"

text \<open>What the fetch of a request that the BFF answers with \<open>response\<close> yields.\<close>

definition reply_of :: "bff_response \<Rightarrow> fetch_reply" where
  "reply_of response =
     FetchReply (rsStatus response) (case rsBody response of None \<Rightarrow> NoText | Some j \<Rightarrow> JsonText j)"

end
