(* ===== verification/Wire_Contract.thy ===== *)
theory Wire_Contract
  imports Bff_File_Routes Studio_Client
begin

text \<open>
  The contract between the views that the BFF builds (\<open>runViews.ts\<close>, \<open>server.ts\<close>) and the guards that
  they have to pass in the Studio (\<open>apiClient.ts\<close>).
\<close>

section \<open>Guards on built values\<close>

lemma guard_values [guards, simp]:
  "isString (Some (JStr s))" "isBoolean (Some (JBool b))" "isRecord (Some (js_object fs))" "isRecord (Some (JObj gs))"
  "\<not> isString None" "\<not> isString (Some JNull)" "\<not> isRecord None" "\<not> isRecord (Some JNull)"
  by (simp_all add: isString_def isBoolean_def isRecord_def js_object_def)

lemma one_of_Some [guards, simp]: "one_of names (Some (JStr s)) \<longleftrightarrow> s \<in> set names"
  by (simp add: one_of_def)

lemma natural_num [guards, simp]: "isNonNegativeInteger (Some (js_num q)) \<longleftrightarrow> is_integer q \<and> 0 \<le> q"
  by (simp add: isNonNegativeInteger_def)

lemma optional_simps [guards, simp]:
  "optional P None" "optional P (Some j) \<longleftrightarrow> P (Some j)" "nullable P (Some JNull)" "optional_or_null P None"
  "optional_or_null P (Some JNull)" "nullable P (Some (JStr s)) \<longleftrightarrow> P (Some (JStr s))"
  "nullable P (Some (js_object fs)) \<longleftrightarrow> P (Some (js_object fs))"
  by (simp_all add: optional_def nullable_def optional_or_null_def js_null_def js_object_def)

lemma optional_or_null_intro: "P v \<Longrightarrow> optional_or_null P v" "P v \<Longrightarrow> nullable P v" "P v \<Longrightarrow> optional P v"
  by (simp_all add: optional_def nullable_def optional_or_null_def)

lemma every_item_simps [guards, simp]: "every_item P (Some (JArr js)) \<longleftrightarrow> list_all (\<lambda>j. P (Some j)) js"
  by (simp add: every_item_def)

lemma string_texts [guards, simp]: "isStringArray (Some (json_texts ss))"
  by (simp add: isStringArray_def json_texts_def list_all_iff)

lemma js_or_null_guard [guards, simp]:
  "nullable P (Some (js_or_null f x)) \<longleftrightarrow> (\<forall>y. x = Some y \<longrightarrow> nullable P (Some (f y)))"
  by (cases x) (simp_all add: js_or_null_def)

lemma or_null_guard [guards, simp]:
  "nullable P (Some (or_default x JNull)) \<longleftrightarrow> (\<forall>j. x = Some j \<longrightarrow> nullable P (Some j))"
  "optional_or_null P (Some (or_default x JNull)) \<longleftrightarrow> (\<forall>j. x = Some j \<longrightarrow> optional_or_null P (Some j))"
  by (cases x; simp)+

lemma optional_nonempty [guards, simp]: "optional isString (nonempty_field s)"
  by (simp add: nonempty_field_def)

lemma has_fields_object [guards]:
  "has_fields table (Some (js_object fs)) \<longleftrightarrow> list_all (\<lambda>(key, P). P (js_field (Some (js_object fs)) key)) table"
  by (simp add: has_fields_def)

lemma has_fields_refused:
  "(key, P) \<in> set table \<Longrightarrow> \<not> P (js_field v key) \<Longrightarrow> \<not> has_fields table v"
  by (auto simp: has_fields_def list_all_iff)

text \<open>Looking up a field of a built object.\<close>

lemma absent_field: "k \<notin> fst ` set fs \<Longrightarrow> js_field (Some (js_object fs)) k = None"
  by (induction fs) (auto simp: js_object_first js_object_none)

lemmas built = has_fields_object js_object_first js_object_none

section \<open>Incomplete views\<close>

lemma run_head_keys: "fst ` set (run_head stored) = {''runId'', ''programId'', ''mode'', ''productMode''}"
  by (simp add: run_head_def)

text \<open>
  None of the three views that stand for a missing answer has the reference that the guards require to
  be present, if only as null.
\<close>

lemma absent_reference_refused:
  assumes "key \<notin> fst ` set fs" and "(key, nullable isOutputRef) \<in> set table"
  shows "\<not> has_fields table (Some (js_object fs))"
  using assms(2)
proof (rule has_fields_refused)
  show "\<not> nullable isOutputRef (js_field (Some (js_object fs)) key)"
    using absent_field [OF assms(1)] by (simp add: nullable_def isOutputRef_def has_fields_def)
qed

lemma incomplete_keys: "fst ` set (incomplete_fields stored missing note) =
    {''runId'', ''programId'', ''mode'', ''productMode'', ''status'', ''missingArtifacts'', ''note''}"
  by (auto simp: incomplete_fields_def run_head_keys image_Un)

lemma incomplete_generated_refused:
  assumes "unanswered enabled stored answer"
  shows "\<not> isGeneratedViewPayload (Some (liveGeneratedView urlPathname enabled stored answer))"
proof -
  from assms obtain msg where view: "liveGeneratedView urlPathname enabled stored answer =
      js_object (incomplete_fields stored [''generation-response''] msg @ generated_tail)"
    by (auto simp: unanswered_def liveGeneratedView_def split: live_answer.splits)
  show ?thesis unfolding view isGeneratedViewPayload_def
    by (rule absent_reference_refused [of "''artifactRef''"])
      (simp_all add: incomplete_keys image_Un generated_tail_def)
qed

lemma incomplete_build_test_refused:
  assumes "unanswered enabled stored answer"
  shows "\<not> isBuildTestViewPayload (Some (liveBuildTestView urlPathname enabled stored answer))"
proof -
  from assms obtain msg where view: "liveBuildTestView urlPathname enabled stored answer =
      js_object (incomplete_fields stored [''build-test-result''] msg @ build_test_tail stored)"
    by (auto simp: unanswered_def liveBuildTestView_def split: live_answer.splits)
  show ?thesis unfolding view isBuildTestViewPayload_def
    by (rule absent_reference_refused [of "''generatedArtifactRef''"])
      (simp_all add: incomplete_keys image_Un build_test_tail_def)
qed

lemma incomplete_evidence_refused:
  assumes "unanswered enabled stored answer"
  shows "\<not> isEvidenceViewPayload (Some (liveEvidenceView enabled stored answer))"
proof -
  from assms obtain msg where view: "liveEvidenceView enabled stored answer =
      js_object (incomplete_fields stored [''evidence-pack-manifest''] msg @ evidence_tail)"
    by (auto simp: unanswered_def liveEvidenceView_def split: live_answer.splits)
  show ?thesis unfolding view isEvidenceViewPayload_def
    by (rule absent_reference_refused [of "''generatedArtifactRef''"])
      (simp_all add: incomplete_keys image_Un evidence_tail_def)
qed

text \<open>The progress view has no such reference; it passes without an answer.\<close>

lemma unanswered_progress_accepted:
  assumes "unanswered enabled stored answer"
  shows "isRunProgressViewPayload (Some (liveProgressView enabled stored answer))"
proof -
  define answered where "answered = live_answer_of enabled stored answer"
  define ref where "ref = refused_run answered"
  have ref: "ref = [] \<or> (\<exists>live. ref = [(''orchestratorRunId'', Some (JStr live))])"
    by (cases answered) (simp_all add: ref_def)
  obtain msg where view: "liveProgressView enabled stored answer =
      js_object (run_head stored @ no_progress stored @ ref @ [(''note'', Some (JStr msg))])"
    using assms by (cases answered) (simp_all add: unanswered_def liveProgressView_def ref_def answered_def)
  have names: "isRunStatus (Some (JStr (run_status_name (srStatus stored))))" "isRunMode (Some (JStr (run_mode_name (srMode stored))))"
      "isRunProductMode (Some (JStr (productModeOf (srMode stored))))"
    by (cases "srStatus stored"; simp add: isRunStatus_def)
      (cases "srMode stored"; simp add: isRunMode_def isRunProductMode_def)+
  have empty: "isStringArray (Some (JArr []))" by (simp add: isStringArray_def)
  have zero: "is_integer 0" by (simp add: is_integer_def)
  from ref show ?thesis
    by (elim disjE exE)
      (simp_all add: view isRunProgressViewPayload_def run_head_def no_progress_def built run_fields_def names empty zero)
qed

end
