(* ===== verification/Wire_Facts.thy ===== *)
theory Wire_Facts
  imports Wire_Contract
begin

text \<open>
  What the workflow envelope of the BFF needs to pass the Studio's guard: the parts of a contract whose
  numbers are natural numbers, and trust summaries, which the normalization of the BFF leaves valid.
\<close>

section \<open>Natural numbers in a contract\<close>

fun natural_json :: "json \<Rightarrow> bool" where
  "natural_json (JNum (Finite q)) \<longleftrightarrow> is_integer q \<and> 0 \<le> q"
| "natural_json (JNum (Infinite b)) \<longleftrightarrow> False"
| "natural_json (JArr js) \<longleftrightarrow> list_all natural_json js"
| "natural_json (JObj fs) \<longleftrightarrow> list_all (\<lambda>p. natural_json (snd p)) fs"
| "natural_json _ \<longleftrightarrow> True"

definition naturals :: "json option \<Rightarrow> bool" where
  "naturals v \<longleftrightarrow> (case v of None \<Rightarrow> True | Some j \<Rightarrow> natural_json j)"

lemma naturals_field: "naturals v \<Longrightarrow> naturals (js_field v k)"
  by (cases v) (force simp: naturals_def js_field_def list_all_iff dest!: map_of_SomeD split: json.splits option.splits)+

lemma naturals_items: "naturals v \<Longrightarrow> js_array v = Some js \<Longrightarrow> j \<in> set js \<Longrightarrow> naturals (Some j)"
  by (cases v) (auto simp: naturals_def js_array_def list_all_iff split: json.splits)

lemma naturals_number: "naturals v \<Longrightarrow> asNumber v = Some q \<Longrightarrow> is_integer q \<and> 0 \<le> q"
  by (cases v) (auto simp: naturals_def asNumber_def split: json.splits js_number.splits)

lemma is_integer_iff: "is_integer q \<longleftrightarrow> q \<in> \<int>"
  unfolding is_integer_def by (metis Ints_of_int Ints_cases floor_of_int)

lemma is_integer_diff: "is_integer p \<Longrightarrow> is_integer q \<Longrightarrow> is_integer (max 0 (p - q))"
  by (simp add: is_integer_iff max_def)

lemma naturals_default:
  "naturals v \<Longrightarrow> is_integer d \<Longrightarrow> 0 \<le> d \<Longrightarrow>
   is_integer (or_default (asNumber v) d) \<and> 0 \<le> or_default (asNumber v) d"
  by (cases "asNumber v") (auto dest: naturals_number)

lemma is_integer_0 [simp]: "is_integer 0"
  by (simp add: is_integer_iff)

lemma budget_conforms:
  assumes "asRepairBudget v = Some b" and "naturals v"
  shows "isRepairBudgetPayload (Some (budget_json b))"
proof -
  obtain l u where b: "asNumber (js_field v ''limit'') = Some l" "asNumber (js_field v ''used'') = Some u"
      "b = \<lparr>budgetLimit = l, budgetUsed = u,
            budgetRemaining = or_default (asNumber (js_field v ''remaining'')) (max 0 (l - u))\<rparr>"
    using assms(1) by (auto simp: asRepairBudget_def split: option.splits if_splits)
  have n: "is_integer l \<and> 0 \<le> l" "is_integer u \<and> 0 \<le> u"
    using b naturals_number naturals_field [OF assms(2)] by blast+
  have "is_integer (budgetRemaining b) \<and> 0 \<le> budgetRemaining b"
    unfolding b(3) by (simp, rule naturals_default) (use n naturals_field [OF assms(2)] in \<open>auto intro: is_integer_diff\<close>)
  then show ?thesis using n
    by (simp add: isRepairBudgetPayload_def budget_json_def built b(3))
qed

lemma artifact_ref_conforms:
  assumes "safeArtifactRef v = Some r" and "naturals v"
  shows "isWorkflowArtifactRefPayload (Some r)"
  using assms naturals_default [OF naturals_field [OF assms(2), of "''byteSize''"], of 0]
  by (auto simp: safeArtifactRef_def isWorkflowArtifactRefPayload_def built Let_def
      split: if_splits)

lemma attempt_conforms:
  assumes "sanitizeRepairAttempt j = Some a" and "naturals (Some j)"
  shows "isRepairAttemptSummaryPayload (Some a)"
proof -
  obtain n where n: "asNumber (js_field (Some j) ''attemptNumber'') = Some n" "1 \<le> n"
      "asString (js_field (Some j) ''repairDecision'') \<in> set REPAIR_DECISIONS"
    using assms(1) by (auto simp: sanitizeRepairAttempt_def Let_def split: option.splits if_splits)
  have "is_integer n" using naturals_number [OF naturals_field [OF assms(2)] n(1)] by blast
  with n assms(1) show ?thesis
    by (auto simp: sanitizeRepairAttempt_def Let_def isRepairAttemptSummaryPayload_def built
        isPositiveInteger_def W02_REPAIR_DECISIONS_def REPAIR_DECISIONS_def nonempty_field_def not_less)
qed

lemma attempts_conform:
  assumes "naturals v"
  shows "every_item isRepairAttemptSummaryPayload (Some (JArr (sanitizeRepairAttempts v)))"
proof -
  have "isRepairAttemptSummaryPayload (Some a)" if "a \<in> set (sanitizeRepairAttempts v)" for a
  proof -
    from that obtain j js where "js_array v = Some js" "j \<in> set js" "sanitizeRepairAttempt j = Some a"
      by (cases "js_array v") (auto simp: sanitizeRepairAttempts_def List.map_filter_def)
    then show ?thesis using attempt_conforms naturals_items [OF assms] by blast
  qed
  then show ?thesis by (simp add: list_all_iff)
qed

section \<open>Assist decisions\<close>

lemma nonempty_object_Some: "nonempty_object fs = Some j \<Longrightarrow> j = js_object fs"
  by (auto simp: nonempty_object_def split: if_splits)

lemma assist_ref_conforms:
  assumes "sanitizeAssistArtifactRef j = Some r" and "naturals (Some j)"
  shows "isAssistDecisionArtifactRefPayload (Some r)"
  using assms(1) naturals_number [OF naturals_field [OF assms(2), of "''byteSize''"]]
  by (auto simp: sanitizeAssistArtifactRef_def isAssistDecisionArtifactRefPayload_def built Let_def nonempty_field_def
      dest!: nonempty_object_Some split: option.splits)

lemma assist_refs_conform:
  assumes "naturals v"
  shows "list_all (\<lambda>j. isAssistDecisionArtifactRefPayload (Some j))
    (List.map_filter sanitizeAssistArtifactRef (or_default (js_array v) []))"
proof -
  have "isAssistDecisionArtifactRefPayload (Some r)"
    if "r \<in> set (List.map_filter sanitizeAssistArtifactRef (or_default (js_array v) []))" for r
  proof -
    from that obtain j js where "js_array v = Some js" "j \<in> set js" "sanitizeAssistArtifactRef j = Some r"
      by (cases "js_array v") (auto simp: List.map_filter_def)
    then show ?thesis using assist_ref_conforms naturals_items [OF assms] by blast
  qed
  then show ?thesis by (simp add: list_all_iff)
qed

lemma budget_field_conforms:
  "naturals v \<Longrightarrow> nullable isRepairBudgetPayload (Some (js_or_null budget_json (asRepairBudget v)))"
  by (auto intro: optional_or_null_intro budget_conforms)

lemma assist_lists: "ASSIST_DECISION_REASONS = ASSIST_REASON_CODES"
  by (simp add: ASSIST_DECISION_REASONS_def ASSIST_REASON_CODES_def)

lemma assist_decision_conforms:
  assumes "sanitizeAssistDecision v = Some d" and "naturals v"
  shows "isAssistDecisionSummaryPayload (Some d)"
proof -
  define role where "role = (if asString (js_field v ''selectedAgentRole'') \<in> set ASSIST_DECISION_AGENT_ROLES
    then Some (asString (js_field v ''selectedAgentRole'')) else None)"
  define outcome where "outcome = asString (js_field v ''outcome'')"
  define refs where "refs = List.map_filter sanitizeAssistArtifactRef
    (or_default (js_array (js_field v ''affectedArtifactRefs'')) [])"
  define snap where "snap = (\<lambda>k. js_or_null budget_json (asRepairBudget (js_field v k)))"
  have cond: "outcome \<in> set ASSIST_DECISION_OUTCOMES" "asString (js_field v ''reasonCode'') \<in> set ASSIST_REASON_CODES"
      "asString (js_field v ''decidedAt'') \<noteq> []"
      "\<not> (outcome = ''assist_required'' \<and> role = None)" "\<not> (outcome = ''assist_not_required'' \<and> role \<noteq> None)"
    and d: "d = js_object
        [(''outcome'', Some (JStr outcome)), (''reasonCode'', Some (JStr (asString (js_field v ''reasonCode'')))),
         (''decidedAt'', Some (JStr (asString (js_field v ''decidedAt'')))), (''selectedAgentRole'', Some (js_or_null JStr role)),
         (''affectedArtifactRefs'', Some (JArr refs)), (''repairBudgetSnapshot'', Some (snap ''repairBudgetSnapshot'')),
         (''assistBudgetSnapshot'', Some (snap ''assistBudgetSnapshot'')),
         (''modelInvocationBudgetSnapshot'', Some (snap ''modelInvocationBudgetSnapshot'')),
         (''rationale'', Some (or_default (nonempty_field (asString (js_field v ''rationale''))) JNull))]"
    using assms(1) unfolding sanitizeAssistDecision_def Let_def role_def outcome_def refs_def snap_def assist_lists
    by (auto split: if_split_asm)
  have n: "naturals (js_field v k)" for k by (rule naturals_field [OF assms(2)])
  have "list_all (\<lambda>j. isAssistDecisionArtifactRefPayload (Some j)) refs"
    unfolding refs_def by (rule assist_refs_conform [OF n])
  moreover have "nullable isRepairBudgetPayload (Some (snap k))" for k
    unfolding snap_def by (rule budget_field_conforms [OF n])
  moreover have "nullable isString (Some (or_default (nonempty_field s) JNull))" for s
    by (simp add: nonempty_field_def)
  moreover have "outcome = ''assist_required'' \<and> role = Some ''transformation_agent'' \<or>
      outcome = ''assist_not_required'' \<and> role = None"
  proof -
    have "role = None \<or> role = Some ''transformation_agent''"
      by (simp add: role_def ASSIST_DECISION_AGENT_ROLES_def)
    moreover have "outcome = ''assist_required'' \<or> outcome = ''assist_not_required''"
      using cond(1) by (simp add: ASSIST_DECISION_OUTCOMES_def)
    ultimately show ?thesis using cond(4,5) by metis
  qed
  moreover have "js_field (Some d) ''outcome'' = Some (JStr outcome)"
      "js_field (Some d) ''reasonCode'' = Some (JStr (asString (js_field v ''reasonCode'')))"
      "js_field (Some d) ''decidedAt'' = Some (JStr (asString (js_field v ''decidedAt'')))"
      "js_field (Some d) ''selectedAgentRole'' = Some (js_or_null JStr role)"
      "js_field (Some d) ''affectedArtifactRefs'' = Some (JArr refs)"
      "js_field (Some d) ''repairBudgetSnapshot'' = Some (snap ''repairBudgetSnapshot'')"
      "js_field (Some d) ''assistBudgetSnapshot'' = Some (snap ''assistBudgetSnapshot'')"
      "js_field (Some d) ''modelInvocationBudgetSnapshot'' = Some (snap ''modelInvocationBudgetSnapshot'')"
      "js_field (Some d) ''rationale'' = Some (or_default (nonempty_field (asString (js_field v ''rationale''))) JNull)"
      "isRecord (Some d)"
    by (simp_all add: d js_object_first)
  ultimately show ?thesis using cond(2,3)
    by (elim disjE) (simp_all add: isAssistDecisionSummaryPayload_def has_fields_def nonempty_string_def js_or_null_def
      del: or_null_guard js_or_null_guard)
qed

section \<open>Trust summaries\<close>

text \<open>A guard is stable when the normalization of a value that passes it passes it again.\<close>

definition stable :: "(json option \<Rightarrow> bool) \<Rightarrow> bool" where
  "stable P \<longleftrightarrow> (\<forall>j. P (Some j) \<longrightarrow> (\<exists>j'. normalizeTrustSummaryValue j = Some j' \<and> P (Some j')))"

lemma stable_string: "stable isString" "stable (one_of names)"
  by (auto simp: stable_def isString_def one_of_def split: json.splits)

lemma stable_natural: "stable isNonNegativeInteger"
  by (auto simp: stable_def isNonNegativeInteger_def asNumber_def split: json.splits js_number.splits)

lemma stable_optional: "stable P \<Longrightarrow> stable (optional P)" "stable P \<Longrightarrow> stable (optional_or_null P)"
  by (auto simp: stable_def optional_def optional_or_null_def js_null_def)

lemma normalize_entries_filter: "normalize_entries js = List.map_filter normalizeTrustSummaryValue js"
  by (induction js) (auto simp: List.map_filter_simps split: option.splits)

lemma stable_every: "stable P \<Longrightarrow> stable (every_item P)"
  by (auto simp: stable_def every_item_def list_all_iff normalize_entries_filter List.map_filter_def
      split: json.splits option.splits)

lemma normalize_fields_lookup:
  "assignable k \<Longrightarrow> js_get fs k = Some v \<Longrightarrow> normalizeTrustSummaryValue v = Some v' \<Longrightarrow>
   js_get (normalize_fields fs) k = Some v'"
  "js_get fs k = None \<Longrightarrow> js_get (normalize_fields fs) k = None"
  by (induction fs) (auto split: option.splits if_splits)

lemma stable_fields:
  assumes "\<forall>(k, P)\<in>set table. stable P \<and> assignable k"
  shows "stable (has_fields table)"
  unfolding stable_def
proof (intro allI impI)
  fix j assume ok: "has_fields table (Some j)"
  then obtain fs where j: "j = JObj fs" by (auto simp: has_fields_def isRecord_def split: json.splits)
  have "P (js_field (Some (JObj (normalize_fields fs))) k)" if "(k, P) \<in> set table" for k P
  proof -
    have P: "P (js_get fs k)" "stable P" "assignable k"
      using ok that assms by (auto simp: has_fields_def list_all_iff j js_field_def)
    show ?thesis
    proof (cases "js_get fs k")
      case None
      then show ?thesis using P by (simp add: js_field_def normalize_fields_lookup)
    next
      case (Some v)
      then obtain v' where "normalizeTrustSummaryValue v = Some v'" "P (Some v')" using P by (auto simp: stable_def)
      then show ?thesis using Some P by (simp add: js_field_def normalize_fields_lookup)
    qed
  qed
  then show "\<exists>j'. normalizeTrustSummaryValue j = Some j' \<and> has_fields table (Some j')"
    by (auto simp: j has_fields_def list_all_iff)
qed

lemmas stable_intros = stable_string stable_natural stable_optional stable_every stable_fields

lemma stable_output_ref: "stable isOutputRef"
  unfolding isOutputRef_def
  by (rule stable_fields) (auto simp: assignable_def intro: stable_intros)

lemma stable_repair_status: "stable trust_repair_status"
  by (simp add: trust_repair_status_def stable_string)

lemma output_refs_table: "(k, P) \<in> set (output_refs ks) \<Longrightarrow> k \<in> set ks \<and> P = optional_or_null isOutputRef"
  by (auto simp: output_refs_def)

lemma stable_part:
  assumes "\<forall>(k, P)\<in>set table. stable P \<and> assignable k" and "\<forall>k\<in>set ks. assignable k"
  shows "stable (has_fields (table @ output_refs ks))"
  using assms stable_output_ref
  by (intro stable_fields) (auto dest!: output_refs_table intro: stable_optional)

text \<open>The top level of a summary: fields that end in \<open>At\<close> keep strings that are not empty.\<close>

lemma summary_field_key: "trust_summary_field (k, v) = Some p \<Longrightarrow> fst p = k"
  by (auto split: if_splits)

lemma map_filter_Cons: "List.map_filter f (x # xs) = (case f x of None \<Rightarrow> List.map_filter f xs | Some y \<Rightarrow> y # List.map_filter f xs)"
  by (simp add: List.map_filter_simps)

lemma summary_lookup:
  "js_get fs k = Some v \<Longrightarrow> trust_summary_field (k, v) = Some (k, v') \<Longrightarrow>
   js_get (List.map_filter trust_summary_field fs) k = Some v'"
  "js_get fs k = None \<Longrightarrow> js_get (List.map_filter trust_summary_field fs) k = None"
proof (induction fs)
  case (Cons p fs)
  obtain k0 v0 where p: "p = (k0, v0)" by (cases p)
  { case 1 then show ?case
      using Cons.IH(1) summary_field_key [of k0 v0]
      by (cases "trust_summary_field (k0, v0)") (auto simp: p map_filter_Cons simp del: trust_summary_field.simps split: if_splits)
  next
    case 2 then show ?case
      using Cons.IH(2) summary_field_key [of k0 v0]
      by (cases "trust_summary_field (k0, v0)") (auto simp: p map_filter_Cons simp del: trust_summary_field.simps split: if_splits)
  }
qed (simp_all add: List.map_filter_simps)

lemma summary_timestamp:
  "ends_with k ''At'' \<Longrightarrow> k \<noteq> ''evidenceRefs'' \<Longrightarrow>
   optional_or_null isString (js_get (List.map_filter trust_summary_field fs) k)"
proof (induction fs)
  case (Cons p fs)
  obtain k0 v0 where p: "p = (k0, v0)" by (cases p)
  show ?case
  proof (cases "trust_summary_field (k0, v0)")
    case None
    then show ?thesis using Cons by (simp add: p map_filter_Cons del: trust_summary_field.simps)
  next
    case (Some q)
    then show ?thesis using Cons
      by (auto simp: p map_filter_Cons asTimestampString_def nonempty_field_def optional_or_null_def split: if_splits)
  qed
qed (simp add: List.map_filter_simps)

lemma plain_summary_field:
  assumes "P (js_get fs k)" "stable P" "assignable k" "k \<noteq> ''evidenceRefs''" "\<not> ends_with k ''At''"
  shows "P (js_get (List.map_filter trust_summary_field fs) k)"
proof (cases "js_get fs k")
  case None
  then show ?thesis using assms by (simp add: summary_lookup)
next
  case (Some v)
  then obtain v' where "normalizeTrustSummaryValue v = Some v'" "P (Some v')" using assms by (auto simp: stable_def)
  moreover from this have "trust_summary_field (k, v) = Some (k, v')" using assms by simp
  ultimately show ?thesis using summary_lookup(1) [OF Some] by simp
qed

lemma part_keys:
  "list_all (\<lambda>k. assignable k \<and> k \<noteq> ''evidenceRefs'' \<and> \<not> ends_with k ''At'') (map fst trust_summary_parts)"
  by (simp add: trust_summary_parts_def assignable_def ends_with_def suffix_def)

lemma part_stable: "list_all stable (map snd trust_summary_parts)"
proof -
  have s: "stable (has_fields (map (\<lambda>k. (k, isString)) ks))" if "list_all assignable ks" for ks
    using that by (intro stable_fields) (auto simp: list_all_iff intro: stable_intros)
  have p: "stable (has_fields ((''status'', P) # output_refs ks))" if "stable P" "list_all assignable ks" for P ks
    using stable_part [of "[(''status'', P)]" ks] that by (simp add: list_all_iff assignable_def)
  have q: "stable (has_fields ([(''status'', P), (k, Q)] @ output_refs ks))"
    if "stable P" "stable Q" "assignable k" "list_all assignable ks" for P Q k ks
    using stable_part [of "[(''status'', P), (k, Q)]" ks] that by (simp add: list_all_iff assignable_def)
  note r = q [unfolded append_Cons append_Nil]
  show ?thesis
    by (simp add: trust_summary_parts_def stable_intros stable_output_ref stable_repair_status s p r assignable_def)
qed

text \<open>A reported summary that is absent or complete.\<close>

definition complete_trust :: "json option \<Rightarrow> bool" where
  "complete_trust v \<longleftrightarrow> js_null v \<or> (isTrustSummaryPayload v \<and> asString (js_field v ''summaryDerivedAt'') \<noteq> [])"

lemma trust_summary_conforms:
  assumes "normalizeTrustSummary v = Some s" and "complete_trust v"
  shows "isTrustSummaryPayload (Some s)"
proof -
  obtain fs where v: "v = Some (JObj fs)" and s: "s = JObj (List.map_filter trust_summary_field fs)"
    using assms(1) by (auto simp: normalizeTrustSummary_def Let_def split: option.splits json.splits if_splits)
  let ?gs = "List.map_filter trust_summary_field fs"
  have ok: "has_fields trust_summary_parts v" and derived: "asString (js_get fs ''summaryDerivedAt'') \<noteq> []"
    using assms(2) by (auto simp: complete_trust_def js_null_def v isTrustSummaryPayload_def has_fields_def js_field_def)
  have "P (js_get ?gs k)" if "(k, P) \<in> set trust_summary_parts" for k P
  proof (rule plain_summary_field)
    show "P (js_get fs k)" using ok that by (auto simp: has_fields_def list_all_iff v js_field_def)
    show "stable P" using part_stable that by (force simp: list_all_iff)
    show "assignable k" "k \<noteq> ''evidenceRefs''" "\<not> ends_with k ''At''" using part_keys that by (force simp: list_all_iff)+
  qed
  moreover have "optional_or_null isString (js_get ?gs ''comparisonCompletedAt'')"
      "optional_or_null isString (js_get ?gs ''repairVerifiedAt'')"
    by (rule summary_timestamp; simp add: ends_with_def suffix_def)+
  moreover have "isString (js_get ?gs ''summaryDerivedAt'')"
  proof -
    from derived obtain t where t: "js_get fs ''summaryDerivedAt'' = Some (JStr t)" "t \<noteq> []"
      by (auto simp: asString_def split: option.splits json.splits)
    have "trust_summary_field (''summaryDerivedAt'', JStr t) = Some (''summaryDerivedAt'', JStr t)"
      using t(2) by (simp add: ends_with_def suffix_def asTimestampString_def nonempty_field_def)
    then show ?thesis using summary_lookup(1) [OF t(1)] by simp
  qed
  ultimately show ?thesis
    by (auto simp: isTrustSummaryPayload_def has_fields_def s js_field_def list_all_iff)
qed

lemma trust_null: "js_null v \<Longrightarrow> normalizeTrustSummary v = None"
  by (auto simp: js_null_def normalizeTrustSummary_def)

lemma or_else_Some: "or_else a b = Some x \<longleftrightarrow> a = Some x \<or> a = None \<and> b = Some x"
  by (cases a) auto

lemma complete_trust_conforms:
  assumes "extractTrustSummary c = Some s"
    and "complete_trust (js_field c ''trustSummary'')" "complete_trust (js_field (js_field c ''run'') ''trustSummary'')"
      "complete_trust (js_field (js_field c ''contract'') ''trustSummary'')"
  shows "isTrustSummaryPayload (Some s)"
  using assms trust_summary_conforms by (auto simp: extractTrustSummary_def or_else_Some)

section \<open>The envelope\<close>

definition NUMERIC_CONTRACT_FIELDS :: "string list" where
  "NUMERIC_CONTRACT_FIELDS =
     [''agentAttemptCount'', ''repairBudget'', ''assistBudget'', ''modelInvocationBudget'', ''repairAttempts'',
      ''assistDecision'', ''generatedJavaRef'', ''buildTestResultRef'', ''evidencePackRef'']"

definition numeric_contract :: "json option \<Rightarrow> bool" where
  "numeric_contract c \<longleftrightarrow> list_all (\<lambda>k. naturals (js_field c k)) NUMERIC_CONTRACT_FIELDS"

text \<open>A failure code that \<open>mapOrchestratorFailureCode\<close> finds in the prototype of its table.\<close>

definition inherited_failure_code :: "json option \<Rightarrow> bool" where
  "inherited_failure_code c \<longleftrightarrow> js_trim (asString (js_field c ''failureCode'')) \<in> set object_prototype_members"

lemma code_names: "ui_code_name code \<in> set W02_ERROR_CODE_NAMES"
  by (cases code) (simp_all add: W02_ERROR_CODE_NAMES_def)

lemma final_names: "final_name c \<in> set W02_FINAL_CLASSIFICATIONS"
  by (cases c) (simp_all add: W02_FINAL_CLASSIFICATIONS_def)

lemma active_agents: "deriveActiveAgent step = Some agent \<Longrightarrow> agent \<in> set W02_ACTIVE_AGENTS"
  by (auto simp: deriveActiveAgent_def Let_def W02_ACTIVE_AGENTS_def split: option.splits if_splits)

lemma mapped_ui_code:
  assumes "js_trim (asString raw) \<notin> set object_prototype_members" and "mapOrchestratorFailureCode raw = Some code"
  shows "\<exists>u. code = UiCode u"
  using assms by (auto simp: mapOrchestratorFailureCode_def Let_def split: option.splits json.splits if_splits)

lemma mapped_inherited_code:
  assumes "js_trim (asString raw) \<in> set object_prototype_members"
  shows "mapOrchestratorFailureCode raw = Some (InheritedCode (js_trim (asString raw)))"
proof -
  have "list_all (\<lambda>name. name \<noteq> [] \<and> map_of ORCHESTRATOR_TO_UI name = None) object_prototype_members" by code_simp
  then have members: "name \<noteq> [] \<and> map_of ORCHESTRATOR_TO_UI name = None" if "name \<in> set object_prototype_members" for name
    using that by (auto simp: list_all_iff)
  have "js_trim (asString raw) \<noteq> []" using members [OF assms] by simp
  then obtain t where "raw = Some (JStr t)" by (cases raw rule: as_string.cases) (auto simp: asString_def js_trim_def)
  then show ?thesis using assms members by (simp add: mapOrchestratorFailureCode_def Let_def asString_def)
qed

lemma contract_failure_conforms:
  assumes "contract_failure c = Some f" and "\<not> inherited_failure_code c"
  shows "\<exists>u m. f = \<lparr>mfCode = UiCode u, mfMessage = Some m\<rparr>"
  using assms mapped_ui_code [OF assms(2) [unfolded inherited_failure_code_def]]
  by (auto simp: contract_failure_def Let_def mapFailure_def split: option.splits if_splits)

lemma contract_failure_inherited:
  "inherited_failure_code c \<Longrightarrow> \<exists>f name. contract_failure c = Some f \<and> mfCode f = InheritedCode name"
  using mapped_inherited_code by (auto simp: inherited_failure_code_def contract_failure_def Let_def mapFailure_def)

lemma failure_fields_conform:
  assumes "\<And>f. failure = Some f \<Longrightarrow> \<exists>u m. f = \<lparr>mfCode = UiCode u, mfMessage = Some m\<rparr>"
  shows "\<exists>code msg. failure_fields failure = [(''failureCode'', Some code), (''failureMessage'', Some msg)] \<and>
    nullable (one_of W02_ERROR_CODE_NAMES) (Some code) \<and> nullable isString (Some msg)"
proof (cases failure)
  case None
  then show ?thesis by (simp add: failure_fields_def)
next
  case (Some f)
  from assms [OF this] obtain u m where "f = \<lparr>mfCode = UiCode u, mfMessage = Some m\<rparr>" by blast
  then show ?thesis using Some code_names by (simp add: failure_fields_def)
qed

text \<open>The parts of a snapshot that the guard looks into: the ones that the BFF shapes itself, and the other two.\<close>

definition shaped_snapshot :: "workflow_snapshot \<Rightarrow> bool" where
  "shaped_snapshot s \<longleftrightarrow>
     is_integer (wsAttemptCount s) \<and> 0 \<le> wsAttemptCount s \<and>
     list_all (\<lambda>b. nullable isRepairBudgetPayload (Some (js_or_null budget_json b)))
       [wsRepairBudget s, wsAssistBudget s, wsModelBudget s] \<and>
     every_item isRepairAttemptSummaryPayload (Some (JArr (wsRepairAttempts s))) \<and>
     nullable isAssistDecisionSummaryPayload (Some (or_default (wsAssistDecision s) JNull)) \<and>
     (\<forall>agent. wsActiveAgent s = Some agent \<longrightarrow> agent \<in> set W02_ACTIVE_AGENTS) \<and>
     list_all (\<lambda>r. nullable isWorkflowArtifactRefPayload (Some (or_default r JNull)))
       [wsGeneratedRef s, wsBuildTestRef s, wsEvidenceRef s]"

definition accepted_trust :: "json option \<Rightarrow> bool" where
  "accepted_trust t \<longleftrightarrow> (\<forall>j. t = Some j \<longrightarrow> j = JNull \<or> isTrustSummaryPayload (Some j))"

definition accepted_failure :: "mapped_failure option \<Rightarrow> bool" where
  "accepted_failure failure \<longleftrightarrow> (\<forall>f. failure = Some f \<longrightarrow> (\<exists>u m. f = \<lparr>mfCode = UiCode u, mfMessage = Some m\<rparr>))"

lemma accepted_trust_guard: "accepted_trust t \<longleftrightarrow> optional_or_null isTrustSummaryPayload (Some (or_default t JNull))"
  by (cases t) (auto simp: accepted_trust_def optional_or_null_def js_null_def)

lemma mode_names: "run_mode_name m \<in> {''live'', ''diagnostic-fixture''}" "productModeOf m \<in> {''live'', ''unavailable''}"
  by (cases m; simp)+

lemma source_names: "source_name s \<in> {''live'', ''cached'', ''unavailable''}"
  by (cases s) simp_all

lemma trust_case_guard: "isTrustCaseWorkflowSnapshotPayload (Some (trust_case_json t))"
  by (simp add: isTrustCaseWorkflowSnapshotPayload_def trust_case_json_def built)

lemma envelope_conforms:
  assumes "shaped_snapshot s" and "accepted_trust (wsTrustSummary s)" and "accepted_failure (wsFailure s)"
  shows "isRunWorkflowViewPayload (Some (workflowEnvelope stored s source))"
proof -
  obtain code msg where f: "failure_fields (wsFailure s) = [(''failureCode'', Some code), (''failureMessage'', Some msg)]"
      "nullable (one_of W02_ERROR_CODE_NAMES) (Some code)" "nullable isString (Some msg)"
    using failure_fields_conform [of "wsFailure s"] assms(3) by (auto simp: accepted_failure_def)
  have texts: "nullable isString (Some (js_or_null JStr x))" for x by simp
  have parts: "nullable (one_of W02_ACTIVE_AGENTS) (Some (js_or_null JStr (wsActiveAgent s)))"
      "nullable isTrustCaseWorkflowSnapshotPayload (Some (js_or_null trust_case_json (wsTrustCase s)))"
      "nullable (one_of W02_FINAL_CLASSIFICATIONS) (Some (js_or_null (JStr \<circ> final_name) (wsFinal s)))"
  proof -
    show "nullable (one_of W02_ACTIVE_AGENTS) (Some (js_or_null JStr (wsActiveAgent s)))"
      using assms by (simp add: shaped_snapshot_def)
    show "nullable isTrustCaseWorkflowSnapshotPayload (Some (js_or_null trust_case_json (wsTrustCase s)))"
      using trust_case_guard optional_or_null_intro(2) by simp
    show "nullable (one_of W02_FINAL_CLASSIFICATIONS) (Some (js_or_null (JStr \<circ> final_name) (wsFinal s)))"
      by (simp add: final_names)
  qed
  show ?thesis
    using assms(1,2) [unfolded accepted_trust_guard] mode_names [of "srMode stored"] source_names [of source] f(2,3) texts parts
    by (simp add: shaped_snapshot_def isRunWorkflowViewPayload_def workflowEnvelope_def run_head_def f(1) built
        run_fields_def isRunMode_def isRunProductMode_def optional_or_null_def nullable_def js_null_def
        del: or_null_guard js_or_null_guard)
qed

lemma envelope_refused:
  assumes "\<not> accepted_trust (wsTrustSummary s) \<or> (\<exists>f name. wsFailure s = Some f \<and> mfCode f = InheritedCode name)"
  shows "\<not> isRunWorkflowViewPayload (Some (workflowEnvelope stored s source))"
  using assms
proof
  assume "\<not> accepted_trust (wsTrustSummary s)"
  moreover have "js_field (Some (workflowEnvelope stored s source)) ''trustSummary'' = Some (or_default (wsTrustSummary s) JNull)"
    by (simp add: workflowEnvelope_def failure_fields_def run_head_def built split: option.splits)
  ultimately show ?thesis
    unfolding isRunWorkflowViewPayload_def
    by (intro has_fields_refused [of "''trustSummary''" "optional_or_null isTrustSummaryPayload"])
      (simp_all add: accepted_trust_guard del: or_null_guard js_or_null_guard)
next
  assume "\<exists>f name. wsFailure s = Some f \<and> mfCode f = InheritedCode name"
  then obtain f name where f: "wsFailure s = Some f" "mfCode f = InheritedCode name" by blast
  have "js_field (Some (workflowEnvelope stored s source)) ''failureCode'' = inherited_json name"
    by (cases "inherited_json name") (simp_all add: workflowEnvelope_def failure_fields_def run_head_def built f)
  then show ?thesis
    unfolding isRunWorkflowViewPayload_def
    by (intro has_fields_refused [of "''failureCode''" "nullable (one_of W02_ERROR_CODE_NAMES)"])
      (simp_all add: nullable_def one_of_def inherited_json_def js_null_def)
qed

lemma snapshot_shaped:
  assumes "numeric_contract c"
  shows "shaped_snapshot (snapshotFromContract c)"
proof (cases c)
  case None
  then show ?thesis by (simp add: snapshotFromContract_def EMPTY_WORKFLOW_SNAPSHOT_def shaped_snapshot_def)
next
  case (Some j)
  have n: "naturals (js_field c k)" if "k \<in> set NUMERIC_CONTRACT_FIELDS" for k
    using assms that by (simp add: numeric_contract_def list_all_iff)
  have budgets: "nullable isRepairBudgetPayload (Some (js_or_null budget_json (asRepairBudget (js_field c k))))"
    if "k \<in> set NUMERIC_CONTRACT_FIELDS" for k
    by (rule budget_field_conforms [OF n [OF that]])
  have count: "is_integer (or_default (asNumber (js_field c ''agentAttemptCount'')) 0) \<and>
      0 \<le> or_default (asNumber (js_field c ''agentAttemptCount'')) 0"
    by (rule naturals_default [OF n]) (simp_all add: NUMERIC_CONTRACT_FIELDS_def)
  have attempts: "every_item isRepairAttemptSummaryPayload (Some (JArr (sanitizeRepairAttempts (js_field c ''repairAttempts''))))"
    by (rule attempts_conform [OF n]) (simp add: NUMERIC_CONTRACT_FIELDS_def)
  have assist: "nullable isAssistDecisionSummaryPayload
      (Some (or_default (sanitizeAssistDecision (js_field c ''assistDecision'')) JNull))"
  proof -
    have "naturals (js_field c ''assistDecision'')" by (rule n) (simp add: NUMERIC_CONTRACT_FIELDS_def)
    then show ?thesis using assist_decision_conforms optional_or_null_intro(2) by simp
  qed
  have refs: "nullable isWorkflowArtifactRefPayload (Some (or_default (safeArtifactRef (js_field c k)) JNull))"
    if "k \<in> set NUMERIC_CONTRACT_FIELDS" for k
    using artifact_ref_conforms [OF _ n [OF that]] optional_or_null_intro(2) by simp
  have agents: "\<forall>agent. deriveActiveAgent step = Some agent \<longrightarrow> agent \<in> set W02_ACTIVE_AGENTS" for step
    using active_agents by blast
  have keys: "''repairBudget'' \<in> set NUMERIC_CONTRACT_FIELDS" "''assistBudget'' \<in> set NUMERIC_CONTRACT_FIELDS"
      "''modelInvocationBudget'' \<in> set NUMERIC_CONTRACT_FIELDS" "''generatedJavaRef'' \<in> set NUMERIC_CONTRACT_FIELDS"
      "''buildTestResultRef'' \<in> set NUMERIC_CONTRACT_FIELDS" "''evidencePackRef'' \<in> set NUMERIC_CONTRACT_FIELDS"
    by (simp_all add: NUMERIC_CONTRACT_FIELDS_def)
  show ?thesis
    using Some count attempts assist agents budgets [OF keys(1)] budgets [OF keys(2)] budgets [OF keys(3)]
      refs [OF keys(4)] refs [OF keys(5)] refs [OF keys(6)]
    by (simp add: snapshotFromContract_def shaped_snapshot_def Let_def del: or_null_guard js_or_null_guard every_item_simps)
qed

end
