(* ===== verification/Run_Store_Facts.thy ===== *)
theory Run_Store_Facts
  imports Bff_File_Routes
begin

text \<open>
  The run store of the BFF under the polls of the browser: every write goes to the run that the request
  names, keeps its identity, and happens only on an answer of the orchestrator.
\<close>

section \<open>A contract for updates\<close>

definition run_store_ok :: "run_table \<Rightarrow> bool" where
  "run_store_ok runs \<longleftrightarrow> js_map_ok runs \<and> (\<forall>rid r. getRun rid runs = Some r \<longrightarrow> srRunId r = rid)"

definition same_run :: "stored_run \<Rightarrow> stored_run \<Rightarrow> bool" where
  "same_run r r' \<longleftrightarrow>
     srRunId r' = srRunId r \<and> srProgramId r' = srProgramId r \<and> srMode r' = srMode r \<and> srCreatedAt r' = srCreatedAt r \<and>
     srLiveRunId r' = srLiveRunId r \<and> srExecutionMode r' = srExecutionMode r \<and> srSample r' = srSample r \<and>
     srFixture r' = srFixture r"

lemma same_run_refl [simp]: "same_run r r"
  by (simp add: same_run_def)

lemma same_run_trans: "same_run a b \<Longrightarrow> same_run b c \<Longrightarrow> same_run a c"
  by (simp add: same_run_def)

text \<open>
  What a component that owns one entry of a store may do to it: \<open>touch\<close> is an update of an entry that
  keeps an identity, and any number of them leaves the other entries alone.
\<close>

locale keyed_updates =
  fixes update :: "'k \<Rightarrow> ('r \<Rightarrow> 'r) \<Rightarrow> ('k, 'r) js_map \<Rightarrow> ('k, 'r) js_map" and same :: "'r \<Rightarrow> 'r \<Rightarrow> bool"
  assumes update_other: "k \<noteq> rid \<Longrightarrow> js_get (update rid patch m) k = js_get m k"
    and update_own: "js_get (update rid patch m) rid = map_option patch (js_get m rid)"
    and update_ok: "js_map_ok m \<Longrightarrow> js_map_ok (update rid patch m)"
    and same_refl: "same r r" and same_trans: "same a b \<Longrightarrow> same b c \<Longrightarrow> same a c"
begin

definition keeps :: "'k \<Rightarrow> ('k, 'r) js_map \<Rightarrow> ('k, 'r) js_map \<Rightarrow> bool" where
  "keeps rid m m' \<longleftrightarrow>
     (js_map_ok m \<longrightarrow> js_map_ok m') \<and> (\<forall>k. k \<noteq> rid \<longrightarrow> js_get m' k = js_get m k) \<and>
     rel_option same (js_get m rid) (js_get m' rid)"

lemma keeps_refl: "keeps rid m m"
  by (auto simp: keeps_def option.rel_refl same_refl)

lemma keeps_trans: "keeps rid m m' \<Longrightarrow> keeps rid m' m'' \<Longrightarrow> keeps rid m m''"
  by (auto simp: keeps_def option_rel_Some1 elim!: option.rel_cases intro: same_trans)

lemma update_keeps: "(\<And>r. same r (patch r)) \<Longrightarrow> keeps rid m (update rid patch m)"
  by (cases "js_get m rid") (simp_all add: keeps_def update_other update_own update_ok)

lemma keeps_get: "keeps rid m m' \<Longrightarrow> js_get m rid = Some r \<Longrightarrow> \<exists>r'. js_get m' rid = Some r' \<and> same r r'"
  by (auto simp: keeps_def option_rel_Some1)

lemma keeps_all: "keeps rid m m' \<Longrightarrow> rel_option same (js_get m k) (js_get m' k)"
  by (cases "k = rid") (auto simp: keeps_def option.rel_refl same_refl)

end

text \<open>A write with the time of the write folded into the patch.\<close>

definition stamped_write :: "string \<Rightarrow> (stored_run \<Rightarrow> stored_run) \<Rightarrow> run_table \<Rightarrow> run_table" where
  "stamped_write rid patch runs =
     (case js_get runs rid of None \<Rightarrow> runs | Some r \<Rightarrow> js_set rid (patch r) runs)"

interpretation polls: keyed_updates stamped_write same_run
  by unfold_locales
    (auto simp: stamped_write_def same_run_def split: option.splits intro: js_map_ok_set)

lemma updateRun_snd:
  "snd (updateRun now rid patch runs) = stamped_write rid (\<lambda>r. (patch r)\<lparr>srUpdatedAt := now\<rparr>) runs"
  by (simp add: stamped_write_def updateRun_def Let_def split: option.split)

lemma updateRun_fst: "fst (updateRun now rid patch runs) = js_get (snd (updateRun now rid patch runs)) rid"
  by (simp add: updateRun_def Let_def split: option.split)

lemma updateRun_keeps:
  "(\<And>r. same_run r (patch r)) \<Longrightarrow> polls.keeps rid runs (snd (updateRun now rid patch runs))"
  unfolding updateRun_snd by (rule polls.update_keeps) (simp add: same_run_def)

section \<open>The polls\<close>

lemma snapshot_keeps: "polls.keeps (srRunId stored) runs (snd (applyWorkflowSnapshotToStore now stored snapshot runs))"
  using updateRun_keeps [of "snapshot_patch snapshot" "srRunId stored" runs now]
  by (simp add: applyWorkflowSnapshotToStore_def snapshot_patch_def same_run_def split_beta)

lemma payload_keeps: "polls.keeps (srRunId stored) runs (snd (applyLiveRunPayload now stored payload runs))"
proof (cases "is_js_object payload")
  case True
  define run where "run = (if is_js_object (js_field payload ''run'') then js_field payload ''run'' else payload)"
  have "polls.keeps (srRunId stored) runs (snd (updateRun now (srRunId stored) (payload_patch stored run) runs))"
    by (rule updateRun_keeps) (simp add: payload_patch_def same_run_def)
  then show ?thesis using True by (simp add: applyLiveRunPayload_def run_def Let_def split_beta)
qed (simp add: applyLiveRunPayload_def polls.keeps_refl)

lemma fetch_keeps: "polls.keeps (srRunId stored) runs (snd (fetchWorkflowSnapshot now enabled stored answer runs))"
  using snapshot_keeps polls.keeps_refl
  by (simp add: fetchWorkflowSnapshot_def Let_def split_beta split: live_answer.split)

text \<open>The run that a poll returns is the one that it was asked for.\<close>

lemma applied_id: "js_get runs (srRunId stored) = Some stored \<Longrightarrow>
  srRunId (fst (applyLiveRunPayload now stored payload runs)) = srRunId stored"
  by (simp add: applyLiveRunPayload_def Let_def split_beta updateRun_def getRun_def payload_patch_def)

lemma patched_id:
  assumes "js_get runs rid = Some r" and "srRunId r = rid" and "\<And>r. same_run r (patch r)"
  shows "srRunId (or_default (fst (updateRun now rid patch runs)) d) = rid"
  using assms by (simp add: updateRun_def same_run_def Let_def)

lemma take_trust_keeps:
  fixes st now body
  defines "result \<equiv> take_trust_summary now body st"
  assumes own: "js_get (snd st) rid = Some r" "srRunId r = rid" "srRunId (fst st) = rid"
  shows "polls.keeps rid (snd st) (snd result)" "srRunId (fst (fst result)) = rid"
proof -
  have same: "same_run r (r\<lparr>srTrustSummary := t\<rparr>)" for r t by (simp add: same_run_def)
  show "polls.keeps rid (snd st) (snd result)"
    using updateRun_keeps [OF same] polls.keeps_refl own
    by (simp add: result_def take_trust_summary_def Let_def split: option.split)
  show "srRunId (fst (fst result)) = rid"
    using patched_id [OF own(1,2) same] own
    by (simp add: result_def take_trust_summary_def Let_def split: option.split)
qed

text \<open>One poll of the run: the payload, its trust summary, the workflow.\<close>

lemma refresh_keeps:
  assumes own: "js_get runs (srRunId stored) = Some stored"
  shows "polls.keeps (srRunId stored) runs (snd (refresh_run now enabled runAnswer workflowAnswer stored runs))"
proof -
  let ?rid = "srRunId stored"
  define first where "first = (case live_answer_of enabled stored runAnswer of
      Answered _ body \<Rightarrow> take_trust_summary now body (applyLiveRunPayload now stored body runs)
    | _ \<Rightarrow> ((stored, None), runs))"
  have first: "polls.keeps ?rid runs (snd first) \<and> srRunId (fst (fst first)) = ?rid"
  proof (cases "live_answer_of enabled stored runAnswer")
    case (Answered live body)
    let ?st = "applyLiveRunPayload now stored body runs"
    have k: "polls.keeps ?rid runs (snd ?st)" by (rule payload_keeps)
    obtain r where "js_get (snd ?st) ?rid = Some r" "srRunId r = ?rid"
      using polls.keeps_get [OF k own] by (auto simp: same_run_def)
    from take_trust_keeps [OF this applied_id [OF own]] polls.keeps_trans [OF k]
    show ?thesis by (auto simp: first_def Answered)
  qed (simp_all add: first_def polls.keeps_refl)
  have "polls.keeps ?rid runs (snd (fetchWorkflowSnapshot now enabled (fst (fst first)) workflowAnswer (snd first)))"
    using polls.keeps_trans [OF conjunct1 [OF first]] fetch_keeps [of "fst (fst first)"] first by simp
  then show ?thesis
    unfolding refresh_run_def first_def [symmetric]
    by (cases enabled) (simp_all add: Let_def split_beta polls.keeps_refl)
qed

section \<open>Sequences of polls\<close>

datatype poll =
  PollRun upstream_answer upstream_answer
| PollWorkflow upstream_answer
| PollTraceability upstream_answer

text \<open>A request at a time, with the orchestrator configured or not, for a run id.\<close>

type_synonym poll_request = "string \<times> bool \<times> string \<times> poll"

fun serve_poll :: "(string \<Rightarrow> string) \<Rightarrow> poll_request \<Rightarrow> run_table \<Rightarrow> run_table" where
  "serve_poll quote (now, enabled, rid, PollRun a b) runs = snd (run_route now quote enabled a b runs rid)"
| "serve_poll quote (now, enabled, rid, PollWorkflow a) runs = snd (workflow_route now quote enabled a runs rid)"
| "serve_poll quote (now, enabled, rid, PollTraceability a) runs = snd (traceability_route now quote enabled a runs rid)"

definition serve_polls :: "(string \<Rightarrow> string) \<Rightarrow> poll_request list \<Rightarrow> run_table \<Rightarrow> run_table" where
  "serve_polls quote requests runs = fold (serve_poll quote) requests runs"

fun poll_answers :: "poll \<Rightarrow> upstream_answer list" where
  "poll_answers (PollRun a b) = [a, b]"
| "poll_answers (PollWorkflow a) = [a]"
| "poll_answers (PollTraceability a) = [a]"

lemma serve_poll_keeps:
  assumes "run_store_ok runs"
  shows "polls.keeps rid runs (serve_poll quote (now, enabled, rid, p) runs)"
proof (cases "getRun rid runs")
  case None
  then show ?thesis
    by (cases p) (simp_all add: run_route_def workflow_route_def traceability_route_def polls.keeps_refl)
next
  case (Some stored)
  then have id: "srRunId stored = rid" and own: "js_get runs (srRunId stored) = Some stored"
    using assms by (auto simp: run_store_ok_def getRun_def)
  have trace: "polls.keeps rid runs (snd (updateRun now rid (\<lambda>r. r\<lparr>srJavaRegions := x\<rparr>) runs))" for x
    by (rule updateRun_keeps) (simp add: same_run_def)
  show ?thesis
    using refresh_keeps [OF own] fetch_keeps [of stored] id trace polls.keeps_refl
    by (cases p) (simp_all add: Some run_route_def workflow_route_def traceability_route_def Let_def split_beta)
qed

lemma keeps_store_ok:
  assumes "run_store_ok runs" and "polls.keeps rid runs runs'"
  shows "run_store_ok runs'"
proof -
  have "srRunId r' = k" if "js_get runs' k = Some r'" for k r'
    using polls.keeps_all [OF assms(2), of k] that assms(1)
    by (auto simp: run_store_ok_def getRun_def same_run_def option_rel_Some2)
  then show ?thesis using assms by (auto simp: run_store_ok_def getRun_def polls.keeps_def)
qed

text \<open>A poll without an answer writes nothing.\<close>

lemma unanswered_fetch: "unanswered enabled stored answer \<Longrightarrow> snd (fetchWorkflowSnapshot now enabled stored answer runs) = runs"
  by (auto simp: unanswered_def fetchWorkflowSnapshot_def split: live_answer.splits)

lemma unanswered_refresh:
  assumes "unanswered enabled stored a" and "unanswered enabled stored b"
  shows "snd (refresh_run now enabled a b stored runs) = runs"
proof -
  have first: "(case live_answer_of enabled stored a of
      Answered _ body \<Rightarrow> take_trust_summary now body (applyLiveRunPayload now stored body runs)
    | _ \<Rightarrow> ((stored, None), runs)) = ((stored, None), runs)"
    using assms(1) by (simp add: unanswered_def split: live_answer.splits)
  then show ?thesis
    using unanswered_fetch [OF assms(2)] unfolding refresh_run_def first
    by (cases enabled) (simp_all add: Let_def split_beta)
qed

lemma unanswered_poll:
  assumes "\<forall>stored. getRun rid runs = Some stored \<longrightarrow> list_all (unanswered enabled stored) (poll_answers p)"
  shows "serve_poll quote (now, enabled, rid, p) runs = runs"
proof (cases "getRun rid runs")
  case None
  then show ?thesis by (cases p) (simp_all add: run_route_def workflow_route_def traceability_route_def)
next
  case (Some stored)
  have trace: "\<not> snd (liveTraceabilityView enabled stored a)" if "unanswered enabled stored a" for a
    using that by (simp add: unanswered_def liveTraceabilityView_def split: live_answer.splits)
  show ?thesis
    using assms Some unanswered_refresh unanswered_fetch trace
    by (cases p) (simp_all add: run_route_def workflow_route_def traceability_route_def Let_def split_beta)
qed

end
