(* ===== verification/Wire_Properties.thy ===== *)
theory Wire_Properties
  imports Wire_Facts Run_Store_Facts
begin

text \<open>
  The properties of the BFF's run routes and of the Studio's client taken together.
\<close>

section \<open>From a response to the client\<close>

lemma fetch_ok: "fetchJson parser (reply_of (jsonResponse 200 j)) c = (parser j, c)"
  by (simp add: fetchJson_def reply_of_def jsonResponse_def response_ok_def)

lemma live_view_route:
  "getRun rid runs = Some stored \<Longrightarrow> srMode stored = LiveRun \<Longrightarrow>
   with_run quote runs rid (view_route (\<lambda>s. is_fixture s \<and> srFixture s \<noteq> None) fixtureView liveView) =
     jsonResponse 200 (liveView stored)"
  "getRun rid runs = Some stored \<Longrightarrow> srMode stored = LiveRun \<Longrightarrow>
   with_run quote runs rid (view_route is_fixture fixtureView liveView) = jsonResponse 200 (liveView stored)"
  by (simp_all add: with_run_def view_route_def is_fixture_def)

section \<open>The workflow view\<close>

text \<open>The contract that an answer carries, and the trust summary that the workflow view of a run then shows.\<close>

definition answered_contract :: "bool \<Rightarrow> stored_run \<Rightarrow> upstream_answer \<Rightarrow> json option" where
  "answered_contract enabled stored answer =
     (if is_fixture stored then None
      else case live_answer_of enabled stored answer of
        Answered _ body \<Rightarrow> asRecord (js_field body ''contract'')
      | _ \<Rightarrow> None)"

definition shown_trust :: "bool \<Rightarrow> stored_run \<Rightarrow> upstream_answer \<Rightarrow> json option" where
  "shown_trust enabled stored answer =
     (if is_fixture stored then None
      else or_else (extractTrustSummary (answered_contract enabled stored answer)) (srTrustSummary stored))"

text \<open>Whether the Studio can take the view of the run.\<close>

definition studio_takes :: "bool \<Rightarrow> stored_run \<Rightarrow> upstream_answer \<Rightarrow> bool" where
  "studio_takes enabled stored answer \<longleftrightarrow>
     (\<forall>j. shown_trust enabled stored answer = Some j \<longrightarrow> j = JNull \<or> isTrustSummaryPayload (Some j)) \<and>
     \<not> inherited_failure_code (answered_contract enabled stored answer)"

lemma or_else_same [simp]: "or_else a a = a"
  by (cases a) simp_all

lemma or_else_twice [simp]: "or_else a (or_else a b) = or_else a b"
  by (cases a) simp_all

lemma or_else_again [simp]: "or_else (or_else a b) b = or_else a b"
  by (cases a) simp_all

lemma patch_parts:
  "srTrustSummary (snapshot_patch snapshot stored) = or_else (wsTrustSummary snapshot) (srTrustSummary stored)"
  "srRunId (snapshot_patch snapshot stored) = srRunId stored"
  by (simp_all add: snapshot_patch_def)

lemma contract_failure_none: "contract_failure None = None"
  by code_simp

lemma snapshot_parts:
  "wsTrustSummary (snapshotFromContract c) = extractTrustSummary c"
  "wsFailure (snapshotFromContract c) = contract_failure c"
proof -
  have "extractTrustSummary None = None" by (simp add: extractTrustSummary_def normalizeTrustSummary_def)
  then show "wsTrustSummary (snapshotFromContract c) = extractTrustSummary c"
    "wsFailure (snapshotFromContract c) = contract_failure c"
    by (cases c; simp add: snapshotFromContract_def EMPTY_WORKFLOW_SNAPSHOT_def contract_failure_none Let_def)+
qed

lemma workflow_served:
  assumes "js_get runs (srRunId stored) = Some stored" and "getRun rid runs = Some stored"
  shows "\<exists>r source. fst (workflow_route now quote enabled answer runs rid) =
      jsonResponse 200 (workflowEnvelope r
        ((snapshotFromContract (answered_contract enabled stored answer))\<lparr>wsTrustSummary := shown_trust enabled stored answer\<rparr>)
        source) \<and>
    srRunId r = srRunId stored"
proof (cases "is_fixture stored")
  case True
  have "(snapshotFromContract None)\<lparr>wsTrustSummary := None\<rparr> = EMPTY_WORKFLOW_SNAPSHOT"
    by (simp add: snapshotFromContract_def EMPTY_WORKFLOW_SNAPSHOT_def)
  then have "fst (workflow_route now quote enabled answer runs rid) =
      jsonResponse 200 (workflowEnvelope stored
        ((snapshotFromContract (answered_contract enabled stored answer))\<lparr>wsTrustSummary := shown_trust enabled stored answer\<rparr>)
        SourceUnavailable)"
    using True assms(2) by (simp add: workflow_route_def answered_contract_def shown_trust_def)
  then show ?thesis by blast
next
  case live: False
  show ?thesis
  proof (cases "live_answer_of enabled stored answer")
    case (Answered rid' body)
    let ?c = "asRecord (js_field body ''contract'')"
    have c: "answered_contract enabled stored answer = ?c" using live Answered by (simp add: answered_contract_def)
    let ?s = "(snapshotFromContract ?c)\<lparr>wsTrustSummary := or_else (extractTrustSummary ?c) (srTrustSummary stored)\<rparr>"
    have "fst (workflow_route now quote enabled answer runs rid) =
        jsonResponse 200 (workflowEnvelope ((snapshot_patch ?s stored)\<lparr>srUpdatedAt := now\<rparr>) ?s (reported_source body))"
      using live assms
      by (simp add: workflow_route_def fetchWorkflowSnapshot_def Answered Let_def split_beta
          applyWorkflowSnapshotToStore_def updateRun_def snapshot_parts patch_parts)
    then show ?thesis using live by (auto simp: c shown_trust_def patch_parts)
  qed (use live assms(2) in \<open>auto simp: workflow_route_def fetchWorkflowSnapshot_def answered_contract_def shown_trust_def
      snapshotFromContract_def EMPTY_WORKFLOW_SNAPSHOT_def extractTrustSummary_def normalizeTrustSummary_def\<close>)
qed

text \<open>
  C24: The workflow view of a stored run and the Studio's guard.  Assume that whatever contract the
  orchestrator answers with, every number in its attempt count, budgets, repair attempts, assist decision
  and artifact references is a natural number; the answer may also be missing, a refusal or a failure.
  Then what the workflow route sends is about the requested run, and the client accepts it exactly when
  the trust summary that it shows (the one of the contract, else the stored one) is absent or complete
  by the Studio's guard, and the failure code of the contract is not the name of an inherited member.
  Everything else in the view is accepted whatever the contract holds; a view that is not accepted is
  reported as a contract failure.
\<close>

theorem workflow_reaches_the_studio:
  assumes "run_store_ok runs" and "getRun rid runs = Some stored"
    and "list_all (\<lambda>k. naturals (js_field (answered_contract enabled stored answer) k)) NUMERIC_CONTRACT_FIELDS"
  shows "\<exists>view. fst (workflow_route now quote enabled answer runs rid) = jsonResponse 200 view \<and>
    js_field (Some view) ''runId'' = Some (JStr rid) \<and>
    fetchJson parseRunWorkflowView (reply_of (fst (workflow_route now quote enabled answer runs rid))) c =
      (if studio_takes enabled stored answer then ClientOk view else contract_failure_for ''RunWorkflowView'', c)"
proof -
  have id: "srRunId stored = rid" using assms(1,2) by (simp add: run_store_ok_def)
  have own: "js_get runs (srRunId stored) = Some stored" using assms(2) by (simp add: getRun_def id)
  let ?c = "answered_contract enabled stored answer" and ?t = "shown_trust enabled stored answer"
  let ?s = "(snapshotFromContract ?c)\<lparr>wsTrustSummary := ?t\<rparr>"
  obtain r source where served: "fst (workflow_route now quote enabled answer runs rid) = jsonResponse 200 (workflowEnvelope r ?s source)"
    and r: "srRunId r = rid"
    using workflow_served [OF own assms(2)] id by metis
  have "shaped_snapshot (snapshotFromContract ?c)"
    by (rule snapshot_shaped) (use assms(3) in \<open>simp add: numeric_contract_def\<close>)
  then have shaped: "shaped_snapshot ?s" by (simp add: shaped_snapshot_def del: every_item_simps or_null_guard js_or_null_guard)
  have "isRunWorkflowViewPayload (Some (workflowEnvelope r ?s source)) \<longleftrightarrow> studio_takes enabled stored answer"
  proof (cases "studio_takes enabled stored answer")
    case True
    then have "accepted_trust (wsTrustSummary ?s)" "accepted_failure (wsFailure ?s)"
      using contract_failure_conforms [of ?c]
      by (simp_all add: studio_takes_def accepted_trust_def accepted_failure_def snapshot_parts)
    then show ?thesis using envelope_conforms [OF shaped] True by blast
  next
    case False
    then have "\<not> accepted_trust (wsTrustSummary ?s) \<or> (\<exists>f name. wsFailure ?s = Some f \<and> mfCode f = InheritedCode name)"
      using contract_failure_inherited [of ?c] by (auto simp: studio_takes_def accepted_trust_def snapshot_parts)
    then show ?thesis using envelope_refused False by blast
  qed
  moreover have "js_field (Some (workflowEnvelope r ?s source)) ''runId'' = Some (JStr rid)"
    by (simp add: workflowEnvelope_def run_head_def js_object_first r)
  ultimately show ?thesis
    by (intro exI [of _ "workflowEnvelope r ?s source"]) (simp add: served fetch_ok parseRunWorkflowView_def checked_def)
qed

text \<open>
  C25: Of the views of a live run that the orchestrator has no answer for, the Studio refuses the
  generated-Java view, the build-test view and the evidence view as a breach of contract, whatever the
  reason for the missing answer, while the progress view of the same run passes: the BFF leaves out the
  artifact references that the guards require to be present.
\<close>

theorem incomplete_views_are_refused:
  assumes "getRun rid runs = Some stored" and "srMode stored = LiveRun" and "unanswered enabled stored answer"
  shows "fetchJson parseGeneratedView (reply_of (generated_route quote U enabled answer runs rid)) c =
      (contract_failure_for ''GeneratedView'', c) \<and>
    fetchJson parseBuildTestView (reply_of (build_test_route quote U enabled answer runs rid)) c =
      (contract_failure_for ''BuildTestView'', c) \<and>
    fetchJson parseEvidenceView (reply_of (evidence_route quote enabled answer runs rid)) c =
      (contract_failure_for ''EvidenceView'', c) \<and>
    (\<exists>view. fetchJson parseRunProgressView (reply_of (progress_route quote enabled answer runs rid)) c = (ClientOk view, c))"
proof -
  note route = live_view_route [OF assms(1,2)]
  have "parseRunProgressView (liveProgressView enabled stored answer) = ClientOk (liveProgressView enabled stored answer)"
    using unanswered_progress_accepted [OF assms(3)] by (simp add: parseRunProgressView_def checked_def)
  then show ?thesis
    using incomplete_generated_refused [OF assms(3)] incomplete_build_test_refused [OF assms(3)]
      incomplete_evidence_refused [OF assms(3)]
    unfolding generated_route_def build_test_route_def evidence_route_def progress_route_def route fetch_ok
    by (simp add: parseGeneratedView_def parseBuildTestView_def parseEvidenceView_def checked_def)
qed

section \<open>Polls\<close>

text \<open>
  C26: Whatever sequence of polls of whatever runs the BFF serves, and whatever the orchestrator answers,
  the store stays well formed, every run keeps its identity (program, mode, fixture, creation time,
  orchestrator run), no run appears or disappears, and a run whose own polls all went unanswered is
  stored exactly as before.
\<close>

theorem polls_keep_the_runs:
  assumes "run_store_ok runs"
  shows "run_store_ok (serve_polls quote requests runs) \<and>
    rel_option same_run (getRun rid runs) (getRun rid (serve_polls quote requests runs)) \<and>
    ((\<forall>(now, enabled, k, p)\<in>set requests. k = rid \<longrightarrow>
        (\<forall>stored. getRun rid runs = Some stored \<longrightarrow> list_all (unanswered enabled stored) (poll_answers p))) \<longrightarrow>
      getRun rid (serve_polls quote requests runs) = getRun rid runs)"
  using assms
proof (induction requests arbitrary: runs)
  case Nil
  then show ?case by (simp add: serve_polls_def option.rel_refl)
next
  case (Cons request requests)
  obtain now enabled k p where r: "request = (now, enabled, k, p)" by (metis prod_cases4)
  let ?next = "serve_poll quote request runs"
  have keeps: "polls.keeps k runs ?next" unfolding r by (rule serve_poll_keeps [OF Cons.prems])
  have same: "rel_option same_run (getRun rid runs) (getRun rid ?next)"
    using polls.keeps_all [OF keeps, of rid] by (simp add: getRun_def)
  have still: "getRun rid ?next = getRun rid runs"
    if "k = rid \<longrightarrow> (\<forall>stored. getRun rid runs = Some stored \<longrightarrow> list_all (unanswered enabled stored) (poll_answers p))"
  proof (cases "k = rid")
    case True
    with that have "serve_poll quote (now, enabled, rid, p) runs = runs" by (intro unanswered_poll) auto
    then show ?thesis by (simp add: r True)
  next
    case False
    then show ?thesis using keeps by (simp add: polls.keeps_def getRun_def)
  qed
  have trans: "rel_option same_run a b \<Longrightarrow> rel_option same_run b d \<Longrightarrow> rel_option same_run a d" for a b d
    by (auto simp: option_rel_Some1 elim!: option.rel_cases intro: same_run_trans)
  have step: "serve_polls quote (request # requests) runs = serve_polls quote requests ?next"
    by (simp add: serve_polls_def)
  show ?case
    unfolding step using Cons.IH [OF keeps_store_ok [OF Cons.prems keeps]] same still trans
    by (auto simp: r)
qed

section \<open>Files\<close>

lemma split_leading: "set (js_split c s) \<subseteq> insert [] (set (js_split c (dropWhile (\<lambda>d. d = c) s)))"
  by (induction s) auto

lemma safe_path_stays_inside:
  "isSafeGeneratedRelpath path \<Longrightarrow> ''..'' \<notin> set (js_split CHR ''/'' (js_replace_char CHR 0x5C CHR ''/'' path))"
  using split_leading [of "CHR ''/''" "js_replace_char CHR 0x5C CHR ''/'' path"]
  by (auto simp: isSafeGeneratedRelpath_def Let_def safe_segments_def list_all_iff)

text \<open>
  C27: A file of a run is served under its own path and within the limit.  The link that the Studio
  builds for a path asks the orchestrator for exactly that path of exactly that run; and whatever raw
  request the BFF gets and whatever the orchestrator answers, a response with status 200 is the answer
  for a path that no reading of its separators leads out of the run, and it carries at most the allowed
  number of bytes.
\<close>

theorem files_are_served_within_bounds:
  "(\<forall>raw stored live. encodeGeneratedFilePath path = Some raw \<and> CHR 0x00 \<notin> set path \<and> rid \<noteq> [] \<and>
      getRun rid runs = Some stored \<and> srMode stored = LiveRun \<and> liveArtifactRunId stored = Some live \<longrightarrow>
      file_route quote kind maxBytes True orchestrator runs (encodeURIComponent rid) raw =
        file_response kind maxBytes \<lparr>frRun = stored, frLiveRunId = live, frPath = path\<rparr> (orchestrator live path)) \<and>
   (rsStatus (file_route quote kind maxBytes enabled orchestrator runs rawRunId rawPath) = 200 \<longrightarrow>
      (\<exists>req. file_request_for quote kind enabled runs rawRunId rawPath = Inr req \<and>
        ''..'' \<notin> set (js_split CHR ''/'' (js_replace_char CHR 0x5C CHR ''/'' (frPath req)))) \<and>
      length (utf8 (asString (js_field
        (rsBody (file_route quote kind maxBytes enabled orchestrator runs rawRunId rawPath)) ''content''))) \<le> maxBytes)"
proof (intro conjI allI impI)
  fix raw stored live
  assume h: "encodeGeneratedFilePath path = Some raw \<and> CHR 0x00 \<notin> set path \<and> rid \<noteq> [] \<and>
      getRun rid runs = Some stored \<and> srMode stored = LiveRun \<and> liveArtifactRunId stored = Some live"
  let ?req = "\<lparr>frRun = stored, frLiveRunId = live, frPath = path\<rparr>"
  have "path \<noteq> []" using h by (auto simp: encodeGeneratedFilePath_def)
  then have "file_request_for quote kind True runs (encodeURIComponent rid) raw = Inr ?req"
    unfolding file_request_Inr
    using h encoded_file_path_decodes encoded_path_is_safe decode_encode by (simp add: is_fixture_def)
  then show "file_route quote kind maxBytes True orchestrator runs (encodeURIComponent rid) raw =
      file_response kind maxBytes ?req (orchestrator live path)"
    by (simp add: file_route_def)
next
  assume ok: "rsStatus (file_route quote kind maxBytes enabled orchestrator runs rawRunId rawPath) = 200"
  have refused: "rsStatus r \<noteq> 200" if "file_request_for quote kind enabled runs rawRunId rawPath = Inl r" for r
    using that by (auto simp: file_request_for_def Let_def error_response_def unknown_run_def jsonResponse_def
        split: option.splits if_splits)
  then obtain req where req: "file_request_for quote kind enabled runs rawRunId rawPath = Inr req"
    using ok by (cases "file_request_for quote kind enabled runs rawRunId rawPath") (auto simp: file_route_def)
  then show "\<exists>req. file_request_for quote kind enabled runs rawRunId rawPath = Inr req \<and>
      ''..'' \<notin> set (js_split CHR ''/'' (js_replace_char CHR 0x5C CHR ''/'' (frPath req)))"
    using safe_path_stays_inside by (auto simp: file_request_Inr)
  show "length (utf8 (asString (js_field
      (rsBody (file_route quote kind maxBytes enabled orchestrator runs rawRunId rawPath)) ''content''))) \<le> maxBytes"
    using ok file_response_capped by (simp add: file_route_def req)
qed

section \<open>Verdicts\<close>

text \<open>
  A build result without missing artifacts whose status and classification the BFF does not know is
  reported as a match.
\<close>

lemma unknown_verdict_is_a_match:
  "asString (js_field data ''status'') \<notin> set BUILD_STATUSES \<Longrightarrow>
   asString (js_field data ''classification'') \<notin> set BUILD_CLASSIFICATIONS \<Longrightarrow>
   classifyBuildTestStatus [] runStatus data = (''ok'', ''match'')"
  by (simp add: classifyBuildTestStatus_def)

section \<open>A run\<close>

definition demo_sample :: sample_detail where
  "demo_sample = createSourceTextSample ''DEMO'' ''IDENTIFICATION DIVISION.'' None"

definition demo_run :: stored_run where
  "demo_run = fst (createRun ''1'' ''2026-01-01T00:00:00Z'' demo_sample LiveRun (Some ''wf-1'')
     \<lparr>inExecutionMode = None,
      inTrustCase = \<lparr>tcId = None, tcVersion = None, tcCatalogVersion = None, tcCatalogHash = None,
        tcConfigurationDigest = None, tcEnvironmentProfile = None, tcComparisonPolicy = None, tcSourceFixture = None,
        tcSourceMode = None\<rparr>,
      inStatus = None, inMessage = None, inPolicyDecision = None, inEvidenceRefs = None, inTrustSummary = None\<rparr> [])"

lemma demo_run_facts:
  "srRunId demo_run = ''run-1''" "srMode demo_run = LiveRun" "srTrustSummary demo_run = None"
  "liveArtifactRunId demo_run = Some ''wf-1''"
  by (simp_all add: demo_run_def createRun_def liveArtifactRunId_def Let_def)

lemma demo_store: "run_store_ok [(''run-1'', demo_run)]" "getRun ''run-1'' [(''run-1'', demo_run)] = Some demo_run"
  by (simp_all add: run_store_ok_def getRun_def demo_run_facts)

definition demo_contract :: "(string \<times> json) list \<Rightarrow> upstream_answer" where
  "demo_contract fs = Upstream 200 (Some (JObj [(''contract'', JObj fs)]))"

abbreviation empty_cache :: "unit bootstrap_cache" where
  "empty_cache \<equiv> \<lparr>cached = None, nextRequest = 0\<rparr>"

lemma demo_answered: "answered_contract True demo_run (demo_contract fs) = Some (JObj fs)"
  by (simp add: answered_contract_def demo_contract_def live_answer_of_def demo_run_facts is_fixture_def js_field_def asRecord_def)

lemma demo_numeric:
  "list_all (\<lambda>k. naturals (js_field (answered_contract True demo_run (demo_contract [(''agentAttemptCount'', js_num 2)])) k))
     NUMERIC_CONTRACT_FIELDS"
  by (simp add: demo_answered js_field_def NUMERIC_CONTRACT_FIELDS_def naturals_def js_num_def is_integer_def)

theorem workflow_reaches_the_studio_witness:
  "\<exists>view. fetchJson parseRunWorkflowView (reply_of (fst (workflow_route ''t1'' id True
      (demo_contract [(''agentAttemptCount'', js_num 2)]) [(''run-1'', demo_run)] ''run-1''))) empty_cache =
      (ClientOk view, empty_cache) \<and>
    js_field (Some view) ''runId'' = Some (JStr ''run-1'')"
proof -
  have "studio_takes True demo_run (demo_contract [(''agentAttemptCount'', js_num 2)])"
    by (simp add: studio_takes_def shown_trust_def demo_answered is_fixture_def demo_run_facts extractTrustSummary_def
        normalizeTrustSummary_def inherited_failure_code_def js_field_def asString_def object_prototype_members_def js_trim_def)
  then show ?thesis
    using workflow_reaches_the_studio [OF demo_store demo_numeric, of "''t1''" id empty_cache] by auto
qed

text \<open>
  The two ways to be refused.  A trust summary that is not complete, as the schema of the run summary and the
  tests of the BFF allow it, is passed on and makes the Studio refuse the workflow view of the run; so does the failure
  code \<open>constructor\<close>, whose field is lost on the wire.
\<close>

lemma partial_trust_is_refused:
  "\<not> studio_takes True demo_run (demo_contract [(''currentState'', JStr ''final_classification''),
     (''trustSummary'', JObj [(''trustCaseId'', JStr ''HELLO01-DEFAULT''), (''verdict'', JStr ''pass'')])])"
proof -
  let ?fs = "[(''currentState'', JStr ''final_classification''),
     (''trustSummary'', JObj [(''trustCaseId'', JStr ''HELLO01-DEFAULT''), (''verdict'', JStr ''pass'')])]"
  let ?t = "JObj [(''trustCaseId'', JStr ''HELLO01-DEFAULT''), (''verdict'', JStr ''pass'')]"
  have "extractTrustSummary (Some (JObj ?fs)) = Some ?t" by code_simp
  moreover have "\<not> isTrustSummaryPayload (Some ?t)" by code_simp
  ultimately show ?thesis
    by (simp add: studio_takes_def shown_trust_def demo_answered is_fixture_def demo_run_facts)
qed

lemma inherited_code_is_refused:
  "\<not> studio_takes True demo_run (demo_contract [(''failureCode'', JStr ''constructor'')])"
proof -
  have "inherited_failure_code (Some (JObj [(''failureCode'', JStr ''constructor'')]))" by code_simp
  then show ?thesis by (simp add: studio_takes_def demo_answered)
qed

text \<open>A complete summary stays complete on its way through the BFF.\<close>

lemma complete_trust_is_taken:
  assumes "complete_trust (js_field c ''trustSummary'')" "complete_trust (js_field (js_field c ''run'') ''trustSummary'')"
    "complete_trust (js_field (js_field c ''contract'') ''trustSummary'')"
    and "answered_contract enabled stored answer = c" and "srTrustSummary stored = None" and "\<not> inherited_failure_code c"
  shows "studio_takes enabled stored answer"
  using assms complete_trust_conforms [OF _ assms(1-3)] by (simp add: studio_takes_def shown_trust_def)

theorem incomplete_views_are_refused_witness:
  "fetchJson parseGeneratedView (reply_of (generated_route id (\<lambda>_. None) True (Upstream 503 None)
      [(''run-1'', demo_run)] ''run-1'')) (\<lparr>cached = None, nextRequest = 0\<rparr> :: unit bootstrap_cache) =
    (contract_failure_for ''GeneratedView'', \<lparr>cached = None, nextRequest = 0\<rparr>)"
proof -
  have "unanswered True demo_run (Upstream 503 None)"
    by (simp add: unanswered_def live_answer_of_def demo_run_facts)
  from conjunct1 [OF incomplete_views_are_refused [OF demo_store(2) demo_run_facts(2) this]] show ?thesis .
qed

theorem polls_keep_the_runs_witness:
  "getRun ''run-1'' (serve_polls id
      [(''t1'', True, ''run-1'', PollRun (Upstream 500 None) NoUpstream), (''t2'', True, ''run-2'', PollWorkflow NoUpstream)]
      [(''run-1'', demo_run)]) = Some demo_run"
proof -
  have "list_all (unanswered True demo_run) (poll_answers (PollRun (Upstream 500 None) NoUpstream))"
    by (simp add: unanswered_def live_answer_of_def demo_run_facts)
  then show ?thesis
    using polls_keep_the_runs [OF demo_store(1), of id
        "[(''t1'', True, ''run-1'', PollRun (Upstream 500 None) NoUpstream), (''t2'', True, ''run-2'', PollWorkflow NoUpstream)]"
        "''run-1''"] demo_store(2)
    by simp
qed

theorem files_are_served_within_bounds_witness:
  "file_route id GeneratedFile 3 True (\<lambda>live path. FileAnswer False 200 (Some (JObj [(''content'', JStr ''abc'')])))
      [(''run-1'', demo_run)] (encodeURIComponent ''run-1'') ''src/A%20b.java'' =
    file_response GeneratedFile 3 \<lparr>frRun = demo_run, frLiveRunId = ''wf-1'', frPath = ''src/A b.java''\<rparr>
      (FileAnswer False 200 (Some (JObj [(''content'', JStr ''abc'')])))"
proof -
  have "encodeGeneratedFilePath ''src/A b.java'' = Some ''src/A%20b.java''" by code_simp
  then show ?thesis
    using conjunct1 [OF files_are_served_within_bounds [of "''src/A b.java''" "''run-1''" "[(''run-1'', demo_run)]" id
        GeneratedFile 3 "\<lambda>live path. FileAnswer False 200 (Some (JObj [(''content'', JStr ''abc'')]))" True "[]" "[]"]]
      demo_store(2) demo_run_facts
    by simp
qed

end
