(* ===== verification/Bff_Explain.thy ===== *)
theory Bff_Explain
  imports Session_Routes Json_Access Js_Regex
begin

text \<open>
  \<open>editorExplain.ts\<close> of the BFF: the rules of the editor-assist channel.  The validation of a request,
  the budgets per session and per tenant and day, the mapping of the model gateway's answer to a
  closed set of errors, and the ledger entry that each call leaves.  The hash is a parameter.
\<close>

section \<open>Errors\<close>

definition EDITOR_ASSIST_SCHEMA_VERSION :: string where "EDITOR_ASSIST_SCHEMA_VERSION = ''v0''"

definition UNLIMITED_AI_BUDGET :: int where "UNLIMITED_AI_BUDGET = 2147483647"

definition EDITOR_ASSIST_REDACTED_BYTES_MAX :: nat where "EDITOR_ASSIST_REDACTED_BYTES_MAX = 200000"

definition clampEditorAssistBudget :: "js_number \<Rightarrow> int" where
  "clampEditorAssistBudget value' =
     (case value' of
        Infinite _ \<Rightarrow> 1
      | Finite q \<Rightarrow> if q < 1 then 1 else if of_int UNLIMITED_AI_BUDGET < q then UNLIMITED_AI_BUDGET else \<lfloor>q\<rfloor>)"

datatype explain_error_code = BudgetExhausted | PolicyDenied | GatewayUnavailable | TimedOut | InvalidRegion

fun explain_code_name :: "explain_error_code \<Rightarrow> string" where
  "explain_code_name BudgetExhausted = ''budget_exhausted''"
| "explain_code_name PolicyDenied = ''policy_denied''"
| "explain_code_name GatewayUnavailable = ''gateway_unavailable''"
| "explain_code_name TimedOut = ''timeout''"
| "explain_code_name InvalidRegion = ''invalid_region''"

fun statusForErrorCode :: "explain_error_code \<Rightarrow> nat" where
  "statusForErrorCode BudgetExhausted = 429"
| "statusForErrorCode PolicyDenied = 403"
| "statusForErrorCode GatewayUnavailable = 503"
| "statusForErrorCode TimedOut = 504"
| "statusForErrorCode InvalidRegion = 400"

fun defaultMessageForErrorCode :: "explain_error_code \<Rightarrow> string" where
  "defaultMessageForErrorCode BudgetExhausted =
     ''Editor-assist budget exhausted for this session. Try again later or request more from your administrator.''"
| "defaultMessageForErrorCode PolicyDenied =
     ''Editor-assist policy denied this request. The selected region or context is not eligible.''"
| "defaultMessageForErrorCode GatewayUnavailable = ''The Model Gateway is unavailable. Try again shortly.''"
| "defaultMessageForErrorCode TimedOut = ''Editor-assist timed out before the Model Gateway responded. Try again.''"
| "defaultMessageForErrorCode InvalidRegion =
     ''The selected region is invalid. Select a smaller, non-empty block and retry.''"

section \<open>Validation\<close>

datatype source_kind = CobolSource | JavaSource

record editor_region =
  erFilePath :: string
  erSourceKind :: source_kind
  erStartLine :: int
  erEndLine :: int

record redaction_metadata =
  rdProfileVersion :: string
  rdPatternIds :: "string list"

record explain_request =
  exSessionId :: string
  exTenantId :: string
  exUserId :: string
  exRunId :: "string option"
  exSourceHash :: string
  exRegion :: editor_region
  exRedactedBytes :: string
  exByteHash :: string
  exMetadata :: redaction_metadata

definition is_hex :: "char \<Rightarrow> bool" where
  "is_hex c \<longleftrightarrow> is_digit c \<or> char_between CHR ''a'' CHR ''f'' c \<or> char_between CHR ''A'' CHR ''F'' c"

definition HEX64 :: "string \<Rightarrow> bool" where
  "HEX64 s \<longleftrightarrow> length s = 64 \<and> list_all is_hex s"

text \<open>A letter, then characters of the class, in the expressions of the ids.\<close>

definition safe_ref :: "(char \<Rightarrow> bool) \<Rightarrow> nat \<Rightarrow> string \<Rightarrow> bool" where
  "safe_ref P most s =
     (case s of [] \<Rightarrow> False | c # cs \<Rightarrow> (is_upper c \<or> is_lower c) \<and> list_all P cs \<and> length cs \<le> most)"

definition isSafeRedactionPatternId :: "string \<Rightarrow> bool" where
  "isSafeRedactionPatternId = safe_ref (\<lambda>c. is_alnum c \<or> c \<in> {CHR ''_'', CHR '':'', CHR ''-''}) 127"

definition normaliseGatewayInvocationId :: "json option \<Rightarrow> string option" where
  "normaliseGatewayInvocationId v =
     (case as_string v of
        Some s \<Rightarrow> if safe_ref (\<lambda>c. is_id_char c \<or> c = CHR '':'') 127 s then Some s else None
      | None \<Rightarrow> None)"

definition is_urn_char :: "char \<Rightarrow> bool" where
  "is_urn_char c \<longleftrightarrow> is_id_char c \<or> c \<in> {CHR '':'', CHR ''/'', CHR ''+'', CHR ''=''}"

definition normaliseGatewayLedgerRef :: "json option \<Rightarrow> string option" where
  "normaliseGatewayLedgerRef v =
     (case as_string v of
        None \<Rightarrow> None
      | Some s \<Rightarrow>
          (if sublist ''://'' s then None
           else case s of
             CHR ''u'' # CHR ''r'' # CHR ''n'' # CHR '':'' # c # cs \<Rightarrow>
               (if is_alnum c \<and> list_all is_urn_char cs \<and> length cs \<le> 511 then Some s else None)
           | _ \<Rightarrow> None))"

text \<open>\<open>\p{L}\<close> and \<open>\p{N}\<close> on the code units of the model.\<close>

definition is_unicode_alnum :: "char \<Rightarrow> bool" where
  "is_unicode_alnum c \<longleftrightarrow>
     is_alnum c \<or> c \<in> {CHR 0xAA, CHR 0xB2, CHR 0xB3, CHR 0xB5, CHR 0xB9, CHR 0xBA, CHR 0xBC, CHR 0xBD, CHR 0xBE} \<or>
     char_between CHR 0xC0 CHR 0xD6 c \<or> char_between CHR 0xD8 CHR 0xF6 c \<or> char_between CHR 0xF8 CHR 0xFF c"

definition safe_file_path :: "string \<Rightarrow> bool" where
  "safe_file_path s \<longleftrightarrow>
     s \<noteq> [] \<and> list_all (\<lambda>c. is_unicode_alnum c \<or> c \<in> {CHR ''.'', CHR ''_'', CHR ''/'', CHR ''-''}) s"

definition drive_path :: "string \<Rightarrow> bool" where
  "drive_path s = (case s of c # d # _ \<Rightarrow> (is_upper c \<or> is_lower c) \<and> d = CHR '':'' | _ \<Rightarrow> False)"

definition require :: "bool \<Rightarrow> string \<Rightarrow> string + unit" where
  "require ok message = (if ok then Inr () else Inl message)"

definition rejectUnsupportedFields :: "(string \<times> json) list \<Rightarrow> string list \<Rightarrow> string \<Rightarrow> string + unit" where
  "rejectUnsupportedFields fs allowed objectName =
     (case find (\<lambda>k. k \<notin> set allowed) (map fst fs) of
        Some key \<Rightarrow> Inl (objectName @ '' contains unsupported field '' @ key)
      | None \<Rightarrow> Inr ())"

definition validateEditorAssistIdentifier :: "string \<Rightarrow> string \<Rightarrow> string + unit" where
  "validateEditorAssistIdentifier value' fieldName =
     require (length value' \<le> 128 \<and> value' \<noteq> [] \<and> list_all is_id_char value')
       (fieldName @ '' must be alphanumeric (1-128 chars; allowed: . _ -)'')"

definition INVALID_FILEPATH_MESSAGE :: string where
  "INVALID_FILEPATH_MESSAGE =
     ''filePath must be a workspace-relative path without drive prefixes or parent-directory traversal''"

definition validateFilePath :: "string \<Rightarrow> string + unit" where
  "validateFilePath s =
     require (length s \<le> 512 \<and> \<not> prefix ''/'' s \<and> \<not> prefix [CHR 0x5C] s \<and> \<not> drive_path s \<and> safe_file_path s \<and>
         ''..'' \<notin> set (js_split CHR ''/'' s))
       INVALID_FILEPATH_MESSAGE"

text \<open>A string field that is there and not empty, and a line number.\<close>

definition given_text :: "json option \<Rightarrow> string \<Rightarrow> string + string" where
  "given_text v message = (case as_string v of Some (c # cs) \<Rightarrow> Inr (c # cs) | _ \<Rightarrow> Inl message)"

definition line_number :: "json option \<Rightarrow> string \<Rightarrow> string + int" where
  "line_number v message =
     (case asNumber v of
        Some q \<Rightarrow> if is_integer q \<and> 1 \<le> q then Inr \<lfloor>q\<rfloor> else Inl message
      | None \<Rightarrow> Inl message)"

definition region_kind :: "json option \<Rightarrow> string + source_kind" where
  "region_kind v =
     (if v = Some (JStr ''cobol'') then Inr CobolSource else if v = Some (JStr ''java'') then Inr JavaSource
      else Inl (''region.sourceKind must be either '' @ [CHR 0x27] @ ''cobol'' @ [CHR 0x27] @ '' or '' @ [CHR 0x27] @ ''java'' @ [CHR 0x27]))"

definition validateRegion :: "json option \<Rightarrow> string + editor_region" where
  "validateRegion raw =
     (case Option.bind raw as_object of
        None \<Rightarrow> Inl ''region must be an object''
      | Some fs \<Rightarrow>
          and_then (rejectUnsupportedFields fs [''filePath'', ''sourceKind'', ''startLine'', ''endLine''] ''region'') (\<lambda>_.
          and_then (given_text (js_get fs ''filePath'') ''region.filePath must be a non-empty string'') (\<lambda>path.
          and_then (validateFilePath path) (\<lambda>_.
          and_then (region_kind (js_get fs ''sourceKind'')) (\<lambda>kind.
          and_then (line_number (js_get fs ''startLine'')
              ''region.startLine must be an integer greater than or equal to 1'') (\<lambda>startLine.
          and_then (line_number (js_get fs ''endLine'')
              ''region.endLine must be an integer greater than or equal to 1'') (\<lambda>endLine.
          and_then (require (startLine \<le> endLine)
              ''region.endLine must be greater than or equal to region.startLine'') (\<lambda>_.
          Inr \<lparr>erFilePath = path, erSourceKind = kind, erStartLine = startLine, erEndLine = endLine\<rparr>))))))))"

definition string_array :: "json option \<Rightarrow> string list option" where
  "string_array v =
     (case js_array v of None \<Rightarrow> None | Some js \<Rightarrow> all_some (map (\<lambda>j. as_string (Some j)) js))"

definition validateRedactionMetadata :: "json option \<Rightarrow> string + redaction_metadata" where
  "validateRedactionMetadata raw =
     (case Option.bind raw as_object of
        None \<Rightarrow> Inl ''studioRedactionMetadata must be an object''
      | Some fs \<Rightarrow>
          and_then (rejectUnsupportedFields fs [''studioRedactionProfileVersion'', ''matchedPatternIds'']
              ''studioRedactionMetadata'') (\<lambda>_.
          and_then (given_text (js_get fs ''studioRedactionProfileVersion'')
              ''studioRedactionMetadata.studioRedactionProfileVersion must be a non-empty string'') (\<lambda>version.
          (case string_array (js_get fs ''matchedPatternIds'') of
             None \<Rightarrow> Inl ''studioRedactionMetadata.matchedPatternIds must be an array of strings''
           | Some ids \<Rightarrow>
               and_then (require (list_all isSafeRedactionPatternId ids)
                   ''studioRedactionMetadata.matchedPatternIds must contain opaque redaction pattern ids'') (\<lambda>_.
               Inr \<lparr>rdProfileVersion = version, rdPatternIds = ids\<rparr>)))))"

definition EXPLAIN_REQUEST_FIELDS :: "string list" where
  "EXPLAIN_REQUEST_FIELDS =
     [''schemaVersion'', ''sessionId'', ''tenantId'', ''userId'', ''runId'', ''sourceHash'', ''region'', ''redactedBytes'',
      ''byteHash'', ''studioRedactionMetadata'']"

text \<open>A field that may be missing, with its default.\<close>

definition optional_identity :: "(string \<times> json) list \<Rightarrow> string \<Rightarrow> string \<Rightarrow> string + string" where
  "optional_identity fs k default' =
     (case js_get fs k of
        None \<Rightarrow> Inr default'
      | Some v \<Rightarrow>
          and_then (given_text (Some v) (k @ '' must be a non-empty string when provided'')) (\<lambda>s.
          and_then (validateEditorAssistIdentifier s k) (\<lambda>_. Inr s)))"

definition optional_run :: "json option \<Rightarrow> string + string option" where
  "optional_run v =
     (if js_null v then Inr None
      else and_then (given_text v ''runId must be a non-empty string or null when provided'') (\<lambda>s.
           and_then (validateEditorAssistIdentifier s ''runId'') (\<lambda>_. Inr (Some s))))"

definition checked_bytes :: "json option \<Rightarrow> string + string" where
  "checked_bytes v =
     (case as_string v of
        None \<Rightarrow> Inl ''redactedBytes must be a string''
      | Some s \<Rightarrow>
          (if s = [] then Inl ''redactedBytes must not be empty''
           else and_then (require (length (utf8 s) \<le> EDITOR_ASSIST_REDACTED_BYTES_MAX)
                  (''redactedBytes is too large ('' @ int_string (int (length (utf8 s))) @
                   '' bytes exceeds the 200000-byte cap)'')) (\<lambda>_. Inr s)))"

definition validateExplainRequest :: "(string \<Rightarrow> string) \<Rightarrow> json \<Rightarrow> string + explain_request" where
  "validateExplainRequest computeByteHashHex raw =
     (case as_object raw of
        None \<Rightarrow> Inl ''request body must be a JSON object''
      | Some fs \<Rightarrow>
          and_then (rejectUnsupportedFields fs EXPLAIN_REQUEST_FIELDS ''request body'') (\<lambda>_.
          and_then (require (js_get fs ''schemaVersion'' = Some (JStr EDITOR_ASSIST_SCHEMA_VERSION))
              (''schemaVersion must be '' @ [CHR 0x22] @ ''v0'' @ [CHR 0x22])) (\<lambda>_.
          and_then (given_text (js_get fs ''sessionId'') ''sessionId must be a non-empty string'') (\<lambda>sessionId.
          and_then (validateEditorAssistIdentifier sessionId ''sessionId'') (\<lambda>_.
          and_then (given_text (js_get fs ''sourceHash'') ''sourceHash must be a non-empty string'') (\<lambda>sourceHash.
          and_then (require (HEX64 sourceHash) ''sourceHash must be a 64-char SHA-256 hex string'') (\<lambda>_.
          and_then (optional_identity fs ''tenantId'' ''default'') (\<lambda>tenantId.
          and_then (optional_identity fs ''userId'' ''local'') (\<lambda>userId.
          and_then (optional_run (js_get fs ''runId'')) (\<lambda>rid.
          and_then (checked_bytes (js_get fs ''redactedBytes'')) (\<lambda>redactedBytes.
          and_then (given_text (js_get fs ''byteHash'') ''byteHash must be a 64-character lowercase or uppercase hex string'') (\<lambda>byteHash.
          and_then (require (HEX64 byteHash) ''byteHash must be a 64-character lowercase or uppercase hex string'') (\<lambda>_.
          and_then (validateRegion (js_get fs ''region'')) (\<lambda>region.
          and_then (validateRedactionMetadata (js_get fs ''studioRedactionMetadata'')) (\<lambda>meta.
          and_then (require (map to_lower (computeByteHashHex redactedBytes) = map to_lower byteHash)
              ''redaction byteHash mismatch'') (\<lambda>_.
          Inr \<lparr>exSessionId = sessionId, exTenantId = tenantId, exUserId = userId, exRunId = rid, exSourceHash = sourceHash,
               exRegion = region, exRedactedBytes = redactedBytes, exByteHash = byteHash, exMetadata = meta\<rparr>))))))))))))))))"

end
