(* ===== verification/Bff_Explain_Route.thy ===== *)
theory Bff_Explain_Route
  imports Bff_Explain
begin

text \<open>
  The rest of \<open>editorExplain.ts\<close> and the explain route of \<open>server.ts\<close>.  A request is served in two steps,
  before and after the answer of the model gateway, and other requests run in between; the budget of a
  request is consumed in the first step (the body of the locks has no suspension point), its ledger
  entry is written in the second.  The answer of the gateway and the failures of the ledger file are
  arguments.
\<close>

section \<open>Budgets\<close>

record budget_scope =
  scTenant :: string
  scUser :: string
  scSession :: string

record budget_snapshot =
  bsLimit :: int
  bsUsed :: int
  bsRemaining :: int

record budget_options =
  boLimit :: int
  boTenantCap :: rat

record tenant_budget =
  tbDate :: string
  tbUsed :: nat

record budgets =
  bgSessions :: "(string, nat) js_map"
  bgTenants :: "(string, tenant_budget) js_map"

definition budgetOptions :: "js_number option \<Rightarrow> rat option \<Rightarrow> budget_options" where
  "budgetOptions defaultLimit tenantDailyCap =
     \<lparr>boLimit = clampEditorAssistBudget (or_default defaultLimit (Finite (of_int UNLIMITED_AI_BUDGET))),
      boTenantCap = or_default tenantDailyCap (of_int UNLIMITED_AI_BUDGET)\<rparr>"

definition NUL :: string where "NUL = [CHR 0x00]"

definition scopeKey :: "budget_scope \<Rightarrow> string" where
  "scopeKey scope = scTenant scope @ NUL @ scUser scope @ NUL @ scSession scope"

definition utcDateKey :: "string \<Rightarrow> string" where
  "utcDateKey isoTime = take 10 isoTime"

definition snapshotForSession :: "budget_options \<Rightarrow> nat \<Rightarrow> budget_snapshot" where
  "snapshotForSession opts used =
     \<lparr>bsLimit = boLimit opts, bsUsed = int used, bsRemaining = max 0 (boLimit opts - int used)\<rparr>"

definition session_used :: "budget_scope \<Rightarrow> budgets \<Rightarrow> nat" where
  "session_used scope b = or_default (js_get (bgSessions b) (scopeKey scope)) 0"

definition budgetSnapshot :: "budget_options \<Rightarrow> budget_scope \<Rightarrow> budgets \<Rightarrow> budget_snapshot" where
  "budgetSnapshot opts scope b = snapshotForSession opts (session_used scope b)"

text \<open>The tenant's entry, created or reset when the day has changed.\<close>

definition tenant_today :: "string \<Rightarrow> string \<Rightarrow> budgets \<Rightarrow> tenant_budget" where
  "tenant_today today tenant b =
     (case js_get (bgTenants b) tenant of
        None \<Rightarrow> \<lparr>tbDate = today, tbUsed = 0\<rparr>
      | Some t \<Rightarrow> if tbDate t \<noteq> today then \<lparr>tbDate = today, tbUsed = 0\<rparr> else t)"

definition consumeBudget ::
  "budget_options \<Rightarrow> string \<Rightarrow> budget_scope \<Rightarrow> budgets \<Rightarrow> (budget_snapshot + budget_snapshot) \<times> budgets" where
  "consumeBudget opts isoTime scope b =
     (let used = session_used scope b; tenant = tenant_today (utcDateKey isoTime) (scTenant scope) b;
          st = (\<lambda>u t. b\<lparr>bgSessions := js_set (scopeKey scope) u (bgSessions b),
                          bgTenants := js_set (scTenant scope) t (bgTenants b)\<rparr>)
      in if boTenantCap opts \<le> of_nat (tbUsed tenant) \<or> boLimit opts \<le> int used
         then (Inl (snapshotForSession opts used), st used tenant)
         else (Inr (snapshotForSession opts (Suc used)), st (Suc used) (tenant\<lparr>tbUsed := Suc (tbUsed tenant)\<rparr>)))"

definition refundBudget :: "budget_scope \<Rightarrow> budgets \<Rightarrow> budgets" where
  "refundBudget scope b =
     b\<lparr>bgSessions := (case js_get (bgSessions b) (scopeKey scope) of
          Some (Suc u) \<Rightarrow> js_set (scopeKey scope) u (bgSessions b) | _ \<Rightarrow> bgSessions b),
       bgTenants := (case js_get (bgTenants b) (scTenant scope) of
          Some t \<Rightarrow> if 0 < tbUsed t then js_set (scTenant scope) (t\<lparr>tbUsed := tbUsed t - 1\<rparr>) (bgTenants b) else bgTenants b
        | None \<Rightarrow> bgTenants b)\<rparr>"

section \<open>References\<close>

type_synonym counters = "(string, nat) js_map"

definition nextSequence :: "string \<Rightarrow> string \<Rightarrow> counters \<Rightarrow> nat \<times> counters" where
  "nextSequence tenant session m =
     (let key = tenant @ NUL @ session; n = Suc (or_default (js_get m key) 0) in (n, js_set key n m))"

definition buildEditorAssistRef :: "string \<Rightarrow> string \<Rightarrow> nat \<Rightarrow> string" where
  "buildEditorAssistRef tenant session seq = ''eai-'' @ tenant @ ''-'' @ session @ ''-'' @ int_string (int seq)"

definition buildLocalLedgerRef :: "string \<Rightarrow> string \<Rightarrow> nat \<Rightarrow> string" where
  "buildLocalLedgerRef tenant session seq =
     ''urn:c2c/editor-assist/'' @ tenant @ ''/'' @ session @ ''/'' @ int_string (int seq)"

definition extractLedgerRef :: "json option \<Rightarrow> string option" where
  "extractLedgerRef body =
     (let candidate = js_field body ''ledgerRef''
      in or_else (normaliseGatewayLedgerRef candidate) (normaliseGatewayLedgerRef (js_field candidate ''uri'')))"

section \<open>The gateway's answer\<close>

record gateway_ok =
  gwExplanation :: string
  gwInvocationId :: "string option"
  gwLedgerRef :: "string option"
  gwRedactedFields :: "string list"

definition gateway_body :: "json option \<Rightarrow> gateway_ok option" where
  "gateway_body body =
     (case as_string (js_field body ''explanation'') of
        Some (c # cs) \<Rightarrow>
          Some \<lparr>gwExplanation = c # cs, gwInvocationId = normaliseGatewayInvocationId (js_field body ''invocationId''),
                gwLedgerRef = extractLedgerRef body,
                gwRedactedFields = filter isSafeRedactionPatternId (asStringArray (js_field body ''redactedFields''))\<rparr>
      | _ \<Rightarrow> None)"

definition mapGatewayResponse :: "(int \<times> json option) option \<Rightarrow> explain_error_code + gateway_ok" where
  "mapGatewayResponse response =
     (case response of
        None \<Rightarrow> Inl GatewayUnavailable
      | Some (status, body) \<Rightarrow>
          (if 200 \<le> status \<and> status < 300
           then (case gateway_body body of None \<Rightarrow> Inl GatewayUnavailable | Some ok \<Rightarrow> Inr ok)
           else if status = 403 then Inl PolicyDenied
           else if status = 504 then Inl TimedOut
           else Inl GatewayUnavailable))"

definition normaliseGatewayRedactedFields :: "string list \<Rightarrow> string list \<Rightarrow> string list" where
  "normaliseGatewayRedactedFields studio gateway =
     rev (remdups (rev (filter isSafeRedactionPatternId studio @ filter isSafeRedactionPatternId gateway)))"

text \<open>What the client of the gateway returns or throws; an error may carry a code.\<close>

datatype gateway_answer =
  GatewayReply "(int \<times> json option) option"
| GatewayError "string option" string
| GatewayThrewOther

text \<open>\<open>/\btimed?\s*out\b|timeout/i\<close>\<close>

definition TIMEOUT_PATTERN :: regex where
  "TIMEOUT_PATTERN =
     RxAlt (rx_seq [RxWordBoundary, rx_text_i ''time'', rx_opt (rx_text_i ''d''), rx_many is_js_space, rx_text_i ''out'', RxWordBoundary])
           (rx_text_i ''timeout'')"

fun isEditorAssistTransportTimeout :: "gateway_answer \<Rightarrow> bool" where
  "isEditorAssistTransportTimeout (GatewayError code message) \<longleftrightarrow>
     code = Some ''ETIMEDOUT'' \<or> code = Some ''ESOCKETTIMEDOUT'' \<or> rx_test TIMEOUT_PATTERN message"
| "isEditorAssistTransportTimeout _ \<longleftrightarrow> False"

fun map_gateway :: "gateway_answer \<Rightarrow> explain_error_code + gateway_ok" where
  "map_gateway (GatewayReply response) = mapGatewayResponse response"
| "map_gateway thrown = Inl (if isEditorAssistTransportTimeout thrown then TimedOut else GatewayUnavailable)"

section \<open>The ledger and the bodies\<close>

record ledger_entry =
  leEntryId :: string
  leInvocationId :: "string option"
  leTenant :: string
  leUser :: string
  leSession :: string
  leRegion :: editor_region
  leByteHash :: string
  leRedactedFields :: "string list"
  leLedgerRef :: string
  leAssistRef :: string
  leBudget :: budget_snapshot
  leStartedAt :: string
  leEndedAt :: string
  leFailure :: "explain_error_code option"
  leRunId :: "string option"

definition snapshot_json :: "budget_snapshot \<Rightarrow> json" where
  "snapshot_json b =
     JObj [(''limit'', js_num (of_int (bsLimit b))), (''used'', js_num (of_int (bsUsed b))),
           (''remaining'', js_num (of_int (bsRemaining b)))]"

definition buildErrorBody :: "explain_error_code \<Rightarrow> budget_snapshot option \<Rightarrow> string option \<Rightarrow> json" where
  "buildErrorBody code snapshot messageOverride =
     JObj [(''schemaVersion'', JStr EDITOR_ASSIST_SCHEMA_VERSION), (''errorCode'', JStr (explain_code_name code)),
           (''message'', JStr (or_default messageOverride (defaultMessageForErrorCode code))),
           (''budgetSnapshot'', js_or_null snapshot_json snapshot)]"

definition buildSuccessBody :: "string \<Rightarrow> string \<Rightarrow> ledger_entry \<Rightarrow> json" where
  "buildSuccessBody explanation modelInvocationRef entry =
     JObj [(''schemaVersion'', JStr EDITOR_ASSIST_SCHEMA_VERSION), (''explanation'', JStr explanation),
           (''modelInvocationRef'', JStr modelInvocationRef), (''editorAssistRef'', JStr (leAssistRef entry)),
           (''ledgerRef'', JStr (leLedgerRef entry)), (''budgetSnapshot'', snapshot_json (leBudget entry)),
           (''redactionApplied'', JArr (map JStr (leRedactedFields entry)))]"

definition emitEditorExplainError :: "explain_error_code \<Rightarrow> budget_snapshot option \<Rightarrow> string option \<Rightarrow> bff_response" where
  "emitEditorExplainError code snapshot messageOverride =
     jsonResponse (statusForErrorCode code) (buildErrorBody code snapshot messageOverride)"

definition LEDGER_UNAVAILABLE :: string where
  "LEDGER_UNAVAILABLE = ''Editor-assist audit ledger unavailable. Try again shortly.''"

definition SESSION_UNAVAILABLE :: string where
  "SESSION_UNAVAILABLE = ''Editor-assist session is unavailable. Sign in again.''"

section \<open>Before the gateway\<close>

record explain_config =
  ecGatewayEnabled :: bool
  ecBudget :: budget_options
  ecSession :: session_config

record pending_explain =
  peRequest :: explain_request
  peTenant :: string
  peUser :: string
  peSnapshot :: budget_snapshot
  peStartedAt :: string

record explain_state =
  xsSessions :: sessions
  xsBudgets :: budgets
  xsCounters :: counters
  xsLedger :: "ledger_entry list"

definition resolveEditorAssistSession ::
  "session_config \<Rightarrow> int \<Rightarrow> bff_request \<Rightarrow> sessions \<Rightarrow> ((string \<times> string option) + session_record) \<times> sessions" where
  "resolveEditorAssistSession cfg now req m =
     (case request_session_id req of
        None \<Rightarrow> (Inl (''session cookie missing'', None), m)
      | Some sid \<Rightarrow>
          (case getSession (sessionOptions cfg) sid now m of
             (None, m') \<Rightarrow> (Inl (''session not found'', Some (cleared_cookie cfg req)), m')
           | (Some r, m') \<Rightarrow> (Inr r, m')))"

definition validateOptionalIdentityMatchesSession :: "json \<Rightarrow> session_record \<Rightarrow> string option" where
  "validateOptionalIdentityMatchesSession raw r =
     (let explicit = (\<lambda>k. case as_string (js_field (Some raw) k) of Some (c # cs) \<Rightarrow> Some (c # cs) | _ \<Rightarrow> None);
          other = (\<lambda>k own. explicit k \<noteq> None \<and> explicit k \<noteq> Some own)
      in if other ''tenantId'' (sesTenant r) then Some ''tenantId does not match the active editor-assist session''
         else if other ''userId'' (sesUser r) then Some ''userId does not match the active editor-assist session''
         else None)"

text \<open>What the request reads besides the state: two readings of the clock and whether the ledger opens.\<close>

record explain_now =
  enMs :: int
  enIso :: string
  enLedgerOpens :: bool

definition explain_request_of ::
  "(string \<Rightarrow> string) \<Rightarrow> bff_request \<Rightarrow> bff_response + (json \<times> explain_request)" where
  "explain_request_of computeByteHashHex req =
     (if rejectNonJsonContentType req
      then Inl (jsonResponse 415 (buildErrorBody InvalidRegion None (Some ''request must use Content-Type: application/json'')))
      else case rqBody req of
        BodyTooLarge \<Rightarrow> Inl (emitEditorExplainError InvalidRegion None (Some ''request body too large''))
      | BodyInvalid message \<Rightarrow> Inl (emitEditorExplainError InvalidRegion None (Some message))
      | BodyJson raw \<Rightarrow>
          (case validateExplainRequest computeByteHashHex raw of
             Inl message \<Rightarrow> Inl (emitEditorExplainError InvalidRegion None (Some message))
           | Inr request \<Rightarrow> Inr (raw, request)))"

definition explain_scope :: "session_record \<Rightarrow> budget_scope" where
  "explain_scope r = \<lparr>scTenant = sesTenant r, scUser = sesUser r, scSession = sesId r\<rparr>"

definition start_session_explain ::
  "explain_config \<Rightarrow> explain_now \<Rightarrow> json \<Rightarrow> explain_request \<Rightarrow> session_record \<Rightarrow> explain_state \<Rightarrow>
   (bff_response + pending_explain) \<times> explain_state" where
  "start_session_explain cfg now raw request r st =
     (case validateOptionalIdentityMatchesSession raw r of
        Some mismatch \<Rightarrow> (Inl (emitEditorExplainError PolicyDenied None (Some mismatch)), st)
      | None \<Rightarrow>
          (if \<not> enLedgerOpens now
           then (Inl (emitEditorExplainError GatewayUnavailable None (Some LEDGER_UNAVAILABLE)), st)
           else case consumeBudget (ecBudget cfg) (enIso now) (explain_scope r) (xsBudgets st) of
             (Inl snapshot, b) \<Rightarrow> (Inl (emitEditorExplainError BudgetExhausted (Some snapshot) None), st\<lparr>xsBudgets := b\<rparr>)
           | (Inr snapshot, b) \<Rightarrow>
               (Inr \<lparr>peRequest = request, peTenant = sesTenant r, peUser = sesUser r, peSnapshot = snapshot,
                     peStartedAt = enIso now\<rparr>,
                st\<lparr>xsBudgets := b\<rparr>)))"

definition start_explain ::
  "web_api \<Rightarrow> (string \<Rightarrow> string) \<Rightarrow> explain_config \<Rightarrow> explain_now \<Rightarrow> bff_request \<Rightarrow> explain_state \<Rightarrow>
   (bff_response + pending_explain) \<times> explain_state" where
  "start_explain U computeByteHashHex cfg now req st =
     (if \<not> isAllowedBrowserOrigin U req (studioCorsOrigins (ecSession cfg)) then (Inl (error_response 403 ''origin not allowed''), st)
      else if \<not> ecGatewayEnabled cfg then (Inl (emitEditorExplainError GatewayUnavailable None None), st)
      else case explain_request_of computeByteHashHex req of
        Inl response \<Rightarrow> (Inl response, st)
      | Inr (raw, request) \<Rightarrow>
          (case resolveEditorAssistSession (ecSession cfg) (enMs now) req (xsSessions st) of
             (Inl (_, cookie), m) \<Rightarrow>
               (Inl ((emitEditorExplainError PolicyDenied None (Some SESSION_UNAVAILABLE))\<lparr>rsSetCookie := cookie\<rparr>),
                st\<lparr>xsSessions := m\<rparr>)
           | (Inr r, m) \<Rightarrow> start_session_explain cfg now raw request r (st\<lparr>xsSessions := m\<rparr>)))"

section \<open>After the gateway\<close>

definition explain_entry ::
  "pending_explain \<Rightarrow> string \<Rightarrow> nat \<Rightarrow> explain_error_code + gateway_ok \<Rightarrow> ledger_entry" where
  "explain_entry p endedAt seq mapped =
     (let request = peRequest p; ref = buildEditorAssistRef (peTenant p) (exSessionId request) seq;
          localRef = buildLocalLedgerRef (peTenant p) (exSessionId request) seq;
          ids = rdPatternIds (exMetadata request)
      in \<lparr>leEntryId = ref,
          leInvocationId = (case mapped of Inl _ \<Rightarrow> None | Inr ok \<Rightarrow> gwInvocationId ok),
          leTenant = peTenant p, leUser = peUser p, leSession = exSessionId request, leRegion = exRegion request,
          leByteHash = ''sha256:'' @ exByteHash request,
          leRedactedFields = (case mapped of Inl _ \<Rightarrow> ids | Inr ok \<Rightarrow> normaliseGatewayRedactedFields ids (gwRedactedFields ok)),
          leLedgerRef = (case mapped of Inl _ \<Rightarrow> localRef | Inr ok \<Rightarrow> or_default (gwLedgerRef ok) localRef),
          leAssistRef = ref, leBudget = peSnapshot p, leStartedAt = peStartedAt p, leEndedAt = endedAt,
          leFailure = (case mapped of Inl code \<Rightarrow> Some code | Inr _ \<Rightarrow> None), leRunId = exRunId request\<rparr>)"

definition finish_explain ::
  "string \<Rightarrow> bool \<Rightarrow> gateway_answer \<Rightarrow> pending_explain \<Rightarrow> explain_state \<Rightarrow> bff_response \<times> explain_state" where
  "finish_explain endedAt ledgerWrites answer p st =
     (let mapped = map_gateway answer;
          (seq, counters) = nextSequence (peTenant p) (exSessionId (peRequest p)) (xsCounters st);
          entry = explain_entry p endedAt seq mapped;
          st1 = st\<lparr>xsCounters := counters\<rparr>
      in if \<not> ledgerWrites
         then (emitEditorExplainError GatewayUnavailable (Some (peSnapshot p)) (Some LEDGER_UNAVAILABLE), st1)
         else (case mapped of
                 Inl code \<Rightarrow> emitEditorExplainError code (Some (peSnapshot p)) None
               | Inr ok \<Rightarrow>
                   jsonResponse 200 (buildSuccessBody (gwExplanation ok)
                     (or_default (gwInvocationId ok) (''mi-'' @ int_string (int seq) @ ''-'' @ leAssistRef entry)) entry),
               st1\<lparr>xsLedger := xsLedger st @ [entry]\<rparr>))"

section \<open>The budget route\<close>

text \<open>\<open>GET /api/v0/editor/budget\<close> with its three query parameters.\<close>

definition identity_param :: "string option \<Rightarrow> string \<Rightarrow> string + unit" where
  "identity_param v name =
     (case v of
        None \<Rightarrow> Inr ()
      | Some s \<Rightarrow> and_then (require (js_trim s \<noteq> []) (name @ '' must be a non-empty string when provided''))
          (\<lambda>_. validateEditorAssistIdentifier s name))"

definition budget_params :: "string option \<Rightarrow> string option \<Rightarrow> string option \<Rightarrow> string + unit" where
  "budget_params sessionId tenantId userId =
     (let sid = or_default sessionId []
      in and_then (require (js_trim sid \<noteq> []) ''sessionId must be a non-empty string'') (\<lambda>_.
         and_then (validateEditorAssistIdentifier sid ''sessionId'') (\<lambda>_.
         and_then (identity_param tenantId ''tenantId'') (\<lambda>_. identity_param userId ''userId''))))"

definition budget_route ::
  "web_api \<Rightarrow> explain_config \<Rightarrow> int \<Rightarrow> bff_request \<Rightarrow> string option \<Rightarrow> string option \<Rightarrow> string option \<Rightarrow> explain_state \<Rightarrow>
   bff_response \<times> explain_state" where
  "budget_route U cfg now req sessionId tenantId userId st =
     (if \<not> isAllowedBrowserOrigin U req (studioCorsOrigins (ecSession cfg)) then (error_response 403 ''origin not allowed'', st)
      else case budget_params sessionId tenantId userId of
        Inl message \<Rightarrow> (error_response 400 message, st)
      | Inr _ \<Rightarrow>
          (case resolveEditorAssistSession (ecSession cfg) now req (xsSessions st) of
             (Inl (message, cookie), m) \<Rightarrow>
               ((error_response 401 message)\<lparr>rsSetCookie := cookie\<rparr>, st\<lparr>xsSessions := m\<rparr>)
           | (Inr r, m) \<Rightarrow>
               (if tenantId \<notin> {None, Some (sesTenant r)}
                then error_response 403 ''tenantId does not match the active editor-assist session''
                else if userId \<notin> {None, Some (sesUser r)}
                then error_response 403 ''userId does not match the active editor-assist session''
                else jsonResponse 200 (JObj [(''schemaVersion'', JStr EDITOR_ASSIST_SCHEMA_VERSION),
                  (''budget'', snapshot_json (budgetSnapshot (ecBudget cfg) (explain_scope r) (xsBudgets st)))]),
                st\<lparr>xsSessions := m\<rparr>)))"

end
