(* ===== verification/Explain_Facts.thy ===== *)
theory Explain_Facts
  imports Bff_Explain_Route "HOL-Library.Multiset"
begin

text \<open>
  The editor-assist channel of the BFF under every interleaving of its requests: what reaches the model
  gateway, the budgets, and the ledger.
\<close>

section \<open>Validated requests\<close>

lemma require_Inr [simp]: "require ok message = Inr u \<longleftrightarrow> ok"
  by (simp add: require_def)

lemma checked_bytes_Inr:
  "checked_bytes v = Inr s \<longleftrightarrow> v = Some (JStr s) \<and> s \<noteq> [] \<and> length (utf8 s) \<le> EDITOR_ASSIST_REDACTED_BYTES_MAX"
  by (cases v rule: as_string.cases) (auto simp: checked_bytes_def and_then_Inr)

lemma line_number_Inr: "line_number v message = Inr n \<Longrightarrow> 1 \<le> n"
  by (auto simp: line_number_def le_floor_iff split: option.splits if_splits)

definition vetted_region :: "editor_region \<Rightarrow> bool" where
  "vetted_region region \<longleftrightarrow>
     validateFilePath (erFilePath region) = Inr () \<and> 1 \<le> erStartLine region \<and> erStartLine region \<le> erEndLine region"

lemma validateRegion_Inr: "validateRegion v = Inr region \<Longrightarrow> vetted_region region"
  unfolding validateRegion_def vetted_region_def
  by (auto simp: and_then_Inr split: option.splits dest: line_number_Inr)

lemma validateRedactionMetadata_Inr:
  "validateRedactionMetadata v = Inr d \<Longrightarrow> list_all isSafeRedactionPatternId (rdPatternIds d)"
  unfolding validateRedactionMetadata_def by (auto simp: and_then_Inr split: option.splits)

lemma validateExplainRequest_Inr:
  assumes "validateExplainRequest sha raw = Inr request"
  shows "vetted_region (exRegion request)" "list_all isSafeRedactionPatternId (rdPatternIds (exMetadata request))"
    "exRedactedBytes request \<noteq> []" "length (utf8 (exRedactedBytes request)) \<le> EDITOR_ASSIST_REDACTED_BYTES_MAX"
    "map to_lower (sha (exRedactedBytes request)) = map to_lower (exByteHash request)"
    "validateEditorAssistIdentifier (exSessionId request) ''sessionId'' = Inr ()"
  using assms unfolding validateExplainRequest_def
  by (auto simp: and_then_Inr checked_bytes_Inr split: option.splits dest: validateRegion_Inr validateRedactionMetadata_Inr)

section \<open>Runs\<close>

text \<open>
  A step starts a request or finishes one that waits for the gateway.  The label of a start has the day
  of the request, and, when the gateway is called, the scope of the budget and what was sent.
\<close>

datatype explain_label =
  Called string budget_scope pending_explain
| Refused string
| Finished bool

inductive explain_step ::
  "web_api \<Rightarrow> (string \<Rightarrow> string) \<Rightarrow> explain_config \<Rightarrow> explain_state \<times> pending_explain list \<Rightarrow> explain_label \<Rightarrow>
   explain_state \<times> pending_explain list \<Rightarrow> bool"
  for U :: web_api and sha :: "string \<Rightarrow> string" and cfg :: explain_config where
  call: "start_explain U sha cfg now req st = (Inr p, st') \<Longrightarrow>
     fst (resolveEditorAssistSession (ecSession cfg) (enMs now) req (xsSessions st)) = Inr r \<Longrightarrow>
     explain_step U sha cfg (st, ps) (Called (utcDateKey (enIso now)) (explain_scope r) p) (st', ps @ [p])"
| refuse: "start_explain U sha cfg now req st = (Inl response, st') \<Longrightarrow>
     explain_step U sha cfg (st, ps) (Refused (utcDateKey (enIso now))) (st', ps)"
| finish: "finish_explain endedAt written answer p st = (response, st') \<Longrightarrow>
     explain_step U sha cfg (st, ps @ p # qs) (Finished written) (st', ps @ qs)"

inductive explain_run ::
  "web_api \<Rightarrow> (string \<Rightarrow> string) \<Rightarrow> explain_config \<Rightarrow> explain_state \<Rightarrow> explain_label list \<Rightarrow>
   explain_state \<times> pending_explain list \<Rightarrow> bool"
  for U :: web_api and sha :: "string \<Rightarrow> string" and cfg :: explain_config and st0 :: explain_state where
  init: "explain_run U sha cfg st0 [] (st0, [])"
| step: "explain_run U sha cfg st0 ls s \<Longrightarrow> explain_step U sha cfg s l s' \<Longrightarrow> explain_run U sha cfg st0 (ls @ [l]) s'"

inductive_cases call_step: "explain_step U sha cfg s (Called day scope p) s'"
inductive_cases refuse_step: "explain_step U sha cfg s (Refused day) s'"
inductive_cases finish_step: "explain_step U sha cfg s (Finished written) s'"

definition fresh_explain :: "sessions \<Rightarrow> explain_state" where
  "fresh_explain m = \<lparr>xsSessions = m, xsBudgets = \<lparr>bgSessions = [], bgTenants = []\<rparr>, xsCounters = [], xsLedger = []\<rparr>"

fun label_days :: "explain_label list \<Rightarrow> string list" where
  "label_days [] = []"
| "label_days (Called day _ _ # ls) = day # label_days ls"
| "label_days (Refused day # ls) = day # label_days ls"
| "label_days (Finished _ # ls) = label_days ls"

fun calls :: "explain_label list \<Rightarrow> (string \<times> budget_scope \<times> pending_explain) list" where
  "calls [] = []"
| "calls (Called day scope p # ls) = (day, scope, p) # calls ls"
| "calls (_ # ls) = calls ls"

fun lost_entries :: "explain_label list \<Rightarrow> nat" where
  "lost_entries [] = 0"
| "lost_entries (Finished False # ls) = Suc (lost_entries ls)"
| "lost_entries (_ # ls) = lost_entries ls"

lemma label_days_append [simp]: "label_days (ls @ ms) = label_days ls @ label_days ms"
  by (induction ls rule: label_days.induct) auto

lemma calls_append [simp]: "calls (ls @ ms) = calls ls @ calls ms"
  by (induction ls rule: calls.induct) auto

lemma lost_entries_append [simp]: "lost_entries (ls @ ms) = lost_entries ls + lost_entries ms"
  by (induction ls rule: lost_entries.induct) auto

section \<open>What a start does\<close>

lemma start_calls:
  assumes "start_explain U sha cfg now req st = (Inr p, st')"
    and "fst (resolveEditorAssistSession (ecSession cfg) (enMs now) req (xsSessions st)) = Inr r"
  shows "consumeBudget (ecBudget cfg) (enIso now) (explain_scope r) (xsBudgets st) = (Inr (peSnapshot p), xsBudgets st')"
    and "xsLedger st' = xsLedger st" and "xsCounters st' = xsCounters st"
    and "peTenant p = sesTenant r" and "peUser p = sesUser r" and "peStartedAt p = enIso now"
    and "explain_request_of sha req = Inr (raw, request) \<Longrightarrow> peRequest p = request"
    and "\<exists>raw. explain_request_of sha req = Inr (raw, peRequest p) \<and> validateOptionalIdentityMatchesSession raw r = None"
    and "isAllowedBrowserOrigin U req (studioCorsOrigins (ecSession cfg))" and "ecGatewayEnabled cfg"
  using assms unfolding start_explain_def start_session_explain_def
  by (auto split: if_splits sum.splits prod.splits option.splits)

lemma start_refuses:
  assumes "start_explain U sha cfg now req st = (Inl response, st')"
  shows "xsLedger st' = xsLedger st \<and> xsCounters st' = xsCounters st \<and>
    (xsBudgets st' = xsBudgets st \<or>
     (\<exists>scope snapshot. consumeBudget (ecBudget cfg) (enIso now) scope (xsBudgets st) = (Inl snapshot, xsBudgets st')))"
  using assms unfolding start_explain_def start_session_explain_def
  by (auto split: if_splits sum.splits prod.splits option.splits)

section \<open>Budgets\<close>

definition session_calls :: "string \<Rightarrow> explain_label list \<Rightarrow> nat" where
  "session_calls key ls = length (filter (\<lambda>(day, scope, p). scopeKey scope = key) (calls ls))"

definition tenant_calls :: "string \<Rightarrow> string \<Rightarrow> explain_label list \<Rightarrow> nat" where
  "tenant_calls tenant day ls = length (filter (\<lambda>(d, scope, p). scTenant scope = tenant \<and> d = day) (calls ls))"

text \<open>The store is the log of the calls: the sessions in full, the tenants for the day of their entry.\<close>

definition session_log :: "budget_options \<Rightarrow> explain_label list \<Rightarrow> (string, nat) js_map \<Rightarrow> bool" where
  "session_log opts ls m \<longleftrightarrow>
     (\<forall>key. or_default (js_get m key) 0 = session_calls key ls \<and>
        (session_calls key ls = 0 \<or> int (session_calls key ls) \<le> boLimit opts))"

definition tenant_log :: "explain_label list \<Rightarrow> string \<Rightarrow> tenant_budget option \<Rightarrow> bool" where
  "tenant_log ls t e \<longleftrightarrow>
     (case e of
        None \<Rightarrow> \<forall>d. tenant_calls t d ls = 0
      | Some e \<Rightarrow> tbDate e \<in> set (label_days ls) \<and> tbUsed e = tenant_calls t (tbDate e) ls \<and>
          (\<forall>d. tbDate e < d \<longrightarrow> tenant_calls t d ls = 0))"

definition cap_log :: "budget_options \<Rightarrow> explain_label list \<Rightarrow> bool" where
  "cap_log opts ls \<longleftrightarrow>
     (\<forall>t d. tenant_calls t d ls = 0 \<or> of_nat (tenant_calls t d ls) < boTenantCap opts + 1)"

definition budget_log :: "budget_options \<Rightarrow> explain_label list \<Rightarrow> budgets \<Rightarrow> bool" where
  "budget_log opts ls b \<longleftrightarrow>
     session_log opts ls (bgSessions b) \<and> (\<forall>t. tenant_log ls t (js_get (bgTenants b) t)) \<and> cap_log opts ls"

lemma session_calls_append [simp]:
  "session_calls key (ls @ [Refused day]) = session_calls key ls"
  "session_calls key (ls @ [Finished w]) = session_calls key ls"
  "session_calls key (ls @ [Called day scope p]) = session_calls key ls + (if scopeKey scope = key then 1 else 0)"
  by (simp_all add: session_calls_def)

lemma tenant_calls_append [simp]:
  "tenant_calls t d (ls @ [Refused day]) = tenant_calls t d ls"
  "tenant_calls t d (ls @ [Finished w]) = tenant_calls t d ls"
  "tenant_calls t d (ls @ [Called day scope p]) = tenant_calls t d ls + (if scTenant scope = t \<and> day = d then 1 else 0)"
  by (simp_all add: tenant_calls_def)

lemma tenant_today_log:
  assumes "tenant_log ls t (js_get (bgTenants b) t)" and "\<forall>d\<in>set (label_days ls). d \<le> utcDateKey time'"
  shows "tbDate (tenant_today (utcDateKey time') t b) = utcDateKey time'"
    and "tbUsed (tenant_today (utcDateKey time') t b) = tenant_calls t (utcDateKey time') ls"
    and "\<And>d. utcDateKey time' < d \<Longrightarrow> tenant_calls t d ls = 0"
proof -
  let ?day = "utcDateKey time'"
  have "tbDate (tenant_today ?day t b) = ?day \<and> tbUsed (tenant_today ?day t b) = tenant_calls t ?day ls \<and>
    (\<forall>d. ?day < d \<longrightarrow> tenant_calls t d ls = 0)"
  proof (cases "js_get (bgTenants b) t")
    case None
    then show ?thesis using assms(1) by (simp add: tenant_log_def tenant_today_def)
  next
    case (Some e)
    then have e: "tbDate e \<in> set (label_days ls)" "tbUsed e = tenant_calls t (tbDate e) ls"
        "\<forall>d. tbDate e < d \<longrightarrow> tenant_calls t d ls = 0"
      using assms(1) by (simp_all add: tenant_log_def)
    show ?thesis
    proof (cases "tbDate e = ?day")
      case False
      then have "tbDate e < ?day" using assms(2) e(1) by (simp add: order_less_le)
      then have "\<forall>d. ?day < d \<longrightarrow> tenant_calls t d ls = 0" "tenant_calls t ?day ls = 0"
        using e(3) order_less_trans by blast+
      then show ?thesis using Some False by (simp add: tenant_today_def)
    qed (use Some e in \<open>simp add: tenant_today_def\<close>)
  qed
  then show "tbDate (tenant_today ?day t b) = ?day" "tbUsed (tenant_today ?day t b) = tenant_calls t ?day ls"
    "\<And>d. ?day < d \<Longrightarrow> tenant_calls t d ls = 0" by blast+
qed

lemma consume_parts:
  assumes "consumeBudget opts time' scope b = (result, b')"
  shows "case result of
      Inl _ \<Rightarrow> bgSessions b' = js_set (scopeKey scope) (session_used scope b) (bgSessions b) \<and>
        bgTenants b' = js_set (scTenant scope) (tenant_today (utcDateKey time') (scTenant scope) b) (bgTenants b)
    | Inr _ \<Rightarrow> int (session_used scope b) < boLimit opts \<and>
        of_nat (tbUsed (tenant_today (utcDateKey time') (scTenant scope) b)) < boTenantCap opts \<and>
        bgSessions b' = js_set (scopeKey scope) (Suc (session_used scope b)) (bgSessions b) \<and>
        bgTenants b' = js_set (scTenant scope)
          ((tenant_today (utcDateKey time') (scTenant scope) b)
            \<lparr>tbUsed := Suc (tbUsed (tenant_today (utcDateKey time') (scTenant scope) b))\<rparr>) (bgTenants b)"
  using assms unfolding consumeBudget_def Let_def by (cases result) (auto simp: not_le split: if_splits)

lemma tenant_log_later:
  "tenant_log ls t e \<Longrightarrow> tenant_log (ls @ [Refused day]) t e"
  "tenant_log ls t e \<Longrightarrow> tenant_log (ls @ [Finished w]) t e"
  "tenant_log ls t e \<Longrightarrow> scTenant scope \<noteq> t \<Longrightarrow> tenant_log (ls @ [Called day scope p]) t e"
  by (simp_all add: tenant_log_def split: option.splits)

lemma log_refused:
  assumes "budget_log opts ls b" and "\<forall>d\<in>set (label_days ls). d \<le> utcDateKey time'"
    and "consumeBudget opts time' scope b = (Inl s, b')"
  shows "budget_log opts (ls @ [Refused (utcDateKey time')]) b'"
proof -
  let ?t = "scTenant scope" and ?day = "utcDateKey time'"
  have log: "session_log opts ls (bgSessions b)" "\<And>t. tenant_log ls t (js_get (bgTenants b) t)" "cap_log opts ls"
    using assms(1) by (simp_all add: budget_log_def)
  note today = tenant_today_log [OF log(2) [of ?t] assms(2)]
  have b': "bgSessions b' = js_set (scopeKey scope) (session_used scope b) (bgSessions b)"
      "bgTenants b' = js_set ?t (tenant_today ?day ?t b) (bgTenants b)"
    using consume_parts [OF assms(3)] by simp_all
  have "session_log opts (ls @ [Refused ?day]) (bgSessions b')"
    using log(1) by (simp add: session_log_def b' session_used_def)
  moreover have "tenant_log (ls @ [Refused ?day]) t (js_get (bgTenants b') t)" for t
  proof (cases "t = ?t")
    case False
    then show ?thesis using tenant_log_later(1) [OF log(2) [of t]] by (simp add: b')
  qed (use today in \<open>simp add: b' tenant_log_def\<close>)
  moreover have "cap_log opts (ls @ [Refused ?day])" using log(3) by (simp add: cap_log_def)
  ultimately show ?thesis by (simp add: budget_log_def)
qed

lemma log_called:
  assumes "budget_log opts ls b" and "\<forall>d\<in>set (label_days ls). d \<le> utcDateKey time'"
    and "consumeBudget opts time' scope b = (Inr s, b')"
  shows "budget_log opts (ls @ [Called (utcDateKey time') scope p]) b'"
proof -
  let ?t = "scTenant scope" and ?day = "utcDateKey time'"
  have log: "session_log opts ls (bgSessions b)" "\<And>t. tenant_log ls t (js_get (bgTenants b) t)" "cap_log opts ls"
    using assms(1) by (simp_all add: budget_log_def)
  note today = tenant_today_log [OF log(2) [of ?t] assms(2)]
  let ?e = "tenant_today ?day ?t b"
  have b': "bgSessions b' = js_set (scopeKey scope) (Suc (session_used scope b)) (bgSessions b)"
      "bgTenants b' = js_set ?t (?e\<lparr>tbUsed := Suc (tbUsed ?e)\<rparr>) (bgTenants b)"
      and room: "int (session_used scope b) < boLimit opts" "of_nat (tbUsed ?e) < boTenantCap opts"
    using consume_parts [OF assms(3)] by simp_all
  have used: "session_used scope b = session_calls (scopeKey scope) ls"
    using log(1) by (simp add: session_log_def session_used_def)
  have "session_log opts (ls @ [Called ?day scope p]) (bgSessions b')"
    using log(1) room(1) by (simp add: session_log_def b' used)
  moreover have "tenant_log (ls @ [Called ?day scope p]) t (js_get (bgTenants b') t)" for t
  proof (cases "t = ?t")
    case True
    have "\<forall>d. ?day < d \<longrightarrow> tenant_calls ?t d (ls @ [Called ?day scope p]) = 0" using today(3) by auto
    then show ?thesis using today True by (simp add: b' tenant_log_def)
  next
    case False
    then show ?thesis using tenant_log_later(3) [OF log(2)] by (simp add: b')
  qed
  moreover have "cap_log opts (ls @ [Called ?day scope p])"
    using log(3) room(2) unfolding today(2) by (simp add: cap_log_def)
  ultimately show ?thesis by (simp add: budget_log_def)
qed

lemma log_same:
  "budget_log opts ls b \<Longrightarrow> budget_log opts (ls @ [Refused day]) b"
  "budget_log opts ls b \<Longrightarrow> budget_log opts (ls @ [Finished w]) b"
  by (simp_all add: budget_log_def session_log_def cap_log_def tenant_log_later)

lemma run_budget_log:
  "explain_run U sha cfg (fresh_explain m) ls (st, ps) \<Longrightarrow> sorted (label_days ls) \<Longrightarrow>
   budget_log (ecBudget cfg) ls (xsBudgets st)"
proof (induction ls "(st, ps)" arbitrary: st ps rule: explain_run.induct)
  case init
  show ?case
    by (simp add: fresh_explain_def budget_log_def session_log_def tenant_log_def cap_log_def session_calls_def tenant_calls_def)
next
  case (step ls s l)
  obtain st1 ps1 where s: "s = (st1, ps1)" by (cases s)
  have log: "budget_log (ecBudget cfg) ls (xsBudgets st1)" using step.hyps(2) [OF s] step.prems by (simp add: sorted_append)
  from step.hyps(3) [unfolded s] show ?case
  proof cases
    case (call now req p r)
    then show ?thesis
      using log_called [OF log _ start_calls(1) [OF call(3,4)]] step.prems by (simp add: sorted_append)
  next
    case (refuse now req response)
    from start_refuses [OF refuse(3)] show ?thesis
      using log_refused [OF log] log_same(1) [OF log] step.prems refuse by (auto simp: sorted_append)
  next
    case (finish endedAt written answer p response)
    then have "xsBudgets st = xsBudgets st1"
      by (auto simp: finish_explain_def Let_def split: prod.splits sum.splits if_splits)
    then show ?thesis using log_same(2) [OF log] finish by simp
  qed
qed

section \<open>The ledger\<close>

text \<open>What an entry says of its call.\<close>

record call_facts =
  cfTenant :: string
  cfUser :: string
  cfSession :: string
  cfRegion :: editor_region
  cfByteHash :: string
  cfBudget :: budget_snapshot
  cfStartedAt :: string
  cfRunId :: "string option"

definition sent_facts :: "pending_explain \<Rightarrow> call_facts" where
  "sent_facts p =
     \<lparr>cfTenant = peTenant p, cfUser = peUser p, cfSession = exSessionId (peRequest p), cfRegion = exRegion (peRequest p),
      cfByteHash = ''sha256:'' @ exByteHash (peRequest p), cfBudget = peSnapshot p, cfStartedAt = peStartedAt p,
      cfRunId = exRunId (peRequest p)\<rparr>"

definition entry_facts :: "ledger_entry \<Rightarrow> call_facts" where
  "entry_facts e =
     \<lparr>cfTenant = leTenant e, cfUser = leUser e, cfSession = leSession e, cfRegion = leRegion e,
      cfByteHash = leByteHash e, cfBudget = leBudget e, cfStartedAt = leStartedAt e, cfRunId = leRunId e\<rparr>"

lemma entry_facts_sent: "entry_facts (explain_entry p endedAt seq mapped) = sent_facts p"
  by (simp add: entry_facts_def sent_facts_def explain_entry_def Let_def)

text \<open>A finished request: its entry, unless the ledger could not be written, and the next number.\<close>

lemma finish_parts:
  assumes "finish_explain endedAt written answer p st = (response, st')"
  defines "key \<equiv> peTenant p @ NUL @ exSessionId (peRequest p)"
  defines "seq \<equiv> Suc (or_default (js_get (xsCounters st) key) 0)"
  shows "xsCounters st' = js_set key seq (xsCounters st)"
    and "xsLedger st' = xsLedger st @ (if written then [explain_entry p endedAt seq (map_gateway answer)] else [])"
  using assms(1) unfolding finish_explain_def key_def seq_def nextSequence_def by (auto simp: Let_def split: if_splits)

lemma run_ledger:
  "explain_run U sha cfg (fresh_explain m) ls (st, ps) \<Longrightarrow>
   \<exists>lost. size lost = lost_entries ls \<and>
     mset (map (sent_facts \<circ> snd \<circ> snd) (calls ls)) =
       mset (map entry_facts (xsLedger st)) + mset (map sent_facts ps) + lost"
proof (induction ls "(st, ps)" arbitrary: st ps rule: explain_run.induct)
  case init
  show ?case by (simp add: fresh_explain_def)
next
  case (step ls s l)
  obtain st1 ps1 where s: "s = (st1, ps1)" by (cases s)
  obtain lost where lost: "size lost = lost_entries ls" "mset (map (sent_facts \<circ> snd \<circ> snd) (calls ls)) =
      mset (map entry_facts (xsLedger st1)) + mset (map sent_facts ps1) + lost"
    using step.hyps(2) [OF s] by blast
  from step.hyps(3) [unfolded s] show ?case
  proof cases
    case (call now req p r)
    then show ?thesis using lost start_calls(2) [OF call(3,4)] by (intro exI [of _ lost]) simp
  next
    case (refuse now req response)
    then show ?thesis using lost start_refuses [OF refuse(3)] by (intro exI [of _ lost]) simp
  next
    case (finish endedAt written answer p response qs rs)
    then show ?thesis
      using lost finish_parts(2) [OF finish(4)]
      by (intro exI [of _ "if written then lost else add_mset (sent_facts p) lost"])
        (cases written; simp add: entry_facts_sent)
  qed
qed

section \<open>References\<close>

lemma buildEditorAssistRef_inject:
  "buildEditorAssistRef tenant session m = buildEditorAssistRef tenant session n \<longleftrightarrow> m = n"
  by (simp add: buildEditorAssistRef_def int_string_def)

text \<open>The entries of a tenant's editor session carry increasing numbers.\<close>

definition numbered :: "explain_state \<Rightarrow> string \<Rightarrow> string \<Rightarrow> bool" where
  "numbered st tenant session \<longleftrightarrow>
     (\<exists>ns. map leEntryId (filter (\<lambda>e. leTenant e = tenant \<and> leSession e = session) (xsLedger st)) =
          map (buildEditorAssistRef tenant session) ns \<and>
        sorted_wrt (<) ns \<and> (\<forall>n\<in>set ns. n \<le> or_default (js_get (xsCounters st) (tenant @ NUL @ session)) 0))"

lemma finish_numbered:
  assumes "\<And>t s. numbered st t s" and "finish_explain endedAt written answer p st = (response, st')"
  shows "numbered st' t s"
proof -
  let ?own = "t = peTenant p \<and> s = exSessionId (peRequest p)"
  obtain ns where ns: "map leEntryId (filter (\<lambda>e. leTenant e = t \<and> leSession e = s) (xsLedger st)) = map (buildEditorAssistRef t s) ns"
      "sorted_wrt (<) ns" "\<forall>n\<in>set ns. n \<le> or_default (js_get (xsCounters st) (t @ NUL @ s)) 0"
    using assms(1) [of t s] unfolding numbered_def by blast
  note st' = finish_parts [OF assms(2)]
  let ?n = "Suc (or_default (js_get (xsCounters st) (peTenant p @ NUL @ exSessionId (peRequest p))) 0)"
  show ?thesis
  proof (cases "written \<and> ?own")
    case True
    then have "sorted_wrt (<) (ns @ [?n])" using ns(2,3) by (fastforce simp: sorted_wrt_append)
    moreover have "\<forall>n\<in>set (ns @ [?n]). n \<le> ?n" using ns(3) True by fastforce
    ultimately show ?thesis
      unfolding numbered_def st' using True ns(1)
      by (intro exI [of _ "ns @ [?n]"]) (simp add: explain_entry_def Let_def)
  next
    case False
    then show ?thesis
      unfolding numbered_def st' using ns
      by (intro exI [of _ ns]) (auto simp: explain_entry_def Let_def intro: le_SucI)
  qed
qed

lemma run_numbered: "explain_run U sha cfg (fresh_explain m) ls (st, ps) \<Longrightarrow> numbered st t s"
proof (induction ls "(st, ps)" arbitrary: st ps t s rule: explain_run.induct)
  case init
  show ?case by (simp add: numbered_def fresh_explain_def)
next
  case (step ls s1 l)
  obtain st1 ps1 where s: "s1 = (st1, ps1)" by (cases s1)
  have old: "numbered st1 t s" for t s using step.hyps(2) [OF s] .
  from step.hyps(3) [unfolded s] show ?case
  proof cases
    case (call now req p r)
    then show ?thesis using old start_calls(2,3) [OF call(3,4)] by (simp add: numbered_def)
  next
    case (refuse now req response)
    then show ?thesis using old start_refuses [OF refuse(3)] by (simp add: numbered_def)
  next
    case (finish endedAt written answer p response qs rs)
    then show ?thesis using finish_numbered [OF old finish(4)] by simp
  qed
qed

lemma run_ids_distinct:
  assumes "explain_run U sha cfg (fresh_explain m) ls (st, ps)"
  shows "distinct (map leEntryId (filter (\<lambda>e. leTenant e = t \<and> leSession e = s) (xsLedger st)))"
proof -
  obtain ns where "map leEntryId (filter (\<lambda>e. leTenant e = t \<and> leSession e = s) (xsLedger st)) = map (buildEditorAssistRef t s) ns"
      "sorted_wrt (<) ns"
    using run_numbered [OF assms, of t s] unfolding numbered_def by blast
  then show ?thesis by (simp add: strict_sorted_iff distinct_map inj_on_def buildEditorAssistRef_inject)
qed

text \<open>Ids are not distinct over tenants: the separator may occur in the parts.\<close>

lemma ledger_ids_collide: "buildEditorAssistRef ''a-b'' ''c'' n = buildEditorAssistRef ''a'' ''b-c'' n"
  by (simp add: buildEditorAssistRef_def)

end
