(* ===== verification/Studio_Redaction.thy ===== *)
theory Studio_Redaction
  imports Js_Regex Session_Store "HOL-Library.Product_Lexorder"
begin

text \<open>
  \<open>preRedaction.ts\<close>: what the Studio takes out of a region before it leaves the browser.  All matches
  of all patterns are collected on the original text, sorted, and replaced from left to right; a match
  that starts inside the previous replacement is passed over.
\<close>

section \<open>Patterns\<close>

definition STUDIO_REDACTION_PROFILE_VERSION :: string where "STUDIO_REDACTION_PROFILE_VERSION = ''v1.1.0''"

definition MAX_TENANT_ADDITION_LITERAL_CHARS :: nat where "MAX_TENANT_ADDITION_LITERAL_CHARS = 256"

record redaction_pattern =
  rpId :: string
  rpRegex :: regex

abbreviation pattern :: "string \<Rightarrow> regex list \<Rightarrow> redaction_pattern" where
  "pattern i rs \<equiv> \<lparr>rpId = i, rpRegex = rx_seq rs\<rparr>"

abbreviation rx_between :: "nat \<Rightarrow> nat \<Rightarrow> (char \<Rightarrow> bool) \<Rightarrow> regex" where
  "rx_between lo hi P \<equiv> RxRep lo (Some hi) (RxSet P)"

abbreviation rx_word :: "regex list \<Rightarrow> regex list" where
  "rx_word rs \<equiv> RxWordBoundary # rs @ [RxWordBoundary]"

definition is_blank :: "char \<Rightarrow> bool" where
  "is_blank c \<longleftrightarrow> c = CHR '' '' \<or> c = CHR 0x09"

definition in_line :: "char \<Rightarrow> bool" where
  "in_line c \<longleftrightarrow> c \<noteq> newline"

definition is_separator :: "char \<Rightarrow> bool" where
  "is_separator c \<longleftrightarrow> c = CHR '':'' \<or> c = CHR ''=''"

definition is_code_char :: "char \<Rightarrow> bool" where
  "is_code_char c \<longleftrightarrow> is_upper c \<or> is_digit c"

definition is_mail_char :: "char \<Rightarrow> bool" where
  "is_mail_char c \<longleftrightarrow> is_alnum c \<or> c \<in> {CHR ''.'', CHR ''_'', CHR ''%'', CHR ''+'', CHR ''-''}"

definition is_domain_char :: "char \<Rightarrow> bool" where
  "is_domain_char c \<longleftrightarrow> is_alnum c \<or> c = CHR ''.'' \<or> c = CHR ''-''"

definition is_letter :: "char \<Rightarrow> bool" where
  "is_letter c \<longleftrightarrow> is_upper c \<or> is_lower c"

definition field_class :: "string \<Rightarrow> string list \<Rightarrow> redaction_pattern" where
  "field_class cls names = pattern (''field-name-class:'' @ cls) (rx_word [rx_any_of (map rx_text_i names)])"

definition RAW_PATTERNS :: "redaction_pattern list" where
  "RAW_PATTERNS =
     [pattern ''pii-comment-line''
        [RxAlt RxStart (rx_text [newline]), rx_between 0 80 is_blank, rx_text ''*'', rx_many is_blank,
         rx_text ''PII:'', rx_between 0 4096 in_line],
      field_class ''account-number'' [''ACCT-NO'', ''ACCOUNT-NUMBER''],
      field_class ''card-number'' [''CARD-NO'', ''CARD-NUMBER''],
      field_class ''customer-name'' [''CUSTOMER-NAME'', ''CUST-NM''],
      field_class ''dob'' [''DOB'', ''DATE-OF-BIRTH''],
      field_class ''email'' [''EMAIL''],
      field_class ''national-id'' [''NATIONAL-ID'', ''NATIONAL-IDENTIFIER''],
      field_class ''phone'' [''PHONE'', ''PHONE-NO'', ''PHONE-NUMBER''],
      field_class ''social-security'' [''SOCIAL-SECURITY'', ''SSN''],
      field_class ''tax-id'' [''TAX-ID'', ''TAX-IDENTIFIER''],
      pattern ''ssn-us''
        (rx_word [rx_between 3 3 is_digit, rx_text ''-'', rx_between 2 2 is_digit, rx_text ''-'', rx_between 4 4 is_digit]),
      pattern ''iban-eu''
        (rx_word [rx_between 2 2 is_upper, rx_between 2 2 is_digit, rx_between 11 30 is_code_char]),
      pattern ''bic''
        [RxWordBoundary, rx_text ''BIC'', rx_many is_blank, rx_opt (RxSet is_separator),
         rx_many is_blank,
         RxGroup 1 (rx_seq [rx_between 4 4 is_upper, rx_between 2 2 is_upper, rx_between 2 2 is_code_char,
           rx_opt (rx_between 3 3 is_code_char)]),
         RxWordBoundary],
      pattern ''email-literal''
        (rx_word [rx_between 1 64 is_mail_char, rx_text ''@'', rx_between 1 253 is_domain_char, rx_text ''.'',
           rx_between 2 24 is_letter]),
      pattern ''phone-e164'' [rx_text ''+'', rx_between 7 15 is_digit, RxWordBoundary],
      pattern ''pan-15-19'' (rx_word [rx_between 15 19 is_digit]),
      pattern ''ipv4-literal''
        (rx_word [RxRep 3 (Some 3) (rx_seq [rx_between 1 3 is_digit, rx_text ''.'']), rx_between 1 3 is_digit])]"

text \<open>
  The additions of the session.  The expression of an escaped literal matches the literal.  The ids
  have the form \<open>/^[A-Za-z0-9._:-]{1,96}$/u\<close>, which \<open>redaction_id_ok\<close> of the session store checks too.
\<close>

definition buildTenantAdditionPatterns :: "redaction_addition list \<Rightarrow> redaction_pattern list" where
  "buildTenantAdditionPatterns additions = List.map_filter (\<lambda>addition.
     let i = js_trim (addId addition); literal = js_trim (addLiteral addition)
     in if \<not> redaction_id_ok i \<or> literal = [] \<or> MAX_TENANT_ADDITION_LITERAL_CHARS < length literal then None
        else Some \<lparr>rpId = i, rpRegex = rx_text literal\<rparr>) additions"

section \<open>Matches\<close>

record redaction_match =
  rmId :: string
  rmStart :: nat
  rmEnd :: nat
  rmOrder :: nat

text \<open>
  The loop over \<open>exec\<close> of an expression with the flag \<open>g\<close>: each search starts where the previous match
  ended, also when that match was empty, so the loop may not end.
\<close>

partial_function (option) global_matches ::
  "regex \<Rightarrow> nat \<Rightarrow> char option \<Rightarrow> string \<Rightarrow> (nat \<times> nat) list option" where
  "global_matches r pos p s =
     (case rx_search r p s of
        None \<Rightarrow> Some []
      | Some (i, p', rest, gs) \<Rightarrow>
          Option.bind (global_matches r (pos + (length s - length rest)) p' rest) (\<lambda>found.
            if pos + i < pos + (length s - length rest)
            then Some ((pos + i, pos + (length s - length rest)) # found) else Some found))"

declare global_matches.simps [code]

definition pattern_matches :: "string \<Rightarrow> nat \<times> redaction_pattern \<Rightarrow> redaction_match list option" where
  "pattern_matches rawText op =
     map_option (map (\<lambda>(s, e). \<lparr>rmId = rpId (snd op), rmStart = s, rmEnd = e, rmOrder = fst op\<rparr>))
       (global_matches (rpRegex (snd op)) 0 None rawText)"

definition collectMatches :: "string \<Rightarrow> redaction_pattern list \<Rightarrow> redaction_match list option" where
  "collectMatches rawText patterns =
     map_option (\<lambda>found. sort_key (\<lambda>m. (rmStart m, rmOrder m)) (concat found))
       (all_some (map (pattern_matches rawText) (enumerate 0 patterns)))"

section \<open>Redaction\<close>

definition redaction_marker :: "string \<Rightarrow> string \<Rightarrow> string" where
  "redaction_marker i matched =
     (if i = ''pii-comment-line'' \<and> prefix [newline] matched then [newline] else []) @ ''[REDACTED:'' @ i @ '']''"

text \<open>\<open>rawText.slice(s, e)\<close> for \<open>s\<close> up to \<open>e\<close>\<close>

definition js_slice :: "nat \<Rightarrow> nat \<Rightarrow> string \<Rightarrow> string" where
  "js_slice s e t = take (e - s) (drop s t)"

fun apply_matches :: "string \<Rightarrow> nat \<Rightarrow> redaction_match list \<Rightarrow> string \<times> redaction_match list" where
  "apply_matches rawText cursor [] = (drop cursor rawText, [])"
| "apply_matches rawText cursor (m # ms) =
     (if rmStart m < cursor then apply_matches rawText cursor ms
      else let (rest, applied) = apply_matches rawText (rmEnd m) ms
           in (js_slice cursor (rmStart m) rawText @
                redaction_marker (rmId m) (js_slice (rmStart m) (rmEnd m) rawText) @ rest, m # applied))"

record redaction_result =
  redactedText :: string
  matchedPatternIds :: "string list"
  profileVersion :: string

definition redactRegion :: "string \<Rightarrow> redaction_addition list \<Rightarrow> redaction_result option" where
  "redactRegion rawText tenantAdditions =
     map_option (\<lambda>matches. let (redacted, applied) = apply_matches rawText 0 matches
         in \<lparr>redactedText = redacted, matchedPatternIds = sort (remdups (map rmId applied)),
             profileVersion = STUDIO_REDACTION_PROFILE_VERSION\<rparr>)
       (collectMatches rawText (RAW_PATTERNS @ buildTenantAdditionPatterns tenantAdditions))"

end
