(* ===== verification/Studio_Explain.thy ===== *)
theory Studio_Explain
  imports Studio_Redaction Studio_Client Bff_Explain
begin

text \<open>
  The Studio's side of the editor-assist channel: the request that the editor panes build from a
  selection (\<open>CobolEditorPane.tsx\<close>, \<open>GeneratedJavaEditorPane.tsx\<close>), its client (\<open>editorAssistClient.ts\<close>) and
  the panel store (\<open>stores/editorAssist.tsx\<close>).  Telemetry is left out.
\<close>

section \<open>The request of a pane\<close>

fun source_kind_name :: "source_kind \<Rightarrow> string" where
  "source_kind_name CobolSource = ''cobol''"
| "source_kind_name JavaSource = ''java''"

record explain_selection =
  selSessionId :: string
  selTenant :: string
  selUser :: string
  selRunId :: "string option"
  selFilePath :: string
  selKind :: source_kind
  selStart :: int
  selEnd :: int
  selText :: string

text \<open>The lines of a selection, or the line of the cursor when the selection is empty.\<close>

definition selected_lines :: "(int \<times> int) option \<Rightarrow> int \<Rightarrow> int \<times> int" where
  "selected_lines selection cursorLine = or_default selection (cursorLine, cursorLine)"

definition explain_payload :: "(string \<Rightarrow> string) \<Rightarrow> explain_selection \<Rightarrow> redaction_result \<Rightarrow> (string \<times> json) list" where
  "explain_payload computeSha256Hex sel redaction =
     [(''schemaVersion'', JStr EDITOR_ASSIST_SCHEMA_VERSION), (''sessionId'', JStr (selSessionId sel)),
      (''tenantId'', JStr (selTenant sel)), (''userId'', JStr (selUser sel)), (''runId'', js_or_null JStr (selRunId sel)),
      (''sourceHash'', JStr (computeSha256Hex (selText sel))),
      (''region'', JObj [(''filePath'', JStr (selFilePath sel)), (''sourceKind'', JStr (source_kind_name (selKind sel))),
         (''startLine'', js_num (of_int (selStart sel))), (''endLine'', js_num (of_int (selEnd sel)))]),
      (''redactedBytes'', JStr (redactedText redaction)), (''byteHash'', JStr (computeSha256Hex (redactedText redaction))),
      (''studioRedactionMetadata'',
         JObj [(''studioRedactionProfileVersion'', JStr (profileVersion redaction)),
               (''matchedPatternIds'', JArr (map JStr (matchedPatternIds redaction)))])]"

definition stripClientAssertedIdentity :: "(string \<times> json) list \<Rightarrow> (string \<times> json) list" where
  "stripClientAssertedIdentity payload = js_delete ''userId'' (js_delete ''tenantId'' payload)"

text \<open>The action: redact, hash, and send what is left of the request without the identity.\<close>

definition explain_action ::
  "(string \<Rightarrow> string) \<Rightarrow> redaction_addition list \<Rightarrow> explain_selection \<Rightarrow> json option" where
  "explain_action computeSha256Hex additions sel =
     map_option (\<lambda>redaction. JObj (stripClientAssertedIdentity (explain_payload computeSha256Hex sel redaction)))
       (redactRegion (selText sel) additions)"

section \<open>The client\<close>

definition UNAVAILABLE_MESSAGE :: string where
  "UNAVAILABLE_MESSAGE = ''Editor-Assist is temporarily unavailable. Please retry in a moment.''"

definition EDITOR_ASSIST_ERROR_CODES :: "string list" where
  "EDITOR_ASSIST_ERROR_CODES = [''budget_exhausted'', ''policy_denied'', ''gateway_unavailable'', ''timeout'', ''invalid_region'']"

definition isBudgetSnapshot :: "json option \<Rightarrow> bool" where
  "isBudgetSnapshot v =
     has_fields [(''limit'', isNonNegativeInteger), (''used'', isNonNegativeInteger), (''remaining'', isNonNegativeInteger)] v"

definition isSuccessResponse :: "json option \<Rightarrow> bool" where
  "isSuccessResponse v =
     has_fields [(''schemaVersion'', one_of [EDITOR_ASSIST_SCHEMA_VERSION]), (''explanation'', isString),
       (''modelInvocationRef'', isString), (''editorAssistRef'', isString), (''ledgerRef'', isString),
       (''budgetSnapshot'', isBudgetSnapshot), (''redactionApplied'', isStringArray)] v"

datatype assist_result = AssistOk json | AssistFailed string string "json option"

definition unavailableResult :: "string \<Rightarrow> assist_result" where
  "unavailableResult message = AssistFailed ''gateway_unavailable'' message None"

definition parseEditorAssistError :: "json option \<Rightarrow> assist_result" where
  "parseEditorAssistError payload =
     (if \<not> isRecord payload \<or> js_field payload ''schemaVersion'' \<noteq> Some (JStr EDITOR_ASSIST_SCHEMA_VERSION)
      then unavailableResult UNAVAILABLE_MESSAGE
      else AssistFailed
        (case as_string (js_field payload ''errorCode'') of
           Some code \<Rightarrow> if code \<in> set EDITOR_ASSIST_ERROR_CODES then code else ''gateway_unavailable''
         | None \<Rightarrow> ''gateway_unavailable'')
        (or_default (as_string (js_field payload ''message'')) UNAVAILABLE_MESSAGE)
        (if isBudgetSnapshot (js_field payload ''budgetSnapshot'') then js_field payload ''budgetSnapshot'' else None))"

text \<open>Text that is no JSON is parsed to \<open>null\<close>, like no text.\<close>

fun safeParseJson :: "response_text \<Rightarrow> json option" where
  "safeParseJson (JsonText JNull) = None"
| "safeParseJson (JsonText j) = Some j"
| "safeParseJson _ = None"

definition requestExplanation ::
  "client_result \<Rightarrow> fetch_reply \<Rightarrow> 'd bootstrap_cache \<Rightarrow> assist_result \<times> 'd bootstrap_cache" where
  "requestExplanation baseUrl reply c =
     (case baseUrl of
        ClientFailed _ _ message \<Rightarrow> (unavailableResult message, c)
      | ClientOk _ \<Rightarrow>
          (case reply of
             FetchThrew _ \<Rightarrow> (unavailableResult UNAVAILABLE_MESSAGE, c)
           | FetchReply status body \<Rightarrow>
               (let parsed = safeParseJson body
                in if \<not> response_ok status
                   then (if parsed = None then unavailableResult UNAVAILABLE_MESSAGE else parseEditorAssistError parsed,
                         if status = 401 then clearSessionBootstrap c else c)
                   else (case parsed of
                           Some j \<Rightarrow> if isSuccessResponse parsed then AssistOk j else unavailableResult UNAVAILABLE_MESSAGE
                         | None \<Rightarrow> unavailableResult UNAVAILABLE_MESSAGE,
                         c))))"

definition isBudgetResponse :: "json option \<Rightarrow> bool" where
  "isBudgetResponse v =
     has_fields [(''schemaVersion'', one_of [EDITOR_ASSIST_SCHEMA_VERSION]), (''budget'', isBudgetSnapshot)] v"

definition getBudget ::
  "client_result \<Rightarrow> fetch_reply \<Rightarrow> 'd bootstrap_cache \<Rightarrow> (string + json) \<times> 'd bootstrap_cache" where
  "getBudget baseUrl reply c =
     (case baseUrl of
        ClientFailed _ _ message \<Rightarrow> (Inl message, c)
      | ClientOk _ \<Rightarrow>
          (case reply of
             FetchThrew _ \<Rightarrow> (Inl UNAVAILABLE_MESSAGE, c)
           | FetchReply status body \<Rightarrow>
               (if \<not> response_ok status
                then (Inl (''Budget unavailable (HTTP '' @ nat_digits status @ '')''),
                      if status = 401 then clearSessionBootstrap c else c)
                else (case safeParseJson body of
                        Some j \<Rightarrow> if isBudgetResponse (Some j) then Inr j else Inl ''Budget response failed contract check.''
                      | None \<Rightarrow> Inl ''Budget response failed contract check.'',
                      c))))"

section \<open>The panel\<close>

text \<open>
  The store of the side panel.  A request that is under way carries the number it was given; \<open>callSeq\<close> is
  \<open>callSeqRef\<close>, which a newer call moves on.
\<close>

record 'r assist_panel =
  panelOpen :: bool
  panelRequest :: "'r option"
  panelResult :: "assist_result option"
  panelBudget :: "json option"
  callSeq :: nat
  underWay :: "nat list"

definition empty_panel :: "'r assist_panel" where
  "empty_panel = \<lparr>panelOpen = False, panelRequest = None, panelResult = None, panelBudget = None, callSeq = 0, underWay = []\<rparr>"

definition runExplain :: "'r \<Rightarrow> 'r assist_panel \<Rightarrow> 'r assist_panel" where
  "runExplain request p =
     p\<lparr>callSeq := Suc (callSeq p), panelRequest := Some request, panelResult := None, panelOpen := True,
       underWay := underWay p @ [Suc (callSeq p)]\<rparr>"

definition retry :: "'r assist_panel \<Rightarrow> 'r assist_panel" where
  "retry p = (case panelRequest p of None \<Rightarrow> p | Some request \<Rightarrow> runExplain request p)"

definition closePanel :: "'r assist_panel \<Rightarrow> 'r assist_panel" where
  "closePanel p = p\<lparr>panelOpen := False\<rparr>"

fun result_snapshot :: "assist_result \<Rightarrow> json option" where
  "result_snapshot (AssistOk j) = js_field (Some j) ''budgetSnapshot''"
| "result_snapshot (AssistFailed _ _ snapshot) = snapshot"

text \<open>The response of the call with the number \<open>seq\<close>.\<close>

definition land_explain :: "nat \<Rightarrow> assist_result \<Rightarrow> 'r assist_panel \<Rightarrow> 'r assist_panel" where
  "land_explain seq response p =
     (let p' = p\<lparr>underWay := remove1 seq (underWay p)\<rparr>
      in if seq \<noteq> callSeq p then p'
         else p'\<lparr>panelResult := Some response,
                 panelBudget := or_else (result_snapshot response) (panelBudget p)\<rparr>)"

end
