(* ===== verification/Assist_Facts.thy ===== *)
theory Assist_Facts
  imports Explain_Facts Studio_Explain
begin

text \<open>
  The editor-assist channel on both sides: what a started request has passed, how the answers of the BFF read
  in the client, which requests of the Studio the BFF accepts, and the panel under every order of its events.
\<close>

section \<open>Started requests\<close>

lemma explain_request_validated:
  "explain_request_of sha req = Inr (raw, request) \<Longrightarrow> validateExplainRequest sha raw = Inr request"
  by (auto simp: explain_request_of_def split: if_splits body_read.splits sum.splits)

lemma session_resolved:
  assumes "fst (resolveEditorAssistSession cfg now req m) = Inr r"
  shows "\<exists>sid e. request_session_id req = Some sid \<and> js_get m sid = Some e \<and> r = storedRecord e \<and>
    \<not> (0 < idleTimeoutMs (sessionOptions cfg) \<and> idleTimeoutMs (sessionOptions cfg) < now - lastAccessMs e)"
  using assms unfolding resolveEditorAssistSession_def getSession_def
  by (auto split: option.splits if_splits prod.splits)

lemma start_session:
  assumes "start_explain U sha cfg now req st = (Inr p, st')"
  obtains r where "fst (resolveEditorAssistSession (ecSession cfg) (enMs now) req (xsSessions st)) = Inr r"
  using assms unfolding start_explain_def by (auto split: if_splits sum.splits prod.splits)

section \<open>Answers on the way to the panel\<close>

definition good_snapshot :: "budget_snapshot \<Rightarrow> bool" where
  "good_snapshot b \<longleftrightarrow> 0 \<le> bsLimit b \<and> 0 \<le> bsUsed b \<and> 0 \<le> bsRemaining b"

lemma snapshot_accepted: "good_snapshot b \<Longrightarrow> isBudgetSnapshot (Some (snapshot_json b))"
  by (simp add: isBudgetSnapshot_def has_fields_def snapshot_json_def good_snapshot_def isNonNegativeInteger_def
      js_field_def js_num_def isRecord_def asNumber_def is_integer_def)

text \<open>A failure of the explain channel: an error body under a status that neither succeeds nor signs out.\<close>

definition explain_error :: "bff_response \<Rightarrow> explain_error_code \<Rightarrow> budget_snapshot option \<Rightarrow> string option \<Rightarrow> bool" where
  "explain_error response code snapshot message \<longleftrightarrow>
     400 \<le> rsStatus response \<and> rsStatus response \<noteq> 401 \<and> rsBody response = Some (buildErrorBody code snapshot message) \<and>
     (\<forall>b. snapshot = Some b \<longrightarrow> good_snapshot b)"

lemma emitted_error [intro]:
  assumes "\<forall>b. snapshot = Some b \<longrightarrow> good_snapshot b"
  shows "explain_error (emitEditorExplainError code snapshot message) code snapshot message"
    and "explain_error (emitEditorExplainError code snapshot message\<lparr>rsSetCookie := k\<rparr>) code snapshot message"
    and "explain_error (jsonResponse 415 (buildErrorBody code snapshot message)) code snapshot message"
  using assms by (cases code; simp add: explain_error_def emitEditorExplainError_def jsonResponse_def)+

lemma emitted_error_exists:
  assumes "\<forall>b. snapshot = Some b \<longrightarrow> good_snapshot b"
  shows "\<exists>code s m. explain_error (emitEditorExplainError code' snapshot message) code s m"
    and "\<exists>code s m. explain_error (emitEditorExplainError code' snapshot message\<lparr>rsSetCookie := k\<rparr>) code s m"
    and "\<exists>code s m. explain_error (jsonResponse 415 (buildErrorBody code' snapshot message)) code s m"
  using emitted_error [OF assms] by blast+

lemma null_no_snapshot: "\<not> isBudgetSnapshot (Some JNull)"
  by (simp add: isBudgetSnapshot_def has_fields_def isRecord_def)

lemma parsed_error:
  assumes "\<forall>b. snapshot = Some b \<longrightarrow> good_snapshot b"
  shows "parseEditorAssistError (Some (buildErrorBody code snapshot message)) =
    AssistFailed (explain_code_name code) (or_default message (defaultMessageForErrorCode code)) (map_option snapshot_json snapshot)"
  using assms by (cases code; cases snapshot)
    (simp_all add: parseEditorAssistError_def buildErrorBody_def js_field_def isRecord_def EDITOR_ASSIST_ERROR_CODES_def
      snapshot_accepted js_or_null_def null_no_snapshot)

lemma error_arrives:
  assumes "explain_error response code snapshot message"
  shows "requestExplanation (ClientOk base) (reply_of response) c =
    (AssistFailed (explain_code_name code) (or_default message (defaultMessageForErrorCode code))
      (map_option snapshot_json snapshot), c)"
proof -
  have "safeParseJson (JsonText (buildErrorBody code snapshot message)) = Some (buildErrorBody code snapshot message)"
    by (simp add: buildErrorBody_def)
  then show ?thesis
    using assms parsed_error [of snapshot code message]
    by (simp add: explain_error_def requestExplanation_def reply_of_def response_ok_def)
qed

lemma success_arrives:
  assumes "good_snapshot (leBudget entry)"
  shows "requestExplanation (ClientOk base) (reply_of (jsonResponse 200 (buildSuccessBody explanation ref entry))) c =
    (AssistOk (buildSuccessBody explanation ref entry), c)"
  using snapshot_accepted [OF assms]
  by (simp add: requestExplanation_def reply_of_def jsonResponse_def response_ok_def buildSuccessBody_def
      isSuccessResponse_def has_fields_def isRecord_def js_field_def one_of_def isString_def isStringArray_def every_item_def list.pred_map comp_def list_all_iff)

text \<open>The snapshot of a call is within its limit.\<close>

lemma consumed_good:
  assumes "0 \<le> boLimit opts"
  shows "consumeBudget opts time' scope b = (Inr s, b') \<Longrightarrow> good_snapshot s"
    and "consumeBudget opts time' scope b = (Inl s, b') \<Longrightarrow> good_snapshot s"
  using assms unfolding consumeBudget_def Let_def good_snapshot_def snapshotForSession_def by (auto split: if_splits)

lemma started_good:
  assumes "0 \<le> boLimit (ecBudget cfg)" and "start_explain U sha cfg now req st = (Inr p, st')"
  shows "good_snapshot (peSnapshot p)"
  using start_session [OF assms(2)] start_calls(1) [OF assms(2)] consumed_good(1) [OF assms(1)] by metis

lemma refusal_is_error:
  assumes "start_explain U sha cfg now req st = (Inl response, st')" and "0 \<le> boLimit (ecBudget cfg)"
    and "isAllowedBrowserOrigin U req (studioCorsOrigins (ecSession cfg))"
  shows "\<exists>code snapshot message. explain_error response code snapshot message"
proof (cases "explain_request_of sha req")
  case (Inl refusal)
  then show ?thesis using assms(1,3) unfolding start_explain_def explain_request_of_def
    by (auto split: if_splits body_read.splits sum.splits intro!: emitted_error_exists)
next
  case (Inr request)
  have "\<exists>code snapshot message. explain_error response code snapshot message"
    if "start_session_explain cfg now raw r s s1 = (Inl response, s2)" for raw r s s1 s2
    using that unfolding start_session_explain_def
    by (auto split: if_splits option.splits prod.splits sum.splits intro!: emitted_error_exists
        dest: consumed_good(2) [OF assms(2)])
  then show ?thesis using Inr assms(1,3) unfolding start_explain_def
    by (auto split: if_splits prod.splits sum.splits intro!: emitted_error_exists)
qed

lemma finish_answer:
  assumes "finish_explain endedAt written answer p st = (response, st')" and "good_snapshot (peSnapshot p)"
  shows "if \<not> written then explain_error response GatewayUnavailable (Some (peSnapshot p)) (Some LEDGER_UNAVAILABLE)
    else case map_gateway answer of
      Inl code \<Rightarrow> explain_error response code (Some (peSnapshot p)) None
    | Inr ok \<Rightarrow> \<exists>ref entry. response = jsonResponse 200 (buildSuccessBody (gwExplanation ok) ref entry) \<and>
        leBudget entry = peSnapshot p \<and> xsLedger st' = xsLedger st @ [entry]"
  using assms unfolding finish_explain_def Let_def
  by (auto simp: explain_entry_def Let_def split: if_splits prod.splits sum.splits)

section \<open>The request of the Studio\<close>

lemma apply_matches_nonempty: "cursor < length raw \<Longrightarrow> fst (apply_matches raw cursor ms) \<noteq> []"
  by (induction raw cursor ms rule: apply_matches.induct) (auto simp: redaction_marker_def split: prod.splits)

lemma redacted_nonempty: "redactRegion raw additions = Some result \<Longrightarrow> raw \<noteq> [] \<Longrightarrow> redactedText result \<noteq> []"
  using apply_matches_nonempty [of 0 raw] by (force simp: redactRegion_def split_beta)

lemma profile_version: "redactRegion raw additions = Some result \<Longrightarrow> profileVersion result = STUDIO_REDACTION_PROFILE_VERSION"
  by (auto simp: redactRegion_def split_beta)

text \<open>A selection whose parts have the form that the panes give them.\<close>

definition sound_selection :: "explain_selection \<Rightarrow> bool" where
  "sound_selection sel \<longleftrightarrow>
     validateEditorAssistIdentifier (selSessionId sel) ''sessionId'' = Inr () \<and>
     (case selRunId sel of None \<Rightarrow> True | Some rid \<Rightarrow> validateEditorAssistIdentifier rid ''runId'' = Inr ()) \<and>
     validateFilePath (selFilePath sel) = Inr () \<and> 1 \<le> selStart sel \<and> selStart sel \<le> selEnd sel \<and> selText sel \<noteq> []"

definition selection_region :: "explain_selection \<Rightarrow> editor_region" where
  "selection_region sel = \<lparr>erFilePath = selFilePath sel, erSourceKind = selKind sel, erStartLine = selStart sel, erEndLine = selEnd sel\<rparr>"

lemma given_Some [simp]: "given_text (Some (JStr s)) message = (if s = [] then Inl message else Inr s)"
  by (cases s) (simp_all add: given_text_def)

lemma line_number_of_int: "1 \<le> n \<Longrightarrow> line_number (Some (js_num (of_int n))) message = Inr n"
  by (simp add: line_number_def js_num_def asNumber_def is_integer_def)

lemma identifier_nonempty: "validateEditorAssistIdentifier s k = Inr () \<Longrightarrow> s \<noteq> []"
  by (auto simp: validateEditorAssistIdentifier_def)

lemma path_nonempty: "validateFilePath s = Inr () \<Longrightarrow> s \<noteq> []"
  by (auto simp: validateFilePath_def safe_file_path_def)

lemma kind_of_name: "region_kind (Some (JStr (source_kind_name kind))) = Inr kind"
  by (cases kind) (simp_all add: region_kind_def)

lemma selection_region_accepted:
  assumes "sound_selection sel"
  shows "validateRegion (Some (JObj [(''filePath'', JStr (selFilePath sel)), (''sourceKind'', JStr (source_kind_name (selKind sel))),
    (''startLine'', js_num (of_int (selStart sel))), (''endLine'', js_num (of_int (selEnd sel)))])) = Inr (selection_region sel)"
  using assms path_nonempty [of "selFilePath sel"] line_number_of_int [of "selStart sel"] line_number_of_int [of "selEnd sel"]
  by (simp add: sound_selection_def validateRegion_def rejectUnsupportedFields_def kind_of_name selection_region_def require_def)

lemma string_array_of: "string_array (Some (JArr (map JStr ids))) = Some ids"
  by (induction ids) (simp_all add: string_array_def js_array_def)

lemma metadata_validated:
  "validateRedactionMetadata (Some (JObj [(''studioRedactionProfileVersion'', JStr version),
      (''matchedPatternIds'', JArr (map JStr ids))])) =
    (if version = [] then Inl ''studioRedactionMetadata.studioRedactionProfileVersion must be a non-empty string''
     else if list_all isSafeRedactionPatternId ids then Inr \<lparr>rdProfileVersion = version, rdPatternIds = ids\<rparr>
     else Inl ''studioRedactionMetadata.matchedPatternIds must contain opaque redaction pattern ids'')"
  by (simp add: validateRedactionMetadata_def rejectUnsupportedFields_def string_array_of require_def)

lemma studio_request_validated:
  assumes "sound_selection sel" and "\<And>t. HEX64 (sha t)" and "redactRegion (selText sel) additions = Some redaction"
    and "length (utf8 (redactedText redaction)) \<le> EDITOR_ASSIST_REDACTED_BYTES_MAX"
  shows "validateExplainRequest sha (JObj (stripClientAssertedIdentity (explain_payload sha sel redaction))) =
    (if list_all isSafeRedactionPatternId (matchedPatternIds redaction)
     then Inr \<lparr>exSessionId = selSessionId sel, exTenantId = ''default'', exUserId = ''local'', exRunId = selRunId sel,
       exSourceHash = sha (selText sel), exRegion = selection_region sel, exRedactedBytes = redactedText redaction,
       exByteHash = sha (redactedText redaction),
       exMetadata = \<lparr>rdProfileVersion = STUDIO_REDACTION_PROFILE_VERSION, rdPatternIds = matchedPatternIds redaction\<rparr>\<rparr>
     else Inl ''studioRedactionMetadata.matchedPatternIds must contain opaque redaction pattern ids'')"
proof -
  have sound: "validateEditorAssistIdentifier (selSessionId sel) ''sessionId'' = Inr ()" "selSessionId sel \<noteq> []"
    "optional_run (Some (js_or_null JStr (selRunId sel))) = Inr (selRunId sel)" "selText sel \<noteq> []"
    using assms(1) identifier_nonempty
    by (auto simp: sound_selection_def optional_run_def js_or_null_def js_null_def split: option.splits)
  have bytes: "checked_bytes (Some (JStr (redactedText redaction))) = Inr (redactedText redaction)"
    using redacted_nonempty [OF assms(3) sound(4)] assms(4) by (simp add: checked_bytes_def require_def)
  have hash_ne: "sha t \<noteq> []" for t using assms(2) [of t] by (auto simp: HEX64_def)
  have hash: "given_text (Some (JStr (sha t))) message = Inr (sha t)" for t message
    using assms(2) [of t] by (auto simp: HEX64_def)
  have version: "profileVersion redaction = STUDIO_REDACTION_PROFILE_VERSION" using profile_version [OF assms(3)] .
  have version_ne: "STUDIO_REDACTION_PROFILE_VERSION \<noteq> []" by (simp add: STUDIO_REDACTION_PROFILE_VERSION_def)
  show ?thesis
    unfolding validateExplainRequest_def stripClientAssertedIdentity_def explain_payload_def version
    using sound(1,2) assms(2) hash_ne
    by (simp add: rejectUnsupportedFields_def EXPLAIN_REQUEST_FIELDS_def optional_identity_def sound(3)
        bytes hash selection_region_accepted [OF assms(1)] metadata_validated version_ne require_def)
qed

section \<open>The panel\<close>

datatype 'r panel_event = Asked 'r | Retried | Closed | Landed nat assist_result

inductive panel_run :: "'r panel_event list \<Rightarrow> 'r assist_panel \<Rightarrow> bool" where
  empty: "panel_run [] empty_panel"
| ask: "panel_run es p \<Longrightarrow> panel_run (es @ [Asked request]) (runExplain request p)"
| again: "panel_run es p \<Longrightarrow> panel_run (es @ [Retried]) (retry p)"
| close: "panel_run es p \<Longrightarrow> panel_run (es @ [Closed]) (closePanel p)"
| land: "panel_run es p \<Longrightarrow> seq \<in> set (underWay p) \<Longrightarrow> panel_run (es @ [Landed seq response]) (land_explain seq response p)"

text \<open>The requests in the order of their calls; a retry repeats the last one.\<close>

definition asked :: "'r list \<Rightarrow> 'r panel_event \<Rightarrow> 'r list" where
  "asked rs e = (case e of Asked request \<Rightarrow> rs @ [request] | Retried \<Rightarrow> (if rs = [] then [] else rs @ [List.last rs]) | _ \<Rightarrow> rs)"

definition requests_of :: "'r panel_event list \<Rightarrow> 'r list" where
  "requests_of es = foldl asked [] es"

definition panel_ok :: "'r panel_event list \<Rightarrow> 'r assist_panel \<Rightarrow> bool" where
  "panel_ok es p \<longleftrightarrow>
     callSeq p = length (requests_of es) \<and>
     panelRequest p = (if requests_of es = [] then None else Some (List.last (requests_of es))) \<and>
     distinct (underWay p) \<and> set (underWay p) \<subseteq> {1..callSeq p} \<and>
     (requests_of es \<noteq> [] \<longrightarrow> (panelResult p = None \<longleftrightarrow> callSeq p \<in> set (underWay p))) \<and>
     (\<forall>r. panelResult p = Some r \<longrightarrow> Landed (callSeq p) r \<in> set es)"

lemma requests_simps [simp]:
  "requests_of [] = []" "requests_of (es @ [Asked request]) = requests_of es @ [request]"
  "requests_of (es @ [Retried]) = (if requests_of es = [] then [] else requests_of es @ [List.last (requests_of es)])"
  "requests_of (es @ [Closed]) = requests_of es" "requests_of (es @ [Landed seq response]) = requests_of es"
  by (simp_all add: requests_of_def asked_def)

lemma panel_run_ok: "panel_run es p \<Longrightarrow> panel_ok es p"
proof (induction rule: panel_run.induct)
  case empty
  show ?case by (simp add: panel_ok_def empty_panel_def)
next
  case (ask es p request)
  then show ?case by (auto simp: panel_ok_def runExplain_def)
next
  case (again es p)
  then show ?case by (auto simp: panel_ok_def retry_def runExplain_def)
next
  case (close es p)
  then show ?case by (auto simp: panel_ok_def closePanel_def)
next
  case (land es p seq response)
  then show ?case by (auto simp: panel_ok_def land_explain_def Let_def dest: in_set_remove1)
qed

end
