(* ===== verification/Redaction_Facts.thy ===== *)
theory Redaction_Facts
  imports Studio_Redaction
begin

text \<open>
  What the redaction of a region guarantees: the loops over the matches end, and the text that leaves
  the browser is the region with pieces replaced by markers so that no match keeps its first character.
\<close>

section \<open>The loops end\<close>

lemma global_matches_returns:
  "consumes r \<Longrightarrow> \<exists>found. global_matches r pos p s = Some found"
proof (induction "length s" arbitrary: pos p s rule: less_induct)
  case less
  show ?case
  proof (cases "rx_search r p s")
    case None
    then show ?thesis by (subst global_matches.simps) simp
  next
    case (Some hit)
    obtain i p' rest gs where hit: "hit = (i, p', rest, gs)" by (cases hit)
    have "length rest < length s" using rx_search_shorter [OF less.prems, of p s i "(p', rest, gs)"] Some hit by simp
    from less.hyps [OF this less.prems, of "pos + (length s - length rest)" p'] show ?thesis
      by (subst global_matches.simps) (auto simp: Some hit)
  qed
qed

lemma global_matches_bounds:
  assumes "consumes r"
  shows "global_matches r pos p s = Some found \<Longrightarrow> (b, e) \<in> set found \<Longrightarrow> pos \<le> b \<and> b < e \<and> e \<le> pos + length s"
proof (induction "length s" arbitrary: pos p s found rule: less_induct)
  case less
  show ?case
  proof (cases "rx_search r p s")
    case None
    then show ?thesis using less.prems by (subst (asm) global_matches.simps) simp
  next
    case (Some hit)
    obtain i p' rest gs where hit: "hit = (i, p', rest, gs)" by (cases hit)
    have short: "i + length rest < length s" using rx_search_shorter [OF assms, of p s i "(p', rest, gs)"] Some hit by simp
    then have "length rest < length s" by simp
    note IH = less.hyps [OF this, of "pos + (length s - length rest)" p']
    obtain more where more: "global_matches r (pos + (length s - length rest)) p' rest = Some more"
        "found = (pos + i, pos + (length s - length rest)) # more \<or> found = more"
      using less.prems(1) by (subst (asm) global_matches.simps) (auto simp: Some hit split: Option.bind_splits if_splits)
    have "(b, e) = (pos + i, pos + (length s - length rest)) \<or> (b, e) \<in> set more" using more(2) less.prems(2) by auto
    then show ?thesis
    proof
      assume "(b, e) \<in> set more"
      from IH [OF more(1) this] short show ?thesis by linarith
    qed (use short in simp)
  qed
qed

lemma raw_patterns_consume: "q \<in> set RAW_PATTERNS \<Longrightarrow> consumes (rpRegex q)"
proof -
  have field: "consumes (rpRegex (field_class cls names))" if "names \<noteq> []" "[] \<notin> set names" for cls names
  proof -
    have "\<forall>w\<in>set names. consumes (rx_text_i w)"
    proof
      fix w assume "w \<in> set names"
      then have "w \<noteq> []" using \<open>[] \<notin> set names\<close> by metis
      then show "consumes (rx_text_i w)" by (cases w) (simp_all add: consumes_text)
    qed
    then have "consumes (rx_any_of (map rx_text_i names))" using \<open>names \<noteq> []\<close> by (intro consumes_any_of) auto
    then show ?thesis unfolding field_class_def by (simp add: consumes_seq_rest consumes_seq_first)
  qed
  have rep: "consumes (RxRep n m (RxSet P))" if "0 < n" for n m P using that by (intro consumes_rep consumes_set)
  assume "q \<in> set RAW_PATTERNS"
  then show ?thesis
    unfolding RAW_PATTERNS_def
    using consumes_seq_first [OF consumes_text(1)] consumes_seq_first [OF rep] consumes_seq_rest
    by (auto simp: field)
qed

lemma tenant_patterns_consume: "q \<in> set (buildTenantAdditionPatterns additions) \<Longrightarrow> consumes (rpRegex q)"
proof (induction additions)
  case (Cons a additions)
  have "consumes (rx_text w)" if "w \<noteq> []" for w using that by (cases w) (auto intro: consumes_text)
  then show ?case using Cons
    by (auto simp: buildTenantAdditionPatterns_def List.map_filter_simps Let_def split: if_splits)
qed (simp add: buildTenantAdditionPatterns_def List.map_filter_simps)

lemma redaction_patterns_consume:
  "q \<in> set (RAW_PATTERNS @ buildTenantAdditionPatterns additions) \<Longrightarrow> consumes (rpRegex q)"
  using raw_patterns_consume tenant_patterns_consume by auto

section \<open>What is left of the region\<close>

datatype piece = Kept string | Hidden string string

fun original :: "piece \<Rightarrow> string" where
  "original (Kept w) = w"
| "original (Hidden i w) = w"

fun shown :: "piece \<Rightarrow> string" where
  "shown (Kept w) = w"
| "shown (Hidden i w) = redaction_marker i w"

fun hidden_ids :: "piece list \<Rightarrow> string list" where
  "hidden_ids [] = []"
| "hidden_ids (Kept w # ps) = hidden_ids ps"
| "hidden_ids (Hidden i w # ps) = i # hidden_ids ps"

text \<open>Whether the character at a position of the original text is hidden.\<close>

fun hidden_at :: "piece list \<Rightarrow> nat \<Rightarrow> bool" where
  "hidden_at [] k = False"
| "hidden_at (q # ps) k =
     (if k < length (original q) then (case q of Kept _ \<Rightarrow> False | Hidden _ _ \<Rightarrow> True)
      else hidden_at ps (k - length (original q)))"

definition in_match :: "redaction_match \<Rightarrow> nat \<Rightarrow> bool" where
  "in_match m k \<longleftrightarrow> rmStart m \<le> k \<and> k < rmEnd m"

text \<open>The matches are sorted, not empty and inside the text.\<close>

definition matches_ok :: "string \<Rightarrow> redaction_match list \<Rightarrow> bool" where
  "matches_ok raw ms \<longleftrightarrow>
     sorted (map rmStart ms) \<and> (\<forall>m\<in>set ms. rmStart m < rmEnd m \<and> rmEnd m \<le> length raw)"

text \<open>
  The pieces between a position and the end: the visible positions are those of no applied match, and a
  match is applied, or starts before the position or inside an applied one.
\<close>

definition pieces_from :: "string \<Rightarrow> nat \<Rightarrow> redaction_match list \<Rightarrow> string \<Rightarrow> redaction_match list \<Rightarrow> piece list \<Rightarrow> bool" where
  "pieces_from raw cursor ms redacted applied ps \<longleftrightarrow>
     concat (map original ps) = drop cursor raw \<and> concat (map shown ps) = redacted \<and>
     hidden_ids ps = map rmId applied \<and> set applied \<subseteq> set ms \<and>
     (\<forall>k. hidden_at ps k \<longleftrightarrow> (\<exists>m\<in>set applied. in_match m (cursor + k))) \<and>
     (\<forall>m\<in>set applied. cursor \<le> rmStart m) \<and>
     (\<forall>m\<in>set ms. rmStart m < cursor \<or> (\<exists>a\<in>set applied. in_match a (rmStart m)))"

lemma take_drop_pieces: "a \<le> b \<Longrightarrow> b \<le> c \<Longrightarrow> take (b - a) (drop a xs) @ take (c - b) (drop b xs) @ drop c xs = drop a xs"
  by (metis append_take_drop_id drop_drop le_add_diff_inverse2)

lemma apply_matches_pieces:
  "matches_ok raw ms \<Longrightarrow> cursor \<le> length raw \<Longrightarrow> apply_matches raw cursor ms = (redacted, applied) \<Longrightarrow>
   \<exists>ps. pieces_from raw cursor ms redacted applied ps"
proof (induction ms arbitrary: cursor redacted applied)
  case Nil
  then have "pieces_from raw cursor [] redacted applied [Kept (drop cursor raw)]" by (simp add: pieces_from_def)
  then show ?case by blast
next
  case (Cons m ms)
  have ok: "matches_ok raw ms" "rmStart m < rmEnd m" "rmEnd m \<le> length raw" "\<forall>m'\<in>set ms. rmStart m \<le> rmStart m'"
    using Cons.prems(1) by (auto simp: matches_ok_def)
  show ?case
  proof (cases "rmStart m < cursor")
    case True
    then obtain ps where "pieces_from raw cursor ms redacted applied ps"
      using Cons.IH [OF ok(1) Cons.prems(2)] Cons.prems(3) by auto
    then have "pieces_from raw cursor (m # ms) redacted applied ps" using True by (auto simp: pieces_from_def)
    then show ?thesis by blast
  next
    case False
    obtain rest as where rest: "apply_matches raw (rmEnd m) ms = (rest, as)" by fastforce
    obtain ps where ps: "pieces_from raw (rmEnd m) ms rest as ps" using Cons.IH [OF ok(1,3) rest] by blast
    let ?head = "js_slice cursor (rmStart m) raw" and ?word = "js_slice (rmStart m) (rmEnd m) raw"
    have lens: "length ?head = rmStart m - cursor" "length ?word = rmEnd m - rmStart m"
      using False ok(2,3) by (simp_all add: js_slice_def)
    have whole: "?head @ ?word @ drop (rmEnd m) raw = drop cursor raw"
      using False ok(2) unfolding js_slice_def by (simp add: take_drop_pieces)
    have later: "\<forall>a\<in>set as. rmEnd m \<le> rmStart a" and at: "\<And>k. hidden_at ps k \<longleftrightarrow> (\<exists>a\<in>set as. in_match a (rmEnd m + k))"
      and start: "\<forall>a\<in>set ms. rmStart a < rmEnd m \<or> (\<exists>b\<in>set as. in_match b (rmStart a))"
      using ps by (auto simp: pieces_from_def)
    have "hidden_at (Kept ?head # Hidden (rmId m) ?word # ps) k \<longleftrightarrow> (\<exists>a\<in>set (m # as). in_match a (cursor + k))" for k
    proof (cases "cursor + k < rmEnd m")
      case True
      then have "\<not> in_match a (cursor + k)" if "a \<in> set as" for a using later that by (fastforce simp: in_match_def)
      then show ?thesis using True False lens by (auto simp: in_match_def)
    next
      case after: False
      then have "rmEnd m + (k - (rmEnd m - cursor)) = cursor + k" using False ok(2) by simp
      then have "hidden_at ps (k - (rmEnd m - cursor)) \<longleftrightarrow> (\<exists>a\<in>set as. in_match a (cursor + k))" by (simp only: at)
      moreover have "k - length ?head - length ?word = k - (rmEnd m - cursor)" using False ok(2) lens by simp
      ultimately show ?thesis using after False ok(2) lens by (auto simp: in_match_def)
    qed
    moreover have "rmStart a < cursor \<or> (\<exists>b\<in>set (m # as). in_match b (rmStart a))" if "a \<in> set (m # ms)" for a
      using that start ok(2,4) by (auto simp: in_match_def)
    moreover have "\<forall>a\<in>set (m # as). cursor \<le> rmStart a" using later False ok(2) by fastforce
    moreover have "applied = m # as" "redacted = ?head @ redaction_marker (rmId m) ?word @ rest"
      using Cons.prems(3) False rest by simp_all
    ultimately have "pieces_from raw cursor (m # ms) redacted applied (Kept ?head # Hidden (rmId m) ?word # ps)"
      using ps whole unfolding pieces_from_def by (simp del: hidden_at.simps) blast
    then show ?thesis by blast
  qed
qed

section \<open>All matches\<close>

definition patterns_of :: "redaction_addition list \<Rightarrow> redaction_pattern list" where
  "patterns_of additions = RAW_PATTERNS @ buildTenantAdditionPatterns additions"

lemma patterns_consume_all: "q \<in> set (patterns_of additions) \<Longrightarrow> consumes (rpRegex q)"
  unfolding patterns_of_def by (rule redaction_patterns_consume)

lemma all_some_found: "(\<And>x. x \<in> set xs \<Longrightarrow> f x = Some (g x)) \<Longrightarrow> all_some (map f xs) = Some (map g xs)"
  by (induction xs) auto

text \<open>The matches of one pattern, and of all of them in the order of the code.\<close>

definition matches_of :: "string \<Rightarrow> redaction_pattern \<Rightarrow> (nat \<times> nat) list" where
  "matches_of raw q = the (global_matches (rpRegex q) 0 None raw)"

lemma matches_of: "q \<in> set (patterns_of additions) \<Longrightarrow> global_matches (rpRegex q) 0 None raw = Some (matches_of raw q)"
  using global_matches_returns [OF patterns_consume_all, of q additions 0 None raw] by (auto simp: matches_of_def)

definition all_matches :: "string \<Rightarrow> redaction_pattern list \<Rightarrow> redaction_match list" where
  "all_matches raw qs = concat (map (\<lambda>(order, q).
     map (\<lambda>(s, e). \<lparr>rmId = rpId q, rmStart = s, rmEnd = e, rmOrder = order\<rparr>) (matches_of raw q)) (enumerate 0 qs))"

lemma collectMatches_eq:
  "collectMatches raw (patterns_of additions) =
     Some (sort_key (\<lambda>m. (rmStart m, rmOrder m)) (all_matches raw (patterns_of additions)))"
proof -
  have "pattern_matches raw oq =
      Some (case oq of (order, q) \<Rightarrow>
        map (\<lambda>(s, e). \<lparr>rmId = rpId q, rmStart = s, rmEnd = e, rmOrder = order\<rparr>) (matches_of raw q))"
    if "oq \<in> set (enumerate 0 (patterns_of additions))" for oq
  proof -
    have "fst oq < length (patterns_of additions)" "patterns_of additions ! fst oq = snd oq"
      using that by (simp_all add: in_set_enumerate_eq)
    then have "snd oq \<in> set (patterns_of additions)" using nth_mem by metis
    then show ?thesis using matches_of [of "snd oq" additions raw] by (cases oq) (simp add: pattern_matches_def)
  qed
  then show ?thesis unfolding collectMatches_def all_matches_def by (simp add: all_some_found)
qed

lemma matches_of_in:
  assumes "q \<in> set qs" and "(b, e) \<in> set (matches_of raw q)"
  obtains m where "m \<in> set (all_matches raw qs)" "rmStart m = b" "rmEnd m = e" "rmId m = rpId q"
proof -
  obtain k where "k < length qs" "qs ! k = q" using assms(1) by (auto simp: in_set_conv_nth)
  then have "(k, q) \<in> set (enumerate 0 qs)" by (auto simp: in_set_enumerate_eq)
  then have "\<lparr>rmId = rpId q, rmStart = b, rmEnd = e, rmOrder = k\<rparr> \<in> set (all_matches raw qs)"
    using assms(2) unfolding all_matches_def by force
  then show ?thesis using that by force
qed

lemma all_matches_from:
  "m \<in> set (all_matches raw qs) \<Longrightarrow> \<exists>q\<in>set qs. rmId m = rpId q \<and> (rmStart m, rmEnd m) \<in> set (matches_of raw q)"
  unfolding all_matches_def by (fastforce simp: in_set_enumerate_eq)

lemma matches_ok_all:
  "matches_ok raw (sort_key (\<lambda>m. (rmStart m, rmOrder m)) (all_matches raw (patterns_of additions)))"
proof -
  have "rmStart m < rmEnd m \<and> rmEnd m \<le> length raw" if m: "m \<in> set (all_matches raw (patterns_of additions))" for m
  proof -
    obtain q where q: "q \<in> set (patterns_of additions)" "(rmStart m, rmEnd m) \<in> set (matches_of raw q)"
      using all_matches_from [OF m] by blast
    show ?thesis using global_matches_bounds [OF patterns_consume_all [OF q(1)] matches_of [OF q(1)] q(2)] by simp
  qed
  moreover have "sorted (map rmStart ms)" if "sorted (map (\<lambda>m. (rmStart m, rmOrder m)) ms)" for ms
    using that by (induction ms) (auto simp: less_eq_prod_def)
  from this [OF sorted_sort_key] have "sorted (map rmStart (sort_key (\<lambda>m. (rmStart m, rmOrder m)) ms))" for ms .
  ultimately show ?thesis unfolding matches_ok_def by simp
qed

lemma redacts: "\<exists>result. redactRegion raw additions = Some result"
  using collectMatches_eq [of raw additions] by (simp add: redactRegion_def patterns_of_def split_beta)

section \<open>Properties\<close>

text \<open>
  C28: the redaction of a region always returns.  The loop over the matches of each expression ends because
  no pattern, built in or added by the tenant, matches the empty text.
\<close>

theorem redaction_returns: "\<exists>result. redactRegion raw additions = Some result"
  by (rule redacts)

text \<open>
  C29: what the redaction hides.  The text that leaves the browser is the region cut into pieces, some of
  them replaced by the marker of a pattern that they match; the first character of every match of every
  pattern lies in a replaced piece, and a later character of a match stays visible only where
  another match that covers the start of this one ends before it.  The ids that go with the text are those of the
  replaced pieces.
\<close>

theorem redaction_hides_matches:
  "\<exists>ps. redactRegion raw additions =
       Some \<lparr>redactedText = concat (map shown ps), matchedPatternIds = sort (remdups (hidden_ids ps)),
         profileVersion = STUDIO_REDACTION_PROFILE_VERSION\<rparr> \<and>
     concat (map original ps) = raw \<and>
     set (hidden_ids ps) \<subseteq> set (map rpId (RAW_PATTERNS @ buildTenantAdditionPatterns additions)) \<and>
     (\<forall>q\<in>set (RAW_PATTERNS @ buildTenantAdditionPatterns additions). \<forall>found b e.
        global_matches (rpRegex q) 0 None raw = Some found \<and> (b, e) \<in> set found \<longrightarrow>
          hidden_at ps b \<and>
          (\<forall>k. b < k \<and> k < e \<and> \<not> hidden_at ps k \<longrightarrow>
             (\<exists>q'\<in>set (RAW_PATTERNS @ buildTenantAdditionPatterns additions). \<exists>found' b' e'.
                global_matches (rpRegex q') 0 None raw = Some found' \<and> (b', e') \<in> set found' \<and>
                b' \<le> b \<and> b < e' \<and> e' \<le> k)))"
proof -
  let ?qs = "patterns_of additions"
  let ?ms = "sort_key (\<lambda>m. (rmStart m, rmOrder m)) (all_matches raw ?qs)"
  obtain redacted applied where run: "apply_matches raw 0 ?ms = (redacted, applied)" by fastforce
  obtain ps where ps: "pieces_from raw 0 ?ms redacted applied ps"
    using apply_matches_pieces [OF matches_ok_all _ run] by blast
  then have pieces: "concat (map original ps) = raw" "concat (map shown ps) = redacted" "hidden_ids ps = map rmId applied"
      "set applied \<subseteq> set (all_matches raw ?qs)" "\<And>k. hidden_at ps k \<longleftrightarrow> (\<exists>m\<in>set applied. in_match m k)"
      "\<And>m. m \<in> set (all_matches raw ?qs) \<Longrightarrow> \<exists>a\<in>set applied. in_match a (rmStart m)"
    by (simp_all add: pieces_from_def)
  have result: "redactRegion raw additions = Some \<lparr>redactedText = concat (map shown ps),
      matchedPatternIds = sort (remdups (hidden_ids ps)), profileVersion = STUDIO_REDACTION_PROFILE_VERSION\<rparr>"
    using collectMatches_eq [of raw additions] run pieces(2,3) by (simp add: redactRegion_def patterns_of_def)
  have ids: "set (hidden_ids ps) \<subseteq> set (map rpId ?qs)"
    using pieces(3,4) all_matches_from by fastforce
  have "hidden_at ps b \<and> (\<forall>k. b < k \<and> k < e \<and> \<not> hidden_at ps k \<longrightarrow> (\<exists>q'\<in>set ?qs. \<exists>found' b' e'.
      global_matches (rpRegex q') 0 None raw = Some found' \<and> (b', e') \<in> set found' \<and> b' \<le> b \<and> b < e' \<and> e' \<le> k))"
    if q: "q \<in> set ?qs" "global_matches (rpRegex q) 0 None raw = Some found" "(b, e) \<in> set found" for q found b e
  proof -
    have "(b, e) \<in> set (matches_of raw q)" using q(2,3) matches_of [OF q(1), of raw] by simp
    from q(1) this obtain m where m: "m \<in> set (all_matches raw ?qs)" "rmStart m = b" by (rule matches_of_in)
    then obtain a where a: "a \<in> set applied" "in_match a b" using pieces(6) by blast
    obtain q' where q': "q' \<in> set ?qs" "(rmStart a, rmEnd a) \<in> set (matches_of raw q')"
      using all_matches_from a(1) pieces(4) by blast
    have "rmEnd a \<le> k" if "b < k" "\<not> hidden_at ps k" for k
      using that a pieces(5) [of k] by (force simp: in_match_def)
    then show ?thesis
      using a q' matches_of [OF q'(1), of raw] pieces(5) [of b] unfolding in_match_def by blast
  qed
  then show ?thesis using result pieces(1) ids unfolding patterns_of_def by blast
qed

section \<open>An address behind a field name\<close>

lemma address_matches:
  "collectMatches ''DOB.a@b.co'' RAW_PATTERNS =
     Some [\<lparr>rmId = ''field-name-class:dob'', rmStart = 0, rmEnd = 3, rmOrder = 4\<rparr>,
       \<lparr>rmId = ''email-literal'', rmStart = 0, rmEnd = 10, rmOrder = 13\<rparr>]"
  by code_simp

text \<open>
  A match that starts inside a replaced one is passed over together with its tail.  An address that
  the pattern for addresses matches whole leaves the browser all but its first word, because
  that word is also a field name; the ids do not mention the pattern for addresses.
\<close>

lemma redaction_leaks_an_address:
  "redactRegion ''DOB.a@b.co'' [] =
     Some \<lparr>redactedText = ''[REDACTED:field-name-class:dob].a@b.co'', matchedPatternIds = [''field-name-class:dob''],
       profileVersion = ''v1.1.0''\<rparr> \<and>
   global_matches (rpRegex (RAW_PATTERNS ! 13)) 0 None ''DOB.a@b.co'' = Some [(0, 10)]"
proof
  have "buildTenantAdditionPatterns [] = []" by (simp add: buildTenantAdditionPatterns_def List.map_filter_simps)
  then show "redactRegion ''DOB.a@b.co'' [] =
     Some \<lparr>redactedText = ''[REDACTED:field-name-class:dob].a@b.co'', matchedPatternIds = [''field-name-class:dob''],
       profileVersion = ''v1.1.0''\<rparr>"
    unfolding redactRegion_def
    by (simp add: address_matches js_slice_def redaction_marker_def STUDIO_REDACTION_PROFILE_VERSION_def)
qed code_simp

lemma email_field_match:
  "global_matches (rpRegex (RAW_PATTERNS ! 5)) 0 None ''EMAIL'' = Some [(0, 5)]" "RAW_PATTERNS ! 5 \<in> set RAW_PATTERNS"
  by code_simp (rule nth_mem, code_simp)

lemma redaction_hides_matches_witness:
  "\<exists>ps. concat (map original ps) = ''EMAIL'' \<and> hidden_at ps 0"
proof -
  have "RAW_PATTERNS ! 5 \<in> set (RAW_PATTERNS @ buildTenantAdditionPatterns [])" using email_field_match(2) by simp
  then show ?thesis using redaction_hides_matches [of "''EMAIL''" "[]"] email_field_match(1)
    by (metis list.set_intros(1))
qed

end
