(* ===== verification/Explain_Properties.thy ===== *)
theory Explain_Properties
  imports Assist_Facts Redaction_Facts
begin

text \<open>
  The properties of the editor-assist channel: what the BFF lets through to the model gateway, its budgets and
  its ledger, and the requests, answers and panel of the Studio on the other side.
\<close>

section \<open>What reaches the gateway\<close>

text \<open>
  C30: an editor-assist explain request (\<open>/editor/explain\<close>) goes to the model gateway only from an allowed origin with the
  gateway enabled, under a session that has not been idle too long; tenant and user are those of the session, the region is a
  range of lines of a relative path without parent segments, the text is not empty, within the cap and has the hash it claims,
  and the pattern ids are opaque.  The explanation of an output change, which also calls the gateway, is another route and
  not part of this development.
\<close>

theorem explain_calls_are_vetted:
  assumes "start_explain U sha cfg now req st = (Inr p, st')"
  shows "isAllowedBrowserOrigin U req (studioCorsOrigins (ecSession cfg)) \<and> ecGatewayEnabled cfg \<and>
    (\<exists>sid e. request_session_id req = Some sid \<and> js_get (xsSessions st) sid = Some e \<and>
       \<not> (0 < idleTimeoutMs (sessionOptions (ecSession cfg)) \<and>
          idleTimeoutMs (sessionOptions (ecSession cfg)) < enMs now - lastAccessMs e) \<and>
       peTenant p = sesTenant (storedRecord e) \<and> peUser p = sesUser (storedRecord e)) \<and>
    vetted_region (exRegion (peRequest p)) \<and> ''..'' \<notin> set (js_split CHR ''/'' (erFilePath (exRegion (peRequest p)))) \<and>
    exRedactedBytes (peRequest p) \<noteq> [] \<and> length (utf8 (exRedactedBytes (peRequest p))) \<le> 200000 \<and>
    map to_lower (sha (exRedactedBytes (peRequest p))) = map to_lower (exByteHash (peRequest p)) \<and>
    list_all isSafeRedactionPatternId (rdPatternIds (exMetadata (peRequest p)))"
proof -
  obtain r where r: "fst (resolveEditorAssistSession (ecSession cfg) (enMs now) req (xsSessions st)) = Inr r"
    using start_session [OF assms] .
  note started = start_calls [OF assms r]
  obtain raw where "explain_request_of sha req = Inr (raw, peRequest p)" using started(8) by blast
  note ok = validateExplainRequest_Inr [OF explain_request_validated [OF this]]
  have "''..'' \<notin> set (js_split CHR ''/'' (erFilePath (exRegion (peRequest p))))"
    using ok(1) by (auto simp: vetted_region_def validateFilePath_def)
  moreover have "length (utf8 (exRedactedBytes (peRequest p))) \<le> 200000"
    using ok(4) by (simp add: EDITOR_ASSIST_REDACTED_BYTES_MAX_def)
  moreover obtain sid e where "request_session_id req = Some sid" "js_get (xsSessions st) sid = Some e" "r = storedRecord e"
      "\<not> (0 < idleTimeoutMs (sessionOptions (ecSession cfg)) \<and>
        idleTimeoutMs (sessionOptions (ecSession cfg)) < enMs now - lastAccessMs e)"
    using session_resolved [OF r] by blast
  ultimately show ?thesis
    using started(4,5,9,10) ok(1,2,3,5) by auto
qed

section \<open>Budgets\<close>

text \<open>
  C31: however the requests interleave, while the clock does not run back over a day, a session's requests that reach the
  gateway stay within the limit of the session, and those of a tenant on one day within the cap of the tenant,
  rounded up when the cap is no whole number.
\<close>

theorem explain_budgets_hold:
  assumes "explain_run U sha cfg (fresh_explain m) ls (st, ps)" and "sorted (label_days ls)"
  shows "int (session_calls (scopeKey scope) ls) \<le> max 0 (boLimit (ecBudget cfg)) \<and>
    of_nat (tenant_calls tenant day ls) < max 0 (boTenantCap (ecBudget cfg)) + 1"
proof -
  have log: "session_log (ecBudget cfg) ls (bgSessions (xsBudgets st))" "cap_log (ecBudget cfg) ls"
    using run_budget_log [OF assms] by (simp_all add: budget_log_def)
  have "int (session_calls (scopeKey scope) ls) \<le> max 0 (boLimit (ecBudget cfg))"
    using log(1) by (auto simp: session_log_def le_max_iff_disj)
  moreover have "tenant_calls tenant day ls = 0 \<or> of_nat (tenant_calls tenant day ls) < boTenantCap (ecBudget cfg) + 1"
    using log(2) by (simp add: cap_log_def)
  then have "of_nat (tenant_calls tenant day ls) < max 0 (boTenantCap (ecBudget cfg)) + 1"
    by (auto intro: less_le_trans)
  ultimately show ?thesis ..
qed

section \<open>The ledger\<close>

text \<open>
  C32: every request that reached the gateway is in the ledger, still waiting, or one of those whose entry the ledger file
  refused (which were answered with an error): the entries account for the calls one to one, with the tenant, user, session,
  region, hash, budget, start and run of the call, and the entries of a tenant's editor session have distinct ids.
\<close>

theorem every_call_is_audited:
  assumes "explain_run U sha cfg (fresh_explain m) ls (st, ps)"
  shows "(\<exists>lost. size lost = lost_entries ls \<and>
      mset (map (sent_facts \<circ> snd \<circ> snd) (calls ls)) =
        mset (map entry_facts (xsLedger st)) + mset (map sent_facts ps) + lost) \<and>
    distinct (map leEntryId (filter (\<lambda>e. leTenant e = t \<and> leSession e = s) (xsLedger st)))"
  using run_ledger [OF assms] run_ids_distinct [OF assms] by blast

section \<open>From the Studio to the BFF\<close>

text \<open>
  C33: the request that a pane builds from a selection always exists and, within the size cap, the BFF accepts it, with the
  region, the hashes and the redaction of the Studio, exactly when it accepts the ids of the patterns that matched.
  The built-in ids are accepted; those of a tenant's additions need not be.
\<close>

theorem studio_requests_are_accepted:
  assumes "sound_selection sel" and "\<And>t. HEX64 (sha t)"
  shows "\<exists>redaction body. redactRegion (selText sel) additions = Some redaction \<and> explain_action sha additions sel = Some body \<and>
    (length (utf8 (redactedText redaction)) \<le> EDITOR_ASSIST_REDACTED_BYTES_MAX \<longrightarrow>
     validateExplainRequest sha body =
       (if list_all isSafeRedactionPatternId (matchedPatternIds redaction)
        then Inr \<lparr>exSessionId = selSessionId sel, exTenantId = ''default'', exUserId = ''local'', exRunId = selRunId sel,
          exSourceHash = sha (selText sel), exRegion = selection_region sel, exRedactedBytes = redactedText redaction,
          exByteHash = sha (redactedText redaction),
          exMetadata = \<lparr>rdProfileVersion = STUDIO_REDACTION_PROFILE_VERSION, rdPatternIds = matchedPatternIds redaction\<rparr>\<rparr>
        else Inl ''studioRedactionMetadata.matchedPatternIds must contain opaque redaction pattern ids'')) \<and>
    list_all isSafeRedactionPatternId (map rpId RAW_PATTERNS)"
proof -
  obtain redaction where redaction: "redactRegion (selText sel) additions = Some redaction" using redacts by blast
  have "list_all isSafeRedactionPatternId (map rpId RAW_PATTERNS)" by code_simp
  then show ?thesis
    using redaction studio_request_validated [where sha = sha, OF assms redaction] unfolding explain_action_def by simp
qed

section \<open>From the BFF to the panel\<close>

text \<open>
  C34: what becomes of an answer in the client.  A refused request, a failure of the gateway and a ledger that cannot be
  written arrive with the code, the message and the budget of the BFF, a success arrives with the explanation of the
  gateway and exactly one new ledger entry; none of them signs the Studio out.
\<close>

theorem explain_answers_arrive:
  assumes "0 \<le> boLimit (ecBudget cfg)" and "isAllowedBrowserOrigin U req (studioCorsOrigins (ecSession cfg))"
  shows "case fst (start_explain U sha cfg now req st) of
      Inl response \<Rightarrow> \<exists>code snapshot message. rsBody response = Some (buildErrorBody code snapshot message) \<and>
        requestExplanation (ClientOk base) (reply_of response) c =
          (AssistFailed (explain_code_name code) (or_default message (defaultMessageForErrorCode code))
            (map_option snapshot_json snapshot), c)
    | Inr p \<Rightarrow> \<forall>st2. case finish_explain endedAt written answer p st2 of (response, st3) \<Rightarrow>
        (if \<not> written
         then requestExplanation (ClientOk base) (reply_of response) c =
           (AssistFailed ''gateway_unavailable'' LEDGER_UNAVAILABLE (Some (snapshot_json (peSnapshot p))), c)
         else case map_gateway answer of
           Inl code \<Rightarrow> requestExplanation (ClientOk base) (reply_of response) c =
             (AssistFailed (explain_code_name code) (defaultMessageForErrorCode code) (Some (snapshot_json (peSnapshot p))), c)
         | Inr ok \<Rightarrow> \<exists>ref entry. xsLedger st3 = xsLedger st2 @ [entry] \<and> leBudget entry = peSnapshot p \<and>
             requestExplanation (ClientOk base) (reply_of response) c =
               (AssistOk (buildSuccessBody (gwExplanation ok) ref entry), c))"
    (is "case _ of Inl response \<Rightarrow> ?refused response | Inr p \<Rightarrow> \<forall>st2. ?finished p st2")
proof (cases "start_explain U sha cfg now req st")
  case (Pair started st')
  show ?thesis
  proof (cases started)
    case (Inl response)
    then obtain code snapshot message where e: "explain_error response code snapshot message"
      using refusal_is_error [OF _ assms] Pair by blast
    then have "rsBody response = Some (buildErrorBody code snapshot message)" by (simp add: explain_error_def)
    then show ?thesis using Inl Pair error_arrives [OF e, of base c] by auto
  next
    case (Inr p)
    then have good: "good_snapshot (peSnapshot p)" using started_good [OF assms(1)] Pair by simp
    have "?finished p st2" for st2
    proof (cases "finish_explain endedAt written answer p st2")
      case (Pair response st3)
      show ?thesis
        using finish_answer [OF Pair good] Pair
        by (cases written; cases "map_gateway answer") (auto dest!: error_arrives [of _ _ _ _ base c] simp: success_arrives good)
    qed
    then show ?thesis using Inr Pair by simp
  qed
qed

text \<open>
  C35: whatever the order of calls, retries and responses, the panel shows the request of its latest call; it shows a result
  only if that call returned it, and it shows none exactly as long as that call is under way.
\<close>

theorem panel_shows_its_request:
  assumes "panel_run es p"
  shows "callSeq p = length (requests_of es) \<and>
    (requests_of es \<noteq> [] \<longrightarrow> panelRequest p = Some (List.last (requests_of es)) \<and>
       (panelResult p = None \<longleftrightarrow> callSeq p \<in> set (underWay p))) \<and>
    (\<forall>r. panelResult p = Some r \<longrightarrow> Landed (callSeq p) r \<in> set es)"
  using panel_run_ok [OF assms] by (auto simp: panel_ok_def)

section \<open>Witnesses\<close>

definition demo_explain_config :: explain_config where
  "demo_explain_config = \<lparr>ecGatewayEnabled = True, ecBudget = budgetOptions (Some (Finite 1)) None,
     ecSession = \<lparr>enableFixtureSessions = True, forceSecureSessionCookies = False, studioCorsOrigins = [],
       sessionOptions = \<lparr>idleTimeoutMs = 10, maxSessions = 5\<rparr>, limiterOptions = default_limiter\<rparr>\<rparr>"

definition demo_hash :: "string \<Rightarrow> string" where
  "demo_hash t = replicate 64 CHR ''a''"

definition demo_api :: web_api where
  "demo_api = \<lparr>urlOrigin = Some, urlHost = Some, jsonQuote = id\<rparr>"

definition demo_selection :: "string \<Rightarrow> explain_selection" where
  "demo_selection t = \<lparr>selSessionId = ''ed1'', selTenant = ''t'', selUser = ''u'', selRunId = None, selFilePath = ''A.cbl'',
     selKind = CobolSource, selStart = 1, selEnd = 1, selText = t\<rparr>"

definition demo_body :: json where
  "demo_body = JObj (stripClientAssertedIdentity (explain_payload demo_hash (demo_selection ''X'')
     \<lparr>redactedText = ''X'', matchedPatternIds = [], profileVersion = STUDIO_REDACTION_PROFILE_VERSION\<rparr>))"

definition demo_explain :: bff_request where
  "demo_explain = \<lparr>rqOrigin = HeaderAbsent, rqHost = Some ''bff'', rqCookie = HeaderOne ''c2c.sid=0a'',
     rqContentType = Some ''application/json'', rqRemote = None, rqEncrypted = False, rqForwardedProto = HeaderAbsent,
     rqProgramParam = None, rqBody = BodyJson demo_body\<rparr>"

definition demo_session :: session_record where
  "demo_session = \<lparr>sesId = ''0a'', sesTenant = ''t1'', sesUser = ''u1'', sesSecret = [], sesAdditions = [], sesPreferences = [],
     sesCreatedAt = 0\<rparr>"

definition demo_logged_in :: "int \<Rightarrow> sessions" where
  "demo_logged_in accessed = [(''0a'', \<lparr>storedRecord = demo_session, lastAccessMs = accessed, createdAtMs = 0\<rparr>)]"

definition demo_now :: explain_now where
  "demo_now = \<lparr>enMs = 5, enIso = ''2026-01-01T00:00:00Z'', enLedgerOpens = True\<rparr>"

definition demo_pending :: pending_explain where
  "demo_pending = \<lparr>peRequest = projr (validateExplainRequest demo_hash demo_body), peTenant = ''t1'', peUser = ''u1'',
     peSnapshot = \<lparr>bsLimit = 1, bsUsed = 1, bsRemaining = 0\<rparr>, peStartedAt = ''2026-01-01T00:00:00Z''\<rparr>"

abbreviation demo_scope :: budget_scope where
  "demo_scope \<equiv> \<lparr>scTenant = ''t1'', scUser = ''u1'', scSession = ''0a''\<rparr>"

definition demo_spent :: explain_state where
  "demo_spent = \<lparr>xsSessions = demo_logged_in 5,
     xsBudgets = \<lparr>bgSessions = [(scopeKey demo_scope, 1)], bgTenants = [(''t1'', \<lparr>tbDate = ''2026-01-01'', tbUsed = 1\<rparr>)]\<rparr>,
     xsCounters = [], xsLedger = []\<rparr>"

definition demo_answer :: gateway_answer where
  "demo_answer = GatewayReply (Some (200, Some (JObj [(''explanation'', JStr ''ok'')])))"

definition demo_done :: explain_state where
  "demo_done = snd (finish_explain ''2026-01-01T00:00:01Z'' True demo_answer demo_pending demo_spent)"

definition demo_no_budget :: bff_response where
  "demo_no_budget = emitEditorExplainError BudgetExhausted (Some \<lparr>bsLimit = 1, bsUsed = 1, bsRemaining = 0\<rparr>) None"

lemma demo_sound: "sound_selection (demo_selection t) \<longleftrightarrow> t \<noteq> []" "HEX64 (demo_hash t)"
proof -
  have "sound_selection (demo_selection ''X'')" by code_simp
  then show "sound_selection (demo_selection t) \<longleftrightarrow> t \<noteq> []" by (simp add: sound_selection_def demo_selection_def)
qed (simp add: HEX64_def demo_hash_def is_hex_def char_between_def list_all_iff)

lemma demo_redaction: "redactRegion ''X'' [] =
    Some \<lparr>redactedText = ''X'', matchedPatternIds = [], profileVersion = STUDIO_REDACTION_PROFILE_VERSION\<rparr>"
  by code_simp

lemma demo_validated: "\<exists>request. validateExplainRequest demo_hash demo_body = Inr request"
proof -
  have text': "selText (demo_selection ''X'') = ''X''" by (simp add: demo_selection_def)
  have "length (utf8 ''X'') = 1" by code_simp
  then show ?thesis
    using studio_request_validated [where sha = demo_hash and sel = "demo_selection ''X''" and additions = "[]"] demo_sound
      demo_redaction by (simp add: text' demo_body_def EDITOR_ASSIST_REDACTED_BYTES_MAX_def)
qed

lemma demo_facts:
  "isAllowedBrowserOrigin demo_api demo_explain (studioCorsOrigins (ecSession demo_explain_config))"
  "ecGatewayEnabled demo_explain_config" "rejectNonJsonContentType demo_explain = False"
  "rqBody demo_explain = BodyJson demo_body" "validateOptionalIdentityMatchesSession demo_body demo_session = None"
  "utcDateKey ''2026-01-01T00:00:00Z'' = ''2026-01-01''" "explain_scope demo_session = demo_scope"
  "sesTenant demo_session = ''t1''" "sesUser demo_session = ''u1''"
  "resolveEditorAssistSession (ecSession demo_explain_config) 5 demo_explain (demo_logged_in 0) = (Inr demo_session, demo_logged_in 5)"
  "resolveEditorAssistSession (ecSession demo_explain_config) 5 demo_explain (demo_logged_in 5) = (Inr demo_session, demo_logged_in 5)"
  by code_simp+

lemma demo_budget: "ecBudget demo_explain_config = \<lparr>boLimit = 1, boTenantCap = 2147483647\<rparr>"
  by (simp add: demo_explain_config_def budgetOptions_def clampEditorAssistBudget_def UNLIMITED_AI_BUDGET_def)

lemma demo_start:
  "start_explain demo_api demo_hash demo_explain_config demo_now demo_explain (fresh_explain (demo_logged_in 0)) = (Inr demo_pending, demo_spent)"
  "start_explain demo_api demo_hash demo_explain_config demo_now demo_explain demo_spent = (Inl demo_no_budget, demo_spent)"
  using demo_validated
  by (auto simp: start_explain_def explain_request_of_def start_session_explain_def consumeBudget_def demo_budget fresh_explain_def
      session_used_def tenant_today_def demo_facts demo_now_def demo_spent_def demo_pending_def demo_no_budget_def
      snapshotForSession_def)

abbreviation demo_labels :: "explain_label list" where
  "demo_labels \<equiv> [Called ''2026-01-01'' demo_scope demo_pending, Refused ''2026-01-01'', Finished True]"

lemma demo_run:
  "explain_run demo_api demo_hash demo_explain_config (fresh_explain (demo_logged_in 0)) demo_labels (demo_done, [])"
proof -
  let ?run = "explain_run demo_api demo_hash demo_explain_config (fresh_explain (demo_logged_in 0))"
  have "fst (resolveEditorAssistSession (ecSession demo_explain_config) (enMs demo_now) demo_explain
      (xsSessions (fresh_explain (demo_logged_in 0)))) = Inr demo_session"
    by (simp add: demo_now_def fresh_explain_def demo_facts)
  from explain_run.step [OF explain_run.init explain_step.call [OF demo_start(1) this]]
  have "?run [Called ''2026-01-01'' demo_scope demo_pending] (demo_spent, [demo_pending])"
    by (simp add: demo_now_def demo_facts)
  from explain_run.step [OF this explain_step.refuse [OF demo_start(2)]]
  have "?run [Called ''2026-01-01'' demo_scope demo_pending, Refused ''2026-01-01''] (demo_spent, [] @ demo_pending # [])"
    by (simp add: demo_now_def demo_facts)
  moreover have "explain_step demo_api demo_hash demo_explain_config (demo_spent, [] @ demo_pending # []) (Finished True) (demo_done, [] @ [])"
    unfolding demo_done_def by (rule explain_step.finish [OF prod.collapse [symmetric]])
  ultimately show ?thesis using explain_run.step by fastforce
qed

lemma explain_calls_are_vetted_witness:
  "peTenant (demo_pending) = ''t1'' \<and> vetted_region (exRegion (peRequest (demo_pending)))"
  using explain_calls_are_vetted [OF demo_start(1)]
  by (auto simp: demo_logged_in_def demo_session_def fresh_explain_def split: if_splits)

lemma explain_budgets_hold_witness:
  "int (session_calls (scopeKey demo_scope) demo_labels) \<le> 1 \<and> session_calls (scopeKey demo_scope) demo_labels = 1"
  using explain_budgets_hold [OF demo_run, of demo_scope] by (simp add: session_calls_def demo_budget)

lemma every_call_is_audited_witness:
  "mset (map entry_facts (xsLedger demo_done)) = {#sent_facts demo_pending#}"
  using every_call_is_audited [OF demo_run] by auto

lemma studio_requests_are_accepted_witness:
  "\<exists>body request. explain_action demo_hash [] (demo_selection ''X'') = Some body \<and>
     validateExplainRequest demo_hash body = Inr request"
proof -
  have "sound_selection (demo_selection ''X'')" by (simp add: demo_sound(1))
  note accepted = studio_requests_are_accepted [where sha = demo_hash and additions = "[]", OF this demo_sound(2)]
  have "length (utf8 ''X'') = 1" "selText (demo_selection ''X'') = ''X''" by code_simp+
  then show ?thesis using accepted by (auto simp: demo_redaction EDITOR_ASSIST_REDACTED_BYTES_MAX_def)
qed

definition demo_cache :: "unit bootstrap_cache" where "demo_cache = \<lparr>cached = None, nextRequest = 0\<rparr>"

lemma explain_answers_arrive_witness:
  "\<exists>ref entry. xsLedger demo_done = [entry] \<and>
     requestExplanation (ClientOk JNull)
         (reply_of (fst (finish_explain ''2026-01-01T00:00:01Z'' True demo_answer demo_pending demo_spent))) demo_cache =
       (AssistOk (buildSuccessBody ''ok'' ref entry), demo_cache)"
proof -
  have "map_gateway demo_answer = Inr \<lparr>gwExplanation = ''ok'', gwInvocationId = None, gwLedgerRef = None, gwRedactedFields = []\<rparr>"
    by code_simp
  moreover have "0 \<le> boLimit (ecBudget demo_explain_config)" by (simp add: demo_budget)
  ultimately show ?thesis
    using explain_answers_arrive [OF _ demo_facts(1), where sha = demo_hash and now = demo_now and base = JNull and c = demo_cache and
      st = "fresh_explain (demo_logged_in 0)" and endedAt = "''2026-01-01T00:00:01Z''" and written = True and answer = demo_answer]
    by (cases "finish_explain ''2026-01-01T00:00:01Z'' True demo_answer demo_pending demo_spent")
      (force simp: demo_start(1) demo_done_def demo_spent_def split: prod.splits)
qed

lemma panel_shows_its_request_witness:
  "panelRequest (land_explain 1 (unavailableResult ''a'') (runExplain ''q2'' (runExplain ''q1'' empty_panel))) = Some ''q2'' \<and>
   panelResult (land_explain 1 (unavailableResult ''a'') (runExplain ''q2'' (runExplain ''q1'' empty_panel))) = None"
proof -
  have "panel_run (([] @ [Asked ''q1'']) @ [Asked ''q2'']) (runExplain ''q2'' (runExplain ''q1'' empty_panel))"
    by (intro panel_run.intros)
  then have "panel_run ([Asked ''q1'', Asked ''q2''] @ [Landed 1 (unavailableResult ''a'')])
      (land_explain 1 (unavailableResult ''a'') (runExplain ''q2'' (runExplain ''q1'' empty_panel)))"
    by (intro panel_run.intros) (simp_all add: runExplain_def empty_panel_def)
  from panel_shows_its_request [OF this] show ?thesis
    by (auto simp: requests_of_def asked_def runExplain_def empty_panel_def land_explain_def)
qed

end
