(* ===== verification/Bff_Model_Gateway.thy ===== *)
theory Bff_Model_Gateway
  imports Bff_Run_Routes
begin

text \<open>
  What \<open>server.ts\<close> makes of the answers of the model gateway and of the harness: the normalized views, their
  GET routes, and the check that an agent run can be started.  The output of numbers and the separator of the
  harness summary, which lies outside the characters of the model, are parameters.
\<close>

section \<open>Reading the answers\<close>

text \<open>A field of the record that keeps only the string entries.\<close>

definition asStringRecord :: "json option \<Rightarrow> string \<Rightarrow> string option" where
  "asStringRecord v k = as_string (js_field v k)"

definition parseBooleanString :: "string \<Rightarrow> bool option" where
  "parseBooleanString s = (if s = ''true'' then Some True else if s = ''false'' then Some False else None)"

fun first_nonempty :: "string list \<Rightarrow> string" where
  "first_nonempty [] = []"
| "first_nonempty (s # ss) = (if s = [] then first_nonempty ss else s)"

definition role_availability :: "json \<Rightarrow> json option" where
  "role_availability entry =
     (let field = (\<lambda>k. asString (js_field (Some entry) k)); texts = (\<lambda>k. json_texts (asStringArray (js_field (Some entry) k)))
      in if field ''role'' = [] \<or> field ''status'' = [] then None
         else Some (js_object
           [(''role'', Some (JStr (field ''role''))), (''status'', Some (JStr (field ''status''))),
            (''policyId'', Some (JStr (field ''policyId''))), (''availableModels'', Some (texts ''availableModels'')),
            (''configuredModels'', Some (texts ''configuredModels'')), (''reason'', Some (JStr (field ''reason'')))]))"

definition normalizeModelGatewayRoleAvailability :: "json option \<Rightarrow> json list" where
  "normalizeModelGatewayRoleAvailability payload =
     List.map_filter role_availability (or_default (js_array (js_field payload ''roles'')) [])"

definition normalizeModelGatewayCapabilitiesView :: "json option \<Rightarrow> json" where
  "normalizeModelGatewayCapabilitiesView payload =
     (let roles = normalizeModelGatewayRoleAvailability payload;
          anyUnavailable = list_ex (\<lambda>role. asString (js_field (Some role) ''status'') \<noteq> ''ok'') roles
      in js_object
           [(''status'', Some (JStr (if anyUnavailable then ''degraded'' else ''ok''))),
            (''providerMode'', Some (JStr (asString (js_field payload ''provider'')))),
            (''policyId'', Some (JStr (asString (js_field payload ''policyId'')))), (''roles'', Some (JArr roles))])"

definition configured_flag :: "json option \<Rightarrow> string \<Rightarrow> string \<Rightarrow> bool" where
  "configured_flag payload name direct =
     or_default (or_else (parseBooleanString (or_default (asStringRecord (js_field payload ''configured'') name) []))
       (asBoolean (js_field payload direct))) False"

definition normalizeModelGatewayHealthView :: "json option \<Rightarrow> json option \<Rightarrow> json" where
  "normalizeModelGatewayHealthView payload capabilitiesPayload =
     (let configured = asStringRecord (js_field payload ''configured'');
          setting = (\<lambda>k. or_default (configured k) [])
      in js_object
           [(''status'', Some (JStr ''ok'')),
            (''providerMode'', Some (JStr (first_nonempty
               [setting ''mode'', setting ''modelProvider'', asString (js_field payload ''status'')]))),
            (''activeModelCount'', Some (js_num (or_default (or_else (asNumber (js_field payload ''activeModels''))
               (asNumber (js_field payload ''activeModelCount''))) 0))),
            (''dataPolicy'', map_option JStr (configured ''dataPolicy'')),
            (''ledgerEnabled'', Some (JBool (configured_flag payload ''invocationLedgerEnabled'' ''ledgerEnabled''))),
            (''eventEmission'', Some (JBool (configured_flag payload ''harnessEventEmissionEnabled'' ''eventEmission''))),
            (''policyId'', Some (JStr (first_nonempty [asString (js_field payload ''policyId''), setting ''policyId'']))),
            (''roleAvailability'', Some (JArr (normalizeModelGatewayRoleAvailability capabilitiesPayload)))])"

definition callable_role :: "json \<Rightarrow> bool" where
  "callable_role entry \<longleftrightarrow>
     asString (js_field (Some entry) ''role'') = ''transformation'' \<and> asString (js_field (Some entry) ''status'') = ''ok'' \<and>
     asStringArray (js_field (Some entry) ''availableModels'') \<noteq> []"

definition modelGatewayViewHasCallableTransformationModel :: "json \<Rightarrow> bool" where
  "modelGatewayViewHasCallableTransformationModel view \<longleftrightarrow>
     (case asNumber (js_field (Some view) ''activeModelCount'') of Some n \<Rightarrow> 0 < n | None \<Rightarrow> False) \<or>
     list_ex callable_role (or_default (js_array (js_field (Some view) ''roleAvailability'')) [])"

section \<open>Whether a transformation model can be called\<close>

text \<open>The body of an answer with a successful status.\<close>

definition answered_body :: "upstream_answer \<Rightarrow> json option option" where
  "answered_body answer =
     (case answer of Upstream status body \<Rightarrow> if 200 \<le> status \<and> status < 300 then Some body else None | _ \<Rightarrow> None)"

text \<open>The message of the refusal, if the gateway cannot serve an agent run.\<close>

definition verifyTransformationModelGatewayAvailable :: "bool \<Rightarrow> upstream_answer \<Rightarrow> upstream_answer \<Rightarrow> string option" where
  "verifyTransformationModelGatewayAvailable enabled health capabilities =
     (if \<not> enabled then Some ''Model Gateway is required while AI Assist is enabled.''
      else case answered_body health of
        None \<Rightarrow> Some ''Model Gateway is unavailable while AI Assist is enabled.''
      | Some body \<Rightarrow>
          (if modelGatewayViewHasCallableTransformationModel
                (normalizeModelGatewayHealthView body (or_default (answered_body capabilities) None))
           then None else Some ''No transformation model is currently available.''))"

section \<open>Models and the harness\<close>

definition gateway_model :: "json \<Rightarrow> json option" where
  "gateway_model entry =
     (let field = (\<lambda>ks. first_nonempty (map (\<lambda>k. asString (js_field (Some entry) k)) ks));
          id = field [''id'', ''ID'']; name = field [''name'', ''displayName'', ''DisplayName''];
          provider = field [''provider'', ''Provider'']
      in if id = [] \<or> name = [] \<or> provider = [] then None
         else Some (js_object [(''id'', Some (JStr id)), (''name'', Some (JStr name)), (''provider'', Some (JStr provider))]))"

definition normalizeModelGatewayModelsView :: "json option \<Rightarrow> json" where
  "normalizeModelGatewayModelsView payload =
     js_object [(''models'', Some (JArr (List.map_filter gateway_model
       (or_default (or_else (js_array payload) (js_array (js_field payload ''models''))) []))))]"

text \<open>An object literal that spreads a record first: a field set later keeps the place of the earlier one.\<close>

definition spread :: "json option \<Rightarrow> (string \<times> json option) list \<Rightarrow> json" where
  "spread v fs =
     JObj (fold (\<lambda>(k, f). case f of None \<Rightarrow> filter (\<lambda>(k', _). k' \<noteq> k) | Some j \<Rightarrow> js_set k j) fs
       (case v of Some (JObj gs) \<Rightarrow> gs | _ \<Rightarrow> []))"

definition normalizeHarnessReadyView :: "(js_number \<Rightarrow> string) \<Rightarrow> string \<Rightarrow> json option \<Rightarrow> json" where
  "normalizeHarnessReadyView number_text separator payload =
     (let counted = (\<lambda>k after. case asNumber (js_field payload k) of None \<Rightarrow> [] | Some q \<Rightarrow> number_text (Finite q) @ after);
          policyGateway = asString (js_field payload ''policyGateway'');
          parts = [counted ''capabilities'' '' capabilities registered'', counted ''runs'' '' runs tracked'',
                   if policyGateway = [] then [] else ''policy gateway '' @ policyGateway]
      in spread payload [(''status'', Some (JStr ''ok'')), (''summary'', Some (JStr (js_join separator (filter (\<lambda>p. p \<noteq> []) parts))))])"

section \<open>Routes\<close>

definition gateway_route :: "(json option \<Rightarrow> json) \<Rightarrow> bool \<Rightarrow> upstream_answer \<Rightarrow> bff_response" where
  "gateway_route view enabled answer =
     (if \<not> enabled then error_response 503 ''Model Gateway unavailable in deterministic W0 mode''
      else case answer of
        UpstreamThrew _ \<Rightarrow> error_response 503 ''Model Gateway upstream failed''
      | Upstream status body \<Rightarrow>
          (if 200 \<le> status \<and> status < 300 then jsonResponse (nat status) (view body)
           else error_response 503 ''Model Gateway upstream unavailable'')
      | NoUpstream \<Rightarrow> error_response 503 ''Model Gateway upstream unavailable'')"

definition gateway_health_route :: "bool \<Rightarrow> upstream_answer \<Rightarrow> upstream_answer \<Rightarrow> bff_response" where
  "gateway_health_route enabled health capabilities =
     gateway_route (\<lambda>body. normalizeModelGatewayHealthView body (or_default (answered_body capabilities) None)) enabled health"

definition gateway_models_route :: "bool \<Rightarrow> upstream_answer \<Rightarrow> bff_response" where
  "gateway_models_route = gateway_route normalizeModelGatewayModelsView"

definition gateway_capabilities_route :: "bool \<Rightarrow> upstream_answer \<Rightarrow> bff_response" where
  "gateway_capabilities_route = gateway_route normalizeModelGatewayCapabilitiesView"

definition harness_ready_route :: "(js_number \<Rightarrow> string) \<Rightarrow> string \<Rightarrow> bool \<Rightarrow> upstream_answer \<Rightarrow> bff_response" where
  "harness_ready_route number_text separator enabled answer =
     (if \<not> enabled then error_response 503 ''Harness unavailable''
      else case answer of
        UpstreamThrew _ \<Rightarrow> error_response 503 ''Harness upstream failed''
      | Upstream status body \<Rightarrow>
          (if 200 \<le> status \<and> status < 300 then jsonResponse 200 (normalizeHarnessReadyView number_text separator body)
           else error_response 503 ''Harness upstream unavailable'')
      | NoUpstream \<Rightarrow> error_response 503 ''Harness upstream unavailable'')"

section \<open>Facts\<close>

lemma strings_of_texts [simp]: "asStringArray (Some (json_texts ss)) = ss"
  by (induction ss) (simp_all add: asStringArray_def json_texts_def js_array_def)

lemma callable_role_normalized:
  "role_availability entry = Some role \<Longrightarrow> callable_role role \<longleftrightarrow> callable_role entry"
  "callable_role entry \<Longrightarrow> role_availability entry \<noteq> None"
  by (auto simp: role_availability_def callable_role_def Let_def js_object_first split: if_splits)

lemma callable_from_view:
  "modelGatewayViewHasCallableTransformationModel (normalizeModelGatewayHealthView body caps) \<longleftrightarrow>
   0 < or_default (or_else (asNumber (js_field body ''activeModels'')) (asNumber (js_field body ''activeModelCount''))) 0 \<or>
   (\<exists>role\<in>set (or_default (js_array (js_field caps ''roles'')) []). callable_role role)"
proof -
  have "list_ex callable_role (normalizeModelGatewayRoleAvailability caps) \<longleftrightarrow>
      (\<exists>role\<in>set (or_default (js_array (js_field caps ''roles'')) []). callable_role role)"
    using callable_role_normalized
    by (auto simp: normalizeModelGatewayRoleAvailability_def list_ex_iff List.map_filter_def)
  then show ?thesis
    by (simp add: modelGatewayViewHasCallableTransformationModel_def normalizeModelGatewayHealthView_def Let_def js_object_first
        js_array_def asNumber_def js_num_def)
qed

lemma gateway_ready:
  "verifyTransformationModelGatewayAvailable enabled health caps = None \<longleftrightarrow>
   enabled \<and> (\<exists>body. answered_body health = Some body \<and>
     modelGatewayViewHasCallableTransformationModel (normalizeModelGatewayHealthView body (or_default (answered_body caps) None)))"
  by (auto simp: verifyTransformationModelGatewayAvailable_def split: option.splits)

end
