(* ===== verification/Trust_Cases.thy ===== *)
theory Trust_Cases
  imports Json_Access Bff_Diagnostics "HOL-Library.List_Lexorder" "HOL-Library.Char_ord"
begin

text \<open>
  The trust case catalog (\<open>trust-cases.ts\<close>): how the BFF checks the catalog file at start-up and what it
  then looks up.  The parsed file, the acceptance fixtures with their supported constructs, the quoting of
  \<open>JSON.stringify\<close> and the SHA-256 digest of the text of a JSON value are arguments; a thrown error is its
  message, without the path of the catalog file.
\<close>

section \<open>Parts of a trust case\<close>

record source_reference =
  srfFixtureId :: string
  srfMode :: string

record controlled_input =
  ciStdin :: "string option"
  ciDataSetIds :: "string list"
  ciExpectedFixtureId :: string

record environment_profile =
  epProfileId :: string
  epDescription :: string
  epVariables :: "(string \<times> string) list"

record trust_case =
  tkId :: string
  tkVersion :: string
  tkProgramId :: string
  tkTitle :: string
  tkDescription :: string
  tkDefault :: bool
  tkSource :: source_reference
  tkInput :: controlled_input
  tkProgramArgs :: "string list"
  tkProfile :: environment_profile
  tkSubset :: "string list"
  tkArtifactName :: string

record trust_case_summary =
  smTrustCaseId :: string
  smVersion :: string
  smCatalogVersion :: string
  smCatalogHash :: string
  smDigest :: string
  smProgramId :: string
  smTitle :: string
  smDescription :: string
  smDefault :: bool
  smFixtureId :: string
  smMode :: string
  smProfileId :: string
  smSubset :: "string list"

section \<open>Patterns\<close>

definition matches_class :: "nat \<Rightarrow> nat \<Rightarrow> (char \<Rightarrow> bool) \<Rightarrow> string \<Rightarrow> bool" where
  "matches_class least most P s \<longleftrightarrow> least \<le> length s \<and> length s \<le> most \<and> list_all P s"

definition upper_first :: "(char \<Rightarrow> bool) \<Rightarrow> nat \<Rightarrow> nat \<Rightarrow> string \<Rightarrow> bool" where
  "upper_first P least most s = (case s of [] \<Rightarrow> False | c # cs \<Rightarrow> is_upper c \<and> matches_class least most P cs)"

definition TRUST_CASE_ID_PATTERN :: "string \<Rightarrow> bool" where
  "TRUST_CASE_ID_PATTERN = upper_first (\<lambda>c. is_upper c \<or> is_digit c \<or> c = CHR ''-'') 1 63"

definition SAFE_VERSION_PATTERN :: "string \<Rightarrow> bool" where
  "SAFE_VERSION_PATTERN = matches_class 1 64 (\<lambda>c. is_id_char c \<or> c = CHR '':'')"

definition SAFE_PROFILE_VARIABLE_KEY :: "string \<Rightarrow> bool" where
  "SAFE_PROFILE_VARIABLE_KEY = upper_first (\<lambda>c. is_upper c \<or> is_digit c \<or> c = CHR ''_'') 0 63"

definition SAFE_PROFILE_VARIABLE_VALUE :: "string \<Rightarrow> bool" where
  "SAFE_PROFILE_VARIABLE_VALUE = matches_class 0 256 (\<lambda>c. is_id_char c \<or> c \<in> {CHR '':'', CHR ''/'', CHR ''='', CHR ''+''})"

definition SAFE_RUNTIME_VALUE :: "string \<Rightarrow> bool" where
  "SAFE_RUNTIME_VALUE =
     matches_class 0 80 (\<lambda>c. is_id_char c \<or> c \<in> {CHR '':'', CHR ''='', CHR ''@'', CHR ''/'', CHR ''+'', CHR '',''})"

definition SAFE_ARTIFACT_NAME :: "string \<Rightarrow> bool" where
  "SAFE_ARTIFACT_NAME = matches_class 1 96 is_id_char"

definition SAFE_DATASET_ID :: "string \<Rightarrow> bool" where
  "SAFE_DATASET_ID = upper_first (\<lambda>c. is_upper c \<or> is_digit c \<or> c \<in> {CHR ''_'', CHR ''-''}) 1 63"

definition ENVIRONMENT_PROFILE_IDS :: "string list" where
  "ENVIRONMENT_PROFILE_IDS = [''generated-java-sandbox-v1'', ''reference-fixture-v1'', ''native-cobol-controlled-v1'']"

definition SOURCE_REFERENCE_MODES :: "string list" where
  "SOURCE_REFERENCE_MODES = [''reference-fixture'', ''native-cobol'']"

definition W02_CONSTRUCTS :: "string list" where
  "W02_CONSTRUCTS =
     [''MOVE'', ''DISPLAY'', ''PERFORM'', ''PERFORM-VARYING'', ''PERFORM-UNTIL'', ''IF'', ''EVALUATE'', ''COMPUTE'', ''ADD'',
      ''SUBTRACT'', ''MULTIPLY'', ''DIVIDE'', ''CALL'', ''STOP-RUN'', ''PARAGRAPH'', ''WORKING-STORAGE'']"

definition windows_path :: "string \<Rightarrow> bool" where
  "windows_path s = (case s of c # d # e # _ \<Rightarrow> (is_upper c \<or> is_lower c) \<and> d = CHR '':'' \<and> e \<in> {CHR 0x5C, CHR ''/''} | _ \<Rightarrow> False)"

definition runtimeValueLooksUnsafe :: "string \<Rightarrow> bool" where
  "runtimeValueLooksUnsafe s \<longleftrightarrow>
     prefix ''/'' s \<or> windows_path s \<or> sublist ''..'' s \<or>
     list_ex (\<lambda>c. is_js_space c \<or> c \<in> set '';&|$<>'' \<or> c = CHR 0x60) s"

section \<open>Checks\<close>

definition check :: "bool \<Rightarrow> string \<Rightarrow> string + unit" where
  "check ok message = (if ok then Inr () else Inl message)"

definition assertNoExtraKeys :: "(string \<Rightarrow> string) \<Rightarrow> (string \<times> json) list \<Rightarrow> string list \<Rightarrow> string \<Rightarrow> string + unit" where
  "assertNoExtraKeys quote fs allowed scope =
     (case find (\<lambda>k. k \<notin> set allowed) (js_keys fs) of
        Some key \<Rightarrow> Inl (scope @ '': unexpected field '' @ quote key)
      | None \<Rightarrow> Inr ())"

definition case_error :: "string \<Rightarrow> string \<Rightarrow> string" where
  "case_error cid rest = ''trust case '' @ cid @ '': '' @ rest"

definition requireString :: "json option \<Rightarrow> string \<Rightarrow> string \<Rightarrow> string + string" where
  "requireString v name cid =
     (case as_string v of
        Some s \<Rightarrow> if js_trim s = [] then Inl (case_error cid (name @ '' must be a non-empty string'')) else Inr (js_trim s)
      | None \<Rightarrow> Inl (case_error cid (name @ '' must be a non-empty string'')))"

definition requireStringMatching :: "json option \<Rightarrow> string \<Rightarrow> string \<Rightarrow> (string \<Rightarrow> bool) \<Rightarrow> string + string" where
  "requireStringMatching v name cid P =
     and_then (requireString v name cid) (\<lambda>s.
     and_then (check (P s) (case_error cid (name @ '' has an unsafe value''))) (\<lambda>_. Inr s))"

text \<open>A part that must be an object with known fields.\<close>

definition part_of ::
  "(string \<Rightarrow> string) \<Rightarrow> json option \<Rightarrow> string \<Rightarrow> string \<Rightarrow> string list \<Rightarrow> string + (string \<times> json) list" where
  "part_of quote raw name cid allowed =
     (case Option.bind raw as_object of
        None \<Rightarrow> Inl (case_error cid (name @ '' must be an object''))
      | Some fs \<Rightarrow>
          and_then (assertNoExtraKeys quote fs allowed (''trust case '' @ cid @ ''.'' @ name)) (\<lambda>_. Inr fs))"

section \<open>Parsing a trust case\<close>

definition parseSourceReference :: "(string \<Rightarrow> string) \<Rightarrow> json option \<Rightarrow> string \<Rightarrow> string + source_reference" where
  "parseSourceReference quote raw cid =
     and_then (part_of quote raw ''sourceReference'' cid [''fixtureId'', ''mode'']) (\<lambda>fs.
     and_then (requireStringMatching (js_get fs ''fixtureId'') ''sourceReference.fixtureId'' cid TRUST_CASE_ID_PATTERN) (\<lambda>fixtureId.
     and_then (requireString (js_get fs ''mode'') ''sourceReference.mode'' cid) (\<lambda>mode.
     and_then (check (mode \<in> set SOURCE_REFERENCE_MODES)
       (case_error cid ''sourceReference.mode must be reference-fixture or native-cobol'')) (\<lambda>_.
     Inr \<lparr>srfFixtureId = fixtureId, srfMode = mode\<rparr>))))"

definition stdin_of :: "json option \<Rightarrow> string \<Rightarrow> string + string option" where
  "stdin_of v cid =
     (if js_null v then Inr None
      else case as_string v of
        Some s \<Rightarrow> if 8192 < length s then Inl (case_error cid ''controlledInput.stdin must be null or a bounded string'') else Inr (Some s)
      | None \<Rightarrow> Inl (case_error cid ''controlledInput.stdin must be null or a bounded string''))"

text \<open>An array of at most \<open>most\<close> safe strings.\<close>

definition safe_strings :: "json option \<Rightarrow> string \<Rightarrow> string \<Rightarrow> nat \<Rightarrow> (string \<Rightarrow> bool) \<Rightarrow> string + string list" where
  "safe_strings v name cid most P =
     (case js_array v of
        Some js \<Rightarrow>
          (if most < length js
           then Inl (case_error cid (name @ '' must be an array of at most '' @ nat_digits most @ '' entries''))
           else map_result (\<lambda>(i, j). case as_string (Some j) of
               Some s \<Rightarrow> if P s then Inr s else Inl (case_error cid (name @ ''['' @ nat_digits i @ ''] has an unsafe value''))
             | None \<Rightarrow> Inl (case_error cid (name @ ''['' @ nat_digits i @ ''] has an unsafe value''))) (enumerate 0 js))
      | None \<Rightarrow> Inl (case_error cid (name @ '' must be an array of at most '' @ nat_digits most @ '' entries'')))"

definition parseControlledInput :: "(string \<Rightarrow> string) \<Rightarrow> json option \<Rightarrow> string \<Rightarrow> string + controlled_input" where
  "parseControlledInput quote raw cid =
     and_then (part_of quote raw ''controlledInput'' cid [''stdin'', ''dataSetIds'', ''expectedOutputFixtureId'']) (\<lambda>fs.
     and_then (stdin_of (js_get fs ''stdin'') cid) (\<lambda>stdin.
     and_then (safe_strings (js_get fs ''dataSetIds'') ''controlledInput.dataSetIds'' cid 16 SAFE_DATASET_ID) (\<lambda>ids.
     and_then (check (distinct ids) (case_error cid ''controlledInput.dataSetIds must not contain duplicates'')) (\<lambda>_.
     and_then (requireStringMatching (js_get fs ''expectedOutputFixtureId'') ''controlledInput.expectedOutputFixtureId'' cid
       TRUST_CASE_ID_PATTERN) (\<lambda>expected.
     Inr \<lparr>ciStdin = stdin, ciDataSetIds = ids, ciExpectedFixtureId = expected\<rparr>)))))"

definition parseRuntime :: "(string \<Rightarrow> string) \<Rightarrow> json option \<Rightarrow> string \<Rightarrow> string + string list" where
  "parseRuntime quote raw cid =
     and_then (part_of quote raw ''runtime'' cid [''programArgs'']) (\<lambda>fs.
     safe_strings (js_get fs ''programArgs'') ''runtime.programArgs'' cid 8
       (\<lambda>s. SAFE_RUNTIME_VALUE s \<and> \<not> runtimeValueLooksUnsafe s))"

definition profile_variable :: "string \<Rightarrow> string \<times> json \<Rightarrow> string + (string \<times> string)" where
  "profile_variable cid entry =
     and_then (check (SAFE_PROFILE_VARIABLE_KEY (fst entry))
       (case_error cid ''environmentProfile.variables contains an unsafe key'')) (\<lambda>_.
     (case as_string (Some (snd entry)) of
        Some s \<Rightarrow>
          if SAFE_PROFILE_VARIABLE_VALUE s then Inr (fst entry, s)
          else Inl (case_error cid (''environmentProfile.variables.'' @ fst entry @ '' has an unsafe value''))
      | None \<Rightarrow> Inl (case_error cid (''environmentProfile.variables.'' @ fst entry @ '' has an unsafe value''))))"

definition parseEnvironmentProfile :: "(string \<Rightarrow> string) \<Rightarrow> json option \<Rightarrow> string \<Rightarrow> string + environment_profile" where
  "parseEnvironmentProfile quote raw cid =
     and_then (part_of quote raw ''environmentProfile'' cid [''profileId'', ''description'', ''variables'']) (\<lambda>fs.
     and_then (requireString (js_get fs ''profileId'') ''environmentProfile.profileId'' cid) (\<lambda>profile.
     and_then (check (profile \<in> set ENVIRONMENT_PROFILE_IDS)
       (case_error cid ''environmentProfile.profileId is not supported'')) (\<lambda>_.
     and_then (requireString (js_get fs ''description'') ''environmentProfile.description'' cid) (\<lambda>description.
     (case Option.bind (js_get fs ''variables'') as_object of
        None \<Rightarrow> Inl (case_error cid ''environmentProfile.variables must be an object'')
      | Some vars \<Rightarrow>
          and_then (map_result (profile_variable cid) vars) (\<lambda>variables.
          Inr \<lparr>epProfileId = profile, epDescription = description, epVariables = variables\<rparr>))))))"

definition parseComparison :: "(string \<Rightarrow> string) \<Rightarrow> json option \<Rightarrow> string \<Rightarrow> string + unit" where
  "parseComparison quote raw cid =
     and_then (part_of quote raw ''comparison'' cid [''strategy'', ''policyVersion'']) (\<lambda>fs.
     and_then (check (js_get fs ''strategy'' = Some (JStr ''deterministic-output''))
       (case_error cid ''comparison.strategy must be deterministic-output'')) (\<lambda>_.
     check (js_get fs ''policyVersion'' = Some (JStr ''deterministic-output-v1''))
       (case_error cid ''comparison.policyVersion must be deterministic-output-v1'')))"

definition construct_of :: "string \<Rightarrow> json \<Rightarrow> string + string" where
  "construct_of cid j =
     (case as_string (Some j) of
        Some s \<Rightarrow> if s \<in> set W02_CONSTRUCTS then Inr s
          else Inl (case_error cid ''supportedProgramShape.supportedSubset contains an unknown construct'')
      | None \<Rightarrow> Inl (case_error cid ''supportedProgramShape.supportedSubset contains an unknown construct''))"

definition parseSupportedProgramShape ::
  "(string \<Rightarrow> string) \<Rightarrow> json option \<Rightarrow> string \<Rightarrow> string \<Rightarrow> string + string list" where
  "parseSupportedProgramShape quote raw cid program =
     and_then (part_of quote raw ''supportedProgramShape'' cid [''language'', ''programId'', ''supportedSubset'']) (\<lambda>fs.
     and_then (check (js_get fs ''language'' = Some (JStr ''cobol''))
       (case_error cid ''supportedProgramShape.language must be cobol'')) (\<lambda>_.
     and_then (requireString (js_get fs ''programId'') ''supportedProgramShape.programId'' cid) (\<lambda>shapeProgram.
     and_then (check (shapeProgram = program)
       (case_error cid ''supportedProgramShape.programId must match programId'')) (\<lambda>_.
     (case js_array (js_get fs ''supportedSubset'') of
        Some (j # js) \<Rightarrow>
          and_then (map_result (construct_of cid) (j # js)) (\<lambda>constructs.
          and_then (check (distinct constructs)
            (case_error cid ''supportedProgramShape.supportedSubset must not contain duplicates'')) (\<lambda>_. Inr constructs))
      | _ \<Rightarrow> Inl (case_error cid ''supportedProgramShape.supportedSubset must be non-empty''))))))"

definition parseEvidenceIdentity :: "(string \<Rightarrow> string) \<Rightarrow> json option \<Rightarrow> string \<Rightarrow> string + string" where
  "parseEvidenceIdentity quote raw cid =
     and_then (part_of quote raw ''evidenceIdentity'' cid [''kind'', ''artifactName'']) (\<lambda>fs.
     and_then (check (js_get fs ''kind'' = Some (JStr ''trust-case''))
       (case_error cid ''evidenceIdentity.kind must be trust-case'')) (\<lambda>_.
     requireStringMatching (js_get fs ''artifactName'') ''evidenceIdentity.artifactName'' cid SAFE_ARTIFACT_NAME))"

definition TRUST_CASE_KEYS :: "string list" where
  "TRUST_CASE_KEYS =
     [''trustCaseId'', ''version'', ''programId'', ''title'', ''description'', ''defaultForProgram'', ''sourceReference'',
      ''controlledInput'', ''runtime'', ''environmentProfile'', ''comparison'', ''supportedProgramShape'', ''evidenceIdentity'']"

definition parse_case_parts ::
  "(string \<Rightarrow> string) \<Rightarrow> (string \<times> json) list \<Rightarrow> string \<Rightarrow> string \<Rightarrow> string \<Rightarrow> string \<Rightarrow> string \<Rightarrow> bool \<Rightarrow> string + trust_case" where
  "parse_case_parts quote fs cid version program title description isDefault =
     and_then (parseSourceReference quote (js_get fs ''sourceReference'') cid) (\<lambda>source.
     and_then (parseControlledInput quote (js_get fs ''controlledInput'') cid) (\<lambda>input.
     and_then (parseRuntime quote (js_get fs ''runtime'') cid) (\<lambda>args.
     and_then (parseEnvironmentProfile quote (js_get fs ''environmentProfile'') cid) (\<lambda>profile.
     and_then (parseComparison quote (js_get fs ''comparison'') cid) (\<lambda>_.
     and_then (parseSupportedProgramShape quote (js_get fs ''supportedProgramShape'') cid program) (\<lambda>constructs.
     and_then (parseEvidenceIdentity quote (js_get fs ''evidenceIdentity'') cid) (\<lambda>artifact.
     Inr \<lparr>tkId = cid, tkVersion = version, tkProgramId = program, tkTitle = title, tkDescription = description,
          tkDefault = isDefault, tkSource = source, tkInput = input, tkProgramArgs = args, tkProfile = profile,
          tkSubset = constructs, tkArtifactName = artifact\<rparr>)))))))"

definition parseTrustCase :: "(string \<Rightarrow> string) \<Rightarrow> nat \<times> json \<Rightarrow> string + trust_case" where
  "parseTrustCase quote entry =
     (let place = ''trustCases['' @ nat_digits (fst entry) @ '']''
      in case as_object (snd entry) of
        None \<Rightarrow> Inl (place @ '' must be an object'')
      | Some fs \<Rightarrow>
          and_then (assertNoExtraKeys quote fs TRUST_CASE_KEYS place) (\<lambda>_.
          and_then (requireStringMatching (js_get fs ''trustCaseId'') (place @ ''.trustCaseId'') (''#'' @ nat_digits (fst entry))
            TRUST_CASE_ID_PATTERN) (\<lambda>cid.
          and_then (requireStringMatching (js_get fs ''version'') ''version'' cid SAFE_VERSION_PATTERN) (\<lambda>version.
          and_then (requireString (js_get fs ''programId'') ''programId'' cid) (\<lambda>program.
          and_then (requireString (js_get fs ''title'') ''title'' cid) (\<lambda>title.
          and_then (requireString (js_get fs ''description'') ''description'' cid) (\<lambda>description.
          (case asBoolean (js_get fs ''defaultForProgram'') of
             Some isDefault \<Rightarrow> parse_case_parts quote fs cid version program title description isDefault
           | None \<Rightarrow> Inl (case_error cid ''defaultForProgram must be a boolean'')))))))))"

section \<open>The catalog\<close>

text \<open>
  The fields of every object in the order of their names.  An assignment to \<open>__proto__\<close> makes no field of the
  accumulated object.
\<close>

fun canonicalize :: "json \<Rightarrow> json"
  and canonical_entries :: "json list \<Rightarrow> json list"
  and canonical_fields :: "(string \<times> json) list \<Rightarrow> (string \<times> json) list" where
  "canonicalize (JArr js) = JArr (canonical_entries js)"
| "canonicalize (JObj fs) = JObj (sort_key fst (filter (\<lambda>(k, _). k \<noteq> ''__proto__'') (canonical_fields fs)))"
| "canonicalize JNull = JNull"
| "canonicalize (JBool b) = JBool b"
| "canonicalize (JNum n) = JNum n"
| "canonicalize (JStr s) = JStr s"
| "canonical_entries [] = []"
| "canonical_entries (j # js) = canonicalize j # canonical_entries js"
| "canonical_fields [] = []"
| "canonical_fields ((k, j) # fs) = (k, canonicalize j) # canonical_fields fs"

definition json_strings_of :: "string list \<Rightarrow> json" where
  "json_strings_of ss = JArr (map JStr ss)"

definition identity_payload :: "trust_case \<Rightarrow> string \<Rightarrow> string \<Rightarrow> json" where
  "identity_payload tc catalogVersion catalogHash =
     JObj [(''trustCaseId'', JStr (tkId tc)), (''version'', JStr (tkVersion tc)), (''programId'', JStr (tkProgramId tc)),
       (''catalogVersion'', JStr catalogVersion), (''catalogHash'', JStr catalogHash),
       (''sourceReferenceFixtureId'', JStr (srfFixtureId (tkSource tc))),
       (''sourceReferenceMode'', JStr (srfMode (tkSource tc))),
       (''sourceReference'', JObj [(''fixtureId'', JStr (srfFixtureId (tkSource tc))), (''mode'', JStr (srfMode (tkSource tc)))]),
       (''controlledInput'', JObj [(''stdin'', js_or_null JStr (ciStdin (tkInput tc))),
          (''dataSetIds'', json_strings_of (ciDataSetIds (tkInput tc))),
          (''expectedOutputFixtureId'', JStr (ciExpectedFixtureId (tkInput tc)))]),
       (''runtimeProgramArgs'', json_strings_of (tkProgramArgs tc)),
       (''runtime'', JObj [(''programArgs'', json_strings_of (tkProgramArgs tc))]),
       (''environmentProfileId'', JStr (epProfileId (tkProfile tc))),
       (''environmentProfile'', JObj [(''profileId'', JStr (epProfileId (tkProfile tc))),
          (''description'', JStr (epDescription (tkProfile tc))),
          (''variables'', JObj (map (\<lambda>(k, v). (k, JStr v)) (epVariables (tkProfile tc))))]),
       (''comparisonStrategy'', JStr ''deterministic-output''), (''comparisonPolicyVersion'', JStr ''deterministic-output-v1''),
       (''supportedProgramShape'', JObj [(''language'', JStr ''cobol''), (''programId'', JStr (tkProgramId tc)),
          (''supportedSubset'', json_strings_of (tkSubset tc))]),
       (''evidenceArtifactName'', JStr (tkArtifactName tc))]"

text \<open>The digest of the text of a JSON value, as one function.\<close>

definition summarize :: "(json \<Rightarrow> string) \<Rightarrow> trust_case \<Rightarrow> string \<Rightarrow> string \<Rightarrow> trust_case_summary" where
  "summarize sha256Json tc catalogVersion catalogHash =
     \<lparr>smTrustCaseId = tkId tc, smVersion = tkVersion tc, smCatalogVersion = catalogVersion, smCatalogHash = catalogHash,
      smDigest = sha256Json (canonicalize (identity_payload tc catalogVersion catalogHash)),
      smProgramId = tkProgramId tc, smTitle = tkTitle tc, smDescription = tkDescription tc, smDefault = tkDefault tc,
      smFixtureId = srfFixtureId (tkSource tc), smMode = srfMode (tkSource tc), smProfileId = epProfileId (tkProfile tc),
      smSubset = tkSubset tc\<rparr>"

record trust_case_catalog =
  catVersion :: string
  catHash :: string
  catSummaries :: "trust_case_summary list"

text \<open>The checks of one trust case in the loop over the catalog.\<close>

definition check_member :: "(string \<times> string list) list \<Rightarrow> string list \<Rightarrow> trust_case \<Rightarrow> string + unit" where
  "check_member fixtures seen tc =
     and_then (check (tkId tc \<notin> set seen) (''trust-case catalog contains duplicate trustCaseId '' @ tkId tc)) (\<lambda>_.
     (case map_of (rev fixtures) (srfFixtureId (tkSource tc)) of
        None \<Rightarrow> Inl (case_error (tkId tc) (''sourceReference.fixtureId '' @ srfFixtureId (tkSource tc) @ '' is not an acceptance fixture''))
      | Some offered \<Rightarrow>
          and_then (check (ciExpectedFixtureId (tkInput tc) = srfFixtureId (tkSource tc))
            (case_error (tkId tc) ''controlledInput.expectedOutputFixtureId must match sourceReference.fixtureId for W0 parity fixtures'')) (\<lambda>_.
          (case find (\<lambda>c. c \<notin> set offered) (tkSubset tc) of
             Some c \<Rightarrow> Inl (case_error (tkId tc) (''supportedProgramShape contains '' @ c @ '', which is not declared by fixture '' @
               srfFixtureId (tkSource tc)))
           | None \<Rightarrow> Inr ()))))"

definition add_default :: "trust_case \<Rightarrow> (string, string list) js_map \<Rightarrow> (string, string list) js_map" where
  "add_default tc m =
     (if tkDefault tc then js_set (tkProgramId tc) (or_default (js_get m (tkProgramId tc)) [] @ [tkId tc]) m
      else if js_get m (tkProgramId tc) = None then js_set (tkProgramId tc) [] m else m)"

fun check_members ::
  "(string \<times> string list) list \<Rightarrow> string list \<Rightarrow> (string, string list) js_map \<Rightarrow> trust_case list \<Rightarrow>
   string + (string, string list) js_map" where
  "check_members fixtures seen m [] = Inr m"
| "check_members fixtures seen m (tc # tcs) =
     and_then (check_member fixtures seen tc) (\<lambda>_. check_members fixtures (tkId tc # seen) (add_default tc m) tcs)"

definition check_defaults :: "(string, string list) js_map \<Rightarrow> string + unit" where
  "check_defaults m =
     (case find (\<lambda>(program, ids). length ids \<noteq> 1) m of
        Some (program, _) \<Rightarrow> Inl (''trust-case catalog must declare exactly one default trust case for program '' @ program)
      | None \<Rightarrow> Inr ())"

definition loadTrustCaseCatalog ::
  "(string \<Rightarrow> string) \<Rightarrow> (json \<Rightarrow> string) \<Rightarrow> (string \<times> string list) list \<Rightarrow> json \<Rightarrow> string + trust_case_catalog" where
  "loadTrustCaseCatalog quote sha256Json fixtures parsed =
     (case as_object parsed of
        None \<Rightarrow> Inl ''trust-case catalog must be a JSON object''
      | Some fs \<Rightarrow>
          and_then (assertNoExtraKeys quote fs [''schemaVersion'', ''catalogVersion'', ''description'', ''trustCases''] ''trust-case catalog'') (\<lambda>_.
          and_then (check (js_get fs ''schemaVersion'' = Some (JStr ''v0'')) ''trust-case catalog must declare schemaVersion v0'') (\<lambda>_.
          and_then (requireStringMatching (js_get fs ''catalogVersion'') ''catalogVersion'' ''catalog'' SAFE_VERSION_PATTERN) (\<lambda>version.
          (case js_array (js_get fs ''trustCases'') of
             Some (j # js) \<Rightarrow>
               and_then (map_result (parseTrustCase quote) (enumerate 0 (j # js))) (\<lambda>tcs.
               and_then (check_members fixtures [] [] tcs) (\<lambda>defaults.
               and_then (check_defaults defaults) (\<lambda>_.
               let hash = sha256Json (canonicalize parsed)
               in Inr \<lparr>catVersion = version, catHash = hash,
                    catSummaries = map (\<lambda>tc. summarize sha256Json tc version hash) tcs\<rparr>)))
           | _ \<Rightarrow> Inl ''trust-case catalog must declare a non-empty trustCases array'')))))"

section \<open>Looking up\<close>

definition list_cases :: "trust_case_catalog \<Rightarrow> string option \<Rightarrow> trust_case_summary list" where
  "list_cases cat program =
     (case program of
        Some (c # cs) \<Rightarrow> filter (\<lambda>s. smProgramId s = c # cs) (catSummaries cat)
      | _ \<Rightarrow> catSummaries cat)"

text \<open>The map by id keeps the last summary of an id.\<close>

definition get_case :: "trust_case_catalog \<Rightarrow> string \<Rightarrow> trust_case_summary option" where
  "get_case cat cid = find (\<lambda>s. smTrustCaseId s = cid) (rev (catSummaries cat))"

definition default_case :: "trust_case_catalog \<Rightarrow> string \<Rightarrow> trust_case_summary option" where
  "default_case cat program = find (\<lambda>s. smProgramId s = program \<and> smDefault s) (catSummaries cat)"

end
