(* ===== verification/Trust_Case_Facts.thy ===== *)
theory Trust_Case_Facts
  imports Trust_Cases "HOL-Library.Multiset"
begin

text \<open>
  What a trust case catalog promises once it has loaded, and that its hash and the digests of its cases are those
  of the contents of the file and not of the order in which it lists the fields of an object.
\<close>

section \<open>The canonical form\<close>

lemma canonical_entries_map: "canonical_entries js = map canonicalize js"
  by (induction js) simp_all

lemma canonical_fields_map: "canonical_fields fs = map (map_prod id canonicalize) fs"
  by (induction fs) auto

text \<open>The same JSON value up to the order of the fields of its objects.\<close>

inductive reordered :: "json \<Rightarrow> json \<Rightarrow> bool" where
  same: "reordered j j"
| entries: "list_all2 reordered js js' \<Longrightarrow> reordered (JArr js) (JArr js')"
| fields': "js_keys fs = js_keys fs' \<Longrightarrow> list_all2 reordered (map snd fs) (map snd fs') \<Longrightarrow> distinct (js_keys fs) \<Longrightarrow>
     mset fs' = mset gs \<Longrightarrow> reordered (JObj fs) (JObj gs)"

lemma canonical_list: "list_all2 (\<lambda>j j'. reordered j j' \<and> canonicalize j = canonicalize j') js js' \<Longrightarrow>
  map canonicalize js = map canonicalize js'"
  by (induction rule: list_all2_induct) auto

lemma canonicalize_reordered: "reordered j j' \<Longrightarrow> canonicalize j = canonicalize j'"
proof (induction rule: reordered.induct)
  case (entries js js')
  then show ?case by (simp add: canonical_entries_map canonical_list)
next
  case (fields' fs fs' gs)
  have split: "canonical_fields gs = zip (js_keys gs) (map canonicalize (map snd gs))" for gs
    by (induction gs) (auto simp: canonical_fields_map)
  have same: "canonical_fields fs = canonical_fields fs'"
    using fields'.hyps(1) canonical_list [OF fields'.IH] by (simp add: split)
  have "mset (canonical_fields fs') = mset (canonical_fields gs)"
    using fields'.hyps(3) by (simp add: canonical_fields_map)
  then have "mset (filter P (canonical_fields fs')) = mset (filter P (canonical_fields gs))" for P by simp
  moreover have "inj_on fst (set (filter P (canonical_fields fs)))" for P
    using fields'.hyps(2) by (auto simp: canonical_fields_map inj_on_def dest: eq_key_imp_eq_value)
  ultimately have "sort_key fst (filter P (canonical_fields fs)) = sort_key fst (filter P (canonical_fields gs))" for P
    unfolding same by (intro sort_key_inj_key_eq) simp_all
  then show ?case by simp
qed simp

section \<open>Checked catalogs\<close>

lemma check_Inr [simp]: "check ok message = Inr u \<longleftrightarrow> ok"
  by (simp add: check_def)

lemma map_result_set: "map_result f xs = Inr ys \<Longrightarrow> y \<in> set ys \<Longrightarrow> \<exists>x\<in>set xs. f x = Inr y"
  by (auto simp: map_result_Inr list_all2_conv_all_nth in_set_conv_nth intro!: bexI [OF _ nth_mem])

definition safe_case :: "trust_case \<Rightarrow> bool" where
  "safe_case tc \<longleftrightarrow>
     tkProgramId tc \<noteq> [] \<and> TRUST_CASE_ID_PATTERN (tkId tc) \<and> SAFE_VERSION_PATTERN (tkVersion tc) \<and>
     (\<forall>s\<in>set (tkProgramArgs tc). SAFE_RUNTIME_VALUE s \<and> \<not> runtimeValueLooksUnsafe s) \<and>
     (\<forall>(k, v)\<in>set (epVariables (tkProfile tc)). SAFE_PROFILE_VARIABLE_KEY k \<and> SAFE_PROFILE_VARIABLE_VALUE v) \<and>
     tkSubset tc \<noteq> [] \<and> set (tkSubset tc) \<subseteq> set W02_CONSTRUCTS \<and> distinct (tkSubset tc)"

lemma requireStringMatching_Inr: "requireStringMatching v name cid P = Inr s \<Longrightarrow> P s"
  by (auto simp: requireStringMatching_def and_then_Inr)

lemma requireString_Inr: "requireString v name cid = Inr s \<Longrightarrow> s \<noteq> []"
  by (auto simp: requireString_def split: option.splits if_splits)

lemma safe_strings_Inr: "safe_strings v name cid most P = Inr ss \<Longrightarrow> \<forall>s\<in>set ss. P s"
  by (auto simp: safe_strings_def split: option.splits if_splits dest!: map_result_set)

lemma profile_variable_Inr:
  "profile_variable cid entry = Inr (k, v) \<Longrightarrow> SAFE_PROFILE_VARIABLE_KEY k \<and> SAFE_PROFILE_VARIABLE_VALUE v"
  by (auto simp: profile_variable_def and_then_Inr split: option.splits if_splits)

lemma parseEnvironmentProfile_Inr:
  "parseEnvironmentProfile quote raw cid = Inr p \<Longrightarrow>
   \<forall>(k, v)\<in>set (epVariables p). SAFE_PROFILE_VARIABLE_KEY k \<and> SAFE_PROFILE_VARIABLE_VALUE v"
  by (auto simp: parseEnvironmentProfile_def and_then_Inr split: option.splits dest!: map_result_set profile_variable_Inr)

lemma parseRuntime_Inr:
  "parseRuntime quote raw cid = Inr ss \<Longrightarrow> \<forall>s\<in>set ss. SAFE_RUNTIME_VALUE s \<and> \<not> runtimeValueLooksUnsafe s"
  by (auto simp: parseRuntime_def and_then_Inr dest!: safe_strings_Inr)

lemma construct_of_Inr: "construct_of cid j = Inr c \<Longrightarrow> c \<in> set W02_CONSTRUCTS"
  by (auto simp: construct_of_def split: option.splits if_splits)

lemma parseShape_Inr:
  assumes "parseSupportedProgramShape quote raw cid program = Inr cs"
  shows "cs \<noteq> [] \<and> set cs \<subseteq> set W02_CONSTRUCTS \<and> distinct cs"
proof -
  obtain fs where s: "(case js_array (js_get fs ''supportedSubset'') of
        Some (j # js) \<Rightarrow>
          and_then (map_result (construct_of cid) (j # js)) (\<lambda>constructs.
          and_then (check (distinct constructs)
            (case_error cid ''supportedProgramShape.supportedSubset must not contain duplicates'')) (\<lambda>_. Inr constructs))
      | _ \<Rightarrow> Inl (case_error cid ''supportedProgramShape.supportedSubset must be non-empty'')) = Inr cs"
    using assms unfolding parseSupportedProgramShape_def and_then_Inr by blast
  obtain js where "js_array (js_get fs ''supportedSubset'') = Some js"
    using s by (cases "js_array (js_get fs ''supportedSubset'')") auto
  then obtain j js' where "js = j # js'" using s by (cases js) auto
  then have m: "map_result (construct_of cid) (j # js') = Inr cs" and d: "distinct cs"
    using s \<open>js_array _ = _\<close> by (auto simp: and_then_Inr)
  have "set cs \<subseteq> set W02_CONSTRUCTS" using map_result_set [OF m] construct_of_Inr by blast
  moreover have "cs \<noteq> []" using m by (auto simp: and_then_Inr)
  ultimately show ?thesis using d by blast
qed

lemma parse_case_parts_safe:
  assumes "parse_case_parts quote fs cid version program title description isDefault = Inr tc"
    and "TRUST_CASE_ID_PATTERN cid" and "SAFE_VERSION_PATTERN version" and "program \<noteq> []"
  shows "safe_case tc"
proof -
  obtain args profile constructs where
    "parseRuntime quote (js_get fs ''runtime'') cid = Inr args"
    "parseEnvironmentProfile quote (js_get fs ''environmentProfile'') cid = Inr profile"
    "parseSupportedProgramShape quote (js_get fs ''supportedProgramShape'') cid program = Inr constructs"
    "tkId tc = cid" "tkProgramId tc = program" "tkVersion tc = version" "tkProgramArgs tc = args" "tkProfile tc = profile" "tkSubset tc = constructs"
    using assms(1) unfolding parse_case_parts_def by (auto simp: and_then_Inr)
  then show ?thesis
    using assms(2-4) parseRuntime_Inr parseEnvironmentProfile_Inr parseShape_Inr unfolding safe_case_def by metis
qed

lemma parseTrustCase_safe:
  assumes "parseTrustCase quote entry = Inr tc"
  shows "safe_case tc"
proof -
  obtain fs where fs: "as_object (snd entry) = Some fs"
    using assms by (cases "as_object (snd entry)") (auto simp: parseTrustCase_def Let_def)
  obtain cid version program title description isDefault where
    "TRUST_CASE_ID_PATTERN cid" "SAFE_VERSION_PATTERN version" "program \<noteq> []"
    "parse_case_parts quote fs cid version program title description isDefault = Inr tc"
    using assms fs by (cases "asBoolean (js_get fs ''defaultForProgram'')")
      (auto simp: parseTrustCase_def Let_def and_then_Inr dest!: requireStringMatching_Inr requireString_Inr)
  then show ?thesis by (rule parse_case_parts_safe [rotated])
qed

lemma add_default_get:
  "js_get (add_default tc m) p =
     (if tkProgramId tc = p then Some (or_default (js_get m p) [] @ (if tkDefault tc then [tkId tc] else [])) else js_get m p)"
  by (auto simp: add_default_def split: option.splits)

definition defaults_of :: "string \<Rightarrow> trust_case list \<Rightarrow> trust_case list" where
  "defaults_of p tcs = filter (\<lambda>tc. tkProgramId tc = p \<and> tkDefault tc) tcs"

lemma check_members_Inr:
  assumes "check_members fixtures seen m tcs = Inr m'"
  shows "distinct (map tkId tcs) \<and> set (map tkId tcs) \<inter> set seen = {} \<and>
    (\<forall>tc\<in>set tcs. \<exists>offered. map_of (rev fixtures) (srfFixtureId (tkSource tc)) = Some offered \<and>
       set (tkSubset tc) \<subseteq> set offered \<and> ciExpectedFixtureId (tkInput tc) = srfFixtureId (tkSource tc)) \<and>
    (\<forall>p. js_get m' p = (if p \<in> tkProgramId ` set tcs \<or> js_get m p \<noteq> None
       then Some (or_default (js_get m p) [] @ map tkId (defaults_of p tcs)) else None))"
  using assms
proof (induction fixtures seen m tcs rule: check_members.induct)
  case (1 fixtures seen m)
  then show ?case by (auto simp: defaults_of_def split: option.splits)
next
  case (2 fixtures seen m tc tcs)
  then have tc: "check_member fixtures seen tc = Inr ()"
    and rest: "check_members fixtures (tkId tc # seen) (add_default tc m) tcs = Inr m'"
    by (auto simp: and_then_Inr)
  note IH = 2(1) [OF rest]
  have "tkId tc \<notin> set seen \<and> (\<exists>offered. map_of (rev fixtures) (srfFixtureId (tkSource tc)) = Some offered \<and>
      set (tkSubset tc) \<subseteq> set offered \<and> ciExpectedFixtureId (tkInput tc) = srfFixtureId (tkSource tc))"
    using tc by (auto simp: check_member_def and_then_Inr find_None_iff split: option.splits)
  then show ?case using IH by (auto simp: add_default_get defaults_of_def)
qed

section \<open>Loaded catalogs\<close>

lemma loadTrustCaseCatalog_Inr:
  assumes "loadTrustCaseCatalog quote sha256Json fixtures parsed = Inr cat"
  obtains tcs m where "\<forall>tc\<in>set tcs. safe_case tc" and "check_members fixtures [] [] tcs = Inr m" and "check_defaults m = Inr ()"
    and "catHash cat = sha256Json (canonicalize parsed)"
    and "catSummaries cat = map (\<lambda>tc. summarize sha256Json tc (catVersion cat) (catHash cat)) tcs"
proof -
  obtain fs where fs: "as_object parsed = Some fs"
    using assms by (cases "as_object parsed") (auto simp: loadTrustCaseCatalog_def)
  obtain js where js: "js_array (js_get fs ''trustCases'') = Some js"
    using assms fs by (cases "js_array (js_get fs ''trustCases'')") (auto simp: loadTrustCaseCatalog_def and_then_Inr)
  obtain j js' where "js = j # js'"
    using assms fs js by (cases js) (auto simp: loadTrustCaseCatalog_def and_then_Inr)
  then obtain tcs m where cases: "map_result (parseTrustCase quote) (enumerate 0 (j # js')) = Inr tcs"
    and rest: "check_members fixtures [] [] tcs = Inr m" "check_defaults m = Inr ()"
      "catHash cat = sha256Json (canonicalize parsed)"
      "catSummaries cat = map (\<lambda>tc. summarize sha256Json tc (catVersion cat) (catHash cat)) tcs"
    using assms fs js unfolding loadTrustCaseCatalog_def
    by (auto simp: Let_def and_then_Inr simp del: map_result.simps enumerate_simps)
  have "\<forall>tc\<in>set tcs. safe_case tc" using map_result_set [OF cases] parseTrustCase_safe by blast
  then show ?thesis using that rest by blast
qed

lemma one_default:
  assumes "check_members fixtures [] [] tcs = Inr m" and "check_defaults m = Inr ()" and "tc \<in> set tcs"
  shows "\<exists>d. defaults_of (tkProgramId tc) tcs = [d]"
proof -
  let ?p = "tkProgramId tc"
  have "js_get m ?p = Some (map tkId (defaults_of ?p tcs))"
    using check_members_Inr [OF assms(1)] assms(3) by auto
  then have "(?p, map tkId (defaults_of ?p tcs)) \<in> set m" by (rule map_of_SomeD)
  moreover have "\<forall>(p, ids)\<in>set m. length ids = 1"
    using assms(2) by (auto simp: check_defaults_def find_None_iff split: option.splits)
  ultimately have "length (defaults_of ?p tcs) = 1" by fastforce
  then show ?thesis by (cases "defaults_of ?p tcs") auto
qed

lemma summarize_simps [simp]:
  "smTrustCaseId (summarize h tc v c) = tkId tc" "smProgramId (summarize h tc v c) = tkProgramId tc"
  "smDefault (summarize h tc v c) = tkDefault tc" "smSubset (summarize h tc v c) = tkSubset tc"
  "smVersion (summarize h tc v c) = tkVersion tc" "smFixtureId (summarize h tc v c) = srfFixtureId (tkSource tc)"
  "smCatalogHash (summarize h tc v c) = c" "smCatalogVersion (summarize h tc v c) = v"
  by (simp_all add: summarize_def)

lemma find_filter: "find P xs = (case filter P xs of [] \<Rightarrow> None | x # _ \<Rightarrow> Some x)"
  by (induction xs) auto

lemma find_distinct:
  assumes "distinct (map f xs)" and "x \<in> set xs"
  shows "find (\<lambda>y. f y = f x) (rev xs) = Some x"
proof -
  have "\<exists>y. find (\<lambda>y. f y = f x) (rev xs) = Some y" using assms(2) by (auto simp: find_None_iff simp flip: not_None_eq)
  then obtain y where y: "find (\<lambda>y. f y = f x) (rev xs) = Some y" ..
  then have "y \<in> set xs" "f y = f x" by (auto simp: find_Some_iff) (metis length_rev nth_mem set_rev)
  then show ?thesis using y assms by (auto simp: distinct_map inj_on_def)
qed

lemma list_cases_default:
  assumes "catSummaries cat = map (\<lambda>tc. summarize h tc v c) tcs" and "p \<noteq> []"
  shows "filter smDefault (list_cases cat (Some p)) = map (\<lambda>tc. summarize h tc v c) (defaults_of p tcs)"
    and "default_case cat p = (case defaults_of p tcs of [] \<Rightarrow> None | tc # _ \<Rightarrow> Some (summarize h tc v c))"
proof -
  have both: "filter (\<lambda>s. smProgramId s = p \<and> smDefault s) (catSummaries cat) = map (\<lambda>tc. summarize h tc v c) (defaults_of p tcs)"
    by (simp add: assms(1) filter_map comp_def defaults_of_def)
  then show "default_case cat p = (case defaults_of p tcs of [] \<Rightarrow> None | tc # _ \<Rightarrow> Some (summarize h tc v c))"
    by (simp add: default_case_def find_filter split: list.splits)
  show "filter smDefault (list_cases cat (Some p)) = map (\<lambda>tc. summarize h tc v c) (defaults_of p tcs)"
    using both assms(2) by (cases p) (simp_all add: list_cases_def conj_commute)
qed

text \<open>
  C36: A catalog that loads can be trusted by the routes: the ids of its summaries are distinct and safe and each
  is found under its id, its program has exactly one default, which is the one that the look-up of the default
  returns, and its constructs are all offered by an acceptance fixture.
\<close>

theorem loaded_catalog_is_sound:
  assumes "loadTrustCaseCatalog quote sha256Json fixtures parsed = Inr cat" and "s \<in> set (catSummaries cat)"
  shows "distinct (map smTrustCaseId (catSummaries cat)) \<and> get_case cat (smTrustCaseId s) = Some s \<and>
    (\<exists>d. filter smDefault (list_cases cat (Some (smProgramId s))) = [d] \<and> default_case cat (smProgramId s) = Some d) \<and>
    TRUST_CASE_ID_PATTERN (smTrustCaseId s) \<and> distinct (smSubset s) \<and>
    (\<exists>offered. map_of (rev fixtures) (smFixtureId s) = Some offered \<and> set (smSubset s) \<subseteq> set offered)"
proof -
  obtain tcs m where safe: "\<forall>tc\<in>set tcs. safe_case tc" and members: "check_members fixtures [] [] tcs = Inr m"
    and "check_defaults m = Inr ()"
    and sums: "catSummaries cat = map (\<lambda>tc. summarize sha256Json tc (catVersion cat) (catHash cat)) tcs"
    using loadTrustCaseCatalog_Inr [OF assms(1)] by metis
  then obtain tc d where tc: "tc \<in> set tcs" "s = summarize sha256Json tc (catVersion cat) (catHash cat)"
    and d: "defaults_of (tkProgramId tc) tcs = [d]"
    using assms(2) one_default [OF members] by auto metis
  have ids: "map smTrustCaseId (catSummaries cat) = map tkId tcs" by (simp add: sums)
  then have unique: "distinct (map smTrustCaseId (catSummaries cat))" using check_members_Inr [OF members] by simp
  note found = find_distinct [OF unique assms(2), folded get_case_def]
  show ?thesis
    using unique found safe tc list_cases_default [OF sums, of "tkProgramId tc"] d check_members_Inr [OF members]
    by (auto simp: safe_case_def)
qed

text \<open>
  The catalog does not depend on how its file is laid out: two files that differ in the order of the fields of
  their objects give the same canonical form, hence the same catalog hash.
\<close>

lemma catalog_hash_ignores_field_order:
  assumes "reordered parsed parsed'" and "loadTrustCaseCatalog quote sha256Json fixtures parsed = Inr cat"
    and "loadTrustCaseCatalog quote sha256Json fixtures parsed' = Inr cat'"
  shows "catHash cat = catHash cat'"
  using assms canonicalize_reordered [OF assms(1)] by (metis loadTrustCaseCatalog_Inr)

definition demo_case :: "string \<Rightarrow> bool \<Rightarrow> json" where
  "demo_case cid chosen =
     JObj [(''trustCaseId'', JStr cid), (''version'', JStr ''v1''), (''programId'', JStr ''BATCH01''), (''title'', JStr ''t''),
       (''description'', JStr ''d''), (''defaultForProgram'', JBool chosen),
       (''sourceReference'', JObj [(''fixtureId'', JStr ''FX-1''), (''mode'', JStr ''reference-fixture'')]),
       (''controlledInput'', JObj [(''stdin'', JNull), (''dataSetIds'', JArr []), (''expectedOutputFixtureId'', JStr ''FX-1'')]),
       (''runtime'', JObj [(''programArgs'', JArr [])]),
       (''environmentProfile'', JObj [(''profileId'', JStr ''reference-fixture-v1''), (''description'', JStr ''p''),
          (''variables'', JObj [(''TZ'', JStr ''UTC'')])]),
       (''comparison'', JObj [(''strategy'', JStr ''deterministic-output''), (''policyVersion'', JStr ''deterministic-output-v1'')]),
       (''supportedProgramShape'', JObj [(''language'', JStr ''cobol''), (''programId'', JStr ''BATCH01''),
          (''supportedSubset'', JArr [JStr ''ADD'', JStr ''MOVE''])]),
       (''evidenceIdentity'', JObj [(''kind'', JStr ''trust-case''), (''artifactName'', JStr ''a.json'')])]"

definition demo_catalog :: json where
  "demo_catalog = JObj [(''schemaVersion'', JStr ''v0''), (''catalogVersion'', JStr ''v1''), (''description'', JStr ''d''),
     (''trustCases'', JArr [demo_case ''TC-1'' False, demo_case ''TC-2'' True])]"

definition demo_loaded :: "string + trust_case_catalog" where
  "demo_loaded = loadTrustCaseCatalog id (\<lambda>_. ''h'') [(''FX-1'', [''ADD'', ''MOVE'', ''IF''])] demo_catalog"

lemma demo_loaded_ids: "map_sum id (map smTrustCaseId \<circ> catSummaries) demo_loaded = Inr [''TC-1'', ''TC-2'']"
  by code_simp

lemma map_sum_Inr: "map_sum id f x = Inr y \<Longrightarrow> \<exists>c. x = Inr c \<and> f c = y"
  by (cases x) auto

lemma demo_loaded_Inr: "\<exists>cat. demo_loaded = Inr cat \<and> (\<exists>s\<in>set (catSummaries cat). smTrustCaseId s = ''TC-1'')"
proof -
  obtain cat where "demo_loaded = Inr cat" and "(map smTrustCaseId \<circ> catSummaries) cat = [''TC-1'', ''TC-2'']"
    using map_sum_Inr [OF demo_loaded_ids] by (elim exE conjE) (rule that)
  moreover from this(2) have ids: "map smTrustCaseId (catSummaries cat) = [''TC-1'', ''TC-2'']" unfolding o_apply .
  ultimately have "''TC-1'' \<in> smTrustCaseId ` set (catSummaries cat)" by (metis list.set_intros(1) set_map)
  then obtain s where "smTrustCaseId s = ''TC-1''" and "s \<in> set (catSummaries cat)" by (metis imageE)
  with \<open>demo_loaded = Inr cat\<close> show ?thesis by blast
qed

theorem loaded_catalog_is_sound_witness:
  "\<exists>cat s. demo_loaded = Inr cat \<and> smTrustCaseId s = ''TC-1'' \<and> get_case cat ''TC-1'' = Some s \<and>
     (\<exists>d. default_case cat (smProgramId s) = Some d)"
proof -
  obtain cat s where "demo_loaded = Inr cat" "s \<in> set (catSummaries cat)" "smTrustCaseId s = ''TC-1''"
    using demo_loaded_Inr by blast
  then show ?thesis using loaded_catalog_is_sound [of id "\<lambda>_. ''h''" "[(''FX-1'', [''ADD'', ''MOVE'', ''IF''])]" demo_catalog cat s]
    by (metis demo_loaded_def)
qed

end
