(* ===== verification/Bff_Start_Routes.thy ===== *)
theory Bff_Start_Routes
  imports Bff_Model_Gateway Bff_Explain_Route Bff_Get_Routes Trust_Case_Facts
begin

text \<open>
  The routes of \<open>server.ts\<close> that start a run (\<open>/transform\<close>, \<open>/generate\<close>, \<open>/runs\<close>) and the bodies that
  \<open>upstream.ts\<close> sends to the orchestrator.  A request is served in two steps, up to the call of the
  orchestrator and after its answer; other requests run in between.  SHA-256, the samples, the catalog and
  the answers of the orchestrator and the model gateway are arguments.
\<close>

section \<open>The guard\<close>

definition rejectUnauthenticatedStudioJsonRequest ::
  "web_api \<Rightarrow> session_config \<Rightarrow> int \<Rightarrow> bff_request \<Rightarrow> sessions \<Rightarrow> (bff_response + session_record) \<times> sessions" where
  "rejectUnauthenticatedStudioJsonRequest U cfg now req m =
     (if \<not> isAllowedBrowserOrigin U req (studioCorsOrigins cfg) then (Inl (error_response 403 ''origin not allowed''), m)
      else if rejectNonJsonContentType req
      then (Inl (error_response 415 ''request must use Content-Type: application/json''), m)
      else case resolveEditorAssistSession cfg now req m of
        (Inl (message, cookie), m') \<Rightarrow> (Inl ((error_response 401 message)\<lparr>rsSetCookie := cookie\<rparr>), m')
      | (Inr r, m') \<Rightarrow> (Inr r, m'))"

text \<open>After the guard every response of the route varies with the cookie.\<close>

definition vary_cookie :: "bff_response \<Rightarrow> bff_response" where
  "vary_cookie response = response\<lparr>rsVaryCookie := True\<rparr>"

text \<open>A JSON body that is an object or an array.\<close>

definition object_body :: "nat \<Rightarrow> body_read \<Rightarrow> bff_response + json" where
  "object_body tooLarge body =
     (case body of
        BodyTooLarge \<Rightarrow> Inl (error_response tooLarge ''request body too large'')
      | BodyInvalid message \<Rightarrow> Inl (error_response 400 message)
      | BodyJson raw \<Rightarrow> if is_js_object (Some raw) then Inr raw else Inl (error_response 400 ''request body must be a JSON object''))"

section \<open>What is asked of the orchestrator\<close>

record transform_input =
  tiProgramId :: string
  tiSourceText :: string
  tiSourceName :: "string option"
  tiOptions :: "json option"
  tiExpectedOutput :: "string option"
  tiOracleInput :: "string option"
  tiUseAgent :: bool
  tiExecutionMode :: "string option"
  tiTrustCaseId :: "string option"
  tiGenerateOnly :: "bool option"

definition nonempty_option :: "string option \<Rightarrow> json option" where
  "nonempty_option s = nonempty_field (or_default s [])"

text \<open>The body of the orchestrator's start call; the requester and the target language are always given.\<close>

definition startTransformRun :: "(string \<Rightarrow> string) \<Rightarrow> transform_input \<Rightarrow> json" where
  "startTransformRun digest input =
     js_object
       [(''requester'', Some (JStr ''c2c-ui'')),
        (''inputRef'', Some (js_object
          [(''kind'', Some (JStr ''source'')), (''uri'', Some (JStr (''urn:c2c/ui-source/'' @ digest (tiSourceText input)))),
           (''sourceText'', Some (JStr (tiSourceText input))), (''sha256'', Some (JStr (digest (tiSourceText input)))),
           (''byteSize'', Some (js_num (of_nat (length (utf8 (tiSourceText input)))))),
           (''mimeType'', Some (JStr ''text/x-cobol'')), (''expectedOutput'', nonempty_option (tiExpectedOutput input)),
           (''oracleInput'', nonempty_option (tiOracleInput input))])),
        (''evidenceRefs'', Some (JArr [])), (''modelPrompt'', Some (JStr [])), (''programId'', Some (JStr (tiProgramId input))),
        (''targetLanguage'', Some (JStr ''java'')), (''sourceName'', nonempty_option (tiSourceName input)),
        (''options'', tiOptions input), (''useTransformationAgent'', Some (JBool (tiUseAgent input))),
        (''executionMode'', nonempty_option (tiExecutionMode input)), (''trustCaseId'', nonempty_option (tiTrustCaseId input)),
        (''generateOnly'', map_option JBool (tiGenerateOnly input))]"

record run_input =
  riProgramId :: string
  riSourcePath :: string
  riRequester :: "string option"
  riExecutionMode :: string
  riTrustCaseId :: "string option"
  riFixtureId :: "string option"
  riSourceMode :: "string option"

definition startRun :: "run_input \<Rightarrow> json" where
  "startRun input =
     js_object
       [(''requester'', Some (JStr (or_default (riRequester input) ''c2c-bff''))),
        (''inputRef'', Some (js_object [(''uri'', Some (JStr (''urn:c2c-bff/sample/'' @ riProgramId input)))])),
        (''evidenceRefs'', Some (JArr [])), (''modelPrompt'', Some (JStr [])), (''programId'', Some (JStr (riProgramId input))),
        (''cobolSourcePath'', Some (JStr (riSourcePath input))), (''executionMode'', Some (JStr (riExecutionMode input))),
        (''trustCaseId'', nonempty_option (riTrustCaseId input)),
        (''sourceReferenceFixtureId'', nonempty_option (riFixtureId input)),
        (''sourceReferenceMode'', nonempty_option (riSourceMode input))]"

section \<open>Transform and generate requests\<close>

datatype start_route = TransformRoute | GenerateRoute

definition blank :: "json option \<Rightarrow> bool" where
  "blank v \<longleftrightarrow> (case as_string v of Some s \<Rightarrow> js_trim s = [] | None \<Rightarrow> True)"

definition present :: "(json option \<Rightarrow> bool) \<Rightarrow> json option \<Rightarrow> bool" where
  "present P v \<longleftrightarrow> v \<noteq> None \<and> P v"

definition first_failure :: "(bool \<times> string) list \<Rightarrow> string option" where
  "first_failure checks = map_option snd (find fst checks)"

definition dquote :: string where "dquote = [CHR 0x22]"

text \<open>The first field that is not as it must be; the fields of \<open>/generate\<close> are those of \<open>/transform\<close> but one.\<close>

definition start_field_error :: "(string \<Rightarrow> string) \<Rightarrow> start_route \<Rightarrow> json \<Rightarrow> string option" where
  "start_field_error quote route raw =
     (let f = js_field (Some raw); not_string = (\<lambda>v. as_string v = None); target = f ''targetLanguage''
      in first_failure
        [(blank (f ''sourceText''), ''sourceText must be a non-empty string''),
         (present blank (f ''programId''), ''programId must be a non-empty string when provided''),
         (present blank (f ''sourceName''), ''sourceName must be a non-empty string when provided''),
         (present (\<lambda>v. asRecord v = None) (f ''options''), ''options must be an object when provided''),
         (present blank target, ''targetLanguage must be a non-empty string when provided''),
         (present (\<lambda>v. to_lower_case (js_trim (asString v)) \<noteq> ''java'') target,
          ''targetLanguage '' @ quote (asString target) @ '' is not supported; only '' @ dquote @ ''java'' @ dquote @
            '' is available in W0.2''),
         (present not_string (f ''expectedOutput''), ''expectedOutput must be a string when provided''),
         (present not_string (f ''oracleInput''), ''oracleInput must be a string when provided''),
         (route = TransformRoute \<and> present blank (f ''trustCaseId''), ''trustCaseId must be a non-empty string when provided''),
         (present (\<lambda>v. asBoolean v = None) (f ''useTransformationAgent''),
          ''useTransformationAgent must be a boolean when provided'')])"

definition FORBIDDEN_TRUST_CASE_TRANSFORM_FIELDS :: "string list" where
  "FORBIDDEN_TRUST_CASE_TRANSFORM_FIELDS =
     [''sourceReferenceFixtureId'', ''sourceReferenceMode'', ''runtime'', ''runtimeArgs'', ''programArgs'', ''environment'',
      ''environmentProfile'', ''comparison'', ''comparisonStrategy'', ''trustCase'', ''trustCaseDefinition'',
      ''catalogVersion'', ''catalogHash'', ''configurationDigest'', ''evidenceIdentity'']"

definition forbiddenTrustCaseTransformFields :: "json \<Rightarrow> string list" where
  "forbiddenTrustCaseTransformFields raw =
     filter (\<lambda>k. js_field (Some raw) k \<noteq> None) FORBIDDEN_TRUST_CASE_TRANSFORM_FIELDS"

text \<open>The trust case of the catalog that the request names; loading the catalog may fail.\<close>

definition select_trust_case ::
  "(string \<Rightarrow> string) \<Rightarrow> string + trust_case_catalog \<Rightarrow> string \<Rightarrow> json \<Rightarrow> bff_response + trust_case_summary option" where
  "select_trust_case quote catalog program raw =
     (case as_string (js_field (Some raw) ''trustCaseId'') of
        None \<Rightarrow> Inr None
      | Some named \<Rightarrow>
          (let cid = js_trim named;
               forbidden = forbiddenTrustCaseTransformFields raw @
                 filter (\<lambda>k. js_field (Some raw) k \<noteq> None) [''options'', ''expectedOutput'', ''oracleInput'']
           in if forbidden \<noteq> [] then Inl (error_response 400
                (''trustCaseId submissions may not include browser-authored runtime internals: '' @ js_join '', '' forbidden))
              else case catalog of
                Inl message \<Rightarrow> Inl (jsonResponse 500 (js_object
                  [(''error'', Some (JStr ''trust-case catalog unavailable'')), (''message'', Some (JStr message))]))
              | Inr cat \<Rightarrow>
                  (case get_case cat cid of
                     None \<Rightarrow> Inl (error_response 400 (''unknown trustCaseId '' @ quote cid))
                   | Some selected \<Rightarrow>
                       (if smProgramId selected \<noteq> program
                        then Inl (error_response 400 (''trustCaseId '' @ quote cid @ '' does not apply to programId '' @ quote program))
                        else Inr (Some selected)))))"

definition start_input :: "(string \<Rightarrow> string) \<Rightarrow> start_route \<Rightarrow> json \<Rightarrow> trust_case_summary option \<Rightarrow> transform_input" where
  "start_input digest route raw selected =
     (let f = js_field (Some raw); free = (\<lambda>v. if selected = None then v else None)
      in \<lparr>tiProgramId = resolveTransformProgramId digest (asString (f ''sourceText'')) (as_string (f ''programId'')),
          tiSourceText = asString (f ''sourceText''), tiSourceName = as_string (f ''sourceName''),
          tiOptions = (if selected = None then f ''options'' else None), tiExpectedOutput = free (as_string (f ''expectedOutput'')),
          tiOracleInput = free (as_string (f ''oracleInput'')),
          tiUseAgent = or_default (asBoolean (f ''useTransformationAgent'')) False,
          tiExecutionMode = (if selected = None then None else Some ''parity''),
          tiTrustCaseId = map_option smTrustCaseId selected,
          tiGenerateOnly = (if route = GenerateRoute then Some True else None)\<rparr>)"

record start_config =
  stSession :: session_config
  stOrchestrator :: bool
  stGateway :: bool
  stFixtures :: bool
  stSamples :: "string \<Rightarrow> sample_detail option"
  stCatalog :: "string + trust_case_catalog"

record pending_start =
  psInput :: transform_input
  psCase :: "trust_case_summary option"

fun route_path :: "start_route \<Rightarrow> string" where
  "route_path TransformRoute = ''transform''"
| "route_path GenerateRoute = ''generate''"

text \<open>The checks of a body that has passed the guard.\<close>

definition prepare_start ::
  "(string \<Rightarrow> string) \<Rightarrow> (string \<Rightarrow> string) \<Rightarrow> start_config \<Rightarrow> start_route \<Rightarrow> json \<Rightarrow> bff_response + pending_start" where
  "prepare_start quote digest cfg route raw =
     (case start_field_error quote route raw of
        Some message \<Rightarrow> Inl (error_response 400 message)
      | None \<Rightarrow>
          (if \<not> stOrchestrator cfg
           then Inl (error_response 503 (''orchestrator URL is required for /api/v0/'' @ route_path route))
           else
             let program = tiProgramId (start_input digest route raw None)
             in if route = GenerateRoute then Inr \<lparr>psInput = start_input digest route raw None, psCase = None\<rparr>
                else and_then (select_trust_case quote (stCatalog cfg) program raw) (\<lambda>selected.
                  case stSamples cfg program of
                    Some sample \<Rightarrow>
                      (if supportedInProductMode sample
                       then Inr \<lparr>psInput = start_input digest route raw selected, psCase = selected\<rparr>
                       else Inl (error_response 400 (''reference program '' @ program @
                         '' is not supportedInProductMode; refusing to dispatch through /api/v0/transform'')))
                  | None \<Rightarrow> Inr \<lparr>psInput = start_input digest route raw selected, psCase = selected\<rparr>)))"

text \<open>An agent run asks the model gateway first.\<close>

definition check_gateway :: "start_config \<Rightarrow> upstream_answer \<Rightarrow> upstream_answer \<Rightarrow> pending_start \<Rightarrow> bff_response + pending_start" where
  "check_gateway cfg health capabilities p =
     (if \<not> tiUseAgent (psInput p) then Inr p
      else case verifyTransformationModelGatewayAvailable (stGateway cfg) health capabilities of
        Some message \<Rightarrow> Inl (jsonResponse 503 (js_object
          [(''error'', Some (JStr message)), (''failureCode'', Some (JStr ''model_gateway_unavailable''))]))
      | None \<Rightarrow> Inr p)"

definition admit_start ::
  "web_api \<Rightarrow> (string \<Rightarrow> string) \<Rightarrow> start_config \<Rightarrow> start_route \<Rightarrow> int \<Rightarrow> upstream_answer \<Rightarrow> upstream_answer \<Rightarrow> bff_request \<Rightarrow>
   sessions \<Rightarrow> (bff_response + pending_start) \<times> sessions" where
  "admit_start U digest cfg route now health capabilities req m =
     (case rejectUnauthenticatedStudioJsonRequest U (stSession cfg) now req m of
        (Inl response, m') \<Rightarrow> (Inl response, m')
      | (Inr _, m') \<Rightarrow>
          (case and_then (object_body 413 (rqBody req)) (\<lambda>raw.
                and_then (prepare_start (jsonQuote U) digest cfg route raw) (check_gateway cfg health capabilities)) of
             Inl response \<Rightarrow> (Inl (vary_cookie response), m')
           | Inr p \<Rightarrow> (Inr p, m')))"

section \<open>After the answer of the orchestrator\<close>

record start_clock =
  skFresh :: string
  skCreated :: string
  skUpdated :: string

definition no_trust_case :: trust_case_fields where
  "no_trust_case = \<lparr>tcId = None, tcVersion = None, tcCatalogVersion = None, tcCatalogHash = None, tcConfigurationDigest = None,
     tcEnvironmentProfile = None, tcComparisonPolicy = None, tcSourceFixture = None, tcSourceMode = None\<rparr>"

definition started :: "string option \<Rightarrow> trust_case_fields \<Rightarrow> initial_run" where
  "started mode tc =
     \<lparr>inExecutionMode = mode, inTrustCase = tc, inStatus = Some StatusStarting,
      inMessage = Some ''run accepted by orchestrator'', inPolicyDecision = None, inEvidenceRefs = None, inTrustSummary = None\<rparr>"

definition selected_identity :: "trust_case_summary option \<Rightarrow> trust_case_fields" where
  "selected_identity selected =
     (case selected of None \<Rightarrow> no_trust_case
      | Some s \<Rightarrow> \<lparr>tcId = Some (smTrustCaseId s), tcVersion = Some (smVersion s), tcCatalogVersion = Some (smCatalogVersion s),
          tcCatalogHash = Some (smCatalogHash s), tcConfigurationDigest = Some (smDigest s),
          tcEnvironmentProfile = Some (smProfileId s), tcComparisonPolicy = Some ''deterministic-output-v1'',
          tcSourceFixture = None, tcSourceMode = None\<rparr>)"

text \<open>A live run for an accepted request, with what the orchestrator already reports of it.\<close>

definition store_started ::
  "start_clock \<Rightarrow> sample_detail \<Rightarrow> initial_run \<Rightarrow> json option \<Rightarrow> run_table \<Rightarrow> stored_run \<times> run_table" where
  "store_started clock sample initial body runs =
     (let (stored, runs1) = createRun (skFresh clock) (skCreated clock) sample LiveRun (extractLiveRunId body) initial runs
      in applyLiveRunPayload (skUpdated clock) stored body runs1)"

definition failure_response :: "mapped_failure \<Rightarrow> bff_response" where
  "failure_response failure =
     jsonResponse 502 (js_object [(''error'', map_option JStr (mfMessage failure)), (''failureCode'', code_json (mfCode failure))])"

text \<open>The status that the refusal names: none when it is 0.\<close>

definition status_note :: "string \<Rightarrow> upstream_answer \<Rightarrow> string" where
  "status_note before answer =
     (case answer of Upstream status _ \<Rightarrow> if status = 0 then [] else '' ('' @ before @ int_string status @ '')''
      | _ \<Rightarrow> '' ('' @ before @ ''502)'')"

fun mark_route :: "start_route \<Rightarrow> json \<Rightarrow> json" where
  "mark_route TransformRoute body = body"
| "mark_route GenerateRoute body = spread (Some body) [(''runMode'', Some (JStr ''generate''))]"

definition finish_start ::
  "start_clock \<Rightarrow> start_route \<Rightarrow> upstream_answer \<Rightarrow> pending_start \<Rightarrow> run_table \<Rightarrow> bff_response \<times> run_table" where
  "finish_start clock route answer p runs =
     (let input = psInput p;
          sample = createSourceTextSample (tiProgramId input) (tiSourceText input) (tiSourceName input);
          initial = started (if psCase p = None then None else Some ''parity'') (selected_identity (psCase p))
      in case answered_body answer of
           Some body \<Rightarrow>
             (let (synced, runs') = store_started clock sample initial body runs
              in (vary_cookie (jsonResponse 201 (mark_route route (transformResponse synced (extractTrustSummary body)))), runs'))
         | None \<Rightarrow>
             (case answer of
                UpstreamThrew message \<Rightarrow>
                  (vary_cookie (failure_response (mapUpstreamUnavailable (Some (sanitizeUpstreamMessage
                     (Some (JStr (or_default message []))) ''orchestrator request failed'')))), runs)
              | _ \<Rightarrow>
                  (vary_cookie (failure_response (mapUpstreamUnavailable (Some
                     (''orchestrator rejected '' @ route_path route @ '' request'' @ status_note ''status '' answer)))), runs)))"

text \<open>The two handlers, which repeat each other but for the trust case, the samples and the mark.\<close>

definition admit_transform ::
  "web_api \<Rightarrow> (string \<Rightarrow> string) \<Rightarrow> start_config \<Rightarrow> int \<Rightarrow> upstream_answer \<Rightarrow> upstream_answer \<Rightarrow> bff_request \<Rightarrow>
   sessions \<Rightarrow> (bff_response + pending_start) \<times> sessions" where
  "admit_transform U digest cfg = admit_start U digest cfg TransformRoute"

definition admit_generate ::
  "web_api \<Rightarrow> (string \<Rightarrow> string) \<Rightarrow> start_config \<Rightarrow> int \<Rightarrow> upstream_answer \<Rightarrow> upstream_answer \<Rightarrow> bff_request \<Rightarrow>
   sessions \<Rightarrow> (bff_response + pending_start) \<times> sessions" where
  "admit_generate U digest cfg = admit_start U digest cfg GenerateRoute"

definition finish_transform ::
  "start_clock \<Rightarrow> upstream_answer \<Rightarrow> pending_start \<Rightarrow> run_table \<Rightarrow> bff_response \<times> run_table" where
  "finish_transform clock = finish_start clock TransformRoute"

definition finish_generate ::
  "start_clock \<Rightarrow> upstream_answer \<Rightarrow> pending_start \<Rightarrow> run_table \<Rightarrow> bff_response \<times> run_table" where
  "finish_generate clock = finish_start clock GenerateRoute"

section \<open>Runs of a sample program\<close>

text \<open>A choice field: absent, or one of the given words up to case and spaces.\<close>

definition choice_field :: "string list \<Rightarrow> string \<Rightarrow> json option \<Rightarrow> string + string option" where
  "choice_field words message v =
     (if v = None then Inr None
      else case as_string v of
        None \<Rightarrow> Inl message
      | Some s \<Rightarrow> if to_lower_case (js_trim s) \<in> set words then Inr (Some (to_lower_case (js_trim s))) else Inl message)"

text \<open>An identifier: absent, null, or a non-empty string of bounded length.\<close>

definition identifier_field :: "string \<Rightarrow> json option \<Rightarrow> string + string option" where
  "identifier_field name v =
     (case as_string v of
        Some s \<Rightarrow>
          (if js_trim s = [] then Inl (name @ '' must be a non-empty string'')
           else if PARITY_IDENTIFIER_MAX_CHARS < length (js_trim s)
           then Inl (name @ '' exceeds maximum length of '' @ nat_digits PARITY_IDENTIFIER_MAX_CHARS @ '' characters'')
           else Inr (Some (js_trim s)))
      | None \<Rightarrow> if js_null v then Inr None else Inl (name @ '' must be a non-empty string''))"

record run_request =
  rrProgramId :: string
  rrRequester :: "string option"
  rrParity :: bool
  rrTrustCaseId :: "string option"
  rrFixtureId :: "string option"
  rrSourceMode :: "string option"

definition run_request_of :: "json \<Rightarrow> string + run_request" where
  "run_request_of raw =
     (let f = js_field (Some raw) in
      and_then (check (asString (f ''programId'') \<noteq> []) ''programId is required'') (\<lambda>_.
      and_then (choice_field [''standard'', ''parity''] ''executionMode must be standard or parity'' (f ''executionMode'')) (\<lambda>mode.
      and_then (choice_field SOURCE_REFERENCE_MODES ''sourceReferenceMode must be reference-fixture or native-cobol''
        (f ''sourceReferenceMode'')) (\<lambda>sourceMode.
      and_then (identifier_field ''trustCaseId'' (f ''trustCaseId'')) (\<lambda>cid.
      and_then (check (case cid of None \<Rightarrow> True | Some s \<Rightarrow> TRUST_CASE_ID_PATTERN s)
        ''trustCaseId must match the trust-case identifier pattern'') (\<lambda>_.
      and_then (identifier_field ''sourceReferenceFixtureId'' (f ''sourceReferenceFixtureId'')) (\<lambda>fixture.
      let parity = (mode = Some ''parity'' \<or> cid \<noteq> None \<or> fixture \<noteq> None \<or> sourceMode \<noteq> None)
      in and_then (check (parity \<longrightarrow> fixture \<noteq> None) ''sourceReferenceFixtureId is required for parity runs'') (\<lambda>_.
         Inr \<lparr>rrProgramId = asString (f ''programId''), rrRequester = as_string (f ''requester''), rrParity = parity,
              rrTrustCaseId = cid, rrFixtureId = fixture,
              rrSourceMode = (if parity then Some (or_default sourceMode ''reference-fixture'') else None)\<rparr>))))))))"

definition run_mode_text :: "run_request \<Rightarrow> string" where
  "run_mode_text r = (if rrParity r then ''parity'' else ''standard'')"

definition sample_input :: "run_request \<Rightarrow> sample_detail \<Rightarrow> run_input" where
  "sample_input r sample =
     \<lparr>riProgramId = sampleProgramId sample, riSourcePath = cobolSourcePath sample, riRequester = rrRequester r,
      riExecutionMode = run_mode_text r, riTrustCaseId = rrTrustCaseId r, riFixtureId = rrFixtureId r,
      riSourceMode = rrSourceMode r\<rparr>"

definition admit_run ::
  "web_api \<Rightarrow> start_config \<Rightarrow> int \<Rightarrow> bff_request \<Rightarrow> sessions \<Rightarrow>
   (bff_response + (run_request \<times> sample_detail)) \<times> sessions" where
  "admit_run U cfg now req m =
     (case rejectUnauthenticatedStudioJsonRequest U (stSession cfg) now req m of
        (Inl response, m') \<Rightarrow> (Inl response, m')
      | (Inr _, m') \<Rightarrow>
          (case object_body 400 (rqBody req) of
             Inl response \<Rightarrow> (Inl (vary_cookie response), m')
           | Inr raw \<Rightarrow>
               (case run_request_of raw of
                  Inl message \<Rightarrow> (Inl (vary_cookie (error_response 400 message)), m')
                | Inr r \<Rightarrow>
                    (case stSamples cfg (rrProgramId r) of
                       None \<Rightarrow> (Inl (vary_cookie (error_response 404 (''unknown programId '' @ jsonQuote U (rrProgramId r)))), m')
                     | Some sample \<Rightarrow> (Inr (r, sample), m')))))"

definition run_identity :: "run_request \<Rightarrow> trust_case_fields" where
  "run_identity r = no_trust_case\<lparr>tcId := rrTrustCaseId r, tcSourceFixture := rrFixtureId r, tcSourceMode := rrSourceMode r\<rparr>"

definition PRODUCT_MODE_NOT_READY :: string where
  "PRODUCT_MODE_NOT_READY =
     ''product mode not ready: orchestrator URL is required (set C2C_ORCHESTRATOR_URL). Developer-only diagnostic fixtures can be opted into with C2C_ENABLE_DIAGNOSTIC_FIXTURES=true; the resulting run is labelled diagnostic-fixture and is never a product result.''"

text \<open>A diagnostic fixture is created and completed at once.\<close>

definition fixture_run :: "start_clock \<Rightarrow> sample_detail \<Rightarrow> run_table \<Rightarrow> stored_run \<times> run_table" where
  "fixture_run clock sample runs =
     (let initial = \<lparr>inExecutionMode = None, inTrustCase = no_trust_case, inStatus = None, inMessage = None,
            inPolicyDecision = None, inEvidenceRefs = None, inTrustSummary = None\<rparr>;
          (stored, runs1) = createRun (skFresh clock) (skCreated clock) sample FixtureRun None initial runs;
          (updated, runs2) = updateRun (skUpdated clock) (srRunId stored)
            (\<lambda>r. r\<lparr>srStatus := StatusCompleted,
              srMessage := ''diagnostic fixture run completed (C2C_ENABLE_DIAGNOSTIC_FIXTURES); not a product result'',
              srEvidenceRefs := []\<rparr>) runs1
      in (or_default updated stored, runs2))"

definition finish_run ::
  "start_clock \<Rightarrow> start_config \<Rightarrow> upstream_answer \<Rightarrow> run_request \<times> sample_detail \<Rightarrow> run_table \<Rightarrow> bff_response \<times> run_table" where
  "finish_run clock cfg answer admitted runs =
     (let (r, sample) = admitted in
      if stOrchestrator cfg then
        (case answered_body answer of
           Some body \<Rightarrow>
             (let (synced, runs') = store_started clock sample (started (Some (run_mode_text r)) (run_identity r)) body runs
              in (vary_cookie (jsonResponse 201 (runSummary synced (extractTrustSummary body))), runs'))
         | None \<Rightarrow>
             (case answer of
                UpstreamThrew message \<Rightarrow>
                  (vary_cookie (error_response 502 (sanitizeUpstreamMessage (Some (JStr (or_default message [])))
                     ''orchestrator request failed'')), runs)
              | _ \<Rightarrow> (vary_cookie (error_response 502 (''orchestrator rejected run request'' @ status_note [] answer)), runs)))
      else if rrParity r then
        (vary_cookie (error_response 503 ''orchestrator URL is required for parity runs; the BFF delegates parity workflow authority to the Orchestrator''), runs)
      else if \<not> stFixtures cfg then (vary_cookie (error_response 503 PRODUCT_MODE_NOT_READY), runs)
      else
        (let (completed, runs') = fixture_run clock sample runs
         in (vary_cookie (jsonResponse 201 (runSummary completed None)), runs')))"

end
