(* ===== verification/Bff_Runner_Routes.thy ===== *)
theory Bff_Runner_Routes
  imports Bff_Start_Routes
begin

text \<open>
  The routes of \<open>server.ts\<close> that hand Java files to the build and test runner (\<open>/compile-check\<close>, \<open>/verify\<close>)
  and those of the manual compile repair, which hand them to the orchestrator.  The text that \<open>String\<close> makes of
  a JSON value that is no string is a parameter, and so is the path of a parsed URL.
\<close>

section \<open>Java files of a request\<close>

definition JAVA_EXECUTION_MAX_FILES :: nat where "JAVA_EXECUTION_MAX_FILES = 512"

definition isJavaSourceFilePath :: "string \<Rightarrow> bool" where
  "isJavaSourceFilePath path \<longleftrightarrow> suffix ''.java'' (to_lower_case (normalizeRequestJavaFilePath path))"

definition request_file :: "nat \<Rightarrow> string list \<Rightarrow> json \<Rightarrow> string + (string \<times> string)" where
  "request_file i seen entry =
     (let place = ''javaFiles['' @ nat_digits i @ '']'';
          path = asString (js_field (Some entry) ''path''); normalized = normalizeRequestJavaFilePath path
      in and_then (check (asRecord (Some entry) \<noteq> None) (place @ '' must be an object'')) (\<lambda>_.
         and_then (check (path \<noteq> []) (place @ ''.path must be a non-empty string'')) (\<lambda>_.
         and_then (check (isSafeRequestJavaFilePath path) (place @ ''.path must be a safe relative path'')) (\<lambda>_.
         and_then (check (isJavaSourceFilePath path) (place @ ''.path must end with .java'')) (\<lambda>_.
         and_then (check (normalized \<notin> set seen) (place @ ''.path must be unique'')) (\<lambda>_.
         (case as_string (js_field (Some entry) ''content'') of
            None \<Rightarrow> Inl (place @ ''.content must be a string'')
          | Some content \<Rightarrow> Inr (normalized, content))))))))"

fun java_entries :: "nat \<Rightarrow> string list \<Rightarrow> json list \<Rightarrow> string + (string \<times> string) list" where
  "java_entries i seen [] = Inr []"
| "java_entries i seen (entry # entries) =
     and_then (request_file i seen entry) (\<lambda>file.
     and_then (java_entries (Suc i) (fst file # seen) entries) (\<lambda>files. Inr (file # files)))"

definition files_size :: "(string \<times> string) list \<Rightarrow> nat" where
  "files_size files = sum_list (map (\<lambda>(_, content). length (utf8 content)) files)"

definition too_many_files :: bff_response where
  "too_many_files =
     error_response 413 (''javaFiles must contain at most '' @ nat_digits JAVA_EXECUTION_MAX_FILES @ '' files'')"

definition java_files_of :: "nat \<Rightarrow> json \<Rightarrow> bff_response + (string \<times> string) list" where
  "java_files_of maxBytes raw =
     (case js_array (js_field (Some raw) ''javaFiles'') of
        Some (entry # entries) \<Rightarrow>
          (if JAVA_EXECUTION_MAX_FILES < length (entry # entries) then Inl too_many_files
           else case java_entries 0 [] (entry # entries) of
             Inl message \<Rightarrow> Inl (error_response 400 message)
           | Inr files \<Rightarrow>
               (if maxBytes < files_size files then Inl (error_response 413 ''request body too large'') else Inr files))
      | _ \<Rightarrow> Inl (error_response 400 ''javaFiles must be a non-empty array''))"

text \<open>The path of the entry class, when one is given.\<close>

definition entry_path_of :: "(string \<times> string) list \<Rightarrow> json \<Rightarrow> bff_response + string" where
  "entry_path_of files raw =
     (let path = asString (js_field (Some raw) ''entryFilePath'')
      in if path = [] \<or> isSafeRequestJavaFilePath path \<and> normalizeRequestJavaFilePath path \<in> set (map fst files) then Inr path
         else Inl (error_response 400 ''entryFilePath must be a safe relative path from javaFiles''))"

section \<open>What the runner is sent\<close>

record runner_request =
  rnRunId :: string
  rnProgramId :: string
  rnFiles :: "(string \<times> string) list"
  rnEntryClass :: string
  rnEntryPath :: string
  rnExpected :: "string option"
  rnOracle :: "string option"
  rnManualRegions :: nat

definition project_json :: "runner_request \<Rightarrow> json" where
  "project_json r = JObj [(''files'', JObj (map (\<lambda>(path, content). (path, JStr content)) (rnFiles r))),
     (''entryClass'', JStr (rnEntryClass r)), (''entryFilePath'', JStr (rnEntryPath r))]"

definition runner_options :: "bool \<Rightarrow> nat \<Rightarrow> json" where
  "runner_options execute timeout =
     JObj [(''skipExecution'', JBool (\<not> execute)), (''compareOutput'', JBool execute), (''timeoutMs'', js_num (of_nat timeout))]"

definition compile_payload :: "runner_request \<Rightarrow> json" where
  "compile_payload r = JObj [(''programId'', JStr (rnRunId r)), (''generatedProject'', project_json r),
     (''options'', runner_options False 5000), (''oracle'', JObj [])]"

definition verify_payload :: "runner_request \<Rightarrow> json" where
  "verify_payload r = JObj [(''runId'', JStr (rnRunId r)), (''programId'', JStr (rnProgramId r)),
     (''generatedProject'', project_json r), (''options'', runner_options True 30000),
     (''oracle'', js_object [(''expectedOutput'', map_option JStr (rnExpected r)), (''oracleInput'', map_option JStr (rnOracle r))])]"

definition countManualRegions :: "json option \<Rightarrow> nat" where
  "countManualRegions overlay =
     length (filter (\<lambda>region. js_field (Some region) ''originClass'' \<in> {Some (JStr ''manual_modified''), Some (JStr ''manual_edit'')})
       (or_default (js_array (js_field overlay ''regions'')) []))"

definition manual_regions_of :: "json \<Rightarrow> bff_response + nat" where
  "manual_regions_of raw =
     (case js_field (Some raw) ''manualEditOverlays'' of
        None \<Rightarrow> Inr (countManualRegions (js_field (Some raw) ''manualEditOverlay''))
      | Some v \<Rightarrow>
          (case js_array (Some v) of
             None \<Rightarrow> Inl (error_response 400 ''manualEditOverlays must be an array'')
           | Some overlays \<Rightarrow> Inr (sum_list (map (countManualRegions \<circ> Some) overlays))))"

definition record_body :: "nat \<Rightarrow> body_read \<Rightarrow> bff_response + json" where
  "record_body tooLarge body =
     (case body of
        BodyTooLarge \<Rightarrow> Inl (error_response tooLarge ''request body too large'')
      | BodyInvalid message \<Rightarrow> Inl (error_response 400 message)
      | BodyJson raw \<Rightarrow>
          (if asRecord (Some raw) = None then Inl (error_response 400 ''request body must be a JSON object'') else Inr raw))"

definition compile_request :: "nat \<Rightarrow> json \<Rightarrow> bff_response + runner_request" where
  "compile_request maxBytes raw =
     and_then (java_files_of maxBytes raw) (\<lambda>files.
     and_then (entry_path_of files raw) (\<lambda>path.
     let rid = first_nonempty [asString (js_field (Some raw) ''runId''), ''compile-check'']
     in Inr \<lparr>rnRunId = rid, rnProgramId = rid, rnFiles = files, rnEntryClass = asString (js_field (Some raw) ''entryClass''),
          rnEntryPath = path, rnExpected = None, rnOracle = None, rnManualRegions = 0\<rparr>))"

definition verify_request :: "nat \<Rightarrow> json \<Rightarrow> bff_response + runner_request" where
  "verify_request maxBytes raw =
     (let f = js_field (Some raw); rid = asString (f ''runId'') in
      if rid = [] then Inl (error_response 400 ''runId must be a non-empty string'')
      else and_then (java_files_of maxBytes raw) (\<lambda>files.
           and_then (entry_path_of files raw) (\<lambda>path.
           and_then (manual_regions_of raw) (\<lambda>regions.
           Inr \<lparr>rnRunId = rid, rnProgramId = first_nonempty [asString (f ''programId''), ''verify-'' @ rid], rnFiles = files,
                rnEntryClass = asString (f ''entryClass''), rnEntryPath = path, rnExpected = as_string (f ''expectedOutput''),
                rnOracle = as_string (f ''oracleInput''), rnManualRegions = regions\<rparr>))))"

datatype runner_route = CompileCheck | Verify

fun unconfigured_note :: "runner_route \<Rightarrow> string" where
  "unconfigured_note CompileCheck = ''compile-check unavailable: build-test-runner-service URL is not configured''"
| "unconfigured_note Verify = ''verify unavailable: build-test-runner-service URL is not configured''"

fun runner_request_of :: "runner_route \<Rightarrow> nat \<Rightarrow> json \<Rightarrow> bff_response + runner_request" where
  "runner_request_of CompileCheck = compile_request"
| "runner_request_of Verify = verify_request"

fun runner_payload :: "runner_route \<Rightarrow> runner_request \<Rightarrow> json" where
  "runner_payload CompileCheck = compile_payload"
| "runner_payload Verify = verify_payload"

definition admit_runner ::
  "web_api \<Rightarrow> session_config \<Rightarrow> runner_route \<Rightarrow> bool \<Rightarrow> nat \<Rightarrow> int \<Rightarrow> bff_request \<Rightarrow> sessions \<Rightarrow>
   (bff_response + runner_request) \<times> sessions" where
  "admit_runner U cfg route enabled maxBytes now req m =
     (case rejectUnauthenticatedStudioJsonRequest U cfg now req m of
        (Inl response, m') \<Rightarrow> (Inl response, m')
      | (Inr _, m') \<Rightarrow>
          (if \<not> enabled then (Inl (vary_cookie (error_response 503 (unconfigured_note route))), m')
           else case and_then (record_body 413 (rqBody req)) (runner_request_of route maxBytes) of
             Inl response \<Rightarrow> (Inl (vary_cookie response), m')
           | Inr r \<Rightarrow> (Inr r, m')))"

section \<open>What comes back\<close>

definition error_text :: "(json \<Rightarrow> string) \<Rightarrow> json option \<Rightarrow> string" where
  "error_text js_String body =
     (case js_field body ''error'' of None \<Rightarrow> [] | Some JNull \<Rightarrow> [] | Some (JStr s) \<Rightarrow> s | Some j \<Rightarrow> js_String j)"

definition service_unavailable :: "string \<Rightarrow> bff_response" where
  "service_unavailable message =
     jsonResponse 503 (js_object [(''error'', Some (JStr message)), (''failureCode'', Some (JStr ''service_unavailable''))])"

definition runner_diagnostics :: "(string \<Rightarrow> string option) \<Rightarrow> json option \<Rightarrow> json option" where
  "runner_diagnostics urlPathname body =
     Some (JArr (map diagnostic_json (normalizeDiagnostics urlPathname (js_field body ''diagnostics'') (Some ''build''))))"

fun runner_name :: "runner_route \<Rightarrow> string" where
  "runner_name CompileCheck = ''compile check''"
| "runner_name Verify = ''verify''"

definition verify_view :: "(string \<Rightarrow> string option) \<Rightarrow> runner_request \<Rightarrow> json option \<Rightarrow> json" where
  "verify_view urlPathname r body =
     (let word = (\<lambda>k default. Some (JStr (first_nonempty [asString (js_field body k), default])));
          part = (\<lambda>k. Some (or_default (js_field body k) JNull))
      in js_object
           [(''schemaVersion'', Some (JStr ''v0'')), (''runId'', Some (JStr (rnRunId r))),
            (''programId'', Some (JStr (rnProgramId r))), (''status'', word ''status'' ''incomplete''),
            (''classification'', word ''classification'' ''skipped-no-execution''), (''build'', part ''build''),
            (''execution'', part ''execution''), (''tests'', part ''tests''), (''goldenMaster'', part ''goldenMaster''),
            (''comparison'', part ''comparison''), (''diagnostics'', runner_diagnostics urlPathname body),
            (''outputRef'', part ''outputRef''), (''manualEditsCarriedOver'', Some (JBool (0 < rnManualRegions r))),
            (''manualDriftRegionCount'', Some (js_num (of_nat (rnManualRegions r))))])"

fun runner_view :: "(string \<Rightarrow> string option) \<Rightarrow> runner_route \<Rightarrow> runner_request \<Rightarrow> json option \<Rightarrow> json" where
  "runner_view urlPathname CompileCheck r body =
     js_object [(''schemaVersion'', Some (JStr ''v0'')), (''diagnostics'', runner_diagnostics urlPathname body)]"
| "runner_view urlPathname Verify r body = verify_view urlPathname r body"

definition finish_runner ::
  "(json \<Rightarrow> string) \<Rightarrow> (string \<Rightarrow> string option) \<Rightarrow> runner_route \<Rightarrow> runner_request \<Rightarrow> upstream_answer \<Rightarrow> bff_response" where
  "finish_runner js_String urlPathname route r answer =
     vary_cookie (case answer of
       NoUpstream \<Rightarrow> service_unavailable (runner_name route @ '' unavailable: no response from build-test-runner'')
     | UpstreamThrew message \<Rightarrow> service_unavailable (runner_name route @ '' unavailable: '' @ or_default message ''unknown error'')
     | Upstream status body \<Rightarrow>
         (if 200 \<le> status \<and> status < 300 then jsonResponse 200 (runner_view urlPathname route r body)
          else if route = Verify \<and> 400 \<le> status \<and> status < 500
          then error_response 400 (first_nonempty [error_text js_String body,
            ''upstream rejected verify request (status '' @ int_string status @ '')''])
          else service_unavailable (runner_name route @ '' unavailable: '' @
            first_nonempty [error_text js_String body, ''status '' @ int_string status])))"

definition finish_compile_check ::
  "(json \<Rightarrow> string) \<Rightarrow> (string \<Rightarrow> string option) \<Rightarrow> runner_request \<Rightarrow> upstream_answer \<Rightarrow> bff_response" where
  "finish_compile_check js_String urlPathname = finish_runner js_String urlPathname CompileCheck"

definition finish_verify ::
  "(json \<Rightarrow> string) \<Rightarrow> (string \<Rightarrow> string option) \<Rightarrow> runner_request \<Rightarrow> upstream_answer \<Rightarrow> bff_response" where
  "finish_verify js_String urlPathname = finish_runner js_String urlPathname Verify"

section \<open>Manual compile repair\<close>

datatype repair_route = PreviewRepair | DiagnoseRepair | ApplyRepair | AcceptRepair | RejectRepair

fun repair_name :: "repair_route \<Rightarrow> string" where
  "repair_name PreviewRepair = ''preview''"
| "repair_name DiagnoseRepair = ''diagnose''"
| "repair_name ApplyRepair = ''apply''"
| "repair_name AcceptRepair = ''accept''"
| "repair_name RejectRepair = ''reject''"

text \<open>The fields beside the run id: those that must be non-empty strings, and those that may be given.\<close>

fun repair_ids :: "repair_route \<Rightarrow> string list" where
  "repair_ids PreviewRepair = []"
| "repair_ids DiagnoseRepair = [''previewId'']"
| "repair_ids ApplyRepair = [''previewId'', ''proposalId'', ''patchSha256'']"
| "repair_ids AcceptRepair = [''proposalId'', ''patchSha256'']"
| "repair_ids RejectRepair = [''proposalId'']"

fun repair_ids_note :: "repair_route \<Rightarrow> string" where
  "repair_ids_note PreviewRepair = []"
| "repair_ids_note DiagnoseRepair = ''previewId must be a non-empty string''"
| "repair_ids_note ApplyRepair = ''previewId, proposalId, and patchSha256 must be non-empty strings''"
| "repair_ids_note AcceptRepair = ''runId, proposalId, and patchSha256 must be non-empty strings''"
| "repair_ids_note RejectRepair = ''proposalId must be a non-empty string''"

definition repair_allowed :: "repair_route \<Rightarrow> string list" where
  "repair_allowed route =
     ''runId'' # (if route = PreviewRepair
       then [''entryClass'', ''entryFilePath'', ''javaFiles'', ''manualEditOverlay'', ''manualEditOverlays'']
       else repair_ids route)"

definition extra_fields :: "json \<Rightarrow> string list \<Rightarrow> string list" where
  "extra_fields raw allowed = (case raw of JObj fs \<Rightarrow> filter (\<lambda>k. k \<notin> set allowed) (js_keys fs) | _ \<Rightarrow> [])"

definition overlay_regions :: "json \<Rightarrow> json list" where
  "overlay_regions overlay = or_default (js_array (js_field (Some overlay) ''regions'')) []"

definition overlay_envelope :: "json \<Rightarrow> json option" where
  "overlay_envelope raw =
     (case js_array (js_field (Some raw) ''manualEditOverlays'') of
        Some overlays \<Rightarrow> Some (JObj [(''schemaVersion'', JStr ''v0''), (''regions'', JArr (concat (map overlay_regions overlays)))])
      | None \<Rightarrow> js_field (Some raw) ''manualEditOverlay'')"

definition requester_of :: "session_record \<Rightarrow> string" where
  "requester_of r = ''studio:'' @ sesTenant r @ '':'' @ sesUser r"

definition repair_payload :: "repair_route \<Rightarrow> session_record \<Rightarrow> json \<Rightarrow> json" where
  "repair_payload route r raw =
     (if route = PreviewRepair
      then spread (Some raw) [(''requester'', Some (JStr (requester_of r))), (''manualOverlay'', overlay_envelope raw)]
      else JObj (map (\<lambda>k. (k, JStr (asString (js_field (Some raw) k)))) (''runId'' # repair_ids route) @
        [(''requester'', JStr (requester_of r))]))"

definition repair_unavailable :: "string \<Rightarrow> bff_response" where
  "repair_unavailable why = error_response 503 (''manual compile repair unavailable: '' @ why)"

definition repair_request ::
  "(string \<Rightarrow> string) \<Rightarrow> repair_route \<Rightarrow> session_record \<Rightarrow> run_table \<Rightarrow> json \<Rightarrow> bff_response + (string \<times> json)" where
  "repair_request quote route r runs raw =
     (let f = \<lambda>k. asString (js_field (Some raw) k); rid = f ''runId'' in
      if rid = [] then Inl (error_response 400 ''runId must be a non-empty string'')
      else case getRun rid runs of
        None \<Rightarrow> Inl (unknown_run quote rid)
      | Some stored \<Rightarrow>
          (case liveArtifactRunId stored of
             None \<Rightarrow> Inl (repair_unavailable ''orchestrator run is not available'')
           | Some live \<Rightarrow>
               (if list_ex (\<lambda>k. f k = []) (repair_ids route) then Inl (error_response 400 (repair_ids_note route))
                else
                  let extra = extra_fields raw (repair_allowed route)
                  in if extra \<noteq> [] then Inl (error_response 400
                       (''unsupported manual compile repair '' @ repair_name route @ '' field(s): '' @ js_join '', '' extra))
                     else if route = PreviewRepair \<and> JAVA_EXECUTION_MAX_FILES <
                         length (or_default (js_array (js_field (Some raw) ''javaFiles'')) [])
                     then Inl too_many_files
                     else Inr (live, repair_payload route r raw))))"

definition admit_repair ::
  "web_api \<Rightarrow> session_config \<Rightarrow> repair_route \<Rightarrow> bool \<Rightarrow> int \<Rightarrow> bff_request \<Rightarrow> sessions \<Rightarrow> run_table \<Rightarrow>
   (bff_response + (string \<times> json)) \<times> sessions" where
  "admit_repair U cfg route enabled now req m runs =
     (case rejectUnauthenticatedStudioJsonRequest U cfg now req m of
        (Inl response, m1) \<Rightarrow> (Inl response, m1)
      | (Inr _, m1) \<Rightarrow>
          (if \<not> enabled then (Inl (vary_cookie (repair_unavailable ''orchestrator is not configured'')), m1)
           else case resolveEditorAssistSession cfg now req m1 of
             (Inl (message, cookie), m2) \<Rightarrow> (Inl (vary_cookie ((error_response 401 message)\<lparr>rsSetCookie := cookie\<rparr>)), m2)
           | (Inr r, m2) \<Rightarrow>
               (case and_then (record_body 400 (rqBody req)) (repair_request (jsonQuote U) route r runs) of
                  Inl response \<Rightarrow> (Inl (vary_cookie response), m2)
                | Inr call \<Rightarrow> (Inr call, m2))))"

text \<open>The five handlers.\<close>

definition admit_preview ::
  "web_api \<Rightarrow> session_config \<Rightarrow> bool \<Rightarrow> int \<Rightarrow> bff_request \<Rightarrow> sessions \<Rightarrow> run_table \<Rightarrow>
   (bff_response + (string \<times> json)) \<times> sessions" where
  "admit_preview U cfg = admit_repair U cfg PreviewRepair"

definition admit_diagnose ::
  "web_api \<Rightarrow> session_config \<Rightarrow> bool \<Rightarrow> int \<Rightarrow> bff_request \<Rightarrow> sessions \<Rightarrow> run_table \<Rightarrow>
   (bff_response + (string \<times> json)) \<times> sessions" where
  "admit_diagnose U cfg = admit_repair U cfg DiagnoseRepair"

definition admit_apply ::
  "web_api \<Rightarrow> session_config \<Rightarrow> bool \<Rightarrow> int \<Rightarrow> bff_request \<Rightarrow> sessions \<Rightarrow> run_table \<Rightarrow>
   (bff_response + (string \<times> json)) \<times> sessions" where
  "admit_apply U cfg = admit_repair U cfg ApplyRepair"

definition admit_accept ::
  "web_api \<Rightarrow> session_config \<Rightarrow> bool \<Rightarrow> int \<Rightarrow> bff_request \<Rightarrow> sessions \<Rightarrow> run_table \<Rightarrow>
   (bff_response + (string \<times> json)) \<times> sessions" where
  "admit_accept U cfg = admit_repair U cfg AcceptRepair"

definition admit_reject ::
  "web_api \<Rightarrow> session_config \<Rightarrow> bool \<Rightarrow> int \<Rightarrow> bff_request \<Rightarrow> sessions \<Rightarrow> run_table \<Rightarrow>
   (bff_response + (string \<times> json)) \<times> sessions" where
  "admit_reject U cfg = admit_repair U cfg RejectRepair"

section \<open>The answer of a repair call\<close>

definition sanitizeManualRepairArtifactRef :: "json option \<Rightarrow> json option" where
  "sanitizeManualRepairArtifactRef raw = normalizeOutputRef raw"

definition clean_refs :: "json option \<Rightarrow> string list \<Rightarrow> (string \<times> json option) list" where
  "clean_refs raw keys =
     List.map_filter (\<lambda>k. case js_field raw k of None \<Rightarrow> None
       | Some j \<Rightarrow> Some (k, Some (or_default (sanitizeManualRepairArtifactRef (Some j)) JNull))) keys"

definition clean_evidence :: "json option \<Rightarrow> (string \<times> json option) list" where
  "clean_evidence raw =
     (case js_array (js_field raw ''evidenceRefs'') of
        None \<Rightarrow> []
      | Some js \<Rightarrow> [(''evidenceRefs'', Some (JArr (List.map_filter (\<lambda>j. sanitizeManualRepairArtifactRef (Some j)) js)))])"

definition sanitizeManualRepairDiagnosis :: "json option \<Rightarrow> json option" where
  "sanitizeManualRepairDiagnosis raw =
     (if asRecord raw = None then None
      else Some (spread raw
        (clean_refs raw [''buildResultRef'', ''executionResultRef'', ''comparisonResultRef'', ''sourceRevisionRef'', ''currentHeadRef''] @
         clean_evidence raw @
         (case asRecord (js_field raw ''followUpRecommendation'') of
            None \<Rightarrow> []
          | Some followUp \<Rightarrow> [(''followUpRecommendation'', Some (spread (Some followUp) (clean_evidence (Some followUp))))]))))"

definition sanitizeManualRepairProposal :: "json option \<Rightarrow> json option" where
  "sanitizeManualRepairProposal raw =
     (if asRecord raw = None then None
      else Some (spread raw (clean_refs raw [''sourceRevisionRef'', ''currentHeadRef''] @ clean_evidence raw)))"

definition sanitizeManualRepairResponseBody :: "json \<Rightarrow> json" where
  "sanitizeManualRepairResponseBody raw =
     (if asRecord (Some raw) = None then raw
      else let diagnosis = js_field (Some raw) ''diagnosis''; proposal = js_field (Some raw) ''proposal''
           in spread (Some raw)
             ((if diagnosis = None then [] else [(''diagnosis'', or_else (sanitizeManualRepairDiagnosis diagnosis) diagnosis)]) @
              (if js_null proposal then [] else [(''proposal'', or_else (sanitizeManualRepairProposal proposal) proposal)])))"

text \<open>The client gives a body of null for an empty one; a thrown error reaches the handler of all routes.\<close>

definition finish_repair :: "upstream_answer \<Rightarrow> bff_response" where
  "finish_repair answer =
     vary_cookie (case answer of
       NoUpstream \<Rightarrow> repair_unavailable ''no orchestrator response''
     | Upstream status body \<Rightarrow>
         jsonResponse (if status = 0 then 502 else nat status) (sanitizeManualRepairResponseBody (or_default body JNull))
     | UpstreamThrew message \<Rightarrow> error_response 500 (or_default message ''internal error''))"

end
