(* ===== verification/Start_Facts.thy ===== *)
theory Start_Facts
  imports Bff_Start_Routes Wire_Facts Run_Store_Facts
begin

text \<open>
  Facts about the start routes: what a body that passed the checks looks like, what an accepted run stores, and
  that the guards of the Studio accept the views of a run that has just been started.
\<close>

section \<open>Views of a fresh run\<close>

text \<open>A run before its first workflow refresh.\<close>

definition fresh_run :: "stored_run \<Rightarrow> bool" where
  "fresh_run r \<longleftrightarrow>
     srActiveStep r = None \<and> srAttemptCount r = None \<and> srRepairBudget r = None \<and> srAssistBudget r = None \<and> srModelBudget r = None \<and>
     srFinal r = None \<and> srFailureCode r = None \<and> srFailureMessage r = None \<and> srManualEdits r = None \<and>
     srManualDrift r = None \<and> srJavaRegions r = None"

lemma status_names: "isRunStatus (Some (JStr (run_status_name s)))"
  by (cases s) (simp_all add: isRunStatus_def)

lemma links_accepted: "isRunLinks (Some (js_object (transformLinks rid)))"
  by (simp add: isRunLinks_def transformLinks_def runLinks_def run_link_def built)

lemma fresh_transform_accepted:
  assumes "fresh_run r"
  shows "isTransformResponsePayload (Some (transformResponse r s))"
  using assms mode_names [of "srMode r"] status_names [of "srStatus r"] links_accepted [of "srRunId r"]
  by (simp add: fresh_run_def isTransformResponsePayload_def transformResponse_def run_summary_fields_def Let_def built
      run_fields_def trust_case_identity_def w02_contract_fields_def isRunMode_def isRunProductMode_def text_or_empty_def
      hasManualEditSummaryFields_def region_count_def js_or_null_def isStringArray_def)

lemma fresh_summary_accepted:
  assumes "fresh_run r" and "srTrustSummary r = None" and "\<And>t. s = Some t \<Longrightarrow> isTrustSummaryPayload (Some t)"
  shows "isRunSummaryPayload (Some (runSummary r s))"
  using assms mode_names [of "srMode r"] status_names [of "srStatus r"]
  by (cases s) (simp_all add: fresh_run_def isRunSummaryPayload_def runSummary_def run_summary_fields_def Let_def built
      run_fields_def trust_case_identity_def w02_contract_fields_def isRunMode_def isRunProductMode_def text_or_empty_def
      hasManualEditSummaryFields_def region_count_def js_or_null_def isStringArray_def normalizeJavaRegionClassification_def
      optional_or_null_intro)

text \<open>The marked response of \<open>/generate\<close>.\<close>

lemma spread_field:
  "js_field (Some (spread (Some (JObj fs)) [(k, Some j)])) k' = (if k = k' then Some j else js_field (Some (JObj fs)) k')"
  by (simp add: spread_def js_field_def)

lemma marked_accepted:
  assumes "isTransformResponsePayload (Some (transformResponse r s))"
  shows "isTransformResponsePayload (Some (mark_route route (transformResponse r s))) \<and>
    (route = GenerateRoute \<longrightarrow> js_field (Some (mark_route route (transformResponse r s))) ''runMode'' = Some (JStr ''generate''))"
proof (cases route)
  case GenerateRoute
  obtain fs where "transformResponse r s = JObj fs" by (simp add: transformResponse_def js_object_def)
  moreover have "isRecord (Some (spread (Some (JObj fs)) [(''runMode'', Some (JStr ''generate''))]))"
    by (simp add: spread_def isRecord_def)
  ultimately show ?thesis
    using assms GenerateRoute
    by (simp add: isTransformResponsePayload_def has_fields_def hasManualEditSummaryFields_def spread_field run_fields_def
        trust_case_identity_def w02_contract_fields_def)
qed (use assms in simp)

section \<open>Storing a started run\<close>

lemma payload_applied:
  assumes "js_get runs (srRunId stored) = Some stored"
  shows "applyLiveRunPayload now stored payload runs =
    (let r = (if is_js_object payload then (payload_patch stored
            (if is_js_object (js_field payload ''run'') then js_field payload ''run'' else payload) stored)\<lparr>srUpdatedAt := now\<rparr>
          else stored)
     in (r, if is_js_object payload then js_set (srRunId stored) r runs else runs))"
  using assms by (simp add: applyLiveRunPayload_def updateRun_def Let_def)

definition stored_start :: "start_clock \<Rightarrow> sample_detail \<Rightarrow> initial_run \<Rightarrow> json option \<Rightarrow> stored_run \<Rightarrow> bool" where
  "stored_start clock sample initial body r \<longleftrightarrow>
     srRunId r = ''run-'' @ skFresh clock \<and> srProgramId r = sampleProgramId sample \<and> srMode r = LiveRun \<and>
     srLiveRunId r = extractLiveRunId body \<and> srSample r = sample \<and> srTrustCase r = inTrustCase initial \<and>
     srExecutionMode r = inExecutionMode initial \<and> srFixture r = None \<and> srTrustSummary r = inTrustSummary initial \<and> fresh_run r"

lemma store_started_run:
  assumes "store_started clock sample initial body runs = (r, runs')"
  shows "stored_start clock sample initial body r" and "getRun (srRunId r) runs' = Some r"
    and "rid \<noteq> srRunId r \<Longrightarrow> getRun rid runs' = getRun rid runs"
  using assms
  by (auto simp: store_started_def createRun_def payload_applied stored_start_def fresh_run_def getRun_def Let_def payload_patch_def
      split: if_splits)

end
