(* ===== verification/Start_Properties.thy ===== *)
theory Start_Properties
  imports Start_Facts
begin

text \<open>
  The properties of the start routes: which requests reach the orchestrator and with what, and what an accepted
  start leaves in the run store and shows in the Studio.
\<close>

section \<open>Admission\<close>

lemma guard_Inr:
  assumes "rejectUnauthenticatedStudioJsonRequest U cfg now req m = (Inr r, m')"
  shows "isAllowedBrowserOrigin U req (studioCorsOrigins cfg) \<and> \<not> rejectNonJsonContentType req \<and>
    (\<exists>sid. request_session_id req = Some sid \<and> getSession (sessionOptions cfg) sid now m = (Some r, m'))"
  using assms
  by (auto simp: rejectUnauthenticatedStudioJsonRequest_def resolveEditorAssistSession_def
      split: if_splits option.splits prod.splits)

lemma first_failure_None: "first_failure checks = None \<longleftrightarrow> list_all (\<lambda>c. \<not> fst c) checks"
  by (force simp: first_failure_def find_None_iff list_all_iff)

lemma get_case_Some: "get_case cat cid = Some s \<Longrightarrow> s \<in> set (catSummaries cat) \<and> smTrustCaseId s = cid"
  by (auto simp: get_case_def find_Some_iff) (metis length_rev nth_mem set_rev)

text \<open>What the checks of the fields give.\<close>

lemma start_fields_ok:
  assumes "start_field_error quote route raw = None"
  shows "js_trim (asString (js_field (Some raw) ''sourceText'')) \<noteq> []"
    and "route = TransformRoute \<Longrightarrow> as_string (js_field (Some raw) ''trustCaseId'') = Some named \<Longrightarrow> js_trim named \<noteq> []"
proof -
  have checks: "\<not> blank (js_field (Some raw) ''sourceText'')"
      "route = TransformRoute \<Longrightarrow> \<not> present blank (js_field (Some raw) ''trustCaseId'')"
    using assms unfolding start_field_error_def Let_def first_failure_None by simp_all
  show "js_trim (asString (js_field (Some raw) ''sourceText'')) \<noteq> []"
    using checks(1) by (cases "js_field (Some raw) ''sourceText''" rule: as_string.cases) (simp_all add: blank_def)
  show "js_trim named \<noteq> []" if "route = TransformRoute" "as_string (js_field (Some raw) ''trustCaseId'') = Some named"
    using checks(2) that by (auto simp: present_def blank_def)
qed

lemma select_None: "select_trust_case quote catalog program raw = Inr None \<Longrightarrow> as_string (js_field (Some raw) ''trustCaseId'') = None"
  by (auto simp: select_trust_case_def Let_def split: option.splits if_splits sum.splits)

lemma select_Some:
  assumes "select_trust_case quote catalog program raw = Inr (Some s)"
  obtains named cat where "as_string (js_field (Some raw) ''trustCaseId'') = Some named" and "catalog = Inr cat"
    and "get_case cat (js_trim named) = Some s" and "smProgramId s = program" and "forbiddenTrustCaseTransformFields raw = []"
  using assms by (auto simp: select_trust_case_def Let_def split: option.splits if_splits sum.splits)

text \<open>Whether the body of a start call carries a catalog trust case and nothing else that decides how it is run.\<close>

definition pinned_payload :: "trust_case_summary \<Rightarrow> json \<Rightarrow> bool" where
  "pinned_payload s payload \<longleftrightarrow>
     js_field (Some payload) ''trustCaseId'' = Some (JStr (smTrustCaseId s)) \<and>
     js_field (Some payload) ''programId'' = Some (JStr (smProgramId s)) \<and>
     js_field (Some payload) ''executionMode'' = Some (JStr ''parity'') \<and> js_field (Some payload) ''options'' = None \<and>
     js_field (js_field (Some payload) ''inputRef'') ''expectedOutput'' = None \<and>
     js_field (js_field (Some payload) ''inputRef'') ''oracleInput'' = None"

lemma payload_fields:
  "js_field (Some (startTransformRun digest i)) ''trustCaseId'' = nonempty_option (tiTrustCaseId i)"
  "js_field (Some (startTransformRun digest i)) ''programId'' = Some (JStr (tiProgramId i))"
  "js_field (Some (startTransformRun digest i)) ''executionMode'' = nonempty_option (tiExecutionMode i)"
  "js_field (Some (startTransformRun digest i)) ''options'' = tiOptions i"
  "js_field (js_field (Some (startTransformRun digest i)) ''inputRef'') ''expectedOutput'' = nonempty_option (tiExpectedOutput i)"
  "js_field (js_field (Some (startTransformRun digest i)) ''inputRef'') ''oracleInput'' = nonempty_option (tiOracleInput i)"
  by (simp_all add: startTransformRun_def js_object_first js_object_none nonempty_option_def nonempty_field_def)

lemma prepared:
  assumes "prepare_start quote digest cfg route raw = Inr p"
  shows "js_trim (tiSourceText (psInput p)) \<noteq> [] \<and> stOrchestrator cfg \<and>
    (route = TransformRoute \<longrightarrow> (\<forall>sample. stSamples cfg (tiProgramId (psInput p)) = Some sample \<longrightarrow> supportedInProductMode sample)) \<and>
    (case psCase p of
       None \<Rightarrow> js_field (Some (startTransformRun digest (psInput p))) ''trustCaseId'' = None \<and>
         js_field (Some (startTransformRun digest (psInput p))) ''executionMode'' = None
     | Some s \<Rightarrow> route = TransformRoute \<and> (\<exists>cat. stCatalog cfg = Inr cat \<and> s \<in> set (catSummaries cat)) \<and>
         pinned_payload s (startTransformRun digest (psInput p)))"
proof -
  have fields: "start_field_error quote route raw = None" and enabled: "stOrchestrator cfg"
    using assms by (auto simp: prepare_start_def split: option.splits if_splits)
  define program where "program = tiProgramId (start_input digest route raw None)"
  have same: "tiProgramId (start_input digest route raw selected) = program" for selected
    by (simp add: program_def start_input_def Let_def)
  note f = start_fields_ok [OF fields]
  show ?thesis
  proof (cases route)
    case GenerateRoute
    then have "p = \<lparr>psInput = start_input digest route raw None, psCase = None\<rparr>"
      using assms fields enabled by (simp add: prepare_start_def Let_def)
    then show ?thesis using f(1) enabled GenerateRoute
      by (simp add: payload_fields start_input_def Let_def nonempty_option_def nonempty_field_def)
  next
    case TransformRoute
    then obtain selected where sel: "select_trust_case quote (stCatalog cfg) program raw = Inr selected"
      and p: "p = \<lparr>psInput = start_input digest route raw selected, psCase = selected\<rparr>"
      and sample: "\<forall>sample. stSamples cfg program = Some sample \<longrightarrow> supportedInProductMode sample"
      using assms fields enabled unfolding prepare_start_def program_def
      by (auto simp: and_then_Inr Let_def split: option.splits if_splits)
    have src: "tiSourceText (start_input digest route raw selected) = asString (js_field (Some raw) ''sourceText'')"
      by (simp add: start_input_def Let_def)
    show ?thesis
    proof (cases selected)
      case None
      then show ?thesis using f(1) enabled p sample same src
        by (simp add: payload_fields start_input_def Let_def nonempty_option_def nonempty_field_def)
    next
      case (Some s)
      from sel [unfolded this] obtain named cat where named: "as_string (js_field (Some raw) ''trustCaseId'') = Some named"
        and cat: "stCatalog cfg = Inr cat" "get_case cat (js_trim named) = Some s" "smProgramId s = program"
        by (rule select_Some)
      have "js_trim named \<noteq> []" using f(2) TransformRoute named by simp
      moreover note get_case_Some [OF cat(2)]
      ultimately have "pinned_payload s (startTransformRun digest (start_input digest route raw (Some s)))"
        using same [of "Some s"] cat(3)
        by (simp add: pinned_payload_def payload_fields)
          (simp add: start_input_def Let_def nonempty_option_def nonempty_field_def)
      then show ?thesis using f(1) enabled p sample same src Some cat(1) get_case_Some [OF cat(2)] TransformRoute by simp
    qed
  qed
qed

text \<open>
  C37: A request to \<open>/transform\<close> or \<open>/generate\<close> reaches the orchestrator only from an allowed origin under a live session
  and with a source text; an agent run only when the model gateway reports a callable transformation model; a run of a
  trust case only through \<open>/transform\<close>, for a case of the catalog and its own program, in parity mode, with no option,
  expected output or oracle input of the browser; any other run of these two routes names no trust case and no execution
  mode.  \<open>/runs\<close> is the third route that starts runs; it does not consult the catalog (\<open>runs_bypass_the_catalog\<close>).
\<close>

theorem admitted_starts_are_vetted:
  assumes "admit_start U digest cfg route now health caps req m = (Inr p, m')"
  shows "isAllowedBrowserOrigin U req (studioCorsOrigins (stSession cfg)) \<and>
    (\<exists>sid r. request_session_id req = Some sid \<and> getSession (sessionOptions (stSession cfg)) sid now m = (Some r, m')) \<and>
    js_trim (tiSourceText (psInput p)) \<noteq> [] \<and>
    (route = TransformRoute \<longrightarrow> (\<forall>sample. stSamples cfg (tiProgramId (psInput p)) = Some sample \<longrightarrow> supportedInProductMode sample)) \<and>
    (tiUseAgent (psInput p) \<longrightarrow> stGateway cfg \<and> (\<exists>body. answered_body health = Some body \<and>
       (0 < or_default (or_else (asNumber (js_field body ''activeModels'')) (asNumber (js_field body ''activeModelCount''))) 0 \<or>
        (\<exists>role\<in>set (or_default (js_array (js_field (or_default (answered_body caps) None) ''roles'')) []). callable_role role)))) \<and>
    (case psCase p of
       None \<Rightarrow> js_field (Some (startTransformRun digest (psInput p))) ''trustCaseId'' = None \<and>
         js_field (Some (startTransformRun digest (psInput p))) ''executionMode'' = None
     | Some s \<Rightarrow> route = TransformRoute \<and> (\<exists>cat. stCatalog cfg = Inr cat \<and> s \<in> set (catSummaries cat)) \<and>
         pinned_payload s (startTransformRun digest (psInput p)))"
proof -
  obtain r raw p0 where guard: "rejectUnauthenticatedStudioJsonRequest U (stSession cfg) now req m = (Inr r, m')"
    and p0: "prepare_start (jsonQuote U) digest cfg route raw = Inr p0" and gate: "check_gateway cfg health caps p0 = Inr p"
    using assms by (auto simp: admit_start_def and_then_Inr split: prod.splits sum.splits)
  have p: "p = p0" and agent: "tiUseAgent (psInput p0) \<Longrightarrow> verifyTransformationModelGatewayAvailable (stGateway cfg) health caps = None"
    using gate by (auto simp: check_gateway_def split: if_splits option.splits)
  show ?thesis
    using guard_Inr [OF guard] prepared [OF p0] agent unfolding p gateway_ready callable_from_view by blast
qed

text \<open>
  What \<open>/runs\<close> checks instead: the origin and the session, a known sample, the form of a trust case id, and that a run with
  any of the three parity fields names a fixture and runs in parity mode.
\<close>

lemma run_request_Inr:
  assumes "run_request_of raw = Inr r"
  shows "(\<forall>cid. rrTrustCaseId r = Some cid \<longrightarrow> TRUST_CASE_ID_PATTERN cid) \<and>
    (rrTrustCaseId r \<noteq> None \<or> rrFixtureId r \<noteq> None \<or> rrSourceMode r \<noteq> None \<longrightarrow> rrParity r \<and> rrFixtureId r \<noteq> None)"
proof -
  obtain mode smode cid fixture where
    cid: "case cid of None \<Rightarrow> True | Some s \<Rightarrow> TRUST_CASE_ID_PATTERN s"
    and parity: "mode = Some ''parity'' \<or> cid \<noteq> None \<or> fixture \<noteq> None \<or> smode \<noteq> None \<longrightarrow> fixture \<noteq> None"
    and r: "\<lparr>rrProgramId = asString (js_field (Some raw) ''programId''), rrRequester = as_string (js_field (Some raw) ''requester''),
      rrParity = (mode = Some ''parity'' \<or> cid \<noteq> None \<or> fixture \<noteq> None \<or> smode \<noteq> None), rrTrustCaseId = cid, rrFixtureId = fixture,
      rrSourceMode = (if mode = Some ''parity'' \<or> cid \<noteq> None \<or> fixture \<noteq> None \<or> smode \<noteq> None then Some (or_default smode ''reference-fixture'') else None)\<rparr> = r"
    using assms unfolding run_request_of_def Let_def and_then_Inr check_Inr sum.inject by (elim exE conjE) (rule that)
  from cid have "\<forall>c. cid = Some c \<longrightarrow> TRUST_CASE_ID_PATTERN c" by auto
  then show ?thesis using parity by (auto simp: r [symmetric])
qed

lemma admitted_runs_are_checked:
  assumes "admit_run U cfg now req m = (Inr (r, sample), m')"
  shows "isAllowedBrowserOrigin U req (studioCorsOrigins (stSession cfg)) \<and>
    (\<exists>sid s. request_session_id req = Some sid \<and> getSession (sessionOptions (stSession cfg)) sid now m = (Some s, m')) \<and>
    stSamples cfg (rrProgramId r) = Some sample \<and>
    (\<forall>cid. rrTrustCaseId r = Some cid \<longrightarrow> TRUST_CASE_ID_PATTERN cid) \<and>
    (rrTrustCaseId r \<noteq> None \<or> rrFixtureId r \<noteq> None \<or> rrSourceMode r \<noteq> None \<longrightarrow> rrParity r \<and> rrFixtureId r \<noteq> None)"
proof -
  obtain s raw where guard: "rejectUnauthenticatedStudioJsonRequest U (stSession cfg) now req m = (Inr s, m')"
    and r: "run_request_of raw = Inr r" and sample: "stSamples cfg (rrProgramId r) = Some sample"
    using assms by (auto simp: admit_run_def split: prod.splits sum.splits option.splits)
  show ?thesis using guard_Inr [OF guard] run_request_Inr [OF r] sample by blast
qed

section \<open>Answers\<close>

lemma fetch_created: "fetchJson parser (reply_of (vary_cookie (jsonResponse 201 j))) c = (parser j, c)"
  by (simp add: fetchJson_def reply_of_def jsonResponse_def response_ok_def vary_cookie_def)

fun start_parser :: "start_route \<Rightarrow> json \<Rightarrow> client_result" where
  "start_parser TransformRoute = parseTransformResponse"
| "start_parser GenerateRoute = parseGenerateResponse"

text \<open>
  C38: Whatever body the orchestrator accepts a start through \<open>/transform\<close> or \<open>/generate\<close> with, the client of the Studio accepts the response of the BFF;
  the run store then holds exactly one more run, a live one with the orchestrator's id, the source text and the
  identity of the selected trust case, and every other run is as it was.
\<close>

theorem accepted_starts_reach_the_studio:
  assumes "answered_body answer = Some body"
  shows "\<exists>j r runs'. finish_start clock route answer p runs = (vary_cookie (jsonResponse 201 j), runs') \<and>
    fetchJson (start_parser route) (reply_of (fst (finish_start clock route answer p runs))) c = (ClientOk j, c) \<and>
    js_field (Some j) ''runId'' = Some (JStr (srRunId r)) \<and> srRunId r = ''run-'' @ skFresh clock \<and>
    getRun (srRunId r) runs' = Some r \<and> srMode r = LiveRun \<and> srLiveRunId r = extractLiveRunId body \<and>
    srProgramId r = tiProgramId (psInput p) \<and> cobolSource (srSample r) = tiSourceText (psInput p) \<and>
    srTrustCase r = selected_identity (psCase p) \<and>
    (\<forall>rid. rid \<noteq> srRunId r \<longrightarrow> getRun rid runs' = getRun rid runs)"
proof -
  let ?sample = "createSourceTextSample (tiProgramId (psInput p)) (tiSourceText (psInput p)) (tiSourceName (psInput p))"
  let ?initial = "started (if psCase p = None then None else Some ''parity'') (selected_identity (psCase p))"
  obtain r runs' where stored: "store_started clock ?sample ?initial body runs = (r, runs')" by fastforce
  let ?j = "mark_route route (transformResponse r (extractTrustSummary body))"
  have fin: "finish_start clock route answer p runs = (vary_cookie (jsonResponse 201 ?j), runs')"
    using assms stored by (simp add: finish_start_def Let_def)
  have r: "stored_start clock ?sample ?initial body r" by (rule store_started_run(1) [OF stored])
  then have "isTransformResponsePayload (Some (transformResponse r (extractTrustSummary body)))"
    by (intro fresh_transform_accepted) (simp add: stored_start_def)
  then have ok: "start_parser route ?j = ClientOk ?j"
    using marked_accepted [of r "extractTrustSummary body" route] by (cases route) (simp_all add: parseTransformResponse_def checked_def parseGenerateResponse_def)
  have rid: "js_field (Some ?j) ''runId'' = Some (JStr (srRunId r))"
  proof -
    have "js_field (Some (transformResponse r (extractTrustSummary body))) ''runId'' = Some (JStr (srRunId r))"
      by (simp add: transformResponse_def run_summary_fields_def Let_def js_object_first)
    moreover obtain fs where "transformResponse r (extractTrustSummary body) = JObj fs"
      by (simp add: transformResponse_def js_object_def)
    ultimately show ?thesis by (cases route) (simp_all add: spread_field)
  qed
  show ?thesis
    using fin r store_started_run(2,3) [OF stored] rid
    by (intro exI [of _ ?j] exI [of _ r] exI [of _ runs'])
      (simp add: fetch_created ok stored_start_def createSourceTextSample_def started_def)
qed

section \<open>Witnesses\<close>

definition start_api :: web_api where
  "start_api = \<lparr>urlOrigin = Some, urlHost = Some, jsonQuote = id\<rparr>"

definition start_config_demo :: start_config where
  "start_config_demo = \<lparr>stSession = \<lparr>enableFixtureSessions = True, forceSecureSessionCookies = False, studioCorsOrigins = [],
       sessionOptions = default_sessions, limiterOptions = default_limiter\<rparr>,
     stOrchestrator = True, stGateway = True, stFixtures = False, stSamples = (\<lambda>_. None), stCatalog = demo_loaded\<rparr>"

definition start_sessions :: sessions where
  "start_sessions = [(''0a'', \<lparr>storedRecord = \<lparr>sesId = ''0a'', sesTenant = ''t1'', sesUser = ''u1'', sesSecret = [],
     sesAdditions = [], sesPreferences = [], sesCreatedAt = 0\<rparr>, lastAccessMs = 0, createdAtMs = 0\<rparr>)]"

definition start_request :: "json \<Rightarrow> bff_request" where
  "start_request body = \<lparr>rqOrigin = HeaderAbsent, rqHost = None, rqCookie = HeaderOne ''c2c.sid=0a'',
     rqContentType = Some ''application/json'', rqRemote = None, rqEncrypted = False, rqForwardedProto = HeaderAbsent,
     rqProgramParam = None, rqBody = BodyJson body\<rparr>"

definition start_body :: json where
  "start_body = JObj [(''sourceText'', JStr ''X''), (''programId'', JStr ''BATCH01''), (''trustCaseId'', JStr ''TC-2''),
     (''useTransformationAgent'', JBool True)]"

definition start_admitted :: "(bff_response + pending_start) \<times> sessions" where
  "start_admitted = admit_start start_api id start_config_demo TransformRoute 5
     (Upstream 200 (Some (JObj [(''activeModels'', js_num 1)]))) NoUpstream (start_request start_body) start_sessions"

lemma start_admitted_case:
  "(case fst start_admitted of Inr p \<Rightarrow> map_option smTrustCaseId (psCase p) = Some ''TC-2'' | Inl _ \<Rightarrow> False)"
  by code_simp

theorem admitted_starts_are_vetted_witness:
  "\<exists>p s. fst start_admitted = Inr p \<and> psCase p = Some s \<and> smTrustCaseId s = ''TC-2'' \<and> pinned_payload s (startTransformRun id (psInput p))"
proof -
  obtain p where p: "fst start_admitted = Inr p" and tc: "map_option smTrustCaseId (psCase p) = Some ''TC-2''"
    using start_admitted_case by (cases "fst start_admitted") simp_all
  from tc obtain s where s: "psCase p = Some s" "smTrustCaseId s = ''TC-2''" by (cases "psCase p") simp_all
  have "start_admitted = (Inr p, snd start_admitted)" using p by (metis prod.collapse)
  note admitted_starts_are_vetted [OF this [unfolded start_admitted_def]]
  then have "pinned_payload s (startTransformRun id (psInput p))" using s by simp
  then show ?thesis using p s by blast
qed

text \<open>
  A trust case id that the catalog does not know, with a fixture and a mode that the browser chose, goes to the orchestrator.
\<close>

definition bypass_body :: json where
  "bypass_body = JObj [(''programId'', JStr ''BATCH01''), (''trustCaseId'', JStr ''TC-9''),
     (''sourceReferenceFixtureId'', JStr ''other-fixture''), (''sourceReferenceMode'', JStr ''native-cobol'')]"

definition bypass_call :: "json option" where
  "bypass_call =
     (case fst (admit_run start_api
         (start_config_demo\<lparr>stSamples := (\<lambda>pid. Some (createSourceTextSample pid ''X'' None))\<rparr>) 5
         (start_request bypass_body) start_sessions) of
        Inr (r, sample) \<Rightarrow> Some (startRun (sample_input r sample))
      | Inl _ \<Rightarrow> None)"

lemma runs_bypass_the_catalog:
  "(case stCatalog start_config_demo of Inr cat \<Rightarrow> get_case cat ''TC-9'' = None | Inl _ \<Rightarrow> False) \<and>
   (\<exists>call. bypass_call = Some call \<and> js_field (Some call) ''trustCaseId'' = Some (JStr ''TC-9'') \<and>
      js_field (Some call) ''sourceReferenceFixtureId'' = Some (JStr ''other-fixture'') \<and>
      js_field (Some call) ''sourceReferenceMode'' = Some (JStr ''native-cobol''))"
proof -
  have "case stCatalog start_config_demo of Inr cat \<Rightarrow> get_case cat ''TC-9'' = None | Inl _ \<Rightarrow> False" by code_simp
  moreover have "case bypass_call of
      Some call \<Rightarrow> js_field (Some call) ''trustCaseId'' = Some (JStr ''TC-9'') \<and>
        js_field (Some call) ''sourceReferenceFixtureId'' = Some (JStr ''other-fixture'') \<and>
        js_field (Some call) ''sourceReferenceMode'' = Some (JStr ''native-cobol'')
    | None \<Rightarrow> False" by code_simp
  ultimately show ?thesis by (auto split: option.splits)
qed

theorem accepted_starts_reach_the_studio_witness:
  "\<exists>j r runs'. finish_start \<lparr>skFresh = ''1'', skCreated = ''a'', skUpdated = ''b''\<rparr> GenerateRoute
       (Upstream 201 (Some (JObj [(''runId'', JStr ''o1'')])))
       \<lparr>psInput = start_input id GenerateRoute start_body None, psCase = None\<rparr> [] = (vary_cookie (jsonResponse 201 j), runs') \<and>
     getRun (srRunId r) runs' = Some r \<and> srRunId r = ''run-1'' \<and> srLiveRunId r = Some ''o1''"
proof -
  have "answered_body (Upstream 201 (Some (JObj [(''runId'', JStr ''o1'')]))) = Some (Some (JObj [(''runId'', JStr ''o1'')]))"
    by (simp add: answered_body_def)
  note t = accepted_starts_reach_the_studio [OF this, where clock = "\<lparr>skFresh = ''1'', skCreated = ''a'', skUpdated = ''b''\<rparr>"
      and route = GenerateRoute and p = "\<lparr>psInput = start_input id GenerateRoute start_body None, psCase = None\<rparr>"
      and runs = "[]" and c = "\<lparr>cached = None :: (nat \<times> unit) option, nextRequest = 0\<rparr>"]
  have live: "extractLiveRunId (Some (JObj [(''runId'', JStr ''o1'')])) = Some ''o1''" by code_simp
  from t show ?thesis
    apply (elim exE conjE)
    subgoal for j r runs'
      by (rule exI [of _ j], rule exI [of _ r], rule exI [of _ runs']) (simp add: live)
    done
qed

end
