(* ===== verification/Runner_Properties.thy ===== *)
theory Runner_Properties
  imports Bff_Runner_Routes Start_Properties
begin

text \<open>
  The properties of the routes that hand Java files and repair steps to the services behind the BFF: what they
  let through, and what the Studio makes of the answer of a verification.
\<close>

section \<open>Java files\<close>

lemma normalize_idem [simp]: "normalizeRequestJavaFilePath (normalizeRequestJavaFilePath path) = normalizeRequestJavaFilePath path"
  by (simp add: normalizeRequestJavaFilePath_def js_replace_char_def)

lemma safe_normalized [simp]: "isSafeRequestJavaFilePath (normalizeRequestJavaFilePath path) \<longleftrightarrow> isSafeRequestJavaFilePath path"
  by (simp add: isSafeRequestJavaFilePath_def)

lemma no_backslash: "CHR 0x5C \<notin> set (normalizeRequestJavaFilePath path)"
  by (auto simp: normalizeRequestJavaFilePath_def js_replace_char_def)

text \<open>A path under which a file may be written below a directory.\<close>

definition contained_java_path :: "string \<Rightarrow> bool" where
  "contained_java_path path \<longleftrightarrow>
     \<not> prefix ''/'' path \<and> CHR 0x5C \<notin> set path \<and> CHR 0x00 \<notin> set path \<and> \<not> has_drive path \<and>
     (\<forall>segment\<in>set (js_split CHR ''/'' path). segment \<notin> {[], ''.'', ''..''}) \<and> suffix ''.java'' (to_lower_case path)"

lemma dropWhile_unprefixed: "\<not> prefix [c] s \<Longrightarrow> dropWhile (\<lambda>d. d = c) s = s"
  by (cases s) auto

lemma request_file_Inr:
  assumes "request_file i seen entry = Inr jf"
  shows "contained_java_path (fst jf) \<and> fst jf \<notin> set seen"
proof -
  let ?path = "asString (js_field (Some entry) ''path'')"
  have path: "fst jf = normalizeRequestJavaFilePath ?path" "isSafeRequestJavaFilePath ?path" "isJavaSourceFilePath ?path"
      "fst jf \<notin> set seen"
    using assms by (auto simp: request_file_def Let_def and_then_Inr split: option.splits)
  have "js_replace_char CHR 0x5C CHR ''/'' (normalizeRequestJavaFilePath ?path) = normalizeRequestJavaFilePath ?path"
    using normalize_idem by (simp add: normalizeRequestJavaFilePath_def)
  then show ?thesis
    using path no_backslash [of ?path] dropWhile_unprefixed [of "CHR ''/''" "normalizeRequestJavaFilePath ?path"]
    by (auto simp: contained_java_path_def isSafeRequestJavaFilePath_def isSafeGeneratedRelpath_def isJavaSourceFilePath_def
        safe_segments_def Let_def list_all_iff)
qed

lemma java_entries_Inr:
  assumes "java_entries i seen entries = Inr files"
  shows "length files = length entries \<and> distinct (map fst files) \<and> set (map fst files) \<inter> set seen = {} \<and>
    (\<forall>jf\<in>set files. contained_java_path (fst jf))"
  using assms
proof (induction i seen entries arbitrary: files rule: java_entries.induct)
  case (2 i seen entry entries)
  then obtain jf rest where "request_file i seen entry = Inr jf" "java_entries (Suc i) (fst jf # seen) entries = Inr rest"
    "files = jf # rest"
    by (auto simp: and_then_Inr)
  then show ?case using 2(1) [of jf rest] request_file_Inr [of i seen entry jf] by auto
qed simp

lemma java_files_Inr:
  assumes "java_files_of maxBytes raw = Inr files"
  shows "files \<noteq> [] \<and> length files \<le> JAVA_EXECUTION_MAX_FILES \<and> distinct (map fst files) \<and> files_size files \<le> maxBytes \<and>
    (\<forall>jf\<in>set files. contained_java_path (fst jf))"
proof -
  obtain entry entries where "java_entries 0 [] (entry # entries) = Inr files"
    "length (entry # entries) \<le> JAVA_EXECUTION_MAX_FILES" "files_size files \<le> maxBytes"
    using assms by (auto simp: java_files_of_def simp del: java_entries.simps split: option.splits list.splits if_splits sum.splits)
  then show ?thesis using java_entries_Inr [of 0 "[]" "entry # entries" files] by auto
qed

lemma entry_path_Inr: "entry_path_of files raw = Inr path \<Longrightarrow> path = [] \<or> normalizeRequestJavaFilePath path \<in> set (map fst files)"
  by (auto simp: entry_path_of_def Let_def split: if_splits)

lemma admit_runner_Inr:
  assumes "admit_runner U cfg route enabled maxBytes now req m = (Inr r, m')"
  obtains session raw where "rejectUnauthenticatedStudioJsonRequest U cfg now req m = (Inr session, m')" and "enabled"
    and "runner_request_of route maxBytes raw = Inr r"
  using assms by (auto simp: admit_runner_def and_then_Inr split: prod.splits sum.splits if_splits)


section \<open>Answers of a verification\<close>

text \<open>
  Whatever the runner answers a verification with, the client of the Studio accepts the response of the BFF: it
  shows the run that was asked for, a status and a classification, and says that manual edits are carried exactly
  when the request named a manual region.
\<close>

lemma verifications_reach_the_studio:
  assumes "200 \<le> status" and "status < 300"
  shows "\<exists>j. fetchJson parseVerifyResponse (reply_of (finish_runner js_String urlPathname Verify r (Upstream status body))) c = (ClientOk j, c) \<and>
    js_field (Some j) ''runId'' = Some (JStr (rnRunId r)) \<and> isString (js_field (Some j) ''status'') \<and>
    isString (js_field (Some j) ''classification'') \<and>
    js_field (Some j) ''manualEditsCarriedOver'' = Some (JBool (0 < rnManualRegions r)) \<and>
    js_field (Some j) ''manualDriftRegionCount'' = Some (js_num (of_nat (rnManualRegions r)))"
proof -
  let ?view = "verify_view urlPathname r body"
  have natural: "is_integer (of_nat n)" for n by (simp add: is_integer_def)
  have served: "fetchJson parseVerifyResponse (reply_of (finish_runner js_String urlPathname Verify r (Upstream status body))) c =
      (parseVerifyResponse ?view, c)"
    using assms by (simp add: finish_runner_def fetchJson_def reply_of_def jsonResponse_def response_ok_def vary_cookie_def)
  have fields: "isRecord (Some ?view)" "js_field (Some ?view) ''schemaVersion'' = Some (JStr ''v0'')"
    "js_field (Some ?view) ''runId'' = Some (JStr (rnRunId r))" "js_field (Some ?view) ''programId'' = Some (JStr (rnProgramId r))"
    "\<exists>t. js_field (Some ?view) ''status'' = Some (JStr t)" "\<exists>t. js_field (Some ?view) ''classification'' = Some (JStr t)"
    "js_field (Some ?view) ''manualEditsCarriedOver'' = Some (JBool (0 < rnManualRegions r))"
    "js_field (Some ?view) ''manualDriftRegionCount'' = Some (js_num (of_nat (rnManualRegions r)))"
    by (simp_all add: verify_view_def Let_def built)
  then show ?thesis
    by (auto simp: served parseVerifyResponse_def Let_def built natural)
qed

section \<open>Repair calls\<close>

lemma js_get_without: "k \<noteq> a \<Longrightarrow> js_get (filter (\<lambda>(k', _). k' \<noteq> a) fs) k = js_get fs k"
  by (induction fs) auto

lemma spread_other: "k \<notin> fst ` set gs \<Longrightarrow> js_field (Some (spread (Some (JObj fs)) gs)) k = js_get fs k"
proof (induction gs arbitrary: fs)
  case Nil
  then show ?case by (simp add: spread_def js_field_def)
next
  case (Cons g gs)
  obtain a v where g: "g = (a, v)" by (cases g)
  have "spread (Some (JObj fs)) (g # gs) = spread (Some (JObj (case v of None \<Rightarrow> filter (\<lambda>(k', _). k' \<noteq> a) fs | Some j \<Rightarrow> js_set a j fs))) gs"
    by (cases v) (simp_all add: spread_def g)
  then show ?case using Cons g js_get_without by (auto split: option.splits)
qed

text \<open>The two looks at the session in one request see the same record.\<close>

lemma session_again:
  "getSession opts sid now m = (Some r, m1) \<Longrightarrow> getSession opts sid now m1 = (Some r', m2) \<Longrightarrow> r' = r"
  by (auto simp: getSession_def split: if_splits option.splits)

lemma payload_requester: "js_field (Some (repair_payload route r (JObj fs))) ''requester'' = Some (JStr (requester_of r))"
  by (cases route; cases "overlay_envelope (JObj fs)") (simp_all add: repair_payload_def spread_def js_field_def js_get_without)

lemma payload_other:
  assumes "js_field (Some (repair_payload route r (JObj fs))) k = Some v" and "k \<notin> {''requester'', ''manualOverlay''}"
    and "list_all (\<lambda>k. asString (js_get fs k) \<noteq> []) (''runId'' # repair_ids route)"
  shows "js_get fs k = Some v"
proof (cases "route = PreviewRepair")
  case True
  then show ?thesis using assms(1,2) by (simp add: repair_payload_def spread_other)
next
  case False
  then have "map_of (map (\<lambda>k. (k, JStr (asString (js_get fs k)))) (''runId'' # repair_ids route)) k = Some v"
    using assms(1,2) by (simp add: repair_payload_def js_field_def map_add_Some_iff split: if_splits)
  from map_of_SomeD [OF this] have "k \<in> set (''runId'' # repair_ids route)" "v = JStr (asString (js_get fs k))"
    by auto
  moreover from this(1) have "asString (js_get fs k) \<noteq> []" using assms(3) unfolding list_all_iff by blast
  ultimately show ?thesis by (cases "js_get fs k" rule: as_string.cases) (simp_all add: asString_def)
qed

lemma extra_none: "extra_fields (JObj fs) allowed = [] \<Longrightarrow> js_get fs k = Some v \<Longrightarrow> k \<in> set allowed"
  by (auto simp: extra_fields_def filter_empty_conv dest!: map_of_SomeD)

text \<open>The identifiers of the call are those of the request; the overlays are sent by the preview only.\<close>

lemma payload_ids:
  assumes "list_all (\<lambda>k. asString (js_get fs k) \<noteq> []) (''runId'' # repair_ids route)" and "k \<in> set (''runId'' # repair_ids route)"
  shows "\<exists>s. s \<noteq> [] \<and> js_field (Some (repair_payload route r (JObj fs))) k = Some (JStr s) \<and> js_get fs k = Some (JStr s)"
proof -
  have "asString (js_get fs k) \<noteq> []" using assms unfolding list_all_iff by blast
  then obtain s where s: "js_get fs k = Some (JStr s)" "s \<noteq> []"
    by (cases "js_get fs k" rule: as_string.cases) (simp_all add: asString_def)
  have "js_field (Some (repair_payload route r (JObj fs))) k = Some (JStr s)"
  proof (cases "route = PreviewRepair")
    case True
    then show ?thesis using assms(2) s(1) by (simp add: repair_payload_def spread_other)
  next
    case False
    have "map_of (map (\<lambda>k. (k, JStr (asString (js_get fs k)))) (''runId'' # repair_ids route)) k = Some (JStr s)"
      using assms(2) s(1) unfolding map_of_map_restrict by (simp add: restrict_map_def asString_def)
    then have "js_get (map (\<lambda>k. (k, JStr (asString (js_get fs k)))) (''runId'' # repair_ids route) @
        [(''requester'', JStr (requester_of r))]) k = Some (JStr s)"
      unfolding map_of_append by (rule map_add_find_right)
    then show ?thesis using False by (simp add: repair_payload_def js_field_def)
  qed
  with s show ?thesis by blast
qed

lemma js_get_removed: "js_get (filter (\<lambda>(k', _). k' \<noteq> a) fs) a = None"
  by (induction fs) auto

lemma payload_overlay:
  "js_field (Some (repair_payload route r (JObj fs))) ''manualOverlay'' =
    (if route = PreviewRepair then overlay_envelope (JObj fs) else None)"
  by (cases route; cases "overlay_envelope (JObj fs)") (simp_all add: repair_payload_def spread_def js_field_def js_get_removed)

text \<open>
  C40: A repair call reaches the orchestrator only from an allowed origin under a live session, for the live run behind
  the run that the request names, in the name of the session's tenant and user.  The call itself carries every
  identifier that the route needs, as the non-empty text that the request gave; beside the requester and, for a preview, the
  overlays of the request in their envelope it carries only fields that the route allows, as the request gave them, and a
  preview carries all of them, with never more than 512 Java files.
\<close>

theorem repair_calls_are_scoped:
  assumes "admit_repair U cfg route enabled now req m runs = (Inr (live, payload), m')"
  shows "isAllowedBrowserOrigin U req (studioCorsOrigins cfg) \<and> enabled \<and>
    (\<exists>sid session stored raw. request_session_id req = Some sid \<and> fst (getSession (sessionOptions cfg) sid now m) = Some session \<and>
      rqBody req = BodyJson raw \<and> getRun (asString (js_field (Some raw) ''runId'')) runs = Some stored \<and>
      liveArtifactRunId stored = Some live \<and>
      js_field (Some payload) ''requester'' = Some (JStr (''studio:'' @ sesTenant session @ '':'' @ sesUser session)) \<and>
      js_field (Some payload) ''manualOverlay'' = (if route = PreviewRepair then overlay_envelope raw else None) \<and>
      (\<forall>k\<in>set (''runId'' # repair_ids route). \<exists>s. s \<noteq> [] \<and> js_field (Some payload) k = Some (JStr s) \<and>
         js_field (Some raw) k = Some (JStr s)) \<and>
      (\<forall>k v. js_field (Some payload) k = Some v \<longrightarrow> k \<in> {''requester'', ''manualOverlay''} \<or>
         k \<in> set (repair_allowed route) \<and> js_field (Some raw) k = Some v) \<and>
      (route = PreviewRepair \<longrightarrow>
         (\<forall>k. k \<notin> {''requester'', ''manualOverlay''} \<longrightarrow> js_field (Some payload) k = js_field (Some raw) k) \<and>
         length (or_default (js_array (js_field (Some raw) ''javaFiles'')) []) \<le> 512))"
proof -
  obtain session m1 r raw where guard: "rejectUnauthenticatedStudioJsonRequest U cfg now req m = (Inr session, m1)"
    and again: "resolveEditorAssistSession cfg now req m1 = (Inr r, m')" and on: "enabled"
    and body: "record_body 400 (rqBody req) = Inr raw"
    and request: "repair_request (jsonQuote U) route r runs raw = Inr (live, payload)"
    using assms by (auto simp: admit_repair_def and_then_Inr split: prod.splits sum.splits if_splits)
  obtain sid where sid: "request_session_id req = Some sid" "getSession (sessionOptions cfg) sid now m = (Some session, m1)"
    using guard_Inr [OF guard] by blast
  have r: "r = session"
    using again sid session_again by (auto simp: resolveEditorAssistSession_def split: option.splits prod.splits)
  obtain fs where raw: "raw = JObj fs" and read: "rqBody req = BodyJson raw"
    using body by (auto simp: record_body_def asRecord_def split: body_read.splits json.splits if_splits)
  obtain stored where stored: "getRun (asString (js_field (Some raw) ''runId'')) runs = Some stored" "liveArtifactRunId stored = Some live"
    and ids: "list_all (\<lambda>k. asString (js_field (Some raw) k) \<noteq> []) (''runId'' # repair_ids route)"
    and extra: "extra_fields raw (repair_allowed route) = []"
    and few: "route = PreviewRepair \<Longrightarrow> length (or_default (js_array (js_field (Some raw) ''javaFiles'')) []) \<le> JAVA_EXECUTION_MAX_FILES"
    and payload: "payload = repair_payload route r raw"
    using request unfolding repair_request_def Let_def
    by (auto simp: list_ex_iff list_all_iff split: option.splits if_splits)
  have field: "js_field (Some raw) = js_get fs" by (simp add: raw js_field_def fun_eq_iff)
  note ids = ids [unfolded field]
  have allowed: "\<forall>k v. js_field (Some payload) k = Some v \<longrightarrow>
      k \<in> {''requester'', ''manualOverlay''} \<or> k \<in> set (repair_allowed route) \<and> js_get fs k = Some v"
    using payload_other [OF _ _ ids] extra_none [OF extra [unfolded raw]] unfolding payload raw by blast
  have named: "\<forall>k\<in>set (''runId'' # repair_ids route). \<exists>s. s \<noteq> [] \<and> js_field (Some payload) k = Some (JStr s) \<and> js_get fs k = Some (JStr s)"
    using payload_ids [OF ids] unfolding payload raw by blast
  have preview: "route = PreviewRepair \<longrightarrow>
      (\<forall>k. k \<notin> {''requester'', ''manualOverlay''} \<longrightarrow> js_field (Some payload) k = js_get fs k) \<and>
      length (or_default (js_array (js_get fs ''javaFiles'')) []) \<le> 512"
    using few [unfolded field JAVA_EXECUTION_MAX_FILES_def] unfolding payload raw by (simp add: repair_payload_def spread_other)
  have who: "js_field (Some payload) ''requester'' = Some (JStr (''studio:'' @ sesTenant session @ '':'' @ sesUser session))"
    unfolding payload raw payload_requester by (simp add: requester_of_def r)
  have overlay: "js_field (Some payload) ''manualOverlay'' = (if route = PreviewRepair then overlay_envelope raw else None)"
    unfolding payload raw by (rule payload_overlay)
  have live: "fst (getSession (sessionOptions cfg) sid now m) = Some session" by (simp add: sid(2))
  note call = sid(1) live read stored [unfolded field] who overlay named allowed preview
  show ?thesis
    by (intro conjI, use guard_Inr [OF guard] in blast, rule on, rule exI [of _ sid], rule exI [of _ session],
        rule exI [of _ stored], rule exI [of _ raw], unfold field, intro conjI) (fact call)+
qed

section \<open>Witnesses\<close>

definition runner_body :: json where
  "runner_body = JObj [(''runId'', JStr ''r1''), (''javaFiles'', JArr [JObj [(''path'', JStr (''src'' @ [CHR 0x5C] @ ''A.java'')),
     (''content'', JStr ''x'')]]), (''entryFilePath'', JStr ''src/A.java'')]"

definition runner_admitted :: "(bff_response + runner_request) \<times> sessions" where
  "runner_admitted =
     admit_runner start_api (stSession start_config_demo) Verify True 100 5 (start_request runner_body) start_sessions"

lemma runner_admitted_paths:
  "(case fst runner_admitted of Inr r \<Rightarrow> map fst (rnFiles r) = [''src/A.java''] \<and> rnEntryPath r = ''src/A.java''
     | Inl _ \<Rightarrow> False)"
  by code_simp


lemma verifications_reach_the_studio_witness:
  "\<exists>j. fetchJson parseVerifyResponse (reply_of (finish_runner (\<lambda>_. []) (\<lambda>_. None) Verify
       \<lparr>rnRunId = ''r1'', rnProgramId = ''P'', rnFiles = [], rnEntryClass = [], rnEntryPath = [], rnExpected = None,
        rnOracle = None, rnManualRegions = 2\<rparr> (Upstream 200 None)))
       \<lparr>cached = None :: (nat \<times> unit) option, nextRequest = 0\<rparr> =
     (ClientOk j, \<lparr>cached = None, nextRequest = 0\<rparr>) \<and> js_field (Some j) ''manualEditsCarriedOver'' = Some (JBool True)"
  using verifications_reach_the_studio [of 200 "\<lambda>_. []" "\<lambda>_. None" "\<lparr>rnRunId = ''r1'', rnProgramId = ''P'', rnFiles = [],
      rnEntryClass = [], rnEntryPath = [], rnExpected = None, rnOracle = None, rnManualRegions = 2\<rparr>" None
      "\<lparr>cached = None :: (nat \<times> unit) option, nextRequest = 0\<rparr>"]
  by auto

definition repair_runs :: run_table where
  "repair_runs = snd (finish_start \<lparr>skFresh = ''1'', skCreated = ''a'', skUpdated = ''b''\<rparr> TransformRoute
     (Upstream 201 (Some (JObj [(''runId'', JStr ''o1'')])))
     \<lparr>psInput = start_input id TransformRoute start_body None, psCase = None\<rparr> [])"

definition repair_admitted :: "(bff_response + (string \<times> json)) \<times> sessions" where
  "repair_admitted = admit_repair start_api (stSession start_config_demo) AcceptRepair True 5
     (start_request (JObj [(''runId'', JStr ''run-1''), (''proposalId'', JStr ''p1''), (''patchSha256'', JStr ''ab'')]))
     start_sessions repair_runs"

lemma repair_admitted_call:
  "(case fst repair_admitted of Inr (live, _) \<Rightarrow> live = ''o1'' | Inl _ \<Rightarrow> False)"
  by code_simp

theorem repair_calls_are_scoped_witness:
  "\<exists>payload who sha. fst repair_admitted = Inr (''o1'', payload) \<and>
     js_field (Some payload) ''requester'' = Some (JStr (''studio:'' @ who)) \<and>
     sha \<noteq> [] \<and> js_field (Some payload) ''patchSha256'' = Some (JStr sha)"
proof -
  obtain payload where p: "fst repair_admitted = Inr (''o1'', payload)"
    using repair_admitted_call by (cases "fst repair_admitted") auto
  then have "repair_admitted = (Inr (''o1'', payload), snd repair_admitted)" by (metis prod.collapse)
  from repair_calls_are_scoped [OF this [unfolded repair_admitted_def], THEN conjunct2, THEN conjunct2]
  obtain session raw where who: "js_field (Some payload) ''requester'' =
      Some (JStr (''studio:'' @ sesTenant session @ '':'' @ sesUser (session :: session_record)))"
    and named: "\<forall>k\<in>set (''runId'' # repair_ids AcceptRepair). \<exists>s. s \<noteq> [] \<and>
      js_field (Some payload) k = Some (JStr s) \<and> js_field (Some raw) k = Some (JStr s)"
    by (elim exE conjE) (rule that; assumption)
  from named obtain s where "s \<noteq> []" "js_field (Some payload) ''patchSha256'' = Some (JStr s)" by auto
  with p who show ?thesis by blast
qed

end
