(* ===== verification/Spec2Isabelle.thy ===== *)
theory Spec2Isabelle
  imports Merge_Properties Manual_Overlay Diff_History Java_Buffer_Facts Draft_Facts Run_Properties Repair_Properties
    Session_Properties Sanitizer_Facts Wire_Properties Explain_Properties
    Runner_Properties
begin

text \<open>
  The Studio (\<open>src/apps/c2c-studio\<close>) and its BFF (\<open>src/services/c2c-bff\<close>), the TypeScript part of a
  product that turns COBOL programs into Java.  The browser holds the editors, the run and the drafts;
  the BFF holds sessions and runs and asks the orchestrator, a Python service.  This development models
  both ends and the JSON that passes between them.

  \<^bold>\<open>The parts and their theories.\<close>

  \<^item> Shared ground: \<open>C2c_Prelude\<close> (JavaScript maps and objects in insertion order, options),
    \<open>Text_Lines\<close> and \<open>Js_Text\<close> (string methods, parsed JSON), \<open>Json_Access\<close> (readers of JSON of unknown
    shape), \<open>Byte_Encoding\<close> (UTF-8 and length prefixes), \<open>Uri_Component\<close> (URI escapes),
    \<open>Js_Regex\<close> (regular expressions with backtracking), \<open>Capped_Map\<close> (eviction, first in first out).
  \<^item> Merging (\<open>lib/editor/conflictDetection.ts\<close>): \<open>Edit_Graph\<close>, \<open>Line_Diff\<close>, \<open>Myers_Correct\<close> hold
    \<open>myersDiff\<close> with its stored arrays, the edit graph it searches, and the proof that its script is
    minimal; \<open>Alignment\<close>, \<open>Conflict_Detection\<close>, \<open>Conflict_Facts\<close>, \<open>Merge_Apply\<close> and
    \<open>Merge_Properties\<close> the three-way detection of conflicts and the application of the user's picks.
    \<open>Manual_Overlay\<close> (\<open>manualEditOverlay.ts\<close>) and \<open>Diff_History\<close> (\<open>diffHistory.ts\<close>) use the same diff.
  \<^item> The run in the browser (\<open>stores/transformationRun.tsx\<close>, \<open>hooks/useRunPolling.ts\<close>,
    \<open>types/state.ts\<close>): \<open>Java_Types\<close>, \<open>Java_Buffers\<close>, \<open>Java_Buffer_Facts\<close> the buffer of each generated
    file; \<open>Run_State\<close>, \<open>Product_State\<close> the state and \<open>deriveProductState\<close>, one definition per group of
    returns; \<open>Run_Lifecycle\<close>, \<open>Run_Facts\<close>, \<open>Run_Properties\<close> starting, polling and hydrating;
    \<open>Repair_Session\<close>, \<open>Repair_Properties\<close> the repair of code that does not compile.  A request that is
    under way is a job; a step lets the user act or a job land, in any order.
  \<^item> Drafts (\<open>editorPersistence.ts\<close>): \<open>Draft_Types\<close>, \<open>Draft_Store\<close>, \<open>Draft_Facts\<close>.
  \<^item> Sessions (\<open>rateLimit.ts\<close>, \<open>sessionStore.ts\<close>, \<open>sessionCookie.ts\<close>, the session routes of \<open>server.ts\<close>,
    \<open>sessionBootstrap.ts\<close>): \<open>Rate_Limit\<close>, \<open>Session_Store\<close>, \<open>Session_Facts\<close>, \<open>Session_Cookie\<close>,
    \<open>Session_Routes\<close>, \<open>Session_Bootstrap\<close>, \<open>Session_Properties\<close>, and this theory, which follows the
    secret from the sign-in to the drafts.
  \<^item> Runs in the BFF: \<open>Upstream_Errors\<close> and \<open>Sanitizer_Facts\<close> (\<open>error-codes.ts\<close>), \<open>Bff_Diagnostics\<close>
    (\<open>diagnostics.ts\<close>), \<open>Bff_Run_Store\<close> (\<open>run-store.ts\<close>), \<open>Bff_Run_Views\<close>, \<open>Bff_Outcomes\<close>,
    \<open>Bff_Workflow\<close> (\<open>runViews.ts\<close>), \<open>Bff_Live_Views\<close>, \<open>Bff_Run_Routes\<close>, \<open>Bff_Get_Routes\<close>,
    \<open>Bff_File_Routes\<close> (the live views and the GET routes of a run in \<open>server.ts\<close>),
    \<open>Run_Store_Facts\<close> (the store under polls).
  \<^item> The Studio's client (\<open>lib/apiClient.ts\<close>, \<open>lib/apiBaseUrl.ts\<close>): \<open>Studio_Guards\<close> and \<open>Studio_Client\<close>;
    \<open>Wire_Contract\<close>, \<open>Wire_Facts\<close>, \<open>Wire_Properties\<close> put the routes and the client together.
  \<^item> The editor-assist channel: \<open>Studio_Redaction\<close> and \<open>Redaction_Facts\<close> (\<open>preRedaction.ts\<close>),
    \<open>Bff_Explain\<close> and \<open>Bff_Explain_Route\<close> (\<open>editorExplain.ts\<close> and its two routes in \<open>server.ts\<close>),
    \<open>Explain_Facts\<close> (budgets and ledger in every interleaving), \<open>Studio_Explain\<close> (the request of a pane,
    \<open>editorAssistClient.ts\<close>, \<open>stores/editorAssist.tsx\<close>), \<open>Assist_Facts\<close> and \<open>Explain_Properties\<close>.  A request is
    served in two steps, before and after the model gateway.

  \<^item> Starting and changing work: \<open>Trust_Cases\<close> and \<open>Trust_Case_Facts\<close> (\<open>trust-cases.ts\<close>), \<open>Bff_Model_Gateway\<close>
    (the gateway views of \<open>server.ts\<close>), \<open>Bff_Start_Routes\<close> (\<open>/transform\<close>, \<open>/generate\<close> and \<open>/runs\<close> with the bodies that
    \<open>upstream.ts\<close> sends), \<open>Bff_Runner_Routes\<close> (\<open>/compile-check\<close>, \<open>/verify\<close> and the five repair routes),
    \<open>Start_Facts\<close>, \<open>Start_Properties\<close> and \<open>Runner_Properties\<close>.  Routes that repeat each other in the code
    share a definition with the route as its argument.

  \<^bold>\<open>What the lemmas show.\<close>  The diff is minimal and its script reads back; conflicts cover every changed
  line; a merge fails only for an open conflict, and where both sides only rewrite lines and nothing conflicts
  it is the three-way merge of the lines, but for a blank last line.  Buffers that read as clean are their
  baseline; the baseline of a new run overwrites no edit, the landings that do are listed and lemmas exhibit
  their races.  The views of the product state belong
  to the run that is shown; a run is polled by one loop, which gives up after six failures.  Drafts load
  back in their session and nowhere else.  The limiter refines a log of hits, the stores of the BFF are
  bounded, and a session serves its secret until it ends.  No upstream message leaks a secret of the
  listed forms.  A workflow view of the BFF is accepted by the Studio exactly if its trust
  summary is absent or complete and its failure code is no inherited name; the incomplete views are not.
  Polls keep every run's identity, and no file beyond the cap is served.  Redaction always ends and hides
  the start of every match; only vetted explain requests of the editor reach the model gateway, within the budgets,
  and each is accounted for in the ledger; the panel shows the answer to its latest call.  A loaded trust case catalog has one
  default per program and only safe cases; a start, a runner call or a repair call is made under a live session
  with a checked body only (\<open>/transform\<close> takes trust cases of the catalog only, \<open>/runs\<close> does not look them up), and a start
  accepted through \<open>/transform\<close> or \<open>/generate\<close> is one more run that the Studio can show.

  \<^bold>\<open>Parameters.\<close>  Code outside the repository is an argument: Web Crypto (the record \<open>crypto\<close>, with its laws as the
  hypothesis \<open>crypto_ok\<close>, instantiated by a concrete one in the witnesses), the parsers of \<open>web_api\<close>, the URL parser, the quoting of
  \<open>JSON.stringify\<close>, the output of numbers, random bytes, hashes, the text of the catalog file, and every answer of
  the orchestrator, the model gateway and the test runner.  Time is a number or a string that is passed in.

  \<^bold>\<open>Abstractions.\<close>  A string is a list of code units below 256.  A number is a rational or infinite.  A
  response body is the JSON value, not its text; \<open>__proto__\<close> as a key is dropped, and keys that look like
  integers keep their place.  State updates and effects of React take place at once.  Telemetry and log
  lines are left out.  A parsed URL has no fragment or search part beyond the fields that are read.

  \<^bold>\<open>Bounds.\<close>  The repetition of \<open>Js_Regex\<close> runs on fuel, the minimum plus the length of the text: an
  iteration uses up the one or the other, and \<open>rx_rep_fuel\<close> shows that more fuel changes nothing.  The loop
  over the matches of a redaction pattern is a partial function, and \<open>redaction_returns\<close> shows that it returns.  The
  passes of \<open>myersDiff\<close> recurse up to the sum of both lengths, by which the search has reached the end
  (\<open>Myers_Correct\<close>).  Everything else terminates by structure or by a stated measure.

  \<^bold>\<open>Not modelled.\<close>  The routes of the BFF for divergence decisions, output changes (with their own call of the model gateway), parity exports, static files
  and samples, its HTTP transport and configuration; the React components and the language support of the
  editor, which is presentation around the operations modelled here; the cross-tab events and the
  upgrade of the draft database; the Python, Go and Java services, which are other programs.
\<close>

section \<open>Sessions and drafts\<close>

text \<open>What the draft store gets from \<open>ensureSessionBootstrap\<close> when the BFF answers a bootstrap request.\<close>

definition studio_boot ::
  "web_api \<Rightarrow> session_config \<Rightarrow> int \<Rightarrow> bff_request \<Rightarrow> bff_sessions \<Rightarrow> bootstrap_error + session_bootstrap" where
  "studio_boot U cfg t req st = map_sum id fst (client_bootstrap (fst (handleBootstrap U cfg t req st)))"

definition after_ops :: "session_config \<Rightarrow> (session_op \<times> int) list \<Rightarrow> bff_sessions \<Rightarrow> bff_sessions" where
  "after_ops cfg ops st = st\<lparr>sessionStore := session_run_ops (sessionOptions cfg) ops (sessionStore st)\<rparr>"

lemma studio_boot_after_sign_in:
  assumes "signed_in U cfg rnd t0 req st resp st1" and "lives_on cfg (bytesToHex (rndSession rnd)) t0 ops"
    and "later_request U cfg resp req'"
    and "in_time (sessionOptions cfg) (last_access (bytesToHex (rndSession rnd)) t0 ops) t"
  shows "\<exists>tenant user. rsBody resp = Some (JObj [(''tenantId'', JStr tenant), (''userId'', JStr user)]) \<and>
    studio_boot U cfg t req' (after_ops cfg ops st1) =
      Inr \<lparr>bootTenantId = tenant, bootUserId = user, wrappingSecret = rndSecret rnd\<rparr>"
  using bootstrap_after_sign_in [OF assms] by (auto simp: studio_boot_def after_ops_def)

text \<open>
  C21: drafts survive a reload.  Whatever the Studio saved under the bootstrap answer of one moment
  of a session, it loads again after a reload under the bootstrap answer of any other moment of the
  same session: the two answers carry the same tenant, user and secret, so the same key opens the
  record.
\<close>

theorem drafts_survive_a_reload:
  assumes "signed_in U cfg rnd t0 req st resp st1"
    and "lives_on cfg (bytesToHex (rndSession rnd)) t0 ops" and "lives_on cfg (bytesToHex (rndSession rnd)) t0 ops'"
    and "later_request U cfg resp req'" and "later_request U cfg resp req''"
    and "in_time (sessionOptions cfg) (last_access (bytesToHex (rndSession rnd)) t0 ops) t"
    and "in_time (sessionOptions cfg) (last_access (bytesToHex (rndSession rnd)) t0 ops') t'"
    and "envBootstrap env = studio_boot U cfg t req' (after_ops cfg ops st1)"
    and "envBootstrap env' = studio_boot U cfg t' req'' (after_ops cfg ops' st1)"
    and "crypto_ok C" "payloadSchema p = ''v0''" and "saveDraft C env scope key p db = (Inr res, db')"
    and "envDbOpens env'" "envBrowser env'" "envPut env' = PutOk"
  shows "\<exists>d db''. loadDraft C env' scope key db' = (Inr (Some d), db'') \<and> loadedPayload d = stamp_key key p"
proof -
  have "envBootstrap env' = envBootstrap env"
    using studio_boot_after_sign_in [OF assms(1,2,4,6)] studio_boot_after_sign_in [OF assms(1,3,5,7)] assms(8,9)
    by auto
  then show ?thesis using load_after_save [OF assms(10-12) _ assms(13-15)] by blast
qed

lemma no_session_no_drafts:
  assumes "envBootstrap env = Inl Unauthenticated"
  shows "payloadKind p = key_kind key \<Longrightarrow> saveDraft C env scope key p db = (Inl SessionExpiredDuringEdit, db)"
    and "loadDraft C env scope key db = (Inl SessionExpiredDuringEdit, db)"
    and "listDrafts C env scope db = (Inl SessionExpiredDuringEdit, db)"
  using assms
  by (simp_all add: saveDraft_def loadDraft_def listDrafts_def with_session_def bootstrapFor_def)

text \<open>
  C22: after a logout the drafts of the session stay closed.  Whatever happened to the session
  before, once the browser has logged out, no later sequence of operations that does not draw the
  same session id again makes a bootstrap request with the old cookie succeed; with that answer the
  draft store refuses to save, load or list, reports the session as expired, and keeps its records
  as they are.
\<close>

theorem logout_closes_the_drafts:
  assumes "signed_in U cfg rnd t0 req st resp st1"
    and "later_request U cfg resp req'" and "later_request U cfg resp req''"
    and "handleLogout U cfg req' (after_ops cfg ops st1) = (resp2, st2)"
    and "list_all (\<lambda>(a, _). is_create a \<longrightarrow> spares (bytesToHex (rndSession rnd)) a) later"
    and "envBootstrap env = studio_boot U cfg t req'' (after_ops cfg later st2)"
    and "payloadKind p = key_kind key"
  shows "rsStatus resp2 = 204 \<and>
    saveDraft C env scope key p db = (Inl SessionExpiredDuringEdit, db) \<and>
    loadDraft C env scope key db = (Inl SessionExpiredDuringEdit, db) \<and>
    listDrafts C env scope db = (Inl SessionExpiredDuringEdit, db)"
proof -
  let ?sid = "bytesToHex (rndSession rnd)" and ?opts = "sessionOptions cfg"
  have ids: "request_session_id req' = Some ?sid" "request_session_id req'' = Some ?sid"
    using later_request_id [OF assms(1)] assms(2,3) by simp_all
  have allowed: "isAllowedBrowserOrigin U req' (studioCorsOrigins cfg)" "isAllowedBrowserOrigin U req'' (studioCorsOrigins cfg)"
    using assms(2,3) by (simp_all add: later_request_def)
  let ?m = "session_run_ops ?opts ops (sessionStore st1)"
  have m: "?sid \<noteq> []" "js_map_ok ?m" using signed_in_map [OF assms(1)] run_map_ok by auto
  have st2: "rsStatus resp2 = 204" "sessionStore st2 = js_delete ?sid ?m"
    using assms(4) allowed(1) ids(1) m(1) by (auto simp: handleLogout_def after_ops_def deleteSession_def)
  have "js_get (session_run_ops ?opts later (sessionStore st2)) ?sid = None"
    by (rule absent_run) (use m(2) assms(5) in \<open>auto simp: st2(2)\<close>)
  then have "studio_boot U cfg t req'' (after_ops cfg later st2) = Inl Unauthenticated"
    using bootstrap_absent [OF allowed(2) ids(2)] absent_get
    by (simp add: studio_boot_def after_ops_def)
  then show ?thesis
    using st2(1) assms(6,7) no_session_no_drafts by metis
qed

section \<open>A recorded reload and logout\<close>

definition demo_boot :: session_bootstrap where
  "demo_boot = \<lparr>bootTenantId = ''tenant-01'', bootUserId = ''user-02'', wrappingSecret = replicate 32 7\<rparr>"

lemma demo_body: "rsBody (fst demo_sign_in) = Some (JObj [(''tenantId'', JStr ''tenant-01''), (''userId'', JStr ''user-02'')])"
  by code_simp
lemma demo_lives:
  "lives_on demo_config (bytesToHex (rndSession demo_random)) 0 demo_use"
  "lives_on demo_config (bytesToHex (rndSession demo_random)) 0 []"
  "in_time (sessionOptions demo_config) (last_access (bytesToHex (rndSession demo_random)) 0 demo_use) 17"
  "in_time (sessionOptions demo_config) (last_access (bytesToHex (rndSession demo_random)) 0 []) 3"
  using demo_use_ok by (simp_all add: lives_on_def demo_secret in_time_def demo_config_def)

lemma demo_boot_eq:
  "studio_boot demo_web demo_config 3 demo_reload (after_ops demo_config [] (snd demo_sign_in)) = Inr demo_boot"
  using studio_boot_after_sign_in [OF demo_signed_in demo_lives(2) demo_later demo_lives(4)] demo_body
  by (auto simp: demo_boot_def demo_secret)

text \<open>A save after the first bootstrap of the session, and a load after a reload of the page.\<close>

definition demo_key :: draft_key where "demo_key = JavaDraftKey ''P'' ''F'' ''F''"

definition demo_env :: "(session_op \<times> int) list \<Rightarrow> int \<Rightarrow> bff_sessions \<Rightarrow> draft_env" where
  "demo_env ops t st = (env_of demo_boot 0)
     \<lparr>envBootstrap := studio_boot demo_web demo_config t demo_reload (after_ops demo_config ops st)\<rparr>"

lemma demo_env_eq: "demo_env [] 3 (snd demo_sign_in) = env_of demo_boot 0"
  by (simp add: demo_env_def demo_boot_eq env_of_def)

lemma drafts_survive_a_reload_witness:
  "\<exists>res db' d db''. saveDraft plain_crypto (demo_env [] 3 (snd demo_sign_in)) (scope_of demo_boot) demo_key
       (java_payload ''text'') [] = (Inr res, db') \<and>
     loadDraft plain_crypto (demo_env demo_use 17 (snd demo_sign_in)) (scope_of demo_boot) demo_key db' = (Inr (Some d), db'') \<and>
     payloadContent (loadedPayload d) = ''text''"
proof -
  obtain res db' where s: "saveDraft plain_crypto (demo_env [] 3 (snd demo_sign_in)) (scope_of demo_boot) demo_key
       (java_payload ''text'') [] = (Inr res, db')"
    using save_env_of unfolding demo_env_eq demo_key_def by blast
  have "\<exists>d db''. loadDraft plain_crypto (demo_env demo_use 17 (snd demo_sign_in)) (scope_of demo_boot) demo_key db' =
      (Inr (Some d), db'') \<and> loadedPayload d = stamp_key demo_key (java_payload ''text'')"
    by (rule drafts_survive_a_reload [OF demo_signed_in demo_lives(2,1) demo_later demo_later demo_lives(4,3) _ _
          plain_crypto_ok _ s]) (simp_all add: demo_env_def env_of_def java_payload_def)
  then show ?thesis using s by (auto simp: stamp_key_def java_payload_def)
qed

lemma logout_closes_the_drafts_witness:
  "let st2 = snd (handleLogout demo_web demo_config demo_reload (after_ops demo_config demo_use (snd demo_sign_in)));
       env = demo_env [(OpGet ''0a0b'', 8)] 9 st2
   in saveDraft plain_crypto env (scope_of demo_boot) demo_key (java_payload ''text'') [] = (Inl SessionExpiredDuringEdit, []) \<and>
      loadDraft plain_crypto env (scope_of demo_boot) demo_key [] = (Inl SessionExpiredDuringEdit, [])"
proof -
  let ?r = "handleLogout demo_web demo_config demo_reload (after_ops demo_config demo_use (snd demo_sign_in))"
  have run: "handleLogout demo_web demo_config demo_reload (after_ops demo_config demo_use (snd demo_sign_in)) = (fst ?r, snd ?r)"
    by simp
  have env: "envBootstrap (demo_env [(OpGet ''0a0b'', 8)] 9 (snd ?r)) =
      studio_boot demo_web demo_config 9 demo_reload (after_ops demo_config [(OpGet ''0a0b'', 8)] (snd ?r))"
    by (simp add: demo_env_def)
  have kind: "payloadKind (java_payload ''text'') = key_kind demo_key" by (simp add: java_payload_def demo_key_def)
  show ?thesis
    using logout_closes_the_drafts [OF demo_signed_in demo_later demo_later run _ env kind,
      where C = plain_crypto and scope = "scope_of demo_boot" and db = "[]"]
    by (simp add: Let_def)
qed
end
